(* ===== verification/Go_Base.thy ===== *)
theory Go_Base
  imports Main "HOL-Library.AList" "HOL-Library.Char_ord" "HOL-Library.List_Lexorder"
    "HOL-Library.Sublist"
begin

text \<open>
  The prelude: what the Go program uses of its language and standard library, and the generic
  lemmas the components share. A Go string is its bytes (\<^typ>\<open>string\<close>); a pointer that may be nil
  is an option; a Go map is an association list with distinct keys, whose order is the (arbitrary)
  iteration order of one \<^verbatim>\<open>range\<close> loop, so that a theorem about every list is a theorem about
  every iteration order; a time is a number of nanoseconds since Go's zero time, so \<^verbatim>\<open>IsZero\<close> is
  equality with 0, \<^verbatim>\<open>Before\<close> is the order and \<^verbatim>\<open>Add\<close> is addition; an error return is the left
  summand of a sum.
\<close>

named_theorems map_simps \<open>lookups after the operations on Go maps\<close>
named_theorems map_intros \<open>the operations on Go maps keep the keys distinct\<close>

type_synonym time = int
type_synonym duration = int
type_synonym ('k, 'v) gomap = "('k \<times> 'v) list"

section \<open>Errors\<close>

text \<open>Running a fallible call and returning its error at once: \<^verbatim>\<open>if err != nil { return err }\<close>.\<close>

definition and_then :: "'e + 'a \<Rightarrow> ('a \<Rightarrow> 'e + 'b) \<Rightarrow> 'e + 'b" where
  "and_then m f = (case m of Inl e \<Rightarrow> Inl e | Inr x \<Rightarrow> f x)"

lemma and_then_simps [simp]: "and_then (Inl e) f = Inl e" "and_then (Inr x) f = f x"
  by (simp_all add: and_then_def)

lemma and_then_eq_Inr: "and_then m f = Inr y \<longleftrightarrow> (\<exists>x. m = Inr x \<and> f x = Inr y)"
  by (cases m) simp_all

lemma and_then_eq_Inl: "and_then m f = Inl e \<longleftrightarrow> m = Inl e \<or> (\<exists>x. m = Inr x \<and> f x = Inl e)"
  by (cases m) simp_all

lemma and_then_assoc: "and_then (and_then m f) g = and_then m (\<lambda>x. and_then (f x) g)"
  by (cases m) simp_all

section \<open>Go maps\<close>

text \<open>
  \<open>mput\<close> is \<^verbatim>\<open>m[k] = v\<close> and \<open>mdel\<close> is \<^verbatim>\<open>delete(m, k)\<close>; a lookup is \<^const>\<open>map_of\<close>.
  \<open>mmap f\<close> is the loop that overwrites each entry in place and \<open>mfilter\<close> the loop that deletes
  the entries which fail its test.
\<close>

definition mput :: "'k \<Rightarrow> 'v \<Rightarrow> ('k, 'v) gomap \<Rightarrow> ('k, 'v) gomap" where
  "mput k v m = AList.update k v m"

definition mdel :: "'k \<Rightarrow> ('k, 'v) gomap \<Rightarrow> ('k, 'v) gomap" where
  "mdel k m = AList.delete k m"

definition mmap :: "('k \<Rightarrow> 'v \<Rightarrow> 'w) \<Rightarrow> ('k, 'v) gomap \<Rightarrow> ('k, 'w) gomap" where
  "mmap f m = map (\<lambda>(k, v). (k, f k v)) m"

definition mfilter :: "('k \<Rightarrow> 'v \<Rightarrow> bool) \<Rightarrow> ('k, 'v) gomap \<Rightarrow> ('k, 'v) gomap" where
  "mfilter P m = filter (\<lambda>(k, v). P k v) m"

definition mkeys :: "('k, 'v) gomap \<Rightarrow> 'k list" where
  "mkeys m = map fst m"

definition mvals :: "('k, 'v) gomap \<Rightarrow> 'v list" where
  "mvals m = map snd m"

definition mget_or :: "'v \<Rightarrow> ('k, 'v) gomap \<Rightarrow> 'k \<Rightarrow> 'v" where
  "mget_or d m k = (case map_of m k of None \<Rightarrow> d | Some v \<Rightarrow> v)"

text \<open>The representation invariant of a Go map.\<close>

definition map_ok :: "('k, 'v) gomap \<Rightarrow> bool" where
  "map_ok m \<longleftrightarrow> distinct (mkeys m)"

lemma map_of_mput [map_simps, simp]: "map_of (mput k v m) = (map_of m)(k \<mapsto> v)"
  by (simp add: mput_def update_conv')

lemma map_of_mdel [map_simps, simp]: "map_of (mdel k m) = (map_of m)(k := None)"
  by (simp add: mdel_def delete_conv')

lemma map_of_mmap [map_simps, simp]: "map_of (mmap f m) k = map_option (f k) (map_of m k)"
  by (induction m) (auto simp: mmap_def)

lemma map_ok_Nil [map_intros, simp]: "map_ok []"
  by (simp add: map_ok_def mkeys_def)

lemma map_ok_mput [map_intros]: "map_ok m \<Longrightarrow> map_ok (mput k v m)"
  by (simp add: map_ok_def mkeys_def mput_def distinct_update)

lemma map_ok_mdel [map_intros]: "map_ok m \<Longrightarrow> map_ok (mdel k m)"
  by (simp add: map_ok_def mkeys_def mdel_def distinct_delete)

lemma mkeys_mmap [simp]: "mkeys (mmap f m) = mkeys m"
  by (induction m) (auto simp: mmap_def mkeys_def)

lemma map_ok_mmap [map_intros, simp]: "map_ok (mmap f m) \<longleftrightarrow> map_ok m"
  by (simp add: map_ok_def)

lemma set_mkeys_mfilter: "set (mkeys (mfilter P m)) \<subseteq> set (mkeys m)"
  by (auto simp: mfilter_def mkeys_def)

lemma map_ok_mfilter [map_intros]: "map_ok m \<Longrightarrow> map_ok (mfilter P m)"
proof (induction m)
  case Nil
  then show ?case by (simp add: mfilter_def)
next
  case (Cons a m)
  then show ?case using set_mkeys_mfilter [of P m]
    by (cases a) (auto simp: map_ok_def mfilter_def mkeys_def)
qed

lemma set_mkeys: "set (mkeys m) = dom (map_of m)"
  by (simp add: mkeys_def dom_map_of_conv_image_fst)

lemma map_of_eq_Some_iff_mem: "map_ok m \<Longrightarrow> map_of m k = Some v \<longleftrightarrow> (k, v) \<in> set m"
  by (simp add: map_ok_def mkeys_def)

lemma map_of_mfilter [map_simps]:
  assumes "map_ok m"
  shows "map_of (mfilter P m) k
    = (case map_of m k of Some v \<Rightarrow> if P k v then Some v else None | None \<Rightarrow> None)"
proof (cases "map_of m k")
  case None
  then have "k \<notin> set (mkeys (mfilter P m))"
    using set_mkeys_mfilter [of P m] set_mkeys [of m] by (auto simp: domIff)
  with None show ?thesis by (simp add: set_mkeys domIff)
next
  case (Some v)
  with assms have mem: "(k, v) \<in> set m" by (simp add: map_of_eq_Some_iff_mem)
  show ?thesis
  proof (cases "P k v")
    case True
    with mem have "(k, v) \<in> set (mfilter P m)" by (simp add: mfilter_def)
    with assms Some True show ?thesis
      by (simp add: map_ok_mfilter flip: map_of_eq_Some_iff_mem)
  next
    case False
    have "(k, w) \<notin> set (mfilter P m)" for w
    proof
      assume "(k, w) \<in> set (mfilter P m)"
      then have "(k, w) \<in> set m" and "P k w" by (auto simp: mfilter_def)
      moreover from this assms Some have "w = v" by (simp flip: map_of_eq_Some_iff_mem)
      ultimately show False using False by simp
    qed
    then have "map_of (mfilter P m) k = None"
      using assms map_ok_mfilter [of m P] by (metis map_of_eq_Some_iff_mem option.exhaust)
    with Some False show ?thesis by simp
  qed
qed

lemma mvals_mem: "map_ok m \<Longrightarrow> v \<in> set (mvals m) \<longleftrightarrow> (\<exists>k. map_of m k = Some v)"
  by (force simp: mvals_def map_of_eq_Some_iff_mem)

lemma length_mfilter_le: "length (mfilter P m) \<le> length m"
  by (simp add: mfilter_def)

section \<open>Sorting\<close>

text \<open>
  \<^verbatim>\<open>sort.Slice\<close> and \<^verbatim>\<open>sort.SliceStable\<close> with the given strict comparison. Where the comparison
  decides every two elements the result is the only sorted arrangement, so the algorithm does not
  matter; where it does not, this is the stable one.
\<close>

fun insert_by :: "('a \<Rightarrow> 'a \<Rightarrow> bool) \<Rightarrow> 'a \<Rightarrow> 'a list \<Rightarrow> 'a list" where
  "insert_by lt x [] = [x]"
| "insert_by lt x (y # ys) = (if lt y x then y # insert_by lt x ys else x # y # ys)"

definition sort_slice :: "('a \<Rightarrow> 'a \<Rightarrow> bool) \<Rightarrow> 'a list \<Rightarrow> 'a list" where
  "sort_slice lt xs = foldr (insert_by lt) xs []"

definition strict_weak :: "('a \<Rightarrow> 'a \<Rightarrow> bool) \<Rightarrow> bool" where
  "strict_weak lt \<longleftrightarrow> (\<forall>x y. lt x y \<longrightarrow> \<not> lt y x)
     \<and> (\<forall>x y z. \<not> lt y x \<longrightarrow> \<not> lt z y \<longrightarrow> \<not> lt z x)"

lemma sort_slice_simps [simp]:
  "sort_slice lt [] = []"
  "sort_slice lt (x # xs) = insert_by lt x (sort_slice lt xs)"
  by (simp_all add: sort_slice_def)

lemma set_insert_by [simp]: "set (insert_by lt x xs) = insert x (set xs)"
  by (induction xs) auto

lemma length_insert_by [simp]: "length (insert_by lt x xs) = Suc (length xs)"
  by (induction xs) auto

lemma distinct_insert_by: "distinct (insert_by lt x xs) \<longleftrightarrow> x \<notin> set xs \<and> distinct xs"
  by (induction xs) auto

lemma set_sort_slice [simp]: "set (sort_slice lt xs) = set xs"
  by (induction xs) auto

lemma length_sort_slice [simp]: "length (sort_slice lt xs) = length xs"
  by (induction xs) auto

lemma distinct_sort_slice [simp]: "distinct (sort_slice lt xs) \<longleftrightarrow> distinct xs"
  by (induction xs) (auto simp: distinct_insert_by)

lemma strict_weakD:
  assumes "strict_weak lt"
  shows "lt x y \<Longrightarrow> \<not> lt y x" and "\<not> lt y x \<Longrightarrow> \<not> lt z y \<Longrightarrow> \<not> lt z x"
  using assms unfolding strict_weak_def by blast+

lemma sorted_insert_by:
  assumes sw: "strict_weak lt" and "sorted_wrt (\<lambda>x y. \<not> lt y x) xs"
  shows "sorted_wrt (\<lambda>x y. \<not> lt y x) (insert_by lt x xs)"
  using assms(2)
proof (induction xs)
  case Nil
  then show ?case by simp
next
  case (Cons y ys)
  then have ys: "\<not> lt z y" if "z \<in> set ys" for z using that by simp
  show ?case
  proof (cases "lt y x")
    case True
    then have "\<not> lt x y" by (rule strict_weakD(1) [OF sw])
    with Cons ys True show ?thesis by simp
  next
    case False
    have "\<not> lt z x" if "z \<in> set ys" for z
      using False ys [OF that] by (rule strict_weakD(2) [OF sw])
    with False Cons.prems show ?thesis by simp
  qed
qed

lemma sorted_sort_slice:
  "strict_weak lt \<Longrightarrow> sorted_wrt (\<lambda>x y. \<not> lt y x) (sort_slice lt xs)"
  by (induction xs) (auto intro: sorted_insert_by)

lemma strict_weak_key: "strict_weak (\<lambda>x y. f x < (f y :: 'b::linorder))"
  by (auto simp: strict_weak_def)

text \<open>A comparison that decides by \<open>f\<close> first and by \<open>lt\<close> where \<open>f\<close> is equal.\<close>

lemma strict_weak_lex:
  assumes sw: "strict_weak lt"
  shows "strict_weak (\<lambda>x y. f x < (f y :: 'b::linorder) \<or> f x = f y \<and> lt x y)"
proof -
  have "\<not> (f z < f x \<or> f z = f x \<and> lt z x)"
    if "\<not> (f y < f x \<or> f y = f x \<and> lt y x)" "\<not> (f z < f y \<or> f z = f y \<and> lt z y)" for x y z
    using that strict_weakD(2) [OF sw, of y x z] by auto
  moreover have "\<not> (f y < f x \<or> f y = f x \<and> lt y x)" if "f x < f y \<or> f x = f y \<and> lt x y" for x y
    using that strict_weakD(1) [OF sw, of x y] by auto
  ultimately show ?thesis unfolding strict_weak_def by blast
qed

lemma sort_slice_sorted_id: "sorted_wrt (\<lambda>x y. \<not> lt y x) xs \<Longrightarrow> sort_slice lt xs = xs"
proof (induction xs)
  case Nil
  then show ?case by simp
next
  case (Cons x xs)
  then show ?case by (cases xs) auto
qed

definition sort_strings :: "string list \<Rightarrow> string list" where
  "sort_strings xs = sort_slice (<) xs"

lemma set_sort_strings [simp]: "set (sort_strings xs) = set xs"
  by (simp add: sort_strings_def)

lemma length_sort_strings [simp]: "length (sort_strings xs) = length xs"
  by (simp add: sort_strings_def)

lemma distinct_sort_strings [simp]: "distinct (sort_strings xs) \<longleftrightarrow> distinct xs"
  by (simp add: sort_strings_def)

lemma sorted_sort_strings: "sorted (sort_strings xs)"
  using sorted_sort_slice [OF strict_weak_key [of "\<lambda>x. x"], of xs]
  by (simp add: sort_strings_def linorder_not_less)

lemma sort_strings_id: "sorted xs \<Longrightarrow> sort_strings xs = xs"
  by (simp add: sort_strings_def sort_slice_sorted_id linorder_not_less)

section \<open>What one call reads from outside\<close>

text \<open>
  A call reads the clock once and draws identifiers and encryption nonces from the system's random
  source. \<open>draw_id e p n\<close> is the \<open>n\<close>-th identifier the call draws under the prefix \<open>p\<close> and
  \<open>draw_nonce e site n\<close> the \<open>n\<close>-th nonce it draws for \<open>site\<close>. Theorems hold for every such
  environment; that identifiers are fresh is a hypothesis where it is needed.
\<close>

record call_env =
  clock :: time
  draw_id :: "string \<Rightarrow> nat \<Rightarrow> string"
  draw_nonce :: "string \<Rightarrow> nat \<Rightarrow> string"

text \<open>\<^verbatim>\<open>nonZeroTime\<close> and the tests for a zero time before it.\<close>

definition non_zero_time :: "time \<Rightarrow> time \<Rightarrow> time" where
  "non_zero_time t fallback = (if t = 0 then fallback else t)"

definition seconds :: "int \<Rightarrow> duration" where
  "seconds n = n * 1000000000"

section \<open>Rebuilding a map by inserting its entries\<close>

lemma mput_append: "k \<notin> set (mkeys m) \<Longrightarrow> mput k v m = m @ [(k, v)]"
  by (induction m) (auto simp: mput_def mkeys_def)

lemma mput_same: "map_of m k = Some v \<Longrightarrow> mput k v m = m"
  by (simp add: mput_def update_triv)

lemma fold_mput_id:
  "map_ok (m' @ m) \<Longrightarrow> fold (\<lambda>(k, v) m. mput k v m) m m' = m' @ m"
proof (induction m arbitrary: m')
  case Nil
  then show ?case by simp
next
  case (Cons a m)
  obtain k v where a: "a = (k, v)" by (cases a)
  from Cons.prems have "k \<notin> set (mkeys m')" and "map_ok ((m' @ [(k, v)]) @ m)"
    by (auto simp: map_ok_def mkeys_def a)
  with Cons.IH show ?case by (simp add: a mput_append)
qed

lemma set_mput: "set (mput k v m) \<subseteq> insert (k, v) (set m)"
  by (induction m) (auto simp: mput_def)

lemma set_mput_mem: "map_ok m \<Longrightarrow> p \<in> set (mput k v m) \<longleftrightarrow> p = (k, v) \<or> p \<in> set m \<and> fst p \<noteq> k"
proof -
  assume ok: "map_ok m"
  obtain k' v' where p: "p = (k', v')" by (cases p)
  have "p \<in> set (mput k v m) \<longleftrightarrow> map_of (mput k v m) k' = Some v'"
    using map_of_eq_Some_iff_mem [OF map_ok_mput [OF ok]] p by metis
  also have "\<dots> \<longleftrightarrow> p = (k, v) \<or> p \<in> set m \<and> fst p \<noteq> k"
    using map_of_eq_Some_iff_mem [OF ok] p by auto
  finally show ?thesis .
qed

section \<open>Loops that may fail\<close>

text \<open>A loop whose body may return an error: the first error ends it.\<close>

fun fold_err :: "('a \<Rightarrow> 's \<Rightarrow> 'e + 's) \<Rightarrow> 'a list \<Rightarrow> 's \<Rightarrow> 'e + 's" where
  "fold_err f [] s = Inr s"
| "fold_err f (x # xs) s = and_then (f x s) (fold_err f xs)"

text \<open>An invariant of the body is one of the loop.\<close>

lemma fold_err_invariant:
  "fold_err f xs s = Inr s' \<Longrightarrow> I s \<Longrightarrow>
    (\<And>x s s'. x \<in> set xs \<Longrightarrow> I s \<Longrightarrow> f x s = Inr s' \<Longrightarrow> I s') \<Longrightarrow> I s'"
proof (induction xs arbitrary: s)
  case (Cons x xs)
  from Cons.prems(1) obtain s1 where s1: "f x s = Inr s1" "fold_err f xs s1 = Inr s'"
    by (auto simp: and_then_eq_Inr)
  have I1: "I s1" using Cons.prems(3) [OF _ Cons.prems(2) s1(1)] by simp
  show ?case using Cons.IH [OF s1(2) I1] Cons.prems(3) by (meson list.set_intros(2))
qed simp

lemma fold_err_append: "fold_err f (xs @ ys) s = and_then (fold_err f xs s) (fold_err f ys)"
  by (induction xs arbitrary: s) (simp_all add: and_then_def split: sum.split)

lemma fold_err_total: "\<forall>x \<in> set xs. \<forall>s. \<exists>t. f x s = Inr t \<Longrightarrow> \<exists>t. fold_err f xs s = Inr t"
  by (induction xs arbitrary: s) (simp, metis and_then_simps(2) fold_err.simps(2) list.set_intros)

lemma find_Some_mem: "find P xs = Some x \<Longrightarrow> x \<in> set xs \<and> P x"
  by (auto simp: find_Some_iff)

lemma fold_invariant_mem:
  "I s \<Longrightarrow> (\<And>x s. x \<in> set xs \<Longrightarrow> I s \<Longrightarrow> I (f x s)) \<Longrightarrow> I (fold f xs s)"
  by (induction xs arbitrary: s) simp_all

section \<open>Maps of maps\<close>

text \<open>
  \<open>nget m w k\<close> is \<^verbatim>\<open>m[w][k]\<close>, where a missing inner map is nil and has no entries; \<open>nput\<close> is the
  assignment after the test that makes the inner map, and \<open>ndel\<close> is \<^verbatim>\<open>delete(m[w], k)\<close>, which does
  nothing on a nil map.
\<close>

definition nget :: "('w, ('k, 'v) gomap) gomap \<Rightarrow> 'w \<Rightarrow> 'k \<Rightarrow> 'v option" where
  "nget m w k = map_of (mget_or [] m w) k"

definition nput :: "'w \<Rightarrow> 'k \<Rightarrow> 'v \<Rightarrow> ('w, ('k, 'v) gomap) gomap \<Rightarrow> ('w, ('k, 'v) gomap) gomap" where
  "nput w k v m = mput w (mput k v (mget_or [] m w)) m"

definition ndel :: "'w \<Rightarrow> 'k \<Rightarrow> ('w, ('k, 'v) gomap) gomap \<Rightarrow> ('w, ('k, 'v) gomap) gomap" where
  "ndel w k m = (case map_of m w of None \<Rightarrow> m | Some kv \<Rightarrow> mput w (mdel k kv) m)"

definition nested_ok :: "('w, ('k, 'v) gomap) gomap \<Rightarrow> bool" where
  "nested_ok m \<longleftrightarrow> map_ok m \<and> (\<forall>kv \<in> set (mvals m). map_ok kv)"

lemma mget_or_mput [simp]: "mget_or d (mput k v m) k' = (if k' = k then v else mget_or d m k')"
  by (simp add: mget_or_def)

lemma nget_nput [map_simps, simp]:
  "nget (nput w k v m) w' k' = (if w' = w \<and> k' = k then Some v else nget m w' k')"
  by (simp add: nget_def nput_def)

lemma nget_ndel [map_simps, simp]:
  "nget (ndel w k m) w' k' = (if w' = w \<and> k' = k then None else nget m w' k')"
  by (simp add: nget_def ndel_def mget_or_def split: option.splits)

lemma nget_Nil [simp]: "nget [] w k = None"
  by (simp add: nget_def mget_or_def)

lemma nested_ok_inner: "nested_ok m \<Longrightarrow> map_ok (mget_or [] m w)"
  by (auto simp: nested_ok_def mget_or_def mvals_mem split: option.splits)

lemma nested_ok_Nil [map_intros, simp]: "nested_ok []"
  by (simp add: nested_ok_def mvals_def)

lemma nested_ok_iff: "map_ok m \<Longrightarrow> nested_ok m \<longleftrightarrow> (\<forall>w kv. map_of m w = Some kv \<longrightarrow> map_ok kv)"
  by (auto simp: nested_ok_def mvals_mem)

lemma nested_ok_map_ok: "nested_ok m \<Longrightarrow> map_ok m"
  by (simp add: nested_ok_def)

lemma nested_ok_mput [map_intros]: "nested_ok m \<Longrightarrow> map_ok kv \<Longrightarrow> nested_ok (mput w kv m)"
proof -
  assume m: "nested_ok m" and kv: "map_ok kv"
  have ok: "map_ok (mput w kv m)" using m by (simp add: nested_ok_map_ok map_ok_mput)
  show ?thesis using m kv by (auto simp: nested_ok_iff [OF ok] nested_ok_iff [OF nested_ok_map_ok [OF m]])
qed

lemma nested_ok_nput [map_intros]: "nested_ok m \<Longrightarrow> nested_ok (nput w k v m)"
  by (simp add: nput_def nested_ok_mput map_ok_mput nested_ok_inner)

lemma nested_ok_ndel [map_intros]: "nested_ok m \<Longrightarrow> nested_ok (ndel w k m)"
  using nested_ok_inner [of m w]
  by (auto simp: ndel_def mget_or_def intro!: nested_ok_mput map_ok_mdel split: option.splits)

text \<open>An entry of the inner map, as a loop over it meets it.\<close>

lemma mem_inner: "nested_ok m \<Longrightarrow> (k, v) \<in> set (mget_or [] m w) \<longleftrightarrow> nget m w k = Some v"
  by (simp add: nget_def map_of_eq_Some_iff_mem nested_ok_inner)

lemma mvals_inner: "nested_ok m \<Longrightarrow> v \<in> set (mvals (mget_or [] m w)) \<longleftrightarrow> (\<exists>k. nget m w k = Some v)"
  by (simp add: nget_def mvals_mem nested_ok_inner)

end
