(* ===== verification/Go_Strings.thy ===== *)
theory Go_Strings
  imports Go_Base
begin

text \<open>
  The functions of Go's \<^verbatim>\<open>strings\<close>, \<^verbatim>\<open>strconv\<close> and \<^verbatim>\<open>path\<close> packages the program calls, on
  byte strings: \<^verbatim>\<open>TrimSpace\<close> (with every rune of \<^verbatim>\<open>unicode.IsSpace\<close> in its UTF-8 encoding),
  \<^verbatim>\<open>Split\<close> and \<^verbatim>\<open>Join\<close>, \<^verbatim>\<open>Itoa\<close>, lower-case hexadecimal and \<^verbatim>\<open>path.Clean\<close>. Go compares strings
  byte by byte, which is the lexicographic order on \<^typ>\<open>string\<close>.
\<close>

section \<open>White space\<close>

text \<open>The UTF-8 encodings of the runes for which \<^verbatim>\<open>unicode.IsSpace\<close> holds.\<close>

definition space_runes :: "string list" where
  "space_runes =
    [[CHR 0x20], [CHR 0x09], [CHR 0x0A], [CHR 0x0B], [CHR 0x0C], [CHR 0x0D],
     [CHR 0xC2, CHR 0x85], [CHR 0xC2, CHR 0xA0], [CHR 0xE1, CHR 0x9A, CHR 0x80],
     [CHR 0xE2, CHR 0x80, CHR 0x80], [CHR 0xE2, CHR 0x80, CHR 0x81], [CHR 0xE2, CHR 0x80, CHR 0x82],
     [CHR 0xE2, CHR 0x80, CHR 0x83], [CHR 0xE2, CHR 0x80, CHR 0x84], [CHR 0xE2, CHR 0x80, CHR 0x85],
     [CHR 0xE2, CHR 0x80, CHR 0x86], [CHR 0xE2, CHR 0x80, CHR 0x87], [CHR 0xE2, CHR 0x80, CHR 0x88],
     [CHR 0xE2, CHR 0x80, CHR 0x89], [CHR 0xE2, CHR 0x80, CHR 0x8A], [CHR 0xE2, CHR 0x80, CHR 0xA8],
     [CHR 0xE2, CHR 0x80, CHR 0xA9], [CHR 0xE2, CHR 0x80, CHR 0xAF], [CHR 0xE2, CHR 0x81, CHR 0x9F],
     [CHR 0xE3, CHR 0x80, CHR 0x80]]"

lemma space_runes_not_empty: "r \<in> set space_runes \<Longrightarrow> r \<noteq> []"
  by (auto simp: space_runes_def)

definition lead_space :: "string \<Rightarrow> string option" where
  "lead_space s = find (\<lambda>r. prefix r s) space_runes"

definition trail_space :: "string \<Rightarrow> string option" where
  "trail_space s = find (\<lambda>r. suffix r s) space_runes"

lemma lead_space_None: "lead_space s = None \<longleftrightarrow> (\<forall>r \<in> set space_runes. \<not> prefix r s)"
  by (auto simp: lead_space_def find_None_iff)

lemma trail_space_None: "trail_space s = None \<longleftrightarrow> (\<forall>r \<in> set space_runes. \<not> suffix r s)"
  by (auto simp: trail_space_def find_None_iff)

lemma lead_space_Some: "lead_space s = Some r \<Longrightarrow> prefix r s \<and> 0 < length r \<and> length r \<le> length s"
  using space_runes_not_empty by (auto simp: lead_space_def find_Some_iff intro: prefix_length_le)

lemma trail_space_Some: "trail_space s = Some r \<Longrightarrow> suffix r s \<and> 0 < length r \<and> length r \<le> length s"
  using space_runes_not_empty by (auto simp: trail_space_def find_Some_iff intro: suffix_length_le)

lemma space_shorter:
  "lead_space s = Some r \<Longrightarrow> length s - length r < length s"
  "trail_space s = Some r \<Longrightarrow> length s - length r < length s"
  using lead_space_Some [of s r] trail_space_Some [of s r] by linarith+

function trim_left :: "string \<Rightarrow> string" where
  "trim_left s = (case lead_space s of None \<Rightarrow> s | Some r \<Rightarrow> trim_left (drop (length r) s))"
  by pat_completeness auto
termination
  by (relation "measure length") (auto dest: space_shorter)

function trim_right :: "string \<Rightarrow> string" where
  "trim_right s =
    (case trail_space s of None \<Rightarrow> s | Some r \<Rightarrow> trim_right (take (length s - length r) s))"
  by pat_completeness auto
termination
  by (relation "measure length") (auto dest: space_shorter)

declare trim_left.simps [simp del] trim_right.simps [simp del]

definition trim_space :: "string \<Rightarrow> string" where
  "trim_space s = trim_right (trim_left s)"

lemma lead_space_trim_left: "lead_space (trim_left s) = None"
  by (induction s rule: trim_left.induct) (simp add: trim_left.simps split: option.splits)

lemma trail_space_trim_right: "trail_space (trim_right s) = None"
  by (induction s rule: trim_right.induct) (simp add: trim_right.simps split: option.splits)

lemma prefix_trim_right: "prefix (trim_right s) s"
proof (induction s rule: trim_right.induct)
  case (1 s)
  show ?case
  proof (cases "trail_space s")
    case None
    then show ?thesis by (simp add: trim_right.simps)
  next
    case (Some r)
    then show ?thesis
      using 1 [OF Some] by (simp add: trim_right.simps [of s]) (meson prefix_order.trans take_is_prefix)
  qed
qed

lemma lead_space_prefix: "prefix p s \<Longrightarrow> lead_space s = None \<Longrightarrow> lead_space p = None"
  by (auto simp: lead_space_None intro: prefix_order.trans)

lemma trim_left_id: "lead_space s = None \<Longrightarrow> trim_left s = s"
  by (simp add: trim_left.simps)

lemma trim_right_id: "trail_space s = None \<Longrightarrow> trim_right s = s"
  by (simp add: trim_right.simps)

lemma trim_space_id: "lead_space s = None \<Longrightarrow> trail_space s = None \<Longrightarrow> trim_space s = s"
  by (simp add: trim_space_def trim_left_id trim_right_id)

lemma lead_space_trim_space: "lead_space (trim_space s) = None"
  unfolding trim_space_def
  by (rule lead_space_prefix [OF prefix_trim_right lead_space_trim_left])

lemma trail_space_trim_space: "trail_space (trim_space s) = None"
  by (simp add: trim_space_def trail_space_trim_right)

lemma trim_space_idem [simp]: "trim_space (trim_space s) = trim_space s"
  by (rule trim_space_id) (rule lead_space_trim_space trail_space_trim_space)+

lemma trim_space_Nil [simp]: "trim_space [] = []"
  by (rule trim_space_id) (auto simp: lead_space_None trail_space_None dest: space_runes_not_empty)

text \<open>
  A quick test: a string whose first and last bytes are printable ASCII other than the blank has
  nothing to trim.
\<close>

definition graphic :: "char \<Rightarrow> bool" where
  "graphic c \<longleftrightarrow> 0x21 \<le> (of_char c :: nat) \<and> (of_char c :: nat) \<le> 0x7E"

lemma graphic_hd: "r \<in> set space_runes \<Longrightarrow> \<not> graphic (hd r)"
  by (auto simp: space_runes_def graphic_def)

lemma graphic_last: "r \<in> set space_runes \<Longrightarrow> \<not> graphic (last r)"
  by (auto simp: space_runes_def graphic_def)

lemma trim_space_graphic:
  assumes "s \<noteq> [] \<Longrightarrow> graphic (hd s) \<and> graphic (last s)"
  shows "trim_space s = s"
proof (cases "s = []")
  case True
  then show ?thesis by simp
next
  case False
  have "\<not> prefix r s" if "r \<in> set space_runes" for r
    using that False assms graphic_hd [OF that] space_runes_not_empty [OF that]
    by (auto simp: prefix_def)
  moreover have "\<not> suffix r s" if "r \<in> set space_runes" for r
    using that False assms graphic_last [OF that] space_runes_not_empty [OF that]
    by (auto simp: suffix_def)
  ultimately show ?thesis by (simp add: trim_space_id lead_space_None trail_space_None)
qed

text \<open>The first string that is not empty: the variadic \<^verbatim>\<open>firstNonEmpty\<close> of the state package.\<close>

fun first_non_empty :: "string list \<Rightarrow> string" where
  "first_non_empty [] = ''''"
| "first_non_empty (v # vs) = (if v \<noteq> '''' then v else first_non_empty vs)"

lemma first_non_empty_mem: "first_non_empty vs \<noteq> '''' \<Longrightarrow> first_non_empty vs \<in> set vs"
  by (induction vs) auto

lemma first_non_empty_ne: "\<exists>v \<in> set vs. v \<noteq> '''' \<Longrightarrow> first_non_empty vs \<noteq> ''''"
  by (induction vs) auto

section \<open>Numbers as text\<close>

fun digits :: "nat \<Rightarrow> string" where
  "digits n = (if n < 10 then [char_of (48 + n)] else digits (n div 10) @ [char_of (48 + n mod 10)])"

declare digits.simps [simp del]

definition itoa :: "int \<Rightarrow> string" where
  "itoa i = (if i < 0 then ''-'' @ digits (nat (- i)) else digits (nat i))"

definition hex_digit :: "nat \<Rightarrow> char" where
  "hex_digit n = (if n < 10 then char_of (48 + n) else char_of (87 + n))"

definition hex_byte :: "char \<Rightarrow> string" where
  "hex_byte c = [hex_digit (of_char c div 16), hex_digit (of_char c mod 16)]"

definition hex_encode :: "string \<Rightarrow> string" where
  "hex_encode s = concat (map hex_byte s)"

lemma length_hex_encode [simp]: "length (hex_encode s) = 2 * length s"
  by (induction s) (auto simp: hex_encode_def hex_byte_def)

section \<open>Splitting and joining\<close>

text \<open>\<^verbatim>\<open>strings.Split\<close> at a one-byte separator, and \<^verbatim>\<open>strings.Join\<close>.\<close>

fun split_at :: "char \<Rightarrow> string \<Rightarrow> string list" where
  "split_at c [] = [[]]"
| "split_at c (x # xs) =
    (if x = c then [] # split_at c xs
     else (case split_at c xs of [] \<Rightarrow> [[x]] | p # ps \<Rightarrow> (x # p) # ps))"

fun join_with :: "string \<Rightarrow> string list \<Rightarrow> string" where
  "join_with sep [] = []"
| "join_with sep [p] = p"
| "join_with sep (p # q # ps) = p @ sep @ join_with sep (q # ps)"

lemma split_at_ne [simp]: "split_at c s \<noteq> []"
  by (induction s) (auto split: list.splits)

lemma split_at_no_sep: "p \<in> set (split_at c s) \<Longrightarrow> c \<notin> set p"
  by (induction s arbitrary: p) (auto split: list.splits if_splits)

lemma split_at_plain: "c \<notin> set p \<Longrightarrow> split_at c p = [p]"
  by (induction p) auto

lemma split_at_append: "c \<notin> set p \<Longrightarrow> split_at c (p @ c # s) = p # split_at c s"
  by (induction p) auto

lemma split_join:
  "ps \<noteq> [] \<Longrightarrow> (\<And>p. p \<in> set ps \<Longrightarrow> c \<notin> set p) \<Longrightarrow> split_at c (join_with [c] ps) = ps"
  by (induction "[c]" ps rule: join_with.induct) (auto simp: split_at_plain split_at_append)

lemma join_split: "join_with [c] (split_at c s) = s"
proof (induction s)
  case Nil
  then show ?case by simp
next
  case (Cons x xs)
  show ?case
  proof (cases "split_at c xs")
    case Nil
    then show ?thesis by simp
  next
    case (Cons p ps)
    with Cons.IH show ?thesis by (cases ps) auto
  qed
qed

definition has_infix :: "string \<Rightarrow> string \<Rightarrow> bool" where
  "has_infix t s \<longleftrightarrow> list_ex (\<lambda>u. prefix t u) (suffixes s)"

section \<open>path.Clean\<close>

text \<open>
  \<^verbatim>\<open>path.Clean\<close> reads the elements between slashes from left to right and keeps the cleaned ones on
  a stack (here reversed): it drops empty and dot elements, and a dot-dot element removes the last
  kept one; where there is none to remove it is kept, unless the path is rooted.
\<close>

fun clean_elements :: "bool \<Rightarrow> string list \<Rightarrow> string list \<Rightarrow> string list" where
  "clean_elements rooted st [] = rev st"
| "clean_elements rooted st (e # es) =
    (if e = '''' \<or> e = ''.'' then clean_elements rooted st es
     else if e = ''..'' then
       (case st of
          [] \<Rightarrow> clean_elements rooted (if rooted then [] else [''..'']) es
        | x # st' \<Rightarrow>
            if x = ''..'' then clean_elements rooted (''..'' # st) es
            else clean_elements rooted st' es)
     else clean_elements rooted (e # st) es)"

definition path_clean :: "string \<Rightarrow> string" where
  "path_clean p =
    (if p = '''' then ''.''
     else let rooted = prefix ''/'' p;
              body = join_with ''/'' (clean_elements rooted [] (split_at (CHR ''/'') p))
          in if rooted then ''/'' @ body else if body = '''' then ''.'' else body)"

text \<open>A cleaned stack: dot-dot elements, if any, come first.\<close>

definition clean_stack :: "string list \<Rightarrow> bool" where
  "clean_stack st \<longleftrightarrow> (\<forall>e \<in> set st. e \<noteq> '''' \<and> e \<noteq> ''.'' \<and> CHR ''/'' \<notin> set e)
     \<and> (\<exists>k ns. rev st = replicate k ''..'' @ ns \<and> ''..'' \<notin> set ns)"

lemma clean_stack_push:
  assumes "clean_stack st" and "e \<noteq> ''''" and "e \<noteq> ''.''" and "CHR ''/'' \<notin> set e" and "e \<noteq> ''..''"
  shows "clean_stack (e # st)"
proof -
  from assms(1) obtain k ns where "rev st = replicate k ''..'' @ ns" and "''..'' \<notin> set ns"
    by (auto simp: clean_stack_def)
  then have "rev (e # st) = replicate k ''..'' @ (ns @ [e])" and "''..'' \<notin> set (ns @ [e])"
    using assms(5) by auto
  with assms show ?thesis unfolding clean_stack_def by (metis set_ConsD)
qed

lemma clean_stack_dots:
  assumes "clean_stack st" and "st = [] \<or> hd st = ''..''"
  shows "clean_stack (''..'' # st)"
proof -
  from assms(1) obtain k ns where kn: "rev st = replicate k ''..'' @ ns" "''..'' \<notin> set ns"
    by (auto simp: clean_stack_def)
  have "ns = []"
  proof (rule ccontr)
    assume "ns \<noteq> []"
    then have "last (rev st) = last ns" using kn(1) by simp
    moreover have "st \<noteq> []" using kn(1) \<open>ns \<noteq> []\<close> by auto
    ultimately have "st \<noteq> []" and "hd st = last ns" by (simp_all add: last_rev)
    with assms(2) kn(2) \<open>ns \<noteq> []\<close> show False by (metis last_in_set)
  qed
  then have "rev (''..'' # st) = replicate (Suc k) ''..'' @ []"
    using kn(1) by (simp add: replicate_append_same)
  moreover have "\<forall>e \<in> set (''..'' # st). e \<noteq> '''' \<and> e \<noteq> ''.'' \<and> CHR ''/'' \<notin> set e"
    using assms(1) by (auto simp: clean_stack_def)
  ultimately show ?thesis unfolding clean_stack_def by (metis empty_iff empty_set)
qed

lemma clean_stack_pop: "clean_stack (x # st) \<Longrightarrow> x \<noteq> ''..'' \<Longrightarrow> clean_stack st"
proof -
  assume cs: "clean_stack (x # st)" and x: "x \<noteq> ''..''"
  from cs obtain k ns where kn: "rev st @ [x] = replicate k ''..'' @ ns" "''..'' \<notin> set ns"
    by (auto simp: clean_stack_def)
  have "ns \<noteq> []" using kn(1) x
    by (metis append_Nil2 in_set_conv_decomp in_set_replicate)
  then have "rev st = replicate k ''..'' @ butlast ns"
    using kn(1) by (metis butlast_append butlast_snoc)
  moreover have "''..'' \<notin> set (butlast ns)" using kn(2) by (meson in_set_butlastD)
  ultimately show ?thesis using cs unfolding clean_stack_def by (metis list.set_intros(2))
qed

lemma clean_elements_ok:
  "clean_stack st \<Longrightarrow> (\<And>e. e \<in> set es \<Longrightarrow> CHR ''/'' \<notin> set e) \<Longrightarrow>
    clean_stack (rev (clean_elements rooted st es))"
proof (induction rooted st es rule: clean_elements.induct)
  case (1 rooted st)
  then show ?case by simp
next
  case (2 rooted st e es)
  have nil: "clean_stack []" by (simp add: clean_stack_def)
  have es: "\<And>e. e \<in> set es \<Longrightarrow> CHR ''/'' \<notin> set e" using "2.prems"(2) by simp
  show ?case
  proof (cases "e = '''' \<or> e = ''.''")
    case True
    with 2 show ?thesis by auto
  next
    case ne: False
    show ?thesis
    proof (cases "e = ''..''")
      case False
      with ne 2 show ?thesis by (auto intro: clean_stack_push)
    next
      case True
      show ?thesis
      proof (cases st)
        case Nil
        have "clean_stack (if rooted then [] else [''..''])"
          using nil clean_stack_dots [OF nil] by simp
        from 2(2) [OF ne True Nil this es] Nil True show ?thesis by simp
      next
        case (Cons x st')
        show ?thesis
        proof (cases "x = ''..''")
          case True': True
          have "clean_stack (''..'' # st)"
            using "2.prems"(1) Cons True' by (auto intro: clean_stack_dots)
          from 2(3) [OF ne True Cons True' this es] Cons True True' show ?thesis by simp
        next
          case False
          have "clean_stack st'" using "2.prems"(1) Cons False by (auto intro: clean_stack_pop)
          from 2(4) [OF ne True Cons False this es] Cons True False show ?thesis by simp
        qed
      qed
    qed
  qed
qed

section \<open>Runes\<close>

text \<open>
  \<open>rune_width s\<close> is the number of bytes of the first rune of \<open>s\<close> as \<^verbatim>\<open>range\<close> over a string and
  \<^verbatim>\<open>[]rune\<close> read it: the length of its UTF-8 encoding, and 1 at a byte that starts none.
\<close>

definition cont_byte :: "nat \<Rightarrow> bool" where
  "cont_byte n \<longleftrightarrow> 0x80 \<le> n \<and> n \<le> 0xBF"

definition second_byte_ok :: "nat \<Rightarrow> nat \<Rightarrow> bool" where
  "second_byte_ok b c =
    (if b = 0xE0 then 0xA0 \<le> c \<and> c \<le> 0xBF
     else if b = 0xED then 0x80 \<le> c \<and> c \<le> 0x9F
     else if b = 0xF0 then 0x90 \<le> c \<and> c \<le> 0xBF
     else if b = 0xF4 then 0x80 \<le> c \<and> c \<le> 0x8F
     else cont_byte c)"

definition rune_width :: "string \<Rightarrow> nat" where
  "rune_width s =
    (let bs = map of_char (take 4 s) :: nat list in
     case bs of
       b # c # rest \<Rightarrow>
         if 0xC2 \<le> b \<and> b \<le> 0xDF then (if cont_byte c then 2 else 1)
         else if 0xE0 \<le> b \<and> b \<le> 0xF4 \<and> second_byte_ok b c then
           (case rest of
              d # rest' \<Rightarrow>
                if \<not> cont_byte d then 1
                else if b \<le> 0xEF then 3
                else (case rest' of e # _ \<Rightarrow> if cont_byte e then 4 else 1 | [] \<Rightarrow> 1)
            | [] \<Rightarrow> 1)
         else 1
     | _ \<Rightarrow> 1)"

lemma rune_width_pos: "0 < rune_width s"
  by (auto simp: rune_width_def Let_def split: list.splits)

text \<open>The runes of a string, each as its bytes.\<close>

function runes :: "string \<Rightarrow> string list" where
  "runes [] = []"
| "runes (x # xs) = take (rune_width (x # xs)) (x # xs) # runes (drop (rune_width (x # xs)) (x # xs))"
  by pat_completeness auto
termination
  using rune_width_pos by (relation "measure length") auto

declare runes.simps(2) [simp del]

lemma concat_runes [simp]: "concat (runes s) = s"
  by (induction s rule: runes.induct) (simp_all add: runes.simps(2))

lemma runes_ne: "r \<in> set (runes s) \<Longrightarrow> r \<noteq> []"
proof (induction s rule: runes.induct)
  case (2 x xs)
  then show ?case using rune_width_pos [of "x # xs"] by (auto simp: runes.simps(2))
qed simp

text \<open>\<^verbatim>\<open>strings.Fields\<close>: the maximal pieces between space runes.\<close>

fun string_fields_loop :: "string \<Rightarrow> string list \<Rightarrow> string list" where
  "string_fields_loop cur [] = (if cur = [] then [] else [cur])"
| "string_fields_loop cur (r # rs) =
    (if r \<in> set space_runes then (if cur = [] then string_fields_loop [] rs else cur # string_fields_loop [] rs)
     else string_fields_loop (cur @ r) rs)"

definition string_fields :: "string \<Rightarrow> string list" where
  "string_fields s = string_fields_loop [] (runes s)"

section \<open>Parsing integers\<close>

definition is_digit :: "char \<Rightarrow> bool" where
  "is_digit c \<longleftrightarrow> (48::nat) \<le> of_char c \<and> (of_char c :: nat) \<le> 57"

fun parse_digits :: "nat \<Rightarrow> string \<Rightarrow> nat option" where
  "parse_digits acc [] = Some acc"
| "parse_digits acc (c # cs) = (if is_digit c then parse_digits (acc * 10 + (of_char c - 48)) cs else None)"

text \<open>\<^verbatim>\<open>strconv.ParseInt(s, 10, 64)\<close>: an optional sign, digits, and the range of 64 bits.\<close>

definition parse_int64 :: "string \<Rightarrow> int option" where
  "parse_int64 s =
    (let (neg, ds) = (case s of
         [] \<Rightarrow> (False, [])
       | c # cs \<Rightarrow> if c = CHR ''-'' then (True, cs) else if c = CHR ''+'' then (False, cs) else (False, s)) in
     if ds = [] then None
     else case parse_digits 0 ds of
            None \<Rightarrow> None
          | Some n \<Rightarrow> let i = (if neg then - int n else int n) in
                     if - (2 ^ 63) \<le> i \<and> i < 2 ^ 63 then Some i else None)"

end
