(* ===== verification/Json.thy ===== *)
theory Json
  imports Go_Strings
begin

text \<open>
  JSON as the program uses \<^verbatim>\<open>encoding/json\<close>. A \<^verbatim>\<open>json.RawMessage\<close> is represented by the document
  its bytes decode to, and by the bytes themselves where they do not decode: two messages that
  differ only in white space, escapes or the order of an object's keys as Go writes them are the
  same value here. The empty message (nil or of length 0) is \<open>RawBytes []\<close>; a number is kept as its
  text; an object keeps its members in order, duplicates included, and decoding it into a Go map
  lets the last duplicate win.
\<close>

datatype json =
    JNull
  | JBool bool
  | JNum string
  | JStr string
  | JArr "json list"
  | JObj "(string \<times> json) list"

datatype raw = RawBytes string | RawDoc json

definition raw_nil :: raw where
  "raw_nil = RawBytes []"

definition raw_empty :: "raw \<Rightarrow> bool" where
  "raw_empty r \<longleftrightarrow> r = RawBytes []"

text \<open>\<^verbatim>\<open>json.Valid\<close>\<close>

fun json_valid :: "raw \<Rightarrow> bool" where
  "json_valid (RawBytes s) = False"
| "json_valid (RawDoc d) = True"

lemma json_valid_iff: "json_valid r \<longleftrightarrow> (\<exists>d. r = RawDoc d)"
  by (cases r) auto

lemma raw_empty_nil [simp]: "raw_empty raw_nil" "\<not> raw_empty (RawDoc d)"
  by (simp_all add: raw_empty_def raw_nil_def)

lemma json_valid_nil [simp]: "\<not> json_valid raw_nil"
  by (simp add: raw_nil_def)

section \<open>Objects as Go maps\<close>

text \<open>
  \<open>raw_object r\<close> is the map \<^verbatim>\<open>json.Unmarshal\<close> fills from \<open>r\<close>, and \<open>None\<close> where the call fails or
  leaves the map nil, as the literal null does. \<open>marshal_object\<close> is \<^verbatim>\<open>json.Marshal\<close> of a map, which
  writes the keys in order.
\<close>

definition object_map :: "(string \<times> json) list \<Rightarrow> (string, json) gomap" where
  "object_map kvs = fold (\<lambda>(k, v) m. mput k v m) kvs []"

fun raw_object :: "raw \<Rightarrow> (string, json) gomap option" where
  "raw_object (RawDoc (JObj kvs)) = Some (object_map kvs)"
| "raw_object r = None"

definition key_lt :: "(string \<times> 'v) \<Rightarrow> (string \<times> 'v) \<Rightarrow> bool" where
  "key_lt a b \<longleftrightarrow> fst a < fst b"

definition marshal_object :: "(string, json) gomap \<Rightarrow> raw" where
  "marshal_object m = RawDoc (JObj (sort_slice key_lt m))"

lemma fold_mput_map_of:
  "map_of (fold (\<lambda>(k, v) m. mput k v m) kvs m) k
    = (case map_of (rev kvs) k of None \<Rightarrow> map_of m k | Some v \<Rightarrow> Some v)"
  by (induction kvs arbitrary: m) (auto simp: map_add_def split: option.splits)

lemma map_of_object_map: "map_of (object_map kvs) k = map_of (rev kvs) k"
  by (simp add: object_map_def fold_mput_map_of split: option.splits)

lemma map_ok_object_map [map_intros]: "map_ok (object_map kvs)"
proof -
  have "map_ok m \<Longrightarrow> map_ok (fold (\<lambda>(k, v) m. mput k v m) kvs m)" for m :: "(string, json) gomap"
    by (induction kvs arbitrary: m) (auto intro: map_ok_mput)
  then show ?thesis by (simp add: object_map_def)
qed

lemma map_of_eq_of_set:
  assumes "map_ok m" and "map_ok m'" and "set m = set m'"
  shows "map_of m = map_of m'"
proof
  fix k
  show "map_of m k = map_of m' k"
    using assms map_of_eq_Some_iff_mem by (metis not_None_eq)
qed

lemma map_ok_sorted: "map_ok (sort_slice lt m) \<longleftrightarrow> map_ok m"
proof -
  have "distinct (map fst (insert_by lt x xs)) \<longleftrightarrow> distinct (map fst (x # xs))" for x and xs :: "('a \<times> 'b) list"
    by (induction xs) auto
  moreover have "set (map fst (sort_slice lt m)) = set (map fst m)" for m :: "('a \<times> 'b) list"
    by simp
  ultimately have "distinct (map fst (sort_slice lt m)) \<longleftrightarrow> distinct (map fst m)"
    by (induction m) auto
  then show ?thesis by (simp add: map_ok_def mkeys_def)
qed

lemma map_of_sorted: "map_ok m \<Longrightarrow> map_of (sort_slice lt m) = map_of m"
  by (rule map_of_eq_of_set) (simp_all add: map_ok_sorted)

lemma map_of_rev_ok: "map_ok m \<Longrightarrow> map_of (rev m) = map_of m"
  by (rule map_of_eq_of_set) (simp_all add: map_ok_def mkeys_def rev_map [symmetric])

text \<open>Decoding what was encoded gives the same map back.\<close>

lemma raw_object_marshal:
  assumes "map_ok m"
  shows "\<exists>m'. raw_object (marshal_object m) = Some m' \<and> map_ok m' \<and> map_of m' = map_of m"
proof -
  have "map_of (object_map (sort_slice key_lt m)) = map_of m"
    using assms by (auto simp: fun_eq_iff map_of_object_map map_of_rev_ok map_ok_sorted map_of_sorted)
  then show ?thesis by (simp add: marshal_object_def map_ok_object_map)
qed

lemma json_valid_marshal [simp]: "json_valid (marshal_object m)" "\<not> raw_empty (marshal_object m)"
  by (simp_all add: marshal_object_def)

lemma raw_object_Some: "raw_object r = Some m \<longleftrightarrow> (\<exists>kvs. r = RawDoc (JObj kvs) \<and> m = object_map kvs)"
  by (cases r rule: raw_object.cases) auto

section \<open>Decoding into a struct\<close>

text \<open>
  A struct field takes the members whose name equals its tag up to the case of ASCII letters; null
  leaves the field as it is, and a value of another kind is an error.
\<close>

definition lower_char :: "char \<Rightarrow> char" where
  "lower_char c = (let n = of_char c :: nat in if 65 \<le> n \<and> n \<le> 90 then char_of (n + 32) else c)"

definition to_lower :: "string \<Rightarrow> string" where
  "to_lower s = map lower_char s"

definition equal_fold :: "string \<Rightarrow> string \<Rightarrow> bool" where
  "equal_fold a b \<longleftrightarrow> to_lower a = to_lower b"

fun string_field :: "string \<Rightarrow> string \<Rightarrow> (string \<times> json) list \<Rightarrow> string option" where
  "string_field name v [] = Some v"
| "string_field name v ((k, d) # kvs) =
    (if equal_fold k name then
       (case d of JStr s \<Rightarrow> string_field name s kvs | JNull \<Rightarrow> string_field name v kvs | _ \<Rightarrow> None)
     else string_field name v kvs)"

text \<open>The value a string pointer field ends with: nil before the first string.\<close>

fun string_ptr_field :: "string \<Rightarrow> string option \<Rightarrow> (string \<times> json) list \<Rightarrow> string option option" where
  "string_ptr_field name v [] = Some v"
| "string_ptr_field name v ((k, d) # kvs) =
    (if equal_fold k name then
       (case d of JStr s \<Rightarrow> string_ptr_field name (Some s) kvs
        | JNull \<Rightarrow> string_ptr_field name None kvs | _ \<Rightarrow> None)
     else string_ptr_field name v kvs)"

text \<open>
  \<^verbatim>\<open>DisallowUnknownFields\<close>: every member must belong to a field. A field tagged with \<^verbatim>\<open>omitempty\<close>
  that is nil is left out when a struct is written.
\<close>

definition known_fields :: "string list \<Rightarrow> (string \<times> json) list \<Rightarrow> bool" where
  "known_fields names kvs \<longleftrightarrow> list_all (\<lambda>(k, d). list_ex (equal_fold k) names) kvs"

definition omit_nil :: "string \<Rightarrow> string option \<Rightarrow> (string \<times> json) list" where
  "omit_nil name v = (case v of None \<Rightarrow> [] | Some s \<Rightarrow> [(name, JStr s)])"

text \<open>\<^verbatim>\<open>mustRaw\<close> of a map with string keys.\<close>

definition must_raw :: "(string, json) gomap \<Rightarrow> raw" where
  "must_raw m = marshal_object m"

definition str_doc :: "string \<Rightarrow> json" where "str_doc s = JStr s"
definition int_doc :: "int \<Rightarrow> json" where "int_doc i = JNum (itoa i)"

lemma must_raw_simps [simp]: "json_valid (must_raw m)" "\<not> raw_empty (must_raw m)"
  by (simp_all add: must_raw_def)

end
