(* ===== verification/Contract.thy ===== *)
theory Contract
  imports Json
begin

text \<open>
  The contract package (\<^verbatim>\<open>internal/contract/contract.go\<close>): actions, deployments and job results,
  the rules that normalise identifiers, labels, route tags and source paths, and the pinning of one
  action of a deployment. A slice that is only read through its length or through \<^verbatim>\<open>range\<close> is a
  list, nil and empty alike; where the code distinguishes a nil pointer or a nil map the field is an
  option.
\<close>

section \<open>Data\<close>

record action_adapter =
  ada_type :: string
  ada_command :: "string list"
  ada_env :: "string list"
  ada_options :: "(string, json) gomap"

record action =
  act_key :: string
  act_tag :: "string option"
  act_tag_override :: "string option"
  act_runtime :: string
  act_entrypoint :: string
  act_command :: "string list"
  act_adapter :: "action_adapter option"
  act_input_schema :: string
  act_output_schema :: string
  act_operator_schema :: string
  act_input_body :: raw
  act_output_body :: raw
  act_operator_body :: raw
  act_timeout_s :: "int option"
  act_timeout_ms :: int
  act_capabilities :: "string list option"
  act_runs_on :: "string list option"
  act_updated_at :: "time option"

record deployment =
  dep_workspace :: string
  dep_git_source :: string
  dep_app :: string
  dep_version :: string
  dep_tag :: string
  dep_tag_override :: "string option"
  dep_entrypoint :: string
  dep_runtime :: string
  dep_script_lang :: string
  dep_timeout_s :: int
  dep_max_concurrent :: "int option"
  dep_capabilities :: "string list"
  dep_labels :: "string list"
  dep_commit :: string
  dep_message :: "string option"
  dep_source :: string
  dep_deployment_id :: "string option"
  dep_created_by :: "string option"
  dep_bundle_digest :: string
  dep_bundle_uri :: string
  dep_object_uri :: string
  dep_actions :: "(string, action) gomap option"
  dep_updated_at :: "time option"

record job_result =
  res_job :: string
  res_app :: string
  res_action :: string
  res_output :: raw
  res_exit_code :: int
  res_stdout :: string
  res_stderr :: string
  res_duration_ms :: int
  res_error :: string

text \<open>The zero values of the two structs the program starts from.\<close>

definition zero_action :: action where
  "zero_action =
    \<lparr>act_key = '''', act_tag = None, act_tag_override = None, act_runtime = '''',
     act_entrypoint = '''', act_command = [], act_adapter = None, act_input_schema = '''',
     act_output_schema = '''', act_operator_schema = '''', act_input_body = raw_nil,
     act_output_body = raw_nil, act_operator_body = raw_nil, act_timeout_s = None,
     act_timeout_ms = 0, act_capabilities = None, act_runs_on = None, act_updated_at = None\<rparr>"

definition zero_deployment :: deployment where
  "zero_deployment =
    \<lparr>dep_workspace = '''', dep_git_source = '''', dep_app = '''', dep_version = '''', dep_tag = '''',
     dep_tag_override = None, dep_entrypoint = '''', dep_runtime = '''', dep_script_lang = '''',
     dep_timeout_s = 0, dep_max_concurrent = None, dep_capabilities = [], dep_labels = [],
     dep_commit = '''', dep_message = None, dep_source = '''', dep_deployment_id = None,
     dep_created_by = None, dep_bundle_digest = '''', dep_bundle_uri = '''', dep_object_uri = '''',
     dep_actions = None, dep_updated_at = None\<rparr>"

text \<open>Reading a map entry, where reading a nil map finds nothing.\<close>

definition dep_action :: "deployment \<Rightarrow> string \<Rightarrow> action option" where
  "dep_action d k = (case dep_actions d of None \<Rightarrow> None | Some m \<Rightarrow> map_of m k)"

definition default_workspace :: string where "default_workspace = ''default''"
definition default_git_source :: string where "default_git_source = ''local''"
definition default_route_tag :: string where "default_route_tag = ''default''"
definition default_timeout_s :: int where "default_timeout_s = 300"
definition max_labels :: nat where "max_labels = 16"
definition reserved_label_prefix :: string where "reserved_label_prefix = ''sys/''"

section \<open>Tokens issued by the engine\<close>

definition job_token_prefix :: string where "job_token_prefix = ''wfjob_''"
definition workspace_token_prefix :: string where "workspace_token_prefix = ''wfw_''"
definition client_token_prefix :: string where "client_token_prefix = ''wfk_''"

definition cell_bearer_token_prefixes :: "string list" where
  "cell_bearer_token_prefixes = [job_token_prefix, workspace_token_prefix, client_token_prefix]"

definition is_cell_bearer_token :: "string \<Rightarrow> bool" where
  "is_cell_bearer_token token \<longleftrightarrow> list_ex (\<lambda>p. prefix p token) cell_bearer_token_prefixes"

section \<open>Pinning\<close>

text \<open>
  \<^verbatim>\<open>PinExecutionDeployment\<close>. The copies of slices and raw messages it makes are the values
  themselves here.
\<close>

definition pin_execution_deployment :: "deployment \<Rightarrow> string \<Rightarrow> deployment" where
  "pin_execution_deployment d key =
    d\<lparr>dep_actions := Some (case dep_action d key of None \<Rightarrow> [] | Some a \<Rightarrow> mput key a [])\<rparr>"

definition adapter_type :: "action \<Rightarrow> string" where
  "adapter_type a =
    (case act_adapter a of
       None \<Rightarrow> ''json-file''
     | Some ad \<Rightarrow> let value = trim_space (ada_type ad) in if value = '''' then ''json-file'' else value)"

section \<open>Route tags\<close>

definition non_blank :: "string option \<Rightarrow> string option" where
  "non_blank p =
    (case p of None \<Rightarrow> None | Some v \<Rightarrow> if trim_space v \<noteq> '''' then Some (trim_space v) else None)"

definition effective_route_tag ::
    "string \<Rightarrow> string option \<Rightarrow> string option \<Rightarrow> string option \<Rightarrow> string" where
  "effective_route_tag app_tag app_override action_tag action_override =
    (case non_blank action_override of Some t \<Rightarrow> t | None \<Rightarrow>
     case non_blank action_tag of Some t \<Rightarrow> t | None \<Rightarrow>
     case non_blank app_override of Some t \<Rightarrow> t | None \<Rightarrow>
     if trim_space app_tag \<noteq> '''' then trim_space app_tag else default_route_tag)"

definition effective_route_tag_for_app :: "deployment \<Rightarrow> string" where
  "effective_route_tag_for_app d = effective_route_tag (dep_tag d) (dep_tag_override d) None None"

definition effective_route_tag_for_action :: "deployment \<Rightarrow> action \<Rightarrow> string" where
  "effective_route_tag_for_action d a =
    effective_route_tag (dep_tag d) (dep_tag_override d) (act_tag a) (act_tag_override a)"

section \<open>Labels\<close>

datatype label_error = EmptyLabel | ReservedLabel string | InvalidLabel string | TooManyLabels

definition in_range :: "char \<Rightarrow> char \<Rightarrow> char \<Rightarrow> bool" where
  "in_range lo hi c \<longleftrightarrow> lo \<le> c \<and> c \<le> hi"

definition label_edge :: "char \<Rightarrow> bool" where
  "label_edge c \<longleftrightarrow> in_range (CHR ''a'') (CHR ''z'') c \<or> in_range (CHR ''0'') (CHR ''9'') c"

definition label_inner :: "char \<Rightarrow> bool" where
  "label_inner c \<longleftrightarrow> label_edge c \<or> c = CHR ''.'' \<or> c = CHR ''_'' \<or> c = CHR ''-''"

text \<open>The regular expression \<^verbatim>\<open>labelPattern\<close>: an edge character, and up to 63 more that end in one.\<close>

definition label_matches :: "string \<Rightarrow> bool" where
  "label_matches s \<longleftrightarrow> s \<noteq> '''' \<and> length s \<le> 64 \<and> label_edge (hd s) \<and> label_edge (last s)
     \<and> list_all label_inner s"

text \<open>\<^verbatim>\<open>strings.CutPrefix\<close>\<close>

definition cut_prefix :: "string \<Rightarrow> string \<Rightarrow> string \<times> bool" where
  "cut_prefix s p = (if prefix p s then (drop (length p) s, True) else (s, False))"

fun label_loop :: "bool \<Rightarrow> string list \<Rightarrow> string list \<Rightarrow> label_error + string list" where
  "label_loop allow out [] = Inr out"
| "label_loop allow out (r # rs) =
    (let label = trim_space r; (body, reserved) = cut_prefix label reserved_label_prefix in
     if label = '''' then Inl EmptyLabel
     else if reserved \<and> \<not> allow then Inl (ReservedLabel label)
     else if \<not> label_matches body then Inl (InvalidLabel label)
     else label_loop allow (if label \<in> set out then out else out @ [label]) rs)"

definition normalize_labels :: "string list \<Rightarrow> bool \<Rightarrow> label_error + string list" where
  "normalize_labels labels allow =
    (if labels = [] then Inr []
     else and_then (label_loop allow [] labels) (\<lambda>out.
       if length out > max_labels then Inl TooManyLabels else Inr (sort_strings out)))"

definition normalize_capabilities :: "string list \<Rightarrow> label_error + string list" where
  "normalize_capabilities caps = normalize_labels caps False"

fun merge_loop :: "string list \<Rightarrow> string list \<Rightarrow> string list" where
  "merge_loop out [] = out"
| "merge_loop out (r # rs) =
    (let label = trim_space r in
     if label = '''' \<or> label \<in> set out then merge_loop out rs else merge_loop (out @ [label]) rs)"

definition effective_required_labels :: "deployment \<Rightarrow> action \<Rightarrow> string list" where
  "effective_required_labels d a =
    (let base = (if dep_labels d = [] then dep_capabilities d else dep_labels d);
         merged = base @ (case act_runs_on a of
             Some r \<Rightarrow> r
           | None \<Rightarrow> (case act_capabilities a of Some c \<Rightarrow> c | None \<Rightarrow> []))
     in if merged = [] then [] else sort_strings (merge_loop [] merged))"

section \<open>Identifiers\<close>

definition normalize_workspace :: "string \<Rightarrow> string" where
  "normalize_workspace value =
    (let v = trim_space value in if v = '''' then default_workspace else v)"

definition normalize_git_source :: "string \<Rightarrow> string \<Rightarrow> string" where
  "normalize_git_source value app =
    (if trim_space value \<noteq> '''' then trim_space value
     else if trim_space app \<noteq> '''' then trim_space app else default_git_source)"

text \<open>
  The validity checks walk the runes of the string. Every accepted rune is an ASCII byte, so a
  string with another byte, valid UTF-8 or not, is rejected, and the walk is one over bytes.
\<close>

definition valid_workspace_id :: "string \<Rightarrow> bool" where
  "valid_workspace_id v \<longleftrightarrow> 2 \<le> length v \<and> length v \<le> 48
     \<and> list_all (\<lambda>i. label_edge (v ! i) \<or> v ! i = CHR ''-'' \<and> 0 < i \<and> i < length v - 1) [0..<length v]
     \<and> in_range (CHR ''a'') (CHR ''z'') (hd v)"

definition valid_portable_key_rune :: "char \<Rightarrow> bool" where
  "valid_portable_key_rune c \<longleftrightarrow> in_range (CHR ''a'') (CHR ''z'') c \<or> in_range (CHR ''A'') (CHR ''Z'') c
     \<or> in_range (CHR ''0'') (CHR ''9'') c \<or> c = CHR ''_''"

definition valid_app_key :: "string \<Rightarrow> bool" where
  "valid_app_key v \<longleftrightarrow> 2 \<le> length v \<and> length v \<le> 64 \<and> list_all valid_portable_key_rune v"

definition valid_action_key :: "string \<Rightarrow> bool" where
  "valid_action_key v \<longleftrightarrow> v \<noteq> '''' \<and> length v \<le> 128
     \<and> \<not> list_ex (\<lambda>c. c = CHR ''/'' \<or> c = CHR 0x5C) v
     \<and> length (split_at (CHR ''.'') v) \<le> 8
     \<and> list_all (\<lambda>seg. seg \<noteq> '''' \<and> list_all valid_portable_key_rune seg) (split_at (CHR ''.'') v)"

section \<open>Source paths\<close>

text \<open>\<^verbatim>\<open>strings.Trim\<close> with a cutset of one byte.\<close>

definition trim_char :: "char \<Rightarrow> string \<Rightarrow> string" where
  "trim_char c s = rev (dropWhile (\<lambda>x. x = c) (rev (dropWhile (\<lambda>x. x = c) s)))"

definition normalize_source_path :: "string \<Rightarrow> string + string" where
  "normalize_source_path value =
    (let v = trim_char (CHR ''/'')
          (trim_space (map (\<lambda>c. if c = CHR 0x5C then CHR ''/'' else c) value)) in
     if v = '''' \<or> v = ''.'' then Inr ''''
     else let clean = path_clean v in
       if clean = ''.'' then Inr ''''
       else if clean = ''..'' \<or> prefix ''../'' clean \<or> prefix ''/'' clean then Inl v
       else Inr clean)"

text \<open>\<^verbatim>\<open>filepath.IsAbs\<close> is the test for a leading slash on the Unix systems the program runs on.\<close>

definition validate_source_subpath :: "string \<Rightarrow> bool" where
  "validate_source_subpath value \<longleftrightarrow>
    value = '''' \<or> \<not> (prefix ''/'' value \<or> has_infix ''..'' value)"

definition source_workspace :: "deployment \<Rightarrow> string" where
  "source_workspace d = normalize_workspace (dep_workspace d)"

definition source_git_source :: "deployment \<Rightarrow> string" where
  "source_git_source d = normalize_git_source (dep_git_source d) (dep_app d)"

definition source_object_uri :: "deployment \<Rightarrow> string" where
  "source_object_uri d =
    ''bundle://'' @ source_workspace d @ ''/'' @ source_git_source d @ ''/'' @ dep_commit d"

section \<open>Lemmas\<close>

lemma default_workspace_trim [simp]: "trim_space default_workspace = default_workspace"
  by (rule trim_space_graphic) (simp add: default_workspace_def graphic_def)

lemma normalize_workspace_ne [simp]: "normalize_workspace w \<noteq> ''''"
  by (simp add: normalize_workspace_def default_workspace_def Let_def)

lemma normalize_workspace_idem [simp]:
  "normalize_workspace (normalize_workspace w) = normalize_workspace w"
  by (simp add: normalize_workspace_def Let_def)

lemma normalize_workspace_trim [simp]: "trim_space (normalize_workspace w) = normalize_workspace w"
  by (simp add: normalize_workspace_def Let_def)

lemma normalize_git_source_ne [simp]: "normalize_git_source v a \<noteq> ''''"
  by (simp add: normalize_git_source_def default_git_source_def)

lemma non_blank_Some: "non_blank p = Some t \<Longrightarrow> t \<noteq> '''' \<and> trim_space t = t"
  by (auto simp: non_blank_def split: option.splits if_splits)

lemma effective_route_tag_ne [simp]: "effective_route_tag a ao t to \<noteq> ''''"
  by (auto simp: effective_route_tag_def default_route_tag_def dest: non_blank_Some split: option.splits)

lemma effective_route_tag_trim [simp]:
  "trim_space (effective_route_tag a ao t to) = effective_route_tag a ao t to"
proof -
  have "trim_space default_route_tag = default_route_tag"
    by (rule trim_space_graphic) (simp add: default_route_tag_def graphic_def)
  then show ?thesis
    by (auto simp: effective_route_tag_def dest: non_blank_Some split: option.splits)
qed

text \<open>The test one label passes.\<close>

definition label_ok :: "bool \<Rightarrow> string \<Rightarrow> bool" where
  "label_ok allow l \<longleftrightarrow> l \<noteq> '''' \<and> (snd (cut_prefix l reserved_label_prefix) \<longrightarrow> allow)
     \<and> label_matches (fst (cut_prefix l reserved_label_prefix))"

lemma label_loop_Cons:
  "label_loop allow out (r # rs) =
    (if label_ok allow (trim_space r)
     then label_loop allow (if trim_space r \<in> set out then out else out @ [trim_space r]) rs
     else Inl (if trim_space r = '''' then EmptyLabel
               else if snd (cut_prefix (trim_space r) reserved_label_prefix) \<and> \<not> allow
               then ReservedLabel (trim_space r) else InvalidLabel (trim_space r)))"
  by (auto simp: Let_def label_ok_def split: prod.splits)

declare label_loop.simps(2) [simp del]

lemma label_loop_Inr:
  "label_loop allow out rs = Inr out' \<Longrightarrow> distinct out \<Longrightarrow>
    distinct out' \<and> set out' = set out \<union> trim_space ` set rs
    \<and> (\<forall>r \<in> set rs. label_ok allow (trim_space r))"
proof (induction rs arbitrary: out)
  case Nil
  then show ?case by simp
next
  case (Cons r rs)
  from Cons.prems(1) have ok: "label_ok allow (trim_space r)"
    and rec: "label_loop allow (if trim_space r \<in> set out then out else out @ [trim_space r]) rs = Inr out'"
    by (auto simp: label_loop_Cons split: if_splits)
  have "distinct (if trim_space r \<in> set out then out else out @ [trim_space r])"
    using Cons.prems(2) by simp
  from Cons.IH [OF rec this] ok show ?case by (auto split: if_splits)
qed

lemma label_loop_total:
  "(\<forall>r \<in> set rs. label_ok allow (trim_space r)) \<Longrightarrow> \<exists>out'. label_loop allow out rs = Inr out'"
  by (induction rs arbitrary: out) (auto simp: label_loop_Cons)

lemma normalize_labels_Inr:
  assumes "normalize_labels ls allow = Inr out"
  shows "sorted out" and "distinct out" and "length out \<le> max_labels"
    and "set out = trim_space ` set ls" and "\<forall>l \<in> set out. label_ok allow l"
proof -
  have "sorted out \<and> distinct out \<and> length out \<le> max_labels \<and> set out = trim_space ` set ls
    \<and> (\<forall>l \<in> set out. label_ok allow l)"
  proof (cases "ls = []")
    case True
    with assms show ?thesis by (simp add: normalize_labels_def)
  next
    case False
    with assms obtain x where x: "label_loop allow [] ls = Inr x" "length x \<le> max_labels"
      and out: "out = sort_strings x"
      by (auto simp: normalize_labels_def and_then_eq_Inr split: if_splits)
    from label_loop_Inr [OF x(1)] x(2) show ?thesis
      by (auto simp: out sorted_sort_strings)
  qed
  then show "sorted out" "distinct out" "length out \<le> max_labels"
    "set out = trim_space ` set ls" "\<forall>l \<in> set out. label_ok allow l"
    by blast+
qed

lemma normalize_labels_total:
  assumes "\<forall>l \<in> set ls. label_ok allow (trim_space l)" and "card (trim_space ` set ls) \<le> max_labels"
  shows "\<exists>out. normalize_labels ls allow = Inr out"
proof -
  obtain x where x: "label_loop allow [] ls = Inr x" using assms(1) label_loop_total by blast
  from label_loop_Inr [OF x] have "distinct x" and "set x = trim_space ` set ls" by auto
  then have "length x = card (trim_space ` set ls)" by (metis distinct_card)
  with x assms(2) show ?thesis by (simp add: normalize_labels_def)
qed

text \<open>The result is determined by the set of trimmed labels: order and repetition do not matter.\<close>

lemma normalize_labels_cong:
  assumes out: "normalize_labels ls allow = Inr out"
    and eq: "trim_space ` set ls' = trim_space ` set ls"
  shows "normalize_labels ls' allow = Inr out"
proof -
  note n = normalize_labels_Inr [OF out]
  have "\<forall>l \<in> set ls'. label_ok allow (trim_space l)" using n(4,5) eq by blast
  moreover have "card (trim_space ` set ls') \<le> max_labels"
    using n(2,3,4) eq by (metis distinct_card)
  ultimately obtain out' where out': "normalize_labels ls' allow = Inr out'"
    using normalize_labels_total by blast
  note n' = normalize_labels_Inr [OF out']
  have "out' = out" using sorted_distinct_set_unique [OF n'(1,2) n(1,2)] n(4) n'(4) eq by simp
  with out' show ?thesis by simp
qed

lemma merge_loop_spec:
  "distinct out \<Longrightarrow> distinct (merge_loop out rs)
    \<and> set (merge_loop out rs) = set out \<union> (trim_space ` set rs - {''''})"
  by (induction out rs rule: merge_loop.induct) (auto simp: Let_def)

text \<open>The labels a job requires, as a set: the app's (or its capabilities) and the action's.\<close>

definition required_label_set :: "deployment \<Rightarrow> action \<Rightarrow> string set" where
  "required_label_set d a =
    trim_space ` (set (if dep_labels d = [] then dep_capabilities d else dep_labels d)
      \<union> set (case act_runs_on a of Some r \<Rightarrow> r | None \<Rightarrow> (case act_capabilities a of Some c \<Rightarrow> c | None \<Rightarrow> [])))
    - {''''}"

lemma effective_required_labels_spec:
  "sorted (effective_required_labels d a) \<and> distinct (effective_required_labels d a)
    \<and> set (effective_required_labels d a) = required_label_set d a"
proof -
  have "set (merge_loop [] m) = trim_space ` set m - {''''}" "distinct (merge_loop [] m)" for m
    using merge_loop_spec [of "[]" m] by simp_all
  then show ?thesis
    by (auto simp: effective_required_labels_def required_label_set_def Let_def sorted_sort_strings
        image_Un)
qed

text \<open>An accepted source path is relative and never climbs: no empty, dot or dot-dot element.\<close>

lemma trim_char_hd: "trim_char c s \<noteq> [] \<Longrightarrow> hd (trim_char c s) \<noteq> c"
proof -
  assume ne: "trim_char c s \<noteq> []"
  let ?l = "dropWhile (\<lambda>x. x = c) s"
  have "prefix (trim_char c s) ?l"
    unfolding trim_char_def using suffix_dropWhile [of "\<lambda>x. x = c" "rev ?l"]
    by (simp add: suffix_to_prefix)
  then obtain zs where "?l = trim_char c s @ zs" by (auto simp: prefix_def)
  with ne have "hd (trim_char c s) = hd ?l" and "?l \<noteq> []" by (metis hd_append2, metis append_is_Nil_conv)
  then show ?thesis using hd_dropWhile [of "\<lambda>x. x = c" s] by metis
qed

lemma clean_elements_relative:
  assumes "\<not> prefix ''/'' v"
  defines "cs \<equiv> clean_elements False [] (split_at (CHR ''/'') v)"
  shows "(\<forall>e \<in> set cs. e \<noteq> '''' \<and> e \<noteq> ''.'' \<and> CHR ''/'' \<notin> set e)
    \<and> (hd cs \<noteq> ''..'' \<longrightarrow> cs \<noteq> [] \<longrightarrow> ''..'' \<notin> set cs)"
proof -
  have "clean_stack []" by (simp add: clean_stack_def)
  then have ok: "clean_stack (rev cs)"
    unfolding cs_def by (rule clean_elements_ok) (rule split_at_no_sep)
  then obtain k ns where "cs = replicate k ''..'' @ ns" "''..'' \<notin> set ns"
    by (auto simp: clean_stack_def)
  then have "hd cs \<noteq> ''..'' \<longrightarrow> cs \<noteq> [] \<longrightarrow> ''..'' \<notin> set cs"
    by (cases k) auto
  with ok show ?thesis by (simp add: clean_stack_def)
qed

lemma normalize_source_path_inside:
  assumes "normalize_source_path value = Inr p" and "p \<noteq> ''''"
  shows "\<forall>e \<in> set (split_at (CHR ''/'') p). e \<noteq> '''' \<and> e \<noteq> ''.'' \<and> e \<noteq> ''..''"
proof -
  define v where "v = trim_char (CHR ''/'')
          (trim_space (map (\<lambda>c. if c = CHR 0x5C then CHR ''/'' else c) value))"
  define cs where "cs = clean_elements False [] (split_at (CHR ''/'') v)"
  from assms have v: "v \<noteq> ''''" and p: "p = path_clean v" and good: "p \<noteq> ''.''"
    "p \<noteq> ''..''" "\<not> prefix ''../'' p"
    by (auto simp: normalize_source_path_def Let_def v_def split: if_splits)
  have "hd v \<noteq> CHR ''/''" using v trim_char_hd unfolding v_def by blast
  with v have rel: "\<not> prefix ''/'' v" by (cases v) auto
  have pj: "p = join_with ''/'' cs" using p v rel good(1) by (auto simp: path_clean_def Let_def cs_def split: if_splits)
  have ne: "cs \<noteq> []" using pj assms(2) by auto
  note cl = clean_elements_relative [OF rel, folded cs_def]
  have "hd cs \<noteq> ''..''"
  proof
    assume h: "hd cs = ''..''"
    show False using ne h pj good by (cases cs rule: remdups_adj.cases) auto
  qed
  with cl ne have "''..'' \<notin> set cs" by blast
  moreover have "split_at (CHR ''/'') p = cs"
    unfolding pj using ne cl by (intro split_join) auto
  ultimately show ?thesis using cl by auto
qed

lemma pin_execution_deployment_idem [simp]:
  "pin_execution_deployment (pin_execution_deployment d k) k = pin_execution_deployment d k"
  by (simp add: pin_execution_deployment_def dep_action_def mput_def split: option.splits)

lemma pin_execution_deployment_action:
  "dep_action (pin_execution_deployment d k) k' = (if k' = k then dep_action d k else None)"
  by (auto simp: pin_execution_deployment_def dep_action_def mput_def split: option.splits)

end
