(* ===== verification/Catalog.thy ===== *)
theory Catalog
  imports Contract
begin

text \<open>
  The release catalog (\<^verbatim>\<open>internal/catalog\<close>): active deployments, the identifiers of the active
  release of each app, release candidates, the append-only history and audit trail, and the last
  release of each source. The operations of \<^verbatim>\<open>FileCatalog\<close> are functions from the catalog they
  load to the catalog they write; loading normalises it.
\<close>

datatype catalog_error =
    DeploymentNotFound | ActionNotFound | ReleaseNotFound | ReleaseAlreadyActive
  | InvalidRollback | CandidateNotFound | CandidateInvalid string

record release_candidate =
  cand_deployment :: deployment
  cand_synced_at :: time

record source_marker =
  mark_workspace :: string
  mark_git_source :: string
  mark_commit :: string
  mark_released_at :: time

record audit_record =
  aud_id :: string
  aud_workspace :: string
  aud_git_source :: string
  aud_app :: string
  aud_kind :: string
  aud_detail :: string
  aud_actor :: string
  aud_created_at :: time

record history =
  hist_id :: string
  hist_workspace :: string
  hist_git_source :: string
  hist_app :: string
  hist_commit :: string
  hist_entrypoint :: string
  hist_source :: string
  hist_status :: string
  hist_deployment_id :: "string option"
  hist_message :: "string option"
  hist_created_by :: "string option"
  hist_object_uri :: string
  hist_deployment :: deployment
  hist_created_at :: time

record catalog =
  cat_deployments :: "(string, deployment) gomap"
  cat_active :: "(string, string) gomap"
  cat_candidates :: "(string, release_candidate) gomap"
  cat_history :: "history list"
  cat_audit :: "audit_record list"
  cat_markers :: "(string, source_marker) gomap"

definition new_catalog :: catalog where
  "new_catalog = \<lparr>cat_deployments = [], cat_active = [], cat_candidates = [], cat_history = [],
     cat_audit = [], cat_markers = []\<rparr>"

section \<open>Keys and defaults\<close>

definition deployment_key :: "string \<Rightarrow> string \<Rightarrow> string" where
  "deployment_key workspace app = normalize_workspace workspace @ ''/'' @ app"

definition source_release_key :: "string \<Rightarrow> string \<Rightarrow> string" where
  "source_release_key workspace git_source = normalize_workspace workspace @ ''/'' @ git_source"

definition release_candidate_key :: "string \<Rightarrow> string \<Rightarrow> string \<Rightarrow> string" where
  "release_candidate_key workspace git_source commit =
    normalize_workspace workspace @ ''/'' @ normalize_git_source git_source '''' @ ''/'' @ trim_space commit"

definition normalize_deployment_defaults :: "deployment \<Rightarrow> deployment" where
  "normalize_deployment_defaults d =
    d\<lparr>dep_tag := (if dep_tag d = '''' then default_route_tag else dep_tag d),
      dep_timeout_s := (if dep_timeout_s d = 0 then default_timeout_s else dep_timeout_s d),
      dep_script_lang := (if dep_script_lang d = '''' then ''typescript'' else dep_script_lang d)\<rparr>"

definition normalize_deployment_map :: "(string, deployment) gomap \<Rightarrow> (string, deployment) gomap" where
  "normalize_deployment_map ds =
    fold (\<lambda>(key, d) m.
      let d = normalize_deployment_defaults d;
          k = (if dep_app d = '''' then key else deployment_key (source_workspace d) (dep_app d))
      in mput k d m) ds []"

definition ensure_deployment_updated_at :: "deployment \<Rightarrow> time \<Rightarrow> deployment" where
  "ensure_deployment_updated_at d t =
    d\<lparr>dep_updated_at := (if dep_updated_at d = None then Some t else dep_updated_at d),
      dep_actions := map_option (mmap (\<lambda>_ a.
        if act_updated_at a = None then a\<lparr>act_updated_at := Some t\<rparr> else a)) (dep_actions d)\<rparr>"

section \<open>Matching a deployment with its history, and normalising a catalog\<close>

definition matches_published_deployment :: "deployment \<Rightarrow> history \<Rightarrow> bool" where
  "matches_published_deployment d h =
    (case (dep_deployment_id d, hist_deployment_id h) of
       (Some a, Some b) \<Rightarrow> trim_space a \<noteq> '''' \<and> a = b
     | _ \<Rightarrow>
       if dep_commit d \<noteq> hist_commit h then False
       else if dep_bundle_digest d \<noteq> '''' \<or> dep_bundle_digest (hist_deployment h) \<noteq> ''''
       then dep_bundle_digest d = dep_bundle_digest (hist_deployment h)
       else True)"

definition backfill_one :: "history list \<Rightarrow> string \<times> deployment \<Rightarrow> (string, string) gomap \<Rightarrow> (string, string) gomap" where
  "backfill_one hs kd active =
    (let (key, d) = kd in
     if trim_space (mget_or '''' active key) \<noteq> '''' then active
     else case find (\<lambda>h. deployment_key (hist_workspace h) (hist_app h) = key
                       \<and> matches_published_deployment d h) (rev hs) of
            None \<Rightarrow> active
          | Some h \<Rightarrow> mput key (hist_id h) active)"

definition backfill_active_history_ids :: "catalog \<Rightarrow> catalog" where
  "backfill_active_history_ids c =
    c\<lparr>cat_active := fold (backfill_one (cat_history c)) (cat_deployments c) (cat_active c)\<rparr>"

definition normalize_snapshot :: "catalog \<Rightarrow> catalog" where
  "normalize_snapshot c =
    backfill_active_history_ids (c\<lparr>cat_deployments := normalize_deployment_map (cat_deployments c)\<rparr>)"

section \<open>Publishing\<close>

definition new_app_version_id :: "call_env \<Rightarrow> string" where
  "new_app_version_id e = draw_id e ''version'' 0"

definition new_deployment_history :: "call_env \<Rightarrow> deployment \<Rightarrow> time \<Rightarrow> history" where
  "new_deployment_history e d created =
    (let source = trim_space (dep_source d) in
     \<lparr>hist_id = new_app_version_id e, hist_workspace = source_workspace d,
      hist_git_source = source_git_source d, hist_app = dep_app d, hist_commit = dep_commit d,
      hist_entrypoint = dep_entrypoint d,
      hist_source = (if source = '''' then ''external_sync'' else source),
      hist_status = ''deployed'', hist_deployment_id = dep_deployment_id d,
      hist_message = dep_message d, hist_created_by = dep_created_by d,
      hist_object_uri = dep_object_uri d, hist_deployment = d, hist_created_at = created\<rparr>)"

definition new_release_audit :: "history \<Rightarrow> audit_record" where
  "new_release_audit h =
    \<lparr>aud_id = hist_id h, aud_workspace = hist_workspace h, aud_git_source = hist_git_source h,
     aud_app = hist_app h, aud_kind = ''release_published'',
     aud_detail = (case non_blank (hist_message h) of Some m \<Rightarrow> m | None \<Rightarrow> ''commit '' @ hist_commit h),
     aud_actor = (case non_blank (hist_created_by h) of Some a \<Rightarrow> a | None \<Rightarrow> ''system''),
     aud_created_at = hist_created_at h\<rparr>"

definition prepare_publication :: "call_env \<Rightarrow> deployment \<Rightarrow> time \<Rightarrow> deployment \<times> history \<times> audit_record" where
  "prepare_publication e d released =
    (let released = non_zero_time released (clock e);
         d = ensure_deployment_updated_at (normalize_deployment_defaults d) released;
         h = new_deployment_history e d released
     in (d, h, new_release_audit h))"

definition release_marker :: "deployment \<Rightarrow> time \<Rightarrow> source_marker" where
  "release_marker d t = \<lparr>mark_workspace = source_workspace d, mark_git_source = source_git_source d,
     mark_commit = dep_commit d, mark_released_at = t\<rparr>"

definition file_publish_release :: "call_env \<Rightarrow> deployment \<Rightarrow> time \<Rightarrow> catalog \<Rightarrow> catalog \<times> deployment" where
  "file_publish_release e d released c0 =
    (let c = normalize_snapshot c0;
         (d, h, audit) = prepare_publication e d released;
         key = deployment_key (source_workspace d) (dep_app d);
         marker = release_marker d (hist_created_at h)
     in (c\<lparr>cat_deployments := mput key d (cat_deployments c),
           cat_active := mput key (hist_id h) (cat_active c),
           cat_history := cat_history c @ [h],
           cat_audit := cat_audit c @ [audit],
           cat_markers := mput (source_release_key (mark_workspace marker) (mark_git_source marker))
             marker (cat_markers c)\<rparr>, d))"

definition prepare_audit_record :: "call_env \<Rightarrow> audit_record \<Rightarrow> time \<Rightarrow> audit_record" where
  "prepare_audit_record e r created =
    r\<lparr>aud_created_at := non_zero_time (aud_created_at r) created,
      aud_id := (if aud_id r = '''' then new_app_version_id e else aud_id r)\<rparr>"

definition file_append_audit :: "call_env \<Rightarrow> audit_record \<Rightarrow> catalog \<Rightarrow> catalog" where
  "file_append_audit e r c0 =
    (let c = normalize_snapshot c0 in c\<lparr>cat_audit := cat_audit c @ [prepare_audit_record e r (clock e)]\<rparr>)"

definition file_audit_trail :: "string \<Rightarrow> string \<Rightarrow> catalog \<Rightarrow> audit_record list" where
  "file_audit_trail workspace git_source c =
    filter (\<lambda>r. aud_workspace r = workspace \<and> aud_git_source r = git_source) (cat_audit (normalize_snapshot c))"

definition file_get_deployment :: "string \<Rightarrow> string \<Rightarrow> catalog \<Rightarrow> catalog_error + deployment" where
  "file_get_deployment workspace app c =
    (case map_of (cat_deployments (normalize_snapshot c)) (deployment_key workspace app) of
       None \<Rightarrow> Inl DeploymentNotFound | Some d \<Rightarrow> Inr d)"

definition file_set_app_tag_override ::
    "call_env \<Rightarrow> string \<Rightarrow> string \<Rightarrow> string option \<Rightarrow> catalog \<Rightarrow> catalog_error + catalog \<times> deployment" where
  "file_set_app_tag_override e workspace app override c0 =
    (let c = normalize_snapshot c0; key = deployment_key workspace app in
     case map_of (cat_deployments c) key of
       None \<Rightarrow> Inl DeploymentNotFound
     | Some d \<Rightarrow> let d = d\<lparr>dep_tag_override := override, dep_updated_at := Some (clock e)\<rparr>
                 in Inr (c\<lparr>cat_deployments := mput key d (cat_deployments c)\<rparr>, d))"

definition file_set_action_tag_override ::
    "call_env \<Rightarrow> string \<Rightarrow> string \<Rightarrow> string \<Rightarrow> string option \<Rightarrow> catalog \<Rightarrow> catalog_error + catalog \<times> action" where
  "file_set_action_tag_override e workspace app akey override c0 =
    (let c = normalize_snapshot c0; key = deployment_key workspace app in
     case map_of (cat_deployments c) key of
       None \<Rightarrow> Inl DeploymentNotFound
     | Some d \<Rightarrow>
       (case dep_action d akey of
          None \<Rightarrow> Inl ActionNotFound
        | Some a \<Rightarrow>
          let a = a\<lparr>act_tag_override := override, act_updated_at := Some (clock e)\<rparr>;
              d = d\<lparr>dep_actions := map_option (mput akey a) (dep_actions d)\<rparr>
          in Inr (c\<lparr>cat_deployments := mput key d (cat_deployments c)\<rparr>, a)))"

section \<open>Rolling back\<close>

record rollback_request =
  rbr_workspace :: string
  rbr_app :: string
  rbr_release :: string
  rbr_actor :: string
  rbr_reason :: string
  rbr_at :: time

record rollback_result =
  rbx_target :: history
  rbx_previous_release :: string
  rbx_previous_commit :: string
  rbx_reason :: string
  rbx_at :: time
  rbx_audit :: audit_record

definition find_release :: "catalog \<Rightarrow> string \<Rightarrow> string \<Rightarrow> string \<Rightarrow> catalog_error + history" where
  "find_release c workspace app release =
    (case find (\<lambda>h. normalize_workspace (hist_workspace h) = normalize_workspace workspace
                  \<and> hist_app h = trim_space app \<and> hist_id h = trim_space release) (cat_history c) of
       None \<Rightarrow> Inl ReleaseNotFound | Some h \<Rightarrow> Inr h)"

definition prepare_rollback_request :: "call_env \<Rightarrow> rollback_request \<Rightarrow> catalog_error + rollback_request" where
  "prepare_rollback_request e r =
    (let r = r\<lparr>rbr_workspace := normalize_workspace (rbr_workspace r), rbr_app := trim_space (rbr_app r),
               rbr_release := trim_space (rbr_release r), rbr_actor := trim_space (rbr_actor r),
               rbr_reason := trim_space (rbr_reason r)\<rparr> in
     if rbr_app r = '''' \<or> rbr_release r = '''' \<or> rbr_actor r = '''' \<or> rbr_reason r = ''''
     then Inl InvalidRollback
     else Inr (r\<lparr>rbr_at := non_zero_time (rbr_at r) (clock e)\<rparr>))"

text \<open>\<^verbatim>\<open>firstNonEmpty\<close> of the catalog package, which trims its arguments.\<close>

fun first_non_blank :: "string list \<Rightarrow> string" where
  "first_non_blank [] = ''''"
| "first_non_blank (v # vs) = (if trim_space v \<noteq> '''' then trim_space v else first_non_blank vs)"

definition empty_as_none :: "string \<Rightarrow> string" where
  "empty_as_none v = (if trim_space v = '''' then ''none'' else trim_space v)"

definition release_git_source :: "history \<Rightarrow> string" where
  "release_git_source h = first_non_blank [hist_git_source h, source_git_source (hist_deployment h)]"

definition new_rollback_result ::
    "call_env \<Rightarrow> history \<Rightarrow> string \<Rightarrow> string \<Rightarrow> rollback_request \<Rightarrow> rollback_result" where
  "new_rollback_result e target prev_id prev_commit r =
    \<lparr>rbx_target = target, rbx_previous_release = prev_id, rbx_previous_commit = prev_commit,
     rbx_reason = rbr_reason r, rbx_at = rbr_at r,
     rbx_audit = prepare_audit_record e
       \<lparr>aud_id = '''', aud_workspace = rbr_workspace r, aud_git_source = release_git_source target,
        aud_app = rbr_app r, aud_kind = ''release_rolled_back'',
        aud_detail = ''active release '' @ empty_as_none prev_id @ '' -> '' @ hist_id target
          @ ''; reason: '' @ rbr_reason r,
        aud_actor = rbr_actor r, aud_created_at = rbr_at r\<rparr> (rbr_at r)\<rparr>"

definition apply_release_rollback ::
    "call_env \<Rightarrow> rollback_request \<Rightarrow> catalog \<Rightarrow> catalog_error + catalog \<times> rollback_result" where
  "apply_release_rollback e request c0 =
    (let c = normalize_snapshot c0 in
     and_then (prepare_rollback_request e request) (\<lambda>r.
     and_then (find_release c (rbr_workspace r) (rbr_app r) (rbr_release r)) (\<lambda>target.
       let key = deployment_key (rbr_workspace r) (rbr_app r);
           prev_id = mget_or '''' (cat_active c) key in
       if prev_id = hist_id target then Inl ReleaseAlreadyActive
       else
         let prev_commit = (case map_of (cat_deployments c) key of None \<Rightarrow> '''' | Some p \<Rightarrow> dep_commit p);
             marker = \<lparr>mark_workspace = rbr_workspace r, mark_git_source = release_git_source target,
                       mark_commit = hist_commit target, mark_released_at = rbr_at r\<rparr>;
             result = new_rollback_result e target prev_id prev_commit r
         in Inr (c\<lparr>cat_deployments := mput key (hist_deployment target) (cat_deployments c),
                   cat_active := mput key (hist_id target) (cat_active c),
                   cat_markers := mput (source_release_key (mark_workspace marker) (mark_git_source marker))
                     marker (cat_markers c),
                   cat_audit := cat_audit c @ [rbx_audit result]\<rparr>, result))))"

section \<open>Release candidates\<close>

definition prepare_release_candidate ::
    "call_env \<Rightarrow> deployment \<Rightarrow> time \<Rightarrow> catalog_error + release_candidate" where
  "prepare_release_candidate e d synced =
    (let synced = non_zero_time synced (clock e);
         d = normalize_deployment_defaults d;
         workspace = source_workspace d;
         git_source = source_git_source d in
     if trim_space git_source = '''' then Inl (CandidateInvalid ''git source id'')
     else if trim_space (dep_commit d) = '''' then Inl (CandidateInvalid ''commit'')
     else if trim_space (dep_app d) = '''' then Inl (CandidateInvalid ''app'')
     else Inr \<lparr>cand_deployment = d\<lparr>dep_workspace := workspace, dep_git_source := git_source\<rparr>,
               cand_synced_at = synced\<rparr>)"

definition candidate_key :: "release_candidate \<Rightarrow> string" where
  "candidate_key cand = release_candidate_key (source_workspace (cand_deployment cand))
     (source_git_source (cand_deployment cand)) (dep_commit (cand_deployment cand))"

definition validate_release_candidate :: "release_candidate \<Rightarrow> string \<Rightarrow> string \<Rightarrow> string \<Rightarrow> bool" where
  "validate_release_candidate cand workspace git_source commit \<longleftrightarrow>
    release_candidate_key workspace git_source commit = candidate_key cand"

definition file_save_release_candidate ::
    "call_env \<Rightarrow> deployment \<Rightarrow> time \<Rightarrow> catalog \<Rightarrow> catalog_error + catalog \<times> release_candidate" where
  "file_save_release_candidate e d synced c0 =
    and_then (prepare_release_candidate e d synced) (\<lambda>cand.
      let c = normalize_snapshot c0; key = candidate_key cand in
      case map_of (cat_candidates c) key of
        Some existing \<Rightarrow> Inr (c0, existing)
      | None \<Rightarrow> Inr (c\<lparr>cat_candidates := mput key cand (cat_candidates c)\<rparr>, cand))"

definition file_get_release_candidate ::
    "string \<Rightarrow> string \<Rightarrow> string \<Rightarrow> catalog \<Rightarrow> catalog_error + release_candidate" where
  "file_get_release_candidate workspace git_source commit c =
    (case map_of (cat_candidates (normalize_snapshot c)) (release_candidate_key workspace git_source commit) of
       None \<Rightarrow> Inl CandidateNotFound | Some cand \<Rightarrow> Inr cand)"

definition newer_candidate :: "release_candidate \<Rightarrow> release_candidate \<Rightarrow> bool" where
  "newer_candidate a b \<longleftrightarrow> cand_synced_at b < cand_synced_at a
     \<or> cand_synced_at a = cand_synced_at b
       \<and> dep_commit (cand_deployment b) < dep_commit (cand_deployment a)"

fun latest_candidate ::
    "string \<Rightarrow> string \<Rightarrow> release_candidate option \<Rightarrow> release_candidate list \<Rightarrow> release_candidate option" where
  "latest_candidate w g latest [] = latest"
| "latest_candidate w g latest (cand # cs) =
    (if source_workspace (cand_deployment cand) \<noteq> w \<or> source_git_source (cand_deployment cand) \<noteq> g
     then latest_candidate w g latest cs
     else case latest of
            None \<Rightarrow> latest_candidate w g (Some cand) cs
          | Some l \<Rightarrow> latest_candidate w g (Some (if newer_candidate cand l then cand else l)) cs)"

definition file_get_latest_release_candidate ::
    "string \<Rightarrow> string \<Rightarrow> catalog \<Rightarrow> catalog_error + release_candidate" where
  "file_get_latest_release_candidate workspace git_source c =
    (case latest_candidate (normalize_workspace workspace) (normalize_git_source git_source '''') None
            (mvals (cat_candidates (normalize_snapshot c))) of
       None \<Rightarrow> Inl CandidateNotFound | Some cand \<Rightarrow> Inr cand)"

section \<open>Importing a catalog\<close>

text \<open>The loops of \<^verbatim>\<open>MergeSnapshot\<close>: an entry of the imported catalog is added where the target has none.\<close>

definition merge_map :: "('k, 'v) gomap \<Rightarrow> ('k, 'v) gomap \<Rightarrow> ('k, 'v) gomap" where
  "merge_map target imported =
    fold (\<lambda>(k, v) m. if map_of m k = None then mput k v m else m) imported target"

definition merge_records :: "('r \<Rightarrow> string) \<Rightarrow> 'r list \<Rightarrow> 'r list \<Rightarrow> 'r list" where
  "merge_records ident target imported =
    fold (\<lambda>r out. if ident r \<in> ident ` set out then out else out @ [r]) imported target"

definition merge_snapshot :: "catalog \<Rightarrow> catalog \<Rightarrow> catalog" where
  "merge_snapshot target0 imported0 =
    (let t = normalize_snapshot target0; i = normalize_snapshot imported0 in
     t\<lparr>cat_deployments := merge_map (cat_deployments t) (cat_deployments i),
       cat_active := merge_map (cat_active t) (cat_active i),
       cat_candidates := merge_map (cat_candidates t) (cat_candidates i),
       cat_history := merge_records hist_id (cat_history t) (cat_history i),
       cat_audit := merge_records aud_id (cat_audit t) (cat_audit i),
       cat_markers := merge_map (cat_markers t) (cat_markers i)\<rparr>)"

section \<open>Lemmas\<close>

text \<open>The shape of a catalog after it was loaded: distinct keys, canonical entries.\<close>

definition canonical_entry :: "string \<times> deployment \<Rightarrow> bool" where
  "canonical_entry kd \<longleftrightarrow> normalize_deployment_defaults (snd kd) = snd kd
     \<and> (dep_app (snd kd) \<noteq> '''' \<longrightarrow> fst kd = deployment_key (source_workspace (snd kd)) (dep_app (snd kd)))"

definition catalog_ok :: "catalog \<Rightarrow> bool" where
  "catalog_ok c \<longleftrightarrow> map_ok (cat_deployments c) \<and> map_ok (cat_active c) \<and> map_ok (cat_candidates c)
     \<and> map_ok (cat_markers c) \<and> list_all canonical_entry (cat_deployments c)"

lemma deployment_key_norm [simp]:
  "deployment_key (normalize_workspace w) a = deployment_key w a"
  "deployment_key (source_workspace d) a = deployment_key (dep_workspace d) a"
  by (simp_all add: deployment_key_def source_workspace_def)

lemma normalize_deployment_defaults_idem [simp]:
  "normalize_deployment_defaults (normalize_deployment_defaults d) = normalize_deployment_defaults d"
  by (simp add: normalize_deployment_defaults_def default_route_tag_def default_timeout_s_def)

lemma normalize_deployment_defaults_frame [simp]:
  "dep_app (normalize_deployment_defaults d) = dep_app d"
  "dep_workspace (normalize_deployment_defaults d) = dep_workspace d"
  "dep_git_source (normalize_deployment_defaults d) = dep_git_source d"
  "dep_commit (normalize_deployment_defaults d) = dep_commit d"
  "dep_bundle_digest (normalize_deployment_defaults d) = dep_bundle_digest d"
  "dep_actions (normalize_deployment_defaults d) = dep_actions d"
  "source_workspace (normalize_deployment_defaults d) = source_workspace d"
  "source_git_source (normalize_deployment_defaults d) = source_git_source d"
  by (simp_all add: normalize_deployment_defaults_def source_workspace_def source_git_source_def)

lemma ensure_deployment_updated_at_frame [simp]:
  "dep_app (ensure_deployment_updated_at d t) = dep_app d"
  "dep_workspace (ensure_deployment_updated_at d t) = dep_workspace d"
  "dep_git_source (ensure_deployment_updated_at d t) = dep_git_source d"
  "dep_commit (ensure_deployment_updated_at d t) = dep_commit d"
  "dep_bundle_digest (ensure_deployment_updated_at d t) = dep_bundle_digest d"
  "source_workspace (ensure_deployment_updated_at d t) = source_workspace d"
  "source_git_source (ensure_deployment_updated_at d t) = source_git_source d"
  "normalize_deployment_defaults (ensure_deployment_updated_at d t)
    = ensure_deployment_updated_at (normalize_deployment_defaults d) t"
  by (simp_all add: ensure_deployment_updated_at_def source_workspace_def source_git_source_def
      normalize_deployment_defaults_def)

definition normal_entry :: "string \<times> deployment \<Rightarrow> string \<times> deployment" where
  "normal_entry kd = (let d = normalize_deployment_defaults (snd kd) in
     (if dep_app d = '''' then fst kd else deployment_key (source_workspace d) (dep_app d), d))"

lemma normalize_deployment_map_eq:
  "normalize_deployment_map ds = fold (\<lambda>(k, d). mput k d) (map normal_entry ds) []"
  unfolding normalize_deployment_map_def fold_map
  by (rule fold_cong) (auto simp: normal_entry_def fun_eq_iff Let_def)

lemma canonical_normal_entry: "canonical_entry (normal_entry kd)"
  by (simp add: canonical_entry_def normal_entry_def Let_def)

lemma normal_entry_canonical: "canonical_entry kd \<Longrightarrow> normal_entry kd = kd"
  by (cases kd) (auto simp: canonical_entry_def normal_entry_def Let_def)

lemma fold_mput_ok:
  "map_ok m \<Longrightarrow> list_all P m \<Longrightarrow> list_all P es \<Longrightarrow>
    map_ok (fold (\<lambda>(k, v). mput k v) es m) \<and> list_all P (fold (\<lambda>(k, v). mput k v) es m)"
proof (induction es arbitrary: m)
  case Nil
  then show ?case by simp
next
  case (Cons a es)
  obtain k v where a: "a = (k, v)" by (cases a)
  have "list_all P (mput k v m)"
    using set_mput [of k v m] Cons.prems a by (auto simp: list_all_iff)
  with Cons a show ?case by (simp add: map_ok_mput)
qed

lemma normalize_deployment_map_canonical:
  "map_ok (normalize_deployment_map ds)" "list_all canonical_entry (normalize_deployment_map ds)"
  using fold_mput_ok [of "[]" canonical_entry "map normal_entry ds"]
  by (simp_all add: normalize_deployment_map_eq list_all_iff canonical_normal_entry)

lemma normalize_deployment_map_id:
  assumes "map_ok ds" and "list_all canonical_entry ds"
  shows "normalize_deployment_map ds = ds"
proof -
  have "map normal_entry ds = ds"
    using assms(2) by (simp add: list_all_iff map_idI normal_entry_canonical)
  then show ?thesis using fold_mput_id [of "[]" ds] assms(1)
    by (simp add: normalize_deployment_map_eq)
qed

lemma backfill_frame [simp]:
  "cat_deployments (backfill_active_history_ids c) = cat_deployments c"
  "cat_candidates (backfill_active_history_ids c) = cat_candidates c"
  "cat_history (backfill_active_history_ids c) = cat_history c"
  "cat_audit (backfill_active_history_ids c) = cat_audit c"
  "cat_markers (backfill_active_history_ids c) = cat_markers c"
  by (simp_all add: backfill_active_history_ids_def)

lemma normalize_snapshot_frame [simp]:
  "cat_deployments (normalize_snapshot c) = normalize_deployment_map (cat_deployments c)"
  "cat_candidates (normalize_snapshot c) = cat_candidates c"
  "cat_history (normalize_snapshot c) = cat_history c"
  "cat_audit (normalize_snapshot c) = cat_audit c"
  "cat_markers (normalize_snapshot c) = cat_markers c"
  by (simp_all add: normalize_snapshot_def)

lemma normalize_deployments_id:
  "catalog_ok c \<Longrightarrow> normalize_deployment_map (cat_deployments c) = cat_deployments c"
  by (simp add: catalog_ok_def normalize_deployment_map_id)

text \<open>Backfilling keeps every identifier that is not blank and adds only those of matching history.\<close>

lemma backfill_one_keeps:
  "mget_or '''' a k = v \<Longrightarrow> trim_space v \<noteq> '''' \<Longrightarrow> map_of (backfill_one hs kd a) k = Some v"
  by (cases kd) (auto simp: backfill_one_def Let_def mget_or_def split: option.splits)

lemma backfill_one_new:
  assumes "map_of (backfill_one hs kd a) k = Some v"
  shows "map_of a k = Some v \<or> (\<exists>h \<in> set hs. v = hist_id h \<and> k = deployment_key (hist_workspace h) (hist_app h))"
proof -
  obtain key d where kd: "kd = (key, d)" by (cases kd)
  show ?thesis
  proof (cases "find (\<lambda>h. deployment_key (hist_workspace h) (hist_app h) = key
                       \<and> matches_published_deployment d h) (rev hs)")
    case None
    with assms show ?thesis by (auto simp: backfill_one_def kd split: if_splits)
  next
    case (Some h)
    then have "h \<in> set hs" and "deployment_key (hist_workspace h) (hist_app h) = key"
      by (auto simp: find_Some_iff) (metis nth_mem set_rev length_rev)
    with Some assms show ?thesis by (auto simp: backfill_one_def kd split: if_splits)
  qed
qed

lemma map_ok_backfill_one: "map_ok a \<Longrightarrow> map_ok (backfill_one hs kd a)"
  by (cases kd) (auto simp: backfill_one_def intro: map_ok_mput split: option.splits)

lemma backfill_fold:
  "map_ok a \<Longrightarrow> map_ok (fold (backfill_one hs) ds a)"
  "mget_or '''' a k = v \<Longrightarrow> trim_space v \<noteq> '''' \<Longrightarrow> map_of (fold (backfill_one hs) ds a) k = Some v"
  "map_of (fold (backfill_one hs) ds a) k = Some w \<Longrightarrow>
     map_of a k = Some w \<or> (\<exists>h \<in> set hs. w = hist_id h \<and> k = deployment_key (hist_workspace h) (hist_app h))"
proof (induction ds arbitrary: a)
  case Nil
  { case 1 then show ?case by simp }
  { case 2 then show ?case by (auto simp: mget_or_def split: option.splits) }
  { case 3 then show ?case by simp }
next
  case (Cons kd ds)
  { case 1 then show ?case using Cons.IH(1) by (simp add: map_ok_backfill_one) }
  { case 2
    then have "mget_or '''' (backfill_one hs kd a) k = v"
      using backfill_one_keeps [of a k v hs kd] by (simp add: mget_or_def)
    with 2 Cons.IH(2) show ?case by simp }
  { case 3
    then show ?case using Cons.IH(3) [of "backfill_one hs kd a"] backfill_one_new [of hs kd a k w]
      by auto }
qed

lemma catalog_ok_normalize: "map_ok (cat_active c) \<Longrightarrow> map_ok (cat_candidates c) \<Longrightarrow>
    map_ok (cat_markers c) \<Longrightarrow> catalog_ok (normalize_snapshot c)"
  by (simp add: catalog_ok_def normalize_deployment_map_canonical normalize_snapshot_def
      backfill_active_history_ids_def backfill_fold(1))

lemma catalog_ok_normalize_ok: "catalog_ok c \<Longrightarrow> catalog_ok (normalize_snapshot c)"
  by (rule catalog_ok_normalize) (simp_all add: catalog_ok_def)

lemma cat_active_normalize:
  "mget_or '''' (cat_active c) k = v \<Longrightarrow> trim_space v \<noteq> '''' \<Longrightarrow>
    map_of (cat_active (normalize_snapshot c)) k = Some v"
  by (simp add: normalize_snapshot_def backfill_active_history_ids_def backfill_fold(2))

end
