(* ===== verification/Catalog_Invariant.thy ===== *)
theory Catalog_Invariant
  imports Catalog
begin

text \<open>
  What the release catalog promises. A catalog reached from an empty one by the operations of
  \<^verbatim>\<open>FileCatalog\<close> is consistent: loading it changes nothing, every app has one active release, that
  release is an entry of the history, and the app's deployment is the one the entry recorded, up to
  the route tags an operator overrode.
\<close>

text \<open>A deployment without what the tag overrides write.\<close>

definition plain_action :: "action \<Rightarrow> action" where
  "plain_action a = a\<lparr>act_tag_override := None, act_updated_at := None\<rparr>"

definition plain_deployment :: "deployment \<Rightarrow> deployment" where
  "plain_deployment d = d\<lparr>dep_tag_override := None, dep_updated_at := None,
     dep_actions := map_option (mmap (\<lambda>_. plain_action)) (dep_actions d)\<rparr>"

definition history_key :: "history \<Rightarrow> string" where
  "history_key h = deployment_key (hist_workspace h) (hist_app h)"

definition history_ok :: "history \<Rightarrow> bool" where
  "history_ok h \<longleftrightarrow> hist_workspace h = source_workspace (hist_deployment h)
     \<and> hist_app h = dep_app (hist_deployment h) \<and> hist_commit h = dep_commit (hist_deployment h)
     \<and> hist_deployment_id h = dep_deployment_id (hist_deployment h)
     \<and> normalize_deployment_defaults (hist_deployment h) = hist_deployment h
     \<and> (case dep_actions (hist_deployment h) of None \<Rightarrow> True | Some as \<Rightarrow> map_ok as)
     \<and> hist_id h \<noteq> '''' \<and> trim_space (hist_id h) = hist_id h"

definition active_ok :: "catalog \<Rightarrow> string \<Rightarrow> deployment \<Rightarrow> bool" where
  "active_ok c k d \<longleftrightarrow> (\<exists>h \<in> set (cat_history c). map_of (cat_active c) k = Some (hist_id h)
     \<and> history_key h = k \<and> plain_deployment d = plain_deployment (hist_deployment h))"

definition catalog_inv :: "catalog \<Rightarrow> bool" where
  "catalog_inv c \<longleftrightarrow> catalog_ok c \<and> (\<forall>h \<in> set (cat_history c). history_ok h)
     \<and> distinct (map hist_id (cat_history c))
     \<and> set (mkeys (cat_active c)) = set (mkeys (cat_deployments c))
     \<and> (\<forall>k d. map_of (cat_deployments c) k = Some d \<longrightarrow> active_ok c k d)"

lemma catalog_invD:
  assumes "catalog_inv c"
  shows "catalog_ok c" "h \<in> set (cat_history c) \<Longrightarrow> history_ok h"
    "distinct (map hist_id (cat_history c))"
    "dom (map_of (cat_active c)) = dom (map_of (cat_deployments c))"
    "map_of (cat_deployments c) k = Some d \<Longrightarrow> active_ok c k d"
  using assms by (auto simp: catalog_inv_def set_mkeys)

lemma catalog_inv_new: "catalog_inv new_catalog"
  by (simp add: catalog_inv_def new_catalog_def catalog_ok_def mkeys_def)

text \<open>Loading a consistent catalog is the identity.\<close>

lemma backfill_one_id:
  "trim_space (mget_or '''' a (fst kd)) \<noteq> '''' \<Longrightarrow> backfill_one hs kd a = a"
  by (cases kd) (simp add: backfill_one_def)

lemma backfill_fold_id:
  "(\<forall>kd \<in> set ds. trim_space (mget_or '''' a (fst kd)) \<noteq> '''') \<Longrightarrow> fold (backfill_one hs) ds a = a"
  by (induction ds) (simp_all add: backfill_one_id)

lemma normalize_snapshot_id:
  assumes "catalog_inv c"
  shows "normalize_snapshot c = c"
proof -
  have "trim_space (mget_or '''' (cat_active c) k) \<noteq> ''''" if "(k, d) \<in> set (cat_deployments c)" for k d
  proof -
    from that assms have "map_of (cat_deployments c) k = Some d"
      by (simp add: catalog_inv_def catalog_ok_def map_of_eq_Some_iff_mem)
    with catalog_invD(5) [OF assms this] catalog_invD(2) [OF assms] show ?thesis
      by (auto simp: active_ok_def mget_or_def history_ok_def)
  qed
  then have "fold (backfill_one (cat_history c)) (cat_deployments c) (cat_active c) = cat_active c"
    by (intro backfill_fold_id) auto
  with normalize_deployments_id [OF catalog_invD(1) [OF assms]] show ?thesis
    by (simp add: normalize_snapshot_def backfill_active_history_ids_def)
qed

text \<open>
  The steps. A publication draws an identifier no release has; an import brings a catalog that is
  consistent itself and records the same release under the same identifier.
\<close>

definition fresh_version :: "call_env \<Rightarrow> catalog \<Rightarrow> bool" where
  "fresh_version e c \<longleftrightarrow> new_app_version_id e \<notin> hist_id ` set (cat_history c)
     \<and> new_app_version_id e \<noteq> '''' \<and> trim_space (new_app_version_id e) = new_app_version_id e"

definition deployment_ok :: "deployment \<Rightarrow> bool" where
  "deployment_ok d \<longleftrightarrow> (case dep_actions d of None \<Rightarrow> True | Some as \<Rightarrow> map_ok as)"

inductive catalog_step :: "catalog \<Rightarrow> catalog \<Rightarrow> bool" where
  publish: "fresh_version e c \<Longrightarrow> deployment_ok d \<Longrightarrow> catalog_step c (fst (file_publish_release e d t c))"
| app_tag: "file_set_app_tag_override e w a ov c = Inr (c', d) \<Longrightarrow> catalog_step c c'"
| action_tag: "file_set_action_tag_override e w a k ov c = Inr (c', act) \<Longrightarrow> catalog_step c c'"
| rollback: "apply_release_rollback e r c = Inr (c', res) \<Longrightarrow> catalog_step c c'"
| save_candidate: "file_save_release_candidate e d t c = Inr (c', cand) \<Longrightarrow> catalog_step c c'"
| audit: "catalog_step c (file_append_audit e r c)"
| import_snapshot: "catalog_inv i \<Longrightarrow>
    \<forall>h \<in> set (cat_history c). \<forall>h' \<in> set (cat_history i). hist_id h = hist_id h' \<longrightarrow> h = h' \<Longrightarrow>
    catalog_step c (merge_snapshot c i)"

inductive catalog_reachable :: "catalog \<Rightarrow> bool" where
  start: "catalog_reachable new_catalog"
| step: "catalog_reachable c \<Longrightarrow> catalog_step c c' \<Longrightarrow> catalog_reachable c'"

section \<open>Each step keeps the invariant\<close>

lemma mmap_mput_same:
  "map_of m k = Some b \<Longrightarrow> f k a = f k b \<Longrightarrow> mmap f (mput k a m) = mmap f m"
  by (induction m) (auto simp: mmap_def mput_def)

lemma plain_deployment_frame:
  "plain_deployment d = plain_deployment d' \<Longrightarrow> dep_app d = dep_app d' \<and> dep_workspace d = dep_workspace d'
    \<and> dep_commit d = dep_commit d' \<and> dep_tag d = dep_tag d' \<and> dep_timeout_s d = dep_timeout_s d'
    \<and> dep_script_lang d = dep_script_lang d' \<and> dep_bundle_digest d = dep_bundle_digest d'
    \<and> dep_deployment_id d = dep_deployment_id d' \<and> dep_entrypoint d = dep_entrypoint d'"
proof -
  assume eq: "plain_deployment d = plain_deployment d'"
  have "f (plain_deployment d) = f (plain_deployment d')" for f :: "deployment \<Rightarrow> string"
    by (simp add: eq)
  from this [of dep_app] this [of dep_workspace] this [of dep_commit] this [of dep_tag]
    this [of dep_script_lang] this [of dep_bundle_digest] this [of dep_entrypoint]
    arg_cong [OF eq, of dep_timeout_s] arg_cong [OF eq, of dep_deployment_id]
  show ?thesis by (simp add: plain_deployment_def)
qed

text \<open>Writing the active entry of one app, the way publication and rollback do.\<close>

lemma catalog_inv_activate:
  assumes inv: "catalog_inv c" and h: "h \<in> set hs" and k: "history_key h = k"
    and hs: "set (cat_history c) \<subseteq> set hs" "\<forall>h \<in> set hs. history_ok h" "distinct (map hist_id hs)"
  shows "catalog_inv (c\<lparr>cat_deployments := mput k (hist_deployment h) (cat_deployments c),
    cat_active := mput k (hist_id h) (cat_active c), cat_history := hs, cat_audit := au,
    cat_markers := mput mk mv (cat_markers c)\<rparr>)" (is "catalog_inv ?c")
proof -
  from h hs(2) have ok: "history_ok h" by blast
  then have can: "canonical_entry (k, hist_deployment h)"
    using k by (auto simp: canonical_entry_def history_ok_def history_key_def)
  from catalog_invD(1) [OF inv] have cok: "map_ok (cat_deployments c)" "map_ok (cat_active c)"
    "map_ok (cat_candidates c)" "map_ok (cat_markers c)" "list_all canonical_entry (cat_deployments c)"
    by (simp_all add: catalog_ok_def)
  have "list_all canonical_entry (mput k (hist_deployment h) (cat_deployments c))"
    using set_mput [of k "hist_deployment h" "cat_deployments c"] cok(5) can by (auto simp: list_all_iff)
  with cok have "catalog_ok ?c" by (simp add: catalog_ok_def map_ok_mput)
  moreover have "active_ok ?c k' d" if "map_of (cat_deployments ?c) k' = Some d" for k' d
  proof (cases "k' = k")
    case True
    with that h k show ?thesis by (auto simp: active_ok_def)
  next
    case False
    with that have "map_of (cat_deployments c) k' = Some d" by simp
    from catalog_invD(5) [OF inv this] False hs(1) show ?thesis by (auto simp: active_ok_def)
  qed
  ultimately show ?thesis using hs catalog_invD(4) [OF inv]
    by (simp add: catalog_inv_def set_mkeys)
qed

lemma ensure_updated_plain:
  "plain_deployment (ensure_deployment_updated_at d t) = plain_deployment d"
proof -
  have "plain_action (if act_updated_at a = None then a\<lparr>act_updated_at := Some t\<rparr> else a) = plain_action a" for a
    by (simp add: plain_action_def)
  then have "mmap (\<lambda>_. plain_action) (mmap (\<lambda>_ a. if act_updated_at a = None
      then a\<lparr>act_updated_at := Some t\<rparr> else a) m) = mmap (\<lambda>_. plain_action) m" for m :: "(string, action) gomap"
    by (simp add: mmap_def case_prod_beta)
  then show ?thesis by (simp add: plain_deployment_def ensure_deployment_updated_at_def option.map_comp comp_def)
qed

lemma deployment_ok_prepare:
  "deployment_ok d \<Longrightarrow> deployment_ok (ensure_deployment_updated_at (normalize_deployment_defaults d) t)"
  by (cases "dep_actions d")
    (simp_all add: deployment_ok_def ensure_deployment_updated_at_def normalize_deployment_defaults_def)

lemma new_history_ok:
  assumes "normalize_deployment_defaults d = d" and "deployment_ok d" and "fresh_version e c"
  shows "history_ok (new_deployment_history e d t)"
  using assms by (simp add: history_ok_def new_deployment_history_def fresh_version_def Let_def deployment_ok_def)

lemma new_history_simps [simp]:
  "hist_deployment (new_deployment_history e d t) = d"
  "hist_id (new_deployment_history e d t) = new_app_version_id e"
  "hist_created_at (new_deployment_history e d t) = t"
  "history_key (new_deployment_history e d t) = deployment_key (source_workspace d) (dep_app d)"
  by (simp_all add: new_deployment_history_def history_key_def Let_def)

lemma catalog_inv_publish:
  assumes inv: "catalog_inv c" and f: "fresh_version e c" and d: "deployment_ok d"
  shows "catalog_inv (fst (file_publish_release e d t c))"
proof -
  let ?r = "non_zero_time t (clock e)"
  let ?d = "ensure_deployment_updated_at (normalize_deployment_defaults d) ?r"
  let ?h = "new_deployment_history e ?d ?r"
  have "normalize_deployment_defaults ?d = ?d" by simp
  from new_history_ok [OF this deployment_ok_prepare [OF d] f] catalog_invD(2) [OF inv]
  have "\<forall>h \<in> set (cat_history c @ [?h]). history_ok h" by auto
  moreover have "distinct (map hist_id (cat_history c @ [?h]))"
    using catalog_invD(3) [OF inv] f by (auto simp: fresh_version_def)
  ultimately show ?thesis
    using catalog_inv_activate [OF inv, of ?h "cat_history c @ [?h]" "deployment_key (source_workspace d) (dep_app d)"]
    by (simp add: file_publish_release_def normalize_snapshot_id [OF inv] prepare_publication_def Let_def subset_insertI)
qed

lemma find_release_Inr:
  "find_release c w a r = Inr h \<Longrightarrow> h \<in> set (cat_history c)
    \<and> history_key h = deployment_key w (trim_space a) \<and> hist_app h = trim_space a \<and> hist_id h = trim_space r"
  by (auto simp: find_release_def find_Some_iff history_key_def deployment_key_def split: option.splits)

text \<open>The parts of a successful rollback.\<close>

lemma apply_release_rollback_Inr:
  assumes "catalog_inv c" and "apply_release_rollback e r c = Inr (c', res)"
  obtains h mk mv where "h \<in> set (cat_history c)"
    "history_key h = deployment_key (rbr_workspace r) (trim_space (rbr_app r))"
    "hist_app h = trim_space (rbr_app r)" "hist_id h = trim_space (rbr_release r)"
    "rbx_target res = h"
    "map_of (cat_active c) (history_key h) \<noteq> Some (hist_id h)"
    "c' = c\<lparr>cat_deployments := mput (history_key h) (hist_deployment h) (cat_deployments c),
      cat_active := mput (history_key h) (hist_id h) (cat_active c), cat_history := cat_history c,
      cat_audit := cat_audit c @ [rbx_audit res], cat_markers := mput mk mv (cat_markers c)\<rparr>"
proof -
  have n: "normalize_snapshot c = c" using assms(1) by (rule normalize_snapshot_id)
  from assms(2) obtain r' h where r': "prepare_rollback_request e r = Inr r'"
    and h: "find_release c (rbr_workspace r') (rbr_app r') (rbr_release r') = Inr h"
    and rest: "mget_or '''' (cat_active c) (deployment_key (rbr_workspace r') (rbr_app r')) \<noteq> hist_id h"
    "c' = c\<lparr>cat_deployments := mput (deployment_key (rbr_workspace r') (rbr_app r')) (hist_deployment h) (cat_deployments c),
      cat_active := mput (deployment_key (rbr_workspace r') (rbr_app r')) (hist_id h) (cat_active c),
      cat_markers := mput (source_release_key (rbr_workspace r') (release_git_source h))
        \<lparr>mark_workspace = rbr_workspace r', mark_git_source = release_git_source h,
         mark_commit = hist_commit h, mark_released_at = rbr_at r'\<rparr> (cat_markers c),
      cat_audit := cat_audit c @ [rbx_audit res]\<rparr>" "rbx_target res = h"
    unfolding apply_release_rollback_def n and_then_eq_Inr Let_def
    by (auto simp: new_rollback_result_def split: if_splits)
  have r: "rbr_workspace r' = normalize_workspace (rbr_workspace r)" "rbr_app r' = trim_space (rbr_app r)"
    "rbr_release r' = trim_space (rbr_release r)"
    using r' by (auto simp: prepare_rollback_request_def Let_def split: if_splits)
  note fr = find_release_Inr [OF h]
  have key: "history_key h = deployment_key (rbr_workspace r') (rbr_app r')"
    using fr r by simp
  show thesis
  proof (rule that)
    show "h \<in> set (cat_history c)" using fr by simp
    show "history_key h = deployment_key (rbr_workspace r) (trim_space (rbr_app r))" using key r by simp
    show "hist_app h = trim_space (rbr_app r)" "hist_id h = trim_space (rbr_release r)" using fr r by simp_all
    show "rbx_target res = h" by fact
    show "map_of (cat_active c) (history_key h) \<noteq> Some (hist_id h)"
      using rest(1) key by (auto simp: mget_or_def)
    show "c' = c\<lparr>cat_deployments := mput (history_key h) (hist_deployment h) (cat_deployments c),
      cat_active := mput (history_key h) (hist_id h) (cat_active c), cat_history := cat_history c,
      cat_audit := cat_audit c @ [rbx_audit res],
      cat_markers := mput (source_release_key (rbr_workspace r') (release_git_source h))
        \<lparr>mark_workspace = rbr_workspace r', mark_git_source = release_git_source h,
         mark_commit = hist_commit h, mark_released_at = rbr_at r'\<rparr> (cat_markers c)\<rparr>"
      using rest(2) key by simp
  qed
qed

lemma catalog_inv_rollback:
  assumes inv: "catalog_inv c" and rb: "apply_release_rollback e r c = Inr (c', res)"
  shows "catalog_inv c'"
  using inv rb
proof (rule apply_release_rollback_Inr)
  fix h mk mv
  assume h: "h \<in> set (cat_history c)" and c': "c' = c\<lparr>cat_deployments := mput (history_key h) (hist_deployment h) (cat_deployments c),
      cat_active := mput (history_key h) (hist_id h) (cat_active c), cat_history := cat_history c,
      cat_audit := cat_audit c @ [rbx_audit res], cat_markers := mput mk mv (cat_markers c)\<rparr>"
  show ?thesis unfolding c'
    using catalog_inv_activate [OF inv h refl] catalog_invD [OF inv] by blast
qed

lemma normalize_defaults_id_iff:
  "normalize_deployment_defaults d = d \<longleftrightarrow> dep_tag d \<noteq> '''' \<and> dep_timeout_s d \<noteq> 0 \<and> dep_script_lang d \<noteq> ''''"
  by (cases d) (auto simp: normalize_deployment_defaults_def default_route_tag_def default_timeout_s_def)

text \<open>Rewriting the active deployment of an app without touching what was released.\<close>

lemma catalog_inv_override:
  assumes inv: "catalog_inv c" and d: "map_of (cat_deployments c) k = Some d"
    and p: "plain_deployment d' = plain_deployment d"
  shows "catalog_inv (c\<lparr>cat_deployments := mput k d' (cat_deployments c)\<rparr>)" (is "catalog_inv ?c")
proof -
  note fr = plain_deployment_frame [OF p]
  from catalog_invD(1) [OF inv] have cok: "map_ok (cat_deployments c)" "list_all canonical_entry (cat_deployments c)"
    by (simp_all add: catalog_ok_def)
  with d have "canonical_entry (k, d)"
    by (auto simp: list_all_iff map_of_eq_Some_iff_mem)
  then have "canonical_entry (k, d')"
    using fr by (simp add: canonical_entry_def normalize_defaults_id_iff source_workspace_def)
  then have "list_all canonical_entry (mput k d' (cat_deployments c))"
    using set_mput [of k d' "cat_deployments c"] cok(2) by (auto simp: list_all_iff)
  with catalog_invD(1) [OF inv] have "catalog_ok ?c" by (simp add: catalog_ok_def map_ok_mput)
  moreover have "active_ok ?c k'' d''" if "map_of (cat_deployments ?c) k'' = Some d''" for k'' d''
    using that catalog_invD(5) [OF inv] d p by (auto simp: active_ok_def split: if_splits)
  ultimately show ?thesis using catalog_invD [OF inv] d by (auto simp: catalog_inv_def set_mkeys)
qed

lemma catalog_inv_app_tag:
  assumes "catalog_inv c" and "file_set_app_tag_override e w a ov c = Inr (c', d)"
  shows "catalog_inv c'"
  using assms(2) catalog_inv_override [OF assms(1)]
  by (auto simp: file_set_app_tag_override_def normalize_snapshot_id [OF assms(1)] Let_def
      plain_deployment_def split: option.splits)

lemma catalog_inv_action_tag:
  assumes "catalog_inv c" and "file_set_action_tag_override e w a k ov c = Inr (c', act)"
  shows "catalog_inv c'"
proof -
  from assms(2) obtain d b as where d: "map_of (cat_deployments c) (deployment_key w a) = Some d"
    and b: "dep_actions d = Some as" "map_of as k = Some b"
    and c': "c' = c\<lparr>cat_deployments := mput (deployment_key w a)
      (d\<lparr>dep_actions := Some (mput k (b\<lparr>act_tag_override := ov, act_updated_at := Some (clock e)\<rparr>) as)\<rparr>)
      (cat_deployments c)\<rparr>"
    by (auto simp: file_set_action_tag_override_def normalize_snapshot_id [OF assms(1)] Let_def dep_action_def
        split: option.splits)
  have "plain_action (b\<lparr>act_tag_override := ov, act_updated_at := Some (clock e)\<rparr>) = plain_action b"
    by (simp add: plain_action_def)
  with b show ?thesis unfolding c'
    by (intro catalog_inv_override [OF assms(1) d])
      (simp add: plain_deployment_def mmap_mput_same)
qed

lemma catalog_inv_frame:
  assumes "catalog_inv c" and "map_ok cands" 
  shows "catalog_inv (c\<lparr>cat_candidates := cands, cat_audit := au\<rparr>)"
  using assms by (simp add: catalog_inv_def catalog_ok_def active_ok_def)

lemma catalog_inv_candidate:
  assumes "catalog_inv c" and "file_save_release_candidate e d t c = Inr (c', cand)"
  shows "catalog_inv c'"
proof -
  have "catalog_inv (c\<lparr>cat_candidates := mput k v (cat_candidates c)\<rparr>)" for k v
    using catalog_inv_frame [OF assms(1), of "mput k v (cat_candidates c)" "cat_audit c"]
      catalog_invD(1) [OF assms(1)] by (simp add: catalog_ok_def map_ok_mput)
  with assms show ?thesis
    by (auto simp: file_save_release_candidate_def and_then_eq_Inr normalize_snapshot_id [OF assms(1)] Let_def
        split: option.splits)
qed

lemma catalog_inv_audit: "catalog_inv c \<Longrightarrow> catalog_inv (file_append_audit e r c)"
  using catalog_inv_frame [of c "cat_candidates c"]
  by (simp add: file_append_audit_def normalize_snapshot_id Let_def catalog_inv_def catalog_ok_def)

section \<open>Merging\<close>

lemma merge_map_simps [simp]:
  "merge_map t [] = t"
  "merge_map t ((k, v) # i) = merge_map (if map_of t k = None then mput k v t else t) i"
  by (simp_all add: merge_map_def)

lemma map_of_merge_map: "map_of (merge_map t i) k = (case map_of t k of Some v \<Rightarrow> Some v | None \<Rightarrow> map_of i k)"
proof (induction i arbitrary: t)
  case (Cons a i)
  obtain k' v' where a: "a = (k', v')" by (cases a)
  show ?case
    by (cases "map_of t k'") (auto simp: a Cons.IH split: option.splits)
qed (auto split: option.splits)

lemma dom_merge_map: "dom (map_of (merge_map t i)) = dom (map_of t) \<union> dom (map_of i)"
  by (auto simp: dom_def map_of_merge_map split: option.splits)

lemma map_ok_merge_map: "map_ok t \<Longrightarrow> map_ok (merge_map t i)"
proof (induction i arbitrary: t)
  case (Cons a i)
  then show ?case by (cases a) (simp add: map_ok_mput)
qed simp

lemma list_all_merge_map: "list_all P t \<Longrightarrow> list_all P i \<Longrightarrow> list_all P (merge_map t i)"
proof (induction i arbitrary: t)
  case (Cons a i)
  obtain k v where a: "a = (k, v)" by (cases a)
  have "list_all P (mput k v t)"
    using Cons.prems set_mput [of k v t] by (auto simp: list_all_iff a)
  with Cons show ?case by (simp add: a)
qed simp

lemma merge_map_id: "dom (map_of i) \<subseteq> dom (map_of t) \<Longrightarrow> merge_map t i = t"
  by (induction i) auto

lemma merge_records_simps [simp]:
  "merge_records f t [] = t"
  "merge_records f t (x # xs) = merge_records f (if f x \<in> f ` set t then t else t @ [x]) xs"
  by (simp_all add: merge_records_def)

lemma merge_records_id: "f ` set xs \<subseteq> f ` set t \<Longrightarrow> merge_records f t xs = t"
  by (induction xs) auto

lemma merge_records_prefix: "prefix t (merge_records f t xs)"
proof (induction xs arbitrary: t)
  case (Cons x xs)
  then show ?case by (cases "f x \<in> f ` set t") (simp, simp, meson append_prefixD)
qed simp

lemma merge_records_sub: "set t \<subseteq> set (merge_records f t xs)"
  using merge_records_prefix by (rule set_mono_prefix)

lemma merge_records_set: "set (merge_records f t xs) \<subseteq> set t \<union> set xs"
proof (induction xs arbitrary: t)
  case (Cons x xs)
  show ?case using Cons [of "if f x \<in> f ` set t then t else t @ [x]"]
    by (cases "f x \<in> f ` set t") auto
qed simp

lemma merge_records_covers: "f ` set xs \<subseteq> f ` set (merge_records f t xs)"
proof (induction xs arbitrary: t)
  case (Cons x xs)
  let ?t = "if f x \<in> f ` set t then t else t @ [x]"
  have "f x \<in> f ` set ?t" by simp
  then have "f x \<in> f ` set (merge_records f ?t xs)" using merge_records_sub [of ?t f xs] by blast
  with Cons [of ?t] show ?case by simp
qed simp

lemma merge_records_distinct: "distinct (map f t) \<Longrightarrow> distinct (map f (merge_records f t xs))"
  by (induction xs arbitrary: t) auto

lemma catalog_inv_merge:
  assumes t: "catalog_inv t" and i: "catalog_inv i"
    and agree: "\<forall>h \<in> set (cat_history t). \<forall>h' \<in> set (cat_history i). hist_id h = hist_id h' \<longrightarrow> h = h'"
  shows "catalog_inv (merge_snapshot t i)" (is "catalog_inv ?m")
proof -
  note n = normalize_snapshot_id [OF t] normalize_snapshot_id [OF i]
  let ?hs = "merge_records hist_id (cat_history t) (cat_history i)"
  have hs: "h \<in> set ?hs" if h: "h \<in> set (cat_history i)" for h
  proof -
    have "hist_id h \<in> hist_id ` set ?hs" using merge_records_covers [of hist_id "cat_history i"] h by blast
    then obtain h' where h': "h' \<in> set ?hs" "hist_id h' = hist_id h" by force
    then consider "h' \<in> set (cat_history t)" | "h' \<in> set (cat_history i)"
      using merge_records_set [of hist_id "cat_history t" "cat_history i"] by blast
    then have "h' = h"
    proof cases
      case 1
      with agree h h'(2) show ?thesis by blast
    next
      case 2
      with catalog_invD(3) [OF i] h h'(2) show ?thesis by (simp add: distinct_map inj_on_def)
    qed
    with h' show ?thesis by simp
  qed
  have dep: "cat_deployments ?m = merge_map (cat_deployments t) (cat_deployments i)"
    and act: "cat_active ?m = merge_map (cat_active t) (cat_active i)" and his: "cat_history ?m = ?hs"
    by (simp_all add: merge_snapshot_def n Let_def normalize_deployments_id catalog_invD(1) t i)
  have "catalog_ok ?m"
    using catalog_invD(1) [OF t] catalog_invD(1) [OF i]
    by (simp add: merge_snapshot_def n Let_def catalog_ok_def map_ok_merge_map list_all_merge_map)
  moreover have "\<forall>h \<in> set ?hs. history_ok h"
    using merge_records_set [of hist_id "cat_history t" "cat_history i"] catalog_invD(2) t i by blast
  moreover have dom: "dom (map_of (cat_active ?m)) = dom (map_of (cat_deployments ?m))"
    using catalog_invD(4) [OF t] catalog_invD(4) [OF i] by (simp add: dep act dom_merge_map)
  moreover have "active_ok ?m k d" if "map_of (cat_deployments ?m) k = Some d" for k d
  proof (cases "map_of (cat_deployments t) k")
    case None
    then have "map_of (cat_active t) k = None" using catalog_invD(4) [OF t] by blast
    moreover from None that have "map_of (cat_deployments i) k = Some d" by (simp add: dep map_of_merge_map)
    from catalog_invD(5) [OF i this] obtain h where "h \<in> set (cat_history i)"
      "map_of (cat_active i) k = Some (hist_id h)" "history_key h = k"
      "plain_deployment d = plain_deployment (hist_deployment h)" by (auto simp: active_ok_def)
    ultimately show ?thesis using hs by (auto simp: active_ok_def act his map_of_merge_map)
  next
    case (Some d')
    with that have "map_of (cat_deployments t) k = Some d" by (simp add: dep map_of_merge_map)
    from catalog_invD(5) [OF t this] show ?thesis
      using merge_records_sub [of "cat_history t" hist_id "cat_history i"]
      by (auto simp: active_ok_def act his map_of_merge_map)
  qed
  ultimately show ?thesis
    using merge_records_distinct [OF catalog_invD(3) [OF t]] by (simp add: catalog_inv_def his set_mkeys)
qed

section \<open>Reachable catalogs\<close>

lemma catalog_step_inv: "catalog_step c c' \<Longrightarrow> catalog_inv c \<Longrightarrow> catalog_inv c'"
  by (erule catalog_step.cases; hypsubst;
      erule catalog_inv_publish catalog_inv_app_tag catalog_inv_action_tag catalog_inv_rollback
        catalog_inv_candidate catalog_inv_audit catalog_inv_merge; assumption)

lemma catalog_reachable_inv: "catalog_reachable c \<Longrightarrow> catalog_inv c"
  by (induction rule: catalog_reachable.induct) (rule catalog_inv_new, erule catalog_step_inv)

section \<open>Properties\<close>

lemma find_distinct:
  "distinct (map f xs) \<Longrightarrow> x \<in> set xs \<Longrightarrow> P x \<Longrightarrow> (\<And>y. P y \<Longrightarrow> f y = f x) \<Longrightarrow> find P xs = Some x"
proof (induction xs)
  case (Cons a xs)
  show ?case
  proof (cases "P a")
    case True
    then have "f a = f x" by (rule Cons.prems(4))
    with Cons.prems(1,2) have "a = x" by (auto simp: image_iff)
    with True show ?thesis by simp
  next
    case False
    with Cons.prems(2,3) have "x \<in> set xs" by auto
    with Cons.prems(1,3,4) have "find P xs = Some x" by (intro Cons.IH) (simp, blast, blast, blast)
    with False show ?thesis by simp
  qed
qed simp

text \<open>C8. In every reachable catalog, loading changes nothing, and what \<^verbatim>\<open>GetDeployment\<close> returns for
an app is what exactly one entry of the history recorded when it was published, up to the route tag
overrides; that entry is the app's active release.\<close>

theorem active_deployment_is_published:
  assumes "catalog_reachable c"
  shows "normalize_snapshot c = c \<and> (\<forall>w a d. file_get_deployment w a c = Inr d \<longrightarrow>
      (\<exists>!h. h \<in> set (cat_history c) \<and> map_of (cat_active c) (deployment_key w a) = Some (hist_id h)
        \<and> history_key h = deployment_key w a \<and> plain_deployment d = plain_deployment (hist_deployment h)))"
proof (intro conjI allI impI)
  note inv = catalog_reachable_inv [OF assms]
  show n: "normalize_snapshot c = c" by (rule normalize_snapshot_id [OF inv])
  fix w a d assume "file_get_deployment w a c = Inr d"
  then have "map_of (cat_deployments c) (deployment_key w a) = Some d"
    by (simp add: file_get_deployment_def n split: option.splits)
  from catalog_invD(5) [OF inv this] catalog_invD(3) [OF inv]
  show "\<exists>!h. h \<in> set (cat_history c) \<and> map_of (cat_active c) (deployment_key w a) = Some (hist_id h)
        \<and> history_key h = deployment_key w a \<and> plain_deployment d = plain_deployment (hist_deployment h)"
    by (auto simp: active_ok_def distinct_map inj_on_def)
qed

text \<open>What a publication leaves behind.\<close>

lemma publish_result:
  assumes "catalog_inv c" and "file_publish_release e d t c = (c', d')"
  shows "d' = ensure_deployment_updated_at (normalize_deployment_defaults d) (non_zero_time t (clock e))"
    and "cat_deployments c' = mput (deployment_key (dep_workspace d) (dep_app d)) d' (cat_deployments c)"
    and "cat_active c' = mput (deployment_key (dep_workspace d) (dep_app d)) (new_app_version_id e) (cat_active c)"
    and "cat_history c' = cat_history c @ [new_deployment_history e d' (non_zero_time t (clock e))]"
    and "\<exists>au. cat_audit c' = cat_audit c @ [au] \<and> aud_id au = new_app_version_id e"
    and "cat_candidates c' = cat_candidates c"
  using assms
  by (auto simp: file_publish_release_def normalize_snapshot_id prepare_publication_def Let_def
      new_release_audit_def)

lemma get_deployment_inv: "catalog_inv c \<Longrightarrow> file_get_deployment w a c
    = (case map_of (cat_deployments c) (deployment_key w a) of None \<Rightarrow> Inl DeploymentNotFound | Some d \<Rightarrow> Inr d)"
  by (simp add: file_get_deployment_def normalize_snapshot_id)

text \<open>Publishing makes the deployment the app's active one, after a reload as well, records it as
the last entry of the history under a new identifier, and leaves every other app as it was.\<close>

theorem publish_activates:
  assumes r: "catalog_reachable c" and f: "fresh_version e c" and d: "deployment_ok d"
    and p: "file_publish_release e d t c = (c', d')"
  shows "file_get_deployment (dep_workspace d) (dep_app d) c' = Inr d'
    \<and> plain_deployment d' = plain_deployment (normalize_deployment_defaults d)
    \<and> map_of (cat_active (normalize_snapshot c')) (deployment_key (dep_workspace d) (dep_app d))
      = Some (new_app_version_id e)
    \<and> (\<exists>h. cat_history c' = cat_history c @ [h] \<and> hist_deployment h = d' \<and> hist_id h = new_app_version_id e)
    \<and> (\<forall>w a. deployment_key w a \<noteq> deployment_key (dep_workspace d) (dep_app d)
      \<longrightarrow> file_get_deployment w a c' = file_get_deployment w a c)"
proof (intro conjI allI impI)
  note inv = catalog_reachable_inv [OF r]
  note pr = publish_result [OF inv p]
  have inv': "catalog_inv c'" using catalog_inv_publish [OF inv f d, of t] by (simp add: p)
  show "file_get_deployment (dep_workspace d) (dep_app d) c' = Inr d'"
    by (simp add: get_deployment_inv [OF inv'] pr(2))
  show "plain_deployment d' = plain_deployment (normalize_deployment_defaults d)"
    by (simp add: pr(1) ensure_updated_plain)
  show "map_of (cat_active (normalize_snapshot c')) (deployment_key (dep_workspace d) (dep_app d))
      = Some (new_app_version_id e)" by (simp add: normalize_snapshot_id [OF inv'] pr(3))
  show "\<exists>h. cat_history c' = cat_history c @ [h] \<and> hist_deployment h = d' \<and> hist_id h = new_app_version_id e"
    using pr(4) by auto
  show "file_get_deployment w a c' = file_get_deployment w a c"
    if "deployment_key w a \<noteq> deployment_key (dep_workspace d) (dep_app d)" for w a
    using that by (simp add: get_deployment_inv inv inv' pr(2))
qed

text \<open>When a rollback succeeds, and with which error it fails.\<close>

lemma rollback_outcome_inv:
  assumes inv: "catalog_inv c" and h: "h \<in> set (cat_history c)" and g: "trim_space (hist_app h) = hist_app h"
    "hist_app h \<noteq> ''''" and r: "rbr_release r = hist_id h" "rbr_app r = hist_app h"
    "normalize_workspace (rbr_workspace r) = normalize_workspace (hist_workspace h)"
    "trim_space (rbr_actor r) \<noteq> ''''" "trim_space (rbr_reason r) \<noteq> ''''"
  shows "map_of (cat_active c) (history_key h) = Some (hist_id h) \<Longrightarrow>
      apply_release_rollback e r c = Inl ReleaseAlreadyActive"
    and "map_of (cat_active c) (history_key h) \<noteq> Some (hist_id h) \<Longrightarrow>
      \<exists>c' res. apply_release_rollback e r c = Inr (c', res) \<and> rbx_target res = h
        \<and> rbx_previous_release res = mget_or '''' (cat_active c) (history_key h)"
proof -
  from catalog_invD(2) [OF inv h] have hid: "hist_id h \<noteq> ''''" "trim_space (hist_id h) = hist_id h"
    by (simp_all add: history_ok_def)
  have fr: "find_release c (normalize_workspace (rbr_workspace r)) (hist_app h) (hist_id h) = Inr h"
    using find_distinct [OF catalog_invD(3) [OF inv] h,
        of "\<lambda>x. normalize_workspace (hist_workspace x) = normalize_workspace (rbr_workspace r)
          \<and> hist_app x = hist_app h \<and> hist_id x = hist_id h"]
    by (simp add: find_release_def g hid r)
  have k: "deployment_key (normalize_workspace (rbr_workspace r)) (hist_app h) = history_key h"
    using r by (simp add: history_key_def deployment_key_def)
  have pr: "\<exists>r'. prepare_rollback_request e r = Inr r' \<and> rbr_workspace r' = normalize_workspace (rbr_workspace r)
      \<and> rbr_app r' = hist_app h \<and> rbr_release r' = hist_id h"
    using r g hid by (simp add: prepare_rollback_request_def Let_def)
  then obtain r' where r': "prepare_rollback_request e r = Inr r'"
    "rbr_workspace r' = normalize_workspace (rbr_workspace r)" "rbr_app r' = hist_app h"
    "rbr_release r' = hist_id h" by blast
  note unf = apply_release_rollback_def normalize_snapshot_id [OF inv] r' fr Let_def
  show "apply_release_rollback e r c = Inl ReleaseAlreadyActive"
    if "map_of (cat_active c) (history_key h) = Some (hist_id h)"
    using that k by (simp add: unf mget_or_def)
  show "\<exists>c' res. apply_release_rollback e r c = Inr (c', res) \<and> rbx_target res = h
        \<and> rbx_previous_release res = mget_or '''' (cat_active c) (history_key h)"
    if "map_of (cat_active c) (history_key h) \<noteq> Some (hist_id h)"
  proof -
    have "mget_or '''' (cat_active c) (history_key h) \<noteq> hist_id h"
      using that hid by (auto simp: mget_or_def split: option.splits)
    then show ?thesis using k by (simp add: unf new_rollback_result_def)
  qed
qed

text \<open>The environment and deployments the witnesses use.\<close>

definition ex_env :: "string \<Rightarrow> call_env" where
  "ex_env v = \<lparr>clock = 5, draw_id = (\<lambda>p n. p @ v), draw_nonce = (\<lambda>s n. ''000000000000'')\<rparr>"

definition ex_deployment :: "string \<Rightarrow> deployment" where
  "ex_deployment v = zero_deployment\<lparr>dep_workspace := ''main'', dep_app := ''crawler'', dep_commit := v,
     dep_actions := Some [(''fetch'', zero_action\<lparr>act_key := ''fetch''\<rparr>)]\<rparr>"

definition ex_rollback :: "string \<Rightarrow> rollback_request" where
  "ex_rollback v = \<lparr>rbr_workspace = ''main'', rbr_app = ''crawler'', rbr_release = v, rbr_actor = ''ops'',
     rbr_reason = ''regression'', rbr_at = 0\<rparr>"

lemmas ex_defs = ex_env_def ex_deployment_def ex_rollback_def zero_deployment_def zero_action_def

lemma trim_space_ends:
  "s \<noteq> [] \<Longrightarrow> graphic (hd s) \<Longrightarrow> graphic (last s) \<Longrightarrow> trim_space s = s"
  by (rule trim_space_graphic) simp

lemma ex_fresh: "fresh_version (ex_env v) c \<longleftrightarrow> ''version'' @ v \<notin> hist_id ` set (cat_history c)"
  if "v \<noteq> '''' \<Longrightarrow> graphic (last v)"
  using that trim_space_ends [of "''version'' @ v"]
  by (simp add: fresh_version_def new_app_version_id_def ex_env_def graphic_def)

lemma ex_deployment_ok: "deployment_ok (ex_deployment v)"
  by (simp add: deployment_ok_def ex_deployment_def map_ok_def mkeys_def)

lemma ex_reachable: "catalog_reachable (fst (file_publish_release (ex_env '''') (ex_deployment v) t new_catalog))"
  by (rule catalog_reachable.step [OF catalog_reachable.start], rule catalog_step.publish)
    (simp_all add: ex_fresh ex_deployment_ok new_catalog_def)

theorem active_deployment_is_published_witness:
  "normalize_snapshot (fst (file_publish_release (ex_env '''') (ex_deployment ''c1'') 0 new_catalog))
    = fst (file_publish_release (ex_env '''') (ex_deployment ''c1'') 0 new_catalog)"
  using active_deployment_is_published [OF ex_reachable, of "''c1''" 0] by simp

theorem publish_activates_witness:
  "file_get_deployment ''main'' ''crawler''
     (fst (file_publish_release (ex_env '''') (ex_deployment ''c1'') 0 new_catalog))
   = Inr (snd (file_publish_release (ex_env '''') (ex_deployment ''c1'') 0 new_catalog))"
proof -
  have "fresh_version (ex_env '''') new_catalog" by (simp add: ex_fresh new_catalog_def)
  from publish_activates [OF catalog_reachable.start this ex_deployment_ok surjective_pairing]
  show ?thesis by (simp add: ex_deployment_def zero_deployment_def)
qed

text \<open>Rolling back undoes a publication: after publishing two releases of an app, a rollback to the
first succeeds, \<^verbatim>\<open>GetDeployment\<close> returns exactly the deployment the first publication activated, the
history and the candidates are untouched, one audit record is added, and the same rollback is then
refused because that release is active.\<close>

theorem rollback_restores_release:
  assumes r: "catalog_reachable c" and f1: "fresh_version e1 c" and d1: "deployment_ok d1"
    and p1: "file_publish_release e1 d1 t1 c = (c1, p1)"
    and f2: "fresh_version e2 c1" and d2: "deployment_ok d2"
    and p2: "file_publish_release e2 d2 t2 c1 = (c2, p2)"
    and same: "source_workspace d2 = source_workspace d1" "dep_app d2 = dep_app d1"
    and app: "trim_space (dep_app d1) = dep_app d1" "dep_app d1 \<noteq> ''''"
    and req: "rbr_workspace q = dep_workspace d1" "rbr_app q = dep_app d1"
      "rbr_release q = new_app_version_id e1" "trim_space (rbr_actor q) \<noteq> ''''" "trim_space (rbr_reason q) \<noteq> ''''"
  shows "\<exists>c3 res. apply_release_rollback e3 q c2 = Inr (c3, res)
    \<and> file_get_deployment (dep_workspace d1) (dep_app d1) c3 = Inr p1
    \<and> rbx_previous_release res = new_app_version_id e2
    \<and> cat_history c3 = cat_history c2 \<and> cat_candidates c3 = cat_candidates c2
    \<and> (\<exists>au. cat_audit c3 = cat_audit c2 @ [au])
    \<and> apply_release_rollback e4 q c3 = Inl ReleaseAlreadyActive"
proof -
  note inv = catalog_reachable_inv [OF r]
  have inv1: "catalog_inv c1" using catalog_inv_publish [OF inv f1 d1, of t1] by (simp add: p1)
  have inv2: "catalog_inv c2" using catalog_inv_publish [OF inv1 f2 d2, of t2] by (simp add: p2)
  note pr1 = publish_result [OF inv p1] and pr2 = publish_result [OF inv1 p2]
  define h where "h = new_deployment_history e1 p1 (non_zero_time t1 (clock e1))"
  have hw: "hist_workspace h = source_workspace d1" "hist_app h = dep_app d1" "hist_id h = new_app_version_id e1"
    "hist_deployment h = p1"
    by (simp_all add: h_def new_deployment_history_def Let_def pr1(1))
  have k: "history_key h = deployment_key (dep_workspace d1) (dep_app d1)"
    by (simp add: history_key_def hw)
  have k2: "deployment_key (dep_workspace d2) (dep_app d2) = history_key h"
    using same by (simp add: k deployment_key_def source_workspace_def)
  have h: "h \<in> set (cat_history c2)" by (simp add: pr1(4) pr2(4) h_def)
  have ne: "new_app_version_id e2 \<noteq> new_app_version_id e1"
    using f2 by (auto simp: fresh_version_def pr1(4))
  have act: "map_of (cat_active c2) (history_key h) = Some (new_app_version_id e2)"
    by (simp add: pr2(3) k2)
  have w: "normalize_workspace (rbr_workspace q) = normalize_workspace (hist_workspace h)"
    by (simp add: req hw source_workspace_def)
  note out = rollback_outcome_inv [where r = q, OF _ _ _ _ _ _ w]
  obtain c3 res where rb: "apply_release_rollback e3 q c2 = Inr (c3, res)"
    and res: "rbx_target res = h" "rbx_previous_release res = new_app_version_id e2"
    using out(2) [OF inv2 h, of e3] act ne app req by (auto simp: hw mget_or_def)
  note inv3 = catalog_inv_rollback [OF inv2 rb]
  obtain mk mv where c3: "c3 = c2\<lparr>cat_deployments := mput (history_key h) (hist_deployment h) (cat_deployments c2),
      cat_active := mput (history_key h) (hist_id h) (cat_active c2), cat_history := cat_history c2,
      cat_audit := cat_audit c2 @ [rbx_audit res], cat_markers := mput mk mv (cat_markers c2)\<rparr>"
    using apply_release_rollback_Inr [OF inv2 rb] res(1) by metis
  have "apply_release_rollback e4 q c3 = Inl ReleaseAlreadyActive"
    using out(1) [OF inv3, of e4] h app req by (simp add: c3 hw)
  moreover have "file_get_deployment (dep_workspace d1) (dep_app d1) c3 = Inr p1"
    unfolding get_deployment_inv [OF inv3] by (simp add: c3 k hw)
  ultimately show ?thesis using rb res(2) by (simp add: c3)
qed

text \<open>A rollback has exactly four outcomes: a blank field is refused, a release the history of the
app does not have is not found, the active release is refused, and any other release is restored.\<close>

theorem rollback_outcomes:
  assumes "catalog_reachable c"
  shows "case apply_release_rollback e q c of
      Inl InvalidRollback \<Rightarrow> '''' \<in> trim_space ` {rbr_app q, rbr_release q, rbr_actor q, rbr_reason q}
    | Inl ReleaseNotFound \<Rightarrow> \<not> (\<exists>h \<in> set (cat_history c). hist_id h = trim_space (rbr_release q)
        \<and> hist_app h = trim_space (rbr_app q) \<and> hist_workspace h = normalize_workspace (rbr_workspace q))
    | Inl ReleaseAlreadyActive \<Rightarrow> map_of (cat_active c) (deployment_key (rbr_workspace q) (trim_space (rbr_app q)))
        = Some (trim_space (rbr_release q))
    | Inl _ \<Rightarrow> False
    | Inr (c', res) \<Rightarrow> map_of (cat_active c') (deployment_key (rbr_workspace q) (trim_space (rbr_app q)))
          = Some (trim_space (rbr_release q))
        \<and> rbx_target res \<in> set (cat_history c) \<and> hist_id (rbx_target res) = trim_space (rbr_release q)
        \<and> file_get_deployment (rbr_workspace q) (trim_space (rbr_app q)) c' = Inr (hist_deployment (rbx_target res))
        \<and> cat_history c' = cat_history c"
proof (cases "apply_release_rollback e q c")
  case (Inr p)
  obtain c' res where p: "p = (c', res)" by (cases p)
  note inv = catalog_reachable_inv [OF assms] and inv' = catalog_inv_rollback [OF catalog_reachable_inv [OF assms]]
  from inv Inr [unfolded p] obtain h mk mv where h: "h \<in> set (cat_history c)"
    "history_key h = deployment_key (rbr_workspace q) (trim_space (rbr_app q))"
    "hist_id h = trim_space (rbr_release q)" "rbx_target res = h"
    and c': "c' = c\<lparr>cat_deployments := mput (history_key h) (hist_deployment h) (cat_deployments c),
      cat_active := mput (history_key h) (hist_id h) (cat_active c), cat_history := cat_history c,
      cat_audit := cat_audit c @ [rbx_audit res], cat_markers := mput mk mv (cat_markers c)\<rparr>"
    by (rule apply_release_rollback_Inr)
  have "file_get_deployment (rbr_workspace q) (trim_space (rbr_app q)) c' = Inr (hist_deployment h)"
    unfolding get_deployment_inv [OF inv' [OF Inr [unfolded p]]] by (simp add: c' h(2))
  then show ?thesis by (simp add: Inr p h) (simp add: c' h)
next
  case (Inl err)
  note inv = catalog_reachable_inv [OF assms]
  have ws: "normalize_workspace (hist_workspace h) = hist_workspace h" if "h \<in> set (cat_history c)" for h
    using catalog_invD(2) [OF inv that] by (simp add: history_ok_def source_workspace_def)
  note n = normalize_snapshot_id [OF inv]
  show ?thesis
  proof (cases "prepare_rollback_request e q")
    case (Inl err')
    with \<open>apply_release_rollback e q c = Inl err\<close> show ?thesis
      by (auto simp: apply_release_rollback_def n prepare_rollback_request_def Let_def split: if_splits)
  next
    case (Inr q')
    then have q': "rbr_workspace q' = normalize_workspace (rbr_workspace q)" "rbr_app q' = trim_space (rbr_app q)"
      "rbr_release q' = trim_space (rbr_release q)"
      by (auto simp: prepare_rollback_request_def Let_def split: if_splits)
    show ?thesis
    proof (cases "find_release c (rbr_workspace q') (rbr_app q') (rbr_release q')")
      case nf: (Inl err')
      then show ?thesis using Inl Inr ws
        by (auto simp: apply_release_rollback_def n q' find_release_def find_None_iff split: option.splits)
    next
      case (Inr h)
      note h = find_release_Inr [OF this]
      have "history_ok h" using catalog_invD(2) [OF inv] h by blast
      then have "hist_id h \<noteq> ''''" by (simp add: history_ok_def)
      with Inl Inr \<open>prepare_rollback_request e q = Inr q'\<close> h show ?thesis
        by (auto simp: apply_release_rollback_def n q' Let_def mget_or_def split: if_splits option.splits)
    qed
  qed
qed

definition ex_one :: catalog where
  "ex_one = fst (file_publish_release (ex_env ''1'') (ex_deployment ''c1'') 0 new_catalog)"

definition ex_two :: catalog where
  "ex_two = fst (file_publish_release (ex_env ''2'') (ex_deployment ''c2'') 0 ex_one)"

lemma ex_steps:
  "fresh_version (ex_env ''1'') new_catalog" "fresh_version (ex_env ''2'') ex_one"
  "catalog_reachable ex_one" "catalog_reachable ex_two"
proof -
  show f1: "fresh_version (ex_env ''1'') new_catalog" by (simp add: ex_fresh graphic_def new_catalog_def)
  have "hist_id ` set (cat_history ex_one) = {''version1''}" unfolding ex_one_def
    using publish_result(4) [OF catalog_inv_new surjective_pairing]
    by (simp add: new_app_version_id_def ex_env_def new_catalog_def)
  then show f2: "fresh_version (ex_env ''2'') ex_one"
    by (simp add: ex_fresh graphic_def)
  show r1: "catalog_reachable ex_one" unfolding ex_one_def
    by (rule catalog_reachable.step [OF catalog_reachable.start catalog_step.publish [OF f1 ex_deployment_ok]])
  show "catalog_reachable ex_two" unfolding ex_two_def
    by (rule catalog_reachable.step [OF r1 catalog_step.publish [OF f2 ex_deployment_ok]])
qed

lemma ex_rollback_ok:
  "trim_space (rbr_actor (ex_rollback v)) = ''ops''" "trim_space (rbr_reason (ex_rollback v)) = ''regression''"
  "trim_space (dep_app (ex_deployment v)) = ''crawler''" "dep_app (ex_deployment v) = ''crawler''"
  "trim_space ''crawler'' = ''crawler''"
  by (simp_all add: ex_defs trim_space_ends graphic_def)

theorem rollback_restores_release_witness:
  "\<exists>c3 res. apply_release_rollback (ex_env ''3'') (ex_rollback ''version1'') ex_two = Inr (c3, res)
    \<and> file_get_deployment ''main'' ''crawler'' c3
      = Inr (snd (file_publish_release (ex_env ''1'') (ex_deployment ''c1'') 0 new_catalog))
    \<and> rbx_previous_release res = ''version2''"
proof -
  have p: "file_publish_release (ex_env ''1'') (ex_deployment ''c1'') 0 new_catalog
      = (ex_one, snd (file_publish_release (ex_env ''1'') (ex_deployment ''c1'') 0 new_catalog))"
    "file_publish_release (ex_env ''2'') (ex_deployment ''c2'') 0 ex_one
      = (ex_two, snd (file_publish_release (ex_env ''2'') (ex_deployment ''c2'') 0 ex_one))"
    by (simp_all add: ex_one_def ex_two_def)
  have q: "source_workspace (ex_deployment ''c2'') = source_workspace (ex_deployment ''c1'')"
    "dep_workspace (ex_deployment ''c1'') = ''main''" "rbr_workspace (ex_rollback v) = ''main''"
    "rbr_app (ex_rollback v) = ''crawler''" "rbr_release (ex_rollback v) = v"
    "new_app_version_id (ex_env v) = ''version'' @ v" for v
    by (simp_all add: ex_defs source_workspace_def new_app_version_id_def)
  show ?thesis
    using rollback_restores_release [OF catalog_reachable.start ex_steps(1) ex_deployment_ok p(1)
        ex_steps(2) ex_deployment_ok p(2), of "ex_rollback ''version1''" "ex_env ''3''" "ex_env ''4''"]
    by (simp add: q ex_rollback_ok) blast
qed

theorem rollback_outcomes_witness:
  "apply_release_rollback (ex_env ''3'') (ex_rollback ''version9'') new_catalog = Inl ReleaseNotFound
    \<and> \<not> (\<exists>h \<in> set (cat_history new_catalog). hist_id h = ''version9'' \<and> hist_app h = ''crawler''
        \<and> hist_workspace h = normalize_workspace ''main'')"
proof -
  have "apply_release_rollback (ex_env ''3'') (ex_rollback ''version9'') new_catalog = Inl ReleaseNotFound"
    by (simp add: apply_release_rollback_def prepare_rollback_request_def find_release_def new_catalog_def ex_defs
        trim_space_ends graphic_def normalize_snapshot_def)
  with rollback_outcomes [OF catalog_reachable.start, of "ex_rollback ''version9''" "ex_env ''3''"] show ?thesis
    by (auto simp: ex_rollback_def trim_space_ends graphic_def)
qed

text \<open>History and audit trail are append-only: whatever operation runs, the entries recorded so far
stay, in their order, at the front.\<close>

theorem history_append_only:
  assumes "catalog_reachable c" and "catalog_step c c'"
  shows "prefix (cat_history c) (cat_history c') \<and> prefix (cat_audit c) (cat_audit c')"
proof -
  note inv = catalog_reachable_inv [OF assms(1)]
  note n = normalize_snapshot_id [OF inv]
  from assms(2) show ?thesis
  proof cases
    case (publish e d t)
    then show ?thesis using publish_result(4,5) [OF inv surjective_pairing, of e d t] by auto
  next
    case (rollback e r res)
    with inv show ?thesis by (elim apply_release_rollback_Inr) auto
  next
    case (import_snapshot i)
    then show ?thesis by (simp add: merge_snapshot_def Let_def merge_records_prefix)
  qed (auto simp: file_set_app_tag_override_def file_set_action_tag_override_def n Let_def
      file_save_release_candidate_def and_then_eq_Inr file_append_audit_def split: option.splits)
qed

theorem history_append_only_witness:
  "prefix (cat_history ex_one) (cat_history ex_two) \<and> prefix (cat_audit ex_one) (cat_audit ex_two)"
  unfolding ex_two_def
  by (rule history_append_only [OF ex_steps(3) catalog_step.publish [OF ex_steps(2) ex_deployment_ok]])

text \<open>Importing a catalog is idempotent and never overwrites: an entry the target has wins, an entry
only the import has is added, the histories are joined by identifier, and importing the same
catalog again changes nothing.\<close>

theorem merge_keeps_target:
  assumes t: "catalog_reachable t" and i: "catalog_reachable i"
    and agree: "\<forall>h \<in> set (cat_history t). \<forall>h' \<in> set (cat_history i). hist_id h = hist_id h' \<longrightarrow> h = h'"
  shows "merge_snapshot (merge_snapshot t i) i = merge_snapshot t i
    \<and> (\<forall>w a. file_get_deployment w a (merge_snapshot t i)
        = (case file_get_deployment w a t of Inr d \<Rightarrow> Inr d | Inl _ \<Rightarrow> file_get_deployment w a i))
    \<and> hist_id ` set (cat_history (merge_snapshot t i)) = hist_id ` (set (cat_history t) \<union> set (cat_history i))
    \<and> distinct (map hist_id (cat_history (merge_snapshot t i)))"
proof -
  note it = catalog_reachable_inv [OF t] and ii = catalog_reachable_inv [OF i]
  have im: "catalog_inv (merge_snapshot t i)" by (rule catalog_inv_merge [OF it ii agree])
  note n = normalize_snapshot_id [OF it] normalize_snapshot_id [OF ii] normalize_snapshot_id [OF im]
  have dep: "cat_deployments (merge_snapshot t i) = merge_map (cat_deployments t) (cat_deployments i)"
    by (simp add: merge_snapshot_def n Let_def normalize_deployments_id catalog_invD(1) it ii)
  have "merge_snapshot (merge_snapshot t i) i = merge_snapshot t i"
  proof -
    have id: "merge_map (merge_map a b) b = merge_map a b" for a b :: "(string, 'v) gomap"
      by (rule merge_map_id) (simp add: dom_merge_map)
    have idr: "merge_records f (merge_records f a b) b = merge_records f a b" for f :: "'r \<Rightarrow> string" and a b
      by (rule merge_records_id) (rule merge_records_covers)
    show ?thesis by (subst (1) merge_snapshot_def) (simp add: n Let_def, simp add: merge_snapshot_def n Let_def id idr)
  qed
  moreover have "file_get_deployment w a (merge_snapshot t i)
      = (case file_get_deployment w a t of Inr d \<Rightarrow> Inr d | Inl _ \<Rightarrow> file_get_deployment w a i)" for w a
    unfolding get_deployment_inv [OF im] get_deployment_inv [OF it] get_deployment_inv [OF ii]
    by (simp add: dep map_of_merge_map split: option.splits)
  moreover have "hist_id ` set (cat_history (merge_snapshot t i))
      = hist_id ` (set (cat_history t) \<union> set (cat_history i))"
    using merge_records_set [of hist_id "cat_history t" "cat_history i"]
      merge_records_sub [of "cat_history t" hist_id "cat_history i"]
      merge_records_covers [of hist_id "cat_history i" "cat_history t"]
    by (auto simp: merge_snapshot_def n Let_def)
  ultimately show ?thesis using catalog_invD(3) [OF im] by blast
qed

theorem merge_keeps_target_witness:
  "merge_snapshot (merge_snapshot ex_two new_catalog) new_catalog = merge_snapshot ex_two new_catalog"
  using merge_keeps_target [OF ex_steps(4) catalog_reachable.start] by (simp add: new_catalog_def)

lemma prepare_candidate_key:
  "prepare_release_candidate e d t = Inr cand \<Longrightarrow>
    candidate_key cand = release_candidate_key (source_workspace d) (source_git_source d) (dep_commit d)"
  by (auto simp: prepare_release_candidate_def Let_def candidate_key_def source_workspace_def
      source_git_source_def release_candidate_key_def normalize_git_source_def split: if_splits)

lemma normalize_git_source_stable [simp]:
  "normalize_git_source (normalize_git_source v a) b = normalize_git_source v a"
  "trim_space (normalize_git_source v a) = normalize_git_source v a"
proof -
  have "trim_space default_git_source = default_git_source"
    by (rule trim_space_graphic) (simp add: default_git_source_def graphic_def)
  then show "trim_space (normalize_git_source v a) = normalize_git_source v a"
    by (simp add: normalize_git_source_def)
  then show "normalize_git_source (normalize_git_source v a) b = normalize_git_source v a"
    by (metis normalize_git_source_def normalize_git_source_ne)
qed

text \<open>A release candidate is immutable: the first candidate saved for a workspace, source and commit
is the one \<^verbatim>\<open>GetReleaseCandidate\<close> finds and every later save of the same commit returns, and that
save writes nothing.\<close>

theorem candidate_immutable:
  assumes r: "catalog_reachable c" and s1: "file_save_release_candidate e1 d1 t1 c = Inr (c1, cand1)"
    and same: "source_workspace d2 = source_workspace d1" "source_git_source d2 = source_git_source d1"
      "dep_commit d2 = dep_commit d1" and app: "trim_space (dep_app d2) \<noteq> ''''"
  shows "file_save_release_candidate e2 d2 t2 c1 = Inr (c1, cand1)
    \<and> file_get_release_candidate (dep_workspace d1) (source_git_source d1) (dep_commit d1) c1 = Inr cand1"
proof -
  have step: "catalog_step c c1" by (rule catalog_step.save_candidate [OF s1])
  note inv = catalog_reachable_inv [OF r] and inv1 = catalog_reachable_inv [OF catalog_reachable.step [OF r step]]
  note n = normalize_snapshot_id [OF inv] normalize_snapshot_id [OF inv1]
  let ?k = "release_candidate_key (source_workspace d1) (source_git_source d1) (dep_commit d1)"
  from s1 obtain cand where p1: "prepare_release_candidate e1 d1 t1 = Inr cand"
    by (auto simp: file_save_release_candidate_def and_then_eq_Inr)
  then have commit: "trim_space (dep_commit d1) \<noteq> ''''"
    by (auto simp: prepare_release_candidate_def Let_def split: if_splits)
  from s1 p1 prepare_candidate_key [OF p1] have found: "map_of (cat_candidates c1) ?k = Some cand1"
    by (auto simp: file_save_release_candidate_def n Let_def split: option.splits)
  have "\<exists>cand2. prepare_release_candidate e2 d2 t2 = Inr cand2 \<and> candidate_key cand2 = ?k"
  proof -
    have "\<exists>cand2. prepare_release_candidate e2 d2 t2 = Inr cand2"
      using same app commit
      by (simp add: prepare_release_candidate_def Let_def source_git_source_def)
    then show ?thesis using prepare_candidate_key [of e2 d2 t2] same by auto
  qed
  with found have "file_save_release_candidate e2 d2 t2 c1 = Inr (c1, cand1)"
    by (auto simp: file_save_release_candidate_def n)
  moreover have "release_candidate_key (dep_workspace d1) (source_git_source d1) (dep_commit d1) = ?k"
    by (simp add: release_candidate_key_def source_workspace_def)
  ultimately show ?thesis using found by (simp add: file_get_release_candidate_def n)
qed

theorem candidate_immutable_witness:
  "\<exists>c1 cand. file_save_release_candidate (ex_env ''1'') (ex_deployment ''c1'') 0 new_catalog = Inr (c1, cand)
    \<and> file_save_release_candidate (ex_env ''2'') (ex_deployment ''c1'') 9 c1 = Inr (c1, cand)"
proof -
  have "\<exists>c1 cand. file_save_release_candidate (ex_env ''1'') (ex_deployment ''c1'') 0 new_catalog = Inr (c1, cand)"
    by (simp add: file_save_release_candidate_def prepare_release_candidate_def Let_def ex_defs new_catalog_def
        trim_space_ends graphic_def source_git_source_def)
  then obtain c1 cand where s: "file_save_release_candidate (ex_env ''1'') (ex_deployment ''c1'') 0 new_catalog
    = Inr (c1, cand)" by blast
  have "trim_space (dep_app (ex_deployment ''c1'')) \<noteq> ''''" by (simp add: ex_rollback_ok)
  from candidate_immutable [OF catalog_reachable.start s refl refl refl this] s show ?thesis by blast
qed

text \<open>The loop over the candidates keeps the newest one it has seen of the source.\<close>

definition of_source :: "string \<Rightarrow> string \<Rightarrow> release_candidate \<Rightarrow> bool" where
  "of_source w g cand \<longleftrightarrow> source_workspace (cand_deployment cand) = w \<and> source_git_source (cand_deployment cand) = g"

lemma newer_candidate_trans:
  "\<not> newer_candidate b a \<Longrightarrow> \<not> newer_candidate c b \<Longrightarrow> \<not> newer_candidate c a"
  by (auto simp: newer_candidate_def)

lemma newer_candidate_asym: "newer_candidate a b \<Longrightarrow> \<not> newer_candidate b a"
  by (auto simp: newer_candidate_def)

lemma newer_candidate_irrefl: "\<not> newer_candidate a a"
  by (simp add: newer_candidate_def)

lemma latest_candidate_step: "latest_candidate w g l (cand # cs) =
    latest_candidate w g (if of_source w g cand then (case l of None \<Rightarrow> Some cand
      | Some x \<Rightarrow> Some (if newer_candidate cand x then cand else x)) else l) cs"
  by (auto simp: of_source_def split: option.splits)

lemma latest_candidate_None:
  "latest_candidate w g l cs = None \<longleftrightarrow> l = None \<and> (\<forall>x \<in> set cs. \<not> of_source w g x)"
proof (induction cs arbitrary: l)
  case (Cons a cs)
  show ?case
    by (cases l; cases "of_source w g a")
      (simp_all add: latest_candidate_step Cons.IH del: latest_candidate.simps)
qed simp

definition newest :: "string \<Rightarrow> string \<Rightarrow> release_candidate option \<Rightarrow> release_candidate list \<Rightarrow> release_candidate \<Rightarrow> bool" where
  "newest w g l cs m \<longleftrightarrow> (l = Some m \<or> m \<in> set cs \<and> of_source w g m)
    \<and> (\<forall>x \<in> set cs. of_source w g x \<longrightarrow> \<not> newer_candidate x m) \<and> (\<forall>x. l = Some x \<longrightarrow> \<not> newer_candidate x m)"

lemma newest_step:
  assumes "newest w g (if of_source w g a then (case l of None \<Rightarrow> Some a
      | Some x \<Rightarrow> Some (if newer_candidate a x then a else x)) else l) cs m"
  shows "newest w g l (a # cs) m"
proof (cases "of_source w g a")
  case False
  with assms show ?thesis by (auto simp: newest_def)
next
  case src: True
  show ?thesis
  proof (cases l)
    case None
    with assms src show ?thesis by (auto simp: newest_def)
  next
    case (Some x)
    show ?thesis
    proof (cases "newer_candidate a x")
      case True
      with assms src Some show ?thesis
        using newer_candidate_asym [OF True] newer_candidate_trans [of a m x] by (auto simp: newest_def)
    next
      case False
      with assms src Some show ?thesis
        using newer_candidate_trans [of x m a] by (auto simp: newest_def)
    qed
  qed
qed

lemma latest_candidate_Some: "latest_candidate w g l cs = Some m \<Longrightarrow> newest w g l cs m"
proof (induction cs arbitrary: l)
  case Nil
  then show ?case by (simp add: newest_def newer_candidate_irrefl)
next
  case (Cons a cs)
  from Cons.prems have "newest w g (if of_source w g a then (case l of None \<Rightarrow> Some a
      | Some x \<Rightarrow> Some (if newer_candidate a x then a else x)) else l) cs m"
    unfolding latest_candidate_step by (rule Cons.IH)
  then show ?case by (rule newest_step)
qed

text \<open>\<^verbatim>\<open>GetLatestReleaseCandidate\<close> returns a candidate of the source than which none is newer by
sync time and then commit, whatever order the map is walked in, and fails only when there is none.\<close>

theorem latest_candidate_is_newest:
  assumes "catalog_reachable c"
  shows "case file_get_latest_release_candidate w g c of
      Inl err \<Rightarrow> err = CandidateNotFound \<and> (\<forall>k x. map_of (cat_candidates c) k = Some x \<longrightarrow> \<not> of_source (normalize_workspace w) (normalize_git_source g '''') x)
    | Inr m \<Rightarrow> (\<exists>k. map_of (cat_candidates c) k = Some m) \<and> of_source (normalize_workspace w) (normalize_git_source g '''') m
        \<and> (\<forall>k x. map_of (cat_candidates c) k = Some x \<longrightarrow> of_source (normalize_workspace w) (normalize_git_source g '''') x \<longrightarrow> \<not> newer_candidate x m)"
proof -
  note inv = catalog_reachable_inv [OF assms(1)]
  have ok: "map_ok (cat_candidates c)" using catalog_invD(1) [OF inv] by (simp add: catalog_ok_def)
  show ?thesis
    using latest_candidate_None [of "normalize_workspace w" "normalize_git_source g ''''" None
        "mvals (cat_candidates c)"] mvals_mem [OF ok]
      latest_candidate_Some [of "normalize_workspace w" "normalize_git_source g ''''" None
        "mvals (cat_candidates c)", unfolded newest_def]
    unfolding file_get_latest_release_candidate_def normalize_snapshot_id [OF inv]
    by (auto split: option.splits)
qed

theorem latest_candidate_is_newest_witness:
  "file_get_latest_release_candidate ''main'' ''crawler'' new_catalog = Inl CandidateNotFound"
proof -
  have "file_get_latest_release_candidate ''main'' ''crawler'' new_catalog \<noteq> Inr m" for m
    by (simp add: file_get_latest_release_candidate_def new_catalog_def mvals_def normalize_snapshot_def)
  with latest_candidate_is_newest [OF catalog_reachable.start, of "''main''" "''crawler''"]
  show ?thesis by (auto split: sum.splits)
qed

end
