(* ===== verification/Webhook_Types.thy ===== *)
theory Webhook_Types
  imports Catalog
begin

text \<open>
  Control plane events (\<^verbatim>\<open>internal/event/event.go\<close>) and the data of the webhook package
  (\<^verbatim>\<open>internal/webhook/webhook.go\<close>): envelopes and their validation, subscriptions, deliveries,
  and which subscription an event matches. \<^verbatim>\<open>url.Parse\<close> and \<^verbatim>\<open>netip.ParseAddr\<close> are arguments of the
  endpoint check.
\<close>

section \<open>Envelopes\<close>

record envelope =
  env_specversion :: string
  env_id :: string
  env_type :: string
  env_source :: string
  env_subject :: string
  env_time :: time
  env_contenttype :: string
  env_data :: raw

record release_published =
  rp_workspace :: string
  rp_app :: string
  rp_release :: string
  rp_commit :: string
  rp_previous_release :: "string option"
  rp_previous_commit :: "string option"
  rp_actor :: string
  rp_note :: "string option"

record release_rolled_back =
  rr_workspace :: string
  rr_app :: string
  rr_release :: string
  rr_commit :: string
  rr_previous_release :: string
  rr_previous_commit :: string
  rr_actor :: string
  rr_reason :: string

record webhook_test =
  wt_workspace :: string
  wt_subscription :: string
  wt_actor :: string

datatype event_error = InvalidEvent

definition cloud_events_spec_version :: string where "cloud_events_spec_version = ''1.0''"
definition json_content_type :: string where "json_content_type = ''application/json''"
definition release_published_type :: string where "release_published_type = ''windforce.release.published''"
definition release_rolled_back_type :: string where "release_rolled_back_type = ''windforce.release.rolled_back''"
definition webhook_test_type :: string where "webhook_test_type = ''windforce.webhook.test''"

lemmas event_types = release_published_type_def release_rolled_back_type_def webhook_test_type_def

definition marshal_published :: "release_published \<Rightarrow> raw" where
  "marshal_published d = RawDoc (JObj (
     [(''workspace'', JStr (rp_workspace d)), (''app_key'', JStr (rp_app d)),
      (''release_id'', JStr (rp_release d)), (''commit'', JStr (rp_commit d))]
     @ omit_nil ''previous_release_id'' (rp_previous_release d)
     @ omit_nil ''previous_commit'' (rp_previous_commit d)
     @ [(''actor'', JStr (rp_actor d))] @ omit_nil ''note'' (rp_note d)))"

definition marshal_rolled_back :: "release_rolled_back \<Rightarrow> raw" where
  "marshal_rolled_back d = RawDoc (JObj
     [(''workspace'', JStr (rr_workspace d)), (''app_key'', JStr (rr_app d)),
      (''release_id'', JStr (rr_release d)), (''commit'', JStr (rr_commit d)),
      (''previous_release_id'', JStr (rr_previous_release d)),
      (''previous_commit'', JStr (rr_previous_commit d)),
      (''actor'', JStr (rr_actor d)), (''reason'', JStr (rr_reason d))])"

definition marshal_webhook_test :: "webhook_test \<Rightarrow> raw" where
  "marshal_webhook_test d = RawDoc (JObj
     [(''workspace'', JStr (wt_workspace d)), (''subscription_id'', JStr (wt_subscription d)),
      (''actor'', JStr (wt_actor d))])"

text \<open>
  Decoding the data back: null decodes to the zero struct, another value that is not an object is an
  error, and so is an unknown member.
\<close>

definition decode_published :: "envelope \<Rightarrow> event_error + release_published" where
  "decode_published v =
    (if env_type v \<noteq> release_published_type then Inl InvalidEvent
     else case env_data v of
       RawDoc JNull \<Rightarrow> Inr \<lparr>rp_workspace = '''', rp_app = '''', rp_release = '''', rp_commit = '''',
          rp_previous_release = None, rp_previous_commit = None, rp_actor = '''', rp_note = None\<rparr>
     | RawDoc (JObj kvs) \<Rightarrow>
        if \<not> known_fields [''workspace'', ''app_key'', ''release_id'', ''commit'', ''previous_release_id'',
             ''previous_commit'', ''actor'', ''note''] kvs then Inl InvalidEvent
        else (case (string_field ''workspace'' '''' kvs, string_field ''app_key'' '''' kvs,
                    string_field ''release_id'' '''' kvs, string_field ''commit'' '''' kvs) of
           (Some w, Some a, Some r, Some c) \<Rightarrow>
             (case (string_ptr_field ''previous_release_id'' None kvs, string_ptr_field ''previous_commit'' None kvs,
                    string_field ''actor'' '''' kvs, string_ptr_field ''note'' None kvs) of
                (Some pr, Some pc, Some ac, Some n) \<Rightarrow>
                  Inr \<lparr>rp_workspace = w, rp_app = a, rp_release = r, rp_commit = c,
                    rp_previous_release = pr, rp_previous_commit = pc, rp_actor = ac, rp_note = n\<rparr>
              | _ \<Rightarrow> Inl InvalidEvent)
         | _ \<Rightarrow> Inl InvalidEvent)
     | _ \<Rightarrow> Inl InvalidEvent)"

definition decode_rolled_back :: "envelope \<Rightarrow> event_error + release_rolled_back" where
  "decode_rolled_back v =
    (if env_type v \<noteq> release_rolled_back_type then Inl InvalidEvent
     else case env_data v of
       RawDoc JNull \<Rightarrow> Inr \<lparr>rr_workspace = '''', rr_app = '''', rr_release = '''', rr_commit = '''',
          rr_previous_release = '''', rr_previous_commit = '''', rr_actor = '''', rr_reason = ''''\<rparr>
     | RawDoc (JObj kvs) \<Rightarrow>
        if \<not> known_fields [''workspace'', ''app_key'', ''release_id'', ''commit'', ''previous_release_id'',
             ''previous_commit'', ''actor'', ''reason''] kvs then Inl InvalidEvent
        else (case (string_field ''workspace'' '''' kvs, string_field ''app_key'' '''' kvs,
                    string_field ''release_id'' '''' kvs, string_field ''commit'' '''' kvs) of
           (Some w, Some a, Some r, Some c) \<Rightarrow>
             (case (string_field ''previous_release_id'' '''' kvs, string_field ''previous_commit'' '''' kvs,
                    string_field ''actor'' '''' kvs, string_field ''reason'' '''' kvs) of
                (Some pr, Some pc, Some ac, Some re) \<Rightarrow>
                  Inr \<lparr>rr_workspace = w, rr_app = a, rr_release = r, rr_commit = c,
                    rr_previous_release = pr, rr_previous_commit = pc, rr_actor = ac, rr_reason = re\<rparr>
              | _ \<Rightarrow> Inl InvalidEvent)
         | _ \<Rightarrow> Inl InvalidEvent)
     | _ \<Rightarrow> Inl InvalidEvent)"

definition decode_webhook_test :: "envelope \<Rightarrow> event_error + webhook_test" where
  "decode_webhook_test v =
    (if env_type v \<noteq> webhook_test_type then Inl InvalidEvent
     else case env_data v of
       RawDoc JNull \<Rightarrow> Inr \<lparr>wt_workspace = '''', wt_subscription = '''', wt_actor = ''''\<rparr>
     | RawDoc (JObj kvs) \<Rightarrow>
        if \<not> known_fields [''workspace'', ''subscription_id'', ''actor''] kvs then Inl InvalidEvent
        else (case (string_field ''workspace'' '''' kvs, string_field ''subscription_id'' '''' kvs,
                    string_field ''actor'' '''' kvs) of
           (Some w, Some s, Some a) \<Rightarrow> Inr \<lparr>wt_workspace = w, wt_subscription = s, wt_actor = a\<rparr>
         | _ \<Rightarrow> Inl InvalidEvent)
     | _ \<Rightarrow> Inl InvalidEvent)"

definition blank :: "string \<Rightarrow> bool" where
  "blank s \<longleftrightarrow> trim_space s = ''''"

definition control_plane_source :: "string \<Rightarrow> string" where
  "control_plane_source w = ''/workspaces/'' @ w @ ''/control-plane''"

definition release_subject :: "string \<Rightarrow> string \<Rightarrow> string" where
  "release_subject app release = ''apps/'' @ app @ ''/releases/'' @ release"

definition validate_published :: "envelope \<Rightarrow> bool" where
  "validate_published v = (case decode_published v of Inl _ \<Rightarrow> False | Inr d \<Rightarrow>
     \<not> blank (rp_app d) \<and> \<not> blank (rp_release d) \<and> \<not> blank (rp_commit d) \<and> \<not> blank (rp_actor d)
     \<and> env_source v = control_plane_source (normalize_workspace (rp_workspace d))
     \<and> env_subject v = release_subject (rp_app d) (rp_release d))"

definition validate_rolled_back :: "envelope \<Rightarrow> bool" where
  "validate_rolled_back v = (case decode_rolled_back v of Inl _ \<Rightarrow> False | Inr d \<Rightarrow>
     \<not> blank (rr_app d) \<and> \<not> blank (rr_release d) \<and> \<not> blank (rr_commit d)
     \<and> \<not> blank (rr_previous_release d) \<and> \<not> blank (rr_previous_commit d)
     \<and> \<not> blank (rr_actor d) \<and> \<not> blank (rr_reason d)
     \<and> env_source v = control_plane_source (normalize_workspace (rr_workspace d))
     \<and> env_subject v = release_subject (rr_app d) (rr_release d))"

definition validate_webhook_test :: "envelope \<Rightarrow> bool" where
  "validate_webhook_test v = (case decode_webhook_test v of Inl _ \<Rightarrow> False | Inr d \<Rightarrow>
     \<not> blank (wt_subscription d) \<and> \<not> blank (wt_actor d)
     \<and> env_source v = control_plane_source (normalize_workspace (wt_workspace d))
     \<and> env_subject v = ''webhooks/'' @ wt_subscription d @ ''/test'')"

definition validate_event :: "envelope \<Rightarrow> bool" where
  "validate_event v \<longleftrightarrow>
     env_specversion v = cloud_events_spec_version \<and> prefix ''evt_'' (env_id v) \<and> 4 < length (env_id v)
     \<and> env_time v \<noteq> 0 \<and> env_contenttype v = json_content_type \<and> json_valid (env_data v)
     \<and> (if env_type v = release_published_type then validate_published v
        else if env_type v = release_rolled_back_type then validate_rolled_back v
        else env_type v = webhook_test_type \<and> validate_webhook_test v)"

definition checked :: "envelope \<Rightarrow> event_error + envelope" where
  "checked v = (if validate_event v then Inr v else Inl InvalidEvent)"

definition new_release_published :: "string \<Rightarrow> time \<Rightarrow> release_published \<Rightarrow> event_error + envelope" where
  "new_release_published ident occurred d =
    (let d = d\<lparr>rp_workspace := normalize_workspace (rp_workspace d),
              rp_actor := (if blank (rp_actor d) then ''system'' else trim_space (rp_actor d)),
              rp_note := (case rp_note d of None \<Rightarrow> None
                 | Some n \<Rightarrow> if blank n then None else Some (trim_space n))\<rparr>
     in checked \<lparr>env_specversion = cloud_events_spec_version, env_id = trim_space ident,
          env_type = release_published_type, env_source = control_plane_source (rp_workspace d),
          env_subject = release_subject (rp_app d) (rp_release d), env_time = occurred,
          env_contenttype = json_content_type, env_data = marshal_published d\<rparr>)"

definition new_release_rolled_back :: "string \<Rightarrow> time \<Rightarrow> release_rolled_back \<Rightarrow> event_error + envelope" where
  "new_release_rolled_back ident occurred d =
    (let d = d\<lparr>rr_workspace := normalize_workspace (rr_workspace d), rr_actor := trim_space (rr_actor d),
              rr_reason := trim_space (rr_reason d)\<rparr>
     in checked \<lparr>env_specversion = cloud_events_spec_version, env_id = trim_space ident,
          env_type = release_rolled_back_type, env_source = control_plane_source (rr_workspace d),
          env_subject = release_subject (rr_app d) (rr_release d), env_time = occurred,
          env_contenttype = json_content_type, env_data = marshal_rolled_back d\<rparr>)"

definition new_webhook_test :: "string \<Rightarrow> time \<Rightarrow> webhook_test \<Rightarrow> event_error + envelope" where
  "new_webhook_test ident occurred d =
    (let d = d\<lparr>wt_workspace := normalize_workspace (wt_workspace d),
              wt_subscription := trim_space (wt_subscription d),
              wt_actor := (if blank (wt_actor d) then ''system'' else trim_space (wt_actor d))\<rparr>
     in checked \<lparr>env_specversion = cloud_events_spec_version, env_id = trim_space ident,
          env_type = webhook_test_type, env_source = control_plane_source (wt_workspace d),
          env_subject = ''webhooks/'' @ wt_subscription d @ ''/test'', env_time = occurred,
          env_contenttype = json_content_type, env_data = marshal_webhook_test d\<rparr>)"

section \<open>Subscriptions and deliveries\<close>

text \<open>A delivery state is a string in the code; \<open>DeliveryOther\<close> is any other one, the empty one included.\<close>

datatype delivery_state =
    DeliveryPending | DeliveryDelivering | DeliveryRetrying | DeliverySucceeded | DeliveryFailed
  | DeliveryCanceled | DeliveryOther string

datatype webhook_error =
    WebhookNotFound | WebhookConflict | WebhookInvalid | NoPendingDelivery | InvalidDeliveryLease

record subscription =
  sub_id :: string
  sub_workspace :: string
  sub_name :: string
  sub_endpoint :: string
  sub_secret :: string
  sub_event_types :: "string list"
  sub_app_keys :: "string list"
  sub_enabled :: bool
  sub_created_by :: string
  sub_updated_by :: string
  sub_created_at :: time
  sub_updated_at :: time
  sub_deleted_at :: "time option"

record delivery =
  del_id :: string
  del_workspace :: string
  del_event :: string
  del_subscription :: string
  del_state :: delivery_state
  del_attempt :: int
  del_next_attempt_at :: time
  del_lease_owner :: "string option"
  del_lease_expires_at :: "time option"
  del_response_status :: "int option"
  del_latency_ms :: "int option"
  del_error_summary :: "string option"
  del_created_at :: time
  del_updated_at :: time
  del_completed_at :: "time option"

record webhook_audit =
  wha_id :: string
  wha_workspace :: string
  wha_subscription :: string
  wha_delivery :: string
  wha_kind :: string
  wha_detail :: string
  wha_actor :: string
  wha_created_at :: time

record delivery_query =
  dq_subscription :: string
  dq_state :: delivery_state
  dq_limit :: int
  dq_cursor_created_at :: time
  dq_cursor_id :: string

record delivery_lease =
  dl_delivery :: string
  dl_worker :: string
  dl_attempt :: int
  dl_expires_at :: time

record delivery_result =
  dr_state :: delivery_state
  dr_next_attempt_at :: time
  dr_response_status :: "int option"
  dr_latency_ms :: "int option"
  dr_error_summary :: "string option"
  dr_completed_at :: time

record retention_policy =
  pol_succeeded_before :: time
  pol_canceled_before :: time
  pol_failed_before :: time
  pol_subscription_before :: time
  pol_batch_size :: int

record retention_result =
  rtn_deliveries :: int
  rtn_events :: int
  rtn_subscriptions :: int

definition retention_empty :: "retention_result \<Rightarrow> bool" where
  "retention_empty r \<longleftrightarrow> rtn_deliveries r = 0 \<and> rtn_events r = 0 \<and> rtn_subscriptions r = 0"

section \<open>Validation and filters\<close>

text \<open>What the endpoint check reads of \<^verbatim>\<open>url.Parse\<close> and \<^verbatim>\<open>netip.ParseAddr\<close>.\<close>

record parsed_url =
  url_scheme :: string
  url_hostname :: string
  url_host :: string
  url_has_user :: bool
  url_fragment :: string

record net_lib =
  parse_url :: "string \<Rightarrow> parsed_url option"
  loopback_addr :: "string \<Rightarrow> bool"

definition trim_suffix :: "string \<Rightarrow> string \<Rightarrow> string" where
  "trim_suffix s t = (if suffix t s then take (length s - length t) s else s)"

definition is_loopback_host :: "net_lib \<Rightarrow> string \<Rightarrow> bool" where
  "is_loopback_host net host =
    (let host = trim_suffix (to_lower (trim_space host)) ''.'' in
     host = ''localhost'' \<or> loopback_addr net host)"

definition validate_endpoint :: "net_lib \<Rightarrow> string \<Rightarrow> bool \<Rightarrow> bool \<Rightarrow> parsed_url option" where
  "validate_endpoint net text allow_http_loopback allow_http_any =
    (case parse_url net (trim_space text) of
       None \<Rightarrow> None
     | Some u \<Rightarrow>
        if url_scheme u \<noteq> ''https''
           \<and> \<not> (url_scheme u = ''http''
               \<and> (allow_http_any \<or> allow_http_loopback \<and> is_loopback_host net (url_hostname u))) then None
        else if url_hostname u = '''' then None
        else if url_has_user u then None
        else if url_fragment u \<noteq> '''' then None
        else Some u)"

definition endpoint_summary :: "net_lib \<Rightarrow> string \<Rightarrow> string" where
  "endpoint_summary net text =
    (case parse_url net (trim_space text) of
       None \<Rightarrow> ''invalid endpoint''
     | Some u \<Rightarrow> if url_scheme u = '''' \<or> url_host u = '''' then ''invalid endpoint''
                else url_scheme u @ ''://'' @ url_host u)"

definition validate_subscription :: "net_lib \<Rightarrow> subscription \<Rightarrow> bool" where
  "validate_subscription net s \<longleftrightarrow>
     \<not> blank (sub_name s) \<and> validate_endpoint net (sub_endpoint s) True False \<noteq> None
     \<and> 16 \<le> length (sub_secret s) \<and> sub_event_types s \<noteq> []
     \<and> list_all (\<lambda>t. t = release_published_type \<or> t = release_rolled_back_type) (sub_event_types s)"

definition unique_sorted :: "string list \<Rightarrow> string list" where
  "unique_sorted values = sort_strings (remdups (filter (\<lambda>v. v \<noteq> '''') (map trim_space values)))"

definition normalize_filters :: "subscription \<Rightarrow> subscription" where
  "normalize_filters s = s\<lparr>sub_name := trim_space (sub_name s),
     sub_event_types := unique_sorted (sub_event_types s), sub_app_keys := unique_sorted (sub_app_keys s)\<rparr>"

definition filter_matches ::
    "bool \<Rightarrow> time option \<Rightarrow> string list \<Rightarrow> string list \<Rightarrow> string \<Rightarrow> string \<Rightarrow> bool" where
  "filter_matches enabled deleted types apps event_type app \<longleftrightarrow>
     enabled \<and> deleted = None \<and> event_type \<in> set types \<and> (apps = [] \<or> app \<in> set apps)"

definition subscription_matches :: "subscription \<Rightarrow> string \<Rightarrow> string \<Rightarrow> bool" where
  "subscription_matches s event_type app =
     filter_matches (sub_enabled s) (sub_deleted_at s) (sub_event_types s) (sub_app_keys s) event_type app"

definition validate_delivery_result :: "delivery_result \<Rightarrow> bool" where
  "validate_delivery_result r =
    (case dr_state r of
       DeliverySucceeded \<Rightarrow> dr_completed_at r \<noteq> 0
     | DeliveryFailed \<Rightarrow> dr_completed_at r \<noteq> 0
     | DeliveryCanceled \<Rightarrow> dr_completed_at r \<noteq> 0
     | DeliveryRetrying \<Rightarrow> dr_next_attempt_at r \<noteq> 0
     | _ \<Rightarrow> False)"

fun valid_delivery_state :: "delivery_state \<Rightarrow> bool" where
  "valid_delivery_state (DeliveryOther s) = False"
| "valid_delivery_state s = True"

section \<open>Lemmas\<close>

lemma unique_sorted_set: "set (unique_sorted vs) = trim_space ` set vs - {''''}"
  by (auto simp: unique_sorted_def)

lemma unique_sorted_canonical: "sorted (unique_sorted vs) \<and> distinct (unique_sorted vs)"
  by (simp add: unique_sorted_def sorted_sort_strings)

lemma unique_sorted_idem: "unique_sorted (unique_sorted vs) = unique_sorted vs"
proof -
  have "trim_space v = v \<and> v \<noteq> ''''" if "v \<in> set (unique_sorted vs)" for v
    using that by (auto simp: unique_sorted_set)
  then have "filter (\<lambda>v. v \<noteq> '''') (map trim_space (unique_sorted vs)) = unique_sorted vs"
    by (simp add: map_idI filter_id_conv)
  then show ?thesis
    using unique_sorted_canonical [of vs] by (subst unique_sorted_def) (simp add: distinct_remdups_id sort_strings_id)
qed

end
