(* ===== verification/State_Types.thy ===== *)
theory State_Types
  imports Webhook_Types "HOL-Library.Word"
begin

text \<open>
  The data of the state package (\<^verbatim>\<open>internal/state/state.go\<close>): runs, jobs, leases, human tasks and
  the snapshot \<^verbatim>\<open>LocalStore\<close> keeps, with the constructors of runs and jobs. The payload of a job
  pins what its run will execute.
\<close>

section \<open>States\<close>

datatype run_state =
    RunQueued | RunRunning | RunWaitingHuman | RunResuming | RunSucceeded | RunFailed | RunCanceled
  | RunExpired

datatype job_state = JobQueued | JobRunning | JobSucceeded | JobFailed

text \<open>The state of a task is taken from a worker's result: \<open>TaskOther ''''\<close> is one that was not set.\<close>

datatype human_task_state = TaskPending | TaskCompleted | TaskExpired | TaskOther string

fun terminal_run_state :: "run_state \<Rightarrow> bool" where
  "terminal_run_state RunSucceeded = True"
| "terminal_run_state RunFailed = True"
| "terminal_run_state RunCanceled = True"
| "terminal_run_state RunExpired = True"
| "terminal_run_state s = False"

definition retention_cutoff :: "run_state \<Rightarrow> time \<Rightarrow> time \<Rightarrow> time" where
  "retention_cutoff s success_older failure_older = (if s = RunSucceeded then success_older else failure_older)"

datatype store_error =
    NotFound | NoQueuedJob | Conflict | InvalidState | InvalidLease | InvalidJson | CryptoFailed
  | InvalidArgument | InvalidInputConfig | LockedKeys "string list" | WebhookFailure webhook_error
  | CatalogFailure catalog_error | EventFailure

definition default_lease_time :: duration where
  "default_lease_time = seconds 30"

section \<open>Records\<close>

record run =
  run_id :: string
  run_adapter :: string
  run_app :: string
  run_action :: string
  run_state :: run_state
  run_deployment :: deployment
  run_input :: raw
  run_input_resolved :: bool
  run_output :: raw
  run_result :: "job_result option"
  run_error :: raw
  run_task :: string
  run_correlation :: string
  run_env :: "string list"
  run_created_by :: string
  run_permissioned_as :: string
  run_client :: string
  run_created_at :: time
  run_updated_at :: time
  run_expires_at :: "time option"

record job_payload =
  jp_workspace :: string
  jp_git_source :: string
  jp_commit :: string
  jp_app :: string
  jp_action :: string
  jp_version :: string
  jp_tag :: string
  jp_deployment_tag :: string
  jp_deployment_tag_override :: "string option"
  jp_entrypoint :: string
  jp_runtime :: string
  jp_script_lang :: string
  jp_timeout_s :: int
  jp_max_concurrent :: "int option"
  jp_capabilities :: "string list"
  jp_labels :: "string list"
  jp_deployment_id :: "string option"
  jp_bundle_digest :: string
  jp_bundle_uri :: string
  jp_object_uri :: string
  jp_trigger_kind :: string
  jp_trigger_headers :: raw
  jp_action_spec :: action
  jp_input_schema :: raw
  jp_output_schema :: raw
  jp_input :: raw
  jp_input_resolved :: bool
  jp_deployment :: "deployment option"
  jp_correlation :: string
  jp_env :: "string list"
  jp_created_by :: string
  jp_permissioned_as :: string
  jp_client :: string
  jp_flow_run :: string
  jp_flow_step :: string
  jp_flow_key :: string
  jp_flow_step_key :: string

record job =
  job_id :: string
  job_run :: string
  job_state :: job_state
  job_kind :: string
  job_payload :: job_payload
  job_priority :: int
  job_attempt :: int
  job_lease_owner :: string
  job_lease_expires_at :: "time option"
  job_started_at :: "time option"
  job_canceled_by :: "string option"
  job_canceled_reason :: "string option"
  job_created_at :: time
  job_updated_at :: time

record lease =
  lease_job :: string
  lease_worker :: string
  lease_expires_at :: time
  lease_attempt :: int
  lease_acquired_at :: time

record heartbeat_result =
  hb_canceled_by :: "string option"
  hb_canceled_reason :: "string option"
  hb_still_owned :: bool

record human_task =
  task_id :: string
  task_run :: string
  task_state :: human_task_state
  task_title :: string
  task_description :: string
  task_schema :: raw
  task_resume_input :: raw
  task_created_at :: time
  task_completed_at :: "time option"
  task_expires_at :: "time option"

record cancel_result =
  cr_found :: bool
  cr_completed_now :: bool
  cr_soft_canceled :: bool
  cr_already_completed :: bool

record job_list_query =
  jq_workspace :: string
  jq_status :: string
  jq_app :: string
  jq_action :: string
  jq_trigger_kind :: string
  jq_limit :: int
  jq_cursor_created_at :: "time option"
  jq_cursor_id :: string
  jq_since :: "time option"
  jq_until :: "time option"

record requeue_app_spec =
  rq_workspace :: string
  rq_app :: string
  rq_action :: "string option"
  rq_action_tags :: "(string, string) gomap"

record job_list_item =
  ji_id :: string
  ji_workspace :: string
  ji_app :: string
  ji_action :: string
  ji_trigger_kind :: string
  ji_status :: string
  ji_queued :: bool
  ji_running :: bool
  ji_completed :: bool
  ji_created_at :: time
  ji_started_at :: "time option"
  ji_completed_at :: "time option"
  ji_duration_ms :: int
  ji_worker :: "string option"
  ji_git_source :: "int option"
  ji_commit :: "string option"
  ji_entrypoint :: string
  ji_tag :: string
  ji_created_by :: string
  ji_permissioned_as :: string
  ji_canceled_by :: "string option"
  ji_canceled_reason :: "string option"
  ji_flow_run :: "string option"
  ji_flow_step :: "string option"
  ji_error_snippet :: "string option"

record job_counts =
  jc_queued :: int
  jc_running :: int
  jc_completed_recent :: int
  jc_failed_recent :: int
  jc_canceled_recent :: int

record job_summary =
  js_counts :: job_counts
  js_oldest_queued_at :: "time option"
  js_by_tag :: "(string \<times> job_counts) list"
  js_by_app :: "(string \<times> job_counts) list"

record variable =
  var_app :: string
  var_path :: string
  var_value :: string
  var_secret :: bool
  var_description :: string

record resource =
  rsc_path :: string
  rsc_value :: raw
  rsc_type :: string
  rsc_description :: string

record client =
  cli_id :: string
  cli_workspace :: string
  cli_name :: string
  cli_token_hash :: string
  cli_created_by :: string
  cli_updated_by :: string
  cli_created_at :: time
  cli_updated_at :: time

record client_audit =
  cla_id :: string
  cla_workspace :: string
  cla_client :: string
  cla_kind :: string
  cla_detail :: string
  cla_actor :: string
  cla_created_at :: time

record input_config =
  ic_workspace :: string
  ic_app :: string
  ic_action :: string
  ic_client :: string
  ic_config :: raw
  ic_locked_keys :: "string list"
  ic_updated_by :: string
  ic_updated_at :: time

record input_config_audit =
  ica_id :: string
  ica_workspace :: string
  ica_app :: string
  ica_action :: string
  ica_client :: string
  ica_kind :: string
  ica_detail :: string
  ica_actor :: string
  ica_created_at :: time

record workspace =
  ws_id :: string
  ws_name :: string
  ws_status :: string
  ws_token_hash :: string
  ws_created_by :: string
  ws_updated_by :: string
  ws_created_at :: time
  ws_updated_at :: time

record workspace_audit =
  wsa_id :: string
  wsa_workspace :: string
  wsa_kind :: string
  wsa_detail :: string
  wsa_actor :: string
  wsa_created_at :: time

record run_event =
  ev_id :: int
  ev_run :: string
  ev_type :: string
  ev_payload :: raw
  ev_created_at :: time

record job_log =
  log_job :: string
  log_workspace :: string
  log_text :: string
  log_created_at :: time

record subscription_record =
  sr_id :: string
  sr_workspace :: string
  sr_name :: string
  sr_endpoint :: raw
  sr_secret :: raw
  sr_event_types :: "string list"
  sr_app_keys :: "string list"
  sr_enabled :: bool
  sr_created_by :: string
  sr_updated_by :: string
  sr_created_at :: time
  sr_updated_at :: time
  sr_deleted_at :: "time option"

record worker_record =
  wk_id :: string
  wk_group :: string
  wk_tags :: "string list"
  wk_labels :: "string list"
  wk_slots :: int
  wk_started_at :: time
  wk_last_heartbeat_at :: time

text \<open>
  The snapshot. The maps of the code that may be nil after decoding are empty here, except the
  clients, where \<^verbatim>\<open>ensureSnapshot\<close> falls back to the legacy field when the map is nil.
\<close>

record snapshot =
  sn_sequence :: int
  sn_runs :: "(string, run) gomap"
  sn_jobs :: "(string, job) gomap"
  sn_tasks :: "(string, human_task) gomap"
  sn_events :: "run_event list"
  sn_logs :: "(string, job_log) gomap"
  sn_job_state :: "(string, (string, raw) gomap) gomap"
  sn_variables :: "(string, (string, variable) gomap) gomap"
  sn_resources :: "(string, (string, resource) gomap) gomap"
  sn_clients :: "(string, (string, client) gomap) gomap option"
  sn_client_audits :: "(string, client_audit list) gomap option"
  sn_client_token_version :: int
  sn_input_configs :: "(string, (string, input_config) gomap) gomap"
  sn_input_config_audits :: "(string, input_config_audit list) gomap"
  sn_legacy_clients :: "(string, (string, client) gomap) gomap option"
  sn_legacy_client_audits :: "(string, client_audit list) gomap option"
  sn_catalog :: catalog
  sn_subscriptions :: "(string, subscription_record) gomap"
  sn_control_events :: "(string, envelope) gomap"
  sn_deliveries :: "(string, delivery) gomap"
  sn_webhook_audits :: "(string, webhook_audit list) gomap"
  sn_workers :: "(string, worker_record) gomap"
  sn_workspaces :: "(string, workspace) gomap"
  sn_workspace_audits :: "workspace_audit list"

section \<open>Identifiers\<close>

text \<open>
  \<^verbatim>\<open>NewID\<close> on the random bytes it reads: \<open>None\<close> where reading fails, and then the clock is used.
\<close>

definition hex_word :: "8 word \<Rightarrow> string" where
  "hex_word w = [hex_digit (unat w div 16), hex_digit (unat w mod 16)]"

definition hex_words :: "8 word list \<Rightarrow> string" where
  "hex_words ws = concat (map hex_word ws)"

definition new_canonical_uuid :: "8 word list option \<Rightarrow> string option" where
  "new_canonical_uuid data = map_option (\<lambda>d0.
     let d1 = d0[6 := or (and (d0 ! 6) 0x0f) 0x40];
         d = d1[8 := or (and (d1 ! 8) 0x3f) 0x80]
     in hex_words (take 4 d) @ ''-'' @ hex_words (take 2 (drop 4 d)) @ ''-''
        @ hex_words (take 2 (drop 6 d)) @ ''-'' @ hex_words (take 2 (drop 8 d)) @ ''-''
        @ hex_words (take 6 (drop 10 d))) data"

definition new_id :: "string \<Rightarrow> 8 word list option \<Rightarrow> 8 word list option \<Rightarrow> int \<Rightarrow> string" where
  "new_id p data16 data12 unix_nano =
    (let fallback = (case data12 of None \<Rightarrow> p @ ''_'' @ itoa unix_nano | Some d \<Rightarrow> p @ ''_'' @ hex_words d) in
     if p = ''run'' \<or> p = ''job'' \<or> p = ''human''
     then (case new_canonical_uuid data16 of Some u \<Rightarrow> u | None \<Rightarrow> fallback) else fallback)"

definition clean_rune :: "string \<Rightarrow> string" where
  "clean_rune r = (case r of
     [c] \<Rightarrow> if in_range (CHR ''a'') (CHR ''z'') c \<or> in_range (CHR ''A'') (CHR ''Z'') c
             \<or> in_range (CHR ''0'') (CHR ''9'') c \<or> c \<in> {CHR ''.'', CHR ''-'', CHR ''_'', CHR '':''}
           then [c] else ''_''
   | _ \<Rightarrow> ''_'')"

definition clean_id :: "string \<Rightarrow> string" where
  "clean_id v = concat (map clean_rune (runes (trim_space v)))"

section \<open>Runs and their jobs\<close>

definition default_actor_subject :: string where "default_actor_subject = ''system''"

definition empty_object :: raw where "empty_object = RawDoc (JObj [])"
definition null_doc :: raw where "null_doc = RawDoc JNull"

definition new_run :: "call_env \<Rightarrow> string \<Rightarrow> string \<Rightarrow> string \<Rightarrow> string \<Rightarrow> deployment \<Rightarrow> raw \<Rightarrow> run" where
  "new_run e adapter ident app akey d input =
    \<lparr>run_id = (if ident = '''' then draw_id e ''run'' 0 else ident), run_adapter = adapter, run_app = app,
     run_action = akey, run_state = RunQueued, run_deployment = pin_execution_deployment d akey,
     run_input = (if raw_empty input then empty_object else input), run_input_resolved = False,
     run_output = raw_nil, run_result = None, run_error = raw_nil, run_task = '''', run_correlation = '''',
     run_env = [], run_created_by = default_actor_subject, run_permissioned_as = default_actor_subject,
     run_client = '''', run_created_at = clock e, run_updated_at = clock e, run_expires_at = None\<rparr>"

definition actor_created_by :: "run \<Rightarrow> string" where
  "actor_created_by r =
    (if trim_space (run_created_by r) \<noteq> '''' then trim_space (run_created_by r) else default_actor_subject)"

definition actor_permissioned_as :: "run \<Rightarrow> string" where
  "actor_permissioned_as r =
    (if trim_space (run_permissioned_as r) \<noteq> '''' then trim_space (run_permissioned_as r) else actor_created_by r)"

definition action_spec_of_run :: "run \<Rightarrow> action" where
  "action_spec_of_run r = (case dep_action (run_deployment r) (run_action r) of None \<Rightarrow> zero_action | Some a \<Rightarrow> a)"

definition new_action_job :: "call_env \<Rightarrow> run \<Rightarrow> raw \<Rightarrow> job" where
  "new_action_job e r input =
    (let input = (if raw_empty input then run_input r else input);
         spec0 = action_spec_of_run r;
         spec = spec0\<lparr>act_input_body := raw_nil, act_output_body := raw_nil, act_operator_body := raw_nil\<rparr>;
         d = run_deployment r in
     \<lparr>job_id = draw_id e ''job'' 0, job_run = run_id r, job_state = JobQueued, job_kind = ''action'',
      job_payload =
       \<lparr>jp_workspace = source_workspace d, jp_git_source = source_git_source d, jp_commit = dep_commit d,
        jp_app = run_app r, jp_action = run_action r, jp_version = dep_version d,
        jp_tag = effective_route_tag_for_action d spec, jp_deployment_tag = dep_tag d,
        jp_deployment_tag_override = dep_tag_override d, jp_entrypoint = dep_entrypoint d,
        jp_runtime = dep_runtime d, jp_script_lang = dep_script_lang d, jp_timeout_s = dep_timeout_s d,
        jp_max_concurrent = dep_max_concurrent d, jp_capabilities = dep_capabilities d,
        jp_labels = effective_required_labels d spec, jp_deployment_id = dep_deployment_id d,
        jp_bundle_digest = dep_bundle_digest d, jp_bundle_uri = dep_bundle_uri d,
        jp_object_uri = dep_object_uri d, jp_trigger_kind = run_adapter r, jp_trigger_headers = raw_nil,
        jp_action_spec = spec, jp_input_schema = act_input_body spec0, jp_output_schema = act_output_body spec0,
        jp_input = input, jp_input_resolved = run_input_resolved r, jp_deployment = None,
        jp_correlation = run_correlation r, jp_env = run_env r, jp_created_by = actor_created_by r,
        jp_permissioned_as = actor_permissioned_as r, jp_client = run_client r, jp_flow_run = '''',
        jp_flow_step = '''', jp_flow_key = '''', jp_flow_step_key = ''''\<rparr>,
      job_priority = 100, job_attempt = 0, job_lease_owner = '''', job_lease_expires_at = None,
      job_started_at = None, job_canceled_by = None, job_canceled_reason = None,
      job_created_at = clock e, job_updated_at = clock e\<rparr>)"

definition cancel_actor_subject :: "job \<Rightarrow> run \<Rightarrow> string \<Rightarrow> string" where
  "cancel_actor_subject j r by = first_non_empty
     [trim_space by, trim_space (run_permissioned_as r), trim_space (run_created_by r),
      trim_space (jp_permissioned_as (job_payload j)), trim_space (jp_created_by (job_payload j)),
      default_actor_subject]"

definition cancel_before_execution_message :: string where
  "cancel_before_execution_message = ''job canceled before execution''"
definition cancel_during_execution_message :: string where
  "cancel_during_execution_message = ''job canceled''"
definition cancel_worker_lost_message :: string where
  "cancel_worker_lost_message = ''job canceled; worker lost during execution''"

text \<open>\<^verbatim>\<open>PinnedDeployment\<close>: the deployment a payload pins, from its compact fields.\<close>

definition or_string :: "string \<Rightarrow> string \<Rightarrow> string" where
  "or_string a b = (if a = '''' then b else a)"

definition or_option :: "'a option \<Rightarrow> 'a option \<Rightarrow> 'a option" where
  "or_option a b = (case a of None \<Rightarrow> b | Some _ \<Rightarrow> a)"

definition or_list :: "'a list \<Rightarrow> 'a list \<Rightarrow> 'a list" where
  "or_list a b = (if a = [] then b else a)"

definition pinned_deployment :: "job_payload \<Rightarrow> deployment" where
  "pinned_deployment p =
    (let d = (case jp_deployment p of None \<Rightarrow> zero_deployment | Some d \<Rightarrow> d) in
     d\<lparr>dep_workspace := or_string (dep_workspace d) (jp_workspace p),
       dep_git_source := or_string (dep_git_source d) (jp_git_source p),
       dep_commit := or_string (dep_commit d) (jp_commit p),
       dep_app := or_string (dep_app d) (jp_app p),
       dep_version := or_string (dep_version d) (jp_version p),
       dep_tag := or_string (dep_tag d) (jp_deployment_tag p),
       dep_tag_override := or_option (dep_tag_override d) (jp_deployment_tag_override p),
       dep_entrypoint := or_string (dep_entrypoint d) (jp_entrypoint p),
       dep_runtime := or_string (dep_runtime d) (jp_runtime p),
       dep_script_lang := or_string (dep_script_lang d) (jp_script_lang p),
       dep_timeout_s := (if dep_timeout_s d = 0 then jp_timeout_s p else dep_timeout_s d),
       dep_max_concurrent := or_option (dep_max_concurrent d) (jp_max_concurrent p),
       dep_capabilities := or_list (dep_capabilities d) (jp_capabilities p),
       dep_labels := or_list (dep_labels d) (jp_labels p),
       dep_deployment_id := or_option (dep_deployment_id d) (jp_deployment_id p),
       dep_bundle_digest := or_string (dep_bundle_digest d) (jp_bundle_digest p),
       dep_bundle_uri := or_string (dep_bundle_uri d) (jp_bundle_uri p),
       dep_object_uri := or_string (dep_object_uri d) (jp_object_uri p),
       dep_actions := (case dep_actions d of
            None \<Rightarrow> if jp_action p \<noteq> '''' then Some [(jp_action p, jp_action_spec p)] else None
          | Some m \<Rightarrow> Some m)\<rparr>)"

definition is_terminal :: "run \<Rightarrow> bool" where
  "is_terminal r = terminal_run_state (run_state r)"

definition is_settled_for_trigger :: "run \<Rightarrow> bool" where
  "is_settled_for_trigger r \<longleftrightarrow> is_terminal r \<or> run_state r = RunWaitingHuman"

end
