(* ===== verification/Job_Views.thy ===== *)
theory Job_Views
  imports State_Types
begin

text \<open>
  The views of jobs (\<^verbatim>\<open>internal/state/job_views.go\<close>): which job a worker may claim, the
  concurrency limit of an app, the status a listing shows, listing and summary, and the small
  helpers of the package for payloads.
\<close>

section \<open>What a job asks for\<close>

definition job_tag :: "job \<Rightarrow> string" where
  "job_tag j =
    (if trim_space (jp_tag (job_payload j)) \<noteq> '''' then trim_space (jp_tag (job_payload j))
     else effective_route_tag_for_action (pinned_deployment (job_payload j)) (jp_action_spec (job_payload j)))"

definition job_app_key :: "job \<Rightarrow> string" where
  "job_app_key j =
    (if trim_space (jp_app (job_payload j)) \<noteq> '''' then trim_space (jp_app (job_payload j))
     else trim_space (dep_app (pinned_deployment (job_payload j))))"

definition normalized_job_workspace :: "string \<Rightarrow> job \<Rightarrow> string" where
  "normalized_job_workspace w j =
    (let w = (if w = '''' then jp_workspace (job_payload j) else w);
         w = (if w = '''' then source_workspace (pinned_deployment (job_payload j)) else w)
     in normalize_workspace w)"

definition job_max_concurrent :: "job \<Rightarrow> int option" where
  "job_max_concurrent j =
    (case dep_max_concurrent (pinned_deployment (job_payload j)) of
       None \<Rightarrow> None | Some n \<Rightarrow> if n \<le> 0 then None else Some n)"

definition counts_against :: "job \<Rightarrow> job \<Rightarrow> bool" where
  "counts_against candidate j \<longleftrightarrow> job_state j = JobRunning
     \<and> normalized_job_workspace '''' j = normalized_job_workspace '''' candidate
     \<and> job_app_key j = job_app_key candidate"

definition max_concurrent_reached :: "snapshot \<Rightarrow> job \<Rightarrow> bool" where
  "max_concurrent_reached s candidate =
    (case job_max_concurrent candidate of
       None \<Rightarrow> False
     | Some limit \<Rightarrow>
        if job_app_key candidate = '''' then False
        else limit \<le> int (length (filter (counts_against candidate) (mvals (sn_jobs s)))))"

text \<open>A set of tags or labels: nil, the empty set, when every element is blank.\<close>

definition normalize_claim_tags :: "string list \<Rightarrow> string list" where
  "normalize_claim_tags tags = remdups (filter (\<lambda>t. t \<noteq> '''') (map trim_space tags))"

definition job_required_labels :: "job \<Rightarrow> string list" where
  "job_required_labels j =
    (if jp_labels (job_payload j) \<noteq> [] then jp_labels (job_payload j) else jp_capabilities (job_payload j))"

definition claim_allowed :: "job \<Rightarrow> string list \<Rightarrow> string list \<Rightarrow> bool" where
  "claim_allowed j tags labels \<longleftrightarrow>
     (tags \<noteq> [] \<longrightarrow> job_tag j \<in> set tags) \<and> list_all (\<lambda>l. l \<in> set labels) (job_required_labels j)"

section \<open>Status\<close>

definition job_terminal_status :: "job \<Rightarrow> run \<Rightarrow> string" where
  "job_terminal_status j r =
    (if run_state r = RunCanceled then ''canceled''
     else if job_state j = JobQueued then ''queued''
     else if job_state j = JobRunning then ''running''
     else if job_state j = JobSucceeded \<or> run_state r = RunSucceeded \<or> run_state r = RunWaitingHuman
     then ''success'' else ''failure'')"

definition job_status_matches :: "string \<Rightarrow> string \<Rightarrow> bool" where
  "job_status_matches flt status =
    (if flt = '''' \<or> flt = ''all'' then True
     else if flt = ''completed'' then status = ''success'' \<or> status = ''failure'' \<or> status = ''canceled''
     else if flt = ''success'' then status = ''success''
     else if flt = ''failure'' then status = ''failure''
     else status = flt)"

definition job_trigger_kind :: "job \<Rightarrow> string" where
  "job_trigger_kind j =
    (if jp_trigger_kind (job_payload j) \<noteq> '''' then jp_trigger_kind (job_payload j) else ''api'')"

definition job_entrypoint :: "job \<Rightarrow> string" where
  "job_entrypoint j =
    (let entry = trim_space (dep_entrypoint (pinned_deployment (job_payload j))) in
     if entry \<noteq> '''' then entry else trim_space (act_entrypoint (jp_action_spec (job_payload j))))"

definition job_completed :: "job \<Rightarrow> run \<Rightarrow> bool" where
  "job_completed j r \<longleftrightarrow> job_state j = JobSucceeded \<or> job_state j = JobFailed \<or> is_terminal r"

section \<open>Pointers and snippets\<close>

definition string_ptr :: "string \<Rightarrow> string option" where
  "string_ptr v = (if v = '''' then None else Some v)"

definition numeric_string_ptr :: "string \<Rightarrow> int option" where
  "numeric_string_ptr v =
    (case parse_int64 (trim_space v) of None \<Rightarrow> None | Some n \<Rightarrow> if n \<le> 0 then None else Some n)"

fun first_present :: "'a option list \<Rightarrow> 'a option" where
  "first_present [] = None"
| "first_present (Some v # vs) = Some v"
| "first_present (None # vs) = first_present vs"

text \<open>
  \<^verbatim>\<open>json.Unmarshal\<close> into a struct: null decodes to the zero struct; a field of the wrong kind fails
  the call.
\<close>

definition struct_members :: "raw \<Rightarrow> (string \<times> json) list option" where
  "struct_members r = (case r of RawDoc JNull \<Rightarrow> Some [] | RawDoc (JObj kvs) \<Rightarrow> Some kvs | _ \<Rightarrow> None)"

definition canceled_reason :: "run \<Rightarrow> string option" where
  "canceled_reason r =
    (if run_state r \<noteq> RunCanceled \<or> raw_empty (run_error r) then None
     else case struct_members (run_error r) of
        None \<Rightarrow> None
      | Some kvs \<Rightarrow>
         (case (string_field ''message'' '''' kvs, string_ptr_field ''canceledReason'' None kvs) of
            (Some m, Some (Some reason)) \<Rightarrow> Some reason
          | (Some m, Some None) \<Rightarrow> string_ptr m
          | _ \<Rightarrow> None))"

definition canceled_reason_value :: "job \<Rightarrow> string" where
  "canceled_reason_value j = (case job_canceled_reason j of None \<Rightarrow> '''' | Some r \<Rightarrow> r)"

definition canceled_by :: "run \<Rightarrow> string option" where
  "canceled_by r =
    (if run_state r \<noteq> RunCanceled \<or> raw_empty (run_error r) then None
     else case struct_members (run_error r) of
        None \<Rightarrow> None
      | Some kvs \<Rightarrow> (case string_field ''canceledBy'' '''' kvs of None \<Rightarrow> None | Some v \<Rightarrow> string_ptr (trim_space v)))"

definition error_snippet_max :: nat where "error_snippet_max = 200"

text \<open>
  The text of an error: \<^verbatim>\<open>name: message\<close> of a worker error, or the bytes themselves, whose rendering
  for a document is the argument \<open>render\<close>.
\<close>

definition ellipsis :: string where "ellipsis = [CHR 0xE2, CHR 0x80, CHR 0xA6]"

definition error_snippet :: "(raw \<Rightarrow> string) \<Rightarrow> raw \<Rightarrow> string option" where
  "error_snippet render plain =
    (let text0 = (case struct_members plain of
           None \<Rightarrow> render plain
         | Some kvs \<Rightarrow>
            (case (string_field ''name'' '''' kvs, string_field ''message'' '''' kvs) of
               (Some n, Some m) \<Rightarrow>
                 if m = '''' then render plain else if n \<noteq> '''' then n @ '': '' @ m else m
             | _ \<Rightarrow> render plain));
         txt = join_with '' '' (string_fields text0) in
     if txt = '''' then None
     else string_ptr (if error_snippet_max < length (runes txt)
                      then concat (take error_snippet_max (runes txt)) @ ellipsis else txt))"

definition failure_snippet :: "(raw \<Rightarrow> string) \<Rightarrow> string \<Rightarrow> run \<Rightarrow> string option" where
  "failure_snippet render status r =
    (let tail = (if raw_empty (run_error r) then None else error_snippet render (run_error r)) in
     if status \<noteq> ''failure'' then None
     else case run_result r of
        None \<Rightarrow> tail
      | Some res \<Rightarrow>
         (case (if raw_empty (res_output res) then None else error_snippet render (res_output res)) of
            Some s \<Rightarrow> Some s
          | None \<Rightarrow> if res_error res \<noteq> '''' then error_snippet render (RawBytes (res_error res)) else tail))"

section \<open>Listing\<close>

definition new_job_list_item :: "(raw \<Rightarrow> string) \<Rightarrow> string \<Rightarrow> job \<Rightarrow> run \<Rightarrow> job_list_item" where
  "new_job_list_item render w j r =
    (let status = job_terminal_status j r; p = job_payload j in
     \<lparr>ji_id = job_id j, ji_workspace = normalize_workspace w, ji_app = jp_app p, ji_action = jp_action p,
      ji_trigger_kind = job_trigger_kind j, ji_status = status, ji_queued = (job_state j = JobQueued),
      ji_running = (job_state j = JobRunning), ji_completed = job_completed j r,
      ji_created_at = job_created_at j,
      ji_started_at = (case job_started_at j of
          None \<Rightarrow> if job_state j = JobRunning then Some (job_updated_at j) else None | Some t \<Rightarrow> Some t),
      ji_completed_at = (if job_completed j r then Some (run_updated_at r) else None),
      ji_duration_ms = (case run_result r of None \<Rightarrow> 0 | Some res \<Rightarrow> res_duration_ms res),
      ji_worker = string_ptr (job_lease_owner j), ji_git_source = numeric_string_ptr (jp_git_source p),
      ji_commit = string_ptr (jp_commit p), ji_entrypoint = job_entrypoint j, ji_tag = job_tag j,
      ji_created_by = first_non_empty [trim_space (jp_created_by p), trim_space (run_created_by r), default_actor_subject],
      ji_permissioned_as = first_non_empty [trim_space (jp_permissioned_as p), trim_space (run_permissioned_as r),
         trim_space (jp_created_by p), trim_space (run_created_by r), default_actor_subject],
      ji_canceled_by = first_present [job_canceled_by j, canceled_by r],
      ji_canceled_reason = first_present [job_canceled_reason j, canceled_reason r],
      ji_flow_run = string_ptr (jp_flow_run p), ji_flow_step = string_ptr (jp_flow_step p),
      ji_error_snippet = failure_snippet render status r\<rparr>)"

definition job_listed :: "job_list_query \<Rightarrow> job \<Rightarrow> run \<Rightarrow> bool" where
  "job_listed q j r \<longleftrightarrow>
     normalized_job_workspace '''' j = normalize_workspace (jq_workspace q)
     \<and> (jq_app q \<noteq> '''' \<longrightarrow> jp_app (job_payload j) = jq_app q)
     \<and> (jq_action q \<noteq> '''' \<longrightarrow> jp_action (job_payload j) = jq_action q)
     \<and> (jq_trigger_kind q \<noteq> '''' \<longrightarrow> job_trigger_kind j = jq_trigger_kind q)
     \<and> (case jq_since q of None \<Rightarrow> True | Some t \<Rightarrow> \<not> job_created_at j < t)
     \<and> (case jq_until q of None \<Rightarrow> True | Some t \<Rightarrow> \<not> t < job_created_at j)
     \<and> job_status_matches (if jq_status q = '''' then ''all'' else jq_status q) (job_terminal_status j r)
     \<and> (case jq_cursor_created_at q of None \<Rightarrow> True
        | Some t \<Rightarrow> \<not> (t < job_created_at j \<or> job_created_at j = t \<and> jq_cursor_id q \<le> job_id j))"

text \<open>Newest first, and the larger identifier first among jobs created at one time.\<close>

definition item_before :: "job_list_item \<Rightarrow> job_list_item \<Rightarrow> bool" where
  "item_before a b =
    (if ji_created_at a \<noteq> ji_created_at b then ji_created_at b < ji_created_at a else ji_id b < ji_id a)"

definition list_jobs_from_records ::
    "(raw \<Rightarrow> string) \<Rightarrow> (job \<times> run) list \<Rightarrow> job_list_query \<Rightarrow> job_list_item list" where
  "list_jobs_from_records render records q =
    (let w = normalize_workspace (jq_workspace q);
         items = map (\<lambda>(j, r). new_job_list_item render w j r) (filter (\<lambda>(j, r). job_listed q j r) records);
         sorted_items = sort_slice item_before items in
     if 0 < jq_limit q \<and> jq_limit q < int (length sorted_items)
     then take (nat (jq_limit q)) sorted_items else sorted_items)"

section \<open>Summary\<close>

definition zero_counts :: job_counts where
  "zero_counts = \<lparr>jc_queued = 0, jc_running = 0, jc_completed_recent = 0, jc_failed_recent = 0,
     jc_canceled_recent = 0\<rparr>"

definition include_job_summary_breakdown :: "job_counts \<Rightarrow> bool" where
  "include_job_summary_breakdown c \<longleftrightarrow> 0 < jc_queued c \<or> 0 < jc_running c \<or> 0 < jc_completed_recent c"

definition count_job_summary :: "job \<Rightarrow> run \<Rightarrow> string \<Rightarrow> time \<Rightarrow> job_counts \<Rightarrow> job_counts" where
  "count_job_summary j r status cutoff c =
    (let c = (case job_state j of
           JobQueued \<Rightarrow> c\<lparr>jc_queued := jc_queued c + 1\<rparr>
         | JobRunning \<Rightarrow> c\<lparr>jc_running := jc_running c + 1\<rparr>
         | _ \<Rightarrow> c);
         done_at = (if run_updated_at r = 0 then job_updated_at j else run_updated_at r) in
     if job_completed j r \<and> \<not> done_at < cutoff
     then let c = c\<lparr>jc_completed_recent := jc_completed_recent c + 1\<rparr> in
          if status = ''failure'' then c\<lparr>jc_failed_recent := jc_failed_recent c + 1\<rparr>
          else if status = ''canceled'' then c\<lparr>jc_canceled_recent := jc_canceled_recent c + 1\<rparr>
          else c
     else c)"

definition count_under :: "string \<Rightarrow> (job_counts \<Rightarrow> job_counts) \<Rightarrow> (string, job_counts) gomap \<Rightarrow> (string, job_counts) gomap" where
  "count_under k f m = mput k (f (mget_or zero_counts m k)) m"

record summary_state =
  ss_total :: job_counts
  ss_by_tag :: "(string, job_counts) gomap"
  ss_by_app :: "(string, job_counts) gomap"
  ss_oldest :: "time option"

definition summarize_step :: "string \<Rightarrow> time \<Rightarrow> job \<times> run \<Rightarrow> summary_state \<Rightarrow> summary_state" where
  "summarize_step w cutoff rec st =
    (let (j, r) = rec in
     if normalized_job_workspace '''' j \<noteq> w then st
     else
       let f = count_job_summary j r (job_terminal_status j r) cutoff in
       st\<lparr>ss_total := f (ss_total st),
          ss_by_tag := count_under (job_tag j) f (ss_by_tag st),
          ss_by_app := count_under (jp_app (job_payload j)) f (ss_by_app st),
          ss_oldest := (if job_state j = JobQueued
             then (case ss_oldest st of None \<Rightarrow> Some (job_created_at j)
                   | Some t \<Rightarrow> if job_created_at j < t then Some (job_created_at j) else Some t)
             else ss_oldest st)\<rparr>)"

definition breakdown :: "(string, job_counts) gomap \<Rightarrow> (string \<times> job_counts) list" where
  "breakdown m = filter (\<lambda>(k, c). include_job_summary_breakdown c)
     (map (\<lambda>k. (k, mget_or zero_counts m k)) (sort_strings (mkeys m)))"

definition summarize_jobs :: "time \<Rightarrow> (job \<times> run) list \<Rightarrow> string \<Rightarrow> duration \<Rightarrow> job_summary" where
  "summarize_jobs now records w recent =
    (let recent = (if recent \<le> 0 then seconds (24 * 3600) else recent);
         st = fold (summarize_step (normalize_workspace w) (now - recent)) records
            \<lparr>ss_total = zero_counts, ss_by_tag = [], ss_by_app = [], ss_oldest = None\<rparr> in
     \<lparr>js_counts = ss_total st, js_oldest_queued_at = ss_oldest st,
      js_by_tag = breakdown (ss_by_tag st), js_by_app = breakdown (ss_by_app st)\<rparr>)"

section \<open>Payloads\<close>

definition event_payload :: "string \<Rightarrow> (string, json) gomap \<Rightarrow> (string, json) gomap" where
  "event_payload correlation values =
    (if correlation \<noteq> '''' then mput ''correlationId'' (JStr correlation) values else values)"

definition raw_doc :: "raw \<Rightarrow> json" where
  "raw_doc r = (case r of RawDoc d \<Rightarrow> d | RawBytes s \<Rightarrow> JNull)"

definition merge_resume_input :: "raw \<Rightarrow> string \<Rightarrow> raw \<Rightarrow> raw" where
  "merge_resume_input original task resume_input =
    (let original = (if json_valid original then original else empty_object);
         resume_input = (if json_valid resume_input then resume_input else empty_object);
         resume = raw_doc (must_raw [(''humanTaskID'', JStr task), (''input'', raw_doc resume_input)]) in
     case raw_object original of
       Some object \<Rightarrow> marshal_object (mput ''$resume'' resume object)
     | None \<Rightarrow> marshal_object [(''$input'', raw_doc original), (''$resume'', resume)])"

text \<open>The deployment pinned to a job does not depend on its input.\<close>

lemma pinned_deployment_input: "pinned_deployment (p\<lparr>jp_input := x\<rparr>) = pinned_deployment p"
  by (simp add: pinned_deployment_def cong del: if_weak_cong option.case_cong_weak)

end
