(* ===== verification/Crypto_At_Rest.thy ===== *)
theory Crypto_At_Rest
  imports Job_Views
begin

text \<open>
  Encryption of inputs and results at rest (\<^verbatim>\<open>internal/crypto\<close> and \<^verbatim>\<open>internal/state/crypto.go\<close>):
  base64, keys derived from the instance secret, the envelope that marks an encrypted document, and
  the two functions the store calls. SHA-256, AES-GCM and the text of a JSON document are arguments;
  what is relied on of them is \<open>prims_ok\<close>.
\<close>

section \<open>Base64\<close>

definition b64_digit :: "nat \<Rightarrow> char" where
  "b64_digit n =
    (if n < 26 then char_of (n + 65) else if n < 52 then char_of (n + 71)
     else if n < 62 then char_of (n - 4) else if n = 62 then CHR 0x2B else CHR 0x2F)"

definition b64_value :: "char \<Rightarrow> nat option" where
  "b64_value c =
    (let n = of_char c :: nat in
     if 65 \<le> n \<and> n \<le> 90 then Some (n - 65)
     else if 97 \<le> n \<and> n \<le> 122 then Some (n - 71)
     else if 48 \<le> n \<and> n \<le> 57 then Some (n + 4)
     else if n = 43 then Some 62
     else if n = 47 then Some 63
     else None)"

text \<open>\<open>b64_encode padded bs\<close>: \<^verbatim>\<open>StdEncoding\<close> when padded, \<^verbatim>\<open>RawStdEncoding\<close> when not.\<close>

fun b64_encode :: "bool \<Rightarrow> string \<Rightarrow> string" where
  "b64_encode padded (x # y # z # rest) =
    (let a = of_char x :: nat; b = of_char y :: nat; c = of_char z :: nat in
     [b64_digit (a div 4), b64_digit (a mod 4 * 16 + b div 16),
      b64_digit (b mod 16 * 4 + c div 64), b64_digit (c mod 64)] @ b64_encode padded rest)"
| "b64_encode padded [x, y] =
    (let a = of_char x :: nat; b = of_char y :: nat in
     [b64_digit (a div 4), b64_digit (a mod 4 * 16 + b div 16), b64_digit (b mod 16 * 4)]
     @ (if padded then ''='' else []))"
| "b64_encode padded [x] =
    (let a = of_char x :: nat in
     [b64_digit (a div 4), b64_digit (a mod 4 * 16)] @ (if padded then ''=='' else []))"
| "b64_encode padded [] = []"

text \<open>
  \<^verbatim>\<open>StdEncoding.DecodeString\<close>: line breaks are skipped, digits are read four at a time, the last group
  must be padded, and nothing may follow the padding. The bits that the padding leaves over are not
  checked.
\<close>

definition b64_bytes :: "nat list \<Rightarrow> string" where
  "b64_bytes vs = (case vs of
     [a, b, c, d] \<Rightarrow> [char_of (a * 4 + b div 16), char_of (b mod 16 * 16 + c div 4), char_of (c mod 4 * 64 + d)]
   | [a, b, c] \<Rightarrow> [char_of (a * 4 + b div 16), char_of (b mod 16 * 16 + c div 4)]
   | [a, b] \<Rightarrow> [char_of (a * 4 + b div 16)]
   | _ \<Rightarrow> [])"

fun b64_groups :: "nat list \<Rightarrow> string \<Rightarrow> string option" where
  "b64_groups vs [] = (if vs = [] then Some [] else None)"
| "b64_groups vs (c # cs) =
    (if c = CHR ''='' then
       (if length vs = 2 \<and> cs = ''='' \<or> length vs = 3 \<and> cs = [] then Some (b64_bytes vs) else None)
     else case b64_value c of
        None \<Rightarrow> None
      | Some v \<Rightarrow>
          if length vs = 3 then map_option (\<lambda>out. b64_bytes (vs @ [v]) @ out) (b64_groups [] cs)
          else b64_groups (vs @ [v]) cs)"

definition b64_decode :: "string \<Rightarrow> string option" where
  "b64_decode s = b64_groups [] (filter (\<lambda>c. c \<noteq> CHR 0x0A \<and> c \<noteq> CHR 0x0D) s)"

section \<open>Ciphertexts\<close>

record crypto_prims =
  sha256 :: "string \<Rightarrow> string"
  gcm_seal :: "string \<Rightarrow> string \<Rightarrow> string \<Rightarrow> string"
  gcm_open :: "string \<Rightarrow> string \<Rightarrow> string \<Rightarrow> string option"
  json_text :: "json \<Rightarrow> string"
  json_read :: "string \<Rightarrow> json option"

definition nonce_size :: nat where "nonce_size = 12"

text \<open>
  What the program relies on: opening with the key and nonce of sealing gives the plaintext back,
  and the text of the document at hand decodes to it.
\<close>

definition prims_ok :: "crypto_prims \<Rightarrow> json \<Rightarrow> bool" where
  "prims_ok P d \<longleftrightarrow> (\<forall>k n pt. gcm_open P k n (gcm_seal P k n pt) = Some pt) \<and> json_read P (json_text P d) = Some d"

definition derive_workspace_key :: "crypto_prims \<Rightarrow> string \<Rightarrow> string \<Rightarrow> string" where
  "derive_workspace_key P secret w = b64_encode False (sha256 P (secret @ '':'' @ w))"

definition derive_kek :: "crypto_prims \<Rightarrow> string \<Rightarrow> string" where
  "derive_kek P secret = b64_encode False (sha256 P (secret @ '':wsdek-kek''))"

definition encrypt_text :: "crypto_prims \<Rightarrow> string \<Rightarrow> string \<Rightarrow> string \<Rightarrow> string" where
  "encrypt_text P key nonce plaintext =
    b64_encode True (nonce @ gcm_seal P (sha256 P key) nonce plaintext)"

definition decrypt_text :: "crypto_prims \<Rightarrow> string \<Rightarrow> string \<Rightarrow> string option" where
  "decrypt_text P key encoded =
    (case b64_decode encoded of
       None \<Rightarrow> None
     | Some data \<Rightarrow> if length data < nonce_size then None
                 else gcm_open P (sha256 P key) (take nonce_size data) (drop nonce_size data))"

definition wrapped_dek_version :: int where "wrapped_dek_version = 1"

fun unwrap_any :: "crypto_prims \<Rightarrow> string \<Rightarrow> string list \<Rightarrow> string option" where
  "unwrap_any P stored [] = None"
| "unwrap_any P stored (kek # keks) =
    (if kek = '''' then unwrap_any P stored keks
     else case decrypt_text P kek stored of Some dek \<Rightarrow> Some dek | None \<Rightarrow> unwrap_any P stored keks)"

definition resolve_dek :: "crypto_prims \<Rightarrow> string \<Rightarrow> int \<Rightarrow> string list \<Rightarrow> string option" where
  "resolve_dek P stored kek_version keks = (if kek_version = 0 then Some stored else unwrap_any P stored keks)"

text \<open>\<open>dek\<close> is the fresh random key \<^verbatim>\<open>GenerateDEK\<close> draws, from its 32 bytes.\<close>

definition generate_dek :: "string \<Rightarrow> string" where
  "generate_dek bytes = b64_encode False bytes"

definition new_wrapped_dek :: "crypto_prims \<Rightarrow> string \<Rightarrow> string \<Rightarrow> string \<Rightarrow> string \<times> int" where
  "new_wrapped_dek P secret bytes nonce =
    (encrypt_text P (derive_kek P secret) nonce (generate_dek bytes), wrapped_dek_version)"

section \<open>Envelopes\<close>

definition enc_marker_key :: string where "enc_marker_key = ''__wf_enc''"
definition enc_version :: int where "enc_version = 1"

definition is_enc :: "raw \<Rightarrow> bool" where
  "is_enc r = (case raw_object r of None \<Rightarrow> False | Some m \<Rightarrow> map_of m enc_marker_key \<noteq> None)"

definition wrap_enc :: "crypto_prims \<Rightarrow> string \<Rightarrow> string \<Rightarrow> json \<Rightarrow> raw" where
  "wrap_enc P dek nonce d =
    RawDoc (JObj [(enc_marker_key, JNum (itoa enc_version)), (''ct'', JStr (encrypt_text P dek nonce (json_text P d)))])"

text \<open>The number of the envelope is decoded too: a member that is no integer is an error.\<close>

definition int_text :: "string \<Rightarrow> bool" where
  "int_text s \<longleftrightarrow> (case s of [] \<Rightarrow> False | c # cs \<Rightarrow> if c = CHR ''-'' then cs \<noteq> [] \<and> list_all is_digit cs else list_all is_digit s)
     \<and> parse_int64 s \<noteq> None"

fun int_field_ok :: "string \<Rightarrow> (string \<times> json) list \<Rightarrow> bool" where
  "int_field_ok name [] = True"
| "int_field_ok name ((k, d) # kvs) =
    ((if equal_fold k name then (case d of JNum s \<Rightarrow> int_text s | JNull \<Rightarrow> True | _ \<Rightarrow> False) else True)
     \<and> int_field_ok name kvs)"

text \<open>The decrypted bytes: a document when they are valid JSON, the bytes otherwise.\<close>

definition read_raw :: "crypto_prims \<Rightarrow> string \<Rightarrow> raw" where
  "read_raw P s = (case json_read P s of None \<Rightarrow> RawBytes s | Some d \<Rightarrow> RawDoc d)"

definition unwrap_enc :: "crypto_prims \<Rightarrow> string \<Rightarrow> raw \<Rightarrow> raw option" where
  "unwrap_enc P dek r =
    (if \<not> is_enc r then Some r
     else case r of
        RawDoc (JObj kvs) \<Rightarrow>
          (if \<not> int_field_ok enc_marker_key kvs then None
           else case string_field ''ct'' '''' kvs of
              None \<Rightarrow> None | Some ct \<Rightarrow> map_option (read_raw P) (decrypt_text P dek ct))
      | _ \<Rightarrow> None)"

section \<open>Documents at rest\<close>

record input_crypto =
  secret_key :: string
  secret_key_previous :: string
  prims :: crypto_prims

definition configure_input_crypto :: "string \<Rightarrow> string \<Rightarrow> input_crypto \<Rightarrow> input_crypto" where
  "configure_input_crypto key previous C =
    C\<lparr>secret_key := trim_space key, secret_key_previous := trim_space previous\<rparr>"

definition canonical_json_value :: "raw \<Rightarrow> raw \<Rightarrow> raw" where
  "canonical_json_value v dflt = (if raw_empty v then dflt else v)"

definition input_keks :: "input_crypto \<Rightarrow> string list" where
  "input_keks C = derive_kek (prims C) (trim_space (secret_key C))
     # (if trim_space (secret_key_previous C) \<noteq> ''''
        then [derive_kek (prims C) (trim_space (secret_key_previous C))] else [])"

text \<open>
  \<open>provider\<close> is the key provider of the Postgres store, as what its call returns for a workspace:
  an error, or a key (empty when the workspace has none) and its version. \<^verbatim>\<open>LocalStore\<close> has none.
\<close>

type_synonym key_provider = "(string \<Rightarrow> store_error + string \<times> int) option"

definition resolve_input_dek :: "key_provider \<Rightarrow> input_crypto \<Rightarrow> string \<Rightarrow> store_error + string" where
  "resolve_input_dek provider C workspace =
    (let w = normalize_workspace workspace;
         derived = derive_workspace_key (prims C) (trim_space (secret_key C)) w in
     case provider of
       None \<Rightarrow> Inr derived
     | Some get \<Rightarrow> and_then (get w) (\<lambda>(key, version).
         if key \<noteq> '''' then (case resolve_dek (prims C) key version (input_keks C) of
             None \<Rightarrow> Inl CryptoFailed | Some dek \<Rightarrow> Inr dek)
         else Inr derived))"

definition encrypt_json_at_rest ::
    "key_provider \<Rightarrow> input_crypto \<Rightarrow> string \<Rightarrow> string \<Rightarrow> raw \<Rightarrow> raw \<Rightarrow> store_error + raw" where
  "encrypt_json_at_rest provider C nonce workspace value dflt =
    (case canonical_json_value value dflt of
       RawBytes s \<Rightarrow> Inl InvalidJson
     | RawDoc d \<Rightarrow>
        if trim_space (secret_key C) = '''' \<or> is_enc (RawDoc d) then Inr (RawDoc d)
        else and_then (resolve_input_dek provider C workspace) (\<lambda>dek. Inr (wrap_enc (prims C) dek nonce d)))"

definition decrypt_json_at_rest ::
    "key_provider \<Rightarrow> input_crypto \<Rightarrow> string \<Rightarrow> raw \<Rightarrow> raw \<Rightarrow> store_error + raw" where
  "decrypt_json_at_rest provider C workspace value dflt =
    (let value = canonical_json_value value dflt in
     if \<not> is_enc value then Inr value
     else if trim_space (secret_key C) = '''' then Inl CryptoFailed
     else and_then (resolve_input_dek provider C workspace) (\<lambda>dek.
       let plain = (case unwrap_enc (prims C) dek value of
             Some p \<Rightarrow> Some p
           | None \<Rightarrow> if provider = None \<and> trim_space (secret_key_previous C) \<noteq> ''''
                    then unwrap_enc (prims C) (derive_workspace_key (prims C)
                      (trim_space (secret_key_previous C)) (normalize_workspace workspace)) value
                    else None)
       in case plain of
            None \<Rightarrow> Inl CryptoFailed
          | Some p \<Rightarrow> if json_valid p then Inr p else Inl InvalidJson))"

definition encrypt_input_at_rest :: "key_provider \<Rightarrow> input_crypto \<Rightarrow> string \<Rightarrow> string \<Rightarrow> raw \<Rightarrow> store_error + raw" where
  "encrypt_input_at_rest provider C nonce w v = encrypt_json_at_rest provider C nonce w v empty_object"

definition decrypt_input_at_rest :: "key_provider \<Rightarrow> input_crypto \<Rightarrow> string \<Rightarrow> raw \<Rightarrow> store_error + raw" where
  "decrypt_input_at_rest provider C w v = decrypt_json_at_rest provider C w v empty_object"

definition encrypt_result_at_rest :: "key_provider \<Rightarrow> input_crypto \<Rightarrow> string \<Rightarrow> string \<Rightarrow> raw \<Rightarrow> store_error + raw" where
  "encrypt_result_at_rest provider C nonce w v = encrypt_json_at_rest provider C nonce w v null_doc"

definition decrypt_result_at_rest :: "key_provider \<Rightarrow> input_crypto \<Rightarrow> string \<Rightarrow> raw \<Rightarrow> store_error + raw" where
  "decrypt_result_at_rest provider C w v = decrypt_json_at_rest provider C w v null_doc"

section \<open>Base64 round trip\<close>

lemma of_char_of_small: "n < 256 \<Longrightarrow> of_char (char_of n) = (n :: nat)"
  by simp

lemma b64_value_digit:
  assumes "n < 64"
  shows "b64_value (b64_digit n) = Some n"
proof -
  have byte: "b64_value (char_of m) = (if 65 \<le> m \<and> m \<le> 90 then Some (m - 65)
     else if 97 \<le> m \<and> m \<le> 122 then Some (m - 71)
     else if 48 \<le> m \<and> m \<le> 57 then Some (m + 4) else if m = 43 then Some 62
     else if m = 47 then Some 63 else None)" if "m < 256" for m
    unfolding b64_value_def of_char_of_small [OF that] Let_def by (rule refl)
  consider "n < 26" | "26 \<le> n" "n < 52" | "52 \<le> n" "n < 62" | "n = 62" | "n = 63"
    using assms by linarith
  then show ?thesis
  proof cases
    case 1
    then show ?thesis using byte [of "n + 65"] by (simp add: b64_digit_def)
  next
    case 2
    then show ?thesis using byte [of "n + 71"] by (simp add: b64_digit_def)
  next
    case 3
    then obtain k where k: "n = k + 4" "48 \<le> k" "k \<le> 57" using le_Suc_ex [of 4 n] by auto
    then show ?thesis using byte [of k] by (simp add: b64_digit_def)
  qed (simp_all add: b64_digit_def b64_value_def)
qed

lemma b64_digit_plain: "n < 64 \<Longrightarrow> b64_digit n \<noteq> CHR 0x3D \<and> b64_digit n \<noteq> CHR 0x0A \<and> b64_digit n \<noteq> CHR 0x0D"
  using b64_value_digit [of n] by (auto simp: b64_value_def)

lemma b64_bounds:
  fixes a b c :: nat
  assumes "a < 256" "b < 256" "c < 256"
  shows "a div 4 < 64" "a mod 4 * 16 + b div 16 < 64" "b mod 16 * 4 + c div 64 < 64" "c mod 64 < 64"
    "a mod 4 * 16 < 64" "b mod 16 * 4 < 64"
proof -
  have "a div 4 < 64" "b div 16 < 16" "c div 64 < 4" using assms by (simp_all add: less_mult_imp_div_less)
  moreover have "a mod 4 < 4" "b mod 16 < 16" "c mod 64 < 64" by simp_all
  ultimately show "a div 4 < 64" "a mod 4 * 16 + b div 16 < 64" "b mod 16 * 4 + c div 64 < 64" "c mod 64 < 64"
    "a mod 4 * 16 < 64" "b mod 16 * 4 < 64" by linarith+
qed

lemma b64_pack:
  fixes a b c :: nat
  assumes "a < 256" "b < 256" "c < 256"
  shows "a div 4 * 4 + (a mod 4 * 16 + b div 16) div 16 = a"
    and "(a mod 4 * 16 + b div 16) mod 16 * 16 + (b mod 16 * 4 + c div 64) div 4 = b"
    and "(b mod 16 * 4 + c div 64) mod 4 * 64 + c mod 64 = c"
proof -
  have b: "b div 16 < 16" "c div 64 < 4" using assms by auto
  have "(a mod 4 * 16 + b div 16) div 16 = a mod 4" using b by simp
  then show "a div 4 * 4 + (a mod 4 * 16 + b div 16) div 16 = a" by simp
  have "(a mod 4 * 16 + b div 16) mod 16 = b div 16" using b by simp
  moreover have "(b mod 16 * 4 + c div 64) div 4 = b mod 16" using b by simp
  ultimately show "(a mod 4 * 16 + b div 16) mod 16 * 16 + (b mod 16 * 4 + c div 64) div 4 = b" by simp
  have "(b mod 16 * 4 + c div 64) mod 4 = c div 64" using b by simp
  then show "(b mod 16 * 4 + c div 64) mod 4 * 64 + c mod 64 = c" by simp
qed

lemma b64_groups_digit: "n < 64 \<Longrightarrow> length vs < 3 \<Longrightarrow> b64_groups vs (b64_digit n # cs) = b64_groups (vs @ [n]) cs"
  by (simp add: b64_value_digit b64_digit_plain)

lemma b64_groups_four: "n < 64 \<Longrightarrow> length vs = 3 \<Longrightarrow>
    b64_groups vs (b64_digit n # cs) = map_option (\<lambda>out. b64_bytes (vs @ [n]) @ out) (b64_groups [] cs)"
  by (simp add: b64_value_digit b64_digit_plain)

lemma byte_lt: "(of_char c :: nat) < 256"
  by simp

lemmas b64_digits_of_bytes = b64_bounds [OF byte_lt byte_lt byte_lt]
lemmas b64_pack_bytes = b64_pack [OF byte_lt byte_lt byte_lt]
lemmas b64_steps = b64_groups_digit b64_groups_four b64_digits_of_bytes b64_pack_bytes

lemma b64_bytes_encode:
  "b64_bytes [of_char x div 4, of_char x mod 4 * 16 + of_char y div 16, of_char y mod 16 * 4 + of_char z div 64,
     of_char z mod 64] = [x, y, z]"
  "b64_bytes [of_char x div 4, of_char x mod 4 * 16 + of_char y div 16, of_char y mod 16 * 4] = [x, y]"
  "b64_bytes [of_char x div 4, of_char x mod 4 * 16] = [x]"
  using b64_pack [of "of_char x" "of_char y" "of_char z"] b64_pack [of "of_char x" "of_char y" 0]
    b64_pack [of "of_char x" 0 0]
  unfolding b64_bytes_def list.case by simp_all

lemma b64_groups_encode: "b64_groups [] (b64_encode True s) = Some s"
proof (induction True s rule: b64_encode.induct)
  case (1 x y z rest)
  then have "b64_groups [] (b64_encode True rest) = Some rest" by simp
  then show ?case
    by (simp add: Let_def b64_steps del: b64_groups.simps(2)) (simp only: b64_bytes_encode append.simps simp_thms)
next
  case (2 x y)
  show ?case
    by (simp add: Let_def b64_steps del: b64_groups.simps(2)) (simp add: b64_bytes_encode)
next
  case (3 x)
  show ?case
    by (simp add: Let_def b64_steps del: b64_groups.simps(2)) (simp add: b64_bytes_encode)
qed simp

lemma b64_encode_plain: "c \<in> set (b64_encode p s) \<Longrightarrow> c \<noteq> CHR 0x0A \<and> c \<noteq> CHR 0x0D"
proof (induction p s arbitrary: c rule: b64_encode.induct)
  case (1 p x y z rest)
  then show ?case using b64_digit_plain b64_digits_of_bytes by (auto simp: Let_def)
next
  case (2 p x y)
  then show ?case using b64_digit_plain b64_digits_of_bytes by (auto simp: Let_def split: if_splits)
next
  case (3 p x)
  then show ?case using b64_digit_plain b64_digits_of_bytes by (auto simp: Let_def split: if_splits)
qed simp

lemma b64_round_trip [simp]: "b64_decode (b64_encode True s) = Some s"
proof -
  have "filter (\<lambda>c. c \<noteq> CHR 0x0A \<and> c \<noteq> CHR 0x0D) (b64_encode True s) = b64_encode True s"
    using b64_encode_plain by (simp add: filter_id_conv)
  then show ?thesis by (simp add: b64_decode_def b64_groups_encode)
qed

section \<open>Encryption round trips\<close>

lemma decrypt_encrypt_text:
  "prims_ok P d \<Longrightarrow> length nonce = nonce_size \<Longrightarrow> decrypt_text P key (encrypt_text P key nonce pt) = Some pt"
  by (simp add: decrypt_text_def encrypt_text_def prims_ok_def)

lemma marker_ct: "enc_marker_key \<noteq> ''ct''" "\<not> equal_fold enc_marker_key ''ct''" "\<not> equal_fold ''ct'' enc_marker_key"
  "equal_fold ''ct'' ''ct''" "equal_fold enc_marker_key enc_marker_key"
  by (simp_all add: enc_marker_key_def equal_fold_def to_lower_def)

lemma int_text_version: "int_text (itoa enc_version)"
  by code_simp

lemma is_enc_wrap [simp]: "is_enc (wrap_enc P dek nonce d)"
  by (simp add: is_enc_def wrap_enc_def map_of_object_map marker_ct)

lemma unwrap_wrap:
  assumes "prims_ok P d" and "length nonce = nonce_size"
  shows "unwrap_enc P dek (wrap_enc P dek nonce d) = Some (RawDoc d)"
proof -
  have "read_raw P (json_text P d) = RawDoc d"
    using assms(1) by (simp add: read_raw_def prims_ok_def)
  moreover have "is_enc (RawDoc (JObj [(enc_marker_key, JNum (itoa enc_version)),
      (''ct'', JStr (encrypt_text P dek nonce (json_text P d)))]))"
    using is_enc_wrap by (simp add: wrap_enc_def)
  ultimately show ?thesis
    by (simp add: unwrap_enc_def wrap_enc_def marker_ct int_text_version decrypt_encrypt_text [OF assms])
qed

lemma wrap_enc_not_empty [simp]: "canonical_json_value (wrap_enc P dek nonce d) dflt = wrap_enc P dek nonce d"
  by (simp add: canonical_json_value_def wrap_enc_def)

lemma encrypt_json_at_rest_Inr:
  "encrypt_json_at_rest provider C nonce w v dflt = Inr r \<longleftrightarrow>
    (\<exists>d. canonical_json_value v dflt = RawDoc d
      \<and> (if trim_space (secret_key C) = '''' \<or> is_enc (RawDoc d) then r = RawDoc d
         else \<exists>dek. resolve_input_dek provider C w = Inr dek \<and> r = wrap_enc (prims C) dek nonce d))"
  by (auto simp: encrypt_json_at_rest_def and_then_eq_Inr split: raw.splits)

text \<open>With no provider, encrypting fails only on bytes that are not JSON.\<close>

lemma encrypt_local_total:
  "json_valid (canonical_json_value v dflt) \<Longrightarrow> \<exists>r. encrypt_json_at_rest None C nonce w v dflt = Inr r"
  by (auto simp: encrypt_json_at_rest_Inr resolve_input_dek_def json_valid_iff)

lemma encrypt_valid:
  "encrypt_json_at_rest provider C nonce w v dflt = Inr r \<Longrightarrow> json_valid r \<and> \<not> raw_empty r"
  by (auto simp: encrypt_json_at_rest_Inr wrap_enc_def split: if_splits)

lemma at_rest_round_trip_json:
  assumes P: "prims_ok (prims C) (raw_doc (canonical_json_value v dflt))" and n: "length nonce = nonce_size"
    and plain: "\<not> is_enc (canonical_json_value v dflt)"
    and enc: "encrypt_json_at_rest provider C nonce w v dflt = Inr r"
  shows "decrypt_json_at_rest provider C w r dflt = Inr (canonical_json_value v dflt)"
proof -
  from enc obtain d where d: "canonical_json_value v dflt = RawDoc d"
    and r: "if trim_space (secret_key C) = '''' then r = RawDoc d
      else \<exists>dek. resolve_input_dek provider C w = Inr dek \<and> r = wrap_enc (prims C) dek nonce d"
    using plain by (auto simp: encrypt_json_at_rest_Inr split: if_splits)
  show ?thesis
  proof (cases "trim_space (secret_key C) = ''''")
    case True
    with r d plain show ?thesis by (simp add: decrypt_json_at_rest_def canonical_json_value_def Let_def)
  next
    case False
    with r obtain dek where r': "resolve_input_dek provider C w = Inr dek" "r = wrap_enc (prims C) dek nonce d" by auto
    from P d have "prims_ok (prims C) d" by (simp add: raw_doc_def)
    from False d r' show ?thesis by (simp add: decrypt_json_at_rest_def Let_def unwrap_wrap [OF \<open>prims_ok (prims C) d\<close> n])
  qed
qed

section \<open>Properties\<close>

text \<open>C7. What is stored of an input or a result decrypts to the document that was given (the default
document for an empty message), whichever key provider and secret are configured; with a secret the
stored document is an envelope, and encrypting the stored document again leaves it as it is.\<close>

theorem at_rest_round_trip:
  assumes "prims_ok (prims C) (raw_doc (canonical_json_value v dflt))" and "length nonce = nonce_size"
    and "\<not> is_enc (canonical_json_value v dflt)"
    and "encrypt_json_at_rest provider C nonce w v dflt = Inr r"
  shows "decrypt_json_at_rest provider C w r dflt = Inr (canonical_json_value v dflt)
    \<and> (trim_space (secret_key C) \<noteq> '''' \<longrightarrow> is_enc r)
    \<and> encrypt_json_at_rest provider C nonce' w r dflt = Inr r"
proof -
  have "(trim_space (secret_key C) \<noteq> '''' \<longrightarrow> is_enc r) \<and> encrypt_json_at_rest provider C nonce' w r dflt = Inr r"
    using assms(3,4)
    by (auto simp: encrypt_json_at_rest_Inr wrap_enc_def canonical_json_value_def is_enc_wrap [unfolded wrap_enc_def]
        split: if_splits)
  with at_rest_round_trip_json [OF assms] show ?thesis by blast
qed

text \<open>The arguments of the witnesses: a cipher that ignores its key and a codec for one document.\<close>

definition ex_prims :: "json \<Rightarrow> crypto_prims" where
  "ex_prims d = \<lparr>sha256 = (\<lambda>s. s), gcm_seal = (\<lambda>k n pt. k @ pt),
     gcm_open = (\<lambda>k n ct. if prefix k ct then Some (drop (length k) ct) else None),
     json_text = (\<lambda>_. ''doc''), json_read = (\<lambda>s. if s = ''doc'' then Some d else None)\<rparr>"

definition ex_crypto :: "string \<Rightarrow> json \<Rightarrow> input_crypto" where
  "ex_crypto key d = \<lparr>secret_key = key, secret_key_previous = '''', prims = ex_prims d\<rparr>"

lemma ex_prims_ok: "prims_ok (ex_prims d) d"
  by (simp add: prims_ok_def ex_prims_def)

theorem at_rest_round_trip_witness:
  "\<exists>r. encrypt_json_at_rest None (ex_crypto ''secret'' (JStr ''plain'')) ''000000000000'' ''main'' (RawDoc (JStr ''plain'')) null_doc = Inr r
    \<and> is_enc r
    \<and> decrypt_json_at_rest None (ex_crypto ''secret'' (JStr ''plain'')) ''main'' r null_doc = Inr (RawDoc (JStr ''plain''))"
proof -
  have c: "canonical_json_value (RawDoc (JStr ''plain'')) null_doc = RawDoc (JStr ''plain'')"
    by (simp add: canonical_json_value_def)
  obtain r where r: "encrypt_json_at_rest None (ex_crypto ''secret'' (JStr ''plain'')) ''000000000000'' ''main''
      (RawDoc (JStr ''plain'')) null_doc = Inr r"
    using encrypt_local_total [of "RawDoc (JStr ''plain'')" null_doc] c by fastforce
  have "trim_space ''secret'' \<noteq> ''''" by (simp add: trim_space_graphic graphic_def)
  moreover have "prims_ok (prims (ex_crypto ''secret'' (JStr ''plain''))) (raw_doc (canonical_json_value (RawDoc (JStr ''plain'')) null_doc))"
    by (simp add: ex_crypto_def c raw_doc_def ex_prims_ok)
  moreover have "length ''000000000000'' = nonce_size" by (simp add: nonce_size_def)
  moreover have "\<not> is_enc (canonical_json_value (RawDoc (JStr ''plain'')) null_doc)"
    by (simp add: c is_enc_def)
  ultimately show ?thesis using at_rest_round_trip [OF _ _ _ r] r by (simp add: c ex_crypto_def)
qed

text \<open>Rotating the instance secret keeps old documents readable: what was stored under the old secret
decrypts once the old secret is configured as the previous one, when the new key does not open it.\<close>

theorem rotation_grace_window:
  assumes P: "prims_ok (prims C) d" and n: "length nonce = nonce_size" and d: "\<not> is_enc (RawDoc d)"
    and old: "trim_space (secret_key C) \<noteq> ''''"
    and new: "prims C' = prims C" "secret_key_previous C' = secret_key C" "trim_space (secret_key C') \<noteq> ''''"
    and reject: "decrypt_text (prims C) (derive_workspace_key (prims C) (trim_space (secret_key C')) (normalize_workspace w))
      (encrypt_text (prims C) (derive_workspace_key (prims C) (trim_space (secret_key C)) (normalize_workspace w))
        nonce (json_text (prims C) d)) = None"
  shows "\<exists>r. encrypt_json_at_rest None C nonce w (RawDoc d) dflt = Inr r
    \<and> decrypt_json_at_rest None C' w r dflt = Inr (RawDoc d)"
proof -
  let ?dek = "derive_workspace_key (prims C) (trim_space (secret_key C)) (normalize_workspace w)"
  let ?r = "wrap_enc (prims C) ?dek nonce d"
  have "encrypt_json_at_rest None C nonce w (RawDoc d) dflt = Inr ?r"
    using d old by (simp add: encrypt_json_at_rest_def canonical_json_value_def resolve_input_dek_def)
  moreover have "unwrap_enc (prims C) (derive_workspace_key (prims C) (trim_space (secret_key C')) (normalize_workspace w)) ?r = None"
    using reject is_enc_wrap [of "prims C" ?dek nonce d]
    by (simp add: unwrap_enc_def wrap_enc_def marker_ct int_text_version)
  then have "decrypt_json_at_rest None C' w ?r dflt = Inr (RawDoc d)"
    using new old by (simp add: decrypt_json_at_rest_def Let_def resolve_input_dek_def unwrap_wrap [OF P n])
  ultimately show ?thesis by blast
qed

lemma ex_secrets: "trim_space ''old'' = ''old''" "trim_space ''new'' = ''new''" "normalize_workspace ''main'' = ''main''"
  by (simp_all add: trim_space_graphic graphic_def normalize_workspace_def)

lemma ex_reject:
  "decrypt_text (ex_prims JNull) (derive_workspace_key (ex_prims JNull) ''new'' ''main'')
     (encrypt_text (ex_prims JNull) (derive_workspace_key (ex_prims JNull) ''old'' ''main'') ''000000000000''
       (json_text (ex_prims JNull) JNull)) = None"
  by code_simp

theorem rotation_grace_window_witness:
  "\<exists>r. encrypt_json_at_rest None (ex_crypto ''old'' JNull) ''000000000000'' ''main'' (RawDoc JNull) null_doc = Inr r
    \<and> decrypt_json_at_rest None ((ex_crypto ''new'' JNull)\<lparr>secret_key_previous := ''old''\<rparr>) ''main'' r null_doc
      = Inr (RawDoc JNull)"
proof -
  have "length ''000000000000'' = nonce_size" by (simp add: nonce_size_def)
  moreover have "\<not> is_enc (RawDoc JNull)" by (simp add: is_enc_def)
  ultimately show ?thesis
    using rotation_grace_window [of "ex_crypto ''old'' JNull" JNull "''000000000000''"
        "(ex_crypto ''new'' JNull)\<lparr>secret_key_previous := ''old''\<rparr>" "''main''" null_doc] ex_reject
    by (simp add: ex_crypto_def ex_prims_ok ex_secrets)
qed

text \<open>C12. A document that already carries the marker key is stored as it came, in the clear and whatever
the secret, and reading it back fails unless it holds a ciphertext of the key in use: an input with a
member \<^verbatim>\<open>__wf_enc\<close> is accepted when a run is created and is unreadable afterwards.\<close>

theorem marked_document_stored_in_clear:
  assumes "trim_space (secret_key C) \<noteq> ''''"
  shows "encrypt_json_at_rest None C nonce w (RawDoc (JObj [(enc_marker_key, JNum ''1''), (''note'', d)])) empty_object
      = Inr (RawDoc (JObj [(enc_marker_key, JNum ''1''), (''note'', d)]))
    \<and> decrypt_json_at_rest None C w (RawDoc (JObj [(enc_marker_key, JNum ''1''), (''note'', d)])) empty_object
      = Inl CryptoFailed"
proof -
  have e: "is_enc (RawDoc (JObj [(enc_marker_key, JNum ''1''), (''note'', d)]))"
    by (simp add: is_enc_def map_of_object_map enc_marker_key_def)
  have "b64_decode '''' = Some ''''" by (simp add: b64_decode_def)
  then have "unwrap_enc (prims C) dek (RawDoc (JObj [(enc_marker_key, JNum ''1''), (''note'', d)])) = None" for dek
    using e by (simp add: unwrap_enc_def enc_marker_key_def equal_fold_def to_lower_def decrypt_text_def nonce_size_def
        int_text_version [unfolded enc_version_def])
  with e assms show ?thesis
    by (simp add: encrypt_json_at_rest_def decrypt_json_at_rest_def canonical_json_value_def resolve_input_dek_def)
qed

theorem marked_document_stored_in_clear_witness:
  "decrypt_json_at_rest None (ex_crypto ''old'' JNull) ''main''
     (RawDoc (JObj [(enc_marker_key, JNum ''1''), (''note'', JStr ''x'')])) empty_object = Inl CryptoFailed"
  using marked_document_stored_in_clear [of "ex_crypto ''old'' JNull" "''000000000000''" "''main''" "JStr ''x''"]
  by (simp add: ex_crypto_def ex_secrets)

end
