(* ===== verification/Local_Store.thy ===== *)
theory Local_Store
  imports Crypto_At_Rest
begin

text \<open>
  The file-backed store of runs and jobs (\<^verbatim>\<open>internal/state/local_store.go\<close>). An operation that writes
  runs under the store's lock: it loads the snapshot, which fills in what older files lack, runs its
  body, and writes the result; when the body returns an error nothing is written. The body of an
  operation is a function from the loaded snapshot to the snapshot to write and its result, and
  \<open>update\<close> wraps it. The read-only operations take the loaded snapshot.
\<close>

section \<open>Loading\<close>

definition client_token_version :: int where "client_token_version = 1"

definition clients_of :: "snapshot \<Rightarrow> (string, (string, client) gomap) gomap" where
  "clients_of s = (case sn_clients s of None \<Rightarrow> [] | Some m \<Rightarrow> m)"

definition client_audits_of :: "snapshot \<Rightarrow> (string, client_audit list) gomap" where
  "client_audits_of s = (case sn_client_audits s of None \<Rightarrow> [] | Some m \<Rightarrow> m)"

definition append_client_audit ::
    "string \<Rightarrow> string \<Rightarrow> string \<Rightarrow> string \<Rightarrow> string \<Rightarrow> string \<Rightarrow> time \<Rightarrow> snapshot \<Rightarrow> snapshot" where
  "append_client_audit aid w ident kind detail actor now s =
    s\<lparr>sn_client_audits := Some (mput w (mget_or [] (client_audits_of s) w
      @ [\<lparr>cla_id = aid, cla_workspace = w, cla_client = ident, cla_kind = kind, cla_detail = detail,
          cla_actor = actor, cla_created_at = now\<rparr>]) (client_audits_of s))\<rparr>"

text \<open>\<^verbatim>\<open>migrateLocalClientTokens\<close>: token hashes of before version 1 are revoked, each with an audit record.\<close>

definition revoked_clients :: "snapshot \<Rightarrow> (string \<times> string) list" where
  "revoked_clients s = concat (map (\<lambda>(w, cs). map (\<lambda>(i, c). (w, i))
     (filter (\<lambda>(i, c). cli_token_hash c \<noteq> '''') cs)) (clients_of s))"

definition revoke_for_migration :: "time \<Rightarrow> client \<Rightarrow> client" where
  "revoke_for_migration now c = (if cli_token_hash c = '''' then c
     else c\<lparr>cli_token_hash := '''', cli_updated_by := ''system:migration'', cli_updated_at := now\<rparr>)"

definition migrate_client_tokens :: "call_env \<Rightarrow> snapshot \<Rightarrow> snapshot" where
  "migrate_client_tokens e s =
    (if client_token_version \<le> sn_client_token_version s then s
     else
       let s1 = s\<lparr>sn_clients := Some (mmap (\<lambda>_. mmap (\<lambda>_. revoke_for_migration (clock e))) (clients_of s))\<rparr>;
           s2 = fold (\<lambda>(n, (w, i)). append_client_audit (draw_id e ''audit'' n) w i ''token_revoked_migration''
                  ''issue a wfk_ token before using the public API'' ''system:migration'' (clock e))
                (enumerate 0 (revoked_clients s)) s1
       in s2\<lparr>sn_client_token_version := client_token_version\<rparr>)"

definition workspace_active :: string where "workspace_active = ''active''"
definition workspace_archived :: string where "workspace_archived = ''archived''"

definition mentioned_workspaces :: "snapshot \<Rightarrow> string list" where
  "mentioned_workspaces s = remdups (default_workspace
     # map normalize_workspace (mkeys (sn_job_state s)) @ map normalize_workspace (mkeys (sn_variables s))
     @ map normalize_workspace (mkeys (sn_resources s)) @ map normalize_workspace (mkeys (clients_of s))
     @ map normalize_workspace (mkeys (sn_input_configs s))
     @ map (normalized_job_workspace '''') (mvals (sn_jobs s))
     @ map (\<lambda>r. normalize_workspace (sr_workspace r)) (mvals (sn_subscriptions s))
     @ map (\<lambda>d. normalize_workspace (source_workspace d)) (mvals (cat_deployments (sn_catalog s)))
     @ map (\<lambda>h. normalize_workspace (hist_workspace h)) (cat_history (sn_catalog s))
     @ map (\<lambda>r. normalize_workspace (aud_workspace r)) (cat_audit (sn_catalog s))
     @ map (\<lambda>m. normalize_workspace (mark_workspace m)) (mvals (cat_markers (sn_catalog s))))"

definition new_local_workspace :: "time \<Rightarrow> string \<Rightarrow> workspace" where
  "new_local_workspace now w =
    \<lparr>ws_id = w, ws_name = (if w = default_workspace then ''Default'' else w), ws_status = workspace_active,
     ws_token_hash = '''', ws_created_by = ''system'', ws_updated_by = ''system'', ws_created_at = now,
     ws_updated_at = now\<rparr>"

definition ensure_local_workspaces :: "call_env \<Rightarrow> snapshot \<Rightarrow> snapshot" where
  "ensure_local_workspaces e s =
    s\<lparr>sn_workspaces := fold (\<lambda>w m. if map_of m w = None then mput w (new_local_workspace (clock e) w) m else m)
      (mentioned_workspaces s) (sn_workspaces s)\<rparr>"

definition ensure_snapshot :: "call_env \<Rightarrow> snapshot \<Rightarrow> snapshot" where
  "ensure_snapshot e s =
    (let s = s\<lparr>sn_catalog := normalize_snapshot (sn_catalog s),
              sn_clients := Some (case sn_clients s of Some m \<Rightarrow> m | None \<Rightarrow>
                (case sn_legacy_clients s of Some m \<Rightarrow> m | None \<Rightarrow> [])),
              sn_client_audits := Some (case sn_client_audits s of Some m \<Rightarrow> m | None \<Rightarrow>
                (case sn_legacy_client_audits s of Some m \<Rightarrow> m | None \<Rightarrow> []))\<rparr>;
         s = ensure_local_workspaces e (migrate_client_tokens e s)
     in s\<lparr>sn_legacy_clients := None, sn_legacy_client_audits := None\<rparr>)"

definition empty_snapshot :: snapshot where
  "empty_snapshot =
    \<lparr>sn_sequence = 0, sn_runs = [], sn_jobs = [], sn_tasks = [], sn_events = [], sn_logs = [],
     sn_job_state = [], sn_variables = [], sn_resources = [], sn_clients = None, sn_client_audits = None,
     sn_client_token_version = 0, sn_input_configs = [], sn_input_config_audits = [],
     sn_legacy_clients = None, sn_legacy_client_audits = None, sn_catalog = new_catalog,
     sn_subscriptions = [], sn_control_events = [], sn_deliveries = [], sn_webhook_audits = [],
     sn_workers = [], sn_workspaces = [], sn_workspace_audits = []\<rparr>"

definition new_snapshot :: "call_env \<Rightarrow> snapshot" where
  "new_snapshot e = ensure_snapshot e empty_snapshot"

type_synonym 'r body = "snapshot \<Rightarrow> store_error + snapshot \<times> 'r"

definition update :: "call_env \<Rightarrow> 'r body \<Rightarrow> 'r body" where
  "update e fn s = and_then (fn (ensure_snapshot e s)) (\<lambda>(s', r). Inr (ensure_snapshot e s', r))"

text \<open>Loading and writing leave runs, jobs, tasks, events and what belongs to them alone.\<close>

lemma append_client_audit_frame [simp]:
  "sn_sequence (append_client_audit a w i k d ac t s) = sn_sequence s"
  "sn_runs (append_client_audit a w i k d ac t s) = sn_runs s"
  "sn_jobs (append_client_audit a w i k d ac t s) = sn_jobs s"
  "sn_tasks (append_client_audit a w i k d ac t s) = sn_tasks s"
  "sn_events (append_client_audit a w i k d ac t s) = sn_events s"
  "sn_logs (append_client_audit a w i k d ac t s) = sn_logs s"
  "sn_job_state (append_client_audit a w i k d ac t s) = sn_job_state s"
  "sn_variables (append_client_audit a w i k d ac t s) = sn_variables s"
  "sn_resources (append_client_audit a w i k d ac t s) = sn_resources s"
  "sn_clients (append_client_audit a w i k d ac t s) = sn_clients s"
  "sn_input_configs (append_client_audit a w i k d ac t s) = sn_input_configs s"
  "sn_catalog (append_client_audit a w i k d ac t s) = sn_catalog s"
  "sn_subscriptions (append_client_audit a w i k d ac t s) = sn_subscriptions s"
  "sn_control_events (append_client_audit a w i k d ac t s) = sn_control_events s"
  "sn_deliveries (append_client_audit a w i k d ac t s) = sn_deliveries s"
  "sn_workers (append_client_audit a w i k d ac t s) = sn_workers s"
  "sn_workspaces (append_client_audit a w i k d ac t s) = sn_workspaces s"
  by (simp_all add: append_client_audit_def)

lemma fold_append_client_audit_frame:
  fixes f :: "snapshot \<Rightarrow> 'a"
  assumes "\<And>a w i k d ac t s. f (append_client_audit a w i k d ac t s) = f s"
  shows "f (fold (\<lambda>(n, (w, i)). append_client_audit (g n) w i k d ac t) xs s) = f s"
  using assms by (induction xs arbitrary: s) auto

lemma migrate_client_tokens_frame [simp]:
  "sn_sequence (migrate_client_tokens e s) = sn_sequence s"
  "sn_runs (migrate_client_tokens e s) = sn_runs s"
  "sn_jobs (migrate_client_tokens e s) = sn_jobs s"
  "sn_tasks (migrate_client_tokens e s) = sn_tasks s"
  "sn_events (migrate_client_tokens e s) = sn_events s"
  "sn_logs (migrate_client_tokens e s) = sn_logs s"
  "sn_job_state (migrate_client_tokens e s) = sn_job_state s"
  "sn_variables (migrate_client_tokens e s) = sn_variables s"
  "sn_resources (migrate_client_tokens e s) = sn_resources s"
  "sn_input_configs (migrate_client_tokens e s) = sn_input_configs s"
  "sn_catalog (migrate_client_tokens e s) = sn_catalog s"
  "sn_subscriptions (migrate_client_tokens e s) = sn_subscriptions s"
  "sn_control_events (migrate_client_tokens e s) = sn_control_events s"
  "sn_deliveries (migrate_client_tokens e s) = sn_deliveries s"
  "sn_workers (migrate_client_tokens e s) = sn_workers s"
  "sn_workspaces (migrate_client_tokens e s) = sn_workspaces s"
  by (simp_all add: migrate_client_tokens_def Let_def fold_append_client_audit_frame)

lemma ensure_snapshot_frame [simp]:
  "sn_sequence (ensure_snapshot e s) = sn_sequence s"
  "sn_runs (ensure_snapshot e s) = sn_runs s"
  "sn_jobs (ensure_snapshot e s) = sn_jobs s"
  "sn_tasks (ensure_snapshot e s) = sn_tasks s"
  "sn_events (ensure_snapshot e s) = sn_events s"
  "sn_logs (ensure_snapshot e s) = sn_logs s"
  "sn_job_state (ensure_snapshot e s) = sn_job_state s"
  "sn_variables (ensure_snapshot e s) = sn_variables s"
  "sn_resources (ensure_snapshot e s) = sn_resources s"
  "sn_input_configs (ensure_snapshot e s) = sn_input_configs s"
  "sn_catalog (ensure_snapshot e s) = normalize_snapshot (sn_catalog s)"
  "sn_subscriptions (ensure_snapshot e s) = sn_subscriptions s"
  "sn_control_events (ensure_snapshot e s) = sn_control_events s"
  "sn_deliveries (ensure_snapshot e s) = sn_deliveries s"
  "sn_workers (ensure_snapshot e s) = sn_workers s"
  by (simp_all add: ensure_snapshot_def ensure_local_workspaces_def Let_def)

lemma update_Inr: "update e fn s = Inr (s', r) \<longleftrightarrow>
    (\<exists>t. fn (ensure_snapshot e s) = Inr (t, r) \<and> s' = ensure_snapshot e t)"
  by (auto simp: update_def and_then_eq_Inr)

lemma update_Inl: "update e fn s = Inl err \<longleftrightarrow> fn (ensure_snapshot e s) = Inl err"
  by (auto simp: update_def and_then_eq_Inl)

end
