(* ===== verification/Run_Store.thy ===== *)
theory Run_Store
  imports Local_Store
begin

text \<open>
  The operations of \<^verbatim>\<open>LocalStore\<close> on runs, jobs and human tasks (\<^verbatim>\<open>internal/state/local_store.go\<close>):
  creating, claiming, heartbeats, completion, resuming, canceling, retrying. The body of an operation
  that writes is named after it; the method is \<open>update\<close> of the body.
\<close>

section \<open>Inputs and results at rest\<close>

definition encrypt_input :: "input_crypto \<Rightarrow> string \<Rightarrow> string \<Rightarrow> raw \<Rightarrow> store_error + raw" where
  "encrypt_input C nonce w v = encrypt_input_at_rest None C nonce w v"

definition decrypt_input :: "input_crypto \<Rightarrow> string \<Rightarrow> raw \<Rightarrow> store_error + raw" where
  "decrypt_input C w v = decrypt_input_at_rest None C w v"

definition encrypt_result :: "input_crypto \<Rightarrow> string \<Rightarrow> string \<Rightarrow> raw \<Rightarrow> store_error + raw" where
  "encrypt_result C nonce w v = encrypt_result_at_rest None C nonce w v"

definition decrypt_result :: "input_crypto \<Rightarrow> string \<Rightarrow> raw \<Rightarrow> store_error + raw" where
  "decrypt_result C w v = decrypt_result_at_rest None C w v"

definition encrypt_job_result :: "input_crypto \<Rightarrow> string \<Rightarrow> string \<Rightarrow> job_result \<Rightarrow> store_error + job_result" where
  "encrypt_job_result C nonce w res =
    and_then (encrypt_result C nonce w (res_output res)) (\<lambda>out. Inr (res\<lparr>res_output := out\<rparr>))"

definition encrypt_run_result :: "input_crypto \<Rightarrow> call_env \<Rightarrow> string \<Rightarrow> run \<Rightarrow> store_error + run" where
  "encrypt_run_result C e w r =
    and_then (if raw_empty (run_output r) then Inr r
              else and_then (encrypt_result C (draw_nonce e (run_id r @ ''/output'') 0) w (run_output r))
                     (\<lambda>out. Inr (r\<lparr>run_output := out\<rparr>)))
      (\<lambda>r. case run_result r of
             None \<Rightarrow> Inr r
           | Some res \<Rightarrow> and_then (encrypt_job_result C (draw_nonce e (run_id r @ ''/result'') 0) w res)
               (\<lambda>res. Inr (r\<lparr>run_result := Some res\<rparr>)))"

definition encrypt_stored_run_result ::
    "input_crypto \<Rightarrow> call_env \<Rightarrow> string \<Rightarrow> string \<Rightarrow> snapshot \<Rightarrow> store_error + snapshot" where
  "encrypt_stored_run_result C e w rid s =
    (case map_of (sn_runs s) rid of
       None \<Rightarrow> Inr s
     | Some r \<Rightarrow> and_then (encrypt_run_result C e w r) (\<lambda>r. Inr (s\<lparr>sn_runs := mput rid r (sn_runs s)\<rparr>)))"

definition decrypt_run_result :: "input_crypto \<Rightarrow> string \<Rightarrow> run \<Rightarrow> store_error + run" where
  "decrypt_run_result C w r =
    and_then (if raw_empty (run_output r) then Inr r
              else and_then (decrypt_result C w (run_output r)) (\<lambda>out. Inr (r\<lparr>run_output := out\<rparr>)))
      (\<lambda>r. case run_result r of
             None \<Rightarrow> Inr r
           | Some res \<Rightarrow> if raw_empty (res_output res) then Inr r
               else and_then (decrypt_result C w (res_output res))
                 (\<lambda>out. Inr (r\<lparr>run_result := Some (res\<lparr>res_output := out\<rparr>)\<rparr>)))"

definition clear_run_result_output :: "run \<Rightarrow> run" where
  "clear_run_result_output r = r\<lparr>run_output := raw_nil,
     run_result := map_option (\<lambda>res. res\<lparr>res_output := raw_nil\<rparr>) (run_result r)\<rparr>"

section \<open>Events\<close>

definition append_event :: "string \<Rightarrow> string \<Rightarrow> (string, json) gomap \<Rightarrow> time \<Rightarrow> snapshot \<Rightarrow> snapshot" where
  "append_event rid etype payload now s =
    s\<lparr>sn_sequence := sn_sequence s + 1,
      sn_events := sn_events s @ [\<lparr>ev_id = sn_sequence s + 1, ev_run = rid, ev_type = etype,
        ev_payload = must_raw payload, ev_created_at = now\<rparr>]\<rparr>"

definition put_job :: "job \<Rightarrow> snapshot \<Rightarrow> snapshot" where
  "put_job j s = s\<lparr>sn_jobs := mput (job_id j) j (sn_jobs s)\<rparr>"

definition put_run :: "run \<Rightarrow> snapshot \<Rightarrow> snapshot" where
  "put_run r s = s\<lparr>sn_runs := mput (run_id r) r (sn_runs s)\<rparr>"

definition put_task :: "human_task \<Rightarrow> snapshot \<Rightarrow> snapshot" where
  "put_task t s = s\<lparr>sn_tasks := mput (task_id t) t (sn_tasks s)\<rparr>"

section \<open>Creating a run\<close>

definition create_run_and_enqueue :: "input_crypto \<Rightarrow> call_env \<Rightarrow> run \<Rightarrow> job \<Rightarrow> unit body" where
  "create_run_and_enqueue C e r j s =
    (if map_of (sn_runs s) (run_id r) \<noteq> None then Inl Conflict
     else if map_of (sn_jobs s) (job_id j) \<noteq> None then Inl Conflict
     else
       let now = clock e;
           r = r\<lparr>run_created_at := non_zero_time (run_created_at r) now, run_updated_at := now\<rparr>;
           p = job_payload j;
           p = (if jp_correlation p = '''' then p\<lparr>jp_correlation := run_correlation r\<rparr> else p);
           j = j\<lparr>job_created_at := non_zero_time (job_created_at j) now, job_updated_at := now, job_payload := p\<rparr>;
           w = normalized_job_workspace '''' j in
       and_then (encrypt_input C (draw_nonce e ''run.input'' 0) w (run_input r)) (\<lambda>run_in.
       and_then (encrypt_input C (draw_nonce e ''job.input'' 0) w (jp_input (job_payload j))) (\<lambda>job_in.
         let r = r\<lparr>run_input := run_in\<rparr>;
             j = j\<lparr>job_payload := (job_payload j)\<lparr>jp_input := job_in\<rparr>\<rparr>;
             s1 = put_job j (put_run r s);
             s2 = append_event (run_id r) ''run_created'' (event_payload (run_correlation r)
                    [(''app'', JStr (run_app r)), (''action'', JStr (run_action r))]) now s1;
             s3 = append_event (run_id r) ''job_enqueued'' (event_payload (run_correlation r)
                    [(''jobId'', JStr (job_id j))]) now s2
         in Inr (s3, ()))))"

definition local_create_run :: "input_crypto \<Rightarrow> call_env \<Rightarrow> run \<Rightarrow> job \<Rightarrow> unit body" where
  "local_create_run C e r j = update e (create_run_and_enqueue C e r j)"

section \<open>Canceling\<close>

definition canceled_job_result :: "job \<Rightarrow> run \<Rightarrow> string \<Rightarrow> job_result" where
  "canceled_job_result j r message =
    \<lparr>res_job = job_id j, res_app = run_app r, res_action = run_action r,
     res_output = must_raw [(''name'', JStr ''Canceled''), (''message'', JStr message)], res_exit_code = - 1,
     res_stdout = '''', res_stderr = '''', res_duration_ms = 0, res_error = message\<rparr>"

definition apply_canceled_job :: "job \<Rightarrow> run \<Rightarrow> string \<Rightarrow> string \<Rightarrow> string \<Rightarrow> time \<Rightarrow> snapshot \<Rightarrow> snapshot" where
  "apply_canceled_job j r by reason message now s =
    (let message = (if trim_space message = '''' then ''job canceled'' else trim_space message);
         j = j\<lparr>job_state := JobFailed, job_lease_expires_at := None, job_canceled_by := Some by,
              job_canceled_reason := Some reason, job_updated_at := now\<rparr>;
         r = r\<lparr>run_state := RunCanceled, run_result := Some (canceled_job_result j r message),
              run_error := must_raw [(''message'', JStr message), (''canceledBy'', JStr by),
                (''canceledReason'', JStr reason)], run_updated_at := now\<rparr>
     in append_event (run_id r) ''run_canceled'' (event_payload (run_correlation r)
          [(''jobId'', JStr (job_id j)), (''by'', JStr by), (''reason'', JStr reason)]) now
          (put_run r (put_job j s)))"

text \<open>The shape the handlers share: finish the job as canceled and encrypt what was stored.\<close>

definition finish_canceled :: "input_crypto \<Rightarrow> call_env \<Rightarrow> job \<Rightarrow> run \<Rightarrow> string \<Rightarrow> string \<Rightarrow> string \<Rightarrow> snapshot \<Rightarrow> store_error + snapshot" where
  "finish_canceled C e j r by reason message s =
    encrypt_stored_run_result C e (normalized_job_workspace '''' j) (run_id r)
      (apply_canceled_job j r by reason message (clock e) s)"

definition cancel_job :: "input_crypto \<Rightarrow> call_env \<Rightarrow> string \<Rightarrow> string \<Rightarrow> string \<Rightarrow> string \<Rightarrow> cancel_result body" where
  "cancel_job C e w jid by reason s =
    (let none = \<lparr>cr_found = False, cr_completed_now = False, cr_soft_canceled = False, cr_already_completed = False\<rparr>;
         found = none\<lparr>cr_found := True\<rparr> in
     case map_of (sn_jobs s) jid of
       None \<Rightarrow> Inr (s, none)
     | Some j \<Rightarrow>
        if normalized_job_workspace '''' j \<noteq> normalize_workspace w then Inr (s, none)
        else case map_of (sn_runs s) (job_run j) of
          None \<Rightarrow> Inl NotFound
        | Some r \<Rightarrow>
           if is_terminal r \<or> job_state j = JobSucceeded \<or> job_state j = JobFailed
           then Inr (s, found\<lparr>cr_already_completed := True\<rparr>)
           else
             let actor = cancel_actor_subject j r by in
             if job_state j = JobRunning
             then Inr (put_job (j\<lparr>job_canceled_by := Some actor, job_canceled_reason := Some reason,
                         job_updated_at := clock e\<rparr>) s, found\<lparr>cr_soft_canceled := True\<rparr>)
             else and_then (finish_canceled C e j r actor reason cancel_before_execution_message s)
                    (\<lambda>s. Inr (s, found\<lparr>cr_completed_now := True\<rparr>)))"

definition local_cancel_job :: "input_crypto \<Rightarrow> call_env \<Rightarrow> string \<Rightarrow> string \<Rightarrow> string \<Rightarrow> string \<Rightarrow> cancel_result body" where
  "local_cancel_job C e w jid by reason = update e (cancel_job C e w jid by reason)"

definition cancel_run :: "call_env \<Rightarrow> string \<Rightarrow> string \<Rightarrow> run body" where
  "cancel_run e rid reason s =
    (case map_of (sn_runs s) rid of
       None \<Rightarrow> Inl NotFound
     | Some r \<Rightarrow>
        if is_terminal r then Inl InvalidState
        else
          let now = clock e;
              r = r\<lparr>run_state := RunCanceled, run_error := must_raw [(''message'', JStr reason)], run_updated_at := now\<rparr>;
              s = s\<lparr>sn_jobs := mmap (\<lambda>_ j. if job_run j \<noteq> rid \<or> job_state j \<noteq> JobQueued \<and> job_state j \<noteq> JobRunning then j
                      else j\<lparr>job_state := JobFailed, job_lease_owner := '''', job_lease_expires_at := None,
                             job_updated_at := now\<rparr>) (sn_jobs s),
                    sn_tasks := mmap (\<lambda>_ t. if task_run t \<noteq> rid \<or> task_state t \<noteq> TaskPending then t
                      else t\<lparr>task_state := TaskExpired\<rparr>) (sn_tasks s),
                    sn_runs := mput rid r (sn_runs s)\<rparr>
          in Inr (append_event rid ''run_canceled'' (event_payload (run_correlation r) [(''reason'', JStr reason)]) now s, r))"

definition local_cancel_run :: "call_env \<Rightarrow> string \<Rightarrow> string \<Rightarrow> run body" where
  "local_cancel_run e rid reason = update e (cancel_run e rid reason)"

section \<open>Claiming\<close>

definition requeue_expired_job :: "input_crypto \<Rightarrow> call_env \<Rightarrow> string \<Rightarrow> snapshot \<Rightarrow> store_error + snapshot" where
  "requeue_expired_job C e jid s =
    (case map_of (sn_jobs s) jid of
       None \<Rightarrow> Inr s
     | Some j \<Rightarrow>
        if job_state j \<noteq> JobRunning then Inr s
        else case job_lease_expires_at j of
          None \<Rightarrow> Inr s
        | Some t \<Rightarrow>
           if clock e < t then Inr s
           else case job_canceled_by j of
             Some by \<Rightarrow>
              (case map_of (sn_runs s) (job_run j) of
                 None \<Rightarrow> Inr s
               | Some r \<Rightarrow> finish_canceled C e j r by (canceled_reason_value j) cancel_worker_lost_message s)
           | None \<Rightarrow>
              let s = s\<lparr>sn_jobs := mput jid (j\<lparr>job_state := JobQueued, job_lease_owner := '''', job_lease_expires_at := None,
                        job_started_at := None, job_updated_at := clock e\<rparr>) (sn_jobs s)\<rparr>
              in Inr (append_event (job_run j) ''job_lease_expired''
                   (event_payload (jp_correlation (job_payload j)) [(''jobId'', JStr (job_id j))]) (clock e) s))"

definition requeue_expired_jobs :: "input_crypto \<Rightarrow> call_env \<Rightarrow> snapshot \<Rightarrow> store_error + snapshot" where
  "requeue_expired_jobs C e s = fold_err (requeue_expired_job C e) (mkeys (sn_jobs s)) s"

definition claim_before :: "job \<Rightarrow> job \<Rightarrow> bool" where
  "claim_before a b =
    (if job_priority a \<noteq> job_priority b then job_priority a < job_priority b
     else if job_created_at a \<noteq> job_created_at b then job_created_at a < job_created_at b
     else job_id a < job_id b)"

definition claim_candidates :: "string list \<Rightarrow> string list \<Rightarrow> snapshot \<Rightarrow> job list" where
  "claim_candidates tags labels s =
    sort_slice claim_before (filter (\<lambda>j. job_state j = JobQueued \<and> claim_allowed j tags labels) (mvals (sn_jobs s)))"

definition claim_choice :: "string list \<Rightarrow> string list \<Rightarrow> snapshot \<Rightarrow> job option" where
  "claim_choice tags labels s = find (\<lambda>j. \<not> max_concurrent_reached s j) (claim_candidates tags labels s)"

definition start_job :: "call_env \<Rightarrow> string \<Rightarrow> duration \<Rightarrow> job \<Rightarrow> job" where
  "start_job e worker ttl j = j\<lparr>job_state := JobRunning, job_attempt := job_attempt j + 1, job_lease_owner := worker,
     job_lease_expires_at := Some (clock e + ttl), job_started_at := Some (clock e), job_updated_at := clock e\<rparr>"

definition start_run :: "call_env \<Rightarrow> job \<Rightarrow> snapshot \<Rightarrow> snapshot" where
  "start_run e j s =
    (case map_of (sn_runs s) (job_run j) of
       None \<Rightarrow> s
     | Some r \<Rightarrow>
        if run_state r = RunQueued \<or> run_state r = RunResuming then
          let r = r\<lparr>run_state := RunRunning, run_updated_at := clock e\<rparr> in
          append_event (run_id r) ''run_running'' (event_payload (run_correlation r) [(''jobId'', JStr (job_id j))])
            (clock e) (put_run r s)
        else s)"

definition claim_worker_id :: "call_env \<Rightarrow> string \<Rightarrow> string" where
  "claim_worker_id e worker = (if worker = '''' then draw_id e ''worker'' 0 else worker)"

definition lease_ttl :: "duration \<Rightarrow> duration" where
  "lease_ttl ttl = (if ttl \<le> 0 then default_lease_time else ttl)"

definition claim_job_for_worker ::
    "input_crypto \<Rightarrow> call_env \<Rightarrow> string \<Rightarrow> string list \<Rightarrow> string list \<Rightarrow> duration \<Rightarrow> (job \<times> lease) body" where
  "claim_job_for_worker C e worker tags labels ttl s0 =
    (let worker = claim_worker_id e worker; ttl = lease_ttl ttl in
     and_then (requeue_expired_jobs C e s0) (\<lambda>s.
       case claim_choice (normalize_claim_tags tags) (normalize_claim_tags labels) s of
         None \<Rightarrow> Inl NoQueuedJob
       | Some j \<Rightarrow>
          if job_id j = '''' then Inl NoQueuedJob
          else
            let j = start_job e worker ttl j;
                s = start_run e j (put_job j s);
                s = append_event (job_run j) ''job_claimed'' (event_payload (jp_correlation (job_payload j))
                  [(''jobId'', JStr (job_id j)), (''workerId'', JStr worker), (''attempt'', int_doc (job_attempt j))])
                  (clock e) s
            in Inr (s, (j, \<lparr>lease_job = job_id j, lease_worker = worker, lease_expires_at = clock e + ttl,
                           lease_attempt = job_attempt j, lease_acquired_at = clock e\<rparr>))))"

definition local_claim_job ::
    "input_crypto \<Rightarrow> call_env \<Rightarrow> string \<Rightarrow> string list \<Rightarrow> string list \<Rightarrow> duration \<Rightarrow> (job \<times> lease) body" where
  "local_claim_job C e worker tags labels ttl = update e (claim_job_for_worker C e worker tags labels ttl)"

section \<open>Leases\<close>

definition heartbeat_job :: "call_env \<Rightarrow> lease \<Rightarrow> duration \<Rightarrow> heartbeat_result body" where
  "heartbeat_job e l ttl s =
    (let lost = \<lparr>hb_canceled_by = None, hb_canceled_reason = None, hb_still_owned = False\<rparr> in
     case map_of (sn_jobs s) (lease_job l) of
       None \<Rightarrow> Inr (s, lost)
     | Some j \<Rightarrow>
        if job_state j \<noteq> JobRunning \<or> job_lease_owner j \<noteq> lease_worker l \<or> job_attempt j \<noteq> lease_attempt l
        then Inr (s, lost)
        else Inr (put_job (j\<lparr>job_lease_expires_at := Some (clock e + lease_ttl ttl), job_updated_at := clock e\<rparr>) s,
               \<lparr>hb_canceled_by = job_canceled_by j, hb_canceled_reason = job_canceled_reason j, hb_still_owned = True\<rparr>))"

definition local_heartbeat_job :: "call_env \<Rightarrow> lease \<Rightarrow> duration \<Rightarrow> heartbeat_result body" where
  "local_heartbeat_job e l ttl = update e (heartbeat_job e l ttl)"

definition leased_job_and_run :: "snapshot \<Rightarrow> lease \<Rightarrow> time \<Rightarrow> store_error + job \<times> run" where
  "leased_job_and_run s l now =
    (case map_of (sn_jobs s) (lease_job l) of
       None \<Rightarrow> Inl NotFound
     | Some j \<Rightarrow>
        if job_state j \<noteq> JobRunning \<or> job_lease_owner j \<noteq> lease_worker l \<or> job_attempt j \<noteq> lease_attempt l
        then Inl InvalidLease
        else if (case job_lease_expires_at j of None \<Rightarrow> False | Some t \<Rightarrow> t < now) then Inl InvalidLease
        else case map_of (sn_runs s) (job_run j) of None \<Rightarrow> Inl NotFound | Some r \<Rightarrow> Inr (j, r))"

definition finish_job :: "job_state \<Rightarrow> time \<Rightarrow> job \<Rightarrow> job" where
  "finish_job st now j = j\<lparr>job_state := st, job_lease_expires_at := None, job_updated_at := now\<rparr>"

text \<open>
  The three completions share their start: the lease is checked, and a job that was canceled
  meanwhile ends canceled whatever its worker reports.
\<close>

definition complete_leased ::
    "input_crypto \<Rightarrow> call_env \<Rightarrow> lease \<Rightarrow> (job \<Rightarrow> run \<Rightarrow> store_error + snapshot) \<Rightarrow> unit body" where
  "complete_leased C e l fin s =
    and_then (leased_job_and_run s l (clock e)) (\<lambda>(j, r).
      and_then (case job_canceled_by j of
          Some by \<Rightarrow> finish_canceled C e j r by (canceled_reason_value j) cancel_during_execution_message s
        | None \<Rightarrow> fin j r) (\<lambda>s. Inr (s, ())))"

definition complete_job_succeeded :: "input_crypto \<Rightarrow> call_env \<Rightarrow> lease \<Rightarrow> job_result \<Rightarrow> unit body" where
  "complete_job_succeeded C e l res s =
    complete_leased C e l (\<lambda>j r.
      and_then (encrypt_job_result C (draw_nonce e ''result'' 0) (normalized_job_workspace '''' j) res) (\<lambda>stored.
        let now = clock e;
            r = r\<lparr>run_state := RunSucceeded, run_output := res_output stored, run_result := Some stored,
                 run_error := raw_nil, run_task := '''', run_updated_at := now\<rparr>
        in Inr (append_event (run_id r) ''run_succeeded''
             (event_payload (run_correlation r) [(''jobId'', JStr (job_id j))]) now
             (put_run r (put_job (finish_job JobSucceeded now j) s))))) s"

definition local_complete_succeeded :: "input_crypto \<Rightarrow> call_env \<Rightarrow> lease \<Rightarrow> job_result \<Rightarrow> unit body" where
  "local_complete_succeeded C e l res = update e (complete_job_succeeded C e l res)"

text \<open>A failure without a message gets one from the exit code.\<close>

definition exit_error :: "job_result \<Rightarrow> job_result" where
  "exit_error res = (if res_error res = '''' \<and> res_exit_code res \<noteq> 0
     then res\<lparr>res_error := ''action exited with code '' @ itoa (res_exit_code res)\<rparr> else res)"

definition complete_job_failed :: "input_crypto \<Rightarrow> call_env \<Rightarrow> lease \<Rightarrow> job_result \<Rightarrow> unit body" where
  "complete_job_failed C e l res0 s =
    complete_leased C e l (\<lambda>j r.
      let res = exit_error res0 in
      and_then (encrypt_job_result C (draw_nonce e ''result'' 0) (normalized_job_workspace '''' j) res) (\<lambda>stored.
        let now = clock e;
            r = r\<lparr>run_state := RunFailed, run_result := Some stored,
                 run_error := must_raw [(''message'', JStr (res_error res)), (''exitCode'', int_doc (res_exit_code res))],
                 run_updated_at := now\<rparr>
        in Inr (append_event (run_id r) ''run_failed'' (event_payload (run_correlation r)
             [(''jobId'', JStr (job_id j)), (''error'', JStr (res_error res)), (''exitCode'', int_doc (res_exit_code res))]) now
             (put_run r (put_job (finish_job JobFailed now j) s))))) s"

definition local_complete_failed :: "input_crypto \<Rightarrow> call_env \<Rightarrow> lease \<Rightarrow> job_result \<Rightarrow> unit body" where
  "local_complete_failed C e l res = update e (complete_job_failed C e l res)"

definition prepare_human_task :: "call_env \<Rightarrow> run \<Rightarrow> human_task \<Rightarrow> human_task" where
  "prepare_human_task e r t =
    t\<lparr>task_id := (if task_id t = '''' then draw_id e ''human'' 0 else task_id t),
      task_run := (if task_run t = '''' then run_id r else task_run t),
      task_state := (if task_state t = TaskOther '''' then TaskPending else task_state t),
      task_created_at := non_zero_time (task_created_at t) (clock e)\<rparr>"

definition complete_job_waiting_human ::
    "input_crypto \<Rightarrow> call_env \<Rightarrow> lease \<Rightarrow> job_result \<Rightarrow> human_task \<Rightarrow> unit body" where
  "complete_job_waiting_human C e l res t0 s =
    complete_leased C e l (\<lambda>j r.
      and_then (encrypt_job_result C (draw_nonce e ''result'' 0) (normalized_job_workspace '''' j) res) (\<lambda>stored.
        let now = clock e; t = prepare_human_task e r t0 in
        if map_of (sn_tasks s) (task_id t) \<noteq> None then Inl Conflict
        else
          let r = r\<lparr>run_state := RunWaitingHuman, run_result := Some stored, run_error := raw_nil,
                   run_task := task_id t, run_updated_at := now\<rparr>
          in Inr (append_event (run_id r) ''human_task_created'' (event_payload (run_correlation r)
               [(''jobId'', JStr (job_id j)), (''taskId'', JStr (task_id t))]) now
               (put_task t (put_run r (put_job (finish_job JobSucceeded now j) s)))))) s"

definition local_complete_waiting_human ::
    "input_crypto \<Rightarrow> call_env \<Rightarrow> lease \<Rightarrow> job_result \<Rightarrow> human_task \<Rightarrow> unit body" where
  "local_complete_waiting_human C e l res t = update e (complete_job_waiting_human C e l res t)"

section \<open>Resuming and retrying\<close>

text \<open>Enqueue a new job of a run with the given plain input: the job as returned, and as stored.\<close>

definition enqueue_job :: "input_crypto \<Rightarrow> call_env \<Rightarrow> run \<Rightarrow> raw \<Rightarrow> store_error + job \<times> job" where
  "enqueue_job C e r input =
    (let j = (new_action_job e r input)\<lparr>job_created_at := clock e, job_updated_at := clock e\<rparr> in
     and_then (encrypt_input C (draw_nonce e ''job.input'' 0) (normalized_job_workspace '''' j) (jp_input (job_payload j)))
       (\<lambda>stored. Inr (j, j\<lparr>job_payload := (job_payload j)\<lparr>jp_input := stored\<rparr>\<rparr>)))"

definition resume_human_task :: "input_crypto \<Rightarrow> call_env \<Rightarrow> string \<Rightarrow> raw \<Rightarrow> (run \<times> job) body" where
  "resume_human_task C e tid input s =
    (case map_of (sn_tasks s) tid of
       None \<Rightarrow> Inl NotFound
     | Some t \<Rightarrow>
        if task_state t \<noteq> TaskPending then Inl InvalidState
        else case map_of (sn_runs s) (task_run t) of
          None \<Rightarrow> Inl NotFound
        | Some r \<Rightarrow>
           if run_state r \<noteq> RunWaitingHuman then Inl InvalidState
           else
             let now = clock e; input = (if raw_empty input then empty_object else input) in
             if \<not> json_valid input then Inl InvalidJson
             else
               let t = t\<lparr>task_state := TaskCompleted, task_resume_input := input, task_completed_at := Some now\<rparr>;
                   r = r\<lparr>run_state := RunResuming, run_task := '''', run_updated_at := now\<rparr> in
               and_then (decrypt_input C (source_workspace (run_deployment r)) (run_input r)) (\<lambda>plain.
               and_then (enqueue_job C e r (merge_resume_input plain (task_id t) input)) (\<lambda>(j, stored).
                 Inr (append_event (run_id r) ''human_task_resumed'' (event_payload (run_correlation r)
                        [(''taskId'', JStr (task_id t)), (''jobId'', JStr (job_id j))]) now
                        (put_job stored (put_run r (put_task t s))), (r, j)))))"

definition local_resume_human_task :: "input_crypto \<Rightarrow> call_env \<Rightarrow> string \<Rightarrow> raw \<Rightarrow> (run \<times> job) body" where
  "local_resume_human_task C e tid input = update e (resume_human_task C e tid input)"

definition retry_run :: "input_crypto \<Rightarrow> call_env \<Rightarrow> string \<Rightarrow> (run \<times> job) body" where
  "retry_run C e rid s =
    (case map_of (sn_runs s) rid of
       None \<Rightarrow> Inl NotFound
     | Some r \<Rightarrow>
        if run_state r \<noteq> RunFailed \<and> run_state r \<noteq> RunCanceled \<and> run_state r \<noteq> RunExpired then Inl InvalidState
        else
          let now = clock e;
              r = r\<lparr>run_state := RunQueued, run_output := raw_nil, run_result := None, run_error := raw_nil,
                   run_task := '''', run_updated_at := now\<rparr> in
          and_then (decrypt_input C (source_workspace (run_deployment r)) (run_input r)) (\<lambda>plain.
          and_then (enqueue_job C e r plain) (\<lambda>(j, stored).
            Inr (append_event (run_id r) ''run_retried'' (event_payload (run_correlation r)
                   [(''jobId'', JStr (job_id j))]) now (put_job stored (put_run r s)), (r, j)))))"

definition local_retry_run :: "input_crypto \<Rightarrow> call_env \<Rightarrow> string \<Rightarrow> (run \<times> job) body" where
  "local_retry_run C e rid = update e (retry_run C e rid)"

end
