(* ===== verification/Retention.thy ===== *)
theory Retention
  imports Run_Store
begin

text \<open>
  Retention (\<^verbatim>\<open>PruneSettledJobs\<close>, \<^verbatim>\<open>ExpireStuckJobs\<close>), the worker registry, and the read-only
  operations of \<^verbatim>\<open>LocalStore\<close> on runs and jobs. \<^verbatim>\<open>format_time\<close> is the rendering of a time in a
  message.
\<close>

section \<open>Retention\<close>

definition run_expired :: "time \<Rightarrow> time \<Rightarrow> run \<Rightarrow> bool" where
  "run_expired success_older failure_older r \<longleftrightarrow> terminal_run_state (run_state r)
     \<and> run_updated_at r < retention_cutoff (run_state r) success_older failure_older"

definition expired_run_ids :: "time \<Rightarrow> time \<Rightarrow> snapshot \<Rightarrow> string list" where
  "expired_run_ids so fo s = mkeys (mfilter (\<lambda>_. run_expired so fo) (sn_runs s))"

definition prune_settled_jobs :: "time \<Rightarrow> time \<Rightarrow> int body" where
  "prune_settled_jobs so fo s =
    (let expired = set (expired_run_ids so fo s) in
     if expired = {} then Inr (s, 0)
     else
       let gone = mfilter (\<lambda>_ j. job_run j \<in> expired) (sn_jobs s) in
       Inr (s\<lparr>sn_jobs := mfilter (\<lambda>_ j. job_run j \<notin> expired) (sn_jobs s),
              sn_logs := mfilter (\<lambda>i _. i \<notin> set (mkeys gone)) (sn_logs s),
              sn_tasks := mfilter (\<lambda>_ t. task_run t \<notin> expired) (sn_tasks s),
              sn_events := filter (\<lambda>ev. ev_run ev \<notin> expired) (sn_events s),
              sn_runs := mfilter (\<lambda>i _. i \<notin> expired) (sn_runs s)\<rparr>, int (length gone)))"

definition local_prune_settled_jobs :: "call_env \<Rightarrow> time \<Rightarrow> time \<Rightarrow> int body" where
  "local_prune_settled_jobs e so fo = update e (prune_settled_jobs so fo)"

definition latest_progress :: "string \<Rightarrow> run \<Rightarrow> job list \<Rightarrow> time" where
  "latest_progress rid r js =
    fold (\<lambda>j latest. if job_run j = rid \<and> latest < job_updated_at j then job_updated_at j else latest) js (run_updated_at r)"

definition stuck_reason :: "(time \<Rightarrow> string) \<Rightarrow> time \<Rightarrow> string" where
  "stuck_reason format_time before = ''expired by retention policy: no progress before '' @ format_time before"

definition expire_stuck_run ::
    "(time \<Rightarrow> string) \<Rightarrow> call_env \<Rightarrow> time \<Rightarrow> string \<Rightarrow> snapshot \<times> int \<Rightarrow> snapshot \<times> int" where
  "expire_stuck_run format_time e before rid sn =
    (let (s, n) = sn in
     case map_of (sn_runs s) rid of
       None \<Rightarrow> (s, n)
     | Some r \<Rightarrow>
        if run_state r \<noteq> RunQueued \<and> run_state r \<noteq> RunRunning \<and> run_state r \<noteq> RunResuming then (s, n)
        else if \<not> latest_progress rid r (mvals (sn_jobs s)) < before then (s, n)
        else (s\<lparr>sn_runs := mput rid (r\<lparr>run_state := RunExpired, run_updated_at := clock e\<rparr>) (sn_runs s),
                sn_jobs := mmap (\<lambda>_ j. if job_run j \<noteq> rid \<or> job_state j = JobSucceeded \<or> job_state j = JobFailed then j
                   else j\<lparr>job_state := JobFailed, job_canceled_reason := Some (stuck_reason format_time before),
                          job_updated_at := clock e\<rparr>) (sn_jobs s)\<rparr>, n + 1))"

definition expire_stuck_jobs :: "(time \<Rightarrow> string) \<Rightarrow> call_env \<Rightarrow> time \<Rightarrow> int body" where
  "expire_stuck_jobs format_time e before s =
    Inr (fold (expire_stuck_run format_time e before) (mkeys (sn_runs s)) (s, 0))"

definition local_expire_stuck_jobs :: "(time \<Rightarrow> string) \<Rightarrow> call_env \<Rightarrow> time \<Rightarrow> int body" where
  "local_expire_stuck_jobs format_time e before = update e (expire_stuck_jobs format_time e before)"

section \<open>The worker registry\<close>

definition worker_live_ttl :: duration where "worker_live_ttl = seconds 90"
definition worker_registry_expiry :: duration where "worker_registry_expiry = seconds (15 * 60)"

definition worker_live :: "worker_record \<Rightarrow> time \<Rightarrow> bool" where
  "worker_live w now \<longleftrightarrow> now - wk_last_heartbeat_at w \<le> worker_live_ttl"

definition register_worker :: "call_env \<Rightarrow> worker_record \<Rightarrow> unit body" where
  "register_worker e w s =
    (let w = w\<lparr>wk_slots := (if wk_slots w \<le> 0 then 1 else wk_slots w),
              wk_started_at := non_zero_time (wk_started_at w) (clock e), wk_last_heartbeat_at := clock e\<rparr>
     in Inr (s\<lparr>sn_workers := mput (wk_id w) w (sn_workers s)\<rparr>, ()))"

definition heartbeat_worker :: "call_env \<Rightarrow> string \<Rightarrow> unit body" where
  "heartbeat_worker e wid s =
    (case map_of (sn_workers s) wid of
       None \<Rightarrow> Inl NotFound
     | Some w \<Rightarrow> Inr (s\<lparr>sn_workers := mput wid (w\<lparr>wk_last_heartbeat_at := clock e\<rparr>) (sn_workers s)\<rparr>, ()))"

definition deregister_worker :: "string \<Rightarrow> unit body" where
  "deregister_worker wid s = Inr (s\<lparr>sn_workers := mdel wid (sn_workers s)\<rparr>, ())"

definition registry_expired :: "call_env \<Rightarrow> worker_record \<Rightarrow> bool" where
  "registry_expired e w \<longleftrightarrow> worker_registry_expiry < clock e - wk_last_heartbeat_at w"

definition prune_workers :: "call_env \<Rightarrow> unit body" where
  "prune_workers e s = Inr (s\<lparr>sn_workers := mfilter (\<lambda>_ w. \<not> registry_expired e w) (sn_workers s)\<rparr>, ())"

text \<open>
  \<^verbatim>\<open>ListWorkers\<close> returns the records that are not expired and, when one was, drops the expired ones in a
  second pass under the lock (with the clock of that pass); an error of that pass is ignored.
\<close>

definition list_workers :: "call_env \<Rightarrow> call_env \<Rightarrow> snapshot \<Rightarrow> snapshot \<times> worker_record list" where
  "list_workers e e' s =
    (let ws = mvals (sn_workers s);
         out = sort_slice (\<lambda>a b. wk_id a < wk_id b) (filter (\<lambda>w. \<not> registry_expired e w) ws);
         s' = (if list_ex (registry_expired e) ws
               then (case update e' (prune_workers e') s of Inl _ \<Rightarrow> s | Inr (t, _) \<Rightarrow> t) else s)
     in (s', out))"

section \<open>Reading runs and jobs\<close>

definition get_run :: "input_crypto \<Rightarrow> string \<Rightarrow> snapshot \<Rightarrow> store_error + run" where
  "get_run C rid s =
    (case map_of (sn_runs s) rid of
       None \<Rightarrow> Inl NotFound
     | Some r \<Rightarrow>
        and_then (decrypt_input C (source_workspace (run_deployment r)) (run_input r)) (\<lambda>input.
          decrypt_run_result C (source_workspace (run_deployment r)) (r\<lparr>run_input := input\<rparr>)))"

definition get_job :: "input_crypto \<Rightarrow> string \<Rightarrow> string \<Rightarrow> snapshot \<Rightarrow> store_error + (job \<times> run) option" where
  "get_job C w jid s =
    (case map_of (sn_jobs s) jid of
       None \<Rightarrow> Inr None
     | Some j \<Rightarrow>
        if normalized_job_workspace '''' j \<noteq> normalize_workspace w then Inr None
        else case map_of (sn_runs s) (job_run j) of
          None \<Rightarrow> Inl NotFound
        | Some r \<Rightarrow>
           and_then (decrypt_input C (normalized_job_workspace '''' j) (jp_input (job_payload j))) (\<lambda>ji.
           and_then (decrypt_input C (source_workspace (run_deployment r)) (run_input r)) (\<lambda>ri.
           let j' = j\<lparr>job_payload := (job_payload j)\<lparr>jp_input := ji\<rparr>\<rparr> in
           and_then (decrypt_run_result C (normalized_job_workspace '''' j') (r\<lparr>run_input := ri\<rparr>))
             (\<lambda>r. Inr (Some (j', r))))))"

definition older_job :: "job \<Rightarrow> job \<Rightarrow> bool" where
  "older_job a b \<longleftrightarrow> job_created_at a < job_created_at b \<or> job_created_at a = job_created_at b \<and> job_id a < job_id b"

fun first_job_of_run :: "string \<Rightarrow> string \<Rightarrow> job option \<Rightarrow> job list \<Rightarrow> job option" where
  "first_job_of_run w rid sel [] = sel"
| "first_job_of_run w rid sel (j # js) =
    (if job_run j \<noteq> rid \<or> normalized_job_workspace '''' j \<noteq> w then first_job_of_run w rid sel js
     else case sel of
        None \<Rightarrow> first_job_of_run w rid (if job_id j = '''' then None else Some j) js
      | Some x \<Rightarrow> first_job_of_run w rid (if older_job j x then (if job_id j = '''' then None else Some j) else Some x) js)"

definition get_job_by_run_id :: "input_crypto \<Rightarrow> string \<Rightarrow> string \<Rightarrow> snapshot \<Rightarrow> store_error + (job \<times> run) option" where
  "get_job_by_run_id C w rid s =
    (case first_job_of_run (normalize_workspace w) rid None (mvals (sn_jobs s)) of
       None \<Rightarrow> Inr None
     | Some j \<Rightarrow> get_job C (normalize_workspace w) (job_id j) s)"

definition job_records :: "input_crypto \<Rightarrow> snapshot \<Rightarrow> (job \<times> run) list" where
  "job_records C s = concat (map (\<lambda>j. case map_of (sn_runs s) (job_run j) of
       None \<Rightarrow> []
     | Some r \<Rightarrow> [(j, case decrypt_run_result C (normalized_job_workspace '''' j) r of
           Inl _ \<Rightarrow> clear_run_result_output r | Inr r' \<Rightarrow> r')]) (mvals (sn_jobs s)))"

definition list_jobs :: "(raw \<Rightarrow> string) \<Rightarrow> input_crypto \<Rightarrow> job_list_query \<Rightarrow> snapshot \<Rightarrow> job_list_item list" where
  "list_jobs render C q s = list_jobs_from_records render (job_records C s) q"

definition job_summary_of :: "input_crypto \<Rightarrow> time \<Rightarrow> string \<Rightarrow> duration \<Rightarrow> snapshot \<Rightarrow> job_summary" where
  "job_summary_of C now w recent s = summarize_jobs now (job_records C s) w recent"

definition requeued_tag :: "requeue_app_spec \<Rightarrow> job \<Rightarrow> string option" where
  "requeued_tag spec j =
    (case map_of (rq_action_tags spec) (jp_action (job_payload j)) of
       None \<Rightarrow> None
     | Some tag \<Rightarrow>
        if job_state j = JobQueued \<and> normalized_job_workspace '''' j = normalize_workspace (rq_workspace spec)
           \<and> jp_app (job_payload j) = rq_app spec
           \<and> (case rq_action spec of None \<Rightarrow> True | Some a \<Rightarrow> jp_action (job_payload j) = a)
           \<and> trim_space tag \<noteq> '''' \<and> jp_tag (job_payload j) \<noteq> trim_space tag
        then Some (trim_space tag) else None)"

definition requeue_queued_jobs_for_app :: "call_env \<Rightarrow> requeue_app_spec \<Rightarrow> int body" where
  "requeue_queued_jobs_for_app e spec s =
    Inr (s\<lparr>sn_jobs := mmap (\<lambda>_ j. case requeued_tag spec j of None \<Rightarrow> j
             | Some tag \<Rightarrow> j\<lparr>job_payload := (job_payload j)\<lparr>jp_tag := tag\<rparr>, job_updated_at := clock e\<rparr>) (sn_jobs s)\<rparr>,
         int (length (filter (\<lambda>j. requeued_tag spec j \<noteq> None) (mvals (sn_jobs s)))))"

definition get_human_task :: "string \<Rightarrow> snapshot \<Rightarrow> store_error + human_task" where
  "get_human_task tid s = (case map_of (sn_tasks s) tid of None \<Rightarrow> Inl NotFound | Some t \<Rightarrow> Inr t)"

definition resume_run :: "input_crypto \<Rightarrow> call_env \<Rightarrow> call_env \<Rightarrow> string \<Rightarrow> raw \<Rightarrow> (run \<times> job) body" where
  "resume_run C e0 e rid input s =
    and_then (get_run C rid (ensure_snapshot e0 s)) (\<lambda>r.
      if run_task r = '''' then Inl InvalidState else local_resume_human_task C e (run_task r) input s)"

end
