(* ===== verification/Job_Lifecycle.thy ===== *)
theory Job_Lifecycle
  imports Retention
begin

text \<open>
  The life of runs and jobs in \<^verbatim>\<open>LocalStore\<close>: a step relation whose steps are the store's operations,
  and the invariant every reachable snapshot has. A run that is queued, running or resuming has
  exactly one job that is queued or running, and no other run has one; a run waits for a human
  exactly while the task it names is pending.
\<close>

section \<open>The invariant\<close>

definition job_active :: "job \<Rightarrow> bool" where
  "job_active j \<longleftrightarrow> job_state j = JobQueued \<or> job_state j = JobRunning"

definition run_active :: "run \<Rightarrow> bool" where
  "run_active r \<longleftrightarrow> run_state r = RunQueued \<or> run_state r = RunRunning \<or> run_state r = RunResuming"

text \<open>How a job's state fits the state of its run, and what its lease fields hold.\<close>

definition job_fits :: "job \<Rightarrow> run_state \<Rightarrow> bool" where
  "job_fits j st \<longleftrightarrow> 0 \<le> job_attempt j \<and>
    (job_state j = JobQueued \<longrightarrow> st \<in> {RunQueued, RunRunning, RunResuming} \<and> job_lease_owner j = ''''
       \<and> job_lease_expires_at j = None \<and> job_started_at j = None \<and> job_canceled_by j = None)
    \<and> (job_state j = JobRunning \<longrightarrow> st = RunRunning \<and> job_lease_expires_at j \<noteq> None
       \<and> job_started_at j \<noteq> None \<and> 1 \<le> job_attempt j)"

text \<open>The invariant of the three maps, as functions: jobs, runs, uniqueness and tasks.\<close>

definition jobs_inv :: "(string \<rightharpoonup> run) \<Rightarrow> (string \<rightharpoonup> job) \<Rightarrow> bool" where
  "jobs_inv R J \<longleftrightarrow> (\<forall>k j. J k = Some j \<longrightarrow> job_id j = k \<and> k \<noteq> ''''
     \<and> (\<exists>r. R (job_run j) = Some r \<and> job_fits j (run_state r)))"

definition runs_inv :: "(string \<rightharpoonup> run) \<Rightarrow> (string \<rightharpoonup> job) \<Rightarrow> (string \<rightharpoonup> human_task) \<Rightarrow> bool" where
  "runs_inv R J T \<longleftrightarrow> (\<forall>i r. R i = Some r \<longrightarrow> run_id r = i
     \<and> (run_active r \<longrightarrow> (\<exists>k j. J k = Some j \<and> job_run j = i \<and> job_active j))
     \<and> (run_state r = RunWaitingHuman \<longrightarrow>
          (\<exists>t. T (run_task r) = Some t \<and> task_run t = i \<and> task_state t = TaskPending)))"

definition single_job :: "(string \<rightharpoonup> job) \<Rightarrow> bool" where
  "single_job J \<longleftrightarrow> (\<forall>k k' j j'. J k = Some j \<longrightarrow> J k' = Some j' \<longrightarrow> job_run j = job_run j'
     \<longrightarrow> job_active j \<longrightarrow> job_active j' \<longrightarrow> k = k')"

definition tasks_inv :: "(string \<rightharpoonup> run) \<Rightarrow> (string \<rightharpoonup> human_task) \<Rightarrow> bool" where
  "tasks_inv R T \<longleftrightarrow> (\<forall>i t. T i = Some t \<longrightarrow> task_id t = i
     \<and> (task_state t = TaskPending \<longrightarrow>
          (\<exists>r. R (task_run t) = Some r \<and> run_state r = RunWaitingHuman \<and> run_task r = i)))"

definition core_inv :: "(string \<rightharpoonup> run) \<Rightarrow> (string \<rightharpoonup> job) \<Rightarrow> (string \<rightharpoonup> human_task) \<Rightarrow> bool" where
  "core_inv R J T \<longleftrightarrow> jobs_inv R J \<and> runs_inv R J T \<and> single_job J \<and> tasks_inv R T"

definition events_ok :: "snapshot \<Rightarrow> bool" where
  "events_ok s \<longleftrightarrow> sorted_wrt (<) (map ev_id (sn_events s)) \<and> (\<forall>ev \<in> set (sn_events s). ev_id ev \<le> sn_sequence s)"

definition store_inv :: "snapshot \<Rightarrow> bool" where
  "store_inv s \<longleftrightarrow> map_ok (sn_runs s) \<and> map_ok (sn_jobs s) \<and> map_ok (sn_tasks s)
     \<and> core_inv (map_of (sn_runs s)) (map_of (sn_jobs s)) (map_of (sn_tasks s)) \<and> events_ok s"

lemma core_invI:
  assumes "jobs_inv R J" "runs_inv R J T" "single_job J" "tasks_inv R T"
  shows "core_inv R J T"
  using assms by (simp add: core_inv_def)

lemma core_inv_job:
  assumes "core_inv R J T" and "J k = Some j"
  shows "job_id j = k" and "k \<noteq> ''''" and "\<exists>r. R (job_run j) = Some r \<and> job_fits j (run_state r)"
  using assms by (auto simp: core_inv_def jobs_inv_def)

lemma core_inv_run:
  assumes "core_inv R J T" and "R i = Some r"
  shows "run_id r = i" and "run_active r \<Longrightarrow> \<exists>k j. J k = Some j \<and> job_run j = i \<and> job_active j"
    and "run_state r = RunWaitingHuman \<Longrightarrow> \<exists>t. T (run_task r) = Some t \<and> task_run t = i \<and> task_state t = TaskPending"
  using assms by (auto simp: core_inv_def runs_inv_def)

lemma core_inv_single:
  "core_inv R J T \<Longrightarrow> J k = Some j \<Longrightarrow> J k' = Some j' \<Longrightarrow> job_run j = job_run j' \<Longrightarrow>
    job_active j \<Longrightarrow> job_active j' \<Longrightarrow> k = k'"
  by (auto simp: core_inv_def single_job_def)

lemma core_inv_task:
  assumes "core_inv R J T" and "T i = Some t"
  shows "task_id t = i" and "task_state t = TaskPending \<Longrightarrow>
    \<exists>r. R (task_run t) = Some r \<and> run_state r = RunWaitingHuman \<and> run_task r = i"
  using assms by (auto simp: core_inv_def tasks_inv_def)

lemma job_fits_active: "job_active j \<Longrightarrow> job_fits j st \<Longrightarrow> st \<in> {RunQueued, RunRunning, RunResuming}"
  by (auto simp: job_active_def job_fits_def)

lemma job_fits_idle: "\<not> job_active j \<Longrightarrow> job_fits j st \<longleftrightarrow> 0 \<le> job_attempt j"
  by (auto simp: job_active_def job_fits_def)

text \<open>An active job's run is active, and no pending task belongs to it.\<close>

lemma active_job_run:
  assumes "core_inv R J T" and "J k = Some j" and "job_active j" and "R (job_run j) = Some r"
  shows "run_active r"
  using core_inv_job(3) [OF assms(1,2)] assms(3,4) job_fits_active by (auto simp: run_active_def)

lemma pending_task_run:
  assumes "core_inv R J T" and "T i = Some t" and "task_state t = TaskPending" and "R (task_run t) = Some r"
  shows "run_state r = RunWaitingHuman" and "run_task r = i"
  using core_inv_task(2) [OF assms(1,2,3)] assms(4) by auto

section \<open>Moves\<close>

text \<open>
  Closing a run: it settles, and each of its jobs and tasks is left idle; whatever belongs to another
  run stays.
\<close>

definition job_closed :: "string \<Rightarrow> job \<Rightarrow> job \<Rightarrow> bool" where
  "job_closed i j j' \<longleftrightarrow> job_id j' = job_id j \<and> job_run j' = job_run j
     \<and> (job_run j = i \<longrightarrow> \<not> job_active j' \<and> (0 \<le> job_attempt j \<longrightarrow> 0 \<le> job_attempt j'))
     \<and> (job_run j \<noteq> i \<longrightarrow> j' = j)"

definition task_closed :: "string \<Rightarrow> human_task \<Rightarrow> human_task \<Rightarrow> bool" where
  "task_closed i t t' \<longleftrightarrow> task_id t' = task_id t \<and> task_run t' = task_run t
     \<and> (task_run t = i \<longrightarrow> task_state t' \<noteq> TaskPending) \<and> (task_run t \<noteq> i \<longrightarrow> t' = t)"

definition jobs_closed :: "string \<Rightarrow> (string \<rightharpoonup> job) \<Rightarrow> (string \<rightharpoonup> job) \<Rightarrow> bool" where
  "jobs_closed i J J' \<longleftrightarrow> (\<forall>k. rel_option (job_closed i) (J k) (J' k))"

definition tasks_closed :: "string \<Rightarrow> (string \<rightharpoonup> human_task) \<Rightarrow> (string \<rightharpoonup> human_task) \<Rightarrow> bool" where
  "tasks_closed i T T' \<longleftrightarrow> (\<forall>k. rel_option (task_closed i) (T k) (T' k))"

lemma jobs_closed_cases:
  assumes "jobs_closed i J J'" and "J' k = Some j'"
  obtains j where "J k = Some j" "job_id j' = job_id j" "job_run j' = job_run j"
    "job_run j = i \<Longrightarrow> \<not> job_active j'" "job_run j = i \<Longrightarrow> 0 \<le> job_attempt j \<Longrightarrow> 0 \<le> job_attempt j'"
    "job_run j \<noteq> i \<Longrightarrow> j' = j"
proof -
  from assms have "rel_option (job_closed i) (J k) (Some j')" by (metis jobs_closed_def)
  then obtain j where "J k = Some j" "job_closed i j j'" by (auto simp: option_rel_Some2)
  with that show thesis by (simp add: job_closed_def)
qed

lemma jobs_closed_other:
  assumes "jobs_closed i J J'" and "J k = Some j" and "job_run j \<noteq> i"
  shows "J' k = Some j"
proof -
  from assms have "rel_option (job_closed i) (Some j) (J' k)" by (metis jobs_closed_def)
  with assms(3) show ?thesis by (auto simp: option_rel_Some1 job_closed_def)
qed

lemma tasks_closed_cases:
  assumes "tasks_closed i T T'" and "T' k = Some t'"
  obtains t where "T k = Some t" "task_id t' = task_id t" "task_run t' = task_run t"
    "task_run t = i \<Longrightarrow> task_state t' \<noteq> TaskPending" "task_run t \<noteq> i \<Longrightarrow> t' = t"
proof -
  from assms have "rel_option (task_closed i) (T k) (Some t')" by (metis tasks_closed_def)
  then obtain t where "T k = Some t" "task_closed i t t'" by (auto simp: option_rel_Some2)
  with that show thesis by (simp add: task_closed_def)
qed

lemma tasks_closed_other:
  assumes "tasks_closed i T T'" and "T k = Some t" and "task_run t \<noteq> i"
  shows "T' k = Some t"
proof -
  from assms have "rel_option (task_closed i) (Some t) (T' k)" by (metis tasks_closed_def)
  with assms(3) show ?thesis by (auto simp: option_rel_Some1 task_closed_def)
qed

text \<open>The run of an active job has no pending task, so its tasks are closed already.\<close>

lemma tasks_closed_refl:
  assumes "core_inv R J T" and "R i = Some r" and "run_state r \<noteq> RunWaitingHuman"
  shows "tasks_closed i T T"
proof -
  have "task_closed i t t" if "T k = Some t" for k t
    using core_inv_task(2) [OF assms(1) that] assms(2,3) by (auto simp: task_closed_def)
  then have "rel_option (task_closed i) (T k) (T k)" for k by (cases "T k") auto
  then show ?thesis by (simp add: tasks_closed_def)
qed

lemma core_inv_close:
  assumes inv: "core_inv R J T" and r: "R i = Some r"
    and J': "jobs_closed i J J'" and T': "tasks_closed i T T'"
    and r': "run_id r' = i" "\<not> run_active r'" "run_state r' \<noteq> RunWaitingHuman"
  shows "core_inv (R(i \<mapsto> r')) J' T'"
proof (rule core_invI)
  show "jobs_inv (R(i \<mapsto> r')) J'"
    unfolding jobs_inv_def
  proof (intro allI impI)
    fix k j' assume "J' k = Some j'"
    with J' show "job_id j' = k \<and> k \<noteq> '''' \<and> (\<exists>r. (R(i \<mapsto> r')) (job_run j') = Some r \<and> job_fits j' (run_state r))"
    proof (rule jobs_closed_cases)
      fix j assume j: "J k = Some j" "job_id j' = job_id j" "job_run j' = job_run j"
        "job_run j = i \<Longrightarrow> \<not> job_active j'" "job_run j = i \<Longrightarrow> 0 \<le> job_attempt j \<Longrightarrow> 0 \<le> job_attempt j'"
        "job_run j \<noteq> i \<Longrightarrow> j' = j"
      note C = core_inv_job [OF inv j(1)]
      then have "0 \<le> job_attempt j" by (auto simp: job_fits_def)
      with C j show ?thesis by (cases "job_run j = i") (auto simp: job_fits_idle)
    qed
  qed
  show "runs_inv (R(i \<mapsto> r')) J' T'"
    unfolding runs_inv_def
  proof (intro allI impI)
    fix i2 r2 assume R2: "(R(i \<mapsto> r')) i2 = Some r2"
    show "run_id r2 = i2 \<and> (run_active r2 \<longrightarrow> (\<exists>k2 j2. J' k2 = Some j2 \<and> job_run j2 = i2 \<and> job_active j2))
      \<and> (run_state r2 = RunWaitingHuman \<longrightarrow> (\<exists>t. T' (run_task r2) = Some t \<and> task_run t = i2 \<and> task_state t = TaskPending))"
    proof (cases "i2 = i")
      case True
      with R2 r' show ?thesis by auto
    next
      case False
      with R2 have "R i2 = Some r2" by simp
      note C = core_inv_run [OF inv this]
      show ?thesis
        using C False jobs_closed_other [OF J'] tasks_closed_other [OF T'] by metis
    qed
  qed
  show "single_job J'"
    unfolding single_job_def
  proof (intro allI impI)
    fix k k2 j' j2' assume J: "J' k = Some j'" "J' k2 = Some j2'" "job_run j' = job_run j2'" "job_active j'" "job_active j2'"
    obtain j where j: "J k = Some j" "job_run j' = job_run j" "job_run j = i \<Longrightarrow> \<not> job_active j'" "job_run j \<noteq> i \<Longrightarrow> j' = j"
      using jobs_closed_cases [OF J' J(1)] by metis
    obtain j2 where j2: "J k2 = Some j2" "job_run j2' = job_run j2" "job_run j2 = i \<Longrightarrow> \<not> job_active j2'" "job_run j2 \<noteq> i \<Longrightarrow> j2' = j2"
      using jobs_closed_cases [OF J' J(2)] by metis
    show "k = k2" using core_inv_single [OF inv j(1) j2(1)] j j2 J by metis
  qed
  show "tasks_inv (R(i \<mapsto> r')) T'"
    unfolding tasks_inv_def
  proof (intro allI impI)
    fix x t' assume "T' x = Some t'"
    with T' show "task_id t' = x \<and> (task_state t' = TaskPending \<longrightarrow>
        (\<exists>ra. (R(i \<mapsto> r')) (task_run t') = Some ra \<and> run_state ra = RunWaitingHuman \<and> run_task ra = x))"
    proof (rule tasks_closed_cases)
      fix t assume t: "T x = Some t" "task_id t' = task_id t" "task_run t' = task_run t"
        "task_run t = i \<Longrightarrow> task_state t' \<noteq> TaskPending" "task_run t \<noteq> i \<Longrightarrow> t' = t"
      from core_inv_task [OF inv t(1)] t show ?thesis by (cases "task_run t = i") auto
    qed
  qed
qed

text \<open>Ending the active job of a run.\<close>

lemma jobs_closed_settle:
  assumes inv: "core_inv R J T" and j: "J k = Some j" "job_active j" "job_run j = i"
    and j': "job_id j' = job_id j" "job_run j' = i" "\<not> job_active j'" "job_attempt j' = job_attempt j"
  shows "jobs_closed i J (J(k \<mapsto> j'))"
proof -
  have "rel_option (job_closed i) (J k2) ((J(k \<mapsto> j')) k2)" for k2
  proof (cases "J k2")
    case None
    with j show ?thesis by auto
  next
    case (Some j2)
    show ?thesis
    proof (cases "k2 = k")
      case True
      with Some j j' show ?thesis by (auto simp: job_closed_def)
    next
      case False
      with core_inv_single [OF inv j(1) Some] j have "job_run j2 = i \<Longrightarrow> \<not> job_active j2" by auto
      with Some False show ?thesis by (simp add: job_closed_def)
    qed
  qed
  then show ?thesis by (simp add: jobs_closed_def)
qed

text \<open>The active job of a run moves on and its run with it: both stay active.\<close>

lemma core_inv_active:
  assumes inv: "core_inv R J T" and j: "J k = Some j" "job_active j" "job_run j = i" and r: "R i = Some r"
    and j': "job_id j' = job_id j" "job_run j' = i" "job_active j'" "job_fits j' (run_state r')"
    and r': "run_id r' = i" "run_active r'"
  shows "core_inv (R(i \<mapsto> r')) (J(k \<mapsto> j')) T"
proof (rule core_invI)
  have act: "run_active r" using active_job_run [OF inv j(1,2)] r j(3) by simp
  have other: "\<not> job_active j2" if "J k2 = Some j2" "job_run j2 = i" "k2 \<noteq> k" for k2 j2
    using core_inv_single [OF inv j(1) that(1)] that j by auto
  show "jobs_inv (R(i \<mapsto> r')) (J(k \<mapsto> j'))"
    unfolding jobs_inv_def
  proof (intro allI impI)
    fix k2 j2 assume J2: "(J(k \<mapsto> j')) k2 = Some j2"
    show "job_id j2 = k2 \<and> k2 \<noteq> '''' \<and> (\<exists>r. (R(i \<mapsto> r')) (job_run j2) = Some r \<and> job_fits j2 (run_state r))"
    proof (cases "k2 = k")
      case True
      with J2 j' core_inv_job(1,2) [OF inv j(1)] show ?thesis by auto
    next
      case False
      with J2 have "J k2 = Some j2" by simp
      with core_inv_job [OF inv this] other [OF this] False show ?thesis
        by (cases "job_run j2 = i") (auto simp: job_fits_idle)
    qed
  qed
  show "runs_inv (R(i \<mapsto> r')) (J(k \<mapsto> j')) T"
    unfolding runs_inv_def
  proof (intro allI impI)
    fix i2 r2 assume R2: "(R(i \<mapsto> r')) i2 = Some r2"
    show "run_id r2 = i2 \<and> (run_active r2 \<longrightarrow> (\<exists>k2 j2. (J(k \<mapsto> j')) k2 = Some j2 \<and> job_run j2 = i2 \<and> job_active j2))
      \<and> (run_state r2 = RunWaitingHuman \<longrightarrow> (\<exists>t. T (run_task r2) = Some t \<and> task_run t = i2 \<and> task_state t = TaskPending))"
    proof (cases "i2 = i")
      case True
      with R2 r' j' show ?thesis by (auto simp: run_active_def)
    next
      case False
      with R2 have "R i2 = Some r2" by simp
      note C = core_inv_run [OF inv this]
      have "\<exists>k2 j2. (J(k \<mapsto> j')) k2 = Some j2 \<and> job_run j2 = i2 \<and> job_active j2" if "run_active r2"
        using C(2) [OF that] False j(1,3) by (metis fun_upd_other option.inject)
      with C show ?thesis by blast
    qed
  qed
  show "single_job (J(k \<mapsto> j'))"
    using inv j j' other unfolding core_inv_def single_job_def by (auto split: if_splits)
  show "tasks_inv (R(i \<mapsto> r')) T"
    unfolding tasks_inv_def
  proof (intro allI impI)
    fix x t assume T: "T x = Some t"
    have "task_run t \<noteq> i" if "task_state t = TaskPending"
      using core_inv_task(2) [OF inv T that] r(1) act by (auto simp: run_active_def)
    with core_inv_task [OF inv T] show "task_id t = x \<and> (task_state t = TaskPending \<longrightarrow>
        (\<exists>ra. (R(i \<mapsto> r')) (task_run t) = Some ra \<and> run_state ra = RunWaitingHuman \<and> run_task ra = x))" by auto
  qed
qed

text \<open>A run is rewritten without its identifier, state or task changing.\<close>

lemma core_inv_touch_run:
  assumes inv: "core_inv R J T" and r: "R i = Some r"
    and r': "run_id r' = run_id r" "run_state r' = run_state r" "run_task r' = run_task r"
  shows "core_inv (R(i \<mapsto> r')) J T"
proof (rule core_invI)
  show "jobs_inv (R(i \<mapsto> r')) J"
    unfolding jobs_inv_def
  proof (intro allI impI)
    fix k j assume "J k = Some j"
    from core_inv_job [OF inv this] r r'(2)
    show "job_id j = k \<and> k \<noteq> '''' \<and> (\<exists>r. (R(i \<mapsto> r')) (job_run j) = Some r \<and> job_fits j (run_state r))" by auto
  qed
  show "runs_inv (R(i \<mapsto> r')) J T"
    unfolding runs_inv_def
  proof (intro allI impI)
    fix i2 r2 assume R2: "(R(i \<mapsto> r')) i2 = Some r2"
    show "run_id r2 = i2 \<and> (run_active r2 \<longrightarrow> (\<exists>k2 j2. J k2 = Some j2 \<and> job_run j2 = i2 \<and> job_active j2))
      \<and> (run_state r2 = RunWaitingHuman \<longrightarrow> (\<exists>t. T (run_task r2) = Some t \<and> task_run t = i2 \<and> task_state t = TaskPending))"
      using core_inv_run [OF inv, of i2] R2 r r' by (cases "i2 = i") (auto simp: run_active_def)
  qed
  show "single_job J" using inv by (simp add: core_inv_def)
  show "tasks_inv (R(i \<mapsto> r')) T"
    using inv r r' unfolding core_inv_def tasks_inv_def by force
qed

text \<open>The active job of a run ends and the run waits for a new task.\<close>

lemma core_inv_wait:
  assumes inv: "core_inv R J T" and j: "J k = Some j" "job_active j" "job_run j = i" and r: "R i = Some r"
    and j': "job_id j' = job_id j" "job_run j' = i" "\<not> job_active j'" "job_attempt j' = job_attempt j"
    and r': "run_id r' = i" "run_state r' = RunWaitingHuman" "run_task r' = task_id t"
    and t: "T (task_id t) = None" "task_run t = i" "task_state t = TaskPending"
  shows "core_inv (R(i \<mapsto> r')) (J(k \<mapsto> j')) (T(task_id t \<mapsto> t))"
proof -
  let ?r = "r'\<lparr>run_state := RunSucceeded\<rparr>"
  have act: "run_active r" using active_job_run [OF inv j(1,2)] r j(3) by simp
  then have nw: "run_state r \<noteq> RunWaitingHuman" by (auto simp: run_active_def)
  have c: "core_inv (R(i \<mapsto> ?r)) (J(k \<mapsto> j')) T"
    by (rule core_inv_close [OF inv r jobs_closed_settle [OF inv j j'] tasks_closed_refl [OF inv r nw]])
      (simp_all add: r' run_active_def)
  have idle: "\<not> job_active j2" if "(J(k \<mapsto> j')) k2 = Some j2" "job_run j2 = i" for k2 j2
    using core_inv_job(3) [OF c that(1)] that(2) job_fits_active [of j2] by auto
  show ?thesis
  proof (rule core_invI)
    show "jobs_inv (R(i \<mapsto> r')) (J(k \<mapsto> j'))"
      unfolding jobs_inv_def
    proof (intro allI impI)
      fix k2 j2 assume J2: "(J(k \<mapsto> j')) k2 = Some j2"
      from core_inv_job [OF c J2] idle [OF J2]
      show "job_id j2 = k2 \<and> k2 \<noteq> '''' \<and> (\<exists>r. (R(i \<mapsto> r')) (job_run j2) = Some r \<and> job_fits j2 (run_state r))"
        by (cases "job_run j2 = i") (auto simp: job_fits_idle)
    qed
    show "runs_inv (R(i \<mapsto> r')) (J(k \<mapsto> j')) (T(task_id t \<mapsto> t))"
      unfolding runs_inv_def
    proof (intro allI impI)
      fix i2 r2 assume R2: "(R(i \<mapsto> r')) i2 = Some r2"
      show "run_id r2 = i2 \<and> (run_active r2 \<longrightarrow> (\<exists>k2 j2. (J(k \<mapsto> j')) k2 = Some j2 \<and> job_run j2 = i2 \<and> job_active j2))
        \<and> (run_state r2 = RunWaitingHuman \<longrightarrow> (\<exists>ta. (T(task_id t \<mapsto> t)) (run_task r2) = Some ta
            \<and> task_run ta = i2 \<and> task_state ta = TaskPending))"
      proof (cases "i2 = i")
        case True
        with R2 r' t show ?thesis by (auto simp: run_active_def)
      next
        case False
        with R2 have "(R(i \<mapsto> ?r)) i2 = Some r2" by simp
        note C = core_inv_run [OF c this]
        from C(3) t(1) have "run_state r2 = RunWaitingHuman \<Longrightarrow> run_task r2 \<noteq> task_id t" by auto
        with C show ?thesis by auto
      qed
    qed
    show "single_job (J(k \<mapsto> j'))" using c by (simp add: core_inv_def)
    show "tasks_inv (R(i \<mapsto> r')) (T(task_id t \<mapsto> t))"
      unfolding tasks_inv_def
    proof (intro allI impI)
      fix x t2 assume T2: "(T(task_id t \<mapsto> t)) x = Some t2"
      show "task_id t2 = x \<and> (task_state t2 = TaskPending \<longrightarrow>
          (\<exists>ra. (R(i \<mapsto> r')) (task_run t2) = Some ra \<and> run_state ra = RunWaitingHuman \<and> run_task ra = x))"
      proof (cases "x = task_id t")
        case True
        with T2 r' t show ?thesis by auto
      next
        case False
        with T2 have T2: "T x = Some t2" by simp
        from core_inv_task [OF c T2] show ?thesis by (auto split: if_splits)
      qed
    qed
  qed
qed

text \<open>A run that has no active job gets a new queued one. Its pending task, if any, is closed.\<close>

definition queued_clean :: "job \<Rightarrow> bool" where
  "queued_clean j \<longleftrightarrow> job_state j = JobQueued \<and> job_attempt j = 0 \<and> job_lease_owner j = ''''
     \<and> job_lease_expires_at j = None \<and> job_started_at j = None \<and> job_canceled_by j = None"

lemma queued_clean_fits: "queued_clean j \<Longrightarrow> run_active r \<Longrightarrow> job_fits j (run_state r)"
  by (auto simp: queued_clean_def job_fits_def run_active_def)

lemma core_inv_enqueue:
  assumes inv: "core_inv R J T" and i: "\<And>r. R i = Some r \<Longrightarrow> \<not> run_active r"
    and T': "tasks_closed i T T'"
    and r': "run_id r' = i" "run_active r'"
    and j: "J (job_id j) = None" "job_id j \<noteq> ''''" "job_run j = i" "queued_clean j"
  shows "core_inv (R(i \<mapsto> r')) (J(job_id j \<mapsto> j)) T'"
proof -
  have idle: "\<not> job_active j2" if "J k2 = Some j2" "job_run j2 = i" for k2 j2
    using core_inv_job(3) [OF inv that(1)] that i job_fits_active [of j2] by (auto simp: run_active_def)
  have act: "job_active j" using j by (simp add: queued_clean_def job_active_def)
  show ?thesis
  proof (rule core_invI)
    show "jobs_inv (R(i \<mapsto> r')) (J(job_id j \<mapsto> j))"
      unfolding jobs_inv_def
    proof (intro allI impI)
      fix k2 j2 assume J2: "(J(job_id j \<mapsto> j)) k2 = Some j2"
      show "job_id j2 = k2 \<and> k2 \<noteq> '''' \<and> (\<exists>r. (R(i \<mapsto> r')) (job_run j2) = Some r \<and> job_fits j2 (run_state r))"
      proof (cases "k2 = job_id j")
        case True
        with J2 j queued_clean_fits [OF j(4) r'(2)] show ?thesis by auto
      next
        case False
        with J2 have J2: "J k2 = Some j2" by simp
        from core_inv_job [OF inv J2] idle [OF J2] show ?thesis
          by (cases "job_run j2 = i") (auto simp: job_fits_idle)
      qed
    qed
    show "runs_inv (R(i \<mapsto> r')) (J(job_id j \<mapsto> j)) T'"
      unfolding runs_inv_def
    proof (intro allI impI)
      fix i2 r2 assume R2: "(R(i \<mapsto> r')) i2 = Some r2"
      show "run_id r2 = i2 \<and> (run_active r2 \<longrightarrow> (\<exists>k2 j2. (J(job_id j \<mapsto> j)) k2 = Some j2 \<and> job_run j2 = i2 \<and> job_active j2))
        \<and> (run_state r2 = RunWaitingHuman \<longrightarrow> (\<exists>ta. T' (run_task r2) = Some ta \<and> task_run ta = i2 \<and> task_state ta = TaskPending))"
      proof (cases "i2 = i")
        case True
        with R2 r' j act show ?thesis by (auto simp: run_active_def)
      next
        case False
        with R2 have "R i2 = Some r2" by simp
        note C = core_inv_run [OF inv this]
        have "\<exists>k2 j2. (J(job_id j \<mapsto> j)) k2 = Some j2 \<and> job_run j2 = i2 \<and> job_active j2" if "run_active r2"
          using C(2) [OF that] j(1) by (metis fun_upd_other option.distinct(1))
        moreover have "\<exists>ta. T' (run_task r2) = Some ta \<and> task_run ta = i2 \<and> task_state ta = TaskPending"
          if "run_state r2 = RunWaitingHuman"
          using C(3) [OF that] False tasks_closed_other [OF T'] by metis
        ultimately show ?thesis using C(1) by blast
      qed
    qed
    show "single_job (J(job_id j \<mapsto> j))"
      using inv idle j act unfolding core_inv_def single_job_def by (auto split: if_splits)
    show "tasks_inv (R(i \<mapsto> r')) T'"
      unfolding tasks_inv_def
    proof (intro allI impI)
      fix x t' assume "T' x = Some t'"
      with T' show "task_id t' = x \<and> (task_state t' = TaskPending \<longrightarrow>
          (\<exists>ra. (R(i \<mapsto> r')) (task_run t') = Some ra \<and> run_state ra = RunWaitingHuman \<and> run_task ra = x))"
      proof (rule tasks_closed_cases)
        fix t assume t: "T x = Some t" "task_id t' = task_id t" "task_run t' = task_run t"
          "task_run t = i \<Longrightarrow> task_state t' \<noteq> TaskPending" "task_run t \<noteq> i \<Longrightarrow> t' = t"
        from core_inv_task [OF inv t(1)] t show ?thesis by (cases "task_run t = i") auto
      qed
    qed
  qed
qed

text \<open>Settled runs are dropped with everything that belongs to them.\<close>

lemma core_inv_prune:
  assumes inv: "core_inv R J T"
    and R': "\<And>i. R' i = (if i \<in> X then None else R i)"
    and J': "\<And>k. J' k = (case J k of Some j \<Rightarrow> if job_run j \<in> X then None else Some j | None \<Rightarrow> None)"
    and T': "\<And>x. T' x = (case T x of Some t \<Rightarrow> if task_run t \<in> X then None else Some t | None \<Rightarrow> None)"
  shows "core_inv R' J' T'"
proof (rule core_invI)
  show "jobs_inv R' J'"
    using inv unfolding core_inv_def jobs_inv_def by (auto simp: R' J' split: option.splits if_splits)
  have J2: "J' k = Some j \<longleftrightarrow> J k = Some j \<and> job_run j \<notin> X" for k j
    by (auto simp: J' split: option.splits)
  have T2: "T' x = Some t \<longleftrightarrow> T x = Some t \<and> task_run t \<notin> X" for x t
    by (auto simp: T' split: option.splits)
  have R2: "R' i = Some r \<longleftrightarrow> R i = Some r \<and> i \<notin> X" for i r by (simp add: R')
  show "runs_inv R' J' T'"
    unfolding runs_inv_def R2 J2 T2
  proof (intro allI impI)
    fix i r assume "R i = Some r \<and> i \<notin> X"
    then have i: "i \<notin> X" and "R i = Some r" by simp_all
    note C = core_inv_run [OF inv this(2)]
    show "run_id r = i \<and> (run_active r \<longrightarrow> (\<exists>k j. (J k = Some j \<and> job_run j \<notin> X) \<and> job_run j = i \<and> job_active j))
      \<and> (run_state r = RunWaitingHuman \<longrightarrow>
          (\<exists>t. (T (run_task r) = Some t \<and> task_run t \<notin> X) \<and> task_run t = i \<and> task_state t = TaskPending))"
    proof (intro conjI impI)
      show "run_id r = i" by (rule C(1))
      show "\<exists>k j. (J k = Some j \<and> job_run j \<notin> X) \<and> job_run j = i \<and> job_active j" if "run_active r"
        using C(2) [OF that] i by metis
      show "\<exists>t. (T (run_task r) = Some t \<and> task_run t \<notin> X) \<and> task_run t = i \<and> task_state t = TaskPending"
        if "run_state r = RunWaitingHuman"
        using C(3) [OF that] i by metis
    qed
  qed
  show "single_job J'"
    using inv unfolding core_inv_def single_job_def J2 by blast
  show "tasks_inv R' T'"
    unfolding tasks_inv_def R2 T2 using core_inv_task [OF inv] by meson
qed

section \<open>The invariant of a snapshot\<close>

definition run_view :: "snapshot \<Rightarrow> string \<rightharpoonup> run" where "run_view s = map_of (sn_runs s)"
definition job_view :: "snapshot \<Rightarrow> string \<rightharpoonup> job" where "job_view s = map_of (sn_jobs s)"
definition task_view :: "snapshot \<Rightarrow> string \<rightharpoonup> human_task" where "task_view s = map_of (sn_tasks s)"

definition maps_ok :: "snapshot \<Rightarrow> bool" where
  "maps_ok s \<longleftrightarrow> map_ok (sn_runs s) \<and> map_ok (sn_jobs s) \<and> map_ok (sn_tasks s)"

lemma store_inv_iff: "store_inv s \<longleftrightarrow> maps_ok s \<and> core_inv (run_view s) (job_view s) (task_view s) \<and> events_ok s"
  by (auto simp: store_inv_def maps_ok_def run_view_def job_view_def task_view_def)

lemma ensure_views [simp]:
  "run_view (ensure_snapshot e s) = run_view s" "job_view (ensure_snapshot e s) = job_view s"
  "task_view (ensure_snapshot e s) = task_view s" "maps_ok (ensure_snapshot e s) = maps_ok s"
  "events_ok (ensure_snapshot e s) = events_ok s"
  by (simp_all add: run_view_def job_view_def task_view_def maps_ok_def events_ok_def)

lemma store_inv_ensure [simp]: "store_inv (ensure_snapshot e s) = store_inv s"
  by (simp add: store_inv_iff)

lemma put_views [simp]:
  "run_view (put_job j s) = run_view s" "task_view (put_job j s) = task_view s"
  "job_view (put_job j s) = (job_view s)(job_id j \<mapsto> j)"
  "job_view (put_run r s) = job_view s" "task_view (put_run r s) = task_view s"
  "run_view (put_run r s) = (run_view s)(run_id r \<mapsto> r)"
  "run_view (put_task t s) = run_view s" "job_view (put_task t s) = job_view s"
  "task_view (put_task t s) = (task_view s)(task_id t \<mapsto> t)"
  "events_ok (put_job j s) = events_ok s" "events_ok (put_run r s) = events_ok s"
  "events_ok (put_task t s) = events_ok s"
  by (simp_all add: run_view_def job_view_def task_view_def put_job_def put_run_def put_task_def events_ok_def)

lemma put_maps_ok [simp]:
  "maps_ok s \<Longrightarrow> maps_ok (put_job j s)" "maps_ok s \<Longrightarrow> maps_ok (put_run r s)"
  "maps_ok s \<Longrightarrow> maps_ok (put_task t s)"
  by (simp_all add: maps_ok_def put_job_def put_run_def put_task_def map_ok_mput)

lemma append_event_views [simp]:
  "run_view (append_event i ty p now s) = run_view s" "job_view (append_event i ty p now s) = job_view s"
  "task_view (append_event i ty p now s) = task_view s" "maps_ok (append_event i ty p now s) = maps_ok s"
  by (simp_all add: run_view_def job_view_def task_view_def maps_ok_def append_event_def)

lemma append_event_ok [simp]: "events_ok s \<Longrightarrow> events_ok (append_event i ty p now s)"
  by (fastforce simp: events_ok_def append_event_def sorted_wrt_append)

lemma store_invD:
  assumes "store_inv s"
  shows "maps_ok s" "core_inv (run_view s) (job_view s) (task_view s)" "events_ok s"
  using assms by (simp_all add: store_inv_iff)

lemma store_inv_empty: "store_inv empty_snapshot"
  by (simp add: store_inv_def empty_snapshot_def core_inv_def jobs_inv_def runs_inv_def single_job_def
      tasks_inv_def events_ok_def)

lemma mem_job_view: "maps_ok s \<Longrightarrow> j \<in> set (mvals (sn_jobs s)) \<longleftrightarrow> (\<exists>k. job_view s k = Some j)"
  by (simp add: mvals_mem maps_ok_def job_view_def)

lemma lookup_views:
  "map_of (sn_jobs s) k = job_view s k" "map_of (sn_runs s) k = run_view s k" "map_of (sn_tasks s) k = task_view s k"
  by (simp_all add: run_view_def job_view_def task_view_def)

section \<open>Each operation keeps the invariant\<close>

lemma encrypt_run_result_frame:
  "encrypt_run_result C e w r = Inr r' \<Longrightarrow>
    run_id r' = run_id r \<and> run_state r' = run_state r \<and> run_task r' = run_task r"
  by (auto simp: encrypt_run_result_def and_then_eq_Inr split: if_splits option.splits)

lemma encrypt_stored_run_result_inv:
  assumes "store_inv s" and "encrypt_stored_run_result C e w i s = Inr s'"
  shows "store_inv s' \<and> job_view s' = job_view s \<and> task_view s' = task_view s
    \<and> (\<forall>k. map_option run_state (run_view s' k) = map_option run_state (run_view s k))
    \<and> sn_events s' = sn_events s"
proof (cases "run_view s i")
  case None
  with assms show ?thesis by (simp add: encrypt_stored_run_result_def lookup_views)
next
  case (Some r)
  with assms(2) obtain r' where r': "encrypt_run_result C e w r = Inr r'"
    and s': "s' = s\<lparr>sn_runs := mput i r' (sn_runs s)\<rparr>"
    by (auto simp: encrypt_stored_run_result_def lookup_views and_then_eq_Inr)
  note f = encrypt_run_result_frame [OF r']
  have v: "run_view s' = (run_view s)(i \<mapsto> r')" "job_view s' = job_view s" "task_view s' = task_view s"
    "maps_ok s'" "events_ok s'"
    using store_invD [OF assms(1)]
    by (simp_all add: s' run_view_def job_view_def task_view_def maps_ok_def events_ok_def map_ok_mput)
  have "core_inv ((run_view s)(i \<mapsto> r')) (job_view s) (task_view s)"
    using f by (intro core_inv_touch_run [OF store_invD(2) [OF assms(1)] Some]) auto
  with v f Some show ?thesis by (simp add: store_inv_iff s')
qed

lemma apply_canceled_views:
  "run_view (apply_canceled_job j r by reason m now s)
    = (run_view s)(run_id r \<mapsto> r\<lparr>run_state := RunCanceled,
        run_result := Some (canceled_job_result j r (if trim_space m = '''' then ''job canceled'' else trim_space m)),
        run_error := must_raw [(''message'', JStr (if trim_space m = '''' then ''job canceled'' else trim_space m)),
          (''canceledBy'', JStr by), (''canceledReason'', JStr reason)], run_updated_at := now\<rparr>)"
  "job_view (apply_canceled_job j r by reason m now s)
    = (job_view s)(job_id j \<mapsto> j\<lparr>job_state := JobFailed, job_lease_expires_at := None, job_canceled_by := Some by,
              job_canceled_reason := Some reason, job_updated_at := now\<rparr>)"
  "task_view (apply_canceled_job j r by reason m now s) = task_view s"
  "maps_ok s \<Longrightarrow> maps_ok (apply_canceled_job j r by reason m now s)"
  "events_ok s \<Longrightarrow> events_ok (apply_canceled_job j r by reason m now s)"
  by (simp_all add: apply_canceled_job_def Let_def canceled_job_result_def)

lemma apply_canceled_inv:
  assumes inv: "store_inv s" and j: "job_view s k = Some j" "job_active j" and r: "run_view s (job_run j) = Some r"
  shows "store_inv (apply_canceled_job j r by reason m now s)"
proof -
  note c = store_invD [OF inv]
  have ids: "job_id j = k" "run_id r = job_run j"
    using core_inv_job(1) [OF c(2) j(1)] core_inv_run(1) [OF c(2) r] by simp_all
  have nw: "run_state r \<noteq> RunWaitingHuman"
    using active_job_run [OF c(2) j r] by (auto simp: run_active_def)
  have "core_inv (run_view (apply_canceled_job j r by reason m now s))
    (job_view (apply_canceled_job j r by reason m now s)) (task_view (apply_canceled_job j r by reason m now s))"
    unfolding apply_canceled_views ids
    by (rule core_inv_close [OF c(2) r jobs_closed_settle [OF c(2) j refl] tasks_closed_refl [OF c(2) r nw]])
      (simp_all add: ids job_active_def run_active_def)
  then show ?thesis using c(1,3) by (simp add: store_inv_iff apply_canceled_views(4,5))
qed

lemma finish_canceled_inv:
  assumes "store_inv s" and "job_view s k = Some j" "job_active j" and "run_view s (job_run j) = Some r"
    and "finish_canceled C e j r by reason m s = Inr s'"
  shows "store_inv s'"
  using encrypt_stored_run_result_inv [OF apply_canceled_inv [OF assms(1-4)]] assms(5)
  by (auto simp: finish_canceled_def)

text \<open>The lease handlers: a leased job is running, so it is active and its run exists.\<close>

lemma leased_job_and_run_Inr:
  "leased_job_and_run s l now = Inr (j, r) \<longleftrightarrow>
    job_view s (lease_job l) = Some j \<and> job_state j = JobRunning \<and> job_lease_owner j = lease_worker l
    \<and> job_attempt j = lease_attempt l \<and> (\<forall>t. job_lease_expires_at j = Some t \<longrightarrow> \<not> t < now)
    \<and> run_view s (job_run j) = Some r"
  by (auto simp: leased_job_and_run_def lookup_views split: option.splits)

lemma complete_leased_Inr:
  "complete_leased C e l fin s = Inr (s', u) \<longleftrightarrow> (\<exists>j r. leased_job_and_run s l (clock e) = Inr (j, r)
    \<and> (case job_canceled_by j of
         Some by \<Rightarrow> finish_canceled C e j r by (canceled_reason_value j) cancel_during_execution_message s = Inr s'
       | None \<Rightarrow> fin j r = Inr s'))"
proof (cases "leased_job_and_run s l (clock e)")
  case (Inr p)
  obtain j r where p: "p = (j, r)" by (cases p)
  show ?thesis
    by (cases "job_canceled_by j") (simp_all add: complete_leased_def Inr p and_then_eq_Inr)
qed (simp add: complete_leased_def)

lemma complete_leased_inv:
  assumes inv: "store_inv s" and c: "complete_leased C e l fin s = Inr (s', u)"
    and fin: "\<And>j r. leased_job_and_run s l (clock e) = Inr (j, r) \<Longrightarrow> fin j r = Inr s' \<Longrightarrow> store_inv s'"
  shows "store_inv s'"
proof -
  from c obtain j r where l: "leased_job_and_run s l (clock e) = Inr (j, r)"
    and f: "case job_canceled_by j of
         Some by \<Rightarrow> finish_canceled C e j r by (canceled_reason_value j) cancel_during_execution_message s = Inr s'
       | None \<Rightarrow> fin j r = Inr s'" by (auto simp: complete_leased_Inr)
  from l have j: "job_view s (lease_job l) = Some j" "job_active j" "run_view s (job_run j) = Some r"
    by (simp_all add: leased_job_and_run_Inr job_active_def)
  show ?thesis
    using f fin [OF l] finish_canceled_inv [OF inv j] by (auto split: option.splits)
qed

lemma store_inv_settle:
  assumes inv: "store_inv s" and j: "job_view s k = Some j" "job_active j" and r: "run_view s (job_run j) = Some r"
    and j': "job_id j' = job_id j" "job_run j' = job_run j" "\<not> job_active j'" "job_attempt j' = job_attempt j"
    and r': "run_id r' = run_id r" "\<not> run_active r'" "run_state r' \<noteq> RunWaitingHuman"
  shows "store_inv (append_event i ty p now (put_run r' (put_job j' s)))"
proof -
  note c = store_invD [OF inv]
  have ids: "job_id j = k" "run_id r = job_run j"
    using core_inv_job(1) [OF c(2) j(1)] core_inv_run(1) [OF c(2) r] by simp_all
  have nw: "run_state r \<noteq> RunWaitingHuman"
    using active_job_run [OF c(2) j r] by (auto simp: run_active_def)
  have "core_inv ((run_view s)(job_run j \<mapsto> r')) ((job_view s)(k \<mapsto> j')) (task_view s)"
    by (rule core_inv_close [OF c(2) r jobs_closed_settle [OF c(2) j refl] tasks_closed_refl [OF c(2) r nw]])
      (simp_all add: j' r' ids)
  then show ?thesis using c(1,3) j' r' ids by (simp add: store_inv_iff)
qed

lemma leased_active: "leased_job_and_run s l now = Inr (j, r) \<Longrightarrow>
    job_view s (lease_job l) = Some j \<and> job_active j \<and> run_view s (job_run j) = Some r"
  by (simp add: leased_job_and_run_Inr job_active_def)

lemma complete_job_succeeded_inv:
  assumes inv: "store_inv s" and c: "complete_job_succeeded C e l res s = Inr (s', u)"
  shows "store_inv s'"
  using inv c [unfolded complete_job_succeeded_def Let_def]
proof (rule complete_leased_inv, goal_cases)
  case (1 j r)
  from 1(2) leased_active [OF 1(1)] show ?case
    by (auto simp: and_then_eq_Inr finish_job_def run_active_def job_active_def intro!: store_inv_settle [OF inv])
qed

lemma complete_job_failed_inv:
  assumes inv: "store_inv s" and c: "complete_job_failed C e l res s = Inr (s', u)"
  shows "store_inv s'"
  using inv c [unfolded complete_job_failed_def Let_def]
proof (rule complete_leased_inv, goal_cases)
  case (1 j r)
  from 1(2) leased_active [OF 1(1)] show ?case
    by (auto simp: and_then_eq_Inr finish_job_def run_active_def job_active_def intro!: store_inv_settle [OF inv])
qed

text \<open>
  A worker that reports a wait names its own run in the task, or no run, and leaves the task's state
  unset or pending.
\<close>

definition task_report_ok :: "snapshot \<Rightarrow> lease \<Rightarrow> human_task \<Rightarrow> bool" where
  "task_report_ok s l t \<longleftrightarrow> (case job_view s (lease_job l) of None \<Rightarrow> True
     | Some j \<Rightarrow> task_run t = '''' \<or> task_run t = job_run j)
   \<and> (task_state t = TaskPending \<or> task_state t = TaskOther '''')"

lemma complete_job_waiting_human_inv:
  assumes inv: "store_inv s" and ok: "task_report_ok s l t0"
    and c: "complete_job_waiting_human C e l res t0 s = Inr (s', u)"
  shows "store_inv s'"
  using inv c [unfolded complete_job_waiting_human_def]
proof (rule complete_leased_inv)
  fix j r
  assume l: "leased_job_and_run s l (clock e) = Inr (j, r)"
    and f: "and_then (encrypt_job_result C (draw_nonce e ''result'' 0) (normalized_job_workspace '''' j) res) (\<lambda>stored.
        let now = clock e; t = prepare_human_task e r t0 in
        if map_of (sn_tasks s) (task_id t) \<noteq> None then Inl Conflict
        else
          let r = r\<lparr>run_state := RunWaitingHuman, run_result := Some stored, run_error := raw_nil,
                   run_task := task_id t, run_updated_at := now\<rparr>
          in Inr (append_event (run_id r) ''human_task_created'' (event_payload (run_correlation r)
               [(''jobId'', JStr (job_id j)), (''taskId'', JStr (task_id t))]) now
               (put_task t (put_run r (put_job (finish_job JobSucceeded now j) s))))) = Inr s'"
  note j = leased_active [OF l]
  note c = store_invD [OF inv]
  have ids: "job_id j = lease_job l" "run_id r = job_run j"
    using core_inv_job(1) [OF c(2)] core_inv_run(1) [OF c(2)] j by auto
  let ?t = "prepare_human_task e r t0"
  have t: "task_run ?t = job_run j" "task_state ?t = TaskPending"
    using ok j ids by (auto simp: prepare_human_task_def task_report_ok_def)
  from f obtain stored where n: "task_view s (task_id ?t) = None"
    and s': "s' = append_event (run_id r) ''human_task_created'' (event_payload (run_correlation r)
               [(''jobId'', JStr (job_id j)), (''taskId'', JStr (task_id ?t))]) (clock e)
               (put_task ?t (put_run (r\<lparr>run_state := RunWaitingHuman, run_result := Some stored, run_error := raw_nil,
                   run_task := task_id ?t, run_updated_at := clock e\<rparr>)
                 (put_job (finish_job JobSucceeded (clock e) j) s)))"
    by (auto simp: and_then_eq_Inr Let_def lookup_views split: if_splits)
  let ?r = "r\<lparr>run_state := RunWaitingHuman, run_result := Some stored, run_error := raw_nil,
                   run_task := task_id ?t, run_updated_at := clock e\<rparr>"
  have "core_inv ((run_view s)(job_run j \<mapsto> ?r)) ((job_view s)(lease_job l \<mapsto> finish_job JobSucceeded (clock e) j))
      ((task_view s)(task_id ?t \<mapsto> ?t))"
    by (rule core_inv_wait [OF c(2), of _ j _ r])
      (use j ids t n in \<open>simp_all add: finish_job_def job_active_def\<close>)
  then show "store_inv s'" using c(1,3) ids by (simp add: s' store_inv_iff finish_job_def)
qed

text \<open>Creating: the run is queued and the job is the fresh queued job of it.\<close>

definition fresh_pair :: "run \<Rightarrow> job \<Rightarrow> bool" where
  "fresh_pair r j \<longleftrightarrow> run_state r = RunQueued \<and> job_run j = run_id r \<and> job_id j \<noteq> '''' \<and> queued_clean j"

lemma fresh_pair_new:
  "draw_id e' ''job'' 0 \<noteq> '''' \<Longrightarrow> fresh_pair (new_run e adapter i app akey d input) (new_action_job e' (new_run e adapter i app akey d input) input')"
  by (simp add: fresh_pair_def new_run_def new_action_job_def queued_clean_def Let_def)

lemma new_action_job_clean [simp]:
  "queued_clean (new_action_job e r input)" "job_run (new_action_job e r input) = run_id r"
  "job_id (new_action_job e r input) = draw_id e ''job'' 0"
  by (simp_all add: queued_clean_def new_action_job_def Let_def)

lemma store_inv_enqueue:
  assumes inv: "store_inv s" and i: "\<And>r. run_view s i = Some r \<Longrightarrow> \<not> run_active r"
    and T': "tasks_closed i (task_view s) (task_view s')" "job_view s' = job_view s" "run_view s' = run_view s"
      "maps_ok s'" "events_ok s'"
    and r': "run_id r' = i" "run_active r'"
    and j: "job_view s (job_id j) = None" "job_id j \<noteq> ''''" "job_run j = i" "queued_clean j"
  shows "store_inv (put_job j (put_run r' s'))"
proof -
  have "core_inv ((run_view s)(i \<mapsto> r')) ((job_view s)(job_id j \<mapsto> j)) (task_view s')"
    by (rule core_inv_enqueue [OF store_invD(2) [OF inv] i T'(1) r' j])
  with T' r' show ?thesis by (simp add: store_inv_iff)
qed

lemma create_run_inv:
  assumes inv: "store_inv s" and f: "fresh_pair r j" and c: "create_run_and_enqueue C e r j s = Inr (s', u)"
  shows "store_inv s'"
proof -
  let ?r = "r\<lparr>run_created_at := non_zero_time (run_created_at r) (clock e), run_updated_at := clock e\<rparr>"
  let ?p = "if jp_correlation (job_payload j) = '''' then (job_payload j)\<lparr>jp_correlation := run_correlation ?r\<rparr> else job_payload j"
  let ?j = "j\<lparr>job_created_at := non_zero_time (job_created_at j) (clock e), job_updated_at := clock e, job_payload := ?p\<rparr>"
  from c obtain ri ji i1 t1 p1 i2 t2 p2 where n: "run_view s (run_id r) = None" "job_view s (job_id j) = None"
    and s': "s' = append_event i1 t1 p1 (clock e) (append_event i2 t2 p2 (clock e)
      (put_job (?j\<lparr>job_payload := (job_payload ?j)\<lparr>jp_input := ji\<rparr>\<rparr>) (put_run (?r\<lparr>run_input := ri\<rparr>) s)))"
    unfolding create_run_and_enqueue_def Let_def lookup_views
    by (auto simp: and_then_eq_Inr simp del: job.simps run.simps job_payload.simps split: if_splits)
  have clean: "queued_clean (?j\<lparr>job_payload := (job_payload ?j)\<lparr>jp_input := ji\<rparr>\<rparr>)"
    using f by (simp add: fresh_pair_def queued_clean_def)
  have "tasks_closed (run_id r) (task_view s) (task_view s)"
  proof -
    have "task_closed (run_id r) t t" if "task_view s k = Some t" for k t
      using core_inv_task(2) [OF store_invD(2) [OF inv] that] n(1) by (auto simp: task_closed_def)
    then have "rel_option (task_closed (run_id r)) (task_view s k) (task_view s k)" for k
      by (cases "task_view s k") auto
    then show ?thesis by (simp add: tasks_closed_def)
  qed
  from store_inv_enqueue [OF inv _ this refl refl store_invD(1,3) [OF inv], of "?r\<lparr>run_input := ri\<rparr>"
      "?j\<lparr>job_payload := (job_payload ?j)\<lparr>jp_input := ji\<rparr>\<rparr>"] f n clean
  have "store_inv (put_job (?j\<lparr>job_payload := (job_payload ?j)\<lparr>jp_input := ji\<rparr>\<rparr>) (put_run (?r\<lparr>run_input := ri\<rparr>) s))"
    by (simp add: fresh_pair_def run_active_def)
  then show ?thesis by (simp add: s' store_inv_iff)
qed

lemma cancel_job_inv:
  assumes inv: "store_inv s" and c: "cancel_job C e w jid by reason s = Inr (s', x)"
  shows "store_inv s'"
proof (cases "s' = s")
  case False
  from c False obtain j r where j: "job_view s jid = Some j" and r: "run_view s (job_run j) = Some r"
    and st: "\<not> is_terminal r" "job_state j \<noteq> JobSucceeded" "job_state j \<noteq> JobFailed"
    and s': "if job_state j = JobRunning
      then s' = put_job (j\<lparr>job_canceled_by := Some (cancel_actor_subject j r by), job_canceled_reason := Some reason,
                         job_updated_at := clock e\<rparr>) s
      else finish_canceled C e j r (cancel_actor_subject j r by) reason cancel_before_execution_message s = Inr s'"
    by (auto simp: cancel_job_def lookup_views Let_def and_then_eq_Inr split: option.splits if_splits)
  have act: "job_active j" using st by (cases "job_state j") (auto simp: job_active_def)
  note c = store_invD [OF inv]
  have ids: "job_id j = jid" "run_id r = job_run j"
    using core_inv_job(1) [OF c(2) j(1)] core_inv_run(1) [OF c(2) r] by simp_all
  show ?thesis
  proof (cases "job_state j = JobRunning")
    case True
    let ?j = "j\<lparr>job_canceled_by := Some (cancel_actor_subject j r by), job_canceled_reason := Some reason,
                         job_updated_at := clock e\<rparr>"
    have "job_fits ?j (run_state r)" using core_inv_job(3) [OF c(2) j] r True by (auto simp: job_fits_def)
    then have "core_inv ((run_view s)(job_run j \<mapsto> r)) ((job_view s)(jid \<mapsto> ?j)) (task_view s)"
      using True ids active_job_run [OF c(2) j act r]
      by (intro core_inv_active [OF c(2) j act refl r]) (simp_all add: job_active_def)
    with True s' c ids r show ?thesis by (simp add: store_inv_iff fun_upd_idem)
  next
    case False
    with s' show ?thesis using finish_canceled_inv [OF inv j act r] by simp
  qed
qed (use inv in simp)

lemma run_view_mmap: "run_view (s\<lparr>sn_jobs := mmap f m, sn_tasks := mmap g n, sn_runs := mput i r (sn_runs s)\<rparr>) = (run_view s)(i \<mapsto> r)"
  by (simp add: run_view_def)

lemma cancel_run_inv:
  assumes inv: "store_inv s" and c: "cancel_run e rid reason s = Inr (s', r')"
  shows "store_inv s'"
proof -
  let ?f = "\<lambda>_ j. if job_run j \<noteq> rid \<or> job_state j \<noteq> JobQueued \<and> job_state j \<noteq> JobRunning then j
      else j\<lparr>job_state := JobFailed, job_lease_owner := '''', job_lease_expires_at := None, job_updated_at := clock e\<rparr>"
  let ?g = "\<lambda>_ t. if task_run t \<noteq> rid \<or> task_state t \<noteq> TaskPending then t else t\<lparr>task_state := TaskExpired\<rparr>"
  from c obtain r i ty p where r: "run_view s rid = Some r" and nt: "\<not> is_terminal r"
    and r': "run_id r' = run_id r" "run_state r' = RunCanceled"
    and s': "s' = append_event i ty p (clock e) (s\<lparr>sn_jobs := mmap ?f (sn_jobs s), sn_tasks := mmap ?g (sn_tasks s),
        sn_runs := mput rid r' (sn_runs s)\<rparr>)"
    by (auto simp: cancel_run_def lookup_views Let_def split: option.splits if_splits)
  note c = store_invD [OF inv]
  let ?s = "s\<lparr>sn_jobs := mmap ?f (sn_jobs s), sn_tasks := mmap ?g (sn_tasks s), sn_runs := mput rid r' (sn_runs s)\<rparr>"
  have jc: "jobs_closed rid (job_view s) (job_view ?s)"
    by (auto simp: jobs_closed_def job_view_def option.rel_map option_rel_Some1 job_closed_def job_active_def
        intro: option.rel_refl_strong split: option.splits)
  have tc: "tasks_closed rid (task_view s) (task_view ?s)"
    by (auto simp: tasks_closed_def task_view_def option.rel_map task_closed_def intro: option.rel_refl_strong)
  have "core_inv ((run_view s)(rid \<mapsto> r')) (job_view ?s) (task_view ?s)"
    using r' core_inv_run(1) [OF c(2) r] by (intro core_inv_close [OF c(2) r jc tc]) (simp_all add: run_active_def)
  moreover have "maps_ok ?s" "events_ok ?s" using c(1,3) by (simp_all add: maps_ok_def events_ok_def map_ok_mput)
  ultimately show ?thesis by (simp add: s' store_inv_iff run_view_mmap)
qed

text \<open>Rewriting the active job of a run and, possibly, the run: both stay active.\<close>

lemma store_inv_active:
  assumes inv: "store_inv s" and j: "job_view s k = Some j" "job_active j" and r: "run_view s (job_run j) = Some r"
    and j': "job_id j' = job_id j" "job_run j' = job_run j" "job_active j'" "job_fits j' (run_state r')"
    and r': "run_id r' = run_id r" "run_active r'"
  shows "store_inv (put_run r' (put_job j' s))" and "r' = r \<Longrightarrow> store_inv (put_job j' s)"
proof -
  note c = store_invD [OF inv]
  have ids: "job_id j = k" "run_id r = job_run j"
    using core_inv_job(1) [OF c(2) j(1)] core_inv_run(1) [OF c(2) r] by simp_all
  have "core_inv ((run_view s)(job_run j \<mapsto> r')) ((job_view s)(k \<mapsto> j')) (task_view s)"
    using j' r' ids by (intro core_inv_active [OF c(2) j refl r]) simp_all
  then show "store_inv (put_run r' (put_job j' s))" "r' = r \<Longrightarrow> store_inv (put_job j' s)"
    using c(1,3) j' r' r ids by (simp_all add: store_inv_iff fun_upd_idem)
qed

lemma requeue_expired_job_inv:
  assumes inv: "store_inv s" and q: "requeue_expired_job C e k s = Inr s'"
  shows "store_inv s'"
proof (cases "s' = s")
  case False
  from q False obtain j t where j: "job_view s k = Some j" "job_state j = JobRunning"
    and t: "job_lease_expires_at j = Some t" "\<not> clock e < t"
    by (auto simp: requeue_expired_job_def lookup_views split: option.splits if_splits)
  note c = store_invD [OF inv]
  obtain r where r: "run_view s (job_run j) = Some r" and fit: "job_fits j (run_state r)"
    using core_inv_job(3) [OF c(2) j(1)] by blast
  have act: "job_active j" using j by (simp add: job_active_def)
  have id: "job_id j = k" using core_inv_job(1) [OF c(2) j(1)] .
  show ?thesis
  proof (cases "job_canceled_by j")
    case (Some actor)
    with q j t r have "finish_canceled C e j r actor (canceled_reason_value j) cancel_worker_lost_message s = Inr s'"
      by (simp add: requeue_expired_job_def lookup_views)
    then show ?thesis by (rule finish_canceled_inv [OF inv j(1) act r])
  next
    case None
    let ?j = "j\<lparr>job_state := JobQueued, job_lease_owner := '''', job_lease_expires_at := None,
                        job_started_at := None, job_updated_at := clock e\<rparr>"
    have p: "s\<lparr>sn_jobs := mput k ?j (sn_jobs s)\<rparr> = put_job ?j s" by (simp add: put_job_def id)
    have "job_fits ?j (run_state r)" using fit j None by (auto simp: job_fits_def)
    then have "store_inv (put_job ?j s)"
      using active_job_run [OF c(2) j(1) act r]
      by (intro store_inv_active(2) [OF inv j(1) act r, where r' = r]) (simp_all add: job_active_def)
    then show ?thesis using q j t None
      by (auto simp: requeue_expired_job_def lookup_views p [unfolded lookup_views] store_inv_iff Let_def)
  qed
qed (use inv in simp)

lemma requeue_expired_jobs_inv: "store_inv s \<Longrightarrow> requeue_expired_jobs C e s = Inr s' \<Longrightarrow> store_inv s'"
  unfolding requeue_expired_jobs_def
  by (erule (1) fold_err_invariant) (rule requeue_expired_job_inv)

lemma claim_candidates_set:
  "set (claim_candidates tags labels s)
    = {j \<in> set (mvals (sn_jobs s)). job_state j = JobQueued \<and> claim_allowed j tags labels}"
  by (simp add: claim_candidates_def)

lemma claim_choice_mem:
  assumes "maps_ok s" and "claim_choice tags labels s = Some j"
  shows "\<exists>k. job_view s k = Some j" and "job_state j = JobQueued" and "claim_allowed j tags labels"
    and "\<not> max_concurrent_reached s j"
  using find_Some_mem [OF assms(2) [unfolded claim_choice_def]] mem_job_view [OF assms(1), of j]
  by (simp_all add: claim_candidates_set)

lemma start_run_inv:
  assumes inv: "store_inv s" and j: "job_view s k = Some j" "job_state j = JobQueued"
    and r: "run_view s (job_run j) = Some r"
  shows "store_inv (start_run e (start_job e w ttl j) (put_job (start_job e w ttl j) s))"
proof -
  let ?j = "start_job e w ttl j"
  note c = store_invD [OF inv]
  have act: "job_active j" using j by (simp add: job_active_def)
  have fit: "job_fits j (run_state r)" using core_inv_job(3) [OF c(2) j(1)] r by auto
  have rid: "run_id r = job_run j" by (rule core_inv_run(1) [OF c(2) r])
  have f: "job_fits ?j RunRunning" "job_active ?j" "job_id ?j = job_id j" "job_run ?j = job_run j"
    using fit by (auto simp: start_job_def job_fits_def job_active_def)
  have lk: "map_of (sn_runs (put_job ?j s)) (job_run ?j) = Some r"
    using r f by (simp add: lookup_views)
  show ?thesis
  proof (cases "run_state r = RunQueued \<or> run_state r = RunResuming")
    case True
    have "store_inv (put_run (r\<lparr>run_state := RunRunning, run_updated_at := clock e\<rparr>) (put_job ?j s))"
      using f by (intro store_inv_active(1) [OF inv j(1) act r]) (simp_all add: run_active_def)
    with True show ?thesis unfolding start_run_def lk by (simp add: Let_def store_inv_iff)
  next
    case False
    with fit j have "run_state r = RunRunning" by (auto simp: job_fits_def)
    then have "store_inv (put_job ?j s)"
      using f by (intro store_inv_active(2) [OF inv j(1) act r, where r' = r]) (simp_all add: run_active_def)
    with False show ?thesis unfolding start_run_def lk by simp
  qed
qed

lemma claim_job_Inr:
  assumes "claim_job_for_worker C e w tags labels ttl s = Inr (s', (j', l))"
  obtains s1 j ty p where "requeue_expired_jobs C e s = Inr s1"
    "claim_choice (normalize_claim_tags tags) (normalize_claim_tags labels) s1 = Some j" "job_id j \<noteq> ''''"
    "j' = start_job e (claim_worker_id e w) (lease_ttl ttl) j"
    "s' = append_event (job_run j) ty p (clock e) (start_run e j' (put_job j' s1))"
    "l = \<lparr>lease_job = job_id j, lease_worker = claim_worker_id e w, lease_expires_at = clock e + lease_ttl ttl,
          lease_attempt = job_attempt j + 1, lease_acquired_at = clock e\<rparr>"
  using assms by (auto simp: claim_job_for_worker_def and_then_eq_Inr Let_def start_job_def split: option.splits if_splits)

lemma claim_job_inv:
  assumes inv: "store_inv s" and c: "claim_job_for_worker C e w tags labels ttl s = Inr (s', x)"
  shows "store_inv s'"
proof -
  obtain j' l where x: "x = (j', l)" by (cases x)
  obtain s1 j ty p where q: "requeue_expired_jobs C e s = Inr s1"
    and ch: "claim_choice (normalize_claim_tags tags) (normalize_claim_tags labels) s1 = Some j"
    and j': "j' = start_job e (claim_worker_id e w) (lease_ttl ttl) j"
    and s': "s' = append_event (job_run j) ty p (clock e) (start_run e j' (put_job j' s1))"
    using c unfolding x by (rule claim_job_Inr)
  have inv1: "store_inv s1" by (rule requeue_expired_jobs_inv [OF inv q])
  note cm = claim_choice_mem [OF store_invD(1) [OF inv1] ch]
  from cm(1) obtain k where k: "job_view s1 k = Some j" by blast
  obtain r where r: "run_view s1 (job_run j) = Some r"
    using core_inv_job(3) [OF store_invD(2) [OF inv1] k] by blast
  have "store_inv (start_run e j' (put_job j' s1))"
    unfolding j' by (rule start_run_inv [OF inv1 k cm(2) r])
  then show ?thesis by (simp add: s' store_inv_iff)
qed

lemma heartbeat_job_inv:
  assumes inv: "store_inv s" and h: "heartbeat_job e l ttl s = Inr (s', x)"
  shows "store_inv s'"
proof (cases "s' = s")
  case False
  with h obtain j where j: "job_view s (lease_job l) = Some j" "job_state j = JobRunning"
    and s': "s' = put_job (j\<lparr>job_lease_expires_at := Some (clock e + lease_ttl ttl), job_updated_at := clock e\<rparr>) s"
    by (auto simp: heartbeat_job_def lookup_views Let_def split: option.splits if_splits)
  note c = store_invD [OF inv]
  obtain r where r: "run_view s (job_run j) = Some r" and fit: "job_fits j (run_state r)"
    using core_inv_job(3) [OF c(2) j(1)] by blast
  have act: "job_active j" using j by (simp add: job_active_def)
  have "job_fits (j\<lparr>job_lease_expires_at := Some (clock e + lease_ttl ttl), job_updated_at := clock e\<rparr>) (run_state r)"
    using fit j by (simp add: job_fits_def)
  then show ?thesis unfolding s'
    using active_job_run [OF c(2) j(1) act r] j
    by (intro store_inv_active(2) [OF inv j(1) act r, where r' = r]) (simp_all add: job_active_def)
qed (use inv in simp)

lemma enqueue_job_Inr:
  "enqueue_job C e r input = Inr (j, stored) \<Longrightarrow>
    queued_clean stored \<and> job_run stored = run_id r \<and> job_id stored = draw_id e ''job'' 0 \<and> job_id j = job_id stored"
  by (auto simp: enqueue_job_def and_then_eq_Inr Let_def queued_clean_def new_action_job_def)

definition fresh_job :: "call_env \<Rightarrow> snapshot \<Rightarrow> bool" where
  "fresh_job e s \<longleftrightarrow> job_view s (draw_id e ''job'' 0) = None \<and> draw_id e ''job'' 0 \<noteq> ''''"

lemma resume_human_task_Inr:
  assumes "resume_human_task C e tid input s = Inr (s', (r', j))"
  obtains t r stored ty p where "task_view s tid = Some t" "task_state t = TaskPending"
    "run_view s (task_run t) = Some r" "run_state r = RunWaitingHuman"
    "r' = r\<lparr>run_state := RunResuming, run_task := '''', run_updated_at := clock e\<rparr>"
    "json_valid (if raw_empty input then empty_object else input)"
    "\<exists>input'. enqueue_job C e r' input' = Inr (j, stored)"
    "s' = append_event (run_id r') ty p (clock e) (put_job stored (put_run r' (put_task
      (t\<lparr>task_state := TaskCompleted, task_resume_input := (if raw_empty input then empty_object else input),
         task_completed_at := Some (clock e)\<rparr>) s)))"
proof -
  let ?input = "if raw_empty input then empty_object else input"
  from assms obtain t r input' stored where "task_view s tid = Some t" "task_state t = TaskPending"
    "run_view s (task_run t) = Some r" "run_state r = RunWaitingHuman"
    "r' = r\<lparr>run_state := RunResuming, run_task := [], run_updated_at := clock e\<rparr>" "json_valid ?input"
    "enqueue_job C e r' input' = Inr (j, stored)"
    "s' = append_event (run_id r') ''human_task_resumed'' (event_payload (run_correlation r')
          [(''taskId'', JStr (task_id t)), (''jobId'', JStr (job_id j))]) (clock e) (put_job stored (put_run r' (put_task
      (t\<lparr>task_state := TaskCompleted, task_resume_input := ?input, task_completed_at := Some (clock e)\<rparr>) s)))"
    unfolding resume_human_task_def lookup_views Let_def
    by (auto simp: and_then_eq_Inr simp del: if_split split: option.splits if_split_asm)
  with that show thesis by blast
qed

lemma resume_human_task_inv:
  assumes inv: "store_inv s" and f: "fresh_job e s" and c: "resume_human_task C e tid input s = Inr (s', x)"
  shows "store_inv s'"
proof -
  obtain r' j where x: "x = (r', j)" by (cases x)
  obtain t r stored ty p input' where t: "task_view s tid = Some t" "task_state t = TaskPending"
    and r: "run_view s (task_run t) = Some r" "run_state r = RunWaitingHuman"
    and r': "r' = r\<lparr>run_state := RunResuming, run_task := '''', run_updated_at := clock e\<rparr>"
    and q: "enqueue_job C e r' input' = Inr (j, stored)"
    and s': "s' = append_event (run_id r') ty p (clock e) (put_job stored (put_run r' (put_task
      (t\<lparr>task_state := TaskCompleted, task_resume_input := (if raw_empty input then empty_object else input),
         task_completed_at := Some (clock e)\<rparr>) s)))"
    using c unfolding x by (rule resume_human_task_Inr) blast
  note cc = store_invD [OF inv] and en = enqueue_job_Inr [OF q]
  let ?t = "t\<lparr>task_state := TaskCompleted, task_resume_input := (if raw_empty input then empty_object else input),
         task_completed_at := Some (clock e)\<rparr>"
  have ids: "task_id t = tid" "run_id r = task_run t"
    using core_inv_task(1) [OF cc(2) t(1)] core_inv_run(1) [OF cc(2) r(1)] by simp_all
  have tc: "tasks_closed (task_run t) (task_view s) (task_view (put_task ?t s))"
  proof -
    have "rel_option (task_closed (task_run t)) (task_view s k) (task_view (put_task ?t s) k)" for k
    proof (cases "task_view s k")
      case None
      with t ids show ?thesis by auto
    next
      case (Some t2)
      show ?thesis
      proof (cases "k = tid")
        case True
        with Some t ids show ?thesis by (auto simp: task_closed_def)
      next
        case False
        then have "task_state t2 \<noteq> TaskPending" if "task_run t2 = task_run t"
          using pending_task_run(2) [OF cc(2) Some _, of r] pending_task_run(2) [OF cc(2) t r(1)] that r(1) by auto
        with False Some ids show ?thesis by (auto simp: task_closed_def)
      qed
    qed
    then show ?thesis by (simp add: tasks_closed_def)
  qed
  have "store_inv (put_job stored (put_run r' (put_task ?t s)))"
    using en f cc r ids
    by (intro store_inv_enqueue [OF inv _ tc]) (auto simp: r' run_active_def fresh_job_def)
  then show ?thesis by (simp add: s' store_inv_iff)
qed

lemma retry_run_Inr:
  assumes "retry_run C e rid s = Inr (s', (r', j))"
  obtains r stored ty p where "run_view s rid = Some r" "run_state r \<in> {RunFailed, RunCanceled, RunExpired}"
    "r' = r\<lparr>run_state := RunQueued, run_output := raw_nil, run_result := None, run_error := raw_nil,
                   run_task := '''', run_updated_at := clock e\<rparr>"
    "\<exists>input'. enqueue_job C e r' input' = Inr (j, stored)"
    "s' = append_event (run_id r') ty p (clock e) (put_job stored (put_run r' s))"
proof -
  from assms obtain r input' stored where "run_view s rid = Some r" "run_state r \<in> {RunFailed, RunCanceled, RunExpired}"
    "r' = r\<lparr>run_state := RunQueued, run_output := raw_nil, run_result := None, run_error := raw_nil,
                   run_task := [], run_updated_at := clock e\<rparr>"
    "enqueue_job C e r' input' = Inr (j, stored)"
    "s' = append_event (run_id r') ''run_retried'' (event_payload (run_correlation r')
                   [(''jobId'', JStr (job_id j))]) (clock e) (put_job stored (put_run r' s))"
    by (auto simp: retry_run_def lookup_views Let_def and_then_eq_Inr split: option.splits if_splits)
  with that show thesis by blast
qed

lemma retry_run_inv:
  assumes inv: "store_inv s" and f: "fresh_job e s" and c: "retry_run C e rid s = Inr (s', x)"
  shows "store_inv s'"
proof -
  obtain r' j where x: "x = (r', j)" by (cases x)
  obtain r stored ty p input' where r: "run_view s rid = Some r" "run_state r \<in> {RunFailed, RunCanceled, RunExpired}"
    and r': "r' = r\<lparr>run_state := RunQueued, run_output := raw_nil, run_result := None, run_error := raw_nil,
                   run_task := '''', run_updated_at := clock e\<rparr>"
    and q: "enqueue_job C e r' input' = Inr (j, stored)"
    and s': "s' = append_event (run_id r') ty p (clock e) (put_job stored (put_run r' s))"
    using c unfolding x by (rule retry_run_Inr) blast
  note cc = store_invD [OF inv] and en = enqueue_job_Inr [OF q]
  have id: "run_id r = rid" using core_inv_run(1) [OF cc(2) r(1)] .
  have tc: "tasks_closed rid (task_view s) (task_view s)"
    using r(2) by (intro tasks_closed_refl [OF cc(2) r(1)]) auto
  have "store_inv (put_job stored (put_run r' s))"
    using en f cc r id by (intro store_inv_enqueue [OF inv _ tc]) (auto simp: r' run_active_def fresh_job_def)
  then show ?thesis by (simp add: s' store_inv_iff)
qed

section \<open>Retention keeps the invariant\<close>

lemma expired_run_ids_settled:
  assumes "map_ok (sn_runs s)" and "i \<in> set (expired_run_ids so fo s)"
  shows "\<exists>r. run_view s i = Some r \<and> run_expired so fo r"
  using assms by (auto simp: expired_run_ids_def set_mkeys map_of_mfilter run_view_def split: option.splits if_splits)

lemma prune_settled_jobs_inv:
  assumes inv: "store_inv s" and p: "prune_settled_jobs so fo s = Inr (s', n)"
  shows "store_inv s'"
proof (cases "s' = s")
  case False
  let ?X = "set (expired_run_ids so fo s)"
  note c = store_invD [OF inv]
  have ok: "map_ok (sn_runs s)" "map_ok (sn_jobs s)" "map_ok (sn_tasks s)" using c(1) by (simp_all add: maps_ok_def)
  from p False obtain logs where s': "s' = s\<lparr>sn_jobs := mfilter (\<lambda>_ j. job_run j \<notin> ?X) (sn_jobs s), sn_logs := logs,
      sn_tasks := mfilter (\<lambda>_ t. task_run t \<notin> ?X) (sn_tasks s),
      sn_events := filter (\<lambda>ev. ev_run ev \<notin> ?X) (sn_events s), sn_runs := mfilter (\<lambda>i _. i \<notin> ?X) (sn_runs s)\<rparr>"
    by (auto simp: prune_settled_jobs_def Let_def split: if_splits)
  have "core_inv (run_view s') (job_view s') (task_view s')"
    by (rule core_inv_prune [OF c(2), where X = "?X"])
      (auto simp: s' run_view_def job_view_def task_view_def map_of_mfilter ok split: option.splits)
  moreover have "maps_ok s'" using ok by (simp add: s' maps_ok_def map_ok_mfilter)
  moreover have "events_ok s'"
    using c(3) by (auto simp: s' events_ok_def sorted_wrt_map sorted_wrt_filter)
  ultimately show ?thesis by (simp add: store_inv_iff)
qed (use inv in simp)

lemma expire_stuck_run_inv:
  assumes inv: "store_inv s" and x: "expire_stuck_run ft e before i (s, n) = (s', n')"
  shows "store_inv s'"
proof (cases "s' = s")
  case False
  let ?f = "\<lambda>_ j. if job_run j \<noteq> i \<or> job_state j = JobSucceeded \<or> job_state j = JobFailed then j
     else j\<lparr>job_state := JobFailed, job_canceled_reason := Some (stuck_reason ft before), job_updated_at := clock e\<rparr>"
  from x False obtain r where r: "run_view s i = Some r" and act: "run_active r"
    and s': "s' = s\<lparr>sn_runs := mput i (r\<lparr>run_state := RunExpired, run_updated_at := clock e\<rparr>) (sn_runs s),
        sn_jobs := mmap ?f (sn_jobs s)\<rparr>"
    by (auto simp: expire_stuck_run_def lookup_views run_active_def split: option.splits if_splits)
  note c = store_invD [OF inv]
  have nact: "\<not> job_active j \<longleftrightarrow> job_state j = JobSucceeded \<or> job_state j = JobFailed" for j
    by (cases "job_state j") (auto simp: job_active_def)
  have "job_closed i j (?f k j)" for j k
    using nact [of j] by (auto simp: job_closed_def) (auto simp: job_active_def)
  then have "rel_option (job_closed i) (job_view s k) (job_view s' k)" for k
    by (cases "job_view s k") (auto simp: s' job_view_def)
  then have jc: "jobs_closed i (job_view s) (job_view s')" by (simp add: jobs_closed_def)
  have tc: "tasks_closed i (task_view s) (task_view s)"
    using act by (intro tasks_closed_refl [OF c(2) r]) (auto simp: run_active_def)
  have "core_inv ((run_view s)(i \<mapsto> r\<lparr>run_state := RunExpired, run_updated_at := clock e\<rparr>)) (job_view s') (task_view s)"
    using core_inv_run(1) [OF c(2) r] by (intro core_inv_close [OF c(2) r jc tc]) (simp_all add: run_active_def)
  moreover have "maps_ok s'" "events_ok s'" using c(1,3) by (simp_all add: s' maps_ok_def events_ok_def map_ok_mput)
  ultimately show ?thesis by (simp add: s' store_inv_iff run_view_def task_view_def)
qed (use inv in simp)

lemma expire_stuck_jobs_inv:
  assumes "store_inv s" and "expire_stuck_jobs ft e before s = Inr (s', n)"
  shows "store_inv s'"
proof -
  have "store_inv (fst (fold (expire_stuck_run ft e before) is (s, m)))" if "store_inv s" for "is" s m
    using that
  proof (induction "is" arbitrary: s m)
    case (Cons i "is")
    then show ?case
      using expire_stuck_run_inv [OF Cons.prems] by (cases "expire_stuck_run ft e before i (s, m)") auto
  qed simp
  with assms show ?thesis by (metis expire_stuck_jobs_def fst_conv sum.inject(2))
qed

text \<open>Rewriting every job without touching what the invariant reads.\<close>

lemma core_inv_jobs_same:
  assumes inv: "core_inv R J T"
    and J': "\<And>k. J' k = map_option (f k) (J k)"
    and f: "\<And>k j. J k = Some j \<Longrightarrow> job_id (f k j) = job_id j \<and> job_run (f k j) = job_run j \<and> job_state (f k j) = job_state j
      \<and> (\<forall>st. job_fits (f k j) st = job_fits j st)"
  shows "core_inv R J' T"
proof (rule core_invI)
  have act: "job_active (f k j) = job_active j" if "J k = Some j" for k j
    using f [OF that] by (simp add: job_active_def)
  show "jobs_inv R J'"
    unfolding jobs_inv_def
  proof (intro allI impI)
    fix k j' assume "J' k = Some j'"
    then obtain j where j: "J k = Some j" "j' = f k j" by (auto simp: J')
    from core_inv_job [OF inv j(1)] f [OF j(1)] j(2)
    show "job_id j' = k \<and> k \<noteq> '''' \<and> (\<exists>r. R (job_run j') = Some r \<and> job_fits j' (run_state r))" by auto
  qed
  show "runs_inv R J' T"
    unfolding runs_inv_def
  proof (intro allI impI)
    fix i r assume "R i = Some r"
    note C = core_inv_run [OF inv this]
    have "\<exists>k j. J' k = Some j \<and> job_run j = i \<and> job_active j" if "run_active r"
      using C(2) [OF that] f act by (auto simp: J') (metis option.simps(9))
    with C show "run_id r = i \<and> (run_active r \<longrightarrow> (\<exists>k j. J' k = Some j \<and> job_run j = i \<and> job_active j))
      \<and> (run_state r = RunWaitingHuman \<longrightarrow> (\<exists>t. T (run_task r) = Some t \<and> task_run t = i \<and> task_state t = TaskPending))"
      by blast
  qed
  show "single_job J'"
    unfolding single_job_def
  proof (intro allI impI)
    fix k k' j j' assume a: "J' k = Some j" "J' k' = Some j'" "job_run j = job_run j'" "job_active j" "job_active j'"
    then obtain x x' where x: "J k = Some x" "j = f k x" "J k' = Some x'" "j' = f k' x'" by (auto simp: J')
    show "k = k'" using core_inv_single [OF inv x(1,3)] a x f act by metis
  qed
  show "tasks_inv R T" using inv by (simp add: core_inv_def)
qed

lemma requeue_queued_jobs_inv:
  assumes inv: "store_inv s" and q: "requeue_queued_jobs_for_app e spec s = Inr (s', n)"
  shows "store_inv s'"
proof -
  from q obtain moves where s': "s' = s\<lparr>sn_jobs := mmap (\<lambda>_ j. case moves j of None \<Rightarrow> j
      | Some tag \<Rightarrow> j\<lparr>job_payload := (job_payload j)\<lparr>jp_tag := tag\<rparr>, job_updated_at := clock e\<rparr>) (sn_jobs s)\<rparr>"
    by (auto simp: requeue_queued_jobs_for_app_def Let_def)
  note c = store_invD [OF inv]
  have "core_inv (run_view s) (job_view s') (task_view s)"
    by (rule core_inv_jobs_same [OF c(2), where f = "\<lambda>_ j. case moves j of None \<Rightarrow> j
      | Some tag \<Rightarrow> j\<lparr>job_payload := (job_payload j)\<lparr>jp_tag := tag\<rparr>, job_updated_at := clock e\<rparr>"])
      (auto simp: s' job_view_def job_fits_def split: option.splits)
  then show ?thesis using c(1,3) by (simp add: s' store_inv_iff run_view_def task_view_def maps_ok_def events_ok_def)
qed

end
