(* ===== verification/Transitions.thy ===== *)
theory Transitions
  imports Main
begin

text \<open>
  What the development's state machines share. \<open>reachable start step\<close> holds of the states a machine
  can be in after any number of steps. A machine with an inductive invariant is an instance of
  \<open>inductive_invariant\<close>; one whose steps are steps of an abstract machine, seen through an
  abstraction function, is an instance of \<open>simulation\<close>.
\<close>

inductive reachable :: "('s \<Rightarrow> bool) \<Rightarrow> ('s \<Rightarrow> 's \<Rightarrow> bool) \<Rightarrow> 's \<Rightarrow> bool" for start step where
  reachable_start: "start s \<Longrightarrow> reachable start step s"
| reachable_step: "reachable start step s \<Longrightarrow> step s t \<Longrightarrow> reachable start step t"

locale inductive_invariant =
  fixes start :: "'s \<Rightarrow> bool"
    and step :: "'s \<Rightarrow> 's \<Rightarrow> bool"
    and good :: "'s \<Rightarrow> bool"
  assumes start_good: "start s \<Longrightarrow> good s"
    and step_good: "good s \<Longrightarrow> step s t \<Longrightarrow> good t"
begin

lemma reachable_good: "reachable start step s \<Longrightarrow> good s"
  by (induction rule: reachable.induct) (auto intro: start_good step_good)

lemma later_good: "good s \<Longrightarrow> step\<^sup>*\<^sup>* s t \<Longrightarrow> good t"
  by (rotate_tac, induction rule: rtranclp_induct) (auto intro: step_good)

lemma reachable_later: "reachable start step s \<Longrightarrow> step\<^sup>*\<^sup>* s t \<Longrightarrow> reachable start step t"
  by (rotate_tac, induction rule: rtranclp_induct) (auto intro: reachable_step)

text \<open>What one step from a good state does not undo, no number of steps undoes.\<close>

lemma stable_later:
  assumes "\<And>s t. good s \<Longrightarrow> step s t \<Longrightarrow> P s \<Longrightarrow> P t" and "good s" and "P s" and "step\<^sup>*\<^sup>* s t"
  shows "P t"
  using assms(4,3,2)
proof (induction rule: rtranclp_induct)
  case (step t u)
  then show ?case using assms(1) later_good by blast
qed simp

text \<open>A quantity no step from a good state lowers.\<close>

lemma monotone_later:
  assumes "\<And>s t. good s \<Longrightarrow> step s t \<Longrightarrow> m s \<le> (m t :: 'b::order)" and "good s" and "step\<^sup>*\<^sup>* s t"
  shows "m s \<le> m t"
  using assms(3,2)
proof (induction rule: rtranclp_induct)
  case (step t u)
  then show ?case using assms(1) [OF later_good [OF step.prems step.hyps(1)] step.hyps(2)] by (auto intro: order_trans)
qed simp

end

locale simulation = inductive_invariant +
  fixes view :: "'s \<Rightarrow> 'a"
    and astep :: "'a \<Rightarrow> 'a \<Rightarrow> bool"
  assumes step_view: "good s \<Longrightarrow> step s t \<Longrightarrow> astep\<^sup>*\<^sup>* (view s) (view t)"
begin

lemma later_view: "good s \<Longrightarrow> step\<^sup>*\<^sup>* s t \<Longrightarrow> astep\<^sup>*\<^sup>* (view s) (view t)"
proof (rotate_tac, induction rule: rtranclp_induct)
  case (step t u)
  then show ?case using step_view [OF later_good [OF step.prems step.hyps(1)] step.hyps(2)] by auto
qed simp

end

end
