(* ===== verification/Store_Machine.thy ===== *)
theory Store_Machine
  imports Job_Lifecycle Transitions
begin

text \<open>
  The store as a state machine. \<open>store_step C\<close> has one rule per operation of \<^verbatim>\<open>LocalStore\<close> that
  writes runs, jobs or tasks, and one for every other write, which leaves them as they are and may
  change the order in which a \<^verbatim>\<open>range\<close> loop sees a map. The machine keeps \<open>store_inv\<close>, and seen run by
  run and job by job every operation moves along the edges that \<open>run_edge\<close> and \<open>job_edge\<close> give it.
\<close>

section \<open>The steps\<close>

definition same_work :: "snapshot \<Rightarrow> snapshot \<Rightarrow> bool" where
  "same_work s t \<longleftrightarrow> run_view t = run_view s \<and> job_view t = job_view s \<and> task_view t = task_view s
     \<and> maps_ok t \<and> sn_events t = sn_events s \<and> sn_sequence t = sn_sequence s"

inductive store_step :: "input_crypto \<Rightarrow> snapshot \<Rightarrow> snapshot \<Rightarrow> bool" for C where
  step_create: "local_create_run C e r j s = Inr (t, u) \<Longrightarrow> fresh_pair r j \<Longrightarrow> store_step C s t"
| step_cancel_job: "local_cancel_job C e w jid by_whom reason s = Inr (t, res) \<Longrightarrow> store_step C s t"
| step_cancel_run: "local_cancel_run e rid reason s = Inr (t, r) \<Longrightarrow> store_step C s t"
| step_claim: "local_claim_job C e worker tags labels ttl s = Inr (t, x) \<Longrightarrow> store_step C s t"
| step_heartbeat: "local_heartbeat_job e l ttl s = Inr (t, h) \<Longrightarrow> store_step C s t"
| step_succeeded: "local_complete_succeeded C e l res s = Inr (t, u) \<Longrightarrow> store_step C s t"
| step_failed: "local_complete_failed C e l res s = Inr (t, u) \<Longrightarrow> store_step C s t"
| step_waiting: "local_complete_waiting_human C e l res task s = Inr (t, u) \<Longrightarrow> task_report_ok s l task
    \<Longrightarrow> store_step C s t"
| step_resume: "local_resume_human_task C e tid input s = Inr (t, x) \<Longrightarrow> fresh_job e s \<Longrightarrow> store_step C s t"
| step_retry: "local_retry_run C e rid s = Inr (t, x) \<Longrightarrow> fresh_job e s \<Longrightarrow> store_step C s t"
| step_prune: "local_prune_settled_jobs e so fo s = Inr (t, n) \<Longrightarrow> store_step C s t"
| step_expire: "local_expire_stuck_jobs ft e before s = Inr (t, n) \<Longrightarrow> store_step C s t"
| step_move_tags: "update e (requeue_queued_jobs_for_app e spec) s = Inr (t, n) \<Longrightarrow> store_step C s t"
| step_other: "same_work s t \<Longrightarrow> store_step C s t"

inductive_cases store_stepE: "store_step C s t"

definition store_start :: "snapshot \<Rightarrow> bool" where
  "store_start s \<longleftrightarrow> (\<exists>e. s = new_snapshot e)"

text \<open>What an operation leaves is what its body leaves, up to what loading fills in.\<close>

lemma local_step:
  assumes "update e f s = Inr (t, x)"
  obtains t' where "f (ensure_snapshot e s) = Inr (t', x)" "t = ensure_snapshot e t'"
  using assms by (auto simp: update_Inr)

lemma local_step_inv:
  assumes inv: "store_inv s" and u: "update e f s = Inr (t, x)"
    and f: "\<And>t'. store_inv (ensure_snapshot e s) \<Longrightarrow> f (ensure_snapshot e s) = Inr (t', x) \<Longrightarrow> store_inv t'"
  shows "store_inv t"
  using u by (rule local_step) (use inv f in simp)

lemma fresh_job_ensure [simp]: "fresh_job e (ensure_snapshot e' s) = fresh_job e s"
  by (simp add: fresh_job_def)

lemma task_report_ensure [simp]: "task_report_ok (ensure_snapshot e s) l x = task_report_ok s l x"
  by (simp add: task_report_ok_def)

lemmas local_ops = local_create_run_def local_cancel_job_def local_cancel_run_def local_claim_job_def
  local_heartbeat_job_def local_complete_succeeded_def local_complete_failed_def
  local_complete_waiting_human_def local_resume_human_task_def local_retry_run_def
  local_prune_settled_jobs_def local_expire_stuck_jobs_def

lemma store_step_inv:
  assumes inv: "store_inv s" and step: "store_step C s t"
  shows "store_inv t"
  using step
proof cases
  case (step_create e r j u)
  then show ?thesis unfolding local_ops by (elim local_step_inv [OF inv] create_run_inv)
next
  case (step_cancel_job e w jid by_whom reason res)
  then show ?thesis unfolding local_ops by (elim local_step_inv [OF inv] cancel_job_inv)
next
  case (step_cancel_run e rid reason r)
  then show ?thesis unfolding local_ops by (elim local_step_inv [OF inv] cancel_run_inv)
next
  case (step_claim e worker tags labels ttl x)
  then show ?thesis unfolding local_ops by (elim local_step_inv [OF inv] claim_job_inv)
next
  case (step_heartbeat e l ttl h)
  then show ?thesis unfolding local_ops by (elim local_step_inv [OF inv] heartbeat_job_inv)
next
  case (step_succeeded e l res u)
  then show ?thesis unfolding local_ops by (elim local_step_inv [OF inv] complete_job_succeeded_inv)
next
  case (step_failed e l res u)
  then show ?thesis unfolding local_ops by (elim local_step_inv [OF inv] complete_job_failed_inv)
next
  case (step_waiting e l res task u)
  then show ?thesis unfolding local_ops by (elim local_step_inv [OF inv] complete_job_waiting_human_inv) simp_all
next
  case (step_resume e tid input x)
  then show ?thesis unfolding local_ops by (elim local_step_inv [OF inv] resume_human_task_inv) simp_all
next
  case (step_retry e rid x)
  then show ?thesis unfolding local_ops by (elim local_step_inv [OF inv] retry_run_inv) simp_all
next
  case (step_prune e so fo n)
  then show ?thesis unfolding local_ops by (elim local_step_inv [OF inv] prune_settled_jobs_inv)
next
  case (step_expire ft e before n)
  then show ?thesis unfolding local_ops by (elim local_step_inv [OF inv] expire_stuck_jobs_inv)
next
  case (step_move_tags e spec n)
  then show ?thesis by (elim local_step_inv [OF inv] requeue_queued_jobs_inv)
next
  case step_other
  with inv show ?thesis by (auto simp: store_inv_iff same_work_def events_ok_def)
qed

lemma store_start_inv: "store_start s \<Longrightarrow> store_inv s"
  using store_inv_empty by (auto simp: store_start_def new_snapshot_def)

section \<open>The automata of a run and of a job\<close>

text \<open>The operations, and the edges each of them may move a run along; \<open>None\<close> is a run that does not
exist. A claim first returns expired leases to the queue, which settles the runs whose cancellation was
requested while they ran; a completion under a lease of such a run settles it as canceled too.\<close>

datatype store_op = OpCreate | OpCancelJob | OpCancelRun | OpClaim | OpHeartbeat | OpSucceeded | OpFailed
  | OpWaitingHuman | OpResume | OpRetry | OpPrune | OpExpire | OpMoveTags | OpOther

fun run_edge :: "store_op \<Rightarrow> run_state option \<Rightarrow> run_state option \<Rightarrow> bool" where
  "run_edge OpCreate a b = (a = None \<and> b = Some RunQueued)"
| "run_edge OpCancelJob a b = (a \<in> Some ` {RunQueued, RunResuming, RunRunning} \<and> b = Some RunCanceled)"
| "run_edge OpCancelRun a b
    = (a \<in> Some ` {RunQueued, RunResuming, RunRunning, RunWaitingHuman} \<and> b = Some RunCanceled)"
| "run_edge OpClaim a b = (a \<in> Some ` {RunQueued, RunResuming} \<and> b = Some RunRunning
    \<or> a = Some RunRunning \<and> b = Some RunCanceled)"
| "run_edge OpSucceeded a b = (a = Some RunRunning \<and> b \<in> Some ` {RunSucceeded, RunCanceled})"
| "run_edge OpFailed a b = (a = Some RunRunning \<and> b \<in> Some ` {RunFailed, RunCanceled})"
| "run_edge OpWaitingHuman a b = (a = Some RunRunning \<and> b \<in> Some ` {RunWaitingHuman, RunCanceled})"
| "run_edge OpResume a b = (a = Some RunWaitingHuman \<and> b = Some RunResuming)"
| "run_edge OpRetry a b = (a \<in> Some ` {RunFailed, RunCanceled, RunExpired} \<and> b = Some RunQueued)"
| "run_edge OpPrune a b = (a \<in> Some ` {RunSucceeded, RunFailed, RunCanceled, RunExpired} \<and> b = None)"
| "run_edge OpExpire a b = (a \<in> Some ` {RunQueued, RunResuming, RunRunning} \<and> b = Some RunExpired)"
| "run_edge _ a b = False"

text \<open>A job by its state and its attempt, the fencing token of its lease. Only a claim counts the
attempt up, by one; the claim may take the job whose expired lease it has just returned to the queue.\<close>

definition job_edge :: "store_op \<Rightarrow> (job_state \<times> int) option \<Rightarrow> (job_state \<times> int) option \<Rightarrow> bool" where
  "job_edge op a b \<longleftrightarrow> (\<exists>n. case op of
      OpClaim \<Rightarrow> a = Some (JobQueued, n) \<and> b = Some (JobRunning, n + 1)
        \<or> a = Some (JobRunning, n) \<and> b \<in> Some ` {(JobQueued, n), (JobRunning, n + 1), (JobFailed, n)}
    | OpCancelJob \<Rightarrow> a = Some (JobQueued, n) \<and> b = Some (JobFailed, n)
    | OpSucceeded \<Rightarrow> a = Some (JobRunning, n) \<and> b \<in> Some ` {(JobSucceeded, n), (JobFailed, n)}
    | OpFailed \<Rightarrow> a = Some (JobRunning, n) \<and> b = Some (JobFailed, n)
    | OpWaitingHuman \<Rightarrow> a = Some (JobRunning, n) \<and> b \<in> Some ` {(JobSucceeded, n), (JobFailed, n)}
    | OpPrune \<Rightarrow> a \<in> Some ` {(JobSucceeded, n), (JobFailed, n)} \<and> b = None
    | _ \<Rightarrow> if op \<in> {OpCreate, OpResume, OpRetry} then a = None \<and> b = Some (JobQueued, 0)
        else op \<in> {OpCancelRun, OpExpire} \<and> a \<in> Some ` {(JobQueued, n), (JobRunning, n)} \<and> b = Some (JobFailed, n))"

lemma job_edge_simps [simp]:
  "job_edge OpCreate a b \<longleftrightarrow> a = None \<and> b = Some (JobQueued, 0)"
  "job_edge OpResume a b \<longleftrightarrow> a = None \<and> b = Some (JobQueued, 0)"
  "job_edge OpRetry a b \<longleftrightarrow> a = None \<and> b = Some (JobQueued, 0)"
  "job_edge OpCancelRun a b \<longleftrightarrow> (\<exists>n. a \<in> Some ` {(JobQueued, n), (JobRunning, n)} \<and> b = Some (JobFailed, n))"
  "job_edge OpExpire a b \<longleftrightarrow> (\<exists>n. a \<in> Some ` {(JobQueued, n), (JobRunning, n)} \<and> b = Some (JobFailed, n))"
  "job_edge OpCancelJob a b \<longleftrightarrow> (\<exists>n. a = Some (JobQueued, n) \<and> b = Some (JobFailed, n))"
  "job_edge OpClaim a b \<longleftrightarrow> (\<exists>n. a = Some (JobQueued, n) \<and> b = Some (JobRunning, n + 1)
     \<or> a = Some (JobRunning, n) \<and> b \<in> Some ` {(JobQueued, n), (JobRunning, n + 1), (JobFailed, n)})"
  "job_edge OpSucceeded a b \<longleftrightarrow> (\<exists>n. a = Some (JobRunning, n) \<and> b \<in> Some ` {(JobSucceeded, n), (JobFailed, n)})"
  "job_edge OpFailed a b \<longleftrightarrow> (\<exists>n. a = Some (JobRunning, n) \<and> b = Some (JobFailed, n))"
  "job_edge OpWaitingHuman a b \<longleftrightarrow> (\<exists>n. a = Some (JobRunning, n) \<and> b \<in> Some ` {(JobSucceeded, n), (JobFailed, n)})"
  "job_edge OpPrune a b \<longleftrightarrow> (\<exists>n. a \<in> Some ` {(JobSucceeded, n), (JobFailed, n)} \<and> b = None)"
  by (simp_all add: job_edge_def)

text \<open>The step of one operation. \<open>OpOther\<close> is every write that leaves runs, jobs and tasks as they are.\<close>

fun op_step :: "input_crypto \<Rightarrow> store_op \<Rightarrow> snapshot \<Rightarrow> snapshot \<Rightarrow> bool" where
  "op_step C OpCreate s t = (\<exists>e r j u. local_create_run C e r j s = Inr (t, u) \<and> fresh_pair r j)"
| "op_step C OpCancelJob s t = (\<exists>e w jid by_whom reason x. local_cancel_job C e w jid by_whom reason s = Inr (t, x))"
| "op_step C OpCancelRun s t = (\<exists>e rid reason r. local_cancel_run e rid reason s = Inr (t, r))"
| "op_step C OpClaim s t = (\<exists>e worker tags labels ttl x. local_claim_job C e worker tags labels ttl s = Inr (t, x))"
| "op_step C OpHeartbeat s t = (\<exists>e l ttl h. local_heartbeat_job e l ttl s = Inr (t, h))"
| "op_step C OpSucceeded s t = (\<exists>e l res u. local_complete_succeeded C e l res s = Inr (t, u))"
| "op_step C OpFailed s t = (\<exists>e l res u. local_complete_failed C e l res s = Inr (t, u))"
| "op_step C OpWaitingHuman s t
    = (\<exists>e l res task u. local_complete_waiting_human C e l res task s = Inr (t, u) \<and> task_report_ok s l task)"
| "op_step C OpResume s t = (\<exists>e tid input x. local_resume_human_task C e tid input s = Inr (t, x) \<and> fresh_job e s)"
| "op_step C OpRetry s t = (\<exists>e rid x. local_retry_run C e rid s = Inr (t, x) \<and> fresh_job e s)"
| "op_step C OpPrune s t = (\<exists>e so fo n. local_prune_settled_jobs e so fo s = Inr (t, n))"
| "op_step C OpExpire s t = (\<exists>ft e before n. local_expire_stuck_jobs ft e before s = Inr (t, n))"
| "op_step C OpMoveTags s t = (\<exists>e spec n. update e (requeue_queued_jobs_for_app e spec) s = Inr (t, n))"
| "op_step C OpOther s t = same_work s t"

lemma store_step_op: "store_step C s t \<longleftrightarrow> (\<exists>op. op_step C op s t)"
proof
  assume "store_step C s t"
  then show "\<exists>op. op_step C op s t"
    by cases (metis op_step.simps)+
next
  assume "\<exists>op. op_step C op s t"
  then obtain op where "op_step C op s t" ..
  then show "store_step C s t"
    by (cases op) (auto intro: store_step.intros)
qed

definition run_states :: "snapshot \<Rightarrow> string \<rightharpoonup> run_state" where
  "run_states s = (\<lambda>i. map_option run_state (run_view s i))"

definition job_stages :: "snapshot \<Rightarrow> string \<rightharpoonup> job_state \<times> int" where
  "job_stages s = (\<lambda>k. map_option (\<lambda>j. (job_state j, job_attempt j)) (job_view s k))"

definition stages :: "snapshot \<Rightarrow> (string \<rightharpoonup> run_state) \<times> (string \<rightharpoonup> job_state \<times> int)" where
  "stages s = (run_states s, job_stages s)"

text \<open>Every run stays as it is or moves along an edge of \<open>E\<close>, every job along an edge of \<open>F\<close>.\<close>

definition along :: "(run_state option \<Rightarrow> run_state option \<Rightarrow> bool) \<Rightarrow>
    ((job_state \<times> int) option \<Rightarrow> (job_state \<times> int) option \<Rightarrow> bool) \<Rightarrow>
    (string \<rightharpoonup> run_state) \<times> (string \<rightharpoonup> job_state \<times> int) \<Rightarrow>
    (string \<rightharpoonup> run_state) \<times> (string \<rightharpoonup> job_state \<times> int) \<Rightarrow> bool" where
  "along E F a b \<longleftrightarrow> (\<forall>i. fst a i = fst b i \<or> E (fst a i) (fst b i)) \<and> (\<forall>k. snd a k = snd b k \<or> F (snd a k) (snd b k))"

abbreviation moves :: "store_op \<Rightarrow> (string \<rightharpoonup> run_state) \<times> (string \<rightharpoonup> job_state \<times> int) \<Rightarrow>
    (string \<rightharpoonup> run_state) \<times> (string \<rightharpoonup> job_state \<times> int) \<Rightarrow> bool" where
  "moves op \<equiv> along (run_edge op) (job_edge op)"

definition moves_on :: "(string \<rightharpoonup> run_state) \<times> (string \<rightharpoonup> job_state \<times> int) \<Rightarrow>
    (string \<rightharpoonup> run_state) \<times> (string \<rightharpoonup> job_state \<times> int) \<Rightarrow> bool" where
  "moves_on a b \<longleftrightarrow> (\<exists>op. moves op a b)"

lemma along_refl [simp]: "along E F a a"
  by (simp add: along_def)

text \<open>Edges that do not follow one another are taken once, however often the step is.\<close>

lemma along_trans:
  assumes "\<And>x y z. E x y \<Longrightarrow> \<not> E y z" and "\<And>x y z. F x y \<Longrightarrow> \<not> F y z"
    and "along E F a b" and "along E F b c"
  shows "along E F a c"
  using assms unfolding along_def by metis

lemma along_upd:
  assumes "E (A i) x \<or> A i = x" and "F (J k) y \<or> J k = y"
  shows "along E F (A, J) (A(i := x), J(k := y))"
  using assms by (auto simp: along_def)

lemma stages_put [simp]:
  "run_states (put_run r s) = (run_states s)(run_id r \<mapsto> run_state r)"
  "job_stages (put_run r s) = job_stages s"
  "run_states (put_job j s) = run_states s"
  "job_stages (put_job j s) = (job_stages s)(job_id j \<mapsto> (job_state j, job_attempt j))"
  "run_states (put_task t s) = run_states s" "job_stages (put_task t s) = job_stages s"
  "run_states (append_event i ty p now s) = run_states s" "job_stages (append_event i ty p now s) = job_stages s"
  "run_states (ensure_snapshot e s) = run_states s" "job_stages (ensure_snapshot e s) = job_stages s"
  by (auto simp: run_states_def job_stages_def)

lemma stages_ensure [simp]: "stages (ensure_snapshot e s) = stages s"
  by (simp add: stages_def)

lemma run_states_Some: "run_view s i = Some r \<Longrightarrow> run_states s i = Some (run_state r)"
  by (simp add: run_states_def)

lemma job_stages_Some: "job_view s k = Some j \<Longrightarrow> job_stages s k = Some (job_state j, job_attempt j)"
  by (simp add: job_stages_def)

lemma encrypt_stored_stages:
  assumes "store_inv s" and "encrypt_stored_run_result C e w i s = Inr t"
  shows "stages t = stages s"
  using encrypt_stored_run_result_inv [OF assms] by (simp add: stages_def run_states_def job_stages_def)

lemma apply_canceled_stages:
  "run_states (apply_canceled_job j r by reason m now s) = (run_states s)(run_id r \<mapsto> RunCanceled)"
  "job_stages (apply_canceled_job j r by reason m now s) = (job_stages s)(job_id j \<mapsto> (JobFailed, job_attempt j))"
  by (auto simp: run_states_def job_stages_def apply_canceled_views)

lemma run_active_cases: "run_active r \<longleftrightarrow> run_state r \<in> {RunQueued, RunRunning, RunResuming}"
  by (auto simp: run_active_def)

lemma finish_canceled_moves:
  assumes inv: "store_inv s" and j: "job_view s k = Some j" "job_active j" and r: "run_view s (job_run j) = Some r"
    and f: "finish_canceled C e j r by reason m s = Inr t"
    and E: "run_state r \<in> {RunQueued, RunResuming, RunRunning} \<Longrightarrow> E (Some (run_state r)) (Some RunCanceled)"
    and F: "F (Some (job_state j, job_attempt j)) (Some (JobFailed, job_attempt j))"
  shows "along E F (stages s) (stages t)"
proof -
  note c = store_invD [OF inv]
  have ids: "job_id j = k" "run_id r = job_run j"
    using core_inv_job(1) [OF c(2) j(1)] core_inv_run(1) [OF c(2) r] by simp_all
  have "stages t = stages (apply_canceled_job j r by reason m (clock e) s)"
    using f by (intro encrypt_stored_stages [OF apply_canceled_inv [OF inv j r]]) (simp add: finish_canceled_def)
  also have "along E F (stages s) \<dots>"
    using active_job_run [OF c(2) j r] F unfolding stages_def apply_canceled_stages ids
    by (intro along_upd) (auto simp: run_states_Some [OF r] job_stages_Some [OF j(1)] run_active_cases intro: E)
  finally show ?thesis .
qed

text \<open>The active job of a run and the run move together.\<close>

lemma put_moves:
  assumes inv: "store_inv s" and j: "job_view s k = Some j" and r: "run_view s (job_run j) = Some r"
    and ids: "job_id j' = job_id j" "run_id r' = run_id r"
    and m: "E (Some (run_state r)) (Some (run_state r')) \<or> run_state r = run_state r'"
      "F (Some (job_state j, job_attempt j)) (Some (job_state j', job_attempt j'))
       \<or> (job_state j, job_attempt j) = (job_state j', job_attempt j')"
    and t: "run_states t = (run_states s)(run_id r' \<mapsto> run_state r')"
      "job_stages t = (job_stages s)(job_id j' \<mapsto> (job_state j', job_attempt j'))"
  shows "along E F (stages s) (stages t)"
proof -
  note c = store_invD [OF inv]
  have "job_id j' = k" "run_id r' = job_run j"
    using ids core_inv_job(1) [OF c(2) j] core_inv_run(1) [OF c(2) r] by simp_all
  then show ?thesis using m unfolding stages_def t
    by (intro along_upd) (auto simp: run_states_Some [OF r] job_stages_Some [OF j])
qed

text \<open>A new job of a run, whether the run is new or settled before.\<close>

lemma enqueue_moves:
  assumes "run_edge op (run_states s (run_id r)) (Some (run_state r))" and "job_view s (job_id j) = None" and "queued_clean j"
    and t: "run_states t = (run_states s)(run_id r \<mapsto> run_state r)"
      "job_stages t = (job_stages s)(job_id j \<mapsto> (job_state j, job_attempt j))"
    and op: "op \<in> {OpCreate, OpResume, OpRetry}"
  shows "moves op (stages s) (stages t)"
proof -
  have "job_stages s (job_id j) = None" using assms(2) by (simp add: job_stages_def)
  then show ?thesis using assms(1,3) op unfolding stages_def t
    by (intro along_upd) (auto simp: queued_clean_def)
qed

section \<open>Every step is a move\<close>

lemma leased_moves:
  assumes inv: "store_inv s" and c: "complete_leased C e l fin s = Inr (t, u)"
    and op: "op \<in> {OpSucceeded, OpFailed, OpWaitingHuman}"
    and fin: "\<And>j r. leased_job_and_run s l (clock e) = Inr (j, r) \<Longrightarrow> run_state r = RunRunning \<Longrightarrow>
      job_state j = JobRunning \<Longrightarrow> fin j r = Inr t \<Longrightarrow> moves op (stages s) (stages t)"
  shows "moves op (stages s) (stages t)"
proof -
  from c obtain j r where l: "leased_job_and_run s l (clock e) = Inr (j, r)"
    and f: "case job_canceled_by j of
         Some by \<Rightarrow> finish_canceled C e j r by (canceled_reason_value j) cancel_during_execution_message s = Inr t
       | None \<Rightarrow> fin j r = Inr t" by (auto simp: complete_leased_Inr)
  from l have j: "job_view s (lease_job l) = Some j" "job_active j" "run_view s (job_run j) = Some r"
    and st: "job_state j = JobRunning" by (simp_all add: leased_job_and_run_Inr job_active_def)
  from core_inv_job(3) [OF store_invD(2) [OF inv] j(1)] j(3) st have "run_state r = RunRunning"
    by (auto simp: job_fits_def)
  show ?thesis
  proof (cases "job_canceled_by j")
    case None
    with f fin [OF l] st \<open>run_state r = RunRunning\<close> show ?thesis by simp
  next
    case (Some actor)
    with f have "finish_canceled C e j r actor (canceled_reason_value j) cancel_during_execution_message s = Inr t" by simp
    from finish_canceled_moves [OF inv j this] show ?thesis
      using op st \<open>run_state r = RunRunning\<close> by auto
  qed
qed

lemma leased_put_moves:
  assumes inv: "store_inv s" and l: "leased_job_and_run s l now = Inr (j, r)"
    and st: "run_state r = RunRunning" "job_state j = JobRunning"
    and t: "run_states t = (run_states s)(run_id r \<mapsto> y)" "job_stages t = (job_stages s)(job_id j \<mapsto> (x, job_attempt j))"
    and y: "run_edge op (Some RunRunning) (Some y)" and x: "job_edge op (Some (JobRunning, job_attempt j)) (Some (x, job_attempt j))"
  shows "moves op (stages s) (stages t)"
proof -
  note a = leased_active [OF l]
  show ?thesis
    by (rule put_moves [OF inv, of _ j r "j\<lparr>job_state := x\<rparr>" "r\<lparr>run_state := y\<rparr>"]) (use a st y x t in auto)
qed

lemma complete_succeeded_moves:
  assumes inv: "store_inv s" and c: "complete_job_succeeded C e l res s = Inr (t, u)"
  shows "moves OpSucceeded (stages s) (stages t)"
  using inv c [unfolded complete_job_succeeded_def Let_def]
proof (rule leased_moves, goal_cases)
  case (2 j r)
  from 2(4) have "run_states t = (run_states s)(run_id r \<mapsto> RunSucceeded)"
    "job_stages t = (job_stages s)(job_id j \<mapsto> (JobSucceeded, job_attempt j))"
    by (auto simp: and_then_eq_Inr finish_job_def)
  then show ?case by (rule leased_put_moves [OF inv 2(1-3)]) simp_all
qed simp

lemma complete_failed_moves:
  assumes inv: "store_inv s" and c: "complete_job_failed C e l res s = Inr (t, u)"
  shows "moves OpFailed (stages s) (stages t)"
  using inv c [unfolded complete_job_failed_def Let_def]
proof (rule leased_moves, goal_cases)
  case (2 j r)
  from 2(4) have "run_states t = (run_states s)(run_id r \<mapsto> RunFailed)"
    "job_stages t = (job_stages s)(job_id j \<mapsto> (JobFailed, job_attempt j))"
    by (auto simp: and_then_eq_Inr finish_job_def)
  then show ?case by (rule leased_put_moves [OF inv 2(1-3)]) simp_all
qed simp

lemma complete_waiting_moves:
  assumes inv: "store_inv s" and c: "complete_job_waiting_human C e l res task s = Inr (t, u)"
  shows "moves OpWaitingHuman (stages s) (stages t)"
  using inv c [unfolded complete_job_waiting_human_def Let_def]
proof (rule leased_moves, goal_cases)
  case (2 j r)
  from 2(4) have "run_states t = (run_states s)(run_id r \<mapsto> RunWaitingHuman)"
    "job_stages t = (job_stages s)(job_id j \<mapsto> (JobSucceeded, job_attempt j))"
    by (auto simp: and_then_eq_Inr finish_job_def split: if_splits)
  then show ?case by (rule leased_put_moves [OF inv 2(1-3)]) simp_all
qed simp

lemma create_moves:
  assumes inv: "store_inv s" and f: "fresh_pair r j" and c: "create_run_and_enqueue C e r j s = Inr (t, u)"
  shows "moves OpCreate (stages s) (stages t)"
proof -
  from c have n: "run_view s (run_id r) = None" "job_view s (job_id j) = None"
    by (auto simp: create_run_and_enqueue_def lookup_views split: if_splits)
  from c have t: "run_states t = (run_states s)(run_id r \<mapsto> run_state r)"
    "job_stages t = (job_stages s)(job_id j \<mapsto> (job_state j, job_attempt j))"
    unfolding create_run_and_enqueue_def Let_def
    by (auto simp: and_then_eq_Inr split: if_splits)
  show ?thesis
    by (rule enqueue_moves [OF _ n(2) _ t]) (use f n(1) in \<open>auto simp: fresh_pair_def run_states_def queued_clean_def\<close>)
qed

lemma cancel_job_moves:
  assumes inv: "store_inv s" and c: "cancel_job C e w jid by_whom reason s = Inr (t, x)"
  shows "moves OpCancelJob (stages s) (stages t)"
proof (cases "t = s")
  case False
  from c False obtain j r where j: "job_view s jid = Some j" and r: "run_view s (job_run j) = Some r"
    and st: "\<not> is_terminal r" "job_state j \<noteq> JobSucceeded" "job_state j \<noteq> JobFailed"
    and t: "if job_state j = JobRunning
      then t = put_job (j\<lparr>job_canceled_by := Some (cancel_actor_subject j r by_whom), job_canceled_reason := Some reason,
                         job_updated_at := clock e\<rparr>) s
      else finish_canceled C e j r (cancel_actor_subject j r by_whom) reason cancel_before_execution_message s = Inr t"
    by (auto simp: cancel_job_def lookup_views Let_def and_then_eq_Inr split: option.splits if_splits)
  have act: "job_active j" using st by (cases "job_state j") (auto simp: job_active_def)
  have id: "job_id j = jid" using core_inv_job(1) [OF store_invD(2) [OF inv] j] .
  show ?thesis
  proof (cases "job_state j = JobRunning")
    case True
    with t have t': "t = put_job (j\<lparr>job_canceled_by := Some (cancel_actor_subject j r by_whom), job_canceled_reason := Some reason,
                         job_updated_at := clock e\<rparr>) s" by simp
    have "stages t = stages s"
      using job_stages_Some [OF j] id by (simp add: t' stages_def fun_upd_idem)
    then show ?thesis by simp
  next
    case False
    with t have "finish_canceled C e j r (cancel_actor_subject j r by_whom) reason cancel_before_execution_message s = Inr t"
      by simp
    from finish_canceled_moves [OF inv j act r this] False act show ?thesis by (auto simp: job_active_def)
  qed
qed simp

lemma job_view_mmap:
  "job_view (s\<lparr>sn_jobs := mmap f m, sn_tasks := n, sn_runs := q\<rparr>) = (\<lambda>k. map_option (f k) (map_of m k))"
  by (simp add: job_view_def fun_eq_iff)

lemma cancel_run_moves:
  assumes inv: "store_inv s" and c: "cancel_run e rid reason s = Inr (t, r')"
  shows "moves OpCancelRun (stages s) (stages t)"
proof -
  let ?f = "\<lambda>_ j. if job_run j \<noteq> rid \<or> job_state j \<noteq> JobQueued \<and> job_state j \<noteq> JobRunning then j
      else j\<lparr>job_state := JobFailed, job_lease_owner := '''', job_lease_expires_at := None, job_updated_at := clock e\<rparr>"
  from c obtain r g i ty p where r: "run_view s rid = Some r" and nt: "\<not> is_terminal r" and r': "run_state r' = RunCanceled"
    and t': "t = append_event i ty p (clock e) (s\<lparr>sn_jobs := mmap ?f (sn_jobs s), sn_tasks := mmap g (sn_tasks s),
        sn_runs := mput rid r' (sn_runs s)\<rparr>)"
    by (auto simp: cancel_run_def lookup_views Let_def split: option.splits if_splits)
  have t: "run_states t = (run_states s)(rid \<mapsto> RunCanceled)" "job_view t = (\<lambda>k. map_option (?f k) (job_view s k))"
    using r' by (simp_all add: t' run_states_def run_view_mmap fun_eq_iff job_view_mmap lookup_views)
  have "run_edge OpCancelRun (run_states s rid) (Some RunCanceled)"
    using nt by (cases "run_state r") (auto simp: run_states_Some [OF r] is_terminal_def)
  moreover have "job_stages s k = job_stages t k \<or> job_edge OpCancelRun (job_stages s k) (job_stages t k)" for k
    by (cases "job_view s k") (auto simp: job_stages_def t)
  ultimately show ?thesis by (auto simp: along_def stages_def t(1))
qed

text \<open>The return of expired leases to the queue, the first part of a claim.\<close>

abbreviation requeue_run_edge :: "run_state option \<Rightarrow> run_state option \<Rightarrow> bool" where
  "requeue_run_edge a b \<equiv> a = Some RunRunning \<and> b = Some RunCanceled"

abbreviation requeue_job_edge :: "(job_state \<times> int) option \<Rightarrow> (job_state \<times> int) option \<Rightarrow> bool" where
  "requeue_job_edge a b \<equiv> \<exists>n. a = Some (JobRunning, n) \<and> b \<in> Some ` {(JobQueued, n), (JobFailed, n)}"

abbreviation requeue_moves :: "(string \<rightharpoonup> run_state) \<times> (string \<rightharpoonup> job_state \<times> int) \<Rightarrow>
    (string \<rightharpoonup> run_state) \<times> (string \<rightharpoonup> job_state \<times> int) \<Rightarrow> bool" where
  "requeue_moves \<equiv> along requeue_run_edge requeue_job_edge"

lemma requeue_moves_trans: "requeue_moves a b \<Longrightarrow> requeue_moves b c \<Longrightarrow> requeue_moves a c"
  by (rule along_trans) auto

lemma requeue_expired_job_moves:
  assumes inv: "store_inv s" and q: "requeue_expired_job C e k s = Inr t"
  shows "requeue_moves (stages s) (stages t)"
proof (cases "t = s")
  case False
  from q False obtain j x where j: "job_view s k = Some j" "job_state j = JobRunning"
    and x: "job_lease_expires_at j = Some x" "\<not> clock e < x"
    by (auto simp: requeue_expired_job_def lookup_views split: option.splits if_splits)
  obtain r where r: "run_view s (job_run j) = Some r" "run_state r = RunRunning"
    using core_inv_job(3) [OF store_invD(2) [OF inv] j(1)] j(2) by (auto simp: job_fits_def)
  have act: "job_active j" using j by (simp add: job_active_def)
  show ?thesis
  proof (cases "job_canceled_by j")
    case (Some actor)
    with q j x r have "finish_canceled C e j r actor (canceled_reason_value j) cancel_worker_lost_message s = Inr t"
      by (simp add: requeue_expired_job_def lookup_views)
    from finish_canceled_moves [OF inv j(1) act r(1) this] j(2) r(2) show ?thesis by auto
  next
    case None
    have "run_states t = run_states s" "job_stages t = (job_stages s)(k \<mapsto> (JobQueued, job_attempt j))"
      using q j x None by (auto simp: requeue_expired_job_def lookup_views Let_def run_states_def job_stages_def
          fun_eq_iff) (auto simp: run_view_def job_view_def append_event_def)
    then show ?thesis using j(2) by (auto simp: along_def stages_def job_stages_Some [OF j(1)])
  qed
qed simp

lemma requeue_expired_jobs_moves:
  assumes inv: "store_inv s" and q: "requeue_expired_jobs C e s = Inr t"
  shows "requeue_moves (stages s) (stages t)"
proof -
  have "store_inv t \<and> requeue_moves (stages s) (stages t)"
    using q [unfolded requeue_expired_jobs_def]
  proof (rule fold_err_invariant)
    show "store_inv u' \<and> requeue_moves (stages s) (stages u')"
      if u: "store_inv u \<and> requeue_moves (stages s) (stages u)" "requeue_expired_job C e k u = Inr u'" for k u u'
      using requeue_expired_job_inv [OF _ u(2)] requeue_moves_trans [OF _ requeue_expired_job_moves [OF _ u(2)]] u(1)
      by simp
  qed (simp add: inv)
  then show ?thesis by simp
qed

text \<open>The second part takes one queued job and starts its run.\<close>

lemma claim_after_requeue:
  assumes "requeue_moves a b"
    and "along (\<lambda>x y. x \<in> Some ` {RunQueued, RunResuming, RunRunning} \<and> y = Some RunRunning)
      (\<lambda>x y. \<exists>n. x = Some (JobQueued, n) \<and> y = Some (JobRunning, n + 1)) b c"
  shows "moves OpClaim a c"
proof -
  have "fst a i = fst c i \<or> run_edge OpClaim (fst a i) (fst c i)" for i
    using assms unfolding along_def by (auto dest!: spec [of _ i])
  moreover have "snd a k = snd c k \<or> job_edge OpClaim (snd a k) (snd c k)" for k
    using assms unfolding along_def by (auto dest!: spec [of _ k])
  ultimately show ?thesis by (simp add: along_def)
qed

lemma start_run_stages:
  assumes "run_view s (job_run j) = Some r" and "run_state r \<in> {RunQueued, RunRunning, RunResuming}" and "run_id r = job_run j"
  shows "run_states (start_run e j s) = (run_states s)(run_id r \<mapsto> RunRunning)"
    and "job_stages (start_run e j s) = job_stages s"
proof -
  have "map_of (sn_runs s) (job_run j) = Some r" using assms(1) by (simp add: lookup_views)
  then show "run_states (start_run e j s) = (run_states s)(run_id r \<mapsto> RunRunning)"
    and "job_stages (start_run e j s) = job_stages s"
    using assms(2,3) run_states_Some [OF assms(1)]
    by (auto simp: start_run_def Let_def fun_upd_idem)
qed

lemma claim_moves:
  assumes inv: "store_inv s" and c: "claim_job_for_worker C e w tags labels ttl s = Inr (t, x)"
  shows "moves OpClaim (stages s) (stages t)"
proof -
  obtain j' l where x: "x = (j', l)" by (cases x)
  obtain s1 j ty p where q: "requeue_expired_jobs C e s = Inr s1"
    and ch: "claim_choice (normalize_claim_tags tags) (normalize_claim_tags labels) s1 = Some j"
    and j': "j' = start_job e (claim_worker_id e w) (lease_ttl ttl) j"
    and t: "t = append_event (job_run j) ty p (clock e) (start_run e j' (put_job j' s1))"
    using c unfolding x by (rule claim_job_Inr)
  have inv1: "store_inv s1" by (rule requeue_expired_jobs_inv [OF inv q])
  note cm = claim_choice_mem [OF store_invD(1) [OF inv1] ch]
  from cm(1) obtain k where k: "job_view s1 k = Some j" by blast
  obtain r where r: "run_view s1 (job_run j) = Some r" and fit: "job_fits j (run_state r)"
    using core_inv_job(3) [OF store_invD(2) [OF inv1] k] by blast
  have st: "run_state r \<in> {RunQueued, RunRunning, RunResuming}" using fit cm(2) by (simp add: job_fits_def)
  have rid: "run_id r = job_run j" by (rule core_inv_run(1) [OF store_invD(2) [OF inv1] r])
  have jj: "job_run j' = job_run j" "job_id j' = job_id j" "job_state j' = JobRunning" "job_attempt j' = job_attempt j + 1"
    by (simp_all add: j' start_job_def)
  have r': "run_view (put_job j' s1) (job_run j') = Some r" using r by (simp add: jj)
  have "run_states t = (run_states s1)(run_id r \<mapsto> RunRunning)" "job_stages t = (job_stages s1)(job_id j' \<mapsto> (job_state j', job_attempt j'))"
    using start_run_stages [OF r' st] rid by (simp_all add: t jj)
  then have "along (\<lambda>x y. x \<in> Some ` {RunQueued, RunResuming, RunRunning} \<and> y = Some RunRunning)
      (\<lambda>x y. \<exists>n. x = Some (JobQueued, n) \<and> y = Some (JobRunning, n + 1)) (stages s1) (stages t)"
    using st cm(2) jj by (intro put_moves [OF inv1 k r, of j' "r\<lparr>run_state := RunRunning\<rparr>"]) auto
  with requeue_expired_jobs_moves [OF inv q] show ?thesis by (rule claim_after_requeue)
qed

lemma heartbeat_moves:
  assumes inv: "store_inv s" and h: "heartbeat_job e l ttl s = Inr (t, x)"
  shows "stages t = stages s"
proof (cases "t = s")
  case False
  with h obtain j where j: "job_view s (lease_job l) = Some j"
    and t: "t = put_job (j\<lparr>job_lease_expires_at := Some (clock e + lease_ttl ttl), job_updated_at := clock e\<rparr>) s"
    by (auto simp: heartbeat_job_def lookup_views Let_def split: option.splits if_splits)
  have "job_id j = lease_job l" by (rule core_inv_job(1) [OF store_invD(2) [OF inv] j])
  with job_stages_Some [OF j] show ?thesis by (simp add: t stages_def fun_upd_idem)
qed simp

lemma resume_moves:
  assumes inv: "store_inv s" and f: "fresh_job e s" and c: "resume_human_task C e tid input s = Inr (t, x)"
  shows "moves OpResume (stages s) (stages t)"
proof -
  obtain r' j where x: "x = (r', j)" by (cases x)
  obtain h r stored ty p input' where r: "run_view s (task_run h) = Some r" "run_state r = RunWaitingHuman"
    and r': "r' = r\<lparr>run_state := RunResuming, run_task := '''', run_updated_at := clock e\<rparr>"
    and q: "enqueue_job C e r' input' = Inr (j, stored)"
    and t: "t = append_event (run_id r') ty p (clock e) (put_job stored (put_run r' (put_task
      (h\<lparr>task_state := TaskCompleted, task_resume_input := (if raw_empty input then empty_object else input),
         task_completed_at := Some (clock e)\<rparr>) s)))"
    using c unfolding x by (rule resume_human_task_Inr) blast
  note en = enqueue_job_Inr [OF q] and id = core_inv_run(1) [OF store_invD(2) [OF inv] r(1)]
  show ?thesis
    by (rule enqueue_moves [where r = r' and j = stored]) (use en f run_states_Some [OF r(1)] in
      \<open>simp_all add: t r' r(2) id fresh_job_def\<close>)
qed

lemma retry_moves:
  assumes inv: "store_inv s" and f: "fresh_job e s" and c: "retry_run C e rid s = Inr (t, x)"
  shows "moves OpRetry (stages s) (stages t)"
proof -
  obtain r' j where x: "x = (r', j)" by (cases x)
  obtain r stored ty p input' where r: "run_view s rid = Some r" "run_state r \<in> {RunFailed, RunCanceled, RunExpired}"
    and r': "r' = r\<lparr>run_state := RunQueued, run_output := raw_nil, run_result := None, run_error := raw_nil,
                   run_task := '''', run_updated_at := clock e\<rparr>"
    and q: "enqueue_job C e r' input' = Inr (j, stored)"
    and t: "t = append_event (run_id r') ty p (clock e) (put_job stored (put_run r' s))"
    using c unfolding x by (rule retry_run_Inr) blast
  note en = enqueue_job_Inr [OF q] and id = core_inv_run(1) [OF store_invD(2) [OF inv] r(1)]
  show ?thesis
    by (rule enqueue_moves [where r = r' and j = stored]) (use en f run_states_Some [OF r(1)] r(2) in
      \<open>auto simp: t r' id fresh_job_def\<close>)
qed

lemma prune_moves:
  assumes inv: "store_inv s" and p: "prune_settled_jobs so fo s = Inr (t, n)"
  shows "moves OpPrune (stages s) (stages t)"
proof (cases "t = s")
  case False
  let ?X = "set (expired_run_ids so fo s)"
  note c = store_invD [OF inv]
  have ok: "map_ok (sn_runs s)" "map_ok (sn_jobs s)" using c(1) by (simp_all add: maps_ok_def)
  have settled: "\<exists>r. run_view s i = Some r \<and> terminal_run_state (run_state r)" if "i \<in> ?X" for i
    using expired_run_ids_settled [OF ok(1) that] by (auto simp: run_expired_def)
  from p False have R: "run_view t i = (if i \<in> ?X then None else run_view s i)"
    and J: "job_view t k = (case job_view s k of Some j \<Rightarrow> if job_run j \<in> ?X then None else Some j | None \<Rightarrow> None)" for i k
    by (auto simp: prune_settled_jobs_def Let_def run_view_def job_view_def map_of_mfilter ok
        split: if_splits option.splits)
  show ?thesis
    unfolding stages_def along_def fst_conv snd_conv
  proof (intro conjI allI)
    show "run_states s i = run_states t i \<or> run_edge OpPrune (run_states s i) (run_states t i)" for i
    proof (cases "i \<in> ?X")
      case True
      with settled [OF True] R [of i] show ?thesis
        by (auto simp: run_states_def elim!: terminal_run_state.elims)
    qed (simp add: run_states_def R)
    show "job_stages s k = job_stages t k \<or> job_edge OpPrune (job_stages s k) (job_stages t k)" for k
    proof (cases "job_view s k")
      case (Some j)
      show ?thesis
      proof (cases "job_run j \<in> ?X")
        case True
        from settled [OF True] obtain r where r: "run_view s (job_run j) = Some r" "terminal_run_state (run_state r)"
          by blast
        with active_job_run [OF c(2) Some _ r(1)] have "\<not> job_active j"
          by (cases "run_state r") (auto simp: run_active_def)
        with Some True J [of k] show ?thesis
          by (cases "job_state j") (auto simp: job_stages_def job_active_def)
      qed (simp add: job_stages_def J Some)
    qed (simp add: job_stages_def J)
  qed
qed simp

lemma expire_stuck_run_moves:
  assumes inv: "store_inv s" and x: "expire_stuck_run ft e before i (s, n) = (t, n')"
  shows "moves OpExpire (stages s) (stages t)"
proof (cases "t = s")
  case False
  let ?f = "\<lambda>_ j. if job_run j \<noteq> i \<or> job_state j = JobSucceeded \<or> job_state j = JobFailed then j
     else j\<lparr>job_state := JobFailed, job_canceled_reason := Some (stuck_reason ft before), job_updated_at := clock e\<rparr>"
  from x False obtain r where r: "run_view s i = Some r" and act: "run_active r"
    and t: "t = s\<lparr>sn_runs := mput i (r\<lparr>run_state := RunExpired, run_updated_at := clock e\<rparr>) (sn_runs s),
        sn_jobs := mmap ?f (sn_jobs s)\<rparr>"
    by (auto simp: expire_stuck_run_def lookup_views run_active_def split: option.splits if_splits)
  have "run_states t = (run_states s)(i \<mapsto> RunExpired)" by (simp add: t run_states_def run_view_def fun_eq_iff)
  moreover have "run_edge OpExpire (run_states s i) (Some RunExpired)"
    using act by (auto simp: run_states_Some [OF r] run_active_def)
  moreover have "job_stages s k = job_stages t k \<or> job_edge OpExpire (job_stages s k) (job_stages t k)" for k
  proof (cases "job_view s k")
    case (Some j)
    then show ?thesis by (cases "job_state j") (auto simp: job_stages_def job_view_def t)
  qed (simp add: job_stages_def job_view_def t)
  ultimately show ?thesis by (auto simp: along_def stages_def)
qed simp

lemma expire_moves_trans: "moves OpExpire a b \<Longrightarrow> moves OpExpire b c \<Longrightarrow> moves OpExpire a c"
  by (rule along_trans) auto

lemma expire_stuck_jobs_moves:
  assumes "store_inv s" and "expire_stuck_jobs ft e before s = Inr (t, n)"
  shows "moves OpExpire (stages s) (stages t)"
proof -
  have "store_inv (fst (fold (expire_stuck_run ft e before) is (s, m)))
      \<and> moves OpExpire (stages s) (stages (fst (fold (expire_stuck_run ft e before) is (s, m))))"
    if "store_inv s" for "is" s m
    using that
  proof (induction "is" arbitrary: s m)
    case (Cons i "is")
    obtain s1 n1 where f: "expire_stuck_run ft e before i (s, m) = (s1, n1)" by (cases "expire_stuck_run ft e before i (s, m)")
    show ?case
      using Cons.IH [OF expire_stuck_run_inv [OF Cons.prems f]]
        expire_moves_trans [OF expire_stuck_run_moves [OF Cons.prems f]]
      by (simp add: f del: run_edge.simps job_edge_simps)
  qed simp
  with assms show ?thesis by (metis expire_stuck_jobs_def fst_conv sum.inject(2))
qed

lemma move_tags_stages:
  assumes "requeue_queued_jobs_for_app e spec s = Inr (t, n)"
  shows "stages t = stages s"
proof -
  from assms obtain moves where t: "t = s\<lparr>sn_jobs := mmap (\<lambda>_ j. case moves j of None \<Rightarrow> j
      | Some tag \<Rightarrow> j\<lparr>job_payload := (job_payload j)\<lparr>jp_tag := tag\<rparr>, job_updated_at := clock e\<rparr>) (sn_jobs s)\<rparr>"
    by (auto simp: requeue_queued_jobs_for_app_def Let_def)
  have "job_stages t k = job_stages s k" for k
    by (cases "job_view s k") (auto simp: job_stages_def job_view_def t split: option.splits)
  moreover have "run_states t = run_states s" by (simp add: run_states_def run_view_def t)
  ultimately show ?thesis by (auto simp: stages_def)
qed

lemma local_step_moves:
  assumes inv: "store_inv s" and u: "update e f s = Inr (t, x)"
    and f: "\<And>t'. store_inv (ensure_snapshot e s) \<Longrightarrow> f (ensure_snapshot e s) = Inr (t', x)
      \<Longrightarrow> along E F (stages (ensure_snapshot e s)) (stages t')"
  shows "along E F (stages s) (stages t)"
  using u by (rule local_step) (use inv f in simp)

lemma heartbeat_or_tags_along:
  assumes "store_inv s" and "heartbeat_job e l ttl s = Inr (t, x) \<or> requeue_queued_jobs_for_app e spec s = Inr (t, n)"
  shows "along E F (stages s) (stages t)"
  using assms heartbeat_moves move_tags_stages by fastforce

lemma op_step_moves:
  assumes inv: "store_inv s" and step: "op_step C op s t"
  shows "moves op (stages s) (stages t)"
proof (cases op)
  case OpOther
  with step have "stages t = stages s" by (simp add: stages_def run_states_def job_stages_def same_work_def)
  then show ?thesis by simp
qed (use step in \<open>auto simp: local_ops simp del: run_edge.simps job_edge_simps
    elim!: local_step_moves [OF inv] intro: create_moves cancel_job_moves cancel_run_moves claim_moves
      complete_succeeded_moves complete_failed_moves complete_waiting_moves resume_moves retry_moves prune_moves
      expire_stuck_jobs_moves heartbeat_or_tags_along\<close>)

lemma store_step_moves:
  assumes "store_inv s" and "store_step C s t"
  shows "moves_on (stages s) (stages t)"
  using assms(2) op_step_moves [OF assms(1)] unfolding store_step_op moves_on_def by blast

interpretation store: simulation store_start "store_step C" store_inv stages moves_on for C
  by unfold_locales (auto intro: store_start_inv store_step_inv store_step_moves)

end
