(* ===== verification/Lease_Fencing.thy ===== *)
theory Lease_Fencing
  imports Store_Machine
begin

text \<open>
  What the store never undoes. A job only moves forward: its attempt grows at every claim and a
  settled job is final, so a lease that was lost, or that was used to report a result, is refused from
  then on. The record of a run that succeeded does not change until the run is pruned. The locale
  \<open>leases\<close> is the contract a worker relies on.
\<close>

section \<open>The contract of leases\<close>

locale leases =
  fixes good :: "'s \<Rightarrow> bool"
    and step :: "'s \<Rightarrow> 's \<Rightarrow> bool"
    and stale :: "'l \<Rightarrow> 's \<Rightarrow> bool"
    and complete :: "'l \<Rightarrow> 's \<Rightarrow> 's \<Rightarrow> bool"
  assumes good_step: "good s \<Longrightarrow> step s t \<Longrightarrow> good t"
    and stale_step: "good s \<Longrightarrow> step s t \<Longrightarrow> stale l s \<Longrightarrow> stale l t"
    and complete_spends: "good s \<Longrightarrow> complete l s t \<Longrightarrow> stale l t"
    and complete_good: "good s \<Longrightarrow> complete l s t \<Longrightarrow> good t"
    and stale_refused: "stale l s \<Longrightarrow> \<not> complete l s t"
begin

lemma stale_later: "step\<^sup>*\<^sup>* s t \<Longrightarrow> good s \<Longrightarrow> stale l s \<Longrightarrow> good t \<and> stale l t"
  by (induction rule: rtranclp_induct) (auto intro: good_step stale_step)

lemma lost_lease: "good s \<Longrightarrow> stale l s \<Longrightarrow> step\<^sup>*\<^sup>* s t \<Longrightarrow> \<not> complete l t u"
  using stale_later stale_refused by blast

text \<open>A lease reports at most one result.\<close>

lemma complete_once: "good s \<Longrightarrow> complete l s t \<Longrightarrow> step\<^sup>*\<^sup>* t u \<Longrightarrow> \<not> complete l u v"
  using lost_lease complete_spends complete_good by blast

end

section \<open>Jobs move forward\<close>

definition job_settled :: "job \<Rightarrow> bool" where
  "job_settled j \<longleftrightarrow> job_state j = JobSucceeded \<or> job_state j = JobFailed"

definition job_after :: "job \<Rightarrow> job \<Rightarrow> bool" where
  "job_after j j' \<longleftrightarrow> (if job_settled j then j' = j else job_attempt j \<le> job_attempt j'
     \<and> (job_settled j' \<or> job_attempt j < job_attempt j' \<or> job_state j \<noteq> JobQueued \<or> job_state j' = JobQueued))"

lemma job_settled_active: "job_settled j \<longleftrightarrow> \<not> job_active j"
  by (cases "job_state j") (auto simp: job_settled_def job_active_def)

lemma job_after_refl [simp]: "job_after j j"
  by (auto simp: job_after_def)

lemma job_after_trans: "job_after a b \<Longrightarrow> job_after b c \<Longrightarrow> job_after a c"
  by (auto simp: job_after_def job_settled_def split: if_splits)

definition work_kept :: "snapshot \<Rightarrow> snapshot \<Rightarrow> bool" where
  "work_kept s t \<longleftrightarrow> (\<forall>i r. run_view s i = Some r \<longrightarrow> run_state r = RunSucceeded \<longrightarrow> run_view t i = Some r)
     \<and> (\<forall>k j. job_view s k = Some j \<longrightarrow> (\<exists>j'. job_view t k = Some j' \<and> job_after j j'))"

definition work_after :: "snapshot \<Rightarrow> snapshot \<Rightarrow> bool" where
  "work_after s t \<longleftrightarrow> (\<forall>i r. run_view s i = Some r \<longrightarrow> run_state r = RunSucceeded \<longrightarrow>
       run_view t i = Some r \<or> run_view t i = None)
     \<and> (\<forall>k j j'. job_view s k = Some j \<longrightarrow> job_view t k = Some j' \<longrightarrow> job_after j j')"

lemma work_kept_refl [simp]: "work_kept s s"
  by (simp add: work_kept_def)

lemma work_kept_trans: "work_kept s t \<Longrightarrow> work_kept t u \<Longrightarrow> work_kept s u"
  unfolding work_kept_def by (meson job_after_trans)

lemma work_kept_after: "work_kept s t \<Longrightarrow> work_after s t"
  unfolding work_kept_def work_after_def by fastforce

lemma work_kept_ensure [simp]:
  "work_kept (ensure_snapshot e s) t = work_kept s t" "work_kept s (ensure_snapshot e t) = work_kept s t"
  by (simp_all add: work_kept_def)

lemma work_after_ensure [simp]:
  "work_after (ensure_snapshot e s) t = work_after s t" "work_after s (ensure_snapshot e t) = work_after s t"
  by (simp_all add: work_after_def)

lemma work_kept_point:
  assumes "\<And>i r. run_view s i = Some r \<Longrightarrow> run_state r = RunSucceeded \<Longrightarrow> run_view t i = Some r"
    and "\<And>k j. job_view s k = Some j \<Longrightarrow> \<exists>j'. job_view t k = Some j' \<and> job_after j j'"
  shows "work_kept s t"
  using assms by (simp add: work_kept_def)

text \<open>A run that has not succeeded is rewritten, and a job that it follows.\<close>

lemma work_kept_upd:
  assumes "run_view t = (run_view s)(i \<mapsto> r')" and "\<And>r. run_view s i = Some r \<Longrightarrow> run_state r \<noteq> RunSucceeded"
    and "job_view t = (job_view s)(k \<mapsto> j')" and "\<And>j. job_view s k = Some j \<Longrightarrow> job_after j j'"
  shows "work_kept s t"
  using assms by (intro work_kept_point) auto

lemma active_not_succeeded:
  assumes "store_inv s" and "job_view s k = Some j" "job_active j" "run_view s (job_run j) = Some r"
  shows "run_state r \<noteq> RunSucceeded"
  using active_job_run [OF store_invD(2) [OF assms(1)] assms(2-4)] by (auto simp: run_active_def)

lemma ids_of:
  assumes "store_inv s"
  shows "job_view s k = Some j \<Longrightarrow> job_id j = k" and "run_view s i = Some r \<Longrightarrow> run_id r = i"
  using core_inv_job(1) core_inv_run(1) store_invD(2) [OF assms] by blast+

lemma settles_after: "job_active j \<Longrightarrow> job_settled j' \<Longrightarrow> job_attempt j' = job_attempt j \<Longrightarrow> job_after j j'"
  by (simp add: job_after_def job_settled_active)

lemma encrypt_stored_view:
  assumes "encrypt_stored_run_result C e w i s = Inr t" and "run_view s i \<noteq> None"
  shows "\<exists>r'. run_view t = (run_view s)(i \<mapsto> r')"
proof -
  from assms(2) obtain r where r: "run_view s i = Some r" by blast
  with assms(1) obtain r' where "t = s\<lparr>sn_runs := mput i r' (sn_runs s)\<rparr>"
    by (auto simp: encrypt_stored_run_result_def lookup_views and_then_eq_Inr)
  then show ?thesis by (auto simp: run_view_def)
qed

lemma finish_canceled_kept:
  assumes inv: "store_inv s" and j: "job_view s k = Some j" "job_active j" and r: "run_view s (job_run j) = Some r"
    and f: "finish_canceled C e j r by_whom reason m s = Inr t"
  shows "work_kept s t"
proof -
  let ?s = "apply_canceled_job j r by_whom reason m (clock e) s"
  note ids = ids_of [OF inv] and ns = active_not_succeeded [OF inv j r]
  have inv': "store_inv ?s" by (rule apply_canceled_inv [OF inv j r])
  from f have en: "encrypt_stored_run_result C e (normalized_job_workspace '''' j) (run_id r) ?s = Inr t"
    by (simp add: finish_canceled_def)
  note v = encrypt_stored_run_result_inv [OF inv' en]
  have "run_view ?s (run_id r) \<noteq> None" by (simp add: apply_canceled_views(1))
  from encrypt_stored_view [OF en this] obtain r' where "run_view t = (run_view ?s)(run_id r \<mapsto> r')" by blast
  then have "run_view t = (run_view s)(run_id r \<mapsto> r')" by (simp add: apply_canceled_views(1))
  then show ?thesis
  proof (rule work_kept_upd)
    show "job_view t = (job_view s)(job_id j \<mapsto> j\<lparr>job_state := JobFailed, job_lease_expires_at := None,
        job_canceled_by := Some by_whom, job_canceled_reason := Some reason, job_updated_at := clock e\<rparr>)"
      using v by (simp add: apply_canceled_views)
  qed (use ns r ids(1) [OF j(1)] ids(2) [OF r] j in \<open>auto simp: settles_after job_settled_def\<close>)
qed

lemma leased_kept:
  assumes inv: "store_inv s" and c: "complete_leased C e l fin s = Inr (t, u)"
    and fin: "\<And>j r. leased_job_and_run s l (clock e) = Inr (j, r) \<Longrightarrow> fin j r = Inr t \<Longrightarrow>
      \<exists>r' j'. run_view t = (run_view s)(run_id r \<mapsto> r') \<and> job_view t = (job_view s)(job_id j \<mapsto> j')
        \<and> job_settled j' \<and> job_attempt j' = job_attempt j"
  shows "work_kept s t \<and> (\<exists>j'. job_view t (lease_job l) = Some j' \<and> job_settled j')"
proof -
  from c obtain j r where l: "leased_job_and_run s l (clock e) = Inr (j, r)"
    and f: "case job_canceled_by j of
         Some by \<Rightarrow> finish_canceled C e j r by (canceled_reason_value j) cancel_during_execution_message s = Inr t
       | None \<Rightarrow> fin j r = Inr t" by (auto simp: complete_leased_Inr)
  from leased_active [OF l] have j: "job_view s (lease_job l) = Some j" "job_active j" "run_view s (job_run j) = Some r"
    by simp_all
  note ids = ids_of(1) [OF inv j(1)] ids_of(2) [OF inv j(3)]
  show ?thesis
  proof (cases "job_canceled_by j")
    case (Some x)
    with f have f': "finish_canceled C e j r x (canceled_reason_value j) cancel_during_execution_message s = Inr t" by simp
    have "job_stages t (lease_job l) = Some (JobFailed, job_attempt j)"
      using f' encrypt_stored_stages [OF apply_canceled_inv [OF inv j]] ids
      by (auto simp: finish_canceled_def stages_def apply_canceled_stages)
    then have "\<exists>j'. job_view t (lease_job l) = Some j' \<and> job_settled j'"
      by (auto simp: job_stages_def job_settled_def)
    with finish_canceled_kept [OF inv j f'] show ?thesis by blast
  next
    case None
    with f fin [OF l] obtain r' j' where t: "run_view t = (run_view s)(run_id r \<mapsto> r')"
      "job_view t = (job_view s)(job_id j \<mapsto> j')" "job_settled j'" "job_attempt j' = job_attempt j" by auto
    have "work_kept s t"
      using t(1) _ t(2) by (rule work_kept_upd)
        (use active_not_succeeded [OF inv j] j ids t in \<open>auto simp: settles_after\<close>)
    with t ids show ?thesis by auto
  qed
qed

section \<open>Each operation keeps settled work\<close>

lemma complete_succeeded_kept:
  assumes inv: "store_inv s" and c: "complete_job_succeeded C e l res s = Inr (t, u)"
  shows "work_kept s t \<and> (\<exists>j'. job_view t (lease_job l) = Some j' \<and> job_settled j')"
  using inv c [unfolded complete_job_succeeded_def Let_def]
proof (rule leased_kept, goal_cases)
  case (1 j r)
  from 1(2) obtain x ty p where "t = append_event (run_id r) ty p (clock e)
      (put_run (r\<lparr>run_state := RunSucceeded, run_output := res_output x, run_result := Some x, run_error := raw_nil,
         run_task := '''', run_updated_at := clock e\<rparr>) (put_job (finish_job JobSucceeded (clock e) j) s))"
    by (auto simp: and_then_eq_Inr)
  then show ?case by (auto simp: finish_job_def job_settled_def intro!: exI)
qed

lemma complete_failed_kept:
  assumes inv: "store_inv s" and c: "complete_job_failed C e l res s = Inr (t, u)"
  shows "work_kept s t \<and> (\<exists>j'. job_view t (lease_job l) = Some j' \<and> job_settled j')"
  using inv c [unfolded complete_job_failed_def Let_def]
proof (rule leased_kept, goal_cases)
  case (1 j r)
  from 1(2) obtain x er ty p where "t = append_event (run_id r) ty p (clock e)
      (put_run (r\<lparr>run_state := RunFailed, run_result := Some x, run_error := er, run_updated_at := clock e\<rparr>)
        (put_job (finish_job JobFailed (clock e) j) s))"
    by (auto simp: and_then_eq_Inr)
  then show ?case by (auto simp: finish_job_def job_settled_def intro!: exI)
qed

lemma complete_waiting_kept:
  assumes inv: "store_inv s" and c: "complete_job_waiting_human C e l res task s = Inr (t, u)"
  shows "work_kept s t \<and> (\<exists>j'. job_view t (lease_job l) = Some j' \<and> job_settled j')"
  using inv c [unfolded complete_job_waiting_human_def Let_def]
proof (rule leased_kept, goal_cases)
  case (1 j r)
  from 1(2) obtain x h ty p where "t = append_event (run_id r) ty p (clock e)
      (put_task h (put_run (r\<lparr>run_state := RunWaitingHuman, run_result := Some x, run_error := raw_nil,
         run_task := task_id h, run_updated_at := clock e\<rparr>) (put_job (finish_job JobSucceeded (clock e) j) s)))"
    by (auto simp: and_then_eq_Inr split: if_splits)
  then show ?case by (auto simp: finish_job_def job_settled_def intro!: exI)
qed

lemma create_kept:
  assumes inv: "store_inv s" and c: "create_run_and_enqueue C e r j s = Inr (t, u)"
  shows "work_kept s t"
proof -
  from c have n: "run_view s (run_id r) = None" "job_view s (job_id j) = None"
    by (auto simp: create_run_and_enqueue_def lookup_views split: if_splits)
  let ?r = "r\<lparr>run_created_at := non_zero_time (run_created_at r) (clock e), run_updated_at := clock e\<rparr>"
  let ?p = "if jp_correlation (job_payload j) = '''' then (job_payload j)\<lparr>jp_correlation := run_correlation ?r\<rparr> else job_payload j"
  let ?j = "j\<lparr>job_created_at := non_zero_time (job_created_at j) (clock e), job_updated_at := clock e, job_payload := ?p\<rparr>"
  from c obtain ri ji i1 t1 p1 i2 t2 p2 where
    t: "t = append_event i1 t1 p1 (clock e) (append_event i2 t2 p2 (clock e)
      (put_job (?j\<lparr>job_payload := (job_payload ?j)\<lparr>jp_input := ji\<rparr>\<rparr>) (put_run (?r\<lparr>run_input := ri\<rparr>) s)))"
    unfolding create_run_and_enqueue_def Let_def
    by (auto simp: and_then_eq_Inr simp del: job.simps run.simps job_payload.simps split: if_splits)
  show ?thesis
    by (rule work_kept_upd [of t s "run_id r" "?r\<lparr>run_input := ri\<rparr>" "job_id j" "?j\<lparr>job_payload := (job_payload ?j)\<lparr>jp_input := ji\<rparr>\<rparr>"])
      (use n in \<open>simp_all add: t\<close>)
qed

lemma work_kept_jobs:
  assumes "run_view t = run_view s" and "job_view t = (job_view s)(k \<mapsto> j')" and "job_view s k = Some j" and "job_after j j'"
  shows "work_kept s t"
  using assms by (intro work_kept_point) auto

lemma cancel_job_kept:
  assumes inv: "store_inv s" and c: "cancel_job C e w jid by_whom reason s = Inr (t, x)"
  shows "work_kept s t"
proof (cases "t = s")
  case False
  from c False obtain j r where j: "job_view s jid = Some j" and r: "run_view s (job_run j) = Some r"
    and st: "job_state j \<noteq> JobSucceeded" "job_state j \<noteq> JobFailed"
    and t: "if job_state j = JobRunning
      then t = put_job (j\<lparr>job_canceled_by := Some (cancel_actor_subject j r by_whom), job_canceled_reason := Some reason,
                         job_updated_at := clock e\<rparr>) s
      else finish_canceled C e j r (cancel_actor_subject j r by_whom) reason cancel_before_execution_message s = Inr t"
    by (auto simp: cancel_job_def lookup_views Let_def and_then_eq_Inr split: option.splits if_splits)
  have act: "job_active j" using st by (cases "job_state j") (auto simp: job_active_def)
  show ?thesis
  proof (cases "job_state j = JobRunning")
    case True
    with t ids_of(1) [OF inv j] j show ?thesis
      by (intro work_kept_jobs [of t s jid _ j]) (auto simp: job_after_def job_settled_def)
  next
    case False
    with t show ?thesis using finish_canceled_kept [OF inv j act r] by simp
  qed
qed simp

lemma cancel_run_kept:
  assumes inv: "store_inv s" and c: "cancel_run e rid reason s = Inr (t, r')"
  shows "work_kept s t"
proof -
  let ?f = "\<lambda>_ j. if job_run j \<noteq> rid \<or> job_state j \<noteq> JobQueued \<and> job_state j \<noteq> JobRunning then j
      else j\<lparr>job_state := JobFailed, job_lease_owner := '''', job_lease_expires_at := None, job_updated_at := clock e\<rparr>"
  from c obtain r g i ty p where r: "run_view s rid = Some r" "\<not> is_terminal r"
    and t: "t = append_event i ty p (clock e) (s\<lparr>sn_jobs := mmap ?f (sn_jobs s), sn_tasks := mmap g (sn_tasks s),
        sn_runs := mput rid r' (sn_runs s)\<rparr>)"
    by (auto simp: cancel_run_def lookup_views Let_def split: option.splits if_splits)
  have "job_after j (?f k j)" for k j by (auto simp: job_after_def job_settled_def)
  with r show ?thesis
    by (intro work_kept_point) (auto simp: t run_view_mmap job_view_mmap lookup_views is_terminal_def)
qed

lemma requeue_expired_job_kept:
  assumes inv: "store_inv s" and q: "requeue_expired_job C e k s = Inr t"
  shows "work_kept s t"
proof (cases "t = s")
  case False
  from q False obtain j x where j: "job_view s k = Some j" "job_state j = JobRunning"
    and x: "job_lease_expires_at j = Some x" "\<not> clock e < x"
    by (auto simp: requeue_expired_job_def lookup_views split: option.splits if_splits)
  obtain r where r: "run_view s (job_run j) = Some r"
    using core_inv_job(3) [OF store_invD(2) [OF inv] j(1)] by blast
  have act: "job_active j" using j by (simp add: job_active_def)
  show ?thesis
  proof (cases "job_canceled_by j")
    case (Some actor)
    with q j x r have "finish_canceled C e j r actor (canceled_reason_value j) cancel_worker_lost_message s = Inr t"
      by (simp add: requeue_expired_job_def lookup_views)
    then show ?thesis by (rule finish_canceled_kept [OF inv j(1) act r])
  next
    case None
    let ?j = "j\<lparr>job_state := JobQueued, job_lease_owner := '''', job_lease_expires_at := None,
                        job_started_at := None, job_updated_at := clock e\<rparr>"
    from q j x None obtain i ty p where t: "t = append_event i ty p (clock e) (put_job ?j s)"
      using ids_of(1) [OF inv j(1)]
      by (auto simp: requeue_expired_job_def lookup_views Let_def put_job_def)
    show ?thesis
      by (rule work_kept_jobs [of t s k ?j j])
        (use ids_of(1) [OF inv j(1)] j in \<open>simp_all add: t job_after_def job_settled_def\<close>)
  qed
qed simp

lemma requeue_expired_jobs_kept:
  assumes inv: "store_inv s" and q: "requeue_expired_jobs C e s = Inr t"
  shows "work_kept s t"
proof -
  have "store_inv t \<and> work_kept s t"
    using q [unfolded requeue_expired_jobs_def]
  proof (rule fold_err_invariant)
    show "store_inv u' \<and> work_kept s u'"
      if "store_inv u \<and> work_kept s u" "requeue_expired_job C e k u = Inr u'" for k u u'
      using that requeue_expired_job_inv requeue_expired_job_kept work_kept_trans by blast
  qed (simp add: inv)
  then show ?thesis by simp
qed

lemma claim_kept:
  assumes inv: "store_inv s" and c: "claim_job_for_worker C e w tags labels ttl s = Inr (t, x)"
  shows "work_kept s t"
proof -
  obtain j' l where x: "x = (j', l)" by (cases x)
  obtain s1 j ty p where q: "requeue_expired_jobs C e s = Inr s1"
    and ch: "claim_choice (normalize_claim_tags tags) (normalize_claim_tags labels) s1 = Some j"
    and j': "j' = start_job e (claim_worker_id e w) (lease_ttl ttl) j"
    and t: "t = append_event (job_run j) ty p (clock e) (start_run e j' (put_job j' s1))"
    using c unfolding x by (rule claim_job_Inr)
  have inv1: "store_inv s1" by (rule requeue_expired_jobs_inv [OF inv q])
  note cm = claim_choice_mem [OF store_invD(1) [OF inv1] ch]
  from cm(1) obtain k where k: "job_view s1 k = Some j" by blast
  have act: "job_active j" using cm(2) by (simp add: job_active_def)
  obtain r where r: "run_view s1 (job_run j) = Some r"
    using core_inv_job(3) [OF store_invD(2) [OF inv1] k] by blast
  have jj: "job_run j' = job_run j" "job_id j' = k" "job_after j j'"
    using ids_of(1) [OF inv1 k] by (simp_all add: j' start_job_def job_after_def job_settled_active act)
  have v: "run_view (put_job j' s1) (job_run j') = Some r" using r jj by simp
  have "work_kept s1 t"
  proof (rule work_kept_upd)
    show "run_view t = (run_view s1)(job_run j \<mapsto> (if run_state r = RunQueued \<or> run_state r = RunResuming
        then r\<lparr>run_state := RunRunning, run_updated_at := clock e\<rparr> else r))"
      using v ids_of(2) [OF inv1 r] r jj by (auto simp: t start_run_def lookup_views Let_def fun_upd_idem)
    show "job_view t = (job_view s1)(k \<mapsto> j')"
      using v jj by (auto simp: t start_run_def lookup_views Let_def)
  qed (use active_not_succeeded [OF inv1 k act] jj k in auto)
  with requeue_expired_jobs_kept [OF inv q] show ?thesis by (rule work_kept_trans)
qed

lemma enqueue_kept:
  assumes inv: "store_inv s" and r: "run_view s i = Some r" "run_state r \<noteq> RunSucceeded"
    and n: "job_view s (job_id j) = None"
    and t: "run_view t = (run_view s)(i \<mapsto> r')" "job_view t = (job_view s)(job_id j \<mapsto> j)"
  shows "work_kept s t"
  by (rule work_kept_upd [OF t(1) _ t(2)]) (use r n in auto)

lemma resume_kept:
  assumes inv: "store_inv s" and f: "fresh_job e s" and c: "resume_human_task C e tid input s = Inr (t, x)"
  shows "work_kept s t"
proof -
  obtain r' j where x: "x = (r', j)" by (cases x)
  obtain h r stored ty p input' where r: "run_view s (task_run h) = Some r" "run_state r = RunWaitingHuman"
    and r': "r' = r\<lparr>run_state := RunResuming, run_task := '''', run_updated_at := clock e\<rparr>"
    and q: "enqueue_job C e r' input' = Inr (j, stored)"
    and t: "t = append_event (run_id r') ty p (clock e) (put_job stored (put_run r' (put_task
      (h\<lparr>task_state := TaskCompleted, task_resume_input := (if raw_empty input then empty_object else input),
         task_completed_at := Some (clock e)\<rparr>) s)))"
    using c unfolding x by (rule resume_human_task_Inr) blast
  show ?thesis
    by (rule enqueue_kept [OF inv r(1), of stored])
      (use r f enqueue_job_Inr [OF q] ids_of(2) [OF inv r(1)] in \<open>simp_all add: t r' fresh_job_def\<close>)
qed

lemma retry_kept:
  assumes inv: "store_inv s" and f: "fresh_job e s" and c: "retry_run C e rid s = Inr (t, x)"
  shows "work_kept s t"
proof -
  obtain r' j where x: "x = (r', j)" by (cases x)
  obtain r stored ty p input' where r: "run_view s rid = Some r" "run_state r \<in> {RunFailed, RunCanceled, RunExpired}"
    and r': "r' = r\<lparr>run_state := RunQueued, run_output := raw_nil, run_result := None, run_error := raw_nil,
                   run_task := '''', run_updated_at := clock e\<rparr>"
    and q: "enqueue_job C e r' input' = Inr (j, stored)"
    and t: "t = append_event (run_id r') ty p (clock e) (put_job stored (put_run r' s))"
    using c unfolding x by (rule retry_run_Inr) blast
  show ?thesis
    by (rule enqueue_kept [OF inv r(1), of stored])
      (use r f enqueue_job_Inr [OF q] ids_of(2) [OF inv r(1)] in \<open>auto simp: t r' fresh_job_def\<close>)
qed

lemma heartbeat_kept:
  assumes inv: "store_inv s" and h: "heartbeat_job e l ttl s = Inr (t, x)"
  shows "work_kept s t"
proof (cases "t = s")
  case False
  with h obtain j where j: "job_view s (lease_job l) = Some j" "job_state j = JobRunning"
    and t: "t = put_job (j\<lparr>job_lease_expires_at := Some (clock e + lease_ttl ttl), job_updated_at := clock e\<rparr>) s"
    by (auto simp: heartbeat_job_def lookup_views Let_def split: option.splits if_splits)
  show ?thesis
    by (rule work_kept_jobs [of t s "lease_job l" _ j])
      (use j ids_of(1) [OF inv j(1)] in \<open>auto simp: t job_after_def job_settled_def\<close>)
qed simp

lemma expire_stuck_run_kept:
  assumes inv: "store_inv s" and x: "expire_stuck_run ft e before i (s, n) = (t, n')"
  shows "work_kept s t"
proof (cases "t = s")
  case False
  let ?f = "\<lambda>_ j. if job_run j \<noteq> i \<or> job_state j = JobSucceeded \<or> job_state j = JobFailed then j
     else j\<lparr>job_state := JobFailed, job_canceled_reason := Some (stuck_reason ft before), job_updated_at := clock e\<rparr>"
  from x False obtain r where r: "run_view s i = Some r" and act: "run_active r"
    and t: "t = s\<lparr>sn_runs := mput i (r\<lparr>run_state := RunExpired, run_updated_at := clock e\<rparr>) (sn_runs s),
        sn_jobs := mmap ?f (sn_jobs s)\<rparr>"
    by (auto simp: expire_stuck_run_def lookup_views run_active_def split: option.splits if_splits)
  have "job_after j (?f k j)" for j k by (auto simp: job_after_def job_settled_def)
  then show ?thesis using r act
    by (intro work_kept_point) (auto simp: t run_view_def job_view_def run_active_def)
qed simp

lemma expire_stuck_jobs_kept:
  assumes "store_inv s" and "expire_stuck_jobs ft e before s = Inr (t, n)"
  shows "work_kept s t"
proof -
  have "work_kept s (fst (fold (expire_stuck_run ft e before) is (s, m)))" if "store_inv s" for "is" s m
    using that
  proof (induction "is" arbitrary: s m)
    case (Cons i "is")
    obtain s1 n1 where f: "expire_stuck_run ft e before i (s, m) = (s1, n1)" by (cases "expire_stuck_run ft e before i (s, m)")
    show ?case
      using work_kept_trans [OF expire_stuck_run_kept [OF Cons.prems f] Cons.IH [OF expire_stuck_run_inv [OF Cons.prems f]]]
      by (simp add: f)
  qed simp
  with assms show ?thesis by (metis expire_stuck_jobs_def fst_conv sum.inject(2))
qed

lemma move_tags_kept:
  assumes "requeue_queued_jobs_for_app e spec s = Inr (t, n)"
  shows "work_kept s t"
proof -
  from assms obtain moves where t: "t = s\<lparr>sn_jobs := mmap (\<lambda>_ j. case moves j of None \<Rightarrow> j
      | Some tag \<Rightarrow> j\<lparr>job_payload := (job_payload j)\<lparr>jp_tag := tag\<rparr>, job_updated_at := clock e\<rparr>) (sn_jobs s)\<rparr>"
    and m: "moves = requeued_tag spec"
    by (auto simp: requeue_queued_jobs_for_app_def)
  have m: "moves j = Some tag \<Longrightarrow> job_state j = JobQueued" for j tag
    by (simp add: m requeued_tag_def split: option.splits if_splits)
  show ?thesis
  proof (rule work_kept_point)
    show "run_view t i = Some r" if "run_view s i = Some r" for i r using that by (simp add: t run_view_def)
    show "\<exists>j'. job_view t k = Some j' \<and> job_after j j'" if "job_view s k = Some j" for k j
      using that m [of j] by (auto simp: t job_view_def job_after_def job_settled_def split: option.splits)
  qed
qed

lemma prune_after:
  assumes inv: "store_inv s" and p: "prune_settled_jobs so fo s = Inr (t, n)"
  shows "work_after s t"
proof (cases "t = s")
  case False
  have ok: "map_ok (sn_runs s)" "map_ok (sn_jobs s)" using store_invD(1) [OF inv] by (simp_all add: maps_ok_def)
  from p False have "run_view t i = (if i \<in> set (expired_run_ids so fo s) then None else run_view s i)"
    and "job_view t k = (case job_view s k of Some j \<Rightarrow>
      if job_run j \<in> set (expired_run_ids so fo s) then None else Some j | None \<Rightarrow> None)" for i k
    by (auto simp: prune_settled_jobs_def Let_def run_view_def job_view_def map_of_mfilter ok
        split: if_splits option.splits)
  then show ?thesis by (auto simp: work_after_def split: if_splits)
qed (simp add: work_kept_after)

lemma local_step_after:
  assumes inv: "store_inv s" and u: "update e f s = Inr (t, x)"
    and f: "\<And>t'. store_inv (ensure_snapshot e s) \<Longrightarrow> f (ensure_snapshot e s) = Inr (t', x)
      \<Longrightarrow> work_after (ensure_snapshot e s) t'"
  shows "work_after s t"
  using u by (rule local_step) (use inv f in simp)

lemma store_step_after:
  assumes inv: "store_inv s" and step: "store_step C s t"
  shows "work_after s t"
  using step
proof cases
  case (step_create e r j u)
  then show ?thesis unfolding local_ops by (elim local_step_after [OF inv] work_kept_after [OF create_kept])
next
  case (step_cancel_job e w jid by_whom reason res)
  then show ?thesis unfolding local_ops by (elim local_step_after [OF inv] work_kept_after [OF cancel_job_kept])
next
  case (step_cancel_run e rid reason r)
  then show ?thesis unfolding local_ops by (elim local_step_after [OF inv] work_kept_after [OF cancel_run_kept])
next
  case (step_claim e worker tags labels ttl x)
  then show ?thesis unfolding local_ops by (elim local_step_after [OF inv] work_kept_after [OF claim_kept])
next
  case (step_heartbeat e l ttl h)
  then show ?thesis unfolding local_ops by (elim local_step_after [OF inv] work_kept_after [OF heartbeat_kept])
next
  case (step_succeeded e l res u)
  then show ?thesis unfolding local_ops
    by (elim local_step_after [OF inv] work_kept_after [OF complete_succeeded_kept [THEN conjunct1]])
next
  case (step_failed e l res u)
  then show ?thesis unfolding local_ops
    by (elim local_step_after [OF inv] work_kept_after [OF complete_failed_kept [THEN conjunct1]])
next
  case (step_waiting e l res task u)
  then show ?thesis unfolding local_ops
    by (elim local_step_after [OF inv] work_kept_after [OF complete_waiting_kept [THEN conjunct1]])
next
  case (step_resume e tid input x)
  then show ?thesis unfolding local_ops
    by (elim local_step_after [OF inv] work_kept_after [OF resume_kept]) simp_all
next
  case (step_retry e rid x)
  then show ?thesis unfolding local_ops
    by (elim local_step_after [OF inv] work_kept_after [OF retry_kept]) simp_all
next
  case (step_prune e so fo n)
  then show ?thesis unfolding local_ops by (elim local_step_after [OF inv] prune_after)
next
  case (step_expire ft e before n)
  then show ?thesis unfolding local_ops by (elim local_step_after [OF inv] work_kept_after [OF expire_stuck_jobs_kept])
next
  case (step_move_tags e spec n)
  then show ?thesis by (elim local_step_after [OF inv] work_kept_after [OF move_tags_kept])
next
  case step_other
  then show ?thesis by (simp add: work_after_def same_work_def)
qed

section \<open>Leases of the store\<close>

text \<open>
  Job identifiers are drawn at random and never drawn twice, also not after a job was pruned: the
  machine with the identifiers used so far.
\<close>

definition job_ids :: "snapshot \<Rightarrow> string set" where
  "job_ids s = dom (job_view s)"

definition used_good :: "snapshot \<times> string set \<Rightarrow> bool" where
  "used_good p \<longleftrightarrow> store_inv (fst p) \<and> job_ids (fst p) \<subseteq> snd p"

definition used_step :: "input_crypto \<Rightarrow> snapshot \<times> string set \<Rightarrow> snapshot \<times> string set \<Rightarrow> bool" where
  "used_step C p q \<longleftrightarrow> store_step C (fst p) (fst q) \<and> snd q = snd p \<union> job_ids (fst q)
     \<and> (job_ids (fst q) - job_ids (fst p)) \<inter> snd p = {}"

text \<open>A lease that is no longer held: its job was settled, requeued or claimed again, or is gone.\<close>

definition lease_stale :: "lease \<Rightarrow> snapshot \<times> string set \<Rightarrow> bool" where
  "lease_stale l p \<longleftrightarrow> lease_job l \<in> snd p \<and> (\<forall>j. job_view (fst p) (lease_job l) = Some j \<longrightarrow>
     job_settled j \<or> lease_attempt l < job_attempt j \<or> lease_attempt l = job_attempt j \<and> job_state j = JobQueued)"

text \<open>A worker reports with a lease: one of the three completions, accepted.\<close>

definition reports :: "input_crypto \<Rightarrow> lease \<Rightarrow> snapshot \<Rightarrow> snapshot \<Rightarrow> bool" where
  "reports C l s t \<longleftrightarrow> (\<exists>e res. local_complete_succeeded C e l res s = Inr (t, ()))
     \<or> (\<exists>e res. local_complete_failed C e l res s = Inr (t, ()))
     \<or> (\<exists>e res h. task_report_ok s l h \<and> local_complete_waiting_human C e l res h s = Inr (t, ()))"

definition reports_used :: "input_crypto \<Rightarrow> lease \<Rightarrow> snapshot \<times> string set \<Rightarrow> snapshot \<times> string set \<Rightarrow> bool" where
  "reports_used C l p q \<longleftrightarrow> reports C l (fst p) (fst q) \<and> snd q = snd p \<union> job_ids (fst q)"

lemma reports_step: "reports C l s t \<Longrightarrow> store_step C s t"
  unfolding reports_def by (auto intro: step_succeeded step_failed step_waiting)

lemma complete_leased_refused:
  assumes "\<And>j. job_view s (lease_job l) = Some j \<Longrightarrow> job_state j = JobRunning \<Longrightarrow> job_attempt j \<noteq> lease_attempt l"
  shows "complete_leased C e l fin s \<noteq> Inr (t, u)"
  using assms by (auto simp: complete_leased_Inr leased_job_and_run_Inr)

lemma local_settles:
  assumes "update e f s = Inr (t, u)" and "store_inv s"
    and "\<And>t'. store_inv (ensure_snapshot e s) \<Longrightarrow> f (ensure_snapshot e s) = Inr (t', u) \<Longrightarrow>
      work_kept (ensure_snapshot e s) t' \<and> (\<exists>j'. job_view t' k = Some j' \<and> job_settled j')"
  shows "\<exists>j'. job_view t k = Some j' \<and> job_settled j'"
  using assms(1) by (rule local_step) (use assms(2,3) in fastforce)

lemma reports_settles:
  assumes inv: "store_inv s" and r: "reports C l s t"
  shows "\<exists>j'. job_view t (lease_job l) = Some j' \<and> job_settled j'"
  using r unfolding reports_def local_ops
proof (elim disjE exE conjE)
  show ?thesis if "update e (complete_job_succeeded C e l res) s = Inr (t, ())" for e res
    using that inv by (rule local_settles) (rule complete_succeeded_kept)
  show ?thesis if "update e (complete_job_failed C e l res) s = Inr (t, ())" for e res
    using that inv by (rule local_settles) (rule complete_failed_kept)
  show ?thesis if "update e (complete_job_waiting_human C e l res h) s = Inr (t, ())" for e res h
    using that inv by (rule local_settles) (rule complete_waiting_kept)
qed

lemma used_goodI: "store_inv s \<Longrightarrow> used_good (s, U \<union> job_ids s)"
  by (simp add: used_good_def)

interpretation fencing: leases used_good "used_step C" lease_stale "reports_used C" for C
proof
  fix p q l t
  show "used_good q" if "used_good p" "used_step C p q"
    using that store_step_inv by (auto simp: used_good_def used_step_def)
  show "lease_stale l q" if "used_good p" "used_step C p q" "lease_stale l p"
  proof -
    have after: "work_after (fst p) (fst q)"
      using that store_step_after by (auto simp: used_good_def used_step_def)
    have "job_view (fst p) (lease_job l) \<noteq> None" if "job_view (fst q) (lease_job l) \<noteq> None"
      using \<open>used_step C p q\<close> \<open>lease_stale l p\<close> that by (auto simp: used_step_def lease_stale_def job_ids_def domIff)
    with that after show ?thesis
      unfolding lease_stale_def used_step_def work_after_def job_after_def by (fastforce split: if_splits)
  qed
  show "lease_stale l q" if "used_good p" "reports_used C l p q"
    using reports_settles that by (fastforce simp: lease_stale_def used_good_def reports_used_def job_ids_def)
  show "used_good q" if "used_good p" "reports_used C l p q"
    using that by (auto simp: used_good_def reports_used_def intro: store_step_inv [OF _ reports_step])
  show "\<not> reports_used C l p q" if "lease_stale l p"
  proof -
    have "complete_leased C e l fin (ensure_snapshot e' (fst p)) \<noteq> Inr (t, u)" for e e' fin t u
      by (rule complete_leased_refused) (use that in \<open>auto simp: lease_stale_def job_settled_def\<close>)
    then show ?thesis
      by (simp add: reports_used_def reports_def local_ops update_Inr complete_job_succeeded_def
          complete_job_failed_def complete_job_waiting_human_def)
  qed
qed

text \<open>What a granted claim did to its job.\<close>

lemma requeue_expired_job_ids:
  assumes inv: "store_inv s" and q: "requeue_expired_job C e k s = Inr t"
  shows "job_ids t = job_ids s"
proof (cases "t = s")
  case False
  from q False obtain j x where j: "job_view s k = Some j" "job_state j = JobRunning"
    and x: "job_lease_expires_at j = Some x" "\<not> clock e < x"
    by (auto simp: requeue_expired_job_def lookup_views split: option.splits if_splits)
  obtain r where r: "run_view s (job_run j) = Some r"
    using core_inv_job(3) [OF store_invD(2) [OF inv] j(1)] by blast
  have act: "job_active j" using j by (simp add: job_active_def)
  note id = ids_of(1) [OF inv j(1)]
  have "\<exists>y. job_view t = (job_view s)(k \<mapsto> y)"
  proof (cases "job_canceled_by j")
    case (Some actor)
    with q j x r have "finish_canceled C e j r actor (canceled_reason_value j) cancel_worker_lost_message s = Inr t"
      by (simp add: requeue_expired_job_def lookup_views)
    then show ?thesis
      using encrypt_stored_run_result_inv [OF apply_canceled_inv [OF inv j(1) act r]] id
      by (fastforce simp: finish_canceled_def apply_canceled_views(2))
  next
    case None
    with q j x id have "job_view t = (job_view s)(k \<mapsto> j\<lparr>job_state := JobQueued, job_lease_owner := '''',
        job_lease_expires_at := None, job_started_at := None, job_updated_at := clock e\<rparr>)"
      by (auto simp: requeue_expired_job_def lookup_views Let_def) (auto simp: job_view_def append_event_def)
    then show ?thesis by blast
  qed
  with j(1) show ?thesis by (auto simp: job_ids_def split: if_splits)
qed simp

lemma requeue_expired_job_ids_all:
  assumes inv: "store_inv s" and q: "requeue_expired_jobs C e s = Inr t"
  shows "job_ids t = job_ids s"
proof -
  have "store_inv t \<and> job_ids t = job_ids s"
    using q [unfolded requeue_expired_jobs_def]
  proof (rule fold_err_invariant)
    show "store_inv u' \<and> job_ids u' = job_ids s"
      if "store_inv u \<and> job_ids u = job_ids s" "requeue_expired_job C e k u = Inr u'" for k u u'
      using that requeue_expired_job_inv requeue_expired_job_ids by blast
  qed (simp add: inv)
  then show ?thesis by simp
qed

lemma start_run_job_view [simp]: "job_view (start_run e j s) = job_view s"
  by (auto simp: start_run_def Let_def split: option.splits)

lemma claim_grants:
  assumes inv: "store_inv s" and c: "local_claim_job C e w tags labels ttl s = Inr (t, (j', l))"
  shows "job_ids t = job_ids s
    \<and> (\<exists>j0. job_view s (lease_job l) = Some j0 \<and> job_attempt j0 < lease_attempt l)
    \<and> (\<exists>j. job_view t (lease_job l) = Some j \<and> job_attempt j = lease_attempt l)"
proof -
  from c obtain t' where c': "claim_job_for_worker C e w tags labels ttl (ensure_snapshot e s) = Inr (t', (j', l))"
    and t: "t = ensure_snapshot e t'" unfolding local_ops by (rule local_step)
  have inv0: "store_inv (ensure_snapshot e s)" using inv by simp
  obtain s1 j ty p where q: "requeue_expired_jobs C e (ensure_snapshot e s) = Inr s1"
    and ch: "claim_choice (normalize_claim_tags tags) (normalize_claim_tags labels) s1 = Some j"
    and j': "j' = start_job e (claim_worker_id e w) (lease_ttl ttl) j"
    and t': "t' = append_event (job_run j) ty p (clock e) (start_run e j' (put_job j' s1))"
    and l: "l = \<lparr>lease_job = job_id j, lease_worker = claim_worker_id e w, lease_expires_at = clock e + lease_ttl ttl,
          lease_attempt = job_attempt j + 1, lease_acquired_at = clock e\<rparr>"
    using c' by (rule claim_job_Inr)
  have inv1: "store_inv s1" by (rule requeue_expired_jobs_inv [OF inv0 q])
  from claim_choice_mem(1) [OF store_invD(1) [OF inv1] ch] obtain k where k: "job_view s1 k = Some j" by blast
  note id = ids_of(1) [OF inv1 k]
  have ids: "job_ids s1 = job_ids s" using requeue_expired_job_ids_all [OF inv0 q] by (simp add: job_ids_def)
  then obtain j0 where j0: "job_view s k = Some j0" using k by (auto simp: job_ids_def)
  have "work_kept s s1" using requeue_expired_jobs_kept [OF inv0 q] by simp
  with j0 k have "job_attempt j0 \<le> job_attempt j" by (fastforce simp: work_kept_def job_after_def split: if_splits)
  moreover have "job_view t = (job_view s1)(k \<mapsto> j')" using id by (simp add: t t' j' start_job_def)
  ultimately show ?thesis using j0 k id ids by (auto simp: l j' start_job_def job_ids_def)
qed

definition attempt_reached :: "lease \<Rightarrow> snapshot \<times> string set \<Rightarrow> bool" where
  "attempt_reached l p \<longleftrightarrow> lease_job l \<in> snd p \<and> (\<forall>j. job_view (fst p) (lease_job l) = Some j \<longrightarrow>
     lease_attempt l \<le> job_attempt j)"

lemma attempt_step:
  assumes "used_good p" and "used_step C p q" and "attempt_reached l p"
  shows "attempt_reached l q"
proof -
  have after: "work_after (fst p) (fst q)"
    using assms store_step_after by (auto simp: used_good_def used_step_def)
  have "job_view (fst p) (lease_job l) \<noteq> None" if "job_view (fst q) (lease_job l) \<noteq> None"
    using assms(2,3) that by (auto simp: used_step_def attempt_reached_def job_ids_def domIff)
  with assms(2,3) after show ?thesis
    unfolding attempt_reached_def used_step_def work_after_def job_after_def by (fastforce split: if_splits)
qed

lemma attempt_later:
  "(used_step C)\<^sup>*\<^sup>* p q \<Longrightarrow> used_good p \<Longrightarrow> attempt_reached l p \<Longrightarrow> used_good q \<and> attempt_reached l q"
  by (induction rule: rtranclp_induct) (auto intro: attempt_step fencing.good_step)

lemma stale_heartbeat:
  assumes "local_heartbeat_job e l ttl s = Inr (t, h)" and "lease_stale l (s, U)"
  shows "\<not> hb_still_owned h"
  using assms
  by (auto simp: local_heartbeat_job_def update_Inr heartbeat_job_def lookup_views Let_def lease_stale_def
      job_settled_def split: option.splits if_splits)

end
