(* ===== verification/One_Run.thy ===== *)
theory One_Run
  imports Lease_Fencing Catalog_Invariant
begin

text \<open>
  A store with one run, the input of the witnesses: created at time 1, claimed by \<^verbatim>\<open>w1\<close> at time 2 for
  30 seconds and, when that lease has run out, by \<^verbatim>\<open>w2\<close>. \<open>one_run\<close> describes such a store in any state
  of its job, and what the operations make of it is computed once here.
\<close>

section \<open>Stores with one run\<close>

definition one_run :: "job \<Rightarrow> run \<Rightarrow> snapshot \<Rightarrow> bool" where
  "one_run j r s \<longleftrightarrow> sn_jobs s = [(job_id j, j)] \<and> sn_runs s = [(run_id r, r)] \<and> job_run j = run_id r
     \<and> job_id j \<noteq> '''' \<and> job_required_labels j = [] \<and> job_canceled_by j = None \<and> raw_empty (run_output r)"


definition lease_of :: "job \<Rightarrow> time \<Rightarrow> duration \<Rightarrow> lease" where
  "lease_of j now ttl = \<lparr>lease_job = job_id j, lease_worker = job_lease_owner j, lease_expires_at = now + ttl,
     lease_attempt = job_attempt j, lease_acquired_at = now\<rparr>"

lemma one_run_ensure [simp]: "one_run j r (ensure_snapshot e s) = one_run j r s"
  by (simp add: one_run_def)

lemma required_same:
  assumes "job_payload j' = job_payload j"
  shows "job_required_labels j' = job_required_labels j" and "job_max_concurrent j' = job_max_concurrent j"
    and "job_app_key j' = job_app_key j" and "normalized_job_workspace w j' = normalized_job_workspace w j"
  unfolding job_required_labels_def job_max_concurrent_def job_app_key_def normalized_job_workspace_def assms
  by (rule refl)+

lemma job_max_concurrent_pos: "job_max_concurrent j = Some n \<Longrightarrow> 0 < n"
  by (auto simp: job_max_concurrent_def split: option.splits if_splits)

lemma one_run_below_limit: "one_run j r s \<Longrightarrow> job_state j = JobQueued \<Longrightarrow> \<not> max_concurrent_reached s j"
  using job_max_concurrent_pos [of j]
  by (auto simp: one_run_def max_concurrent_reached_def counts_against_def mvals_def split: option.splits)

lemma one_run_claimed: "one_run j r s \<Longrightarrow> job_state j = JobQueued \<Longrightarrow> claim_choice [] [] s = Some j"
  using one_run_below_limit [of j r s]
  by (simp add: one_run_def claim_choice_def claim_candidates_def mvals_def claim_allowed_def)

lemma one_run_put: "one_run j r s \<Longrightarrow> job_id j' = job_id j \<Longrightarrow> job_run j' = job_run j \<Longrightarrow> job_payload j' = job_payload j \<Longrightarrow>
    job_canceled_by j' = None \<Longrightarrow> one_run j' r (put_job j' s)"
  using required_same [of j' j] by (auto simp: one_run_def put_job_def mput_def)

lemma one_run_put_run: "one_run j r s \<Longrightarrow> run_id r' = run_id r \<Longrightarrow> run_output r' = run_output r \<Longrightarrow> one_run j r' (put_run r' s)"
  by (auto simp: one_run_def put_run_def mput_def)

lemma one_run_event [simp]: "one_run j r (append_event i ty p now s) = one_run j r s"
  by (simp add: one_run_def append_event_def)

lemma one_run_lookup:
  "one_run j r s \<Longrightarrow> map_of (sn_jobs s) (job_id j) = Some j"
  "one_run j r s \<Longrightarrow> map_of (sn_runs s) (job_run j) = Some r"
  "one_run j r s \<Longrightarrow> mkeys (sn_jobs s) = [job_id j]"
  by (simp_all add: one_run_def mkeys_def)

lemma one_run_start:
  assumes "one_run j r s"
  shows "\<exists>r'. one_run j r' (start_run e j s) \<and> run_id r' = run_id r"
proof (cases "run_state r = RunQueued \<or> run_state r = RunResuming")
  case True
  have "one_run j (r\<lparr>run_state := RunRunning, run_updated_at := clock e\<rparr>)
      (put_run (r\<lparr>run_state := RunRunning, run_updated_at := clock e\<rparr>) s)"
    using assms by (rule one_run_put_run) simp_all
  with True one_run_lookup(2) [OF assms] show ?thesis
    by (auto simp: start_run_def Let_def intro!: exI [of _ "r\<lparr>run_state := RunRunning, run_updated_at := clock e\<rparr>"])
next
  case False
  with one_run_lookup(2) [OF assms] assms show ?thesis by (auto simp: start_run_def)
qed

text \<open>Claiming the job of such a store, queued or with a lease that has run out.\<close>

lemma one_run_requeue:
  assumes "one_run j r s"
    and "job_state j = JobQueued \<or> job_state j = JobRunning \<and> (\<exists>t. job_lease_expires_at j = Some t \<and> t \<le> clock e)"
  shows "\<exists>j' s'. requeue_expired_jobs C e s = Inr s' \<and> one_run j' r s' \<and> job_state j' = JobQueued
    \<and> job_attempt j' = job_attempt j \<and> job_id j' = job_id j \<and> job_payload j' = job_payload j"
proof (cases "job_state j = JobQueued")
  case True
  with one_run_lookup [OF assms(1)] assms(1) show ?thesis
    by (auto simp: requeue_expired_jobs_def requeue_expired_job_def)
next
  case False
  let ?j = "j\<lparr>job_state := JobQueued, job_lease_owner := '''', job_lease_expires_at := None,
                        job_started_at := None, job_updated_at := clock e\<rparr>"
  have "s\<lparr>sn_jobs := mput (job_id j) ?j (sn_jobs s)\<rparr> = put_job ?j s" by (simp add: put_job_def)
  moreover have "one_run ?j r (put_job ?j s)"
    using assms(1) by (intro one_run_put) (auto simp: one_run_def)
  moreover have "job_canceled_by j = None" using assms(1) by (simp add: one_run_def)
  ultimately show ?thesis
    using False assms(2) one_run_lookup [OF assms(1)]
    by (auto simp: requeue_expired_jobs_def requeue_expired_job_def Let_def one_run_put intro!: exI [of _ ?j])
qed

lemma one_run_claim:
  assumes one: "one_run j r s" and w: "w \<noteq> ''''" and ttl: "0 < ttl"
    and st: "job_state j = JobQueued \<or> job_state j = JobRunning \<and> (\<exists>t. job_lease_expires_at j = Some t \<and> t \<le> clock e)"
  shows "\<exists>j' r' t. local_claim_job C e w [] [] ttl s = Inr (t, (j', lease_of j' (clock e) ttl)) \<and> one_run j' r' t
    \<and> run_id r' = run_id r \<and> job_state j' = JobRunning \<and> job_attempt j' = job_attempt j + 1 \<and> job_lease_owner j' = w \<and> job_id j' = job_id j
    \<and> job_lease_expires_at j' = Some (clock e + ttl) \<and> job_payload j' = job_payload j"
proof -
  have "one_run j r (ensure_snapshot e s)" using one by simp
  from one_run_requeue [OF this st] obtain q s1 where q: "requeue_expired_jobs C e (ensure_snapshot e s) = Inr s1"
    "one_run q r s1" "job_state q = JobQueued" "job_attempt q = job_attempt j" "job_id q = job_id j"
    "job_payload q = job_payload j" by blast
  let ?j = "start_job e w ttl q"
  have j: "job_id ?j = job_id q" "job_run ?j = job_run q" "job_attempt ?j = job_attempt q + 1" "job_state ?j = JobRunning"
    "job_lease_owner ?j = w" "job_lease_expires_at ?j = Some (clock e + ttl)"
    "job_payload ?j = job_payload q" by (simp_all add: start_job_def)
  have "one_run ?j r (put_job ?j s1)" using q(2) by (intro one_run_put) (auto simp: start_job_def one_run_def)
  from one_run_start [OF this] obtain r' where r': "one_run ?j r' (start_run e ?j (put_job ?j s1))" "run_id r' = run_id r" by blast
  have "normalize_claim_tags [] = []" by (simp add: normalize_claim_tags_def)
  moreover have "job_id q \<noteq> ''''" using q(2) by (simp add: one_run_def)
  ultimately show ?thesis
    using q one_run_claimed [OF q(2,3)] r' j w ttl
    by (auto simp: local_claim_job_def update_def claim_job_for_worker_def claim_worker_id_def lease_ttl_def Let_def
        lease_of_def one_run_put intro!: exI)
qed

text \<open>Canceling it while it runs, and what its worker or the next claim makes of that.\<close>

definition one_canceled :: "job \<Rightarrow> run \<Rightarrow> string \<Rightarrow> snapshot \<Rightarrow> bool" where
  "one_canceled j r who s \<longleftrightarrow> sn_jobs s = [(job_id j, j)] \<and> sn_runs s = [(run_id r, r)] \<and> job_run j = run_id r
     \<and> job_state j = JobRunning \<and> job_canceled_by j = Some who \<and> raw_empty (run_output r)"

lemma one_canceled_ensure [simp]: "one_canceled j r who (ensure_snapshot e s) = one_canceled j r who s"
  by (simp add: one_canceled_def)

lemma one_run_cancel:
  assumes one: "one_run j r s" and st: "job_state j = JobRunning" "\<not> is_terminal r"
    and w: "normalized_job_workspace '''' j = normalize_workspace w"
  shows "\<exists>u j' res. local_cancel_job C e w (job_id j) who reason s = Inr (u, res) \<and> cr_soft_canceled res
    \<and> one_canceled j' r (cancel_actor_subject j r who) u \<and> job_lease_expires_at j' = job_lease_expires_at j
    \<and> job_id j' = job_id j \<and> job_attempt j' = job_attempt j \<and> job_lease_owner j' = job_lease_owner j"
proof -
  have one': "one_run j r (ensure_snapshot e s)" using one by simp
  show ?thesis
    using one_run_lookup [OF one'] one st w
    by (auto simp: local_cancel_job_def update_def cancel_job_def Let_def one_canceled_def one_run_def put_job_def
        mput_def intro!: exI)
qed

lemma encrypt_run_result_total:
  assumes "raw_empty (run_output r)" and "\<And>res. run_result r = Some res \<Longrightarrow> json_valid (canonical_json_value (res_output res) null_doc)"
  shows "\<exists>r'. encrypt_run_result C e w r = Inr r'"
proof (cases "run_result r")
  case (Some res)
  obtain out where "encrypt_job_result C (draw_nonce e (run_id r @ ''/result'') 0) w res = Inr out"
    using encrypt_local_total [OF assms(2) [OF Some]]
    by (fastforce simp: encrypt_job_result_def encrypt_result_def encrypt_result_at_rest_def and_then_eq_Inr)
  with Some assms(1) show ?thesis by (simp add: encrypt_run_result_def)
qed (simp add: encrypt_run_result_def assms(1))

lemma one_canceled_finish:
  assumes "one_canceled j r who s"
  shows "\<exists>u. finish_canceled C e j r who reason m s = Inr u \<and> mkeys (sn_jobs u) = [job_id j]
    \<and> map_option job_state (map_of (sn_jobs u) (job_id j)) = Some JobFailed
    \<and> map_option run_state (map_of (sn_runs u) (run_id r)) = Some RunCanceled"
proof -
  let ?s = "apply_canceled_job j r who reason m (clock e) s"
  obtain r1 where r1: "run_view ?s (run_id r) = Some r1" "raw_empty (run_output r1)" "run_state r1 = RunCanceled"
    "\<And>res. run_result r1 = Some res \<Longrightarrow> json_valid (canonical_json_value (res_output res) null_doc)"
    using assms by (auto simp: apply_canceled_views(1) one_canceled_def canceled_job_result_def canonical_json_value_def)
  obtain r2 where r2: "encrypt_run_result C e (normalized_job_workspace '''' j) r1 = Inr r2"
    using encrypt_run_result_total [OF r1(2,4)] by blast
  have "mkeys (sn_jobs ?s) = [job_id j]" "map_option job_state (map_of (sn_jobs ?s) (job_id j)) = Some JobFailed"
    using assms by (auto simp: apply_canceled_job_def Let_def one_canceled_def mkeys_def mput_def put_job_def put_run_def
        append_event_def)
  then show ?thesis
    using r1 r2 encrypt_run_result_frame [OF r2]
    by (simp add: finish_canceled_def encrypt_stored_run_result_def lookup_views)
      (simp add: run_view_def job_view_def)
qed

lemma one_canceled_report:
  assumes one: "one_canceled j r who s" and t: "job_lease_expires_at j = Some t" "clock e \<le> t"
  shows "\<exists>u. local_complete_succeeded C e (lease_of j now ttl) res s = Inr (u, ())"
proof -
  have one': "one_canceled j r who (ensure_snapshot e s)" using one by simp
  then have l: "leased_job_and_run (ensure_snapshot e s) (lease_of j now ttl) (clock e) = Inr (j, r)" "job_canceled_by j = Some who"
    using t by (simp_all add: leased_job_and_run_def lease_of_def one_canceled_def)
  with one_canceled_finish [OF one', of C e "canceled_reason_value j" cancel_during_execution_message] show ?thesis
    by (auto simp: local_complete_succeeded_def update_def complete_job_succeeded_def complete_leased_def)
qed

text \<open>Completing it while the lease is held.\<close>

lemma one_run_done:
  assumes one: "one_run j r s" and st: "job_state j = JobRunning" "job_lease_expires_at j = Some t" "clock e \<le> t"
    and res: "json_valid (canonical_json_value (res_output res) null_doc)"
  shows "\<exists>u. local_complete_succeeded C e (lease_of j now ttl) res s = Inr (u, ())
    \<and> map_option run_state (map_of (sn_runs u) (run_id r)) = Some RunSucceeded
    \<and> map_option job_state (map_of (sn_jobs u) (job_id j)) = Some JobSucceeded"
proof -
  have one': "one_run j r (ensure_snapshot e s)" using one by simp
  have l: "leased_job_and_run (ensure_snapshot e s) (lease_of j now ttl) (clock e) = Inr (j, r)"
    using one_run_lookup [OF one'] st by (simp add: leased_job_and_run_def lease_of_def)
  obtain out where "encrypt_job_result C (draw_nonce e ''result'' 0) (normalized_job_workspace '''' j) res = Inr out"
    using encrypt_local_total [OF res]
    by (fastforce simp: encrypt_job_result_def encrypt_result_def encrypt_result_at_rest_def and_then_eq_Inr)
  moreover have "job_canceled_by j = None" using one by (simp add: one_run_def)
  ultimately show ?thesis using l
    by (simp add: local_complete_succeeded_def update_def complete_job_succeeded_def complete_leased_def Let_def
        finish_job_def lookup_views)
qed

section \<open>The example\<close>

definition ex_plain :: input_crypto where "ex_plain = ex_crypto '''' JNull"

definition ex_at :: "time \<Rightarrow> call_env" where
  "ex_at t = \<lparr>clock = t, draw_id = (\<lambda>p n. p @ itoa t), draw_nonce = (\<lambda>s n. ''000000000000'')\<rparr>"

definition ex_run :: run where
  "ex_run = new_run (ex_at 1) ''api'' ''r1'' ''crawler'' ''fetch''
     ((ex_deployment ''c1'')\<lparr>dep_max_concurrent := Some 1\<rparr>) empty_object"

definition ex_job :: job where "ex_job = new_action_job (ex_at 1) ex_run raw_nil"

definition state_of :: "store_error + snapshot \<times> 'r \<Rightarrow> snapshot" where
  "state_of x = (case x of Inr (t, r) \<Rightarrow> t | Inl e \<Rightarrow> empty_snapshot)"

definition ex_created :: snapshot where
  "ex_created = state_of (local_create_run ex_plain (ex_at 1) ex_run ex_job (new_snapshot (ex_at 0)))"

definition ex_result :: job_result where
  "ex_result = \<lparr>res_job = ''job1'', res_app = ''crawler'', res_action = ''fetch'', res_output = RawDoc (JStr ''ok''),
     res_exit_code = 0, res_stdout = '''', res_stderr = '''', res_duration_ms = 1, res_error = ''''\<rparr>"

text \<open>What has to be known of the created store, as one value.\<close>

definition created_facts :: "store_error + snapshot \<times> 'r \<Rightarrow> bool" where
  "created_facts x = (case x of Inl e \<Rightarrow> False
     | Inr (s, _) \<Rightarrow> mkeys (sn_jobs s) = [''job1''] \<and> mkeys (sn_runs s) = [''r1'']
         \<and> list_all (\<lambda>j. job_id j = ''job1'' \<and> job_run j = ''r1'' \<and> job_required_labels j = []
             \<and> job_max_concurrent j = Some 1 \<and> job_app_key j = ''crawler'' \<and> normalized_job_workspace '''' j = ''main'' \<and> job_canceled_by j = None \<and> job_state j = JobQueued \<and> job_attempt j = 0)
             (mvals (sn_jobs s))
         \<and> list_all (\<lambda>r. run_id r = ''r1'' \<and> run_state r = RunQueued \<and> raw_empty (run_output r)) (mvals (sn_runs s)))"

lemma ex_create_facts: "created_facts (local_create_run ex_plain (ex_at 1) ex_run ex_job (new_snapshot (ex_at 0)))"
  by code_simp

lemma single_entry: "mkeys m = [k] \<Longrightarrow> list_all P (mvals m) \<Longrightarrow> \<exists>v. m = [(k, v)] \<and> P v"
  by (cases m) (auto simp: mkeys_def mvals_def)

lemma ex_create: "local_create_run ex_plain (ex_at 1) ex_run ex_job (new_snapshot (ex_at 0)) = Inr (ex_created, ())"
  using ex_create_facts by (auto simp: created_facts_def ex_created_def state_of_def split: sum.splits)

lemma ex_one: "\<exists>j r. one_run j r ex_created \<and> job_id j = ''job1'' \<and> run_id r = ''r1'' \<and> job_state j = JobQueued
    \<and> job_attempt j = 0 \<and> run_state r = RunQueued \<and> job_max_concurrent j = Some 1 \<and> job_app_key j = ''crawler''
    \<and> normalized_job_workspace '''' j = ''main''"
proof -
  have f: "created_facts (Inr (ex_created, ()))" using ex_create_facts by (simp add: ex_create)
  obtain j where "sn_jobs ex_created = [(''job1'', j)]" "job_id j = ''job1''" "job_run j = ''r1''"
    "job_required_labels j = []" "job_max_concurrent j = Some 1" "job_app_key j = ''crawler''" "job_canceled_by j = None"
    "normalized_job_workspace '''' j = ''main''" "job_state j = JobQueued"
    "job_attempt j = 0"
    using f unfolding created_facts_def by (auto dest!: single_entry)
  moreover obtain r where "sn_runs ex_created = [(''r1'', r)]" "run_id r = ''r1''" "run_state r = RunQueued" "raw_empty (run_output r)"
    using f unfolding created_facts_def by (auto dest!: single_entry)
  ultimately show ?thesis by (auto simp: one_run_def)
qed

lemma ex_fresh_pair: "fresh_pair ex_run ex_job"
  unfolding ex_run_def ex_job_def by (rule fresh_pair_new) (simp add: ex_at_def)

lemma ex_created_reachable: "reachable store_start (store_step ex_plain) ex_created"
proof -
  have "reachable store_start (store_step ex_plain) (new_snapshot (ex_at 0))"
    by (rule reachable_start) (auto simp: store_start_def)
  moreover have "store_step ex_plain (new_snapshot (ex_at 0)) ex_created"
    using ex_create ex_fresh_pair by (rule step_create)
  ultimately show ?thesis by (rule reachable_step)
qed

text \<open>Claimed by \<^verbatim>\<open>w1\<close>.\<close>

lemma ex_claim:
  "\<exists>j r t. local_claim_job ex_plain (ex_at 2) ''w1'' [] [] (seconds 30) ex_created
      = Inr (t, (j, lease_of j 2 (seconds 30))) \<and> one_run j r t \<and> run_id r = ''r1''
    \<and> job_state j = JobRunning \<and> job_attempt j = 1 \<and> job_lease_owner j = ''w1'' \<and> job_id j = ''job1''
    \<and> job_lease_expires_at j = Some (2 + seconds 30) \<and> job_max_concurrent j = Some 1 \<and> job_app_key j = ''crawler''
    \<and> normalized_job_workspace '''' j = ''main''"
proof -
  obtain j r where j: "one_run j r ex_created" "job_id j = ''job1''" "run_id r = ''r1''" "job_state j = JobQueued"
    "job_attempt j = 0" "job_max_concurrent j = Some 1" "job_app_key j = ''crawler''" "normalized_job_workspace '''' j = ''main''"
    using ex_one by blast
  have "clock (ex_at 2) = 2" by (simp add: ex_at_def)
  with one_run_claim [OF j(1), of "''w1''" "seconds 30" "ex_at 2" ex_plain] j
  obtain j' r' t where c: "local_claim_job ex_plain (ex_at 2) ''w1'' [] [] (seconds 30) ex_created
      = Inr (t, (j', lease_of j' 2 (seconds 30)))" "one_run j' r' t" "run_id r' = ''r1''" "job_state j' = JobRunning"
    "job_attempt j' = 1" "job_lease_owner j' = ''w1''" "job_id j' = ''job1''"
    "job_lease_expires_at j' = Some (2 + seconds 30)" "job_payload j' = job_payload j"
    by (fastforce simp: seconds_def)
  with required_same [OF c(9)] j show ?thesis by metis
qed

end
