(* ===== verification/Run_Properties.thy ===== *)
theory Run_Properties
  imports One_Run
begin

text \<open>
  The properties of runs, jobs and leases over the whole life of a store.
\<close>

section \<open>The invariant of the store\<close>

text \<open>C1. In every reachable store a run is queued, running or resuming exactly when one job of it is
queued or running, and then only that one; it waits for a human exactly when a task of it is pending;
a running job has a lease and a run that is running; and events are numbered in strict order.\<close>

theorem work_is_consistent:
  assumes "reachable store_start (store_step C) s"
  shows "(\<forall>i r. map_of (sn_runs s) i = Some r \<longrightarrow>
      (run_state r \<in> {RunQueued, RunRunning, RunResuming} \<longleftrightarrow>
        (\<exists>!k. \<exists>j. map_of (sn_jobs s) k = Some j \<and> job_run j = i \<and> job_state j \<in> {JobQueued, JobRunning}))
      \<and> (run_state r = RunWaitingHuman \<longleftrightarrow>
        (\<exists>k t. map_of (sn_tasks s) k = Some t \<and> task_run t = i \<and> task_state t = TaskPending)))
    \<and> (\<forall>k j. map_of (sn_jobs s) k = Some j \<longrightarrow> job_state j = JobRunning \<longrightarrow>
        job_lease_expires_at j \<noteq> None \<and> map_option run_state (map_of (sn_runs s) (job_run j)) = Some RunRunning)
    \<and> sorted_wrt (<) (map ev_id (sn_events s))"
proof -
  note inv = store.reachable_good [OF assms]
  note c = store_invD [OF inv]
  have act: "job_state j \<in> {JobQueued, JobRunning} \<longleftrightarrow> job_active j" for j by (auto simp: job_active_def)
  have run: "(run_active r \<longleftrightarrow> (\<exists>!k. \<exists>j. job_view s k = Some j \<and> job_run j = i \<and> job_active j))
      \<and> (run_state r = RunWaitingHuman \<longleftrightarrow> (\<exists>k t. task_view s k = Some t \<and> task_run t = i \<and> task_state t = TaskPending))"
    if r: "run_view s i = Some r" for i r
  proof (intro conjI iffI)
    show "\<exists>!k. \<exists>j. job_view s k = Some j \<and> job_run j = i \<and> job_active j" if "run_active r"
      using core_inv_run(2) [OF c(2) r that] core_inv_single [OF c(2)] by metis
    show "run_active r" if "\<exists>!k. \<exists>j. job_view s k = Some j \<and> job_run j = i \<and> job_active j"
      using that active_job_run [OF c(2)] r by blast
    show "\<exists>k t. task_view s k = Some t \<and> task_run t = i \<and> task_state t = TaskPending" if "run_state r = RunWaitingHuman"
      using core_inv_run(3) [OF c(2) r that] by blast
    show "run_state r = RunWaitingHuman" if "\<exists>k t. task_view s k = Some t \<and> task_run t = i \<and> task_state t = TaskPending"
      using that pending_task_run(1) [OF c(2)] r by blast
  qed
  have "job_lease_expires_at j \<noteq> None \<and> map_option run_state (run_view s (job_run j)) = Some RunRunning"
    if "job_view s k = Some j" "job_state j = JobRunning" for k j
    using core_inv_job(3) [OF c(2) that(1)] that(2) by (auto simp: job_fits_def)
  with run c(3) show ?thesis
    unfolding lookup_views act run_active_cases [symmetric] by (simp add: events_ok_def)
qed

theorem work_is_consistent_witness:
  "\<exists>!k. \<exists>j. map_of (sn_jobs ex_created) k = Some j \<and> job_run j = ''r1'' \<and> job_state j \<in> {JobQueued, JobRunning}"
proof -
  obtain r where "map_of (sn_runs ex_created) ''r1'' = Some r" "run_state r = RunQueued"
    using ex_one one_run_lookup(2) by (metis one_run_def)
  with work_is_consistent [OF ex_created_reachable, THEN conjunct1, THEN spec, THEN spec, THEN mp, of "''r1''" r]
  show ?thesis by simp
qed

text \<open>C2. Every operation moves every run along an edge of that operation or not at all, and every job
likewise: a run is created queued; only a claim starts a run, and only a queued or resuming one; only a
completion of its own kind, or a requested cancellation, settles or parks a running one; only a resume
leaves the wait for a human; a retry accepts failed, canceled and expired runs and no others; only a
prune deletes, and only settled runs and jobs. A job's attempt grows by one with each claim and changes
in no other way.\<close>

theorem runs_follow_life_cycle:
  assumes "reachable store_start (store_step C) s" and "op_step C op s t"
  shows "(map_option run_state (map_of (sn_runs t) i) = map_option run_state (map_of (sn_runs s) i)
      \<or> run_edge op (map_option run_state (map_of (sn_runs s) i)) (map_option run_state (map_of (sn_runs t) i)))
    \<and> (map_option (\<lambda>j. (job_state j, job_attempt j)) (map_of (sn_jobs t) k)
        = map_option (\<lambda>j. (job_state j, job_attempt j)) (map_of (sn_jobs s) k)
      \<or> job_edge op (map_option (\<lambda>j. (job_state j, job_attempt j)) (map_of (sn_jobs s) k))
          (map_option (\<lambda>j. (job_state j, job_attempt j)) (map_of (sn_jobs t) k)))"
proof -
  note m = op_step_moves [OF store.reachable_good [OF assms(1)] assms(2), unfolded along_def stages_def run_states_def
      job_stages_def fst_conv snd_conv]
  from m [THEN conjunct1, THEN spec, of i] m [THEN conjunct2, THEN spec, of k] show ?thesis
    unfolding lookup_views by (simp only: eq_commute disj_commute)
qed

theorem runs_follow_life_cycle_witness:
  "\<exists>t. op_step ex_plain OpClaim ex_created t
     \<and> map_option (\<lambda>j. (job_state j, job_attempt j)) (map_of (sn_jobs t) ''job1'') = Some (JobRunning, 1)
     \<and> job_edge OpClaim (Some (JobQueued, 0)) (Some (JobRunning, 1))"
proof -
  obtain j0 where j0: "map_of (sn_jobs ex_created) ''job1'' = Some j0" "job_state j0 = JobQueued" "job_attempt j0 = 0"
    using ex_one one_run_lookup(1) by metis
  obtain j r t where c: "local_claim_job ex_plain (ex_at 2) ''w1'' [] [] (seconds 30) ex_created
      = Inr (t, (j, lease_of j 2 (seconds 30)))" and j: "one_run j r t" "job_state j = JobRunning" "job_attempt j = 1" "job_id j = ''job1''"
    using ex_claim by blast
  have step: "op_step ex_plain OpClaim ex_created t" unfolding op_step.simps using c by blast
  with runs_follow_life_cycle [OF ex_created_reachable step, THEN conjunct2, of "''job1''"] j0 j one_run_lookup(1) [OF j(1)]
  show ?thesis by (auto simp del: op_step.simps job_edge_simps)
qed

section \<open>What is never undone\<close>

text \<open>A result is final: once a run has succeeded, no operation changes its record in any way except
the prune that deletes it; and a job that is settled stays as it is in the same sense.\<close>

theorem settled_work_is_final:
  assumes "reachable store_start (store_step C) s" and "store_step C s t"
  shows "(\<forall>i r. map_of (sn_runs s) i = Some r \<longrightarrow> run_state r = RunSucceeded \<longrightarrow>
       map_of (sn_runs t) i = Some r \<or> map_of (sn_runs t) i = None)
     \<and> (\<forall>k j. map_of (sn_jobs s) k = Some j \<longrightarrow> job_state j \<in> {JobSucceeded, JobFailed} \<longrightarrow>
       map_of (sn_jobs t) k = Some j \<or> map_of (sn_jobs t) k = None)"
proof -
  have after: "work_after s t" by (rule store_step_after [OF store.reachable_good [OF assms(1)] assms(2)])
  have "job_view t k = Some j \<or> job_view t k = None" if "job_view s k = Some j" "job_state j \<in> {JobSucceeded, JobFailed}" for k j
    using after that by (cases "job_view t k") (auto simp: work_after_def job_after_def job_settled_def)
  with after show ?thesis by (simp add: lookup_views work_after_def)
qed

lemma ex_done:
  "\<exists>j t u. local_complete_succeeded ex_plain (ex_at 3) (lease_of j 2 (seconds 30)) ex_result t = Inr (u, ())
    \<and> reachable store_start (store_step ex_plain) t \<and> reachable store_start (store_step ex_plain) u
    \<and> map_option run_state (map_of (sn_runs u) ''r1'') = Some RunSucceeded
    \<and> map_option job_state (map_of (sn_jobs u) ''job1'') = Some JobSucceeded"
proof -
  obtain j r t where c: "local_claim_job ex_plain (ex_at 2) ''w1'' [] [] (seconds 30) ex_created
      = Inr (t, (j, lease_of j 2 (seconds 30)))" and j: "one_run j r t" "job_state j = JobRunning" "job_id j = ''job1''"
    "job_lease_expires_at j = Some (2 + seconds 30)" "run_id r = ''r1''"
    using ex_claim by blast
  have t: "reachable store_start (store_step ex_plain) t" by (rule reachable_step [OF ex_created_reachable step_claim [OF c]])
  have "canonical_json_value (res_output ex_result) null_doc = RawDoc (JStr ''ok'')"
    by (simp add: ex_result_def canonical_json_value_def)
  then obtain u where u: "local_complete_succeeded ex_plain (ex_at 3) (lease_of j 2 (seconds 30)) ex_result t = Inr (u, ())"
    "map_option run_state (map_of (sn_runs u) (run_id r)) = Some RunSucceeded"
    "map_option job_state (map_of (sn_jobs u) (job_id j)) = Some JobSucceeded"
    using one_run_done [OF j(1,2,4), of "ex_at 3" ex_result ex_plain 2 "seconds 30"] by (auto simp: ex_at_def seconds_def)
  have "reachable store_start (store_step ex_plain) u" by (rule reachable_step [OF t step_succeeded [OF u(1)]])
  with u t j(3,5) show ?thesis by metis
qed

theorem settled_work_is_final_witness:
  "\<exists>s t r. store_step ex_plain s t \<and> map_of (sn_runs s) ''r1'' = Some r \<and> run_state r = RunSucceeded
     \<and> map_of (sn_runs t) ''r1'' = Some r"
proof -
  obtain u where u: "reachable store_start (store_step ex_plain) u"
    "map_option run_state (map_of (sn_runs u) ''r1'') = Some RunSucceeded" using ex_done by metis
  then obtain r where r: "map_of (sn_runs u) ''r1'' = Some r" "run_state r = RunSucceeded" by blast
  let ?l = "\<lparr>lease_job = ''none'', lease_worker = ''w'', lease_expires_at = 0, lease_attempt = 0, lease_acquired_at = 0\<rparr>"
  have "\<exists>t h. local_heartbeat_job (ex_at 4) ?l 0 u = Inr (t, h) \<and> run_view t = run_view u"
    by (auto simp: local_heartbeat_job_def update_def heartbeat_job_def Let_def lookup_views split: option.splits)
  then obtain t h where t: "local_heartbeat_job (ex_at 4) ?l 0 u = Inr (t, h)" "run_view t = run_view u" by blast
  have st: "store_step ex_plain u t" using t(1) by (rule step_heartbeat)
  from settled_work_is_final [OF u(1) st, THEN conjunct1, THEN spec, THEN spec, THEN mp, THEN mp, OF r] t(2) r
  have "map_of (sn_runs t) ''r1'' = Some r" by (auto simp: lookup_views)
  with r st show ?thesis by blast
qed

text \<open>C4. A result is reported once: after a completion was accepted with a lease, no completion of any
kind is accepted with it again, whatever happened to the store in between.\<close>

theorem result_reported_once:
  assumes "reachable store_start (store_step C) s" and "reports C l s t"
    and "(used_step C)\<^sup>*\<^sup>* (t, U \<union> job_ids t) (u, V)"
  shows "\<not> reports C l u v"
proof -
  let ?U = "U \<union> job_ids t - (job_ids s - job_ids t)"
  have "store_inv t" using store_step_inv [OF store.reachable_good [OF assms(1)] reports_step [OF assms(2)]] .
  moreover have "lease_stale l (t, U \<union> job_ids t)"
    using reports_settles [OF store.reachable_good [OF assms(1)] assms(2)]
    by (auto simp: lease_stale_def job_ids_def)
  ultimately have "\<not> reports_used C l (u, V) (v, V \<union> job_ids v)"
    using fencing.lost_lease [OF used_goodI _ assms(3)] by blast
  then show ?thesis by (simp add: reports_used_def)
qed

theorem result_reported_once_witness:
  "\<exists>l s t. reports ex_plain l s t \<and> (\<forall>u. \<not> reports ex_plain l t u)"
proof -
  obtain j t u where "reachable store_start (store_step ex_plain) t"
    "local_complete_succeeded ex_plain (ex_at 3) (lease_of j 2 (seconds 30)) ex_result t = Inr (u, ())"
    using ex_done by blast
  then have r: "reachable store_start (store_step ex_plain) t" "reports ex_plain (lease_of j 2 (seconds 30)) t u"
    by (auto simp: reports_def)
  from result_reported_once [OF r rtranclp.rtrancl_refl] r(2) show ?thesis by blast
qed

text \<open>C3. A lost lease is fenced off: once another claim of the same job was granted, its attempt is
larger, every completion with the old lease is refused and every heartbeat with it answers that the
job is not owned, then and at any later time.\<close>

theorem lost_lease_is_fenced:
  assumes "reachable store_start (store_step C) s"
    and "local_claim_job C e1 w1 tags1 labels1 ttl1 s = Inr (t, (j1, l1))"
    and "(used_step C)\<^sup>*\<^sup>* (t, U \<union> job_ids t) (u, V)"
    and "local_claim_job C e2 w2 tags2 labels2 ttl2 u = Inr (v, (j2, l2))" and "lease_job l2 = lease_job l1"
    and "(used_step C)\<^sup>*\<^sup>* (v, V) (x, W)"
  shows "lease_attempt l1 < lease_attempt l2 \<and> \<not> reports C l1 x y
    \<and> (\<forall>e ttl z h. local_heartbeat_job e l1 ttl x = Inr (z, h) \<longrightarrow> \<not> hb_still_owned h)"
proof -
  have inv: "store_inv s" "store_inv t"
    using store.reachable_good [OF assms(1)] store_step_inv [OF _ step_claim [OF assms(2)]] by blast+
  have t: "\<exists>j. job_view t (lease_job l1) = Some j \<and> job_attempt j = lease_attempt l1"
    using claim_grants [OF inv(1) assms(2)] by blast
  have u: "used_good (u, V) \<and> attempt_reached l1 (u, V)"
    by (rule attempt_later [OF assms(3)]) (use inv t in \<open>auto simp: used_good_def attempt_reached_def job_ids_def\<close>)
  then have invu: "store_inv u" "job_ids u \<subseteq> V" by (simp_all add: used_good_def)
  obtain j0 j where j: "job_view u (lease_job l2) = Some j0" "job_attempt j0 < lease_attempt l2"
    "job_view v (lease_job l2) = Some j" "job_attempt j = lease_attempt l2" and ids: "job_ids v = job_ids u"
    using claim_grants [OF invu(1) assms(4)] by blast
  with u assms(5) have less: "lease_attempt l1 < lease_attempt l2" by (auto simp: attempt_reached_def)
  have "used_good (v, V)"
    using invu ids store_step_inv [OF invu(1) step_claim [OF assms(4)]] by (simp add: used_good_def)
  moreover have "lease_stale l1 (v, V)"
    using j less assms(5) u by (auto simp: lease_stale_def attempt_reached_def)
  ultimately have x: "used_good (x, W)" "lease_stale l1 (x, W)" "\<not> reports_used C l1 (x, W) (y, W \<union> job_ids y)"
    using fencing.stale_later [OF assms(6)] fencing.lost_lease [OF _ _ assms(6)] by blast+
  have "\<not> hb_still_owned h" if "local_heartbeat_job e l1 ttl x = Inr (z, h)" for e ttl z h
    using that x(2) by (rule stale_heartbeat)
  with less x(3) show ?thesis by (auto simp: reports_used_def)
qed

theorem lost_lease_is_fenced_witness:
  "\<exists>j1 s t u x y. local_claim_job ex_plain (ex_at 2) ''w1'' [] [] (seconds 30) s = Inr (t, (j1, lease_of j1 2 (seconds 30)))
    \<and> local_claim_job ex_plain (ex_at (2 + seconds 31)) ''w2'' [] [] (seconds 30) t = Inr (u, x)
    \<and> \<not> reports ex_plain (lease_of j1 2 (seconds 30)) u y"
proof -
  let ?now = "2 + seconds 31"
  obtain j r t where c: "local_claim_job ex_plain (ex_at 2) ''w1'' [] [] (seconds 30) ex_created
      = Inr (t, (j, lease_of j 2 (seconds 30)))" and j: "one_run j r t" "job_state j = JobRunning" "job_id j = ''job1''"
    "job_lease_expires_at j = Some (2 + seconds 30)"
    using ex_claim by blast
  have "clock (ex_at ?now) = ?now" by (simp add: ex_at_def)
  with one_run_claim [OF j(1), of "''w2''" "seconds 30" "ex_at ?now" ex_plain] j(2,4)
  obtain j2 u where c2: "local_claim_job ex_plain (ex_at ?now) ''w2'' [] [] (seconds 30) t
      = Inr (u, (j2, lease_of j2 ?now (seconds 30)))" "job_id j2 = job_id j"
    by (fastforce simp: seconds_def)
  from lost_lease_is_fenced [OF ex_created_reachable c rtranclp.rtrancl_refl c2(1) _ rtranclp.rtrancl_refl] c c2
  show ?thesis by (fastforce simp: lease_of_def)
qed

end
