(* ===== verification/Claim_Policy.thy ===== *)
theory Claim_Policy
  imports One_Run
begin

text \<open>
  Which job a claim takes: among the queued jobs that the worker's tags and labels allow and whose app
  is below its concurrency limit, the first by priority, age and identifier. And what becomes of a
  job that was canceled while a worker had it.
\<close>

section \<open>The order of claims\<close>

text \<open>What a worker with these tags and labels may take: a queued job of one of its tags (of any, when it
names none), all of whose required labels it has, and whose app is below its limit.\<close>

definition claimable :: "string list \<Rightarrow> string list \<Rightarrow> snapshot \<Rightarrow> job \<Rightarrow> bool" where
  "claimable tags labels s j \<longleftrightarrow> job_state j = JobQueued
     \<and> (normalize_claim_tags tags = [] \<or> job_tag j \<in> set (normalize_claim_tags tags))
     \<and> set (job_required_labels j) \<subseteq> set (normalize_claim_tags labels)
     \<and> (\<forall>n. job_max_concurrent j = Some n \<longrightarrow> job_app_key j \<noteq> '''' \<longrightarrow>
          int (length (filter (counts_against j) (mvals (sn_jobs s)))) < n)"

lemma claimable_iff: "claimable tags labels s j \<longleftrightarrow> job_state j = JobQueued
     \<and> claim_allowed j (normalize_claim_tags tags) (normalize_claim_tags labels) \<and> \<not> max_concurrent_reached s j"
  by (auto simp: claimable_def claim_allowed_def max_concurrent_reached_def list_all_iff split: option.splits)

lemma claim_before_key: "claim_before a b \<longleftrightarrow>
    job_priority a < job_priority b \<or> job_priority a = job_priority b \<and>
      (job_created_at a < job_created_at b \<or> job_created_at a = job_created_at b \<and> job_id a < job_id b)"
  by (auto simp: claim_before_def)

lemma strict_weak_claim: "strict_weak claim_before"
proof -
  have "strict_weak (\<lambda>a b. job_priority a < job_priority b \<or> job_priority a = job_priority b \<and>
      (job_created_at a < job_created_at b \<or> job_created_at a = job_created_at b \<and> job_id a < job_id b))"
    by (intro strict_weak_lex strict_weak_key)
  then show ?thesis by (simp add: claim_before_key [abs_def])
qed

lemma claim_before_total: "job_id a \<noteq> job_id b \<Longrightarrow> claim_before a b \<or> claim_before b a"
  by (auto simp: claim_before_key)

lemma find_first:
  assumes "find P xs = Some x" and "sorted_wrt R xs" and "y \<in> set xs" and "P y"
  shows "y = x \<or> R x y"
  using assms
proof (induction xs)
  case (Cons z zs)
  then show ?case by (cases "P z") (auto split: if_splits)
qed simp

lemma claim_choice_first:
  assumes ok: "store_inv s"
  shows "case claim_choice (normalize_claim_tags tags) (normalize_claim_tags labels) s of
      None \<Rightarrow> \<forall>j \<in> set (mvals (sn_jobs s)). \<not> claimable tags labels s j
    | Some j \<Rightarrow> j \<in> set (mvals (sn_jobs s)) \<and> claimable tags labels s j
        \<and> (\<forall>i \<in> set (mvals (sn_jobs s)). claimable tags labels s i \<longrightarrow> i = j \<or> claim_before j i)"
proof -
  let ?cs = "claim_candidates (normalize_claim_tags tags) (normalize_claim_tags labels) s"
  let ?ch = "claim_choice (normalize_claim_tags tags) (normalize_claim_tags labels) s"
  have mem: "claimable tags labels s j \<longleftrightarrow> j \<in> set ?cs \<and> \<not> max_concurrent_reached s j"
    if "j \<in> set (mvals (sn_jobs s))" for j
    using that by (auto simp: claimable_iff claim_candidates_set)
  have sorted: "sorted_wrt (\<lambda>a b. \<not> claim_before b a) ?cs"
    unfolding claim_candidates_def by (rule sorted_sort_slice [OF strict_weak_claim])
  have inj: "i = j" if "i \<in> set (mvals (sn_jobs s))" "j \<in> set (mvals (sn_jobs s))" "job_id i = job_id j" for i j
    using that mem_job_view [OF store_invD(1) [OF ok]] ids_of(1) [OF ok] by (metis option.inject)
  show ?thesis
  proof (cases ?ch)
    case None
    then have "\<forall>j \<in> set ?cs. max_concurrent_reached s j"
      by (auto simp: claim_choice_def find_None_iff)
    with None show ?thesis using mem by auto
  next
    case (Some j)
    from find_Some_mem [OF Some [unfolded claim_choice_def]]
    have j: "j \<in> set (mvals (sn_jobs s))" "j \<in> set ?cs" "\<not> max_concurrent_reached s j"
      by (simp_all add: claim_candidates_set)
    have "i = j \<or> claim_before j i" if i: "i \<in> set (mvals (sn_jobs s))" "claimable tags labels s i" for i
      using find_first [OF Some [unfolded claim_choice_def] sorted, of i] mem [OF i(1)] i(2)
        claim_before_total [of i j] inj [OF i(1) j(1)] by auto
    with Some j mem [OF j(1)] show ?thesis by auto
  qed
qed

text \<open>C5. A claim takes the first claimable job: with the expired leases requeued, it answers
\<^verbatim>\<open>ErrNoQueuedJob\<close> exactly when no job is claimable by this worker, and otherwise hands out the
claimable job with the smallest priority number, of these the oldest, and of these the one with the
smallest identifier, with a lease on its next attempt.\<close>

theorem claim_takes_first:
  assumes "reachable store_start (store_step C) s"
    and "requeue_expired_jobs C e (ensure_snapshot e s) = Inr s1"
  shows "case local_claim_job C e w tags labels ttl s of
      Inl err \<Rightarrow> err = NoQueuedJob \<and> (\<forall>j \<in> set (mvals (sn_jobs s1)). \<not> claimable tags labels s1 j)
    | Inr (t, (j', l)) \<Rightarrow> (\<exists>j \<in> set (mvals (sn_jobs s1)). claimable tags labels s1 j
        \<and> (\<forall>i \<in> set (mvals (sn_jobs s1)). claimable tags labels s1 i \<longrightarrow> i \<noteq> j \<longrightarrow>
             job_priority j \<le> job_priority i
             \<and> (job_priority i = job_priority j \<longrightarrow> job_created_at j \<le> job_created_at i)
             \<and> (job_priority i = job_priority j \<longrightarrow> job_created_at i = job_created_at j \<longrightarrow> job_id j < job_id i))
        \<and> j' = start_job e (claim_worker_id e w) (lease_ttl ttl) j
        \<and> map_of (sn_jobs t) (job_id j) = Some j'
        \<and> lease_job l = job_id j \<and> lease_attempt l = job_attempt j + 1
        \<and> lease_worker l = claim_worker_id e w \<and> lease_expires_at l = clock e + lease_ttl ttl)"
proof -
  have inv: "store_inv (ensure_snapshot e s)" using store.reachable_good [OF assms(1)] by simp
  have inv1: "store_inv s1" by (rule requeue_expired_jobs_inv [OF inv assms(2)])
  note first = claim_choice_first [OF inv1, of tags labels]
  show ?thesis
  proof (cases "claim_choice (normalize_claim_tags tags) (normalize_claim_tags labels) s1")
    case None
    then have "local_claim_job C e w tags labels ttl s = Inl NoQueuedJob"
      by (simp add: local_claim_job_def update_def claim_job_for_worker_def Let_def assms(2))
    with None first show ?thesis by simp
  next
    case (Some j)
    with first have j: "j \<in> set (mvals (sn_jobs s1))" "claimable tags labels s1 j" by simp_all
    from j(1) obtain k where k: "job_view s1 k = Some j" using mem_job_view [OF store_invD(1) [OF inv1]] by blast
    have id: "job_id j = k" "job_id j \<noteq> ''''"
      using core_inv_job(1,2) [OF store_invD(2) [OF inv1] k] by simp_all
    let ?j = "start_job e (claim_worker_id e w) (lease_ttl ttl) j"
    obtain t where t: "local_claim_job C e w tags labels ttl s = Inr (ensure_snapshot e t, (?j, \<lparr>lease_job = job_id j,
        lease_worker = claim_worker_id e w, lease_expires_at = clock e + lease_ttl ttl,
        lease_attempt = job_attempt j + 1, lease_acquired_at = clock e\<rparr>))"
      and v: "job_view t = (job_view s1)(job_id j \<mapsto> ?j)"
      using id(2) Some
      by (simp add: local_claim_job_def update_def claim_job_for_worker_def Let_def assms(2) start_job_def)
    have before: "job_priority j \<le> job_priority i
        \<and> (job_priority i = job_priority j \<longrightarrow> job_created_at j \<le> job_created_at i)
        \<and> (job_priority i = job_priority j \<longrightarrow> job_created_at i = job_created_at j \<longrightarrow> job_id j < job_id i)"
      if "i \<in> set (mvals (sn_jobs s1))" "claimable tags labels s1 i" "i \<noteq> j" for i
    proof -
      have "claim_before j i" using first Some that by auto
      then show ?thesis by (auto simp: claim_before_key)
    qed
    have v': "map_of (sn_jobs t) (job_id j) = Some ?j" using v by (simp add: lookup_views)
    show ?thesis unfolding t sum.case prod.case
      by (rule bexI [OF _ j(1)]) (use j(2) v' before in \<open>simp add: start_job_def\<close>)
  qed
qed

theorem claim_takes_first_witness:
  "\<exists>t x. local_claim_job ex_plain (ex_at 2) ''w1'' [] [] (seconds 30) ex_created = Inr (t, x)
    \<and> lease_job (snd x) = ''job1'' \<and> lease_attempt (snd x) = 1"
proof -
  obtain j r where one: "one_run j r ex_created" and j: "job_id j = ''job1''" "job_state j = JobQueued" "job_attempt j = 0"
    using ex_one by blast
  have "one_run j r (ensure_snapshot (ex_at 2) ex_created)" using one by simp
  from one_run_requeue [OF this] j obtain j1 s1 where q: "requeue_expired_jobs ex_plain (ex_at 2) (ensure_snapshot (ex_at 2) ex_created) = Inr s1"
    and one1: "one_run j1 r s1" "job_id j1 = job_id j" "job_attempt j1 = job_attempt j" "job_state j1 = JobQueued" by blast
  have "claimable [] [] s1 j1" "mvals (sn_jobs s1) = [j1]"
    using one1 one_run_below_limit [OF one1(1)]
    by (auto simp: claimable_iff one_run_def claim_allowed_def normalize_claim_tags_def mvals_def)
  with claim_takes_first [OF ex_created_reachable q, where w = "''w1''" and tags = "[]" and labels = "[]" and ttl = "seconds 30"] one1 j
  show ?thesis by (fastforce split: sum.splits prod.splits)
qed

section \<open>The concurrency limit\<close>

lemma start_run_jobs [simp]: "sn_jobs (start_run e j s) = sn_jobs s"
  by (simp add: start_run_def Let_def append_event_def put_run_def split: option.splits)

lemma filter_put:
  assumes "map_ok m" and "map_of m k = Some v0" and "\<not> P v0" and "P v"
  shows "length (filter P (mvals (mput k v m))) = Suc (length (filter P (mvals m)))"
  using assms
proof (induction m)
  case (Cons p m)
  obtain k' v' where p: "p = (k', v')" by (cases p)
  show ?case
  proof (cases "k' = k")
    case True
    with Cons.prems show ?thesis by (simp add: p mput_def mvals_def)
  next
    case False
    with Cons.prems have "map_ok m" "map_of m k = Some v0" by (simp_all add: p map_ok_def mkeys_def)
    from Cons.IH [OF this Cons.prems(3,4)] False show ?thesis by (simp add: p mput_def mvals_def)
  qed
qed simp

lemma counts_against_same:
  assumes "job_payload j' = job_payload j"
  shows "counts_against j' i = counts_against j i"
  using required_same [OF assms] by (simp add: counts_against_def)

text \<open>C6. A claim never exceeds the concurrency limit of an app: after a claim that handed out a job with
a limit, at most that many jobs of its app run in its workspace.\<close>

theorem claim_keeps_limit:
  assumes "reachable store_start (store_step C) s"
    and "local_claim_job C e w tags labels ttl s = Inr (t, (j', l))"
    and "job_max_concurrent j' = Some n" and "job_app_key j' \<noteq> ''''"
  shows "int (length (filter (counts_against j') (mvals (sn_jobs t)))) \<le> n"
proof -
  from assms(2) obtain t' where c: "claim_job_for_worker C e w tags labels ttl (ensure_snapshot e s) = Inr (t', (j', l))"
    and t: "t = ensure_snapshot e t'" unfolding local_ops by (rule local_step)
  have inv: "store_inv (ensure_snapshot e s)" using store.reachable_good [OF assms(1)] by simp
  obtain s1 j ty p where q: "requeue_expired_jobs C e (ensure_snapshot e s) = Inr s1"
    and ch: "claim_choice (normalize_claim_tags tags) (normalize_claim_tags labels) s1 = Some j"
    and j': "j' = start_job e (claim_worker_id e w) (lease_ttl ttl) j"
    and t': "t' = append_event (job_run j) ty p (clock e) (start_run e j' (put_job j' s1))"
    using c by (rule claim_job_Inr)
  have inv1: "store_inv s1" by (rule requeue_expired_jobs_inv [OF inv q])
  note cm = claim_choice_mem [OF store_invD(1) [OF inv1] ch]
  from cm(1) obtain k where k: "job_view s1 k = Some j" by blast
  have pay: "job_payload j' = job_payload j" "job_id j' = k" "job_state j' = JobRunning"
    using ids_of(1) [OF inv1 k] by (simp_all add: j' start_job_def)
  note same = required_same [OF pay(1)]
  have below: "int (length (filter (counts_against j) (mvals (sn_jobs s1)))) < n"
    using cm(4) assms(3,4) same by (simp add: max_concurrent_reached_def)
  have "counts_against j' j'" using pay(3) by (simp add: counts_against_def)
  moreover have "\<not> counts_against j' j" using cm(2) by (simp add: counts_against_def)
  moreover have "map_ok (sn_jobs s1)" using store_invD(1) [OF inv1] by (simp add: maps_ok_def)
  ultimately have "length (filter (counts_against j') (mvals (mput k j' (sn_jobs s1))))
      = Suc (length (filter (counts_against j') (mvals (sn_jobs s1))))"
    using k by (intro filter_put) (simp_all add: lookup_views)
  moreover have "sn_jobs t = mput k j' (sn_jobs s1)"
    using pay(2) by (simp add: t t' append_event_def put_job_def)
  moreover have "counts_against j' = counts_against j" using counts_against_same [OF pay(1)] by blast
  ultimately show ?thesis using below by simp
qed

theorem claim_keeps_limit_witness:
  "\<exists>t j l. local_claim_job ex_plain (ex_at 2) ''w1'' [] [] (seconds 30) ex_created = Inr (t, (j, l))
    \<and> length (filter (counts_against j) (mvals (sn_jobs t))) \<le> 1"
proof -
  obtain j t where c: "local_claim_job ex_plain (ex_at 2) ''w1'' [] [] (seconds 30) ex_created
      = Inr (t, (j, lease_of j 2 (seconds 30)))" "job_max_concurrent j = Some 1" "job_app_key j = ''crawler''"
    using ex_claim by metis
  from claim_keeps_limit [OF ex_created_reachable c(1,2)] c show ?thesis by fastforce
qed

section \<open>Cancellation\<close>

text \<open>A cancellation wins over a report: when a running job was canceled, whatever its worker reports
next (success, failure or a wait) ends the run as canceled by that actor for that reason, and the
job as failed; the reported result is not kept.\<close>

theorem cancel_wins:
  assumes "reachable store_start (store_step C) s"
    and "local_cancel_job C e w k who reason s = Inr (t, res)" and "cr_soft_canceled res"
    and "reports C l t u" and "lease_job l = k"
  shows "\<exists>j r j' r'. map_of (sn_jobs s) k = Some j \<and> map_of (sn_runs s) (job_run j) = Some r
    \<and> map_of (sn_jobs u) k = Some j' \<and> map_of (sn_runs u) (job_run j) = Some r'
    \<and> run_state r' = RunCanceled \<and> job_state j' = JobFailed
    \<and> job_canceled_by j' = Some (cancel_actor_subject j r who) \<and> job_canceled_reason j' = Some reason"
proof -
  have inv: "store_inv s" by (rule store.reachable_good [OF assms(1)])
  from assms(2) obtain t' where "cancel_job C e w k who reason (ensure_snapshot e s) = Inr (t', res)"
    and t: "t = ensure_snapshot e t'" unfolding local_ops by (rule local_step)
  then obtain j r where j: "job_view s k = Some j" "job_state j = JobRunning" and r: "run_view s (job_run j) = Some r"
    and t': "t' = put_job (j\<lparr>job_canceled_by := Some (cancel_actor_subject j r who), job_canceled_reason := Some reason,
                         job_updated_at := clock e\<rparr>) (ensure_snapshot e s)"
    using assms(3) by (auto simp: cancel_job_def lookup_views Let_def and_then_eq_Inr split: option.splits if_splits)
  let ?j = "j\<lparr>job_canceled_by := Some (cancel_actor_subject j r who), job_canceled_reason := Some reason,
                         job_updated_at := clock e\<rparr>"
  have id: "job_id j = k" "run_id r = job_run j" using ids_of [OF inv] j(1) r by blast+
  have invt: "store_inv t" by (rule store_step_inv [OF inv step_cancel_job [OF assms(2)]])
  have v: "job_view t k = Some ?j" "run_view t (job_run ?j) = Some r" using id r by (simp_all add: t t')
  have act: "job_active ?j" using j(2) by (simp add: job_active_def)
  from assms(4) obtain f e' u' where c: "complete_leased C e' l f (ensure_snapshot e' t) = Inr (u', ())"
    and u: "u = ensure_snapshot e' u'"
    unfolding reports_def local_ops update_Inr complete_job_succeeded_def complete_job_failed_def
      complete_job_waiting_human_def Let_def by blast
  have inv': "store_inv (ensure_snapshot e' t)" "job_view (ensure_snapshot e' t) k = Some ?j"
    "run_view (ensure_snapshot e' t) (job_run ?j) = Some r" using invt v by simp_all
  have "job_canceled_by ?j = Some (cancel_actor_subject j r who)" by simp
  with c v assms(5) have f: "finish_canceled C e' ?j r (cancel_actor_subject j r who) (canceled_reason_value ?j)
      cancel_during_execution_message (ensure_snapshot e' t) = Inr u'"
    by (auto simp: complete_leased_Inr leased_job_and_run_Inr)
  note w = encrypt_stored_run_result_inv [OF apply_canceled_inv [OF inv'(1,2) act inv'(3)] f [unfolded finish_canceled_def]]
  have "map_option run_state (run_view u' (run_id r)) = Some RunCanceled"
    using w by (simp add: apply_canceled_views)
  moreover have "job_view u' k = Some (?j\<lparr>job_state := JobFailed, job_lease_expires_at := None,
      job_canceled_by := Some (cancel_actor_subject j r who), job_canceled_reason := Some reason, job_updated_at := clock e'\<rparr>)"
    using w id by (simp add: apply_canceled_views canceled_reason_value_def)
  ultimately show ?thesis using j(1) r id by (auto simp: u lookup_views)
qed

theorem cancel_wins_witness:
  "\<exists>j s t u c. local_cancel_job ex_plain (ex_at 3) ''main'' ''job1'' ''ops'' ''stop'' s = Inr (t, c)
     \<and> reports ex_plain (lease_of j 2 (seconds 30)) t u
     \<and> (\<exists>r'. map_of (sn_runs u) (job_run j) = Some r' \<and> run_state r' = RunCanceled)"
proof -
  obtain j r s where c: "local_claim_job ex_plain (ex_at 2) ''w1'' [] [] (seconds 30) ex_created
      = Inr (s, (j, lease_of j 2 (seconds 30)))" and one: "one_run j r s" and j: "job_state j = JobRunning" "job_id j = ''job1''"
    "job_lease_expires_at j = Some (2 + seconds 30)" "normalized_job_workspace '''' j = ''main''"
    using ex_claim by metis
  have s: "reachable store_start (store_step ex_plain) s" by (rule reachable_step [OF ex_created_reachable step_claim [OF c]])
  note inv = store.reachable_good [OF s]
  have v: "job_view s ''job1'' = Some j" "run_view s (job_run j) = Some r"
    using one_run_lookup [OF one] j(2) by (simp_all add: lookup_views)
  then have nt: "\<not> is_terminal r"
    using core_inv_job(3) [OF store_invD(2) [OF inv] v(1)] j(1) by (auto simp: job_fits_def is_terminal_def)
  have "normalize_workspace ''main'' = ''main''" by code_simp
  from one_run_cancel [OF one j(1) nt, of "''main''" ex_plain "ex_at 3" "''ops''" "''stop''"] this j(2,4)
  obtain t j' res where t: "local_cancel_job ex_plain (ex_at 3) ''main'' ''job1'' ''ops'' ''stop'' s = Inr (t, res)"
    "cr_soft_canceled res" "one_canceled j' r (cancel_actor_subject j r ''ops'') t"
    "job_lease_expires_at j' = job_lease_expires_at j" "job_id j' = job_id j" "job_attempt j' = job_attempt j"
    "job_lease_owner j' = job_lease_owner j" by auto
  have same: "lease_of j' 2 (seconds 30) = lease_of j 2 (seconds 30)" using t by (simp add: lease_of_def)
  obtain u where "local_complete_succeeded ex_plain (ex_at 4) (lease_of j 2 (seconds 30)) ex_result t = Inr (u, ())"
    using one_canceled_report [OF t(3), of "2 + seconds 30" "ex_at 4" ex_plain 2 "seconds 30" ex_result] t(4) j(3)
    unfolding same by (auto simp: ex_at_def seconds_def)
  then have u: "reports ex_plain (lease_of j 2 (seconds 30)) t u" by (auto simp: reports_def)
  have "lease_job (lease_of j 2 (seconds 30)) = ''job1''" using j(2) by (simp add: lease_of_def)
  from cancel_wins [OF s t(1,2) u this] v(1) obtain r' where "map_of (sn_runs u) (job_run j) = Some r'" "run_state r' = RunCanceled"
    by (auto simp: lookup_views)
  with t(1) u show ?thesis by metis
qed

text \<open>C11. A canceled job whose worker is lost waits for another job: requeueing the expired leases would
end the run as canceled, but a claim that then finds no job to hand out returns \<^verbatim>\<open>ErrNoQueuedJob\<close> and
\<^verbatim>\<open>update\<close> drops what it computed. While it is the only job, every claim leaves the run as it is.\<close>

theorem lost_canceled_job_is_stranded:
  assumes "reachable store_start (store_step C) s"
    and "sn_jobs s = [(k, j)]" and "job_state j = JobRunning" and "job_canceled_by j = Some who"
    and "job_lease_expires_at j = Some t" and "t \<le> clock e"
    and "requeue_expired_jobs C e (ensure_snapshot e s) = Inr s1"
  shows "local_claim_job C e w tags labels ttl s = Inl NoQueuedJob
    \<and> map_option run_state (map_of (sn_runs s) (job_run j)) = Some RunRunning
    \<and> map_option run_state (map_of (sn_runs s1) (job_run j)) = Some RunCanceled"
proof -
  have inv: "store_inv (ensure_snapshot e s)" using store.reachable_good [OF assms(1)] by simp
  let ?s = "ensure_snapshot e s"
  have j: "job_view ?s k = Some j" using assms(2) by (simp add: job_view_def)
  obtain r where r: "run_view ?s (job_run j) = Some r" and st: "run_state r = RunRunning"
    using core_inv_job(3) [OF store_invD(2) [OF inv] j] assms(3) by (auto simp: job_fits_def)
  have act: "job_active j" using assms(3) by (simp add: job_active_def)
  have id: "job_id j = k" "run_id r = job_run j" using ids_of [OF inv] j r by blast+
  have one: "mkeys (sn_jobs ?s) = [k]" using assms(2) by (simp add: mkeys_def)
  have f: "finish_canceled C e j r who (canceled_reason_value j) cancel_worker_lost_message ?s = Inr s1"
    using assms(3-7) j r
    by (simp add: requeue_expired_jobs_def one [unfolded ensure_snapshot_frame] requeue_expired_job_def lookup_views and_then_eq_Inr)
  note w = encrypt_stored_run_result_inv [OF apply_canceled_inv [OF inv j act r] f [unfolded finish_canceled_def]]
  have inv1: "store_inv s1" using w by blast
  have "job_view s1 = [k \<mapsto> j\<lparr>job_state := JobFailed, job_lease_expires_at := None, job_canceled_by := Some who,
      job_canceled_reason := Some (canceled_reason_value j), job_updated_at := clock e\<rparr>]"
    using w assms(2) id by (simp add: apply_canceled_views(2)) (simp add: job_view_def)
  then have "\<not> claimable tags labels s1 i" if "i \<in> set (mvals (sn_jobs s1))" for i
    using that mem_job_view [OF store_invD(1) [OF inv1], of i] by (auto simp: claimable_def split: if_splits)
  with claim_choice_first [OF inv1, of tags labels]
  have "claim_choice (normalize_claim_tags tags) (normalize_claim_tags labels) s1 = None"
    by (auto split: option.splits)
  then have "local_claim_job C e w tags labels ttl s = Inl NoQueuedJob"
    by (simp add: local_claim_job_def update_def claim_job_for_worker_def Let_def assms(7))
  moreover have "map_option run_state (run_view s1 (run_id r)) = Some RunCanceled"
    using w by (simp add: apply_canceled_views(1))
  ultimately show ?thesis using st r id by (simp add: lookup_views)
qed

theorem lost_canceled_job_is_stranded_witness:
  "\<exists>s (j :: job). map_option run_state (map_of (sn_runs s) (job_run j)) = Some RunRunning \<and> job_canceled_by j \<noteq> None
     \<and> local_claim_job ex_plain (ex_at (2 + seconds 31)) ''w2'' [] [] (seconds 30) s = Inl NoQueuedJob"
proof -
  let ?now = "2 + seconds 31"
  obtain j r s where c: "local_claim_job ex_plain (ex_at 2) ''w1'' [] [] (seconds 30) ex_created
      = Inr (s, (j, lease_of j 2 (seconds 30)))" and one: "one_run j r s" and j: "job_state j = JobRunning" "job_id j = ''job1''"
    "job_lease_expires_at j = Some (2 + seconds 30)" "normalized_job_workspace '''' j = ''main''"
    using ex_claim by metis
  have s: "reachable store_start (store_step ex_plain) s" by (rule reachable_step [OF ex_created_reachable step_claim [OF c]])
  have v: "job_view s ''job1'' = Some j" "run_view s (job_run j) = Some r"
    using one_run_lookup [OF one] j(2) by (simp_all add: lookup_views)
  then have nt: "\<not> is_terminal r"
    using core_inv_job(3) [OF store_invD(2) [OF store.reachable_good [OF s]] v(1)] j(1) by (auto simp: job_fits_def is_terminal_def)
  have "normalize_workspace ''main'' = ''main''" by code_simp
  from one_run_cancel [OF one j(1) nt, of "''main''" ex_plain "ex_at 3" "''ops''" "''stop''"] this j(2,4)
  obtain t j' res where t: "local_cancel_job ex_plain (ex_at 3) ''main'' ''job1'' ''ops'' ''stop'' s = Inr (t, res)"
    "one_canceled j' r (cancel_actor_subject j r ''ops'') t" "job_lease_expires_at j' = Some (2 + seconds 30)"
    using j(3) by auto
  have rt: "reachable store_start (store_step ex_plain) t" by (rule reachable_step [OF s step_cancel_job [OF t(1)]])
  have one': "one_canceled j' r (cancel_actor_subject j r ''ops'') (ensure_snapshot (ex_at ?now) t)" using t(2) by simp
  have now: "clock (ex_at ?now) = ?now" by (simp add: ex_at_def)
  obtain s1 where q: "requeue_expired_jobs ex_plain (ex_at ?now) (ensure_snapshot (ex_at ?now) t) = Inr s1"
    using one_canceled_finish [OF one', of ex_plain "ex_at ?now" "canceled_reason_value j'" cancel_worker_lost_message] t(3) one' now
    by (auto simp: requeue_expired_jobs_def requeue_expired_job_def one_canceled_def mkeys_def seconds_def)
  have *: "sn_jobs t = [(job_id j', j')]" "job_state j' = JobRunning" "job_canceled_by j' = Some (cancel_actor_subject j r ''ops'')"
    using t(2) by (simp_all add: one_canceled_def)
  have "2 + seconds 30 \<le> clock (ex_at ?now)" unfolding now by (simp add: seconds_def)
  from lost_canceled_job_is_stranded [OF rt * t(3) this q, of "''w2''" "[]" "[]" "seconds 30"] *(3) show ?thesis
    by (intro exI [of _ t] exI [of _ j']) simp
qed

end
