(* ===== verification/App_Store.thy ===== *)
theory App_Store
  imports Run_Store
begin

text \<open>
  What an app keeps in its workspace (\<^verbatim>\<open>internal/state/local_store.go\<close>): the logs of its jobs, state
  values, variables and resources. Everything is scoped by the normalised workspace; a variable is
  also scoped by its app, with the variables of the empty app as the fallback of every app.
  \<open>scoped_store\<close> is the contract the three key-value stores share, and its one client theorem says
  what a read returns after any sequence of writes.
\<close>

section \<open>Logs\<close>

definition append_logs :: "call_env \<Rightarrow> string \<Rightarrow> string \<Rightarrow> string \<Rightarrow> unit body" where
  "append_logs e jid w chunk s =
    (case map_of (sn_jobs s) jid of
       None \<Rightarrow> Inl NotFound
     | Some j \<Rightarrow>
         let w = normalized_job_workspace w j;
             l0 = (case map_of (sn_logs s) jid of
                     None \<Rightarrow> \<lparr>log_job = '''', log_workspace = '''', log_text = '''', log_created_at = 0\<rparr>
                   | Some l \<Rightarrow> l);
             l1 = (if log_job l0 = ''''
                   then l0\<lparr>log_job := jid, log_workspace := w, log_created_at := clock e\<rparr> else l0);
             l2 = (if log_workspace l1 = '''' then l1\<lparr>log_workspace := w\<rparr> else l1)
         in Inr (s\<lparr>sn_logs := mput jid (l2\<lparr>log_text := log_text l2 @ chunk\<rparr>) (sn_logs s)\<rparr>, ()))"

definition local_append_logs :: "call_env \<Rightarrow> string \<Rightarrow> string \<Rightarrow> string \<Rightarrow> unit body" where
  "local_append_logs e jid w chunk s =
    (if chunk = '''' then Inr (s, ()) else update e (append_logs e jid w chunk) s)"

text \<open>The log and whether the job was found; a job without a log has the empty one.\<close>

definition get_logs :: "snapshot \<Rightarrow> string \<Rightarrow> string \<Rightarrow> string \<times> bool" where
  "get_logs s w jid =
    (let w = normalize_workspace w;
         of_job = (case map_of (sn_jobs s) jid of
             None \<Rightarrow> ('''', False)
           | Some j \<Rightarrow> if normalized_job_workspace '''' j \<noteq> w then ('''', False) else ('''', True))
     in case map_of (sn_logs s) jid of
          Some l \<Rightarrow> if normalize_workspace (log_workspace l) = w then (log_text l, True) else of_job
        | None \<Rightarrow> of_job)"

section \<open>State values\<close>

definition get_state :: "snapshot \<Rightarrow> string \<Rightarrow> string \<Rightarrow> raw \<times> bool" where
  "get_state s w path =
    (case nget (sn_job_state s) (normalize_workspace w) path of
       Some v \<Rightarrow> (v, True) | None \<Rightarrow> (null_doc, False))"

definition local_set_state :: "call_env \<Rightarrow> string \<Rightarrow> string \<Rightarrow> raw \<Rightarrow> unit body" where
  "local_set_state e w path value s =
    (let value = (if raw_empty value then null_doc else value) in
     if \<not> json_valid value then Inl InvalidJson
     else update e (\<lambda>s. Inr (s\<lparr>sn_job_state := nput (normalize_workspace w) path value (sn_job_state s)\<rparr>, ())) s)"

section \<open>Variables\<close>

definition variable_key :: "string \<Rightarrow> string \<Rightarrow> string" where
  "variable_key app path = app @ CHR 0x00 # path"

definition variable_before :: "variable \<Rightarrow> variable \<Rightarrow> bool" where
  "variable_before a b \<longleftrightarrow> (if var_app a \<noteq> var_app b then var_app a < var_app b else var_path a < var_path b)"

definition list_variables :: "snapshot \<Rightarrow> string \<Rightarrow> variable list" where
  "list_variables s w = sort_slice variable_before (mvals (mget_or [] (sn_variables s) (normalize_workspace w)))"

definition local_set_variable ::
    "call_env \<Rightarrow> string \<Rightarrow> string \<Rightarrow> string \<Rightarrow> string \<Rightarrow> bool \<Rightarrow> string \<Rightarrow> unit body" where
  "local_set_variable e w app path value is_secret description =
    update e (\<lambda>s. Inr (s\<lparr>sn_variables := nput (normalize_workspace w) (variable_key app path)
      \<lparr>var_app = app, var_path = path, var_value = value, var_secret = is_secret,
       var_description = description\<rparr> (sn_variables s)\<rparr>, ()))"

definition get_variable :: "snapshot \<Rightarrow> string \<Rightarrow> string \<Rightarrow> string \<Rightarrow> variable option" where
  "get_variable s w app path =
    (let vars = nget (sn_variables s) (normalize_workspace w);
         global = vars (variable_key '''' path) in
     if app \<noteq> '''' then (case vars (variable_key app path) of Some v \<Rightarrow> Some v | None \<Rightarrow> global) else global)"

definition get_variable_exact :: "snapshot \<Rightarrow> string \<Rightarrow> string \<Rightarrow> string \<Rightarrow> variable option" where
  "get_variable_exact s w app path = nget (sn_variables s) (normalize_workspace w) (variable_key app path)"

definition local_delete_variable :: "call_env \<Rightarrow> string \<Rightarrow> string \<Rightarrow> string \<Rightarrow> unit body" where
  "local_delete_variable e w app path =
    update e (\<lambda>s. Inr (s\<lparr>sn_variables := ndel (normalize_workspace w) (variable_key app path) (sn_variables s)\<rparr>, ()))"

section \<open>Resources\<close>

definition local_set_resource ::
    "call_env \<Rightarrow> string \<Rightarrow> string \<Rightarrow> raw \<Rightarrow> string \<Rightarrow> string \<Rightarrow> unit body" where
  "local_set_resource e w path value rtype description s =
    (let value = (if raw_empty value then empty_object else value) in
     if \<not> json_valid value then Inl InvalidJson
     else update e (\<lambda>s. Inr (s\<lparr>sn_resources := nput (normalize_workspace w) path
       \<lparr>rsc_path = path, rsc_value = value, rsc_type = rtype, rsc_description = description\<rparr>
       (sn_resources s)\<rparr>, ())) s)"

definition get_resource :: "snapshot \<Rightarrow> string \<Rightarrow> string \<Rightarrow> resource option" where
  "get_resource s w path = nget (sn_resources s) (normalize_workspace w) path"

section \<open>Reads after writes\<close>

text \<open>
  The contract of a key-value store whose writes may fail: a write that succeeds decides the reads
  it touches and leaves every other read alone.
\<close>

locale scoped_store =
  fixes store :: "'op \<Rightarrow> 's \<Rightarrow> 'e + 's"
    and read :: "'s \<Rightarrow> 'k \<Rightarrow> 'v option"
    and touches :: "'op \<Rightarrow> 'k \<Rightarrow> bool"
    and leaves :: "'op \<Rightarrow> 'v option"
  assumes read_write: "store x s = Inr t \<Longrightarrow> read t k = (if touches x k then leaves x else read s k)"
begin

text \<open>After any sequence of writes a read returns what the last write that touches it left.\<close>

lemma read_writes:
  "fold_err store xs s = Inr t \<Longrightarrow>
    read t k = (case find (\<lambda>x. touches x k) (rev xs) of None \<Rightarrow> read s k | Some x \<Rightarrow> leaves x)"
proof (induction xs arbitrary: t rule: rev_induct)
  case (snoc x xs)
  from snoc.prems obtain s1 where s1: "fold_err store xs s = Inr s1" "store x s1 = Inr t"
    by (auto simp: fold_err_append and_then_eq_Inr)
  from snoc.IH [OF s1(1)] read_write [OF s1(2), of k] show ?case by simp
qed simp

lemma untouched: "fold_err store xs s = Inr t \<Longrightarrow> (\<And>x. x \<in> set xs \<Longrightarrow> \<not> touches x k) \<Longrightarrow> read t k = read s k"
  by (subst read_writes) (auto simp: find_None_iff split: option.split dest: find_Some_mem)

end

datatype variable_op =
    SetVariable call_env string string string string bool string
  | DeleteVariable call_env string string string

fun run_variable_op :: "variable_op \<Rightarrow> snapshot \<Rightarrow> store_error + snapshot" where
  "run_variable_op (SetVariable e w app path value is_secret description) s =
    and_then (local_set_variable e w app path value is_secret description s) (\<lambda>(s, _). Inr s)"
| "run_variable_op (DeleteVariable e w app path) s =
    and_then (local_delete_variable e w app path s) (\<lambda>(s, _). Inr s)"

text \<open>The cell an operation writes, and what it leaves there.\<close>

fun variable_cell :: "variable_op \<Rightarrow> string \<times> string \<times> string" where
  "variable_cell (SetVariable e w app path value is_secret description) = (normalize_workspace w, app, path)"
| "variable_cell (DeleteVariable e w app path) = (normalize_workspace w, app, path)"

fun variable_left :: "variable_op \<Rightarrow> variable option" where
  "variable_left (SetVariable e w app path value is_secret description) =
    Some \<lparr>var_app = app, var_path = path, var_value = value, var_secret = is_secret, var_description = description\<rparr>"
| "variable_left (DeleteVariable e w app path) = None"

definition variable_at :: "snapshot \<Rightarrow> string \<times> string \<times> string \<Rightarrow> variable option" where
  "variable_at s c = (case c of (w, app, path) \<Rightarrow> nget (sn_variables s) w (variable_key app path))"

definition same_variable :: "string \<times> string \<times> string \<Rightarrow> string \<times> string \<times> string \<Rightarrow> bool" where
  "same_variable c d \<longleftrightarrow> fst c = fst d \<and> variable_key (fst (snd c)) (snd (snd c)) = variable_key (fst (snd d)) (snd (snd d))"

interpretation variables: scoped_store run_variable_op variable_at
    "\<lambda>x. same_variable (variable_cell x)" variable_left
proof
  fix x s t k
  assume "run_variable_op x s = Inr t"
  then show "variable_at t k = (if same_variable (variable_cell x) k then variable_left x else variable_at s k)"
    by (cases x) (auto simp: and_then_eq_Inr local_set_variable_def local_delete_variable_def update_Inr
        variable_at_def same_variable_def split: prod.splits)
qed

datatype state_op = SetState call_env string string raw

fun run_state_op :: "state_op \<Rightarrow> snapshot \<Rightarrow> store_error + snapshot" where
  "run_state_op (SetState e w path v) s = and_then (local_set_state e w path v s) (\<lambda>(s, _). Inr s)"

fun state_touches :: "state_op \<Rightarrow> string \<times> string \<Rightarrow> bool" where
  "state_touches (SetState e w path v) c \<longleftrightarrow> c = (normalize_workspace w, path)"

fun state_left :: "state_op \<Rightarrow> raw option" where
  "state_left (SetState e w path v) = Some (if raw_empty v then null_doc else v)"

interpretation states: scoped_store run_state_op "\<lambda>s (w, p). nget (sn_job_state s) w p" state_touches state_left
proof
  fix x s t and k :: "string \<times> string"
  assume "run_state_op x s = Inr t"
  then show "(case k of (w, p) \<Rightarrow> nget (sn_job_state t) w p)
      = (if state_touches x k then state_left x else case k of (w, p) \<Rightarrow> nget (sn_job_state s) w p)"
    by (cases x) (auto simp: and_then_eq_Inr local_set_state_def update_Inr Let_def split: prod.splits if_splits)
qed

datatype resource_op = SetResource call_env string string raw string string

fun run_resource_op :: "resource_op \<Rightarrow> snapshot \<Rightarrow> store_error + snapshot" where
  "run_resource_op (SetResource e w path v rtype d) s =
    and_then (local_set_resource e w path v rtype d s) (\<lambda>(s, _). Inr s)"

fun resource_touches :: "resource_op \<Rightarrow> string \<times> string \<Rightarrow> bool" where
  "resource_touches (SetResource e w path v rtype d) c \<longleftrightarrow> c = (normalize_workspace w, path)"

fun resource_left :: "resource_op \<Rightarrow> resource option" where
  "resource_left (SetResource e w path v rtype d) =
    Some \<lparr>rsc_path = path, rsc_value = (if raw_empty v then empty_object else v), rsc_type = rtype, rsc_description = d\<rparr>"

interpretation resources: scoped_store run_resource_op "\<lambda>s (w, p). get_resource s w p"
    "\<lambda>x (w, p). resource_touches x (normalize_workspace w, p)" resource_left
proof
  fix x s t and k :: "string \<times> string"
  assume "run_resource_op x s = Inr t"
  then show "(case k of (w, p) \<Rightarrow> get_resource t w p)
      = (if case k of (w, p) \<Rightarrow> resource_touches x (normalize_workspace w, p) then resource_left x
         else case k of (w, p) \<Rightarrow> get_resource s w p)"
    by (cases x) (auto simp: and_then_eq_Inr local_set_resource_def update_Inr get_resource_def Let_def
        split: prod.splits if_splits)
qed

section \<open>Properties\<close>

lemma variable_key_inj:
  assumes "CHR 0x00 \<notin> set app" and "CHR 0x00 \<notin> set app'"
  shows "variable_key app path = variable_key app' path' \<longleftrightarrow> app = app' \<and> path = path'"
proof
  assume eq: "variable_key app path = variable_key app' path'"
  have "takeWhile (\<lambda>c. c \<noteq> CHR 0x00) (variable_key a p) = a" if "CHR 0x00 \<notin> set a" for a p
    using that by (induction a) (auto simp: variable_key_def)
  with assms eq have "app = app'" by metis
  with eq show "app = app' \<and> path = path'" by (simp add: variable_key_def)
qed simp

lemma run_variable_op_total: "\<exists>t. run_variable_op x s = Inr t"
  by (cases x) (auto simp: local_set_variable_def local_delete_variable_def update_def)

definition variable_step ::
    "variable_op \<Rightarrow> (string \<times> string \<times> string \<Rightarrow> variable option) \<Rightarrow> string \<times> string \<times> string \<Rightarrow> variable option" where
  "variable_step x m = m(variable_cell x := variable_left x)"

lemma variables_as_map:
  assumes "CHR 0x00 \<notin> set app" and "fold_err run_variable_op xs s = Inr t"
    and "\<And>x. x \<in> set xs \<Longrightarrow> CHR 0x00 \<notin> set (fst (snd (variable_cell x)))"
  shows "variable_at t (w, app, path) = fold variable_step xs (variable_at s) (w, app, path)"
  using assms(2,3)
proof (induction xs arbitrary: t rule: rev_induct)
  case (snoc x xs)
  from snoc.prems(1) obtain s1 where s1: "fold_err run_variable_op xs s = Inr s1" "run_variable_op x s1 = Inr t"
    by (auto simp: fold_err_append and_then_eq_Inr)
  obtain w' a' p' where c: "variable_cell x = (w', a', p')" by (cases "variable_cell x")
  have "same_variable (variable_cell x) (w, app, path) \<longleftrightarrow> variable_cell x = (w, app, path)"
    using snoc.prems(2) [of x] assms(1) by (auto simp: c same_variable_def variable_key_inj)
  with variables.read_write [OF s1(2), of "(w, app, path)"] snoc.IH [OF s1(1)] snoc.prems(2)
  show ?case by (simp add: variable_step_def)
qed simp

text \<open>The variables of an app refine a map from workspace, app and path to a variable. Setting and
  deleting variables never fails, and after any sequence of them, in any workspaces, what
  \<^verbatim>\<open>GetVariable\<close> answers is computed from the map that the same sequence of updates gives: the
  app's own variable, and the one of the empty app where it has none. Nothing is assumed of the
  names but that an app key has no zero byte; a path may have one.
\<close>

theorem variables_refine_map:
  assumes "CHR 0x00 \<notin> set app" and "\<forall>x \<in> set xs. CHR 0x00 \<notin> set (fst (snd (variable_cell x)))"
  shows "\<exists>t. fold_err run_variable_op xs s = Inr t
    \<and> (let m = fold variable_step xs (variable_at s); w' = normalize_workspace w in
        get_variable t w app path = (if m (w', app, path) = None then m (w', '''', path) else m (w', app, path))
        \<and> get_variable_exact t w app path = m (w', app, path))"
proof -
  obtain t where t: "fold_err run_variable_op xs s = Inr t"
    using fold_err_total [of xs run_variable_op] run_variable_op_total by blast
  note at = variables_as_map [OF _ t bspec [OF assms(2)], of app "normalize_workspace w" path, OF assms(1)]
    variables_as_map [OF _ t bspec [OF assms(2)], of "''''" "normalize_workspace w" path]
  have "get_variable t w app path = (if variable_at t (normalize_workspace w, app, path) = None
      then variable_at t (normalize_workspace w, '''', path) else variable_at t (normalize_workspace w, app, path))"
    by (auto simp: get_variable_def variable_at_def Let_def split: option.splits)
  moreover have "get_variable_exact t w app path = variable_at t (normalize_workspace w, app, path)"
    by (simp add: get_variable_exact_def variable_at_def)
  ultimately show ?thesis using t at by (auto simp: Let_def)
qed

definition ex_env :: call_env where
  "ex_env = \<lparr>clock = 1, draw_id = (\<lambda>p n. p), draw_nonce = (\<lambda>site n. ''012345678901'')\<rparr>"

lemma variables_refine_map_witness:
  "\<exists>t. fold_err run_variable_op [SetVariable ex_env ''acme'' '''' ''url'' ''x'' False '''',
      SetVariable ex_env ''acme'' ''shop'' ''url'' ''y'' True '''', DeleteVariable ex_env ''acme'' ''shop'' ''url''] empty_snapshot = Inr t
    \<and> map_option var_value (get_variable t ''acme'' ''shop'' ''url'') = Some ''x''
    \<and> get_variable_exact t ''acme'' ''shop'' ''url'' = None"
proof -
  have w: "normalize_workspace ''acme'' = ''acme''" by code_simp
  show ?thesis
    using variables_refine_map [of "''shop''" "[SetVariable ex_env ''acme'' '''' ''url'' ''x'' False '''',
      SetVariable ex_env ''acme'' ''shop'' ''url'' ''y'' True '''', DeleteVariable ex_env ''acme'' ''shop'' ''url'']"
      empty_snapshot "''acme''" "''url''"]
    by (auto simp: w Let_def variable_step_def)
qed

lemma list_variables_spec:
  assumes "nested_ok (sn_variables s)"
  shows "set (list_variables s w) = {v. \<exists>app path. nget (sn_variables s) (normalize_workspace w) path = Some v}"
  using assms by (auto simp: list_variables_def mvals_inner)

lemma run_state_op_total: "json_valid (the (state_left x)) \<Longrightarrow> \<exists>t. run_state_op x s = Inr t"
  by (cases x) (auto simp: local_set_state_def update_def and_then_def null_doc_def)

text \<open>
  State values: a write with a valid document or an empty one succeeds and any other fails without
  a change; a later read returns the value of the last write to that path of that workspace, null
  for an empty one, whatever was written to other paths and workspaces in between, and null with
  \<^verbatim>\<open>found\<close> false where nothing was ever written.
\<close>

theorem state_reads_last_write:
  "(run_state_op x s = Inl InvalidJson \<longleftrightarrow> \<not> json_valid (the (state_left x)))
   \<and> (fold_err run_state_op xs s = Inr t \<longrightarrow>
       get_state t w path = (case find (\<lambda>x. state_touches x (normalize_workspace w, path)) (rev xs) of
         None \<Rightarrow> get_state s w path | Some x \<Rightarrow> (the (state_left x), True)))"
proof
  show "run_state_op x s = Inl InvalidJson \<longleftrightarrow> \<not> json_valid (the (state_left x))"
    by (cases x) (auto simp: local_set_state_def update_def and_then_def null_doc_def)
  have left: "state_left x \<noteq> None" for x by (cases x) simp
  show "fold_err run_state_op xs s = Inr t \<longrightarrow>
       get_state t w path = (case find (\<lambda>x. state_touches x (normalize_workspace w, path)) (rev xs) of
         None \<Rightarrow> get_state s w path | Some x \<Rightarrow> (the (state_left x), True))"
    using states.read_writes [of xs s t "(normalize_workspace w, path)"] left
    by (auto simp: get_state_def split: option.splits) (metis left)
qed

theorem state_reads_last_write_witness:
  "\<exists>t. fold_err run_state_op [SetState ex_env '''' ''a'' (RawDoc (JBool True)), SetState ex_env ''default'' ''b'' raw_nil]
      empty_snapshot = Inr t
    \<and> get_state t ''default'' ''a'' = (RawDoc (JBool True), True) \<and> get_state t '''' ''b'' = (null_doc, True)
    \<and> get_state t '''' ''c'' = (null_doc, False)"
proof -
  let ?xs = "[SetState ex_env '''' ''a'' (RawDoc (JBool True)), SetState ex_env ''default'' ''b'' raw_nil]"
  have "\<forall>x \<in> set ?xs. json_valid (the (state_left x))" by (simp add: null_doc_def)
  then obtain t where t: "fold_err run_state_op ?xs empty_snapshot = Inr t"
    using fold_err_total [of ?xs run_state_op] run_state_op_total by blast
  have w: "normalize_workspace ''default'' = ''default''" "normalize_workspace '''' = ''default''" by code_simp+
  have e: "get_state empty_snapshot '''' ''c'' = (null_doc, False)"
    by (simp add: get_state_def empty_snapshot_def)
  show ?thesis
    using t e state_reads_last_write [of "hd ?xs" empty_snapshot ?xs t "''default''" "''a''"]
      state_reads_last_write [of "hd ?xs" empty_snapshot ?xs t "''''" "''b''"]
      state_reads_last_write [of "hd ?xs" empty_snapshot ?xs t "''''" "''c''"]
    by (simp del: fold_err.simps add: w)
qed

text \<open>The log of a job, where there is one, was opened for it under its workspace.\<close>

definition log_of_job :: "snapshot \<Rightarrow> string \<Rightarrow> job \<Rightarrow> bool" where
  "log_of_job s jid j \<longleftrightarrow> (case map_of (sn_logs s) jid of None \<Rightarrow> True
     | Some l \<Rightarrow> log_job l = jid \<and> normalize_workspace (log_workspace l) = normalized_job_workspace '''' j
         \<and> log_workspace l \<noteq> '''')"

definition run_log_op :: "string \<Rightarrow> call_env \<times> string \<Rightarrow> snapshot \<Rightarrow> store_error + snapshot" where
  "run_log_op jid x s = and_then (local_append_logs (fst x) jid '''' (snd x) s) (\<lambda>(s, _). Inr s)"

lemma normalized_job_workspace_norm [simp]:
  "normalize_workspace (normalized_job_workspace w j) = normalized_job_workspace w j"
  "normalized_job_workspace w j \<noteq> ''''"
  by (simp_all add: normalized_job_workspace_def Let_def)

lemma get_logs_of_job:
  assumes "map_of (sn_jobs s) jid = Some j" and "log_of_job s jid j"
  shows "get_logs s (normalized_job_workspace '''' j) jid
    = (case map_of (sn_logs s) jid of None \<Rightarrow> '''' | Some l \<Rightarrow> log_text l, True)"
  using assms by (auto simp: get_logs_def log_of_job_def Let_def split: option.splits)

lemma append_logs_step:
  assumes j: "map_of (sn_jobs s) jid = Some j" and l: "log_of_job s jid j" and "jid \<noteq> ''''"
  obtains t where "run_log_op jid (e, chunk) s = Inr t" "map_of (sn_jobs t) jid = Some j" "log_of_job t jid j"
    "fst (get_logs t (normalized_job_workspace '''' j) jid) = fst (get_logs s (normalized_job_workspace '''' j) jid) @ chunk"
proof (cases "chunk = ''''")
  case True
  then show thesis using that [of s] j l by (simp add: run_log_op_def local_append_logs_def)
next
  case False
  define old where "old = (case map_of (sn_logs s) jid of
      None \<Rightarrow> \<lparr>log_job = jid, log_workspace = normalized_job_workspace '''' j, log_text = '''', log_created_at = clock e\<rparr>
    | Some l \<Rightarrow> l)"
  define t where "t = ensure_snapshot e ((ensure_snapshot e s)\<lparr>sn_logs := mput jid (old\<lparr>log_text := log_text old @ chunk\<rparr>) (sn_logs s)\<rparr>)"
  have step: "run_log_op jid (e, chunk) s = Inr t"
    using False j l assms(3)
    by (auto simp: run_log_op_def local_append_logs_def update_def append_logs_def log_of_job_def old_def t_def Let_def
        split: option.splits)
  have ok: "map_of (sn_jobs t) jid = Some j" "log_of_job t jid j"
    using j l by (auto simp: t_def log_of_job_def old_def split: option.splits)
  have text_t: "map_of (sn_logs t) jid = Some (old\<lparr>log_text := log_text old @ chunk\<rparr>)"
    by (simp add: t_def)
  show thesis
    by (rule that [OF step ok]) (auto simp: get_logs_of_job [OF ok] get_logs_of_job [OF j l] text_t old_def
        split: option.splits)
qed

text \<open>
  Appending chunks to the log of a job always succeeds and reads back as the old log followed by the
  chunks in order, empty ones included, under the workspace of the job.
\<close>

theorem logs_append:
  assumes "map_of (sn_jobs s) jid = Some j" and "log_of_job s jid j" and "jid \<noteq> ''''"
  shows "\<exists>t. fold_err (run_log_op jid) chunks s = Inr t
    \<and> get_logs t (normalized_job_workspace '''' j) jid
      = (fst (get_logs s (normalized_job_workspace '''' j) jid) @ concat (map snd chunks), True)"
  using assms(1,2)
proof (induction chunks arbitrary: s)
  case Nil
  then show ?case by (simp add: get_logs_of_job)
next
  case (Cons c chunks)
  obtain t where t: "run_log_op jid (fst c, snd c) s = Inr t" "map_of (sn_jobs t) jid = Some j" "log_of_job t jid j"
    "fst (get_logs t (normalized_job_workspace '''' j) jid) = fst (get_logs s (normalized_job_workspace '''' j) jid) @ snd c"
    using append_logs_step [OF Cons.prems assms(3)] by blast
  from Cons.IH [OF t(2,3)] t(1,4) show ?case by auto
qed


definition ex_logged :: job where
  "ex_logged = new_action_job ex_env (new_run ex_env '''' ''r'' ''shop'' ''pay'' zero_deployment raw_nil) raw_nil"

theorem logs_append_witness:
  "\<exists>t. fold_err (run_log_op ''job'') [(ex_env, ''ab''), (ex_env, ''''), (ex_env, ''c'')]
      (empty_snapshot\<lparr>sn_jobs := [(''job'', ex_logged)]\<rparr>) = Inr t
    \<and> get_logs t ''default'' ''job'' = (''abc'', True)"
proof -
  let ?s = "empty_snapshot\<lparr>sn_jobs := [(''job'', ex_logged)]\<rparr>"
  have w: "normalized_job_workspace '''' ex_logged = ''default''" by code_simp
  have ok: "map_of (sn_jobs ?s) ''job'' = Some ex_logged" "log_of_job ?s ''job'' ex_logged"
    by (simp_all add: log_of_job_def empty_snapshot_def)
  have "fst (get_logs ?s (normalized_job_workspace '''' ex_logged) ''job'') = ''''"
    by (simp add: get_logs_of_job [OF ok]) (simp add: empty_snapshot_def)
  with logs_append [OF ok, of "[(ex_env, ''ab''), (ex_env, ''''), (ex_env, ''c'')]"] show ?thesis
    by (simp del: fold_err.simps add: w)
qed

end
