(* ===== verification/Client_Store.thy ===== *)
theory Client_Store
  imports Run_Store
begin

text \<open>
  The API clients of a workspace and their tokens (\<^verbatim>\<open>internal/state/local_clients.go\<close>,
  \<^verbatim>\<open>internal/state/client_tokens.go\<close>). A client has at most one active token, of which the store
  keeps the SHA-256 hash; every change leaves an audit record.
\<close>

section \<open>Tokens\<close>

definition hash_client_token :: "crypto_prims \<Rightarrow> string \<Rightarrow> string" where
  "hash_client_token P v = (if trim_space v = '''' then '''' else hex_encode (sha256 P (trim_space v)))"

text \<open>\<^verbatim>\<open>hex.DecodeString\<close>\<close>

definition hex_value :: "char \<Rightarrow> nat option" where
  "hex_value c =
    (let n = of_char c :: nat in
     if 48 \<le> n \<and> n \<le> 57 then Some (n - 48)
     else if 97 \<le> n \<and> n \<le> 102 then Some (n - 87)
     else if 65 \<le> n \<and> n \<le> 70 then Some (n - 55) else None)"

fun hex_decode :: "string \<Rightarrow> string option" where
  "hex_decode [] = Some []"
| "hex_decode [c] = None"
| "hex_decode (c # d # cs) =
    (case (hex_value c, hex_value d) of
       (Some a, Some b) \<Rightarrow> map_option (\<lambda>s. char_of (a * 16 + b) # s) (hex_decode cs)
     | _ \<Rightarrow> None)"

definition client_token_matches :: "crypto_prims \<Rightarrow> client \<Rightarrow> string \<Rightarrow> bool" where
  "client_token_matches P c v \<longleftrightarrow> cli_token_hash c \<noteq> '''' \<and> trim_space v \<noteq> ''''
     \<and> (case (hex_decode (cli_token_hash c), hex_decode (hash_client_token P v)) of
          (Some want, Some got) \<Rightarrow> want = got | _ \<Rightarrow> False)"

section \<open>Reading\<close>

definition client_before :: "client \<Rightarrow> client \<Rightarrow> bool" where
  "client_before a b \<longleftrightarrow> (if cli_name a \<noteq> cli_name b then cli_name a < cli_name b else cli_id a < cli_id b)"

definition list_clients :: "snapshot \<Rightarrow> string \<Rightarrow> client list" where
  "list_clients s w = sort_slice client_before (mvals (mget_or [] (clients_of s) (normalize_workspace w)))"

definition get_client :: "snapshot \<Rightarrow> string \<Rightarrow> string \<Rightarrow> store_error + client" where
  "get_client s w cid =
    (case nget (clients_of s) (normalize_workspace w) cid of None \<Rightarrow> Inl NotFound | Some c \<Rightarrow> Inr c)"

definition get_client_by_token_hash :: "snapshot \<Rightarrow> string \<Rightarrow> string \<Rightarrow> store_error + client" where
  "get_client_by_token_hash s w h =
    (case find (\<lambda>c. h \<noteq> '''' \<and> cli_token_hash c = h)
        (mvals (mget_or [] (clients_of s) (normalize_workspace w))) of
       None \<Rightarrow> Inl NotFound | Some c \<Rightarrow> Inr c)"

definition list_client_audit :: "snapshot \<Rightarrow> string \<Rightarrow> string \<Rightarrow> client_audit list" where
  "list_client_audit s w cid = sort_slice (\<lambda>a b. cla_created_at b < cla_created_at a)
     (filter (\<lambda>r. cid = '''' \<or> cla_client r = cid) (mget_or [] (client_audits_of s) (normalize_workspace w)))"

section \<open>Writing\<close>

definition client_token_hash_exists :: "(string, client) gomap \<Rightarrow> string \<Rightarrow> string \<Rightarrow> bool" where
  "client_token_hash_exists cs h except \<longleftrightarrow>
    h \<noteq> '''' \<and> list_ex (\<lambda>(cid, c). cid \<noteq> except \<and> cli_token_hash c = h) cs"

definition client_change_detail :: "client \<Rightarrow> string \<Rightarrow> string" where
  "client_change_detail c name = (if cli_name c \<noteq> name then ''name changed'' else ''no value change'')"

text \<open>Storing a client in its workspace and recording what was done to it.\<close>

definition save_client :: "call_env \<Rightarrow> string \<Rightarrow> string \<Rightarrow> client \<Rightarrow> string \<Rightarrow> string \<Rightarrow> string \<Rightarrow> snapshot \<Rightarrow> snapshot" where
  "save_client e w cid c kind detail actor s =
    append_client_audit (draw_id e ''audit'' 0) w cid kind detail actor (clock e)
      (s\<lparr>sn_clients := Some (nput w cid c (clients_of s))\<rparr>)"

definition create_client :: "call_env \<Rightarrow> string \<Rightarrow> string \<Rightarrow> string \<Rightarrow> string \<Rightarrow> client body" where
  "create_client e w name h actor s =
    (if client_token_hash_exists (mget_or [] (clients_of s) w) h '''' then Inl Conflict
     else let c = \<lparr>cli_id = draw_id e ''client'' 0, cli_workspace = w, cli_name = name, cli_token_hash = h,
                   cli_created_by = actor, cli_updated_by = actor, cli_created_at = clock e,
                   cli_updated_at = clock e\<rparr>
          in Inr (save_client e w (cli_id c) c ''created'' '''' actor s, c))"

definition local_create_client :: "call_env \<Rightarrow> string \<Rightarrow> string \<Rightarrow> string \<Rightarrow> string \<Rightarrow> client body" where
  "local_create_client e w name h actor = update e (create_client e (normalize_workspace w) name h actor)"

definition update_client :: "call_env \<Rightarrow> string \<Rightarrow> string \<Rightarrow> string \<Rightarrow> string \<Rightarrow> client body" where
  "update_client e w cid name actor s =
    (case nget (clients_of s) w cid of
       None \<Rightarrow> Inl NotFound
     | Some c \<Rightarrow>
         let c' = c\<lparr>cli_name := name, cli_updated_by := actor, cli_updated_at := clock e\<rparr>
         in Inr (save_client e w cid c' ''updated'' (client_change_detail c name) actor s, c'))"

definition local_update_client :: "call_env \<Rightarrow> string \<Rightarrow> string \<Rightarrow> string \<Rightarrow> string \<Rightarrow> client body" where
  "local_update_client e w cid name actor = update e (update_client e (normalize_workspace w) cid name actor)"

definition rotate_client_token :: "call_env \<Rightarrow> string \<Rightarrow> string \<Rightarrow> string \<Rightarrow> string \<Rightarrow> client body" where
  "rotate_client_token e w cid h actor s =
    (case nget (clients_of s) w cid of
       None \<Rightarrow> Inl NotFound
     | Some c \<Rightarrow>
         if client_token_hash_exists (mget_or [] (clients_of s) w) h cid then Inl Conflict
         else let c' = c\<lparr>cli_token_hash := h, cli_updated_by := actor, cli_updated_at := clock e\<rparr>
              in Inr (save_client e w cid c' ''token_rotated'' '''' actor s, c'))"

definition local_rotate_client_token :: "call_env \<Rightarrow> string \<Rightarrow> string \<Rightarrow> string \<Rightarrow> string \<Rightarrow> client body" where
  "local_rotate_client_token e w cid h actor s =
    (if h = '''' then Inl InvalidState
     else update e (rotate_client_token e (normalize_workspace w) cid h actor) s)"

definition revoke_client_token :: "call_env \<Rightarrow> string \<Rightarrow> string \<Rightarrow> string \<Rightarrow> client body" where
  "revoke_client_token e w cid actor s =
    (case nget (clients_of s) w cid of
       None \<Rightarrow> Inl NotFound
     | Some c \<Rightarrow>
         if cli_token_hash c = '''' then Inl InvalidState
         else let c' = c\<lparr>cli_token_hash := '''', cli_updated_by := actor, cli_updated_at := clock e\<rparr>
              in Inr (save_client e w cid c' ''token_revoked'' '''' actor s, c'))"

definition local_revoke_client_token :: "call_env \<Rightarrow> string \<Rightarrow> string \<Rightarrow> string \<Rightarrow> client body" where
  "local_revoke_client_token e w cid actor = update e (revoke_client_token e (normalize_workspace w) cid actor)"

definition delete_client :: "call_env \<Rightarrow> string \<Rightarrow> string \<Rightarrow> string \<Rightarrow> unit body" where
  "delete_client e w cid actor s =
    (case nget (clients_of s) w cid of
       None \<Rightarrow> Inl NotFound
     | Some c \<Rightarrow>
         if cli_token_hash c \<noteq> '''' then Inl Conflict
         else
           let s1 = s\<lparr>sn_clients := Some (ndel w cid (clients_of s)),
                     sn_input_configs := (case map_of (sn_input_configs s) w of
                         None \<Rightarrow> sn_input_configs s
                       | Some cfgs \<Rightarrow> mput w (mfilter (\<lambda>k ic. ic_client ic \<noteq> cid) cfgs) (sn_input_configs s))\<rparr>
           in Inr (append_client_audit (draw_id e ''audit'' 0) w cid ''deleted'' '''' actor (clock e) s1, ()))"

definition local_delete_client :: "call_env \<Rightarrow> string \<Rightarrow> string \<Rightarrow> string \<Rightarrow> unit body" where
  "local_delete_client e w cid actor = update e (delete_client e (normalize_workspace w) cid actor)"

definition local_append_client_audit ::
    "call_env \<Rightarrow> string \<Rightarrow> string \<Rightarrow> string \<Rightarrow> string \<Rightarrow> string \<Rightarrow> unit body" where
  "local_append_client_audit e w cid kind detail actor =
    update e (\<lambda>s. Inr (append_client_audit (draw_id e ''audit'' 0) (normalize_workspace w) cid kind detail actor
      (clock e) s, ()))"

end
