(* ===== verification/Input_Config.thy ===== *)
theory Input_Config
  imports Client_Store
begin

text \<open>
  Input settings: defaults and locked keys an operator sets for an app, one of its actions, one of its
  clients or one action for one client (\<^verbatim>\<open>internal/state/input_config.go\<close>,
  \<^verbatim>\<open>local_input_config.go\<close>, \<^verbatim>\<open>runtime_input.go\<close>). Resolving a request lays the applicable
  settings under it, the more specific above the less specific, and refuses a request that sets a
  locked key. The audit record of a change lists the keys it touched: \<open>same_bytes\<close> is the comparison of
  the raw bytes of two values, which the document model does not determine.
\<close>

section \<open>Overlay\<close>

record config_layer =
  layer_config :: "(string, json) gomap"
  layer_locked :: "string list"

definition put_all :: "('k, 'v) gomap \<Rightarrow> ('k, 'v) gomap \<Rightarrow> ('k, 'v) gomap" where
  "put_all kvs m = fold (\<lambda>(k, v). mput k v) kvs m"

definition apply_input_overlay ::
    "(string, json) gomap \<Rightarrow> config_layer list \<Rightarrow> (string, json) gomap \<times> string list" where
  "apply_input_overlay request layers =
    (let base = fold (\<lambda>l. put_all (layer_config l)) layers [];
         locked = concat (map layer_locked layers)
     in (put_all (filter (\<lambda>(k, v). k \<notin> set locked) request) base,
         sort_strings (map fst (filter (\<lambda>(k, v). k \<in> set locked) request))))"

definition input_config_rank :: "input_config \<Rightarrow> nat" where
  "input_config_rank ic = (if ic_action ic \<noteq> '''' then 1 else 0) + (if ic_client ic \<noteq> '''' then 2 else 0)"

definition rank_before :: "input_config \<Rightarrow> input_config \<Rightarrow> bool" where
  "rank_before a b \<longleftrightarrow> input_config_rank a < input_config_rank b"

fun config_layers :: "input_config list \<Rightarrow> store_error + config_layer list" where
  "config_layers [] = Inr []"
| "config_layers (ic # ics) =
    (case raw_object (canonical_json_value (ic_config ic) empty_object) of
       None \<Rightarrow> Inl InvalidArgument
     | Some m \<Rightarrow> and_then (config_layers ics) (\<lambda>ls.
         Inr (\<lparr>layer_config = m, layer_locked = ic_locked_keys ic\<rparr> # ls)))"

definition resolve_input_configs :: "raw \<Rightarrow> input_config list \<Rightarrow> store_error + raw" where
  "resolve_input_configs request configs =
    (if configs = [] then Inr request
     else case raw_object (canonical_json_value request empty_object) of
       None \<Rightarrow> Inl InvalidArgument
     | Some req \<Rightarrow> and_then (config_layers (sort_slice rank_before configs)) (\<lambda>layers.
         let (effective, rejected) = apply_input_overlay req layers in
         if rejected \<noteq> [] then Inl (LockedKeys rejected) else Inr (marshal_object effective)))"

section \<open>Audit details\<close>

definition input_config_key :: "string \<Rightarrow> string \<Rightarrow> string \<Rightarrow> string" where
  "input_config_key app action client = app @ CHR 0x00 # action @ CHR 0x00 # client"

definition input_config_values :: "input_config option \<Rightarrow> (string, json) gomap" where
  "input_config_values c = (case c of None \<Rightarrow> []
     | Some ic \<Rightarrow> (case raw_object (ic_config ic) of None \<Rightarrow> [] | Some m \<Rightarrow> m))"

definition input_config_locked_keys :: "input_config option \<Rightarrow> string list" where
  "input_config_locked_keys c = (case c of None \<Rightarrow> [] | Some ic \<Rightarrow> ic_locked_keys ic)"

datatype key_change = KeyAdded | KeyUpdated | KeyRemoved

definition changed_input_keys ::
    "(json \<Rightarrow> json \<Rightarrow> bool) \<Rightarrow> (string, json) gomap \<Rightarrow> (string, json) gomap \<Rightarrow> key_change \<Rightarrow> string list" where
  "changed_input_keys same_bytes previous nxt kind = sort_strings (case kind of
       KeyAdded \<Rightarrow> map fst (filter (\<lambda>(k, v). map_of previous k = None) nxt)
     | KeyUpdated \<Rightarrow> map fst (filter (\<lambda>(k, v). case map_of previous k of
           None \<Rightarrow> False | Some v' \<Rightarrow> \<not> same_bytes v' v) nxt)
     | KeyRemoved \<Rightarrow> map fst (filter (\<lambda>(k, v). map_of nxt k = None) previous))"

definition changed_string_set :: "string list \<Rightarrow> string list \<Rightarrow> string list" where
  "changed_string_set previous nxt = sort_strings (filter (\<lambda>v. v \<notin> set previous) nxt)"

text \<open>The lists that are not empty, as the members of a JSON object.\<close>

definition omit_empty_list :: "string \<Rightarrow> string list \<Rightarrow> (string \<times> json) list" where
  "omit_empty_list name vs = (if vs = [] then [] else [(name, JArr (map JStr vs))])"

definition input_config_audit_detail ::
    "crypto_prims \<Rightarrow> (json \<Rightarrow> json \<Rightarrow> bool) \<Rightarrow> input_config option \<Rightarrow> input_config option \<Rightarrow> string" where
  "input_config_audit_detail P same_bytes previous nxt =
    (let pv = input_config_values previous; nv = input_config_values nxt;
         pl = input_config_locked_keys previous; nl = input_config_locked_keys nxt in
     json_text P (JObj (omit_empty_list ''added'' (changed_input_keys same_bytes pv nv KeyAdded)
       @ omit_empty_list ''updated'' (changed_input_keys same_bytes pv nv KeyUpdated)
       @ omit_empty_list ''removed'' (changed_input_keys same_bytes pv nv KeyRemoved)
       @ omit_empty_list ''locked'' (changed_string_set pl nl)
       @ omit_empty_list ''unlocked'' (changed_string_set nl pl))))"

definition find_input_config :: "input_config list \<Rightarrow> string \<Rightarrow> string \<Rightarrow> input_config option" where
  "find_input_config ics action client = find (\<lambda>ic. ic_action ic = action \<and> ic_client ic = client) ics"

fun locked_keys_loop :: "(string, json) gomap \<Rightarrow> string list \<Rightarrow> string list \<Rightarrow> store_error + string list" where
  "locked_keys_loop config out [] = Inr out"
| "locked_keys_loop config out (r # rs) =
    (let key = trim_space r in
     if key = '''' then Inl InvalidInputConfig
     else if map_of config key = None then Inl InvalidInputConfig
     else locked_keys_loop config (if key \<in> set out then out else out @ [key]) rs)"

definition normalized_locked_keys :: "(string, json) gomap \<Rightarrow> string list \<Rightarrow> store_error + string list" where
  "normalized_locked_keys config keys = and_then (locked_keys_loop config [] keys) (\<lambda>out. Inr (sort_strings out))"

section \<open>The settings of a workspace\<close>

definition config_before :: "input_config \<Rightarrow> input_config \<Rightarrow> bool" where
  "config_before a b \<longleftrightarrow>
    (if ic_app a \<noteq> ic_app b then ic_app a < ic_app b
     else if ic_action a \<noteq> ic_action b then ic_action a < ic_action b
     else ic_client a < ic_client b)"

fun decrypt_configs :: "input_crypto \<Rightarrow> string \<Rightarrow> input_config list \<Rightarrow> store_error + input_config list" where
  "decrypt_configs C w [] = Inr []"
| "decrypt_configs C w (ic # ics) =
    and_then (decrypt_input C w (ic_config ic)) (\<lambda>plain.
    and_then (decrypt_configs C w ics) (\<lambda>out. Inr (ic\<lparr>ic_config := plain\<rparr> # out)))"

definition list_local_input_configs ::
    "input_crypto \<Rightarrow> snapshot \<Rightarrow> string \<Rightarrow> (input_config \<Rightarrow> bool) \<Rightarrow> store_error + input_config list" where
  "list_local_input_configs C s w include =
    and_then (decrypt_configs C (normalize_workspace w)
        (filter include (mvals (mget_or [] (sn_input_configs s) (normalize_workspace w)))))
      (\<lambda>ics. Inr (sort_slice config_before ics))"

definition list_input_configs_for_app :: "input_crypto \<Rightarrow> snapshot \<Rightarrow> string \<Rightarrow> string \<Rightarrow> store_error + input_config list" where
  "list_input_configs_for_app C s w app = list_local_input_configs C s w (\<lambda>ic. ic_app ic = app)"

definition list_input_configs_for_client :: "input_crypto \<Rightarrow> snapshot \<Rightarrow> string \<Rightarrow> string \<Rightarrow> store_error + input_config list" where
  "list_input_configs_for_client C s w cid =
    and_then (get_client s w cid) (\<lambda>_. list_local_input_configs C s w (\<lambda>ic. ic_client ic = cid))"

definition append_input_config_audit ::
    "call_env \<Rightarrow> input_config \<Rightarrow> string \<Rightarrow> string \<Rightarrow> string \<Rightarrow> snapshot \<Rightarrow> snapshot" where
  "append_input_config_audit e ic kind detail actor s =
    s\<lparr>sn_input_config_audits := mput (ic_workspace ic) (mget_or [] (sn_input_config_audits s) (ic_workspace ic)
      @ [\<lparr>ica_id = draw_id e ''audit'' 0, ica_workspace = ic_workspace ic, ica_app = ic_app ic,
          ica_action = ic_action ic, ica_client = ic_client ic, ica_kind = kind, ica_detail = detail,
          ica_actor = actor, ica_created_at = clock e\<rparr>]) (sn_input_config_audits s)\<rparr>"

definition list_input_config_audit :: "snapshot \<Rightarrow> string \<Rightarrow> string \<Rightarrow> string \<Rightarrow> input_config_audit list" where
  "list_input_config_audit s w app cid = sort_slice (\<lambda>a b. ica_created_at b < ica_created_at a)
     (filter (\<lambda>r. (app = '''' \<or> ica_app r = app) \<and> (cid = '''' \<or> ica_client r = cid))
       (mget_or [] (sn_input_config_audits s) (normalize_workspace w)))"

text \<open>What the write of a setting does under the lock.\<close>

definition set_input_config :: "call_env \<Rightarrow> input_config \<Rightarrow> string \<Rightarrow> input_config body" where
  "set_input_config e saved detail s =
    (let w = ic_workspace saved in
     if ic_client saved \<noteq> '''' \<and> nget (clients_of s) w (ic_client saved) = None then Inl NotFound
     else Inr (append_input_config_audit e saved ''set'' detail (ic_updated_by saved)
       (s\<lparr>sn_input_configs := nput w (input_config_key (ic_app saved) (ic_action saved) (ic_client saved)) saved
         (sn_input_configs s)\<rparr>), saved))"

text \<open>
  \<open>s0\<close> is the snapshot the settings are read from before the lock is taken, for the audit record;
  another write may come between.
\<close>

definition local_set_input_config ::
    "input_crypto \<Rightarrow> (json \<Rightarrow> json \<Rightarrow> bool) \<Rightarrow> call_env \<Rightarrow> snapshot \<Rightarrow> input_config \<Rightarrow> string \<Rightarrow> input_config body" where
  "local_set_input_config C same_bytes e s0 ic actor s =
    (let w = normalize_workspace (ic_workspace ic);
         app = trim_space (ic_app ic); action = trim_space (ic_action ic); client = trim_space (ic_client ic);
         actor = first_non_empty [trim_space actor, default_actor_subject] in
     and_then (list_input_configs_for_app C s0 w app) (\<lambda>existing.
     case raw_object (canonical_json_value (ic_config ic) empty_object) of
       None \<Rightarrow> Inl InvalidInputConfig
     | Some vals \<Rightarrow>
       and_then (normalized_locked_keys vals (ic_locked_keys ic)) (\<lambda>locked.
       let plain = marshal_object vals in
       and_then (encrypt_input C (draw_nonce e ''config'' 0) w plain) (\<lambda>enc.
       let saved = \<lparr>ic_workspace = w, ic_app = app, ic_action = action, ic_client = client, ic_config = enc,
             ic_locked_keys = locked, ic_updated_by = actor, ic_updated_at = clock e\<rparr>;
           detail = input_config_audit_detail (prims C) same_bytes (find_input_config existing action client)
             (Some (saved\<lparr>ic_config := plain\<rparr>)) in
       and_then (update e (set_input_config e saved detail) s) (\<lambda>(t, saved).
       Inr (t, saved\<lparr>ic_config := plain\<rparr>))))))"

definition delete_input_config :: "call_env \<Rightarrow> string \<Rightarrow> string \<Rightarrow> string \<Rightarrow> string \<Rightarrow> unit body" where
  "delete_input_config e w key detail actor s =
    (case nget (sn_input_configs s) w key of
       None \<Rightarrow> Inr (s, ())
     | Some ic \<Rightarrow> Inr (append_input_config_audit e ic ''deleted'' detail actor
         (s\<lparr>sn_input_configs := ndel w key (sn_input_configs s)\<rparr>), ()))"

definition local_delete_input_config ::
    "input_crypto \<Rightarrow> (json \<Rightarrow> json \<Rightarrow> bool) \<Rightarrow> call_env \<Rightarrow> snapshot \<Rightarrow> string \<Rightarrow> string \<Rightarrow> string \<Rightarrow> string \<Rightarrow> string \<Rightarrow> unit body" where
  "local_delete_input_config C same_bytes e s0 w app action client actor s =
    (let w = normalize_workspace w; app = trim_space app; action = trim_space action; client = trim_space client in
     and_then (list_input_configs_for_app C s0 w app) (\<lambda>existing.
     update e (delete_input_config e w (input_config_key app action client)
       (input_config_audit_detail (prims C) same_bytes (find_input_config existing action client) None)
       (first_non_empty [trim_space actor, default_actor_subject])) s))"

definition config_applies :: "string \<Rightarrow> string \<Rightarrow> input_config \<Rightarrow> bool" where
  "config_applies action client ic \<longleftrightarrow>
    (ic_action ic = '''' \<or> ic_action ic = action) \<and> (ic_client ic = '''' \<or> ic_client ic = client)"

definition resolve_input ::
    "input_crypto \<Rightarrow> snapshot \<Rightarrow> string \<Rightarrow> string \<Rightarrow> string \<Rightarrow> string \<Rightarrow> raw \<Rightarrow> store_error + raw" where
  "resolve_input C s w app action client request =
    (let w = normalize_workspace w in
     and_then (if client = '''' then Inr () else and_then (get_client s w client) (\<lambda>_. Inr ())) (\<lambda>_.
     and_then (list_input_configs_for_app C s w app) (\<lambda>ics.
     resolve_input_configs request (filter (config_applies action client) ics))))"

section \<open>Reserved input\<close>

definition reserved_runtime_input_key :: string where
  "reserved_runtime_input_key = ''_SCRAPING_RUNTIME''"

definition contains_reserved_runtime_input :: "(string, json) gomap \<Rightarrow> bool" where
  "contains_reserved_runtime_input m \<longleftrightarrow> map_of m reserved_runtime_input_key \<noteq> None"

definition strip_reserved_runtime_input :: "raw \<Rightarrow> raw" where
  "strip_reserved_runtime_input r =
    (case raw_object r of
       None \<Rightarrow> r
     | Some m \<Rightarrow> if map_of m reserved_runtime_input_key = None then r
                else marshal_object (mdel reserved_runtime_input_key m))"


section \<open>The value of a key\<close>

fun first_some :: "'a option list \<Rightarrow> 'a option" where
  "first_some [] = None"
| "first_some (None # xs) = first_some xs"
| "first_some (Some x # xs) = Some x"

lemma first_some_None: "first_some xs = None \<longleftrightarrow> (\<forall>x \<in> set xs. x = None)"
  by (induction xs rule: first_some.induct) auto

text \<open>What a setting sets, and what the setting for exactly this action and client sets for a key.\<close>

definition config_values :: "input_config \<Rightarrow> (string, json) gomap option" where
  "config_values ic = raw_object (canonical_json_value (ic_config ic) empty_object)"

definition sets_key :: "string \<Rightarrow> input_config \<Rightarrow> json option" where
  "sets_key k ic = (case config_values ic of None \<Rightarrow> None | Some m \<Rightarrow> map_of m k)"

definition level_value :: "input_config list \<Rightarrow> string \<Rightarrow> string \<Rightarrow> string \<Rightarrow> json option" where
  "level_value ics action client k =
    (case find_input_config ics action client of None \<Rightarrow> None | Some ic \<Rightarrow> sets_key k ic)"

lemma config_values_ok: "config_values ic = Some m \<Longrightarrow> map_ok m"
  by (auto simp: config_values_def raw_object_Some map_ok_object_map)

lemma map_of_put_all: "map_ok kvs \<Longrightarrow> map_of (put_all kvs m) k = (case map_of kvs k of None \<Rightarrow> map_of m k | Some v \<Rightarrow> Some v)"
  by (simp add: put_all_def fold_mput_map_of map_of_rev_ok)

lemma map_ok_put_all [map_intros]: "map_ok m \<Longrightarrow> map_ok (put_all kvs m)"
  unfolding put_all_def by (induction kvs arbitrary: m) (auto intro: map_ok_mput)

lemma map_of_filter_keys: "map_of (filter (\<lambda>(k, v). P k) kvs) k = (if P k then map_of kvs k else None)"
  by (induction kvs) auto

lemma map_ok_filter_keys [map_intros]: "map_ok kvs \<Longrightarrow> map_ok (filter (\<lambda>(k, v). P k) kvs)"
  using map_ok_mfilter [of kvs "\<lambda>k v. P k"] by (simp add: mfilter_def)

text \<open>The layers of settings whose documents are objects.\<close>

lemma config_layers_Inr:
  "config_layers ics = Inr ls \<longleftrightarrow> (\<forall>ic \<in> set ics. config_values ic \<noteq> None)
     \<and> ls = map (\<lambda>ic. \<lparr>layer_config = the (config_values ic), layer_locked = ic_locked_keys ic\<rparr>) ics"
  by (induction ics arbitrary: ls) (auto simp: and_then_eq_Inr config_values_def split: option.splits)

lemma base_lookup:
  assumes "\<forall>ic \<in> set ics. config_values ic \<noteq> None"
  shows "map_of (fold (\<lambda>l. put_all (layer_config l))
      (map (\<lambda>ic. \<lparr>layer_config = the (config_values ic), layer_locked = ic_locked_keys ic\<rparr>) ics) m) k
    = (case find (\<lambda>ic. sets_key k ic \<noteq> None) (rev ics) of None \<Rightarrow> map_of m k | Some ic \<Rightarrow> sets_key k ic)"
  using assms
proof (induction ics rule: rev_induct)
  case (snoc ic ics)
  then obtain vs where vs: "config_values ic = Some vs" by auto
  with snoc show ?case
    by (auto simp: sets_key_def map_of_put_all [OF config_values_ok] split: option.splits)
qed simp

lemma find_rev_max:
  "sorted_wrt (\<lambda>x y. f x < (f y :: nat)) xs \<Longrightarrow> x \<in> set xs \<Longrightarrow> P x \<Longrightarrow>
    (\<And>y. y \<in> set xs \<Longrightarrow> P y \<Longrightarrow> f y \<le> f x) \<Longrightarrow> find P (rev xs) = Some x"
proof (induction xs rule: rev_induct)
  case (snoc y xs)
  show ?case
  proof (cases "P y")
    case True
    then have "x = y" using snoc.prems by (force simp: sorted_wrt_append)
    with True show ?thesis by simp
  next
    case False
    with snoc show ?thesis by (auto simp: sorted_wrt_append)
  qed
qed simp

definition one_per_level :: "input_config list \<Rightarrow> bool" where
  "one_per_level ics \<longleftrightarrow> distinct (map (\<lambda>ic. (ic_action ic, ic_client ic)) ics)"

lemma one_per_levelD:
  "one_per_level ics \<Longrightarrow> x \<in> set ics \<Longrightarrow> y \<in> set ics \<Longrightarrow> ic_action x = ic_action y \<Longrightarrow> ic_client x = ic_client y \<Longrightarrow> x = y"
  by (metis (mono_tags, lifting) distinct_map inj_onD one_per_level_def prod.inject)

lemma find_input_config_Some:
  "one_per_level ics \<Longrightarrow> find_input_config ics a c = Some ic \<longleftrightarrow> ic \<in> set ics \<and> ic_action ic = a \<and> ic_client ic = c"
proof -
  assume one: "one_per_level ics"
  have "find_input_config ics a c = Some ic" if "ic \<in> set ics" "ic_action ic = a" "ic_client ic = c"
  proof -
    have "find_input_config ics a c \<noteq> None"
      using that by (auto simp: find_input_config_def find_None_iff)
    then obtain ic' where ic': "find_input_config ics a c = Some ic'" by auto
    then have "ic' \<in> set ics \<and> ic_action ic' = a \<and> ic_client ic' = c"
      unfolding find_input_config_def using find_Some_mem by fastforce
    with one_per_levelD [OF one] that ic' show ?thesis by metis
  qed
  moreover have "ic \<in> set ics \<and> ic_action ic = a \<and> ic_client ic = c" if "find_input_config ics a c = Some ic"
    using that unfolding find_input_config_def using find_Some_mem by fastforce
  ultimately show ?thesis by blast
qed


lemma sorted_levels:
  assumes one: "one_per_level ics"
  shows "sorted_wrt (\<lambda>x y. input_config_rank x < input_config_rank y)
    (sort_slice rank_before (filter (config_applies action client) ics))"
proof -
  define xs where "xs = sort_slice rank_before (filter (config_applies action client) ics)"
  have "sorted_wrt (\<lambda>x y. \<not> rank_before y x) xs"
    unfolding xs_def by (rule sorted_sort_slice) (simp add: rank_before_def strict_weak_key)
  then have weak: "input_config_rank (xs ! i) \<le> input_config_rank (xs ! j)" if "i < j" "j < length xs" for i j
    using that by (auto simp: sorted_wrt_iff_nth_less rank_before_def not_less)
  have dis: "distinct xs" using one by (simp add: xs_def one_per_level_def distinct_map)
  have inj: "x = y" if "x \<in> set xs" "y \<in> set xs" "input_config_rank x = input_config_rank y" for x y
    using that by (intro one_per_levelD [OF one]) (auto simp: xs_def config_applies_def input_config_rank_def split: if_splits)
  have "input_config_rank (xs ! i) < input_config_rank (xs ! j)" if ij: "i < j" "j < length xs" for i j
  proof -
    have "xs ! i \<noteq> xs ! j" using ij dis by (simp add: nth_eq_iff_index_eq)
    then have "input_config_rank (xs ! i) \<noteq> input_config_rank (xs ! j)" using inj [of "xs ! i" "xs ! j"] ij by auto
    with weak [OF ij] show ?thesis by simp
  qed
  then show ?thesis by (simp add: sorted_wrt_iff_nth_less flip: xs_def)
qed

text \<open>The settings that apply give a key the value of the most specific one that sets it.\<close>

lemma level_value_Some:
  assumes one: "one_per_level ics"
  shows "level_value ics a c k = Some v \<longleftrightarrow>
    (\<exists>ic \<in> set ics. ic_action ic = a \<and> ic_client ic = c \<and> sets_key k ic = Some v)"
proof
  assume "level_value ics a c k = Some v"
  then show "\<exists>ic \<in> set ics. ic_action ic = a \<and> ic_client ic = c \<and> sets_key k ic = Some v"
    using find_input_config_Some [OF one] by (auto simp: level_value_def split: option.splits)
next
  assume "\<exists>ic \<in> set ics. ic_action ic = a \<and> ic_client ic = c \<and> sets_key k ic = Some v"
  then obtain ic where "find_input_config ics a c = Some ic" "sets_key k ic = Some v"
    using find_input_config_Some [OF one] by metis
  then show "level_value ics a c k = Some v" by (simp add: level_value_def)
qed

lemma applicable_value:
  assumes one: "one_per_level ics"
  shows "(case find (\<lambda>ic. sets_key k ic \<noteq> None) (rev (sort_slice rank_before (filter (config_applies action client) ics))) of
        None \<Rightarrow> None | Some ic \<Rightarrow> sets_key k ic)
    = first_some [level_value ics action client k, level_value ics '''' client k,
        level_value ics action '''' k, level_value ics '''' '''' k]"
    (is "?found = ?spec")
proof -
  note srt = sorted_levels [OF one, of action client]
  note level = level_value_Some [OF one]
  have none: "level_value ics a c k = None \<longleftrightarrow> (\<forall>ic \<in> set ics. ic_action ic = a \<and> ic_client ic = c \<longrightarrow> sets_key k ic = None)" for a c
    using level [of a c k] by (metis not_None_eq)
  have found: "?found = Some v"
    if "ic \<in> set ics" "config_applies action client ic" "sets_key k ic = Some v"
      "\<forall>y \<in> set ics. config_applies action client y \<longrightarrow> sets_key k y \<noteq> None \<longrightarrow> input_config_rank y \<le> input_config_rank ic" for ic v
    using that find_rev_max [OF srt, of ic "\<lambda>ic. sets_key k ic \<noteq> None"] by simp
  have pick: "?found = Some v" if "level_value ics a c k = Some v" "a \<in> {'''', action}" "c \<in> {'''', client}"
    "\<And>a' c'. a' \<in> {'''', action} \<Longrightarrow> c' \<in> {'''', client} \<Longrightarrow>
       (if a' \<noteq> '''' then 1 else 0) + (if c' \<noteq> '''' then 2 else 0) > (if a \<noteq> '''' then 1 else 0) + (if c \<noteq> '''' then 2 else 0 :: nat)
       \<Longrightarrow> level_value ics a' c' k = None" for a c v
  proof -
    from that(1) obtain ic where ic: "ic \<in> set ics" "ic_action ic = a" "ic_client ic = c" "sets_key k ic = Some v"
      unfolding level by blast
    show ?thesis
    proof (rule found [OF ic(1) _ ic(4)])
      show "config_applies action client ic" using that(2,3) ic by (auto simp: config_applies_def)
      show "\<forall>y \<in> set ics. config_applies action client y \<longrightarrow> sets_key k y \<noteq> None \<longrightarrow> input_config_rank y \<le> input_config_rank ic"
        using that(4) ic(2,3) unfolding none by (fastforce simp: config_applies_def input_config_rank_def not_less)
    qed
  qed
  show ?thesis
  proof (cases "?spec")
    case None
    then have n: "level_value ics action client k = None" "level_value ics '''' client k = None"
      "level_value ics action '''' k = None" "level_value ics '''' '''' k = None"
      by (simp_all add: first_some_None)
    have "sets_key k ic = None" if "ic \<in> set ics" "config_applies action client ic" for ic
      using n that unfolding none by (auto simp: config_applies_def)
    then have "find (\<lambda>ic. sets_key k ic \<noteq> None) (rev (sort_slice rank_before (filter (config_applies action client) ics))) = None"
      by (simp add: find_None_iff)
    with None show ?thesis by simp
  next
    case (Some v)
    consider "level_value ics action client k = Some v"
      | "level_value ics action client k = None" "level_value ics '''' client k = Some v"
      | "level_value ics action client k = None" "level_value ics '''' client k = None" "level_value ics action '''' k = Some v"
      | "level_value ics action client k = None" "level_value ics '''' client k = None" "level_value ics action '''' k = None"
        "level_value ics '''' '''' k = Some v"
      using Some by (cases "level_value ics action client k"; cases "level_value ics '''' client k";
          cases "level_value ics action '''' k"; cases "level_value ics '''' '''' k") auto
    then have "?found = Some v"
    proof cases
      case 1
      then show ?thesis by (rule pick) (auto split: if_splits)
    next
      case 2
      show ?thesis by (rule pick [OF 2(2)]) (use 2(1) in \<open>auto split: if_splits\<close>)
    next
      case 3
      show ?thesis by (rule pick [OF 3(3)]) (use 3(1,2) in \<open>auto split: if_splits\<close>)
    next
      case 4
      show ?thesis by (rule pick [OF 4(4)]) (use 4(1-3) in \<open>auto split: if_splits\<close>)
    qed
    with Some show ?thesis by simp
  qed
qed


section \<open>Resolving\<close>

text \<open>
  The settings are usable when each is a JSON object. \<open>locked_by\<close> are the keys some applicable setting
  locks and \<open>refused_keys\<close> those of them the request sets.
\<close>

definition usable_settings :: "input_config list \<Rightarrow> bool" where
  "usable_settings ics \<longleftrightarrow> (\<forall>ic \<in> set ics. config_values ic \<noteq> None)"

definition locked_by :: "input_config list \<Rightarrow> string set" where
  "locked_by ics = (\<Union>ic \<in> set ics. set (ic_locked_keys ic))"

definition refused_keys :: "(string, json) gomap \<Rightarrow> input_config list \<Rightarrow> string set" where
  "refused_keys req ics = {k \<in> locked_by ics. map_of req k \<noteq> None}"

lemma refused_keys_sorted:
  assumes "map_ok req"
    and ks: "ks = sort_strings (map fst (filter (\<lambda>(k, v). k \<in> locked_by ics) req))"
  shows "sorted ks \<and> distinct ks \<and> set ks = refused_keys req ics"
proof -
  have "set ks = refused_keys req ics"
    by (force simp: ks refused_keys_def map_of_eq_None_iff)
  moreover have "distinct (map fst (filter (\<lambda>(k, v). k \<in> locked_by ics) req))"
    using assms(1) by (simp add: map_ok_def mkeys_def distinct_map_filter)
  ultimately show ?thesis by (simp add: ks sorted_sort_strings)
qed

lemma set_layers_locked:
  "set (concat (map layer_locked (map (\<lambda>ic. \<lparr>layer_config = f ic, layer_locked = ic_locked_keys ic\<rparr>)
     (sort_slice rank_before ics)))) = locked_by ics"
  by (auto simp: locked_by_def)

lemma resolve_configs_eq:
  assumes "ics \<noteq> []" and "raw_object (canonical_json_value request empty_object) = Some req"
  shows "resolve_input_configs request ics =
    (if \<not> usable_settings ics then Inl InvalidArgument
     else if refused_keys req ics \<noteq> {} then Inl (LockedKeys (sort_strings (map fst (filter (\<lambda>(k, v). k \<in> locked_by ics) req))))
     else Inr (marshal_object (put_all (filter (\<lambda>(k, v). k \<notin> locked_by ics) req)
       (fold (\<lambda>l. put_all (layer_config l))
         (map (\<lambda>ic. \<lparr>layer_config = the (config_values ic), layer_locked = ic_locked_keys ic\<rparr>)
           (sort_slice rank_before ics)) []))))"
proof -
  have bad: "config_layers cs = Inl InvalidArgument" if "\<not> usable_settings cs" for cs
    using that
  proof (induction cs)
    case (Cons c cs)
    then show ?case
      by (cases "config_values c"; cases "usable_settings cs")
        (auto simp: usable_settings_def config_values_def config_layers_Inr [THEN iffD2, OF conjI] split: option.splits)
  qed (simp add: usable_settings_def)
  show ?thesis
  proof (cases "usable_settings ics")
    case False
    then have "\<not> usable_settings (sort_slice rank_before ics)" by (simp add: usable_settings_def)
    with False assms bad show ?thesis by (simp add: resolve_input_configs_def)
  next
    case True
    define ls where "ls = map (\<lambda>ic. \<lparr>layer_config = the (config_values ic), layer_locked = ic_locked_keys ic\<rparr>)
      (sort_slice rank_before ics)"
    have ls: "config_layers (sort_slice rank_before ics) = Inr ls"
      using True by (simp add: config_layers_Inr usable_settings_def ls_def)
    have lk: "set (concat (map layer_locked ls)) = locked_by ics"
      unfolding ls_def by (rule set_layers_locked)
    have "refused_keys req ics = {} \<longleftrightarrow> (\<forall>p \<in> set req. fst p \<notin> locked_by ics)"
      by (auto simp: refused_keys_def map_of_eq_None_iff)
    then have "map fst (filter (\<lambda>(k, v). k \<in> locked_by ics) req) = [] \<longleftrightarrow> refused_keys req ics = {}"
      by (auto simp: filter_empty_conv)
    then have "sort_strings (map fst (filter (\<lambda>(k, v). k \<in> locked_by ics) req)) = [] \<longleftrightarrow> refused_keys req ics = {}"
      by (metis length_0_conv length_sort_strings)
    moreover have "apply_input_overlay req ls = (put_all (filter (\<lambda>(k, v). k \<notin> locked_by ics) req)
        (fold (\<lambda>l. put_all (layer_config l)) ls []),
        sort_strings (map fst (filter (\<lambda>(k, v). k \<in> locked_by ics) req)))"
      by (simp only: apply_input_overlay_def Let_def lk)
    ultimately show ?thesis
      using True assms ls by (simp add: resolve_input_configs_def flip: ls_def)
  qed
qed


text \<open>A request that is resolved: the value of every key.\<close>

lemma resolved_value:
  assumes one: "one_per_level ics"
    and req: "raw_object (canonical_json_value request empty_object) = Some req"
    and res: "resolve_input_configs request (filter (config_applies action client) ics) = Inr r"
  shows "\<exists>m. raw_object (canonical_json_value r empty_object) = Some m \<and> map_ok m
    \<and> (\<forall>k. map_of m k = first_some [map_of req k, level_value ics action client k,
        level_value ics '''' client k, level_value ics action '''' k, level_value ics '''' '''' k])"
proof (cases "filter (config_applies action client) ics = []")
  case True
  with res have "r = request" by (simp add: resolve_input_configs_def)
  moreover have "level_value ics a c k = None" if "a \<in> {'''', action}" "c \<in> {'''', client}" for a c k
  proof (cases "level_value ics a c k")
    case (Some v)
    then obtain ic where "ic \<in> set ics" "ic_action ic = a" "ic_client ic = c"
      unfolding level_value_Some [OF one] by blast
    with True that show ?thesis by (auto simp: filter_empty_conv config_applies_def)
  qed
  moreover have "map_ok req" using req by (auto simp: raw_object_Some map_ok_object_map)
  moreover have "first_some [x, None, None, None, None] = x" for x :: "json option" by (cases x) simp_all
  ultimately show ?thesis using req by (auto intro!: exI [of _ req])
next
  case False
  let ?as = "filter (config_applies action client) ics"
  let ?cs = "sort_slice rank_before ?as"
  let ?base = "fold (\<lambda>l. put_all (layer_config l))
      (map (\<lambda>ic. \<lparr>layer_config = the (config_values ic), layer_locked = ic_locked_keys ic\<rparr>) ?cs) []"
  let ?m = "put_all (filter (\<lambda>(k, v). k \<notin> locked_by ?as) req) ?base"
  have ok: "map_ok req" using req by (auto simp: raw_object_Some map_ok_object_map)
  from res have us: "usable_settings ?as" and nr: "refused_keys req ?as = {}" and r: "r = marshal_object ?m"
    by (simp_all add: resolve_configs_eq [OF False req] split: if_splits)
  have base_ok: "map_ok (fold (\<lambda>l. put_all (layer_config l)) ls m)" if "map_ok m" for ls m
    using that by (induction ls arbitrary: m) (auto intro: map_ok_put_all)
  have m: "map_ok ?m" by (intro map_ok_put_all base_ok) simp
  from raw_object_marshal [OF m] obtain m' where m': "raw_object r = Some m'" "map_ok m'" "map_of m' = map_of ?m"
    by (auto simp: r)
  have base: "map_of ?base k = first_some [level_value ics action client k,
        level_value ics '''' client k, level_value ics action '''' k, level_value ics '''' '''' k]" for k
    using base_lookup [of ?cs "[]" k] us applicable_value [OF one, of k action client]
    by (auto simp: usable_settings_def split: option.splits)
  have "map_of ?m k = first_some [map_of req k, level_value ics action client k,
        level_value ics '''' client k, level_value ics action '''' k, level_value ics '''' '''' k]" for k
  proof -
    have "map_of req k = None" if "k \<in> locked_by ?as" using nr that by (auto simp: refused_keys_def)
    then have "map_of (filter (\<lambda>(k, v). k \<notin> locked_by ?as) req) k = map_of req k"
      by (auto simp: map_of_filter_keys)
    then show ?thesis
      by (subst map_of_put_all [OF map_ok_filter_keys [OF ok]]) (simp only: base, cases "map_of req k", simp_all)
  qed
  moreover have "canonical_json_value r empty_object = r"
    by (simp add: r canonical_json_value_def)
  ultimately show ?thesis using m' by auto
qed


section \<open>The settings a workspace lists\<close>

text \<open>Settings are stored under the key of their app, action and client.\<close>

definition configs_keyed :: "snapshot \<Rightarrow> bool" where
  "configs_keyed s \<longleftrightarrow> nested_ok (sn_input_configs s)
     \<and> (\<forall>w k ic. nget (sn_input_configs s) w k = Some ic \<longrightarrow>
          k = input_config_key (ic_app ic) (ic_action ic) (ic_client ic) \<and> ic_workspace ic = w)"

lemma decrypt_configs_Inr:
  "decrypt_configs C w ics = Inr out \<Longrightarrow>
    list_all2 (\<lambda>ic ic'. \<exists>plain. decrypt_input C w (ic_config ic) = Inr plain \<and> ic' = ic\<lparr>ic_config := plain\<rparr>) ics out"
  by (induction ics arbitrary: out) (auto simp: and_then_eq_Inr)

lemma decrypt_configs_levels:
  assumes "decrypt_configs C w ics = Inr out"
  shows "map (\<lambda>ic. (ic_app ic, ic_action ic, ic_client ic)) out = map (\<lambda>ic. (ic_app ic, ic_action ic, ic_client ic)) ics"
  using decrypt_configs_Inr [OF assms]
  by (induction ics out rule: list_all2_induct) auto

lemma distinct_mvals_key:
  assumes "map_ok m" and "\<And>k v. map_of m k = Some v \<Longrightarrow> f v = k"
  shows "distinct (map f (mvals m))"
proof -
  have "map f (mvals m) = mkeys m"
    using assms map_of_eq_Some_iff_mem [OF assms(1)] by (auto simp: mvals_def mkeys_def)
  with assms(1) show ?thesis by (simp add: map_ok_def)
qed

lemma listed_one_per_level:
  assumes keyed: "configs_keyed s" and l: "list_input_configs_for_app C s w app = Inr ics"
  shows "one_per_level ics"
proof -
  let ?k = "\<lambda>ic. (ic_app ic, ic_action ic, ic_client ic)"
  let ?inner = "mget_or [] (sn_input_configs s) (normalize_workspace w)"
  from l obtain out where out: "decrypt_configs C (normalize_workspace w) (filter (\<lambda>ic. ic_app ic = app) (mvals ?inner)) = Inr out"
    and ics: "ics = sort_slice config_before out"
    by (auto simp: list_input_configs_for_app_def list_local_input_configs_def and_then_eq_Inr)
  have "distinct (map (\<lambda>ic. input_config_key (ic_app ic) (ic_action ic) (ic_client ic)) (mvals ?inner))"
    using keyed by (intro distinct_mvals_key nested_ok_inner) (auto simp: configs_keyed_def nget_def)
  then have "distinct (map (\<lambda>(a, b, c). input_config_key a b c) (map ?k (mvals ?inner)))" by (simp add: comp_def)
  then have "distinct (map ?k (mvals ?inner))" by (auto simp: distinct_map intro: inj_on_imageI2)
  then have d: "distinct (map ?k out)"
    using decrypt_configs_levels [OF out] by (simp add: distinct_map_filter)
  have app: "ic_app ic = app" if "ic \<in> set out" for ic
  proof -
    have "?k ic \<in> set (map ?k out)" using that by auto
    then show ?thesis unfolding decrypt_configs_levels [OF out] by auto
  qed
  have "inj_on (\<lambda>ic. (ic_action ic, ic_client ic)) (set out)"
    using d app by (auto simp: distinct_map inj_on_def)
  moreover have "distinct out" using d by (simp add: distinct_map)
  ultimately show ?thesis by (simp add: one_per_level_def ics distinct_map)
qed

lemma set_input_config_keyed: "configs_keyed s \<Longrightarrow> set_input_config e saved detail s = Inr (t, x) \<Longrightarrow> configs_keyed t"
  by (auto simp: set_input_config_def configs_keyed_def append_input_config_audit_def Let_def nested_ok_nput
      split: if_splits)

lemma delete_input_config_keyed: "configs_keyed s \<Longrightarrow> delete_input_config e w key detail actor s = Inr (t, x) \<Longrightarrow> configs_keyed t"
  by (auto simp: delete_input_config_def configs_keyed_def append_input_config_audit_def nested_ok_ndel
      split: option.splits if_splits)

end
