(* ===== verification/Workspace_Store.thy ===== *)
theory Workspace_Store
  imports Run_Store
begin

text \<open>
  Workspaces (\<^verbatim>\<open>internal/state/local_workspaces.go\<close>): created active, archived once and for all; the
  default workspace is never archived. Unlike the other operations these take the identifier as it
  is, except \<^verbatim>\<open>GetWorkspace\<close>.
\<close>

definition workspace_before :: "workspace \<Rightarrow> workspace \<Rightarrow> bool" where
  "workspace_before a b \<longleftrightarrow> (if ws_status a \<noteq> ws_status b then ws_status a < ws_status b else ws_id a < ws_id b)"

definition list_workspaces :: "snapshot \<Rightarrow> workspace list" where
  "list_workspaces s = sort_slice workspace_before (mvals (sn_workspaces s))"

definition get_workspace :: "snapshot \<Rightarrow> string \<Rightarrow> store_error + workspace" where
  "get_workspace s w =
    (case map_of (sn_workspaces s) (normalize_workspace w) of None \<Rightarrow> Inl NotFound | Some x \<Rightarrow> Inr x)"

definition append_workspace_audit :: "call_env \<Rightarrow> string \<Rightarrow> string \<Rightarrow> string \<Rightarrow> string \<Rightarrow> snapshot \<Rightarrow> snapshot" where
  "append_workspace_audit e w kind detail actor s =
    s\<lparr>sn_workspace_audits := sn_workspace_audits s
      @ [\<lparr>wsa_id = draw_id e ''audit'' 0, wsa_workspace = w, wsa_kind = kind, wsa_detail = detail,
          wsa_actor = actor, wsa_created_at = clock e\<rparr>]\<rparr>"

definition save_workspace :: "call_env \<Rightarrow> string \<Rightarrow> workspace \<Rightarrow> string \<Rightarrow> string \<Rightarrow> string \<Rightarrow> workspace body" where
  "save_workspace e w x kind detail actor s =
    Inr (append_workspace_audit e w kind detail actor (s\<lparr>sn_workspaces := mput w x (sn_workspaces s)\<rparr>), x)"

definition create_workspace :: "call_env \<Rightarrow> string \<Rightarrow> string \<Rightarrow> string \<Rightarrow> string \<Rightarrow> workspace body" where
  "create_workspace e w name h actor s =
    (if map_of (sn_workspaces s) w \<noteq> None then Inl Conflict
     else save_workspace e w
       \<lparr>ws_id = w, ws_name = name, ws_status = workspace_active, ws_token_hash = h, ws_created_by = actor,
        ws_updated_by = actor, ws_created_at = clock e, ws_updated_at = clock e\<rparr> ''created'' '''' actor s)"

definition local_create_workspace :: "call_env \<Rightarrow> string \<Rightarrow> string \<Rightarrow> string \<Rightarrow> string \<Rightarrow> workspace body" where
  "local_create_workspace e w name h actor = update e (create_workspace e w name h actor)"

definition update_workspace :: "call_env \<Rightarrow> string \<Rightarrow> string \<Rightarrow> string \<Rightarrow> workspace body" where
  "update_workspace e w name actor s =
    (case map_of (sn_workspaces s) w of
       None \<Rightarrow> Inl NotFound
     | Some x \<Rightarrow>
         if ws_status x = workspace_archived then Inl InvalidState
         else save_workspace e w (x\<lparr>ws_name := name, ws_updated_by := actor, ws_updated_at := clock e\<rparr>)
           ''updated'' (if ws_name x \<noteq> name then ''display name changed'' else ''no value change'') actor s)"

definition local_update_workspace :: "call_env \<Rightarrow> string \<Rightarrow> string \<Rightarrow> string \<Rightarrow> workspace body" where
  "local_update_workspace e w name actor = update e (update_workspace e w name actor)"

definition archive_workspace :: "call_env \<Rightarrow> string \<Rightarrow> string \<Rightarrow> workspace body" where
  "archive_workspace e w actor s =
    (case map_of (sn_workspaces s) w of
       None \<Rightarrow> Inl NotFound
     | Some x \<Rightarrow>
         if w = default_workspace then Inl InvalidState
         else if ws_status x = workspace_archived then Inl InvalidState
         else save_workspace e w
           (x\<lparr>ws_status := workspace_archived, ws_updated_by := actor, ws_updated_at := clock e\<rparr>)
           ''archived'' '''' actor s)"

definition local_archive_workspace :: "call_env \<Rightarrow> string \<Rightarrow> string \<Rightarrow> workspace body" where
  "local_archive_workspace e w actor = update e (archive_workspace e w actor)"

definition rotate_workspace_token :: "call_env \<Rightarrow> string \<Rightarrow> string \<Rightarrow> string \<Rightarrow> workspace body" where
  "rotate_workspace_token e w h actor s =
    (case map_of (sn_workspaces s) w of
       None \<Rightarrow> Inl NotFound
     | Some x \<Rightarrow>
         if ws_status x = workspace_archived then Inl InvalidState
         else save_workspace e w (x\<lparr>ws_token_hash := h, ws_updated_by := actor, ws_updated_at := clock e\<rparr>)
           ''token_rotated'' '''' actor s)"

definition local_rotate_workspace_token :: "call_env \<Rightarrow> string \<Rightarrow> string \<Rightarrow> string \<Rightarrow> workspace body" where
  "local_rotate_workspace_token e w h actor = update e (rotate_workspace_token e w h actor)"

definition list_workspace_audit :: "snapshot \<Rightarrow> string \<Rightarrow> workspace_audit list" where
  "list_workspace_audit s w = sort_slice (\<lambda>a b. wsa_created_at b < wsa_created_at a)
     (filter (\<lambda>r. w = '''' \<or> wsa_workspace r = w) (sn_workspace_audits s))"

end
