(* ===== verification/Tenancy.thy ===== *)
theory Tenancy
  imports Input_Config Workspace_Store Transitions
begin

text \<open>
  The tenants of the store as a state machine: workspaces, clients and input settings
  (\<^verbatim>\<open>local_workspaces.go\<close>, \<^verbatim>\<open>local_clients.go\<close>, \<^verbatim>\<open>local_input_config.go\<close>). Every operation that
  writes them is a step; any other write leaves them as they are and may change the order in which a
  \<^verbatim>\<open>range\<close> loop sees a map. Of \<^verbatim>\<open>NewID\<close> a step uses that an identifier is not empty. Shown are an invariant of every reachable store, that it makes a
  token identify one client, what becomes of an archived workspace, and how settings resolve.
\<close>

section \<open>The steps\<close>

definition same_tenants :: "snapshot \<Rightarrow> snapshot \<Rightarrow> bool" where
  "same_tenants s t \<longleftrightarrow> sn_clients t \<noteq> None \<and> sn_legacy_clients t = sn_legacy_clients s
     \<and> sn_client_token_version t = sn_client_token_version s
     \<and> nested_ok (clients_of t) \<and> nget (clients_of t) = nget (clients_of s)
     \<and> nested_ok (sn_input_configs t) \<and> nget (sn_input_configs t) = nget (sn_input_configs s)
     \<and> map_ok (sn_workspaces t) \<and> map_of (sn_workspaces t) = map_of (sn_workspaces s)"

inductive tenant_step :: "input_crypto \<Rightarrow> snapshot \<Rightarrow> snapshot \<Rightarrow> bool" for C where
  tenant_create_client: "local_create_client e w name h actor s = Inr (t, c) \<Longrightarrow> draw_id e ''client'' 0 \<noteq> '''' \<Longrightarrow> tenant_step C s t"
| tenant_update_client: "local_update_client e w cid name actor s = Inr (t, c) \<Longrightarrow> tenant_step C s t"
| tenant_rotate_client: "local_rotate_client_token e w cid h actor s = Inr (t, c) \<Longrightarrow> tenant_step C s t"
| tenant_revoke_client: "local_revoke_client_token e w cid actor s = Inr (t, c) \<Longrightarrow> tenant_step C s t"
| tenant_delete_client: "local_delete_client e w cid actor s = Inr (t, u) \<Longrightarrow> tenant_step C s t"
| tenant_client_audit: "local_append_client_audit e w cid kind detail actor s = Inr (t, u) \<Longrightarrow> tenant_step C s t"
| tenant_set_config: "local_set_input_config C sb e s0 ic actor s = Inr (t, x) \<Longrightarrow> tenant_step C s t"
| tenant_delete_config: "local_delete_input_config C sb e s0 w app action client actor s = Inr (t, u) \<Longrightarrow> tenant_step C s t"
| tenant_create_workspace: "local_create_workspace e w name h actor s = Inr (t, x) \<Longrightarrow> tenant_step C s t"
| tenant_update_workspace: "local_update_workspace e w name actor s = Inr (t, x) \<Longrightarrow> tenant_step C s t"
| tenant_archive_workspace: "local_archive_workspace e w actor s = Inr (t, x) \<Longrightarrow> tenant_step C s t"
| tenant_rotate_workspace: "local_rotate_workspace_token e w h actor s = Inr (t, x) \<Longrightarrow> tenant_step C s t"
| tenant_other: "same_tenants (ensure_snapshot e s) u \<Longrightarrow> t = ensure_snapshot e u \<Longrightarrow> tenant_step C s t"

inductive_cases tenant_stepE: "tenant_step C s t"

section \<open>The invariant\<close>

definition unique_tokens :: "snapshot \<Rightarrow> bool" where
  "unique_tokens s \<longleftrightarrow> (\<forall>w i j c d. nget (clients_of s) w i = Some c \<longrightarrow> nget (clients_of s) w j = Some d \<longrightarrow>
     cli_token_hash c = cli_token_hash d \<longrightarrow> cli_token_hash c \<noteq> '''' \<longrightarrow> i = j)"

definition clients_keyed :: "snapshot \<Rightarrow> bool" where
  "clients_keyed s \<longleftrightarrow> sn_clients s \<noteq> None \<and> sn_legacy_clients s = None
     \<and> client_token_version \<le> sn_client_token_version s \<and> nested_ok (clients_of s)
     \<and> (\<forall>w i c. nget (clients_of s) w i = Some c \<longrightarrow> cli_id c = i \<and> cli_workspace c = w \<and> i \<noteq> '''')"

definition configs_have_clients :: "snapshot \<Rightarrow> bool" where
  "configs_have_clients s \<longleftrightarrow> (\<forall>w k ic. nget (sn_input_configs s) w k = Some ic \<longrightarrow> ic_client ic \<noteq> '''' \<longrightarrow>
     nget (clients_of s) w (ic_client ic) \<noteq> None)"

definition workspaces_ok :: "snapshot \<Rightarrow> bool" where
  "workspaces_ok s \<longleftrightarrow> map_ok (sn_workspaces s)
     \<and> (\<forall>w x. map_of (sn_workspaces s) w = Some x \<longrightarrow> ws_id x = w
          \<and> (ws_status x = workspace_active \<or> ws_status x = workspace_archived \<and> w \<noteq> default_workspace))"

definition tenants_ok :: "snapshot \<Rightarrow> bool" where
  "tenants_ok s \<longleftrightarrow> clients_keyed s \<and> unique_tokens s \<and> configs_keyed s \<and> configs_have_clients s \<and> workspaces_ok s
     \<and> map_of (sn_workspaces s) default_workspace \<noteq> None"

lemmas tenants_defs = tenants_ok_def clients_keyed_def unique_tokens_def configs_have_clients_def

subsection \<open>Loading and writing\<close>

lemma clients_of_update [simp]:
  "clients_of (s\<lparr>sn_clients := Some m\<rparr>) = m" "clients_of (s\<lparr>sn_input_configs := x\<rparr>) = clients_of s"
  "clients_of (s\<lparr>sn_workspaces := y\<rparr>) = clients_of s" "clients_of (s\<lparr>sn_input_config_audits := z\<rparr>) = clients_of s"
  "clients_of (append_client_audit a w i k d ac tm s) = clients_of s"
  by (simp_all add: clients_of_def append_client_audit_def)

lemma ensure_clients:
  assumes "clients_keyed s"
  shows "clients_of (ensure_snapshot e s) = clients_of s" "sn_clients (ensure_snapshot e s) = sn_clients s"
    "sn_legacy_clients (ensure_snapshot e s) = None"
    "sn_client_token_version (ensure_snapshot e s) = sn_client_token_version s"
  using assms
  by (auto simp: ensure_snapshot_def ensure_local_workspaces_def migrate_client_tokens_def clients_keyed_def
      clients_of_def Let_def)

text \<open>Loading only adds workspaces: active ones that something in the store mentions.\<close>

lemma fill_workspaces:
  fixes now :: time
  defines "add \<equiv> \<lambda>w m. if map_of m w = None then mput w (new_local_workspace now w) m else m"
  shows "map_of (fold add ws m) w = (case map_of m w of Some x \<Rightarrow> Some x
      | None \<Rightarrow> if w \<in> set ws then Some (new_local_workspace now w) else None)"
    and "map_ok m \<Longrightarrow> map_ok (fold add ws m)"
  unfolding add_def
  by (induction ws arbitrary: m) (auto split: option.splits intro: map_ok_mput)

lemma ensure_adds:
  obtains ws where "default_workspace \<in> set ws"
    "sn_workspaces (ensure_snapshot e s) = fold (\<lambda>w m. if map_of m w = None
       then mput w (new_local_workspace (clock e) w) m else m) ws (sn_workspaces s)"
proof -
  define u where "u = migrate_client_tokens e (s\<lparr>sn_catalog := normalize_snapshot (sn_catalog s),
              sn_clients := Some (case sn_clients s of Some m \<Rightarrow> m | None \<Rightarrow>
                (case sn_legacy_clients s of Some m \<Rightarrow> m | None \<Rightarrow> [])),
              sn_client_audits := Some (case sn_client_audits s of Some m \<Rightarrow> m | None \<Rightarrow>
                (case sn_legacy_client_audits s of Some m \<Rightarrow> m | None \<Rightarrow> []))\<rparr>)"
  have "sn_workspaces u = sn_workspaces s" by (simp add: u_def)
  then have "sn_workspaces (ensure_snapshot e s) = fold (\<lambda>w m. if map_of m w = None
       then mput w (new_local_workspace (clock e) w) m else m) (mentioned_workspaces u) (sn_workspaces s)"
    by (simp add: ensure_snapshot_def ensure_local_workspaces_def Let_def flip: u_def)
  moreover have "default_workspace \<in> set (mentioned_workspaces u)" by (simp add: mentioned_workspaces_def)
  ultimately show thesis using that by blast
qed

lemma ensure_workspace_kept: "map_of (sn_workspaces s) w = Some x \<Longrightarrow> map_of (sn_workspaces (ensure_snapshot e s)) w = Some x"
  by (rule ensure_adds [of e s]) (simp add: fill_workspaces)

lemma ensure_workspace_new:
  "map_of (sn_workspaces (ensure_snapshot e s)) w = Some x \<Longrightarrow> map_of (sn_workspaces s) w = None \<Longrightarrow>
    x = new_local_workspace (clock e) w"
  by (rule ensure_adds [of e s]) (auto simp: fill_workspaces split: if_splits)

lemma ensure_default: "map_of (sn_workspaces (ensure_snapshot e s)) default_workspace \<noteq> None"
  by (rule ensure_adds [of e s]) (auto simp: fill_workspaces split: option.splits)

lemma ensure_workspaces_ok: "workspaces_ok s \<Longrightarrow> workspaces_ok (ensure_snapshot e s)"
proof -
  assume ok: "workspaces_ok s"
  then have "map_ok (sn_workspaces (ensure_snapshot e s))"
    by (rule_tac ensure_adds [of e s]) (auto simp: fill_workspaces workspaces_ok_def)
  moreover have "ws_id x = w \<and> (ws_status x = workspace_active \<or> ws_status x = workspace_archived \<and> w \<noteq> default_workspace)"
    if "map_of (sn_workspaces (ensure_snapshot e s)) w = Some x" for w x
  proof (cases "map_of (sn_workspaces s) w")
    case None
    from ensure_workspace_new [OF that this] show ?thesis by (simp add: new_local_workspace_def)
  next
    case (Some y)
    with ensure_workspace_kept [OF Some, of e] that ok show ?thesis by (simp add: workspaces_ok_def)
  qed
  ultimately show ?thesis by (simp add: workspaces_ok_def)
qed

lemma ensure_tenants_ok:
  assumes "tenants_ok s"
  shows "tenants_ok (ensure_snapshot e s)"
proof -
  have ck: "clients_keyed s" using assms by (simp add: tenants_ok_def)
  note c = ensure_clients [OF ck, of e]
  have "clients_keyed (ensure_snapshot e s)" using ck by (simp add: clients_keyed_def c)
  moreover have "unique_tokens (ensure_snapshot e s)" "configs_keyed (ensure_snapshot e s)"
    "configs_have_clients (ensure_snapshot e s)"
    using assms by (simp_all add: tenants_ok_def unique_tokens_def configs_keyed_def configs_have_clients_def c)
  ultimately show ?thesis using assms by (simp add: tenants_ok_def ensure_workspaces_ok ensure_default)
qed

text \<open>An operation under \<open>update\<close> keeps the invariant when its body does.\<close>

lemma update_tenants_ok:
  assumes "update e f s = Inr (t, x)" and "tenants_ok s"
    and "\<And>u v y. tenants_ok u \<Longrightarrow> map_of (sn_workspaces u) default_workspace \<noteq> None \<Longrightarrow> f u = Inr (v, y) \<Longrightarrow> tenants_ok v"
  shows "tenants_ok t"
proof -
  from assms(1) obtain u where u: "f (ensure_snapshot e s) = Inr (u, x)" "t = ensure_snapshot e u"
    by (auto simp: update_Inr)
  have "tenants_ok u" by (rule assms(3) [OF ensure_tenants_ok [OF assms(2)] ensure_default u(1)])
  with u(2) show ?thesis by (simp add: ensure_tenants_ok)
qed

subsection \<open>The operations\<close>

lemma save_client_fields:
  "clients_of (save_client e w cid c k d a s) = nput w cid c (clients_of s)"
  "sn_clients (save_client e w cid c k d a s) \<noteq> None"
  "sn_legacy_clients (save_client e w cid c k d a s) = sn_legacy_clients s"
  "sn_client_token_version (save_client e w cid c k d a s) = sn_client_token_version s"
  "sn_input_configs (save_client e w cid c k d a s) = sn_input_configs s"
  "sn_workspaces (save_client e w cid c k d a s) = sn_workspaces s"
  by (simp_all add: save_client_def) (simp_all add: append_client_audit_def)

lemma token_exists_iff:
  "nested_ok m \<Longrightarrow> client_token_hash_exists (mget_or [] m w) h except \<longleftrightarrow>
    h \<noteq> '''' \<and> (\<exists>i c. i \<noteq> except \<and> nget m w i = Some c \<and> cli_token_hash c = h)"
  by (auto simp: client_token_hash_exists_def list_ex_iff mem_inner)

text \<open>Saving a client with a token no other client of the workspace has.\<close>

lemma save_client_ok:
  assumes ok: "tenants_ok s" and c: "cli_id c = cid" "cli_workspace c = w" "cid \<noteq> ''''"
    and new: "\<not> (cli_token_hash c \<noteq> '''' \<and> (\<exists>i d. i \<noteq> cid \<and> nget (clients_of s) w i = Some d \<and> cli_token_hash d = cli_token_hash c))"
  shows "tenants_ok (save_client e w cid c k d a s)"
proof -
  have "clients_keyed (save_client e w cid c k d a s)"
    using ok c by (auto simp: tenants_ok_def clients_keyed_def save_client_fields intro: nested_ok_nput)
  moreover have "unique_tokens (save_client e w cid c k d a s)"
    using ok new unfolding tenants_ok_def unique_tokens_def save_client_fields nget_nput
    by (metis option.inject)
  moreover have "configs_have_clients (save_client e w cid c k d a s)"
    using ok by (auto simp: tenants_ok_def configs_have_clients_def save_client_fields)
  ultimately show ?thesis
    using ok by (simp add: tenants_ok_def configs_keyed_def workspaces_ok_def save_client_fields)
qed

lemma tenants_ok_clients: "tenants_ok s \<Longrightarrow> nested_ok (clients_of s)"
  by (simp add: tenants_ok_def clients_keyed_def)

lemma tenants_ok_client: "tenants_ok s \<Longrightarrow> nget (clients_of s) w i = Some c \<Longrightarrow> cli_id c = i \<and> cli_workspace c = w \<and> i \<noteq> ''''"
  by (simp add: tenants_ok_def clients_keyed_def)

lemma tenants_ok_token:
  "tenants_ok s \<Longrightarrow> nget (clients_of s) w i = Some c \<Longrightarrow> nget (clients_of s) w j = Some d \<Longrightarrow>
    cli_token_hash c = cli_token_hash d \<Longrightarrow> cli_token_hash c \<noteq> '''' \<Longrightarrow> i = j"
  by (simp add: tenants_ok_def unique_tokens_def)

lemma create_client_ok:
  assumes "tenants_ok s" and "create_client e w name h actor s = Inr (t, c)" and "draw_id e ''client'' 0 \<noteq> ''''"
  shows "tenants_ok t"
proof -
  from assms(2) have new: "\<not> client_token_hash_exists (mget_or [] (clients_of s) w) h ''''"
    and t: "t = save_client e w (cli_id c) c ''created'' '''' actor s"
    and c: "cli_id c = draw_id e ''client'' 0" "cli_workspace c = w" "cli_token_hash c = h"
    by (auto simp: create_client_def Let_def split: if_splits)
  have "cli_token_hash d \<noteq> h" if "nget (clients_of s) w i = Some d" "h \<noteq> ''''" for i d
    using new that tenants_ok_client [OF assms(1) that(1)]
    by (auto simp: token_exists_iff tenants_ok_clients [OF assms(1)])
  then show ?thesis unfolding t
    using c assms(3) by (intro save_client_ok [OF assms(1)]) auto
qed

lemma update_client_ok: "tenants_ok s \<Longrightarrow> update_client e w cid name actor s = Inr (t, c) \<Longrightarrow> tenants_ok t"
  using tenants_ok_client tenants_ok_token
  by (fastforce simp: update_client_def Let_def split: option.splits intro!: save_client_ok)

lemma rotate_client_ok: "tenants_ok s \<Longrightarrow> rotate_client_token e w cid h actor s = Inr (t, c) \<Longrightarrow> tenants_ok t"
  using tenants_ok_client
  by (fastforce simp: rotate_client_token_def Let_def token_exists_iff tenants_ok_clients
      split: option.splits if_splits intro!: save_client_ok)

lemma revoke_client_ok: "tenants_ok s \<Longrightarrow> revoke_client_token e w cid actor s = Inr (t, c) \<Longrightarrow> tenants_ok t"
  using tenants_ok_client
  by (fastforce simp: revoke_client_token_def Let_def split: option.splits if_splits intro!: save_client_ok)

lemma nget_filtered:
  assumes "nested_ok m"
  shows "nget (case map_of m w of None \<Rightarrow> m | Some kv \<Rightarrow> mput w (mfilter P kv) m) w' k
    = (case nget m w' k of None \<Rightarrow> None | Some v \<Rightarrow> if w' = w \<and> \<not> P k v then None else Some v)"
    and "nested_ok (case map_of m w of None \<Rightarrow> m | Some kv \<Rightarrow> mput w (mfilter P kv) m)"
  using nested_ok_inner [OF assms, of w] assms
  by (auto simp: nget_def mget_or_def map_of_mfilter split: option.splits intro!: nested_ok_mput map_ok_mfilter)

lemma delete_client_ok:
  assumes ok: "tenants_ok s" and del: "delete_client e w cid actor s = Inr (t, u)"
  shows "tenants_ok t"
proof -
  have nok: "nested_ok (sn_input_configs s)" using ok by (simp add: tenants_ok_def configs_keyed_def)
  note f = nget_filtered [OF nok, of w "\<lambda>k ic. ic_client ic \<noteq> cid"]
  from del obtain c where "nget (clients_of s) w cid = Some c"
    and t: "sn_clients t = Some (ndel w cid (clients_of s))" "sn_legacy_clients t = sn_legacy_clients s"
      "sn_client_token_version t = sn_client_token_version s" "sn_workspaces t = sn_workspaces s"
      "sn_input_configs t = (case map_of (sn_input_configs s) w of None \<Rightarrow> sn_input_configs s
        | Some cfgs \<Rightarrow> mput w (mfilter (\<lambda>k ic. ic_client ic \<noteq> cid) cfgs) (sn_input_configs s))"
    by (auto simp: delete_client_def append_client_audit_def Let_def split: option.splits if_splits)
  have cl: "clients_of t = ndel w cid (clients_of s)" by (simp add: clients_of_def t)
  have "clients_keyed t"
    using ok by (auto simp: tenants_ok_def clients_keyed_def cl t split: if_splits intro: nested_ok_ndel)
  moreover have "unique_tokens t" using ok by (simp add: tenants_ok_def unique_tokens_def cl)
  moreover have "configs_keyed t" using ok f(2)
    by (auto simp: tenants_ok_def configs_keyed_def t(5) f(1) split: option.splits if_splits)
  moreover have "configs_have_clients t"
    using ok by (auto simp: tenants_ok_def configs_have_clients_def cl t(5) f(1) split: option.splits if_splits)
  ultimately show ?thesis using ok by (simp add: tenants_ok_def workspaces_ok_def t)
qed

lemma set_config_ok:
  assumes ok: "tenants_ok s" and st: "set_input_config e ic detail s = Inr (t, x)"
  shows "tenants_ok t"
proof -
  have "configs_keyed t" using ok st by (auto simp: tenants_ok_def intro: set_input_config_keyed)
  moreover from st have "clients_of t = clients_of s" "sn_clients t = sn_clients s" "sn_legacy_clients t = sn_legacy_clients s"
    "sn_client_token_version t = sn_client_token_version s" "sn_workspaces t = sn_workspaces s"
    "sn_input_configs t = nput (ic_workspace ic) (input_config_key (ic_app ic) (ic_action ic) (ic_client ic)) ic (sn_input_configs s)"
    "ic_client ic = '''' \<or> nget (clients_of s) (ic_workspace ic) (ic_client ic) \<noteq> None"
    by (auto simp: set_input_config_def append_input_config_audit_def Let_def clients_of_def split: if_splits)
  ultimately show ?thesis using ok
    by (auto simp: tenants_ok_def clients_keyed_def unique_tokens_def configs_have_clients_def workspaces_ok_def)
qed

lemma delete_config_ok:
  assumes ok: "tenants_ok s" and st: "delete_input_config e w key detail actor s = Inr (t, x)"
  shows "tenants_ok t"
proof -
  have "configs_keyed t" using ok st by (auto simp: tenants_ok_def intro: delete_input_config_keyed)
  moreover from st have "clients_of t = clients_of s" "sn_clients t = sn_clients s" "sn_legacy_clients t = sn_legacy_clients s"
    "sn_client_token_version t = sn_client_token_version s" "sn_workspaces t = sn_workspaces s"
    "\<And>w' k ic. nget (sn_input_configs t) w' k = Some ic \<Longrightarrow> nget (sn_input_configs s) w' k = Some ic"
    by (auto simp: delete_input_config_def append_input_config_audit_def clients_of_def split: option.splits if_splits)
  moreover from this ok have "configs_have_clients t"
    unfolding tenants_ok_def configs_have_clients_def by simp blast
  ultimately show ?thesis using ok
    by (simp add: tenants_ok_def clients_keyed_def unique_tokens_def workspaces_ok_def)
qed


text \<open>What the operations on workspaces may store: never a change of an archived one.\<close>

definition workspace_move :: "string \<Rightarrow> workspace option \<Rightarrow> workspace \<Rightarrow> bool" where
  "workspace_move w old x \<longleftrightarrow> (case old of
       None \<Rightarrow> ws_id x = w \<and> ws_status x = workspace_active
     | Some y \<Rightarrow> ws_status y \<noteq> workspace_archived \<and> ws_id x = ws_id y
         \<and> (ws_status x = ws_status y \<or> ws_status x = workspace_archived \<and> w \<noteq> default_workspace))"

definition workspace_saved :: "string \<Rightarrow> workspace \<Rightarrow> snapshot \<Rightarrow> snapshot \<Rightarrow> bool" where
  "workspace_saved w x s t \<longleftrightarrow> workspace_move w (map_of (sn_workspaces s) w) x
     \<and> (\<exists>audits. t = s\<lparr>sn_workspaces := mput w x (sn_workspaces s), sn_workspace_audits := audits\<rparr>)"

lemma save_workspace_saved:
  "save_workspace e w y k d a s = Inr (t, x) \<Longrightarrow> workspace_move w (map_of (sn_workspaces s) w) y \<Longrightarrow> workspace_saved w x s t"
  by (auto simp: workspace_saved_def save_workspace_def append_workspace_audit_def)

lemma workspace_ops_saved:
  "create_workspace e w name h actor s = Inr (t, x) \<Longrightarrow> workspace_saved w x s t"
  "update_workspace e w name actor s = Inr (t, x) \<Longrightarrow> workspace_saved w x s t"
  "archive_workspace e w actor s = Inr (t, x) \<Longrightarrow> workspace_saved w x s t"
  "rotate_workspace_token e w h actor s = Inr (t, x) \<Longrightarrow> workspace_saved w x s t"
  by (auto simp: create_workspace_def update_workspace_def archive_workspace_def rotate_workspace_token_def
      workspace_move_def split: if_splits option.splits elim!: save_workspace_saved)

lemma workspace_saved_ok:
  assumes ok: "tenants_ok s" and sv: "workspace_saved w x s t"
  shows "tenants_ok t"
proof -
  from sv obtain a where t: "t = s\<lparr>sn_workspaces := mput w x (sn_workspaces s), sn_workspace_audits := a\<rparr>"
    and mv: "workspace_move w (map_of (sn_workspaces s) w) x"
    by (auto simp: workspace_saved_def)
  have old: "ws_id y = w' \<and> (ws_status y = workspace_active \<or> ws_status y = workspace_archived \<and> w' \<noteq> default_workspace)"
    if "map_of (sn_workspaces s) w' = Some y" for w' y
    using ok that by (simp add: tenants_ok_def workspaces_ok_def)
  have "ws_id x = w \<and> (ws_status x = workspace_active \<or> ws_status x = workspace_archived \<and> w \<noteq> default_workspace)"
    using mv old [of w] by (cases "map_of (sn_workspaces s) w") (auto simp: workspace_move_def)
  then have "workspaces_ok t"
    using ok old by (simp add: t tenants_ok_def workspaces_ok_def map_ok_mput)
  then show ?thesis using ok
    by (simp add: t tenants_ok_def clients_keyed_def unique_tokens_def configs_keyed_def configs_have_clients_def
        clients_of_def)
qed

lemma same_tenants_ok: "tenants_ok s \<Longrightarrow> same_tenants s t \<Longrightarrow> tenants_ok t"
  by (simp add: tenants_ok_def same_tenants_def clients_keyed_def unique_tokens_def configs_keyed_def
      configs_have_clients_def workspaces_ok_def)


lemma client_audit_ok: "tenants_ok s \<Longrightarrow> tenants_ok (append_client_audit a w i k d ac tm s)"
  by (simp add: tenants_ok_def clients_keyed_def unique_tokens_def configs_keyed_def
      configs_have_clients_def workspaces_ok_def) (simp add: append_client_audit_def)

definition tenant_start :: "snapshot \<Rightarrow> bool" where
  "tenant_start s \<longleftrightarrow> (\<exists>e. s = new_snapshot e)"

lemma tenant_start_ok: "tenant_start s \<Longrightarrow> tenants_ok s"
proof -
  have "sn_clients (new_snapshot e) = Some [] \<and> sn_legacy_clients (new_snapshot e) = None
    \<and> sn_client_token_version (new_snapshot e) = client_token_version \<and> sn_input_configs (new_snapshot e) = []
    \<and> workspaces_ok (new_snapshot e) \<and> map_of (sn_workspaces (new_snapshot e)) default_workspace \<noteq> None" for e
  proof (intro conjI)
    show "workspaces_ok (new_snapshot e)"
      unfolding new_snapshot_def by (rule ensure_workspaces_ok) (simp add: workspaces_ok_def empty_snapshot_def)
    show "map_of (sn_workspaces (new_snapshot e)) default_workspace \<noteq> None"
      unfolding new_snapshot_def by (rule ensure_default)
  qed (simp_all add: new_snapshot_def ensure_snapshot_def ensure_local_workspaces_def migrate_client_tokens_def
      empty_snapshot_def revoked_clients_def clients_of_def client_token_version_def mmap_def Let_def)
  then show "tenant_start s \<Longrightarrow> tenants_ok s"
    by (auto simp: tenant_start_def tenants_ok_def clients_keyed_def unique_tokens_def configs_keyed_def
        configs_have_clients_def clients_of_def)
qed

lemma tenant_step_ok: "tenants_ok s \<Longrightarrow> tenant_step C s t \<Longrightarrow> tenants_ok t"
proof (erule tenant_stepE, goal_cases)
  case (1 e w name h actor c)
  then show ?case
    unfolding local_create_client_def by (auto elim!: update_tenants_ok intro: create_client_ok)
next
  case (2 e w cid name actor c)
  then show ?case
    unfolding local_update_client_def by (auto elim!: update_tenants_ok intro: update_client_ok)
next
  case (3 e w cid h actor c)
  then show ?case
    unfolding local_rotate_client_token_def
    by (auto split: if_splits elim!: update_tenants_ok intro: rotate_client_ok)
next
  case (4 e w cid actor c)
  then show ?case
    unfolding local_revoke_client_token_def by (auto elim!: update_tenants_ok intro: revoke_client_ok)
next
  case (5 e w cid actor)
  then show ?case
    unfolding local_delete_client_def by (auto elim!: update_tenants_ok intro: delete_client_ok)
next
  case (6 e w cid kind detail actor)
  then show ?case
    unfolding local_append_client_audit_def by (auto elim!: update_tenants_ok intro: client_audit_ok)
next
  case (7 sb e s0 ic actor x)
  then show ?case
    by (auto simp: local_set_input_config_def Let_def and_then_eq_Inr split: option.splits
        elim!: update_tenants_ok intro: set_config_ok)
next
  case (8 sb e s0 w app action client actor)
  then show ?case
    by (auto simp: local_delete_input_config_def Let_def and_then_eq_Inr
        elim!: update_tenants_ok intro: delete_config_ok)
next
  case (9 e w name h actor x)
  then show ?case unfolding local_create_workspace_def
    by (auto elim!: update_tenants_ok intro: workspace_saved_ok workspace_ops_saved)
next
  case (10 e w name actor x)
  then show ?case unfolding local_update_workspace_def
    by (auto elim!: update_tenants_ok intro: workspace_saved_ok workspace_ops_saved)
next
  case (11 e w actor x)
  then show ?case unfolding local_archive_workspace_def
    by (auto elim!: update_tenants_ok intro: workspace_saved_ok workspace_ops_saved)
next
  case (12 e w h actor x)
  then show ?case unfolding local_rotate_workspace_token_def
    by (auto elim!: update_tenants_ok intro: workspace_saved_ok workspace_ops_saved)
next
  case (13 e u)
  then show ?case by (auto intro: ensure_tenants_ok same_tenants_ok)
qed

interpretation tenants: inductive_invariant tenant_start "tenant_step C" tenants_ok for C
  by unfold_locales (auto intro: tenant_start_ok tenant_step_ok)


section \<open>Properties\<close>

text \<open>C10.
  In every store reached from an empty one by any operations, in any order: a token hash belongs to
  at most one client of a workspace, every setting made for a client is of a client that exists,
  settings are stored under the key of their app, action and client, the default workspace exists and
  is not archived, and every workspace is active or archived.
\<close>

theorem tenants_consistent:
  assumes "reachable tenant_start (tenant_step C) s"
  shows "tenants_ok s"
  using assms by (rule tenants.reachable_good)

text \<open>A store with one client, and its token rotated.\<close>

definition ex_env :: "time \<Rightarrow> call_env" where
  "ex_env now = \<lparr>clock = now, draw_id = (\<lambda>p n. p @ ''_1''), draw_nonce = (\<lambda>site n. ''012345678901'')\<rparr>"

lemma ex_env_fields: "clock (ex_env now) = now" "draw_id (ex_env now) p n = p @ ''_1''"
  by (simp_all add: ex_env_def)

lemma reachable_new: "reachable tenant_start (tenant_step C) (new_snapshot e)"
  by (rule reachable_start) (auto simp: tenant_start_def)

lemma new_snapshot_clients: "clients_of (new_snapshot e) = []" "sn_input_configs (new_snapshot e) = []"
  by (simp_all add: new_snapshot_def ensure_snapshot_def ensure_local_workspaces_def migrate_client_tokens_def
      empty_snapshot_def revoked_clients_def clients_of_def client_token_version_def mmap_def Let_def)

lemma create_first_client:
  "\<exists>t c. local_create_client (ex_env 2) '''' ''ci'' ''h1'' ''ops'' (new_snapshot (ex_env 1)) = Inr (t, c)
    \<and> reachable tenant_start (tenant_step C) t \<and> cli_id c = ''client_1'' \<and> cli_token_hash c = ''h1''
    \<and> clients_of t = [(''default'', [(''client_1'', c)])]"
proof -
  let ?s = "new_snapshot (ex_env 1)"
  have w: "normalize_workspace '''' = ''default''" by code_simp
  have s: "tenants_ok ?s" by (rule tenants.reachable_good [OF reachable_new])
  then have ck: "clients_keyed ?s" by (simp add: tenants_ok_def)
  obtain t c where t: "local_create_client (ex_env 2) '''' ''ci'' ''h1'' ''ops'' ?s = Inr (t, c)"
    by (simp add: local_create_client_def update_def create_client_def client_token_hash_exists_def
        ensure_clients [OF ck] new_snapshot_clients mget_or_def Let_def)
  then have st: "tenant_step C ?s t" by (rule tenant_create_client) (simp add: ex_env_def)
  from t obtain u where u: "create_client (ex_env 2) ''default'' ''ci'' ''h1'' ''ops'' (ensure_snapshot (ex_env 2) ?s) = Inr (u, c)"
    "t = ensure_snapshot (ex_env 2) u"
    by (auto simp: local_create_client_def update_Inr w)
  have "tenants_ok u"
    by (rule create_client_ok [OF ensure_tenants_ok [OF s] u(1)]) (simp add: ex_env_def)
  then have cu: "clients_of t = clients_of u" by (simp add: u(2) ensure_clients tenants_ok_def)
  from u(1) have "cli_id c = ''client_1''" "cli_token_hash c = ''h1''" "clients_of u = [(''default'', [(''client_1'', c)])]"
    by (auto simp: create_client_def Let_def ex_env_fields save_client_fields ensure_clients [OF ck] new_snapshot_clients
        nput_def mput_def mget_or_def split: if_splits)
  with t cu reachable_step [OF reachable_new st] show ?thesis by auto
qed

theorem tenants_consistent_witness:
  "\<exists>s c. nget (clients_of s) ''default'' ''client_1'' = Some c \<and> tenants_ok s"
proof -
  obtain s c where s: "reachable tenant_start (tenant_step (ex_crypto ''k'' JNull)) s" "clients_of s = [(''default'', [(''client_1'', c)])]"
    using create_first_client [of "ex_crypto ''k'' JNull"] by blast
  from tenants_consistent [OF s(1)] s(2) show ?thesis by (auto simp: nget_def mget_or_def intro!: exI [of _ s])
qed

lemma token_lookup:
  assumes "tenants_ok s"
  shows "get_client_by_token_hash s w h = Inr c \<longleftrightarrow>
    h \<noteq> '''' \<and> cli_token_hash c = h \<and> nget (clients_of s) (normalize_workspace w) (cli_id c) = Some c"
proof -
  let ?m = "mget_or [] (clients_of s) (normalize_workspace w)"
  have nok: "nested_ok (clients_of s)" using assms by (rule tenants_ok_clients)
  have mem: "c \<in> set (mvals ?m) \<longleftrightarrow> nget (clients_of s) (normalize_workspace w) (cli_id c) = Some c" for c
    using mvals_inner [OF nok] tenants_ok_client [OF assms] by metis
  have one: "c = d" if "c \<in> set (mvals ?m)" "d \<in> set (mvals ?m)" "cli_token_hash c = h" "cli_token_hash d = h" "h \<noteq> ''''" for c d
    using that tenants_ok_token [OF assms] unfolding mem by (metis option.inject)
  show ?thesis
  proof
    assume "get_client_by_token_hash s w h = Inr c"
    then have "find (\<lambda>c. h \<noteq> '''' \<and> cli_token_hash c = h) (mvals ?m) = Some c"
      by (auto simp: get_client_by_token_hash_def split: option.splits)
    from find_Some_mem [OF this] show "h \<noteq> '''' \<and> cli_token_hash c = h \<and> nget (clients_of s) (normalize_workspace w) (cli_id c) = Some c"
      by (auto simp: mem)
  next
    assume c: "h \<noteq> '''' \<and> cli_token_hash c = h \<and> nget (clients_of s) (normalize_workspace w) (cli_id c) = Some c"
    then have cm: "c \<in> set (mvals ?m)" by (simp add: mem)
    with c have "find (\<lambda>c. h \<noteq> '''' \<and> cli_token_hash c = h) (mvals ?m) \<noteq> None" by (auto simp: find_None_iff)
    then obtain d where d: "find (\<lambda>c. h \<noteq> '''' \<and> cli_token_hash c = h) (mvals ?m) = Some d" by auto
    from find_Some_mem [OF d] one [OF cm, of d] c have "c = d" by blast
    with d show "get_client_by_token_hash s w h = Inr c" by (simp add: get_client_by_token_hash_def)
  qed
qed


lemma token_unknown:
  "tenants_ok s \<Longrightarrow> get_client_by_token_hash s w h = Inl NotFound \<longleftrightarrow>
    (\<forall>c. h \<noteq> '''' \<longrightarrow> nget (clients_of s) (normalize_workspace w) (cli_id c) = Some c \<longrightarrow> cli_token_hash c \<noteq> h)"
  using token_lookup [of s w h] by (cases "get_client_by_token_hash s w h") (auto simp: get_client_by_token_hash_def split: option.splits)

lemma rotated_clients:
  assumes s: "tenants_ok s" and rot: "local_rotate_client_token e w cid h actor s = Inr (t, c)"
  shows "tenants_ok t" and "cli_id c = cid" and "cli_token_hash c = h" and "h \<noteq> ''''"
    and "nget (clients_of t) (normalize_workspace w) i
      = (if i = cid then Some c else nget (clients_of s) (normalize_workspace w) i)"
proof -
  have "tenant_step undefined s t" using rot by (rule tenant_rotate_client)
  with s show t: "tenants_ok t" by (rule tenant_step_ok)
  have ck: "clients_keyed s" using s by (simp add: tenants_ok_def)
  from rot obtain u where h: "h \<noteq> ''''" and u: "rotate_client_token e (normalize_workspace w) cid h actor (ensure_snapshot e s) = Inr (u, c)"
    "t = ensure_snapshot e u"
    by (auto simp: local_rotate_client_token_def update_Inr split: if_splits)
  have "tenants_ok u" by (rule rotate_client_ok [OF ensure_tenants_ok [OF s] u(1)])
  then have cu: "clients_of t = clients_of u" by (simp add: u(2) ensure_clients tenants_ok_def)
  from u(1) obtain old where old: "nget (clients_of s) (normalize_workspace w) cid = Some old"
    and c: "c = old\<lparr>cli_token_hash := h, cli_updated_by := actor, cli_updated_at := clock e\<rparr>"
    and un: "clients_of u = nput (normalize_workspace w) cid c (clients_of s)"
    by (auto simp: rotate_client_token_def ensure_clients [OF ck] Let_def save_client_fields split: option.splits if_splits)
  show "h \<noteq> ''''" by (rule h)
  show "cli_id c = cid" "cli_token_hash c = h" using tenants_ok_client [OF s old] by (simp_all add: c)
  show "nget (clients_of t) (normalize_workspace w) i
      = (if i = cid then Some c else nget (clients_of s) (normalize_workspace w) i)"
    by (simp add: cu un)
qed

text \<open>Tokens. In a reachable store the lookup by hash answers the one client of the workspace with that
  hash, whatever the order of iteration, and \<^verbatim>\<open>ErrNotFound\<close> when there is none or the hash is
  empty. After a rotation the new hash finds the client and its old hash finds nobody; after a
  revocation the old hash finds nobody.
\<close>

theorem token_identifies_client:
  assumes "reachable tenant_start (tenant_step C) s"
    and "nget (clients_of s) (normalize_workspace w) cid = Some old"
    and "local_rotate_client_token e w cid h actor s = Inr (t, c)"
  shows "(get_client_by_token_hash s w h' = Inr d \<longleftrightarrow>
      h' \<noteq> '''' \<and> cli_token_hash d = h' \<and> nget (clients_of s) (normalize_workspace w) (cli_id d) = Some d)
    \<and> cli_id c = cid \<and> get_client_by_token_hash t w h = Inr c
    \<and> (cli_token_hash old \<noteq> h \<longrightarrow> get_client_by_token_hash t w (cli_token_hash old) = Inl NotFound)"
proof -
  have s: "tenants_ok s" using assms(1) by (rule tenants.reachable_good)
  note r = rotated_clients [OF s assms(3)]
  have "get_client_by_token_hash t w h = Inr c"
    using r by (simp add: token_lookup [OF r(1)])
  moreover have "get_client_by_token_hash t w (cli_token_hash old) = Inl NotFound" if "cli_token_hash old \<noteq> h"
    unfolding token_unknown [OF r(1)] r(5)
    using that r(3) tenants_ok_token [OF s assms(2)] by (metis option.inject)
  ultimately show ?thesis using r(2) by (simp add: token_lookup [OF s])
qed

theorem token_identifies_client_witness:
  "\<exists>s t c. get_client_by_token_hash s '''' ''h1'' = Inr c \<and> cli_id c = ''client_1''
    \<and> get_client_by_token_hash t '''' ''h1'' = Inl NotFound
    \<and> (\<exists>d. get_client_by_token_hash t '''' ''h2'' = Inr d \<and> cli_id d = ''client_1'')"
proof -
  have w: "normalize_workspace '''' = ''default''" by code_simp
  obtain s c where s: "reachable tenant_start (tenant_step (ex_crypto ''k'' JNull)) s" "cli_id c = ''client_1''" "cli_token_hash c = ''h1''"
    "clients_of s = [(''default'', [(''client_1'', c)])]"
    using create_first_client [of "ex_crypto ''k'' JNull"] by blast
  have "tenants_ok s" using s(1) by (rule tenants.reachable_good)
  then have ck: "clients_keyed s" by (simp add: tenants_ok_def)
  have c: "nget (clients_of s) (normalize_workspace '''') ''client_1'' = Some c" by (simp add: w s(4) nget_def mget_or_def)
  obtain t d where t: "local_rotate_client_token (ex_env 3) '''' ''client_1'' ''h2'' ''ops'' s = Inr (t, d)"
    using c by (simp add: local_rotate_client_token_def update_def rotate_client_token_def ensure_clients [OF ck] Let_def
        client_token_hash_exists_def s(4) w mget_or_def)
  show ?thesis
    using token_identifies_client [OF s(1) c t, of "''h1''" c] s c by auto
qed


text \<open>What an operation does to the record of one workspace.\<close>

lemma update_keeps_workspace:
  assumes "update e f s = Inr (t, x)" and "map_of (sn_workspaces s) w = Some y"
    and "\<And>u v z. f u = Inr (v, z) \<Longrightarrow> map_of (sn_workspaces u) w = Some y \<Longrightarrow> map_of (sn_workspaces v) w = Some y"
  shows "map_of (sn_workspaces t) w = Some y"
  using assms by (auto simp: update_Inr ensure_workspace_kept)

lemma saved_keeps_archived:
  "workspace_saved w' x u v \<Longrightarrow> map_of (sn_workspaces u) w = Some y \<Longrightarrow> ws_status y = workspace_archived \<Longrightarrow>
    map_of (sn_workspaces v) w = Some y"
  by (auto simp: workspace_saved_def workspace_move_def)

lemma client_ops_keep_workspaces:
  "create_client e w name h actor u = Inr (v, c) \<Longrightarrow> sn_workspaces v = sn_workspaces u"
  "update_client e w cid name actor u = Inr (v, c) \<Longrightarrow> sn_workspaces v = sn_workspaces u"
  "rotate_client_token e w cid h actor u = Inr (v, c) \<Longrightarrow> sn_workspaces v = sn_workspaces u"
  "revoke_client_token e w cid actor u = Inr (v, c) \<Longrightarrow> sn_workspaces v = sn_workspaces u"
  "delete_client e w cid actor u = Inr (v, r) \<Longrightarrow> sn_workspaces v = sn_workspaces u"
  "set_input_config e ic detail u = Inr (v, x) \<Longrightarrow> sn_workspaces v = sn_workspaces u"
  "delete_input_config e w key detail actor u = Inr (v, r) \<Longrightarrow> sn_workspaces v = sn_workspaces u"
  by (auto simp: create_client_def update_client_def rotate_client_token_def revoke_client_token_def delete_client_def
      set_input_config_def delete_input_config_def append_input_config_audit_def Let_def save_client_fields
      split: if_splits option.splits)

lemma archived_step:
  assumes st: "tenant_step C s t" and w: "map_of (sn_workspaces s) w = Some y" and a: "ws_status y = workspace_archived"
  shows "map_of (sn_workspaces t) w = Some y"
  using st
proof (cases rule: tenant_step.cases)
  case tenant_create_client
  then show ?thesis unfolding local_create_client_def
    by (elim update_keeps_workspace) (simp_all add: w client_ops_keep_workspaces)
next
  case tenant_update_client
  then show ?thesis unfolding local_update_client_def
    by (elim update_keeps_workspace) (simp_all add: w client_ops_keep_workspaces)
next
  case tenant_rotate_client
  then show ?thesis unfolding local_rotate_client_token_def
    by (auto split: if_splits elim!: update_keeps_workspace simp: w client_ops_keep_workspaces)
next
  case tenant_revoke_client
  then show ?thesis unfolding local_revoke_client_token_def
    by (elim update_keeps_workspace) (simp_all add: w client_ops_keep_workspaces)
next
  case tenant_delete_client
  then show ?thesis unfolding local_delete_client_def
    by (elim update_keeps_workspace) (simp_all add: w client_ops_keep_workspaces)
next
  case tenant_client_audit
  then show ?thesis unfolding local_append_client_audit_def
    by (elim update_keeps_workspace) (auto simp: w)
next
  case tenant_set_config
  then show ?thesis
    by (auto simp: local_set_input_config_def Let_def and_then_eq_Inr w client_ops_keep_workspaces split: option.splits
        elim!: update_keeps_workspace)
next
  case tenant_delete_config
  then show ?thesis
    by (auto simp: local_delete_input_config_def Let_def and_then_eq_Inr w client_ops_keep_workspaces
        elim!: update_keeps_workspace)
next
  case tenant_create_workspace
  then show ?thesis unfolding local_create_workspace_def
    by (elim update_keeps_workspace) (auto simp: w intro: saved_keeps_archived workspace_ops_saved a)
next
  case tenant_update_workspace
  then show ?thesis unfolding local_update_workspace_def
    by (elim update_keeps_workspace) (auto simp: w intro: saved_keeps_archived workspace_ops_saved a)
next
  case tenant_archive_workspace
  then show ?thesis unfolding local_archive_workspace_def
    by (elim update_keeps_workspace) (auto simp: w intro: saved_keeps_archived workspace_ops_saved a)
next
  case tenant_rotate_workspace
  then show ?thesis unfolding local_rotate_workspace_token_def
    by (elim update_keeps_workspace) (auto simp: w intro: saved_keeps_archived workspace_ops_saved a)
next
  case (tenant_other e u)
  then show ?thesis using ensure_workspace_kept w by (simp add: same_tenants_def)
qed


text \<open>An archived workspace is final: from a reachable store on, no operation and no loading ever changes
  its record again, and the default workspace is never archived.
\<close>

theorem archived_workspace_is_final:
  assumes "reachable tenant_start (tenant_step C) s"
    and "map_of (sn_workspaces s) w = Some x" and "ws_status x = workspace_archived"
    and "(tenant_step C)\<^sup>*\<^sup>* s t"
  shows "map_of (sn_workspaces t) w = Some x \<and> w \<noteq> default_workspace"
proof
  have s: "tenants_ok s" using assms(1) by (rule tenants.reachable_good)
  show "map_of (sn_workspaces t) w = Some x"
    by (rule tenants.stable_later [OF _ s _ assms(4)]) (use archived_step assms(2,3) in blast)+
  have "ws_status x = workspace_active \<or> ws_status x = workspace_archived \<and> w \<noteq> default_workspace"
    using s assms(2) by (simp add: tenants_ok_def workspaces_ok_def)
  with assms(3) show "w \<noteq> default_workspace" by (auto simp: workspace_active_def workspace_archived_def)
qed

lemma archive_first_workspace:
  "\<exists>s x. reachable tenant_start (tenant_step C) s \<and> map_of (sn_workspaces s) ''acme'' = Some x
    \<and> ws_status x = workspace_archived"
proof -
  let ?s = "new_snapshot (ex_env 1)"
  have none: "map_of (sn_workspaces ?s) ''acme'' = None" by code_simp
  have none': "map_of (sn_workspaces (ensure_snapshot (ex_env 2) ?s)) ''acme'' = None" by code_simp
  obtain t x where t: "local_create_workspace (ex_env 2) ''acme'' ''Acme'' '''' ''ops'' ?s = Inr (t, x)"
    by (simp add: local_create_workspace_def update_def create_workspace_def save_workspace_def none')
  then have x: "map_of (sn_workspaces t) ''acme'' = Some x \<and> ws_status x = workspace_active"
    by (auto simp: local_create_workspace_def update_Inr create_workspace_def save_workspace_def append_workspace_audit_def
        split: if_splits intro: ensure_workspace_kept)
  have x2: "map_of (sn_workspaces (ensure_snapshot (ex_env 3) t)) ''acme'' = Some x"
    using x by (simp add: ensure_workspace_kept)
  obtain u y where u: "local_archive_workspace (ex_env 3) ''acme'' ''ops'' t = Inr (u, y)"
    using x by (simp add: local_archive_workspace_def update_def archive_workspace_def x2 save_workspace_def default_workspace_def
        workspace_active_def workspace_archived_def)
  then have "map_of (sn_workspaces u) ''acme'' = Some y \<and> ws_status y = workspace_archived"
    by (auto simp: local_archive_workspace_def update_Inr archive_workspace_def save_workspace_def append_workspace_audit_def
        split: if_splits option.splits intro: ensure_workspace_kept)
  moreover have "reachable tenant_start (tenant_step C) u"
    by (rule reachable_step [OF reachable_step [OF reachable_new tenant_create_workspace [OF t]] tenant_archive_workspace [OF u]])
  ultimately show ?thesis by blast
qed

theorem archived_workspace_is_final_witness:
  "\<exists>s x. map_of (sn_workspaces s) ''acme'' = Some x \<and> ws_status x = workspace_archived
    \<and> (\<forall>e. map_of (sn_workspaces (ensure_snapshot e s)) ''acme'' = Some x)"
proof -
  obtain s x where s: "reachable tenant_start (tenant_step (ex_crypto ''k'' JNull)) s"
    "map_of (sn_workspaces s) ''acme'' = Some x" "ws_status x = workspace_archived"
    using archive_first_workspace by blast
  have ok: "tenants_ok s" using s(1) by (rule tenants.reachable_good)
  have "tenant_step (ex_crypto ''k'' JNull) s (ensure_snapshot e (ensure_snapshot e s))" for e
    by (rule tenant_other [OF _ refl]) (use ensure_tenants_ok [OF ok, of e] in
        \<open>auto simp: same_tenants_def tenants_ok_def clients_keyed_def configs_keyed_def workspaces_ok_def\<close>)
  then have "map_of (sn_workspaces (ensure_snapshot e (ensure_snapshot e s))) ''acme'' = Some x" for e
    using archived_workspace_is_final [OF s] by blast
  with s(2,3) ensure_workspace_kept show ?thesis by blast
qed


subsection \<open>Input settings\<close>

lemma resolve_input_eq:
  assumes "client = '''' \<or> nget (clients_of s) (normalize_workspace w) client \<noteq> None"
    and "list_input_configs_for_app C s w app = Inr ics"
  shows "resolve_input C s w app action client request
    = resolve_input_configs request (filter (config_applies action client) ics)"
  using assms
  by (auto simp: resolve_input_def Let_def get_client_def list_input_configs_for_app_def list_local_input_configs_def)

lemma resolve_input_Inr:
  assumes "resolve_input C s w app action client request = Inr r"
  obtains ics where "client = '''' \<or> nget (clients_of s) (normalize_workspace w) client \<noteq> None"
    "list_input_configs_for_app C s w app = Inr ics"
    "resolve_input_configs request (filter (config_applies action client) ics) = Inr r"
  using assms
  by (auto simp: resolve_input_def Let_def get_client_def and_then_eq_Inr list_input_configs_for_app_def
      list_local_input_configs_def split: option.splits if_splits)

text \<open>C9.
  Precedence of input. In a reachable store, a request that is an object and that resolves gives an
  object whose every key has the value the request sets and, where it sets none, the value of the
  most specific setting that sets it: the one for this action and this client, then the one for the
  client, then the one for the action, then the one for the app; nothing else is in it.
\<close>

theorem input_precedence:
  assumes "reachable tenant_start (tenant_step C) s"
    and "list_input_configs_for_app C s w app = Inr ics"
    and "raw_object (canonical_json_value request empty_object) = Some req"
    and "resolve_input C s w app action client request = Inr r"
  shows "\<exists>m. raw_object (canonical_json_value r empty_object) = Some m
    \<and> (\<forall>k. map_of m k = first_some [map_of req k, level_value ics action client k,
          level_value ics '''' client k, level_value ics action '''' k, level_value ics '''' '''' k])"
proof -
  have "tenants_ok s" using assms(1) by (rule tenants.reachable_good)
  then have "configs_keyed s" by (simp add: tenants_ok_def)
  then have one: "one_per_level ics" using assms(2) by (rule listed_one_per_level)
  from assms(4) have "resolve_input_configs request (filter (config_applies action client) ics) = Inr r"
    by (rule resolve_input_Inr) (use assms(2) in simp)
  from resolved_value [OF one assms(3) this] show ?thesis by blast
qed

text \<open>Locked keys. A request is refused for its locked keys exactly when the settings that apply are
  usable and lock a key the request sets, and the error lists those keys, each once and in order.
\<close>

theorem locked_keys_refused:
  assumes "client = '''' \<or> nget (clients_of s) (normalize_workspace w) client \<noteq> None"
    and "list_input_configs_for_app C s w app = Inr ics"
    and "raw_object (canonical_json_value request empty_object) = Some req"
  shows "resolve_input C s w app action client request = Inl (LockedKeys ks) \<longleftrightarrow>
    usable_settings (filter (config_applies action client) ics) \<and> ks \<noteq> [] \<and> sorted ks \<and> distinct ks
    \<and> set ks = refused_keys req (filter (config_applies action client) ics)"
proof -
  let ?as = "filter (config_applies action client) ics"
  have ok: "map_ok req" using assms(3) by (auto simp: raw_object_Some map_ok_object_map)
  note sorted_ks = refused_keys_sorted [OF ok refl, of ?as]
  show ?thesis
  proof (cases "?as = []")
    case True
    then show ?thesis
      by (simp add: resolve_input_eq [OF assms(1,2)] resolve_input_configs_def refused_keys_def locked_by_def)
  next
    case False
    define K where "K = sort_strings (map fst (filter (\<lambda>(k, v). k \<in> locked_by ?as) req))"
    have K: "sorted K" "distinct K" "set K = refused_keys req ?as" using sorted_ks by (simp_all add: K_def)
    have uniq: "ks = K \<longleftrightarrow> sorted ks \<and> distinct ks \<and> set ks = refused_keys req ?as"
      using K sorted_distinct_set_unique [of ks K] by metis
    have ne: "K = [] \<longleftrightarrow> refused_keys req ?as = {}" using K(3) by (metis set_empty)
    have "resolve_input C s w app action client request = Inl (LockedKeys ks) \<longleftrightarrow>
        usable_settings ?as \<and> refused_keys req ?as \<noteq> {} \<and> K = ks"
      unfolding resolve_input_eq [OF assms(1,2)] resolve_configs_eq [OF False assms(3)] K_def by simp
    with uniq ne show ?thesis by metis
  qed
qed

text \<open>
  Resolving twice. Once a request is resolved against settings that lock a key they set, resolving
  the result again is refused for that key: the first resolution puts the locked value in, and the
  second takes it for the caller's.
\<close>

theorem resolved_input_refused_again:
  assumes "resolve_input C s w app action client request = Inr r"
    and "raw_object (canonical_json_value request empty_object) = Some req"
    and "list_input_configs_for_app C s w app = Inr ics"
    and "ic \<in> set ics" and "config_applies action client ic"
    and "k \<in> set (ic_locked_keys ic)" and "sets_key k ic \<noteq> None" and "one_per_level ics"
  shows "\<exists>ks. resolve_input C s w app action client r = Inl (LockedKeys ks) \<and> k \<in> set ks"
proof -
  let ?as = "filter (config_applies action client) ics"
  obtain v where v: "sets_key k ic = Some v" using assms(7) by auto
  from assms(1) have cl: "client = '''' \<or> nget (clients_of s) (normalize_workspace w) client \<noteq> None"
    and res: "resolve_input_configs request ?as = Inr r"
    by (rule resolve_input_Inr; use assms(3) in simp)+
  from resolved_value [OF assms(8,2) res] obtain m where m: "raw_object (canonical_json_value r empty_object) = Some m"
    "map_ok m" "map_of m k = first_some [map_of req k, level_value ics action client k,
        level_value ics '''' client k, level_value ics action '''' k, level_value ics '''' '''' k]"
    by auto
  have "level_value ics (ic_action ic) (ic_client ic) k = Some v"
    using assms(4) v by (auto simp: level_value_Some [OF assms(8)])
  then have "map_of m k \<noteq> None"
    using assms(5) unfolding m(3) first_some_None by (auto simp: config_applies_def)
  then have "k \<in> refused_keys m ?as" using assms(4,5,6) by (auto simp: refused_keys_def locked_by_def)
  moreover have ne: "?as \<noteq> []" using assms(4,5) by (auto simp: filter_empty_conv)
  moreover have "usable_settings ?as" using res by (auto simp: resolve_configs_eq [OF ne assms(2)] split: if_splits)
  moreover note refused_keys_sorted [OF m(2) refl, of ?as]
  ultimately show ?thesis
    unfolding resolve_input_eq [OF cl assms(3)] resolve_configs_eq [OF ne m(1)] by auto
qed


text \<open>A store with one setting: the region of an app, locked.\<close>

definition ex_setting :: input_config where
  "ex_setting = \<lparr>ic_workspace = '''', ic_app = ''shop'', ic_action = '''', ic_client = '''',
     ic_config = RawDoc (JObj [(''region'', JStr ''eu'')]), ic_locked_keys = [''region''],
     ic_updated_by = '''', ic_updated_at = 0\<rparr>"

definition ex_saved :: input_config where
  "ex_saved = ex_setting\<lparr>ic_workspace := ''default'', ic_updated_by := ''ops'', ic_updated_at := 2\<rparr>"

abbreviation ex_plain :: input_crypto where
  "ex_plain \<equiv> ex_crypto '''' JNull"

lemma ex_plain_crypto:
  "encrypt_input ex_plain n w (RawDoc (JObj [(''region'', JStr ''eu'')])) = Inr (RawDoc (JObj [(''region'', JStr ''eu'')]))"
  "decrypt_input ex_plain w (RawDoc (JObj [(''region'', JStr ''eu'')])) = Inr (RawDoc (JObj [(''region'', JStr ''eu'')]))"
  by (simp_all add: encrypt_input_def encrypt_input_at_rest_def encrypt_json_at_rest_def decrypt_input_def
      decrypt_input_at_rest_def decrypt_json_at_rest_def canonical_json_value_def raw_empty_def ex_crypto_def
      is_enc_def object_map_def enc_marker_key_def Let_def)

lemma ex_setting_values:
  "raw_object (canonical_json_value (RawDoc (JObj [(''region'', JStr ''eu'')])) empty_object) = Some [(''region'', JStr ''eu'')]"
  "marshal_object [(''region'', JStr ''eu'')] = RawDoc (JObj [(''region'', JStr ''eu'')])"
  "normalized_locked_keys [(''region'', JStr ''eu'')] [''region''] = Inr [''region'']"
  by code_simp+

lemma configured_store:
  "\<exists>s. reachable tenant_start (tenant_step ex_plain) s \<and> list_input_configs_for_app ex_plain s '''' ''shop'' = Inr [ex_saved]"
proof -
  let ?s = "new_snapshot (ex_env 1)"
  have w: "normalize_workspace '''' = ''default''" "trim_space ''shop'' = ''shop''"
    "trim_space ''ops'' = ''ops''" by code_simp+
  have none: "list_input_configs_for_app ex_plain ?s ''default'' ''shop'' = Inr []"
    by (simp add: list_input_configs_for_app_def list_local_input_configs_def new_snapshot_clients mget_or_def mvals_def)
  have ck: "clients_keyed ?s" using tenants.reachable_good [OF reachable_new] by (simp add: tenants_ok_def)
  obtain t x where t: "local_set_input_config ex_plain (=) (ex_env 2) ?s ex_setting ''ops'' ?s = Inr (t, x)"
    and cfg: "sn_input_configs t = [(''default'', [(input_config_key ''shop'' '''' '''', ex_saved)])]"
    by (auto simp: local_set_input_config_def Let_def ex_setting_def w none ex_setting_values ex_plain_crypto update_def
        set_input_config_def append_input_config_audit_def new_snapshot_clients nput_def mput_def mget_or_def ex_env_fields
        ex_saved_def)
  have "reachable tenant_start (tenant_step ex_plain) t"
    by (rule reachable_step [OF reachable_new tenant_set_config [OF t]])
  moreover have "list_input_configs_for_app ex_plain t '''' ''shop'' = Inr [ex_saved]"
    by (simp add: list_input_configs_for_app_def list_local_input_configs_def cfg w mget_or_def mvals_def)
      (simp add: ex_saved_def ex_setting_def ex_plain_crypto)
  ultimately show ?thesis by blast
qed


lemma ex_saved_levels:
  "one_per_level [ex_saved]" "filter (config_applies action client) [ex_saved] = [ex_saved]"
  "find_input_config [ex_saved] '''' '''' = Some ex_saved" "sets_key ''region'' ex_saved = Some (JStr ''eu'')"
  "usable_settings [ex_saved]" "ic_locked_keys ex_saved = [''region'']"
  by (simp_all add: one_per_level_def config_applies_def ex_saved_def ex_setting_def find_input_config_def
      usable_settings_def config_values_def sets_key_def ex_setting_values)

lemma ex_saved_resolve:
  assumes "list_input_configs_for_app ex_plain s '''' ''shop'' = Inr [ex_saved]"
  shows "resolve_input ex_plain s '''' ''shop'' ''pay'' '''' (RawDoc (JObj [(''n'', JNum ''1'')]))
    = Inr (RawDoc (JObj [(''n'', JNum ''1''), (''region'', JStr ''eu'')]))"
proof -
  have "resolve_input_configs (RawDoc (JObj [(''n'', JNum ''1'')])) [ex_saved]
    = Inr (RawDoc (JObj [(''n'', JNum ''1''), (''region'', JStr ''eu'')]))"
    by code_simp
  then show ?thesis using assms by (simp add: resolve_input_eq ex_saved_levels(2) del: filter.simps)
qed

theorem input_precedence_witness:
  "\<exists>s r m. resolve_input ex_plain s '''' ''shop'' ''pay'' '''' (RawDoc (JObj [(''n'', JNum ''1'')])) = Inr r
    \<and> raw_object (canonical_json_value r empty_object) = Some m
    \<and> map_of m ''region'' = Some (JStr ''eu'') \<and> map_of m ''n'' = Some (JNum ''1'')"
proof -
  obtain s where s: "reachable tenant_start (tenant_step ex_plain) s"
    "list_input_configs_for_app ex_plain s '''' ''shop'' = Inr [ex_saved]"
    using configured_store by blast
  have req: "raw_object (canonical_json_value (RawDoc (JObj [(''n'', JNum ''1'')])) empty_object) = Some [(''n'', JNum ''1'')]"
    by code_simp
  have none: "level_value [ex_saved] ''pay'' '''' k = None" for k
    by (simp add: level_value_def find_input_config_def ex_saved_def ex_setting_def)
  have app: "level_value [ex_saved] '''' '''' ''region'' = Some (JStr ''eu'')"
    by (simp add: level_value_def ex_saved_levels)
  from input_precedence [OF s req ex_saved_resolve [OF s(2)]] obtain m where
    "raw_object (canonical_json_value (RawDoc (JObj [(''n'', JNum ''1''), (''region'', JStr ''eu'')])) empty_object) = Some m"
    and m: "\<And>k. map_of m k = first_some [map_of [(''n'', JNum ''1'')] k, level_value [ex_saved] ''pay'' '''' k,
        level_value [ex_saved] '''' '''' k, level_value [ex_saved] ''pay'' '''' k, level_value [ex_saved] '''' '''' k]"
    by blast
  moreover have "map_of m ''region'' = Some (JStr ''eu'')" "map_of m ''n'' = Some (JNum ''1'')"
    by (simp_all add: m none app)
  ultimately show ?thesis using ex_saved_resolve [OF s(2)] by blast
qed

theorem locked_keys_refused_witness:
  "\<exists>s. resolve_input ex_plain s '''' ''shop'' ''pay'' ''''
      (RawDoc (JObj [(''region'', JStr ''us''), (''n'', JNum ''1'')])) = Inl (LockedKeys [''region''])"
proof -
  obtain s where s: "list_input_configs_for_app ex_plain s '''' ''shop'' = Inr [ex_saved]"
    using configured_store by blast
  have req: "raw_object (canonical_json_value (RawDoc (JObj [(''region'', JStr ''us''), (''n'', JNum ''1'')])) empty_object)
      = Some [(''region'', JStr ''us''), (''n'', JNum ''1'')]"
    by code_simp
  have "refused_keys [(''region'', JStr ''us''), (''n'', JNum ''1'')] [ex_saved] = {''region''}"
    by (auto simp: refused_keys_def locked_by_def ex_saved_levels)
  then show ?thesis
    using locked_keys_refused [OF _ s req, of "''''" "''pay''" "[''region'']"]
    by (auto simp: ex_saved_levels simp del: filter.simps)
qed

theorem resolved_input_refused_again_witness:
  "\<exists>s r ks. resolve_input ex_plain s '''' ''shop'' ''pay'' '''' (RawDoc (JObj [(''n'', JNum ''1'')])) = Inr r
    \<and> resolve_input ex_plain s '''' ''shop'' ''pay'' '''' r = Inl (LockedKeys ks) \<and> ''region'' \<in> set ks"
proof -
  obtain s where s: "list_input_configs_for_app ex_plain s '''' ''shop'' = Inr [ex_saved]"
    using configured_store by blast
  have req: "raw_object (canonical_json_value (RawDoc (JObj [(''n'', JNum ''1'')])) empty_object) = Some [(''n'', JNum ''1'')]"
    by code_simp
  have "config_applies ''pay'' '''' ex_saved" by (simp add: config_applies_def ex_saved_def ex_setting_def)
  then show ?thesis
    using resolved_input_refused_again [OF ex_saved_resolve [OF s] req s, of ex_saved "''region''"] ex_saved_resolve [OF s]
    by (auto simp: ex_saved_levels)
qed

end
