(* ===== verification/Webhook_Store.thy ===== *)
theory Webhook_Store
  imports Run_Store
begin

text \<open>
  Webhook subscriptions and deliveries in the store (\<^verbatim>\<open>internal/state/webhook.go\<close>,
  \<^verbatim>\<open>internal/state/local_webhook.go\<close>): the endpoint and the signing secret of a subscription are
  encrypted, deliveries are claimed with a lease, completed under it, retried and pruned.
\<close>

section \<open>Preparing\<close>

definition fail_webhook :: "webhook_error \<Rightarrow> store_error + 'a" where
  "fail_webhook err = Inl (WebhookFailure err)"

definition prepare_new_subscription :: "net_lib \<Rightarrow> call_env \<Rightarrow> subscription \<Rightarrow> store_error + subscription" where
  "prepare_new_subscription net e sub =
    (let sub = sub\<lparr>sub_workspace := normalize_workspace (sub_workspace sub), sub_id := trim_space (sub_id sub)\<rparr>;
         sub = (if sub_id sub = '''' then sub\<lparr>sub_id := draw_id e ''whs'' 0\<rparr> else sub) in
     if \<not> prefix ''whs_'' (sub_id sub) then fail_webhook WebhookInvalid
     else let sub = normalize_filters sub in
       if \<not> validate_subscription net sub then fail_webhook WebhookInvalid
       else let actor = (if trim_space (sub_created_by sub) = '''' then ''system'' else trim_space (sub_created_by sub))
            in Inr (sub\<lparr>sub_created_by := actor, sub_updated_by := actor, sub_created_at := clock e,
                        sub_updated_at := clock e, sub_deleted_at := None\<rparr>))"

definition prepare_updated_subscription ::
    "net_lib \<Rightarrow> subscription \<Rightarrow> subscription \<Rightarrow> time \<Rightarrow> store_error + subscription" where
  "prepare_updated_subscription net existing upd now =
    (let upd = (if trim_space (sub_endpoint upd) = '''' then upd\<lparr>sub_endpoint := sub_endpoint existing\<rparr> else upd);
         upd = (if sub_secret upd = '''' then upd\<lparr>sub_secret := sub_secret existing\<rparr> else upd);
         upd = upd\<lparr>sub_id := sub_id existing, sub_workspace := sub_workspace existing,
                   sub_created_by := sub_created_by existing, sub_created_at := sub_created_at existing,
                   sub_deleted_at := sub_deleted_at existing\<rparr>;
         upd = normalize_filters upd in
     if \<not> validate_subscription net upd then fail_webhook WebhookInvalid
     else let actor = first_non_empty [trim_space (sub_updated_by upd), sub_updated_by existing, ''system'']
          in Inr (upd\<lparr>sub_updated_by := actor, sub_updated_at := now\<rparr>))"

definition webhook_subscription_key :: "string \<Rightarrow> string \<Rightarrow> string" where
  "webhook_subscription_key w sid = normalize_workspace w @ ''/'' @ sid"

definition subscription_to_record :: "subscription \<Rightarrow> raw \<Rightarrow> raw \<Rightarrow> subscription_record" where
  "subscription_to_record sub endpoint secret =
    \<lparr>sr_id = sub_id sub, sr_workspace = sub_workspace sub, sr_name = sub_name sub, sr_endpoint = endpoint,
     sr_secret = secret, sr_event_types = sub_event_types sub, sr_app_keys = sub_app_keys sub,
     sr_enabled = sub_enabled sub, sr_created_by = sub_created_by sub, sr_updated_by = sub_updated_by sub,
     sr_created_at = sub_created_at sub, sr_updated_at = sub_updated_at sub, sr_deleted_at = sub_deleted_at sub\<rparr>"

definition subscription_from_record :: "subscription_record \<Rightarrow> string \<Rightarrow> string \<Rightarrow> subscription" where
  "subscription_from_record r endpoint secret =
    \<lparr>sub_id = sr_id r, sub_workspace = sr_workspace r, sub_name = sr_name r, sub_endpoint = endpoint,
     sub_secret = secret, sub_event_types = sr_event_types r, sub_app_keys = sr_app_keys r,
     sub_enabled = sr_enabled r, sub_created_by = sr_created_by r, sub_updated_by = sr_updated_by r,
     sub_created_at = sr_created_at r, sub_updated_at = sr_updated_at r, sub_deleted_at = sr_deleted_at r\<rparr>"

definition encrypt_webhook_string ::
    "key_provider \<Rightarrow> input_crypto \<Rightarrow> string \<Rightarrow> string \<Rightarrow> string \<Rightarrow> store_error + raw" where
  "encrypt_webhook_string provider C nonce w v =
    (if trim_space (secret_key C) = '''' then Inl InvalidArgument
     else encrypt_json_at_rest provider C nonce w (RawDoc (JStr v)) (RawDoc (JStr '''')))"

definition decrypt_webhook_string :: "key_provider \<Rightarrow> input_crypto \<Rightarrow> string \<Rightarrow> raw \<Rightarrow> store_error + string" where
  "decrypt_webhook_string provider C w v =
    and_then (decrypt_json_at_rest provider C w v (RawDoc (JStr ''''))) (\<lambda>r.
      case r of RawDoc (JStr s) \<Rightarrow> Inr s | RawDoc JNull \<Rightarrow> Inr '''' | _ \<Rightarrow> Inl InvalidJson)"

definition local_subscription :: "input_crypto \<Rightarrow> subscription_record \<Rightarrow> store_error + subscription" where
  "local_subscription C r =
    and_then (decrypt_webhook_string None C (sr_workspace r) (sr_endpoint r)) (\<lambda>endpoint.
    and_then (decrypt_webhook_string None C (sr_workspace r) (sr_secret r)) (\<lambda>secret.
    Inr (subscription_from_record r endpoint secret)))"

definition encrypt_local_subscription :: "input_crypto \<Rightarrow> call_env \<Rightarrow> subscription \<Rightarrow> store_error + raw \<times> raw" where
  "encrypt_local_subscription C e sub =
    and_then (encrypt_webhook_string None C (draw_nonce e ''webhook endpoint'' 0) (sub_workspace sub) (sub_endpoint sub)) (\<lambda>endpoint.
    and_then (encrypt_webhook_string None C (draw_nonce e ''webhook secret'' 0) (sub_workspace sub) (sub_secret sub)) (\<lambda>secret.
    Inr (endpoint, secret)))"

section \<open>Audit records\<close>

definition new_webhook_audit ::
    "call_env \<Rightarrow> string \<Rightarrow> string \<Rightarrow> string \<Rightarrow> string \<Rightarrow> string \<Rightarrow> string \<Rightarrow> webhook_audit" where
  "new_webhook_audit e w sid did kind detail actor =
    \<lparr>wha_id = draw_id e ''wha'' 0, wha_workspace = normalize_workspace w, wha_subscription = trim_space sid,
     wha_delivery = trim_space did, wha_kind = trim_space kind, wha_detail = trim_space detail,
     wha_actor = first_non_empty [trim_space actor, ''system''], wha_created_at = clock e\<rparr>"

definition append_webhook_audit :: "string \<Rightarrow> webhook_audit \<Rightarrow> snapshot \<Rightarrow> snapshot" where
  "append_webhook_audit w a s =
    s\<lparr>sn_webhook_audits := mput w (mget_or [] (sn_webhook_audits s) w @ [a]) (sn_webhook_audits s)\<rparr>"

definition bool_text :: "bool \<Rightarrow> string" where
  "bool_text b = (if b then ''true'' else ''false'')"

definition count_text :: "'a list \<Rightarrow> string" where
  "count_text xs = itoa (int (length xs))"

definition webhook_subscription_audit_detail :: "subscription \<Rightarrow> string" where
  "webhook_subscription_audit_detail sub =
    ''name='' @ sub_name sub @ ''; enabled='' @ bool_text (sub_enabled sub) @ ''; event_types=''
    @ count_text (sub_event_types sub) @ ''; app_keys='' @ count_text (sub_app_keys sub)"

definition webhook_subscription_update_audit_detail :: "subscription \<Rightarrow> subscription \<Rightarrow> string" where
  "webhook_subscription_update_audit_detail before after =
    ''name='' @ sub_name after @ ''; enabled='' @ bool_text (sub_enabled before) @ ''->'' @ bool_text (sub_enabled after)
    @ ''; event_types='' @ count_text (sub_event_types before) @ ''->'' @ count_text (sub_event_types after)
    @ ''; app_keys='' @ count_text (sub_app_keys before) @ ''->'' @ count_text (sub_app_keys after)"

definition local_list_audit :: "snapshot \<Rightarrow> string \<Rightarrow> webhook_audit list" where
  "local_list_audit s w = sort_slice
     (\<lambda>a b. if wha_created_at a = wha_created_at b then wha_id b < wha_id a else wha_created_at b < wha_created_at a)
     (mget_or [] (sn_webhook_audits s) (normalize_workspace w))"

section \<open>Subscriptions\<close>

definition subscription_before :: "subscription \<Rightarrow> subscription \<Rightarrow> bool" where
  "subscription_before a b \<longleftrightarrow> (if sub_name a = sub_name b then sub_id a < sub_id b else sub_name a < sub_name b)"

fun decode_subscriptions :: "input_crypto \<Rightarrow> subscription_record list \<Rightarrow> store_error + subscription list" where
  "decode_subscriptions C [] = Inr []"
| "decode_subscriptions C (r # rs) =
    and_then (local_subscription C r) (\<lambda>x. and_then (decode_subscriptions C rs) (\<lambda>xs. Inr (x # xs)))"

definition list_subscriptions_with :: "input_crypto \<Rightarrow> snapshot \<Rightarrow> string \<Rightarrow> bool \<Rightarrow> store_error + subscription list" where
  "list_subscriptions_with C s w include_deleted =
    and_then (decode_subscriptions C (filter (\<lambda>r. normalize_workspace (sr_workspace r) = normalize_workspace w
        \<and> (include_deleted \<or> sr_deleted_at r = None)) (mvals (sn_subscriptions s))))
      (\<lambda>subs. Inr (sort_slice subscription_before subs))"

definition list_subscriptions :: "input_crypto \<Rightarrow> snapshot \<Rightarrow> string \<Rightarrow> store_error + subscription list" where
  "list_subscriptions C s w = list_subscriptions_with C s w False"

definition list_subscriptions_including_deleted :: "input_crypto \<Rightarrow> snapshot \<Rightarrow> string \<Rightarrow> store_error + subscription list" where
  "list_subscriptions_including_deleted C s w = list_subscriptions_with C s w True"

definition get_subscription :: "input_crypto \<Rightarrow> snapshot \<Rightarrow> string \<Rightarrow> string \<Rightarrow> store_error + subscription" where
  "get_subscription C s w sid =
    (case map_of (sn_subscriptions s) (webhook_subscription_key w sid) of
       None \<Rightarrow> fail_webhook WebhookNotFound
     | Some r \<Rightarrow> if sr_deleted_at r \<noteq> None then fail_webhook WebhookNotFound else local_subscription C r)"

text \<open>Another subscription of the workspace that is not deleted has the name.\<close>

definition name_taken :: "snapshot \<Rightarrow> string option \<Rightarrow> string \<Rightarrow> string \<Rightarrow> bool" where
  "name_taken s except w name \<longleftrightarrow> list_ex (\<lambda>(k, r). Some k \<noteq> except \<and> sr_deleted_at r = None
     \<and> normalize_workspace (sr_workspace r) = w \<and> sr_name r = name) (sn_subscriptions s)"

definition create_subscription :: "call_env \<Rightarrow> subscription \<Rightarrow> raw \<Rightarrow> raw \<Rightarrow> subscription body" where
  "create_subscription e sub endpoint secret s =
    (let key = webhook_subscription_key (sub_workspace sub) (sub_id sub) in
     if map_of (sn_subscriptions s) key \<noteq> None then fail_webhook WebhookConflict
     else if name_taken s None (sub_workspace sub) (sub_name sub) then fail_webhook WebhookConflict
     else Inr (append_webhook_audit (sub_workspace sub)
         (new_webhook_audit e (sub_workspace sub) (sub_id sub) '''' ''webhook_subscription_created''
           (webhook_subscription_audit_detail sub) (sub_created_by sub))
         (s\<lparr>sn_subscriptions := mput key (subscription_to_record sub endpoint secret) (sn_subscriptions s)\<rparr>), sub))"

definition local_create_subscription ::
    "net_lib \<Rightarrow> input_crypto \<Rightarrow> call_env \<Rightarrow> subscription \<Rightarrow> subscription body" where
  "local_create_subscription net C e sub s =
    and_then (prepare_new_subscription net e sub) (\<lambda>sub.
    and_then (encrypt_local_subscription C e sub) (\<lambda>(endpoint, secret).
    update e (create_subscription e sub endpoint secret) s))"

definition update_subscription :: "net_lib \<Rightarrow> input_crypto \<Rightarrow> call_env \<Rightarrow> subscription \<Rightarrow> subscription body" where
  "update_subscription net C e upd s =
    (let key = webhook_subscription_key (normalize_workspace (sub_workspace upd)) (sub_id upd) in
     case map_of (sn_subscriptions s) key of
       None \<Rightarrow> fail_webhook WebhookNotFound
     | Some current \<Rightarrow>
       if sr_deleted_at current \<noteq> None then fail_webhook WebhookNotFound
       else
         and_then (local_subscription C current) (\<lambda>existing.
         and_then (prepare_updated_subscription net existing upd (clock e)) (\<lambda>sub.
         if name_taken s (Some key) (sub_workspace sub) (sub_name sub) then fail_webhook WebhookConflict
         else and_then (encrypt_local_subscription C e sub) (\<lambda>(endpoint, secret).
           let kind = (if sub_enabled existing \<and> \<not> sub_enabled sub then ''webhook_subscription_disabled''
                       else if \<not> sub_enabled existing \<and> sub_enabled sub then ''webhook_subscription_enabled''
                       else ''webhook_subscription_updated'')
           in Inr (append_webhook_audit (sub_workspace sub)
             (new_webhook_audit e (sub_workspace sub) (sub_id sub) '''' kind
               (webhook_subscription_update_audit_detail existing sub) (sub_updated_by sub))
             (s\<lparr>sn_subscriptions := mput key (subscription_to_record sub endpoint secret) (sn_subscriptions s)\<rparr>), sub)))))"

definition local_update_subscription ::
    "net_lib \<Rightarrow> input_crypto \<Rightarrow> call_env \<Rightarrow> subscription \<Rightarrow> subscription body" where
  "local_update_subscription net C e upd = update e (update_subscription net C e upd)"

text \<open>Deleting cancels the deliveries that no dispatcher holds.\<close>

definition cancel_on_delete :: "call_env \<Rightarrow> string \<Rightarrow> string \<Rightarrow> delivery \<Rightarrow> delivery" where
  "cancel_on_delete e w sid d =
    (if normalize_workspace (del_workspace d) \<noteq> normalize_workspace w \<or> del_subscription d \<noteq> sid
        \<or> del_state d \<noteq> DeliveryPending \<and> del_state d \<noteq> DeliveryRetrying then d
     else d\<lparr>del_state := DeliveryCanceled, del_updated_at := clock e, del_completed_at := Some (clock e)\<rparr>)"

definition delete_subscription :: "call_env \<Rightarrow> string \<Rightarrow> string \<Rightarrow> string \<Rightarrow> unit body" where
  "delete_subscription e w sid actor s =
    (let key = webhook_subscription_key w sid in
     case map_of (sn_subscriptions s) key of
       None \<Rightarrow> fail_webhook WebhookNotFound
     | Some r \<Rightarrow>
       if sr_deleted_at r \<noteq> None then fail_webhook WebhookNotFound
       else
         let r = r\<lparr>sr_enabled := False, sr_updated_by := first_non_empty [trim_space actor, ''system''],
                   sr_updated_at := clock e, sr_deleted_at := Some (clock e)\<rparr>;
             s = s\<lparr>sn_subscriptions := mput key r (sn_subscriptions s),
                   sn_deliveries := mmap (\<lambda>_. cancel_on_delete e w sid) (sn_deliveries s)\<rparr>
         in Inr (append_webhook_audit (normalize_workspace w)
              (new_webhook_audit e w sid '''' ''webhook_subscription_deleted''
                (''name='' @ sr_name r @ ''; subscription deleted'') actor) s, ()))"

definition local_delete_subscription :: "call_env \<Rightarrow> string \<Rightarrow> string \<Rightarrow> string \<Rightarrow> unit body" where
  "local_delete_subscription e w sid actor = update e (delete_subscription e w sid actor)"

section \<open>Events and their deliveries\<close>

definition matching_subscriptions :: "snapshot \<Rightarrow> string \<Rightarrow> string \<Rightarrow> string \<Rightarrow> subscription_record list" where
  "matching_subscriptions s w event_type app =
    filter (\<lambda>r. normalize_workspace (sr_workspace r) = normalize_workspace w
        \<and> filter_matches (sr_enabled r) (sr_deleted_at r) (sr_event_types r) (sr_app_keys r) event_type app)
      (mvals (sn_subscriptions s))"

definition new_webhook_delivery :: "call_env \<Rightarrow> nat \<Rightarrow> envelope \<Rightarrow> string \<Rightarrow> string \<Rightarrow> delivery" where
  "new_webhook_delivery e n event w sid =
    \<lparr>del_id = draw_id e ''whd'' n, del_workspace = normalize_workspace w, del_event = env_id event,
     del_subscription = sid, del_state = DeliveryPending, del_attempt = 0, del_next_attempt_at = clock e,
     del_lease_owner = None, del_lease_expires_at = None, del_response_status = None, del_latency_ms = None,
     del_error_summary = None, del_created_at = clock e, del_updated_at = clock e, del_completed_at = None\<rparr>"

definition put_delivery :: "delivery \<Rightarrow> snapshot \<Rightarrow> snapshot" where
  "put_delivery d s = s\<lparr>sn_deliveries := mput (del_id d) d (sn_deliveries s)\<rparr>"

definition put_control_event :: "envelope \<Rightarrow> snapshot \<Rightarrow> snapshot" where
  "put_control_event v s = s\<lparr>sn_control_events := mput (env_id v) v (sn_control_events s)\<rparr>"

text \<open>An event and a pending delivery of it for each subscription that matches, as publishing records them.\<close>

definition record_event :: "call_env \<Rightarrow> envelope \<Rightarrow> string \<Rightarrow> string \<Rightarrow> snapshot \<Rightarrow> snapshot" where
  "record_event e v w app s =
    fold (\<lambda>(n, r). put_delivery (new_webhook_delivery e n v w (sr_id r)))
      (enumerate 0 (matching_subscriptions s w (env_type v) app)) (put_control_event v s)"

definition prepare_webhook_delivery_query :: "delivery_query \<Rightarrow> store_error + delivery_query" where
  "prepare_webhook_delivery_query q =
    (let q = q\<lparr>dq_subscription := trim_space (dq_subscription q), dq_cursor_id := trim_space (dq_cursor_id q)\<rparr> in
     if dq_state q \<noteq> DeliveryOther '''' \<and> \<not> valid_delivery_state (dq_state q) then fail_webhook WebhookInvalid
     else
       let q = (if dq_limit q \<le> 0 then q\<lparr>dq_limit := 50\<rparr> else q);
           q = (if 101 < dq_limit q then q\<lparr>dq_limit := 101\<rparr> else q) in
       if (dq_cursor_created_at q = 0) \<noteq> (dq_cursor_id q = '''') then fail_webhook WebhookInvalid
       else Inr q)"

definition webhook_delivery_matches :: "delivery \<Rightarrow> string \<Rightarrow> delivery_query \<Rightarrow> bool" where
  "webhook_delivery_matches d w q \<longleftrightarrow>
     normalize_workspace (del_workspace d) = normalize_workspace w
     \<and> (dq_subscription q = '''' \<or> del_subscription d = dq_subscription q)
     \<and> (dq_state q = DeliveryOther '''' \<or> del_state d = dq_state q)
     \<and> (dq_cursor_created_at q = 0 \<or> del_created_at d < dq_cursor_created_at q
        \<or> del_created_at d = dq_cursor_created_at q \<and> del_id d < dq_cursor_id q)"

record delivery_detail =
  dd_delivery :: delivery
  dd_event :: envelope
  dd_subscription_name :: string

definition subscription_name_of :: "snapshot \<Rightarrow> delivery \<Rightarrow> string" where
  "subscription_name_of s d =
    (case map_of (sn_subscriptions s) (webhook_subscription_key (del_workspace d) (del_subscription d)) of
       None \<Rightarrow> '''' | Some r \<Rightarrow> sr_name r)"

definition delivery_newer :: "delivery_detail \<Rightarrow> delivery_detail \<Rightarrow> bool" where
  "delivery_newer a b \<longleftrightarrow>
    (if del_created_at (dd_delivery a) = del_created_at (dd_delivery b)
     then del_id (dd_delivery b) < del_id (dd_delivery a)
     else del_created_at (dd_delivery b) < del_created_at (dd_delivery a))"

definition delivery_details :: "snapshot \<Rightarrow> string \<Rightarrow> delivery_query \<Rightarrow> delivery_detail list" where
  "delivery_details s w q = concat (map (\<lambda>d. case map_of (sn_control_events s) (del_event d) of
       None \<Rightarrow> []
     | Some v \<Rightarrow> [\<lparr>dd_delivery = d, dd_event = v, dd_subscription_name = subscription_name_of s d\<rparr>])
     (filter (\<lambda>d. webhook_delivery_matches d w q) (mvals (sn_deliveries s))))"

definition list_deliveries :: "snapshot \<Rightarrow> string \<Rightarrow> delivery_query \<Rightarrow> store_error + delivery_detail list" where
  "list_deliveries s w q =
    and_then (prepare_webhook_delivery_query q) (\<lambda>q.
    Inr (take (nat (dq_limit q)) (sort_slice delivery_newer (delivery_details s w q))))"

definition get_delivery :: "snapshot \<Rightarrow> string \<Rightarrow> string \<Rightarrow> store_error + delivery_detail" where
  "get_delivery s w did =
    (case map_of (sn_deliveries s) (trim_space did) of
       None \<Rightarrow> fail_webhook WebhookNotFound
     | Some d \<Rightarrow>
       if normalize_workspace (del_workspace d) \<noteq> normalize_workspace w then fail_webhook WebhookNotFound
       else case map_of (sn_control_events s) (del_event d) of
         None \<Rightarrow> fail_webhook WebhookNotFound
       | Some v \<Rightarrow> Inr \<lparr>dd_delivery = d, dd_event = v, dd_subscription_name = subscription_name_of s d\<rparr>)"

definition create_test_delivery :: "call_env \<Rightarrow> string \<Rightarrow> string \<Rightarrow> string \<Rightarrow> delivery_detail body" where
  "create_test_delivery e w sid actor s =
    (let w = normalize_workspace w in
     case map_of (sn_subscriptions s) (webhook_subscription_key w sid) of
       None \<Rightarrow> fail_webhook WebhookNotFound
     | Some r \<Rightarrow>
       if sr_deleted_at r \<noteq> None then fail_webhook WebhookNotFound
       else if \<not> sr_enabled r then fail_webhook WebhookConflict
       else case new_webhook_test (draw_id e ''evt'' 0) (clock e)
           \<lparr>wt_workspace = w, wt_subscription = sid, wt_actor = actor\<rparr> of
         Inl _ \<Rightarrow> Inl EventFailure
       | Inr v \<Rightarrow>
         let d = new_webhook_delivery e 0 v w sid
         in Inr (append_webhook_audit w
              (new_webhook_audit e w sid (del_id d) ''webhook_test_requested'' ''test delivery queued'' actor)
              (put_delivery d (put_control_event v s)),
            \<lparr>dd_delivery = d, dd_event = v, dd_subscription_name = sr_name r\<rparr>))"

definition local_create_test_delivery :: "call_env \<Rightarrow> string \<Rightarrow> string \<Rightarrow> string \<Rightarrow> delivery_detail body" where
  "local_create_test_delivery e w sid actor = update e (create_test_delivery e w sid actor)"

section \<open>Claiming and completing deliveries\<close>

definition delivery_eligible :: "delivery \<Rightarrow> subscription_record \<Rightarrow> time \<Rightarrow> bool" where
  "delivery_eligible d r now \<longleftrightarrow> sr_enabled r \<and> sr_deleted_at r = None
     \<and> (case del_state d of
          DeliveryPending \<Rightarrow> del_next_attempt_at d \<le> now
        | DeliveryRetrying \<Rightarrow> del_next_attempt_at d \<le> now
        | DeliveryDelivering \<Rightarrow> (case del_lease_expires_at d of None \<Rightarrow> False | Some t \<Rightarrow> t \<le> now)
        | _ \<Rightarrow> False)"

definition subscription_of :: "snapshot \<Rightarrow> delivery \<Rightarrow> subscription_record option" where
  "subscription_of s d = map_of (sn_subscriptions s) (webhook_subscription_key (del_workspace d) (del_subscription d))"

definition claimable_delivery :: "snapshot \<Rightarrow> time \<Rightarrow> delivery \<Rightarrow> bool" where
  "claimable_delivery s now d \<longleftrightarrow>
    (case subscription_of s d of None \<Rightarrow> False | Some r \<Rightarrow> delivery_eligible d r now)"

definition due_before :: "delivery \<Rightarrow> delivery \<Rightarrow> bool" where
  "due_before a b \<longleftrightarrow> del_next_attempt_at a < del_next_attempt_at b
     \<or> del_next_attempt_at a = del_next_attempt_at b \<and> del_created_at a < del_created_at b"

definition select_delivery :: "snapshot \<Rightarrow> time \<Rightarrow> delivery option" where
  "select_delivery s now = fold (\<lambda>d best.
      if \<not> claimable_delivery s now d then best
      else case best of None \<Rightarrow> Some d | Some b \<Rightarrow> if due_before d b then Some d else Some b)
    (mvals (sn_deliveries s)) None"

record claimed_delivery =
  cd_delivery :: delivery
  cd_event :: envelope
  cd_subscription :: subscription
  cd_lease :: delivery_lease

definition claim_delivery :: "input_crypto \<Rightarrow> call_env \<Rightarrow> string \<Rightarrow> duration \<Rightarrow> claimed_delivery body" where
  "claim_delivery C e worker ttl s =
    (case select_delivery s (clock e) of
       None \<Rightarrow> fail_webhook NoPendingDelivery
     | Some d \<Rightarrow>
       (case subscription_of s d of
          None \<Rightarrow> fail_webhook NoPendingDelivery
        | Some r \<Rightarrow>
          and_then (local_subscription C r) (\<lambda>sub.
          case map_of (sn_control_events s) (del_event d) of
            None \<Rightarrow> fail_webhook WebhookNotFound
          | Some v \<Rightarrow>
            let expires = clock e + ttl;
                d = d\<lparr>del_state := DeliveryDelivering, del_attempt := del_attempt d + 1, del_lease_owner := Some worker,
                      del_lease_expires_at := Some expires, del_updated_at := clock e\<rparr>
            in Inr (put_delivery d s,
                 \<lparr>cd_delivery = d, cd_event = v, cd_subscription = sub,
                  cd_lease = \<lparr>dl_delivery = del_id d, dl_worker = worker, dl_attempt = del_attempt d,
                              dl_expires_at = expires\<rparr>\<rparr>))))"

definition local_claim_delivery :: "input_crypto \<Rightarrow> call_env \<Rightarrow> string \<Rightarrow> duration \<Rightarrow> claimed_delivery body" where
  "local_claim_delivery C e worker ttl s =
    (if trim_space worker = '''' then fail_webhook InvalidDeliveryLease
     else update e (claim_delivery C e (trim_space worker) (if ttl \<le> 0 then seconds 30 else ttl)) s)"

definition validate_delivery_lease :: "delivery \<Rightarrow> delivery_lease \<Rightarrow> bool" where
  "validate_delivery_lease d l \<longleftrightarrow> del_state d = DeliveryDelivering
     \<and> del_lease_owner d = Some (dl_worker l) \<and> del_attempt d = dl_attempt l
     \<and> del_lease_expires_at d = Some (dl_expires_at l)"

text \<open>The delivery as a result leaves it; a retry for a deleted subscription is a cancellation.\<close>

definition completed_delivery :: "call_env \<Rightarrow> delivery_result \<Rightarrow> subscription_record \<Rightarrow> delivery \<Rightarrow> delivery" where
  "completed_delivery e res r d =
    (let stop = sr_deleted_at r \<noteq> None \<and> dr_state res = DeliveryRetrying;
         state = (if stop then DeliveryCanceled else dr_state res);
         completed = (if stop then clock e else dr_completed_at res)
     in d\<lparr>del_state := state, del_next_attempt_at := dr_next_attempt_at res,
          del_response_status := dr_response_status res, del_latency_ms := dr_latency_ms res,
          del_error_summary := dr_error_summary res, del_lease_owner := None, del_lease_expires_at := None,
          del_updated_at := clock e,
          del_completed_at := (if state = DeliveryRetrying then None else Some completed)\<rparr>)"

definition complete_delivery :: "call_env \<Rightarrow> delivery_lease \<Rightarrow> delivery_result \<Rightarrow> unit body" where
  "complete_delivery e l res s =
    (case map_of (sn_deliveries s) (dl_delivery l) of
       None \<Rightarrow> fail_webhook WebhookNotFound
     | Some d \<Rightarrow>
       if \<not> validate_delivery_lease d l then fail_webhook InvalidDeliveryLease
       else case subscription_of s d of
         None \<Rightarrow> fail_webhook WebhookNotFound
       | Some r \<Rightarrow> Inr (put_delivery (completed_delivery e res r d) s, ()))"

definition local_complete_delivery :: "call_env \<Rightarrow> delivery_lease \<Rightarrow> delivery_result \<Rightarrow> unit body" where
  "local_complete_delivery e l res s =
    (if \<not> validate_delivery_result res then fail_webhook WebhookInvalid
     else update e (complete_delivery e l res) s)"

definition retry_delivery :: "call_env \<Rightarrow> string \<Rightarrow> string \<Rightarrow> string \<Rightarrow> unit body" where
  "retry_delivery e w did actor s =
    (case map_of (sn_deliveries s) did of
       None \<Rightarrow> fail_webhook WebhookNotFound
     | Some d \<Rightarrow>
       if normalize_workspace (del_workspace d) \<noteq> normalize_workspace w then fail_webhook WebhookNotFound
       else if del_state d \<noteq> DeliveryFailed then fail_webhook WebhookConflict
       else case subscription_of s d of
         None \<Rightarrow> fail_webhook WebhookConflict
       | Some r \<Rightarrow>
         if sr_deleted_at r \<noteq> None \<or> \<not> sr_enabled r then fail_webhook WebhookConflict
         else
           let d = d\<lparr>del_state := DeliveryRetrying, del_next_attempt_at := clock e, del_lease_owner := None,
                     del_lease_expires_at := None, del_completed_at := None, del_updated_at := clock e\<rparr>
           in Inr (append_webhook_audit (normalize_workspace w)
                (new_webhook_audit e w (del_subscription d) (del_id d) ''webhook_delivery_retried''
                  ''failed delivery queued for retry'' actor) (put_delivery d s), ()))"

definition local_retry_delivery :: "call_env \<Rightarrow> string \<Rightarrow> string \<Rightarrow> string \<Rightarrow> unit body" where
  "local_retry_delivery e w did actor = update e (retry_delivery e w did actor)"

section \<open>Statistics and retention\<close>

fun is_active_webhook_delivery :: "delivery_state \<Rightarrow> bool" where
  "is_active_webhook_delivery DeliveryPending = True"
| "is_active_webhook_delivery DeliveryRetrying = True"
| "is_active_webhook_delivery DeliveryDelivering = True"
| "is_active_webhook_delivery st = False"

record queue_stats =
  qs_pending :: int
  qs_oldest :: "time option"

definition webhook_queue_stats :: "snapshot \<Rightarrow> queue_stats" where
  "webhook_queue_stats s = fold (\<lambda>d st.
      if \<not> is_active_webhook_delivery (del_state d) then st
      else \<lparr>qs_pending = qs_pending st + 1,
            qs_oldest = (case qs_oldest st of
                None \<Rightarrow> Some (del_created_at d)
              | Some t \<Rightarrow> Some (if del_created_at d < t then del_created_at d else t))\<rparr>)
    (mvals (sn_deliveries s)) \<lparr>qs_pending = 0, qs_oldest = None\<rparr>"

definition webhook_delivery_retention_time :: "delivery \<Rightarrow> time" where
  "webhook_delivery_retention_time d = (case del_completed_at d of Some t \<Rightarrow> t | None \<Rightarrow> del_updated_at d)"

definition webhook_delivery_expired :: "delivery \<Rightarrow> retention_policy \<Rightarrow> bool" where
  "webhook_delivery_expired d pol =
    (case (case del_state d of
             DeliverySucceeded \<Rightarrow> Some (pol_succeeded_before pol)
           | DeliveryCanceled \<Rightarrow> Some (pol_canceled_before pol)
           | DeliveryFailed \<Rightarrow> Some (pol_failed_before pol)
           | _ \<Rightarrow> None) of
       None \<Rightarrow> False
     | Some cutoff \<Rightarrow> cutoff \<noteq> 0 \<and> webhook_delivery_retention_time d < cutoff)"

definition normalized_webhook_retention_batch_size :: "int \<Rightarrow> int" where
  "normalized_webhook_retention_batch_size n = (if n \<le> 0 then 1000 else n)"

definition retention_before :: "delivery \<Rightarrow> delivery \<Rightarrow> bool" where
  "retention_before a b \<longleftrightarrow>
    (if webhook_delivery_retention_time a = webhook_delivery_retention_time b then del_id a < del_id b
     else webhook_delivery_retention_time a < webhook_delivery_retention_time b)"

text \<open>
  A batch is spent first on expired deliveries, the oldest first, then on events no delivery refers
  to, then on deleted subscriptions no delivery refers to.
\<close>

definition prune_webhook_data :: "retention_policy \<Rightarrow> retention_result body" where
  "prune_webhook_data pol s =
    (let n = nat (normalized_webhook_retention_batch_size (pol_batch_size pol));
         ds = map del_id (take n (sort_slice retention_before
           (filter (\<lambda>d. webhook_delivery_expired d pol) (mvals (sn_deliveries s)))));
         s1 = s\<lparr>sn_deliveries := fold mdel ds (sn_deliveries s)\<rparr>;
         n1 = n - length ds;
         evs = take n1 (sort_strings (filter (\<lambda>k. k \<notin> del_event ` set (mvals (sn_deliveries s1))) (mkeys (sn_control_events s1))));
         s2 = s1\<lparr>sn_control_events := fold mdel evs (sn_control_events s1)\<rparr>;
         n2 = n1 - length evs;
         subs = (if pol_subscription_before pol = 0 then []
           else take n2 (sort_strings (map fst (filter (\<lambda>(k, r).
             (case sr_deleted_at r of None \<Rightarrow> False | Some t \<Rightarrow> t < pol_subscription_before pol)
             \<and> k \<notin> (\<lambda>d. webhook_subscription_key (del_workspace d) (del_subscription d)) ` set (mvals (sn_deliveries s2)))
             (sn_subscriptions s2)))));
         s3 = s2\<lparr>sn_subscriptions := fold mdel subs (sn_subscriptions s2)\<rparr>
     in Inr (s3, \<lparr>rtn_deliveries = int (length ds), rtn_events = int (length evs), rtn_subscriptions = int (length subs)\<rparr>))"

definition local_prune_webhook_data :: "call_env \<Rightarrow> retention_policy \<Rightarrow> retention_result body" where
  "local_prune_webhook_data e pol = update e (prune_webhook_data pol)"

end
