(* ===== verification/Egress.thy ===== *)
theory Egress
  imports Webhook_Types "HOL-Library.Word"
begin

text \<open>
  Which endpoints a webhook may be sent to (\<^verbatim>\<open>internal/webhook/security.go\<close>). An address is
  \<^verbatim>\<open>netip.Addr\<close>: an IPv4 address of 32 bits, an IPv6 address of 128 bits with a zone, or the zero
  value; its classes are those of the standard library. Parsing an address, a prefix and a URL and
  looking a name up are arguments.
\<close>

unbundle bit_operations_syntax

section \<open>Addresses and prefixes\<close>

datatype addr = V4 "32 word" | V6 "128 word" string | NoAddr

datatype ip_prefix = P4 "32 word" nat | P6 "128 word" nat

definition mapped_v4 :: "128 word \<Rightarrow> bool" where
  "mapped_v4 w \<longleftrightarrow> drop_bit 32 w = 0xffff"

fun unmap :: "addr \<Rightarrow> addr" where
  "unmap (V6 w z) = (if mapped_v4 w then V4 (ucast w) else V6 w z)"
| "unmap a = a"

text \<open>\<^verbatim>\<open>Prefix.Contains\<close>: an address with a zone is in no prefix.\<close>

fun contains_addr :: "ip_prefix \<Rightarrow> addr \<Rightarrow> bool" where
  "contains_addr (P4 p n) (V4 a) \<longleftrightarrow> n \<le> 32 \<and> drop_bit (32 - n) a = drop_bit (32 - n) p"
| "contains_addr (P6 p n) (V6 a z) \<longleftrightarrow> z = '''' \<and> n \<le> 128 \<and> drop_bit (128 - n) a = drop_bit (128 - n) p"
| "contains_addr p a \<longleftrightarrow> False"

fun masked :: "ip_prefix \<Rightarrow> ip_prefix" where
  "masked (P4 p n) = P4 (push_bit (32 - n) (drop_bit (32 - n) p)) n"
| "masked (P6 p n) = P6 (push_bit (128 - n) (drop_bit (128 - n) p)) n"

fun is_unspecified :: "addr \<Rightarrow> bool" where
  "is_unspecified (V4 a) \<longleftrightarrow> a = 0"
| "is_unspecified (V6 a z) \<longleftrightarrow> a = 0 \<and> z = ''''"
| "is_unspecified NoAddr \<longleftrightarrow> False"

fun is_multicast :: "addr \<Rightarrow> bool" where
  "is_multicast (V4 a) \<longleftrightarrow> drop_bit 28 a = 0xe"
| "is_multicast (V6 a z) \<longleftrightarrow> drop_bit 120 a = 0xff"
| "is_multicast NoAddr \<longleftrightarrow> False"

fun is_link_local_unicast :: "addr \<Rightarrow> bool" where
  "is_link_local_unicast (V4 a) \<longleftrightarrow> drop_bit 16 a = 0xa9fe"
| "is_link_local_unicast (V6 a z) \<longleftrightarrow> drop_bit 118 a = 0x3fa"
| "is_link_local_unicast NoAddr \<longleftrightarrow> False"

fun is_link_local_multicast :: "addr \<Rightarrow> bool" where
  "is_link_local_multicast (V4 a) \<longleftrightarrow> drop_bit 8 a = 0xe00000"
| "is_link_local_multicast (V6 a z) \<longleftrightarrow> drop_bit 112 a AND 0xff0f = 0xff02"
| "is_link_local_multicast NoAddr \<longleftrightarrow> False"

fun is_loopback :: "addr \<Rightarrow> bool" where
  "is_loopback (V4 a) \<longleftrightarrow> drop_bit 24 a = 127"
| "is_loopback (V6 a z) \<longleftrightarrow> a = 1"
| "is_loopback NoAddr \<longleftrightarrow> False"

fun is_private :: "addr \<Rightarrow> bool" where
  "is_private (V4 a) \<longleftrightarrow> drop_bit 24 a = 10 \<or> drop_bit 20 a = 0xac1 \<or> drop_bit 16 a = 0xc0a8"
| "is_private (V6 a z) \<longleftrightarrow> drop_bit 121 a = 0x7e"
| "is_private NoAddr \<longleftrightarrow> False"

section \<open>The policy\<close>

definition metadata_addresses :: "addr list" where
  "metadata_addresses = [V4 0xa9fea9fe, V4 0x646464c8, V6 0xfd000ec2000000000000000000000254 '''']"

definition allowlisted_network_prefixes :: "ip_prefix list" where
  "allowlisted_network_prefixes = [P4 0x64400000 10]"

definition always_blocked_address_prefixes :: "ip_prefix list" where
  "always_blocked_address_prefixes =
    [P4 0 8, P4 0xc0000000 24, P4 0xc0000200 24, P4 0xc6120000 15, P4 0xc6336400 24, P4 0xcb007100 24,
     P4 0xf0000000 4, P6 0x01000000000000000000000000000000 64, P6 0x20010db8000000000000000000000000 32]"

definition is_metadata_address :: "addr \<Rightarrow> bool" where
  "is_metadata_address a \<longleftrightarrow> list_ex (\<lambda>b. a = b) metadata_addresses"

definition is_restricted_address :: "addr \<Rightarrow> bool" where
  "is_restricted_address a \<longleftrightarrow> is_private a \<or> list_ex (\<lambda>p. contains_addr p a) allowlisted_network_prefixes"

definition is_always_blocked_address :: "addr \<Rightarrow> bool" where
  "is_always_blocked_address a \<longleftrightarrow> list_ex (\<lambda>p. contains_addr p a) always_blocked_address_prefixes"

definition normalize_host :: "string \<Rightarrow> string" where
  "normalize_host host = trim_suffix (to_lower (trim_space host)) ''.''"

definition host_matches :: "string \<Rightarrow> string \<Rightarrow> bool" where
  "host_matches host candidate \<longleftrightarrow> candidate = host
     \<or> prefix ''*.'' candidate \<and> suffix (drop 1 candidate) host \<and> host \<noteq> drop 2 candidate"

definition host_allowed :: "string \<Rightarrow> string list \<Rightarrow> bool" where
  "host_allowed host candidates \<longleftrightarrow> list_ex (\<lambda>c. host_matches (normalize_host host) (normalize_host c)) candidates"

record egress_policy =
  egr_hosts :: "string list"
  egr_cidrs :: "ip_prefix list"
  egr_http_hosts :: "string list"
  egr_loopback :: bool

definition allows :: "egress_policy \<Rightarrow> string \<Rightarrow> string \<Rightarrow> addr \<Rightarrow> bool" where
  "allows pol host scheme a0 =
    (let a = unmap a0 in
     if is_metadata_address a then False
     else if a = NoAddr \<or> is_unspecified a \<or> is_multicast a \<or> is_link_local_unicast a \<or> is_link_local_multicast a then False
     else if is_always_blocked_address a then False
     else if is_loopback a then egr_loopback pol \<and> scheme = ''http''
     else if scheme = ''http'' then host_allowed host (egr_http_hosts pol)
     else if scheme \<noteq> ''https'' then False
     else if \<not> is_restricted_address a then True
     else if host_allowed host (egr_hosts pol) then True
     else list_ex (\<lambda>p. contains_addr p a) (egr_cidrs pol))"

section \<open>Lists of hosts and prefixes\<close>

definition contains_any :: "string \<Rightarrow> string \<Rightarrow> bool" where
  "contains_any s chars \<longleftrightarrow> list_ex (\<lambda>c. c \<in> set chars) s"

text \<open>\<^verbatim>\<open>strings.FieldsFunc\<close> at commas and semicolons, blank fields left out.\<close>

definition split_list :: "string \<Rightarrow> string list" where
  "split_list raw = filter (\<lambda>v. v \<noteq> '''') (map trim_space
     (filter (\<lambda>v. v \<noteq> '''') (split_at (CHR '','') (map (\<lambda>c. if c = CHR '';'' then CHR '','' else c) raw))))"

definition unique_strings :: "string list \<Rightarrow> string list" where
  "unique_strings values = remdups_adj values"

fun parse_hosts :: "string list \<Rightarrow> string list option" where
  "parse_hosts [] = Some []"
| "parse_hosts (v # vs) =
    (let host = normalize_host v in
     if host = '''' \<or> contains_any host ''/:@'' \<or> CHR ''*'' \<in> set host \<and> \<not> prefix ''*.'' host then None
     else map_option ((#) host) (parse_hosts vs))"

definition parse_allowed_hosts :: "string \<Rightarrow> string list option" where
  "parse_allowed_hosts raw = map_option (\<lambda>hs. unique_strings (sort_strings hs)) (parse_hosts (split_list raw))"

fun parse_cidrs :: "(string \<Rightarrow> ip_prefix option) \<Rightarrow> string list \<Rightarrow> ip_prefix list option" where
  "parse_cidrs parse [] = Some []"
| "parse_cidrs parse (v # vs) =
    (case parse v of None \<Rightarrow> None | Some p \<Rightarrow> map_option ((#) (masked p)) (parse_cidrs parse vs))"

definition parse_allowed_cidrs :: "(string \<Rightarrow> ip_prefix option) \<Rightarrow> string \<Rightarrow> ip_prefix list option" where
  "parse_allowed_cidrs parse raw = parse_cidrs parse (split_list raw)"

section \<open>Resolving an endpoint\<close>

text \<open>What the check reads of the network: parsing an address, and the resolver.\<close>

record resolver =
  parse_addr :: "string \<Rightarrow> addr option"
  lookup_ip :: "string \<Rightarrow> addr list option"

datatype egress_error = EgressPolicyRejected | ResolutionFailed

record resolved_endpoint =
  rep_url :: parsed_url
  rep_host :: string
  rep_port :: string
  rep_addresses :: "addr list"

definition lookup_host :: "resolver \<Rightarrow> string \<Rightarrow> addr list option" where
  "lookup_host R host =
    (case parse_addr R host of
       Some a \<Rightarrow> Some [unmap a]
     | None \<Rightarrow> map_option (\<lambda>as. rev (remdups (rev (map unmap as)))) (lookup_ip R host))"

text \<open>\<^verbatim>\<open>URL.Port\<close>: what follows the last colon of the host, if it is a number or empty.\<close>

definition url_port :: "string \<Rightarrow> string" where
  "url_port host =
    (let tail = takeWhile (\<lambda>c. c \<noteq> CHR '':'') (rev host) in
     if CHR '':'' \<in> set host \<and> list_all is_digit tail then rev tail else '''')"

definition resolve_endpoint ::
    "net_lib \<Rightarrow> resolver \<Rightarrow> egress_policy \<Rightarrow> string \<Rightarrow> egress_error + resolved_endpoint" where
  "resolve_endpoint net R pol raw =
    (case validate_endpoint net raw (egr_loopback pol) (egr_http_hosts pol \<noteq> []) of
       None \<Rightarrow> Inl EgressPolicyRejected
     | Some u \<Rightarrow>
       let host = normalize_host (url_hostname u) in
       case lookup_host R host of
         None \<Rightarrow> Inl ResolutionFailed
       | Some addresses \<Rightarrow>
         if addresses = [] then Inl ResolutionFailed
         else if list_ex (\<lambda>a. \<not> allows pol host (url_scheme u) a) addresses then Inl EgressPolicyRejected
         else
           let port = (if url_port (url_host u) = '''' then if url_scheme u = ''https'' then ''443'' else ''80''
                       else url_port (url_host u))
           in Inr \<lparr>rep_url = u, rep_host = host, rep_port = port, rep_addresses = addresses\<rparr>)"

section \<open>Dialing\<close>

text \<open>
  \<^verbatim>\<open>DialContext\<close> of the transport tries the addresses that were checked, in order, and no others; the
  outcome of a dial is an argument, and so is whether the context is done after a failure.
\<close>

fun dial_addresses :: "(addr \<Rightarrow> 'e + 'c) \<Rightarrow> (addr \<Rightarrow> 'e option) \<Rightarrow> 'e \<Rightarrow> addr list \<Rightarrow> 'e + 'c" where
  "dial_addresses dial ended prev [] = Inl prev"
| "dial_addresses dial ended prev (a # as) =
    (case dial a of
       Inr c \<Rightarrow> Inr c
     | Inl err \<Rightarrow> (case ended a of Some e \<Rightarrow> Inl e | None \<Rightarrow> dial_addresses dial ended err as))"

definition dial_endpoint :: "'e \<Rightarrow> (addr \<Rightarrow> 'e + 'c) \<Rightarrow> (addr \<Rightarrow> 'e option) \<Rightarrow> resolved_endpoint \<Rightarrow> 'e + 'c" where
  "dial_endpoint refused dial ended r =
    (if rep_addresses r = [] then Inl refused else dial_addresses dial ended refused (rep_addresses r))"

section \<open>Lemmas\<close>

lemma dial_from: "dial_addresses dial ended err as = Inr c \<Longrightarrow> \<exists>a \<in> set as. dial a = Inr c"
  by (induction as arbitrary: err) (auto split: sum.splits option.splits)

lemma unmap_idem [simp]: "unmap (unmap a) = unmap a"
  by (cases a) auto

lemma lookup_unmapped: "lookup_host R host = Some as \<Longrightarrow> a \<in> set as \<Longrightarrow> unmap a = a"
  by (auto simp: lookup_host_def split: option.splits)

lemma resolve_endpoint_Inr:
  assumes "resolve_endpoint net R pol raw = Inr r"
  shows "validate_endpoint net raw (egr_loopback pol) (egr_http_hosts pol \<noteq> []) = Some (rep_url r)"
    and "rep_host r = normalize_host (url_hostname (rep_url r))" and "lookup_host R (rep_host r) = Some (rep_addresses r)"
    and "rep_addresses r \<noteq> []" and "\<forall>a \<in> set (rep_addresses r). allows pol (rep_host r) (url_scheme (rep_url r)) a"
  using assms by (auto simp: resolve_endpoint_def Let_def list_ex_iff split: option.splits if_splits)

text \<open>The leading bits of a word, as a quotient.\<close>

lemma drop_bit_word_eq: "drop_bit n w = v \<longleftrightarrow> unat w div 2 ^ n = unat v" for w v :: "'a::len word"
  by (simp only: word_unat_eq_iff unat_drop_bit_eq) (simp only: drop_bit_eq_div)

lemma allowsD:
  assumes "allows pol host scheme a" and "unmap a = a"
  shows "a \<noteq> NoAddr" "\<not> is_metadata_address a" "\<not> is_unspecified a" "\<not> is_multicast a" "\<not> is_link_local_unicast a"
    "\<not> is_link_local_multicast a" "\<not> is_always_blocked_address a" "is_loopback a \<Longrightarrow> egr_loopback pol \<and> scheme = ''http''"
  using assms by (simp_all add: allows_def Let_def split: if_splits)

lemma allows_v4:
  assumes "allows pol host scheme (V4 w)"
  shows "unat w div 2 ^ 24 \<noteq> 0" and "unat w div 2 ^ 28 \<noteq> 14" and "unat w div 2 ^ 28 \<noteq> 15"
    and "unat w div 2 ^ 16 \<noteq> 169 * 256 + 254" and "w \<noteq> 0x646464c8"
    and "unat w div 2 ^ 24 = 127 \<Longrightarrow> egr_loopback pol \<and> scheme = ''http''"
proof -
  note a = allowsD [OF assms unmap.simps(2)]
  have "drop_bit 28 w \<noteq> 0xe" "drop_bit 16 w \<noteq> 0xa9fe" "w \<noteq> 0x646464c8" "drop_bit 24 w = 127 \<Longrightarrow> egr_loopback pol \<and> scheme = ''http''"
    using a by (simp_all add: is_metadata_address_def metadata_addresses_def)
  moreover have "drop_bit 24 w \<noteq> drop_bit 24 0" "drop_bit 28 w \<noteq> drop_bit 28 0xf0000000"
    using a(7) by (simp_all add: is_always_blocked_address_def always_blocked_address_prefixes_def)
  ultimately show "unat w div 2 ^ 24 \<noteq> 0" and "unat w div 2 ^ 28 \<noteq> 14" and "unat w div 2 ^ 28 \<noteq> 15"
    and "unat w div 2 ^ 16 \<noteq> 169 * 256 + 254" and "w \<noteq> 0x646464c8"
    and "unat w div 2 ^ 24 = 127 \<Longrightarrow> egr_loopback pol \<and> scheme = ''http''"
    unfolding drop_bit_word_eq by simp_all
qed

lemma allows_v4_ranges:
  assumes "allows pol host scheme (V4 w)"
  shows "unat w div 2 ^ 8 \<noteq> 192 * 256 * 256" and "unat w div 2 ^ 8 \<noteq> 192 * 256 * 256 + 2"
    and "unat w div 2 ^ 17 \<noteq> (198 * 256 + 18) div 2" and "unat w div 2 ^ 8 \<noteq> (198 * 256 + 51) * 256 + 100"
    and "unat w div 2 ^ 8 \<noteq> 203 * 256 * 256 + 113"
proof -
  have "drop_bit 8 w \<noteq> drop_bit 8 0xc0000000" "drop_bit 8 w \<noteq> drop_bit 8 0xc0000200"
    "drop_bit 17 w \<noteq> drop_bit 17 0xc6120000" "drop_bit 8 w \<noteq> drop_bit 8 0xc6336400" "drop_bit 8 w \<noteq> drop_bit 8 0xcb007100"
    using allowsD(7) [OF assms unmap.simps(2)] by (simp_all add: is_always_blocked_address_def always_blocked_address_prefixes_def)
  then show "unat w div 2 ^ 8 \<noteq> 192 * 256 * 256" and "unat w div 2 ^ 8 \<noteq> 192 * 256 * 256 + 2"
    and "unat w div 2 ^ 17 \<noteq> (198 * 256 + 18) div 2" and "unat w div 2 ^ 8 \<noteq> (198 * 256 + 51) * 256 + 100"
    and "unat w div 2 ^ 8 \<noteq> 203 * 256 * 256 + 113"
    unfolding drop_bit_word_eq by simp_all
qed

text \<open>Apart from the loopback, plain \<^verbatim>\<open>http\<close> is for the hosts listed for it.\<close>

lemma allows_scheme_or_loopback:
  "allows pol host scheme a \<Longrightarrow> unmap a = a \<Longrightarrow>
    is_loopback a \<or> scheme = ''https'' \<or> scheme = ''http'' \<and> host_allowed host (egr_http_hosts pol)"
  by (auto simp: allows_def Let_def split: if_splits)

lemma allows_restricted:
  assumes "allows pol host scheme a" and "unmap a = a" and "is_restricted_address a" and "\<not> is_loopback a"
  shows "scheme = ''http'' \<and> host_allowed host (egr_http_hosts pol)
    \<or> scheme = ''https'' \<and> (host_allowed host (egr_hosts pol) \<or> (\<exists>p \<in> set (egr_cidrs pol). contains_addr p a))"
  using assms by (auto simp: allows_def Let_def list_ex_iff split: if_splits)



lemma allows_v6:
  assumes "allows pol host scheme (V6 w z)" and "\<not> mapped_v4 w"
  shows "unat w div 2 ^ 120 \<noteq> 255" and "unat w div 2 ^ 118 \<noteq> 1018" and "z = '''' \<Longrightarrow> w \<noteq> 0"
    and "z = '''' \<Longrightarrow> w \<noteq> 0xfd000ec2000000000000000000000254"
    and "z = '''' \<Longrightarrow> unat w div 2 ^ 96 \<noteq> 0x20010db8" and "z = '''' \<Longrightarrow> unat w div 2 ^ 64 \<noteq> 0x0100 * 2 ^ 48"
    and "w = 1 \<Longrightarrow> egr_loopback pol \<and> scheme = ''http''"
proof -
  have "unmap (V6 w z) = V6 w z" using assms(2) by simp
  note a = allowsD [OF assms(1) this]
  have "drop_bit 120 w \<noteq> 0xff" "drop_bit 118 w \<noteq> 0x3fa" using a by simp_all
  moreover have "drop_bit 96 w \<noteq> drop_bit 96 0x20010db8000000000000000000000000" if "z = ''''"
    using a(7) that by (simp add: is_always_blocked_address_def always_blocked_address_prefixes_def)
  moreover have "drop_bit 64 w \<noteq> drop_bit 64 0x01000000000000000000000000000000" if "z = ''''"
    using a(7) that by (simp add: is_always_blocked_address_def always_blocked_address_prefixes_def)
  ultimately show "unat w div 2 ^ 120 \<noteq> 255" and "unat w div 2 ^ 118 \<noteq> 1018"
    and "z = '''' \<Longrightarrow> unat w div 2 ^ 96 \<noteq> 0x20010db8" and "z = '''' \<Longrightarrow> unat w div 2 ^ 64 \<noteq> 0x0100 * 2 ^ 48"
    unfolding drop_bit_word_eq by simp_all
  show "z = '''' \<Longrightarrow> w \<noteq> 0" "z = '''' \<Longrightarrow> w \<noteq> 0xfd000ec2000000000000000000000254"
    "w = 1 \<Longrightarrow> egr_loopback pol \<and> scheme = ''http''"
    using a by (simp_all add: is_metadata_address_def metadata_addresses_def)
qed

lemma restricted_v4:
  "is_restricted_address (V4 w) \<longleftrightarrow> unat w div 2 ^ 24 = 10 \<or> unat w div 2 ^ 20 = 172 * 16 + 1
    \<or> unat w div 2 ^ 16 = 192 * 256 + 168 \<or> unat w div 2 ^ 22 = 100 * 4 + 1"
proof -
  have "is_restricted_address (V4 w) \<longleftrightarrow> drop_bit 24 w = 10 \<or> drop_bit 20 w = 0xac1 \<or> drop_bit 16 w = 0xc0a8
      \<or> drop_bit 22 w = drop_bit 22 0x64400000"
    by (simp add: is_restricted_address_def allowlisted_network_prefixes_def)
  then show ?thesis unfolding drop_bit_word_eq by simp
qed

section \<open>What the policy promises\<close>

text \<open>
  The promise in numbers. Of the IPv4 addresses never \<^verbatim>\<open>0/8\<close>, \<^verbatim>\<open>192.0.0/24\<close>, \<^verbatim>\<open>192.0.2/24\<close>, \<^verbatim>\<open>198.18/15\<close>,
  \<^verbatim>\<open>198.51.100/24\<close>, \<^verbatim>\<open>203.0.113/24\<close>, multicast and reserved (\<^verbatim>\<open>224/3\<close>), link-local (\<^verbatim>\<open>169.254/16\<close>, the metadata
  services among them) and the metadata service \<^verbatim>\<open>100.100.100.200\<close>; of the IPv6 addresses never one that
  stands for an IPv4 address, multicast, link-local, the unspecified one, the metadata service, \<^verbatim>\<open>100::/64\<close>
  and \<^verbatim>\<open>2001:db8::/32\<close> (with a zone an address lies in no prefix and equals none). Loopback only over
  \<^verbatim>\<open>http\<close> when the policy allows it; plain \<^verbatim>\<open>http\<close> elsewhere only to the hosts listed for it; a private or
  shared address only when the host or a prefix of the address is on an allow list.
\<close>

definition on_allow_list :: "egress_policy \<Rightarrow> string \<Rightarrow> string \<Rightarrow> addr \<Rightarrow> bool" where
  "on_allow_list pol host scheme a \<longleftrightarrow> scheme = ''http'' \<and> host_allowed host (egr_http_hosts pol)
     \<or> scheme = ''https'' \<and> (host_allowed host (egr_hosts pol) \<or> (\<exists>p \<in> set (egr_cidrs pol). contains_addr p a))"

fun stays_outside :: "egress_policy \<Rightarrow> string \<Rightarrow> string \<Rightarrow> addr \<Rightarrow> bool" where
  "stays_outside pol host scheme (V4 w) \<longleftrightarrow>
     unat w div 2 ^ 24 \<notin> {0} \<union> {224..255} \<and> unat w div 2 ^ 16 \<noteq> 169 * 256 + 254
     \<and> unat w \<noteq> ((100 * 256 + 100) * 256 + 100) * 256 + 200
     \<and> unat w div 2 ^ 8 \<noteq> 192 * 256 * 256 \<and> unat w div 2 ^ 8 \<noteq> 192 * 256 * 256 + 2
     \<and> unat w div 2 ^ 17 \<noteq> (198 * 256 + 18) div 2 \<and> unat w div 2 ^ 8 \<noteq> (198 * 256 + 51) * 256 + 100
     \<and> unat w div 2 ^ 8 \<noteq> 203 * 256 * 256 + 113
     \<and> (unat w div 2 ^ 24 = 127 \<longrightarrow> egr_loopback pol \<and> scheme = ''http'')
     \<and> (unat w div 2 ^ 24 \<noteq> 127 \<longrightarrow> scheme = ''https'' \<or> scheme = ''http'' \<and> host_allowed host (egr_http_hosts pol))
     \<and> (unat w div 2 ^ 24 = 10 \<or> unat w div 2 ^ 20 = 172 * 16 + 1 \<or> unat w div 2 ^ 16 = 192 * 256 + 168
        \<or> unat w div 2 ^ 22 = 100 * 4 + 1 \<longrightarrow> on_allow_list pol host scheme (V4 w))"
| "stays_outside pol host scheme (V6 w z) \<longleftrightarrow>
     \<not> mapped_v4 w \<and> unat w div 2 ^ 120 \<noteq> 255 \<and> unat w div 2 ^ 118 \<noteq> 1018
     \<and> (z = '''' \<longrightarrow> w \<noteq> 0 \<and> w \<noteq> 0xfd000ec2000000000000000000000254 \<and> unat w div 2 ^ 96 \<noteq> 0x20010db8
          \<and> unat w div 2 ^ 64 \<noteq> 0x0100 * 2 ^ 48)
     \<and> (w = 1 \<longrightarrow> egr_loopback pol \<and> scheme = ''http'')
     \<and> (w \<noteq> 1 \<longrightarrow> scheme = ''https'' \<or> scheme = ''http'' \<and> host_allowed host (egr_http_hosts pol))
     \<and> (unat w div 2 ^ 121 = 126 \<longrightarrow> on_allow_list pol host scheme (V6 w z))"
| "stays_outside pol host scheme NoAddr \<longleftrightarrow> False"

lemma allows_outside:
  assumes ok: "allows pol host scheme a" and u: "unmap a = a"
  shows "stays_outside pol host scheme a"
proof (cases a)
  case (V4 w)
  note v = allows_v4 [OF ok [unfolded V4]]
  have top: "unat w div 2 ^ 24 \<notin> {224..255}"
  proof
    assume "unat w div 2 ^ 24 \<in> {224..255}"
    then have "unat w div 2 ^ 24 div 2 ^ 4 = 14 \<or> unat w div 2 ^ 24 div 2 ^ 4 = 15" by auto
    moreover have "unat w div 2 ^ 24 div 2 ^ 4 = unat w div 2 ^ 28"
      unfolding div_mult2_eq [symmetric] power_add [symmetric] by simp
    ultimately show False using v(2,3) by metis
  qed
  have meta: "unat w \<noteq> ((100 * 256 + 100) * 256 + 100) * 256 + 200"
  proof
    assume "unat w = ((100 * 256 + 100) * 256 + 100) * 256 + 200"
    then have "w = 0x646464c8" unfolding word_unat_eq_iff by simp
    with v(5) show False by blast
  qed
  have list: "on_allow_list pol host scheme (V4 w)" if "is_restricted_address (V4 w)"
  proof -
    have "\<not> is_loopback (V4 w)" using that unfolding restricted_v4 is_loopback.simps drop_bit_word_eq
    proof (elim disjE)
      assume "unat w div 2 ^ 20 = 172 * 16 + 1"
      then show "unat w div 2 ^ 24 \<noteq> unat (127 :: 32 word)" by simp
    qed simp_all
    with allows_restricted [OF ok u] that show ?thesis by (auto simp: V4 on_allow_list_def)
  qed
  have plain: "unat w div 2 ^ 24 \<noteq> 127 \<longrightarrow> scheme = ''https'' \<or> scheme = ''http'' \<and> host_allowed host (egr_http_hosts pol)"
    using allows_scheme_or_loopback [OF ok u] unfolding V4 is_loopback.simps drop_bit_word_eq by auto
  show ?thesis unfolding V4 stays_outside.simps restricted_v4 [symmetric]
    using v(1,4,6) top meta plain list allows_v4_ranges [OF ok [unfolded V4]] by blast
next
  case (V6 w z)
  have m: "\<not> mapped_v4 w" using u V6 by (auto split: if_splits)
  note v = allows_v6 [OF ok [unfolded V6] m]
  have "on_allow_list pol host scheme (V6 w z)" if "unat w div 2 ^ 121 = 126"
  proof -
    have "is_restricted_address (V6 w z)" using that by (simp add: is_restricted_address_def drop_bit_word_eq)
    moreover have "\<not> is_loopback (V6 w z)" using that by auto
    ultimately show ?thesis using allows_restricted [OF ok u] by (auto simp: V6 on_allow_list_def)
  qed
  moreover have "w \<noteq> 1 \<longrightarrow> scheme = ''https'' \<or> scheme = ''http'' \<and> host_allowed host (egr_http_hosts pol)"
    using allows_scheme_or_loopback [OF ok u] by (auto simp: V6)
  ultimately show ?thesis using v m unfolding V6 stays_outside.simps by blast
next
  case NoAddr
  with allowsD(1) [OF ok u] show ?thesis by blast
qed

text \<open>C16. Webhooks do not reach the inside of the network: whatever the names resolve to, the connection a
resolved endpoint dials is to one of the addresses that were checked, and that address is in none of the
blocked ranges, which \<open>stays_outside\<close> lists in numbers: all the metadata, special-use and always blocked
ones, and the private and loopback ones but for what the policy allows.\<close>

theorem egress_stays_outside:
  assumes "resolve_endpoint net R pol raw = Inr r" and "dial_endpoint refused dial ended r = Inr c"
  shows "\<exists>a \<in> set (rep_addresses r). dial a = Inr c \<and> stays_outside pol (rep_host r) (url_scheme (rep_url r)) a"
proof -
  note r = resolve_endpoint_Inr [OF assms(1)]
  have "dial_addresses dial ended refused (rep_addresses r) = Inr c"
    using assms(2) r(4) by (simp add: dial_endpoint_def)
  from dial_from [OF this] obtain a where a: "a \<in> set (rep_addresses r)" "dial a = Inr c" ..
  have "stays_outside pol (rep_host r) (url_scheme (rep_url r)) a"
    by (rule allows_outside [OF bspec [OF r(5) a(1)] lookup_unmapped [OF r(3) a(1)]])
  with a show ?thesis by blast
qed

definition ex_url :: parsed_url where
  "ex_url = \<lparr>url_scheme = ''https'', url_hostname = ''a.example'', url_host = ''a.example:8443'', url_has_user = False,
     url_fragment = ''''\<rparr>"

definition ex_resolver :: resolver where
  "ex_resolver = \<lparr>parse_addr = (\<lambda>_. None), lookup_ip = (\<lambda>_. Some [V6 0xffff08080808 '''', V4 0x08080808])\<rparr>"

definition ex_policy :: egress_policy where
  "ex_policy = \<lparr>egr_hosts = [], egr_cidrs = [], egr_http_hosts = [], egr_loopback = False\<rparr>"

theorem egress_stays_outside_witness:
  "\<exists>r. resolve_endpoint \<lparr>parse_url = (\<lambda>_. Some ex_url), loopback_addr = (\<lambda>_. False)\<rparr> ex_resolver ex_policy ''x'' = Inr r
    \<and> rep_port r = ''8443'' \<and> stays_outside ex_policy ''a.example'' ''https'' (V4 0x08080808)"
proof -
  let ?r = "resolve_endpoint \<lparr>parse_url = (\<lambda>_. Some ex_url), loopback_addr = (\<lambda>_. False)\<rparr> ex_resolver ex_policy ''x''"
  have "case ?r of Inl _ \<Rightarrow> False | Inr r \<Rightarrow> rep_port r = ''8443'' \<and> rep_host r = ''a.example'' \<and> url_scheme (rep_url r) = ''https''
      \<and> rep_addresses r = [V4 0x08080808]"
    by code_simp
  then obtain r where r: "?r = Inr r" "rep_port r = ''8443''" "rep_host r = ''a.example''" "url_scheme (rep_url r) = ''https''"
    "rep_addresses r = [V4 0x08080808]"
    by (auto split: sum.splits)
  have "dial_endpoint () (\<lambda>a. Inr a) (\<lambda>_. None) r = Inr (V4 0x08080808)" by (simp add: dial_endpoint_def r)
  from egress_stays_outside [OF r(1) this] r show ?thesis by auto
qed

end
