(* ===== verification/Go_Int.thy ===== *)
theory Go_Int
  imports Go_Strings "HOL-Library.Word" "HOL-Library.Signed_Division"
begin

text \<open>
  Go's \<^verbatim>\<open>int64\<close>: arithmetic wraps, division truncates, \<^verbatim>\<open>Time.Sub\<close> saturates and
  \<^verbatim>\<open>strconv.FormatInt\<close> writes what \<^verbatim>\<open>ParseInt\<close> reads.
\<close>

definition wrap64 :: "int \<Rightarrow> int" where
  "wrap64 x = signed_take_bit 63 x"

definition max_int64 :: int where "max_int64 = 2 ^ 63 - 1"

lemma wrap64_id: "- (2 ^ 63) \<le> x \<Longrightarrow> x < 2 ^ 63 \<Longrightarrow> wrap64 x = x"
  by (simp add: wrap64_def signed_take_bit_int_eq_self)

lemma wrap64_range: "- (2 ^ 63) \<le> wrap64 x \<and> wrap64 x < 2 ^ 63"
  unfolding wrap64_def using signed_take_bit_int_greater_eq_minus_exp [of 63 x] signed_take_bit_int_less_exp [of 63 x] by simp

lemma sdiv_2: "0 \<le> x \<Longrightarrow> x sdiv 2 = x div 2" for x :: int
  by (cases "x = 0") (simp_all add: signed_divide_int_def)

text \<open>The seconds from Go's zero time to the Unix epoch.\<close>

definition unix_epoch :: int where "unix_epoch = 62135596800"

definition unix_seconds :: "int \<Rightarrow> int" where
  "unix_seconds t = t div 1000000000 - unix_epoch"

section \<open>Numbers as text\<close>

lemma parse_digits_append:
  "parse_digits acc (xs @ ys) = (case parse_digits acc xs of None \<Rightarrow> None | Some n \<Rightarrow> parse_digits n ys)"
  by (induction xs arbitrary: acc) auto

lemma digit_char: "n < 10 \<Longrightarrow> is_digit (char_of (48 + n)) \<and> (of_char (char_of (48 + n) :: char) :: nat) = 48 + n" for n :: nat
  by (simp add: is_digit_def)

lemma parse_digits_digits: "parse_digits 0 (digits n) = Some n"
proof (induction n rule: digits.induct)
  case (1 n)
  show ?case
  proof (cases "n < 10")
    case True
    then show ?thesis using digit_char [of n] by (simp add: digits.simps [of n])
  next
    case False
    then show ?thesis using 1 digit_char [of "n mod 10"] by (simp add: digits.simps [of n] parse_digits_append)
  qed
qed

lemma digits_digit: "\<forall>c \<in> set (digits n). is_digit c"
proof (induction n rule: digits.induct)
  case (1 n)
  then show ?case using digit_char [of n] digit_char [of "n mod 10"] by (subst digits.simps) auto
qed

lemma digits_ne [simp]: "digits n \<noteq> []"
  by (subst digits.simps) simp

lemma is_digit_graphic: "is_digit c \<Longrightarrow> graphic c \<and> c \<noteq> CHR ''-'' \<and> c \<noteq> CHR ''+'' \<and> c \<noteq> CHR ''.''"
  by (auto simp: is_digit_def graphic_def)

lemma digits_hd: "is_digit (hd (digits n))" "is_digit (last (digits n))"
  using digits_digit [of n] by (simp_all add: hd_in_set last_in_set)

lemma itoa_trimmed: "trim_space (itoa i) = itoa i" and itoa_ne [simp]: "itoa i \<noteq> []"
  using digits_hd is_digit_graphic by (auto simp: itoa_def graphic_def intro!: trim_space_graphic)

lemma parse_itoa: "- (2 ^ 63) \<le> i \<Longrightarrow> i < 2 ^ 63 \<Longrightarrow> parse_int64 (itoa i) = Some i"
proof (cases "i < 0")
  case False
  assume i: "- (2 ^ 63) \<le> i" "i < 2 ^ 63"
  obtain c cs where c: "digits (nat i) = c # cs" by (cases "digits (nat i)") simp_all
  with is_digit_graphic [OF digits_hd(1) [of "nat i"]] have "c \<noteq> CHR ''-''" "c \<noteq> CHR ''+''" by simp_all
  with False i c parse_digits_digits [of "nat i"] show ?thesis by (simp add: itoa_def parse_int64_def)
qed (simp add: itoa_def parse_int64_def parse_digits_digits)

text \<open>What parses as an integer has no dot.\<close>

lemma parse_digits_only: "parse_digits acc s = Some n \<Longrightarrow> \<forall>c \<in> set s. is_digit c"
  by (induction s arbitrary: acc) (auto split: if_splits)

lemma parse_int64_no_dot: "parse_int64 s = Some i \<Longrightarrow> CHR ''.'' \<notin> set s"
proof -
  assume p: "parse_int64 s = Some i"
  then obtain c cs where s: "s = c # cs" by (cases s) (simp_all add: parse_int64_def)
  with p have "(c = CHR ''-'' \<or> c = CHR ''+'' \<or> is_digit c) \<and> (\<forall>x \<in> set cs. is_digit x)"
    by (auto simp: parse_int64_def Let_def split: if_splits option.splits dest!: parse_digits_only)
  with s is_digit_graphic show ?thesis by auto
qed

lemma split_at_dot:
  "xs @ CHR ''.'' # ys = xs' @ CHR ''.'' # ys' \<Longrightarrow> CHR ''.'' \<notin> set xs \<Longrightarrow> CHR ''.'' \<notin> set xs' \<Longrightarrow> xs = xs' \<and> ys = ys'"
  by (induction xs arbitrary: xs') (case_tac xs'; auto)+

section \<open>Hexadecimal\<close>

lemma hex_digit_inj:
  assumes "m < 16" and "n < 16" and "hex_digit m = hex_digit n"
  shows "m = n"
proof -
  have v: "(of_char (hex_digit k) :: nat) = (if k < 10 then 48 + k else 87 + k)" if "k < 16" for k
    using that by (simp add: hex_digit_def)
  have "(if m < 10 then 48 + m else 87 + m) = (if n < 10 then 48 + n else 87 + n)"
    unfolding v [OF assms(1), symmetric] v [OF assms(2), symmetric] assms(3) ..
  then show ?thesis by (cases "m < 10"; cases "n < 10") simp_all
qed

lemma hex_byte_inj: "hex_byte a = hex_byte b \<longleftrightarrow> a = b"
proof
  assume h: "hex_byte a = hex_byte b"
  have lt: "(of_char c :: nat) div 16 < 16" for c using nat_of_char_less_256 [of c] by (intro less_mult_imp_div_less) simp
  have "(of_char a :: nat) div 16 = of_char b div 16"
    by (rule hex_digit_inj [OF lt lt]) (use h in \<open>simp add: hex_byte_def\<close>)
  moreover have "(of_char a :: nat) mod 16 = of_char b mod 16"
    by (rule hex_digit_inj) (use h in \<open>simp_all add: hex_byte_def\<close>)
  ultimately have "(of_char a :: nat) = of_char b" by (metis div_mult_mod_eq)
  then show "a = b" by simp
qed simp

lemma hex_byte_length [simp]: "length (hex_byte c) = 2" "hex_byte c \<noteq> []"
  by (simp_all add: hex_byte_def)

lemma hex_encode_inj: "hex_encode a = hex_encode b \<longleftrightarrow> a = b"
proof (induction a arbitrary: b)
  case (Cons x xs)
  then show ?case by (cases b) (simp_all add: hex_encode_def hex_byte_inj)
next
  case Nil
  show ?case by (cases b) (simp_all add: hex_encode_def)
qed

lemma hex_digit_graphic: "n < 16 \<Longrightarrow> graphic (hex_digit n)"
  by (auto simp: graphic_def hex_digit_def)

lemma hex_encode_graphic: "\<forall>c \<in> set (hex_encode s). graphic c"
proof -
  have "(of_char c :: nat) div 16 < 16" for c using nat_of_char_less_256 [of c] by (intro less_mult_imp_div_less) simp
  then show ?thesis by (auto simp: hex_encode_def hex_byte_def hex_digit_graphic)
qed

end
