(* ===== verification/Dispatcher.thy ===== *)
theory Dispatcher
  imports Webhook_Store Egress Go_Int
begin

text \<open>
  Sending deliveries (\<^verbatim>\<open>internal/webhook/dispatcher.go\<close>, \<^verbatim>\<open>sender.go\<close>, \<^verbatim>\<open>metrics.go\<close> and
  \<^verbatim>\<open>pkg/webhook/signature.go\<close>): signing a request and verifying it, one attempt and how its outcome is
  classified, the delay before the next attempt, and one iteration of the dispatcher on the store. A
  duration is a 64-bit number of nanoseconds and the arithmetic that could overflow is written with
  \<open>wrap64\<close>. HMAC, the text of an event, the date format of HTTP and the exchange itself are arguments.
\<close>

section \<open>Signatures\<close>

definition timestamp_value :: "time \<Rightarrow> string" where
  "timestamp_value t = itoa (unix_seconds t)"

definition sign_body :: "(string \<Rightarrow> string \<Rightarrow> string) \<Rightarrow> string \<Rightarrow> string \<Rightarrow> string \<Rightarrow> string" where
  "sign_body hmac secret timestamp body = ''v1='' @ hex_encode (hmac secret (timestamp @ ''.'' @ body))"

definition verify_signature :: "(string \<Rightarrow> string \<Rightarrow> string) \<Rightarrow> string \<Rightarrow> string \<Rightarrow> string \<Rightarrow> string \<Rightarrow> bool" where
  "verify_signature hmac secret timestamp body signature \<longleftrightarrow>
     prefix ''v1='' (trim_space signature) \<and> sign_body hmac secret timestamp body = trim_space signature"

definition header_event_id :: string where "header_event_id = ''X-Windforce-Event''"
definition header_event_type :: string where "header_event_type = ''X-Windforce-Event-Type''"
definition header_delivery :: string where "header_delivery = ''X-Windforce-Delivery''"
definition header_timestamp :: string where "header_timestamp = ''X-Windforce-Timestamp''"
definition header_signature :: string where "header_signature = ''X-Windforce-Signature''"

lemmas header_names = header_event_id_def header_event_type_def header_delivery_def header_timestamp_def header_signature_def

type_synonym headers = "(string, string) gomap"

datatype verification_error = SecretRequired | HeadersMissing | TimestampInvalid | OutsideWindow | SignatureInvalid

record verification =
  ver_event :: string
  ver_type :: string
  ver_delivery :: string
  ver_timestamp :: time

record verifier =
  vrf_secret :: string
  vrf_tolerance :: duration

definition default_timestamp_tolerance :: duration where
  "default_timestamp_tolerance = 5 * seconds 60"

definition verify_request ::
    "(string \<Rightarrow> string \<Rightarrow> string) \<Rightarrow> verifier \<Rightarrow> time \<Rightarrow> headers \<Rightarrow> string \<Rightarrow> verification_error + verification" where
  "verify_request hmac v now hs body =
    (if trim_space (vrf_secret v) = '''' then Inl SecretRequired
     else
       let event = trim_space (mget_or '''' hs header_event_id);
           ty = trim_space (mget_or '''' hs header_event_type);
           delivery = trim_space (mget_or '''' hs header_delivery);
           ts = trim_space (mget_or '''' hs header_timestamp) in
       if event = '''' \<or> ty = '''' \<or> delivery = '''' \<or> ts = '''' then Inl HeadersMissing
       else case parse_int64 ts of
         None \<Rightarrow> Inl TimestampInvalid
       | Some secs \<Rightarrow>
         let t = seconds (wrap64 (secs + unix_epoch));
             tolerance = (if vrf_tolerance v \<le> 0 then default_timestamp_tolerance else vrf_tolerance v) in
         if t < now - tolerance \<or> now + tolerance < t then Inl OutsideWindow
         else if \<not> verify_signature hmac (vrf_secret v) ts body (mget_or '''' hs header_signature) then Inl SignatureInvalid
         else Inr \<lparr>ver_event = event, ver_type = ty, ver_delivery = delivery, ver_timestamp = t\<rparr>)"

section \<open>One attempt\<close>

datatype attempt_outcome = AttemptSucceeded | AttemptRetry | AttemptTerminal | AttemptOther string

record attempt_result =
  att_outcome :: attempt_outcome
  att_status :: "int option"
  att_latency :: duration
  att_retry_at :: "time option"
  att_error :: string

definition retryable_status :: "int \<Rightarrow> bool" where
  "retryable_status status \<longleftrightarrow> status = 408 \<or> status = 425 \<or> status = 429 \<or> 500 \<le> status \<and> status \<le> 599"

definition parse_retry_after :: "(string \<Rightarrow> time option) \<Rightarrow> string \<Rightarrow> time \<Rightarrow> time option" where
  "parse_retry_after parse_date raw now =
    (let value = trim_space raw in
     if value = '''' then None
     else case parse_int64 value of
       Some secs \<Rightarrow> if secs < 0 \<or> max_int64 div 1000000000 < secs then None
                    else Some (now + wrap64 (secs * 1000000000))
     | None \<Rightarrow> (case parse_date value of None \<Rightarrow> None | Some t \<Rightarrow> if t \<le> now then None else Some t))"

text \<open>What comes back from the exchange: a status and the \<^verbatim>\<open>Retry-After\<close> header, or no response.\<close>

datatype http_outcome = HttpResponse int string | HttpTimeout | HttpFailed

record sender =
  snd_net :: net_lib
  snd_resolver :: resolver
  snd_policy :: egress_policy
  snd_user_agent :: string
  snd_hmac :: "string \<Rightarrow> string \<Rightarrow> string"
  snd_event_text :: "envelope \<Rightarrow> string option"
  snd_request_ok :: "parsed_url \<Rightarrow> bool"
  snd_http :: "resolved_endpoint \<Rightarrow> headers \<Rightarrow> string \<Rightarrow> http_outcome"
  snd_parse_date :: "string \<Rightarrow> time option"

definition new_http_sender :: "sender \<Rightarrow> sender" where
  "new_http_sender S = (if trim_space (snd_user_agent S) = '''' then S\<lparr>snd_user_agent := ''windforce-core-webhook/dev''\<rparr> else S)"

definition attempt :: "attempt_outcome \<Rightarrow> duration \<Rightarrow> string \<Rightarrow> attempt_result" where
  "attempt outcome latency err =
    \<lparr>att_outcome = outcome, att_status = None, att_latency = latency, att_retry_at = None, att_error = err\<rparr>"

definition request_headers :: "sender \<Rightarrow> claimed_delivery \<Rightarrow> string \<Rightarrow> string \<Rightarrow> headers" where
  "request_headers S cd timestamp body =
    [(''Content-Type'', ''application/cloudevents+json''), (''User-Agent'', snd_user_agent S),
     (header_event_id, env_id (cd_event cd)), (header_event_type, env_type (cd_event cd)),
     (header_delivery, del_id (cd_delivery cd)), (header_timestamp, timestamp),
     (header_signature, sign_body (snd_hmac S) (sub_secret (cd_subscription cd)) timestamp body)]"

definition send_delivery :: "sender \<Rightarrow> time \<Rightarrow> time \<Rightarrow> duration \<Rightarrow> claimed_delivery \<Rightarrow> attempt_result" where
  "send_delivery S signed_at received_at latency cd =
    (if sub_secret (cd_subscription cd) = '''' then attempt AttemptTerminal latency ''signing_secret_missing''
     else case snd_event_text S (cd_event cd) of
       None \<Rightarrow> attempt AttemptTerminal latency ''event_encoding_failed''
     | Some body \<Rightarrow>
       (case resolve_endpoint (snd_net S) (snd_resolver S) (snd_policy S) (sub_endpoint (cd_subscription cd)) of
          Inl EgressPolicyRejected \<Rightarrow> attempt AttemptTerminal latency ''egress_policy_rejected''
        | Inl ResolutionFailed \<Rightarrow> attempt AttemptRetry latency ''endpoint_resolution_failed''
        | Inr endpoint \<Rightarrow>
          if \<not> snd_request_ok S (rep_url endpoint) then attempt AttemptTerminal latency ''request_creation_failed''
          else case snd_http S endpoint (request_headers S cd (timestamp_value signed_at) body) body of
            HttpTimeout \<Rightarrow> attempt AttemptRetry latency ''request_timeout''
          | HttpFailed \<Rightarrow> attempt AttemptRetry latency ''network_error''
          | HttpResponse status retry_after \<Rightarrow>
            if 200 \<le> status \<and> status < 300 then (attempt AttemptSucceeded latency '''')\<lparr>att_status := Some status\<rparr>
            else if retryable_status status then
              (attempt AttemptRetry latency (''http_'' @ itoa status))\<lparr>att_status := Some status,
                 att_retry_at := parse_retry_after (snd_parse_date S) retry_after received_at\<rparr>
            else (attempt AttemptTerminal latency (''http_'' @ itoa status))\<lparr>att_status := Some status\<rparr>))"

section \<open>The delay before the next attempt\<close>

definition default_dispatcher_lease_ttl :: duration where "default_dispatcher_lease_ttl = seconds 30"
definition default_dispatcher_max_attempts :: int where "default_dispatcher_max_attempts = 8"
definition default_backoff_base :: duration where "default_backoff_base = seconds 5"
definition default_backoff_max :: duration where "default_backoff_max = 24 * seconds 3600"

lemmas dispatcher_defaults = default_dispatcher_lease_ttl_def default_dispatcher_max_attempts_def
  default_backoff_base_def default_backoff_max_def seconds_def

text \<open>\<^verbatim>\<open>fnv.New64a\<close>.\<close>

definition fnv64a :: "string \<Rightarrow> 64 word" where
  "fnv64a s = fold (\<lambda>c h. (h XOR of_nat (of_char c)) * 1099511628211) s 14695981039346656037"

text \<open>The loop that doubles the delay, up to the maximum.\<close>

function backoff_loop :: "int \<Rightarrow> int \<Rightarrow> duration \<Rightarrow> duration \<Rightarrow> duration" where
  "backoff_loop count att maximum delay =
    (if count < att \<and> delay < maximum then
       if maximum sdiv 2 < delay then maximum
       else backoff_loop (count + 1) att maximum (wrap64 (delay * 2))
     else delay)"
  by pat_completeness auto
termination by (relation "measure (\<lambda>(count, att, _). nat (att - count))") auto

declare backoff_loop.simps [simp del]

definition retry_delay :: "duration \<Rightarrow> duration \<Rightarrow> int \<Rightarrow> string \<Rightarrow> duration" where
  "retry_delay base maximum att seed =
    (let base = (if base \<le> 0 then default_backoff_base else base);
         maximum = (if maximum \<le> 0 then default_backoff_max else maximum);
         base = (if maximum < base then maximum else base);
         att = (if att < 1 then 1 else att);
         delay = backoff_loop 1 att maximum base;
         delay = (if maximum < delay then maximum else delay);
         half = delay sdiv 2 in
     if half = 0 then delay
     else
       let jitter = wrap64 (uint (fnv64a (seed @ ''/'' @ itoa att) mod word_of_int (wrap64 (half + 1))))
       in wrap64 (half + jitter))"

section \<open>The dispatcher\<close>

record dispatcher =
  dsp_worker :: string
  dsp_lease_ttl :: duration
  dsp_max_attempts :: int
  dsp_backoff_base :: duration
  dsp_backoff_max :: duration

definition apply_defaults :: "string \<Rightarrow> int \<Rightarrow> dispatcher \<Rightarrow> dispatcher" where
  "apply_defaults hostname pid d =
    \<lparr>dsp_worker = (if trim_space (dsp_worker d) = ''''
        then ''webhook-'' @ first_non_blank [hostname, ''dispatcher''] @ ''-'' @ itoa pid else dsp_worker d),
     dsp_lease_ttl = (if dsp_lease_ttl d \<le> 0 then default_dispatcher_lease_ttl else dsp_lease_ttl d),
     dsp_max_attempts = (if dsp_max_attempts d \<le> 0 then default_dispatcher_max_attempts else dsp_max_attempts d),
     dsp_backoff_base = (if dsp_backoff_base d \<le> 0 then default_backoff_base else dsp_backoff_base d),
     dsp_backoff_max = (if dsp_backoff_max d \<le> 0 then default_backoff_max else dsp_backoff_max d)\<rparr>"

text \<open>\<^verbatim>\<open>Time.Sub\<close> saturates.\<close>

definition time_sub :: "time \<Rightarrow> time \<Rightarrow> duration" where
  "time_sub a b = max (- (2 ^ 63)) (min max_int64 (a - b))"

definition delivery_result_of :: "dispatcher \<Rightarrow> time \<Rightarrow> claimed_delivery \<Rightarrow> attempt_result \<Rightarrow> delivery_result" where
  "delivery_result_of d now cd att =
    (let result = \<lparr>dr_state = DeliveryOther '''', dr_next_attempt_at = 0, dr_response_status = att_status att,
                   dr_latency_ms = Some (att_latency att sdiv 1000000),
                   dr_error_summary = (if att_error att = '''' then None else Some (att_error att)),
                   dr_completed_at = 0\<rparr>;
         n = del_attempt (cd_delivery cd) in
     case att_outcome att of
       AttemptSucceeded \<Rightarrow> result\<lparr>dr_state := DeliverySucceeded, dr_completed_at := now\<rparr>
     | AttemptRetry \<Rightarrow>
         if dsp_max_attempts d \<le> n then
           result\<lparr>dr_state := DeliveryFailed, dr_completed_at := now, dr_error_summary := Some ''max_attempts_exceeded''\<rparr>
         else
           let delay = retry_delay (dsp_backoff_base d) (dsp_backoff_max d) n (del_id (cd_delivery cd));
               delay = (case att_retry_at att of
                   None \<Rightarrow> delay | Some t \<Rightarrow> if delay < time_sub t now then time_sub t now else delay);
               delay = (if dsp_backoff_max d < delay then dsp_backoff_max d else delay);
               delay = (if delay < 0 then 0 else delay)
           in result\<lparr>dr_state := DeliveryRetrying, dr_next_attempt_at := now + delay\<rparr>
     | _ \<Rightarrow> result\<lparr>dr_state := DeliveryFailed, dr_completed_at := now\<rparr>)"

text \<open>
  One iteration: the store after it, whether a delivery was processed, and the error. The claim and the
  completion are two writes with two readings of the clock; \<^verbatim>\<open>now\<close> is the dispatcher's own.
\<close>

record iteration =
  itn_claim :: call_env
  itn_send :: "claimed_delivery \<Rightarrow> attempt_result"
  itn_now :: time
  itn_complete :: call_env

definition process_one ::
    "input_crypto \<Rightarrow> dispatcher \<Rightarrow> iteration \<Rightarrow> snapshot \<Rightarrow> snapshot \<times> bool \<times> store_error option" where
  "process_one C d i s =
    (case local_claim_delivery C (itn_claim i) (dsp_worker d) (dsp_lease_ttl d) s of
       Inl err \<Rightarrow> if err = WebhookFailure NoPendingDelivery then (s, False, None) else (s, False, Some err)
     | Inr (t, cd) \<Rightarrow>
       (case local_complete_delivery (itn_complete i) (cd_lease cd) (delivery_result_of d (itn_now i) cd (itn_send i cd)) t of
          Inl err \<Rightarrow> (t, True, Some err)
        | Inr (u, _) \<Rightarrow> (u, True, None)))"

text \<open>An iteration starts by filling in the defaults, which after the first changes nothing.\<close>

definition dispatcher_process_one ::
    "string \<Rightarrow> int \<Rightarrow> input_crypto \<Rightarrow> dispatcher \<Rightarrow> iteration \<Rightarrow> snapshot \<Rightarrow> snapshot \<times> bool \<times> store_error option" where
  "dispatcher_process_one hostname pid C d = process_one C (apply_defaults hostname pid d)"

text \<open>The iterations of \<^verbatim>\<open>RunLoop\<close> until its context is done, without the waits between them.\<close>

fun run_iterations :: "input_crypto \<Rightarrow> dispatcher \<Rightarrow> iteration list \<Rightarrow> snapshot \<Rightarrow> snapshot" where
  "run_iterations C d [] s = s"
| "run_iterations C d (i # is) s = run_iterations C d is (fst (process_one C d i s))"

section \<open>Metrics\<close>

type_synonym metric_key = "string \<times> string"

record metrics =
  met_deliveries :: "(metric_key, nat) gomap"
  met_attempts :: "(metric_key, nat) gomap"

definition normalized_metric_value :: "string \<Rightarrow> string" where
  "normalized_metric_value v = (if trim_space v = '''' then ''unknown'' else trim_space v)"

fun outcome_text :: "attempt_outcome \<Rightarrow> string" where
  "outcome_text AttemptSucceeded = ''success''"
| "outcome_text AttemptRetry = ''retry''"
| "outcome_text AttemptTerminal = ''terminal''"
| "outcome_text (AttemptOther s) = s"

fun delivery_state_text :: "delivery_state \<Rightarrow> string" where
  "delivery_state_text DeliveryPending = ''pending''"
| "delivery_state_text DeliveryDelivering = ''delivering''"
| "delivery_state_text DeliveryRetrying = ''retrying''"
| "delivery_state_text DeliverySucceeded = ''succeeded''"
| "delivery_state_text DeliveryFailed = ''failed''"
| "delivery_state_text DeliveryCanceled = ''canceled''"
| "delivery_state_text (DeliveryOther s) = s"

definition count_up :: "metric_key \<Rightarrow> (metric_key, nat) gomap \<Rightarrow> (metric_key, nat) gomap" where
  "count_up k m = mput k (mget_or 0 m k + 1) m"

definition observe_attempt :: "string \<Rightarrow> attempt_outcome \<Rightarrow> delivery_state \<Rightarrow> metrics \<Rightarrow> metrics" where
  "observe_attempt event_type outcome st m =
    (let ty = normalized_metric_value event_type in
     m\<lparr>met_attempts := count_up (ty, normalized_metric_value (outcome_text outcome)) (met_attempts m),
       met_deliveries := count_up (ty, normalized_metric_value (delivery_state_text st)) (met_deliveries m)\<rparr>)"

definition sorted_metric_keys :: "(metric_key, nat) gomap \<Rightarrow> metric_key list" where
  "sorted_metric_keys m = sort_slice (\<lambda>a b. if fst a = fst b then snd a < snd b else fst a < fst b) (mkeys m)"

end
