(* ===== verification/Local_Catalog.thy ===== *)
theory Local_Catalog
  imports Webhook_Store
begin

text \<open>
  The release catalog inside the store (\<^verbatim>\<open>internal/state/local_catalog.go\<close>,
  \<^verbatim>\<open>internal/state/local_release_candidate.go\<close>): the same operations as the file catalog, where
  publishing and rolling back also record a control plane event and a delivery for every subscription
  that matches, in the same write.
\<close>

section \<open>Events of releases\<close>

definition latest_release_history :: "catalog \<Rightarrow> string \<Rightarrow> string \<Rightarrow> history option" where
  "latest_release_history c w app = find (\<lambda>h. normalize_workspace (hist_workspace h) = normalize_workspace w
     \<and> hist_app h = app) (rev (cat_history c))"

definition non_blank_value :: "string \<Rightarrow> string option" where
  "non_blank_value v = (if trim_space v = '''' then None else Some v)"

definition prepare_release_event :: "call_env \<Rightarrow> history \<Rightarrow> history option \<Rightarrow> event_error + envelope" where
  "prepare_release_event e h previous =
    new_release_published (draw_id e ''evt'' 0) (hist_created_at h)
      \<lparr>rp_workspace = hist_workspace h, rp_app = hist_app h, rp_release = hist_id h, rp_commit = hist_commit h,
       rp_previous_release = (case previous of None \<Rightarrow> None | Some p \<Rightarrow> non_blank_value (hist_id p)),
       rp_previous_commit = (case previous of None \<Rightarrow> None | Some p \<Rightarrow> non_blank_value (hist_commit p)),
       rp_actor = (case hist_created_by h of None \<Rightarrow> ''system''
         | Some a \<Rightarrow> if trim_space a \<noteq> '''' then trim_space a else ''system''),
       rp_note = hist_message h\<rparr>"

definition prepare_release_rollback_event :: "call_env \<Rightarrow> rollback_result \<Rightarrow> event_error + envelope" where
  "prepare_release_rollback_event e r =
    new_release_rolled_back (draw_id e ''evt'' 0) (rbx_at r)
      \<lparr>rr_workspace = hist_workspace (rbx_target r), rr_app = hist_app (rbx_target r),
       rr_release = hist_id (rbx_target r), rr_commit = hist_commit (rbx_target r),
       rr_previous_release = rbx_previous_release r, rr_previous_commit = rbx_previous_commit r,
       rr_actor = aud_actor (rbx_audit r), rr_reason = rbx_reason r\<rparr>"

section \<open>Publishing and rolling back\<close>

definition publish_release :: "call_env \<Rightarrow> deployment \<Rightarrow> time \<Rightarrow> deployment body" where
  "publish_release e d released s =
    (let (published, h, audit) = prepare_publication e d (non_zero_time released (clock e));
         c = normalize_snapshot (sn_catalog s);
         previous = latest_release_history c (source_workspace published) (dep_app published);
         key = deployment_key (source_workspace published) (dep_app published);
         marker = release_marker published (hist_created_at h);
         c' = c\<lparr>cat_deployments := mput key published (cat_deployments c),
               cat_active := mput key (hist_id h) (cat_active c),
               cat_history := cat_history c @ [h],
               cat_audit := cat_audit c @ [audit],
               cat_markers := mput (source_release_key (mark_workspace marker) (mark_git_source marker))
                 marker (cat_markers c)\<rparr>
     in case prepare_release_event e h previous of
          Inl _ \<Rightarrow> Inl EventFailure
        | Inr v \<Rightarrow> Inr (record_event e v (source_workspace published) (dep_app published) (s\<lparr>sn_catalog := c'\<rparr>), published))"

definition local_publish_release :: "call_env \<Rightarrow> deployment \<Rightarrow> time \<Rightarrow> deployment body" where
  "local_publish_release e d released = update e (publish_release e d released)"

definition rollback_release :: "call_env \<Rightarrow> rollback_request \<Rightarrow> rollback_result body" where
  "rollback_release e request s =
    (case apply_release_rollback e (request\<lparr>rbr_at := non_zero_time (rbr_at request) (clock e)\<rparr>) (sn_catalog s) of
       Inl err \<Rightarrow> Inl (CatalogFailure err)
     | Inr (c', result) \<Rightarrow>
       (case prepare_release_rollback_event e result of
          Inl _ \<Rightarrow> Inl EventFailure
        | Inr v \<Rightarrow> Inr (record_event e v (hist_workspace (rbx_target result)) (hist_app (rbx_target result))
            (s\<lparr>sn_catalog := c'\<rparr>), result)))"

definition local_rollback_release :: "call_env \<Rightarrow> rollback_request \<Rightarrow> rollback_result body" where
  "local_rollback_release e request = update e (rollback_release e request)"

section \<open>Reading and overriding\<close>

definition get_deployment_for_workspace :: "snapshot \<Rightarrow> string \<Rightarrow> string \<Rightarrow> store_error + deployment" where
  "get_deployment_for_workspace s w app =
    (case map_of (cat_deployments (sn_catalog s)) (deployment_key w app) of
       None \<Rightarrow> Inl (CatalogFailure DeploymentNotFound) | Some d \<Rightarrow> Inr d)"

definition get_deployment :: "snapshot \<Rightarrow> string \<Rightarrow> store_error + deployment" where
  "get_deployment s app = get_deployment_for_workspace s default_workspace app"

definition load_catalog :: "snapshot \<Rightarrow> catalog" where
  "load_catalog s = sn_catalog s"

definition append_audit :: "call_env \<Rightarrow> audit_record \<Rightarrow> unit body" where
  "append_audit e r s = Inr (s\<lparr>sn_catalog := (sn_catalog s)\<lparr>cat_audit :=
     cat_audit (sn_catalog s) @ [prepare_audit_record e r (clock e)]\<rparr>\<rparr>, ())"

definition local_append_audit :: "call_env \<Rightarrow> audit_record \<Rightarrow> unit body" where
  "local_append_audit e r = update e (append_audit e r)"

definition audit_trail :: "snapshot \<Rightarrow> string \<Rightarrow> string \<Rightarrow> audit_record list" where
  "audit_trail s w git_source =
    filter (\<lambda>r. aud_workspace r = w \<and> aud_git_source r = git_source) (cat_audit (sn_catalog s))"

definition set_app_tag_override :: "call_env \<Rightarrow> string \<Rightarrow> string \<Rightarrow> string option \<Rightarrow> deployment body" where
  "set_app_tag_override e w app override s =
    (let c = sn_catalog s; key = deployment_key w app in
     case map_of (cat_deployments c) key of
       None \<Rightarrow> Inl (CatalogFailure DeploymentNotFound)
     | Some d \<Rightarrow> let d = d\<lparr>dep_tag_override := override, dep_updated_at := Some (clock e)\<rparr>
                in Inr (s\<lparr>sn_catalog := c\<lparr>cat_deployments := mput key d (cat_deployments c)\<rparr>\<rparr>, d))"

definition local_set_app_tag_override :: "call_env \<Rightarrow> string \<Rightarrow> string \<Rightarrow> string option \<Rightarrow> deployment body" where
  "local_set_app_tag_override e w app override = update e (set_app_tag_override e w app override)"

definition set_action_tag_override ::
    "call_env \<Rightarrow> string \<Rightarrow> string \<Rightarrow> string \<Rightarrow> string option \<Rightarrow> action body" where
  "set_action_tag_override e w app akey override s =
    (let c = sn_catalog s; key = deployment_key w app in
     case map_of (cat_deployments c) key of
       None \<Rightarrow> Inl (CatalogFailure DeploymentNotFound)
     | Some d \<Rightarrow>
       (case dep_action d akey of
          None \<Rightarrow> Inl (CatalogFailure ActionNotFound)
        | Some a \<Rightarrow>
          let a = a\<lparr>act_tag_override := override, act_updated_at := Some (clock e)\<rparr>;
              d = d\<lparr>dep_actions := map_option (mput akey a) (dep_actions d)\<rparr>
          in Inr (s\<lparr>sn_catalog := c\<lparr>cat_deployments := mput key d (cat_deployments c)\<rparr>\<rparr>, a)))"

definition local_set_action_tag_override ::
    "call_env \<Rightarrow> string \<Rightarrow> string \<Rightarrow> string \<Rightarrow> string option \<Rightarrow> action body" where
  "local_set_action_tag_override e w app akey override = update e (set_action_tag_override e w app akey override)"

definition list_source_release_markers :: "snapshot \<Rightarrow> (string, source_marker) gomap" where
  "list_source_release_markers s = cat_markers (sn_catalog s)"

definition local_import_catalog :: "call_env \<Rightarrow> catalog \<Rightarrow> unit body" where
  "local_import_catalog e imported =
    update e (\<lambda>s. Inr (s\<lparr>sn_catalog := merge_snapshot (sn_catalog s) imported\<rparr>, ()))"

section \<open>Release candidates\<close>

definition save_release_candidate :: "release_candidate \<Rightarrow> release_candidate body" where
  "save_release_candidate prepared s =
    (let c = normalize_snapshot (sn_catalog s); key = candidate_key prepared in
     case map_of (cat_candidates c) key of
       Some existing \<Rightarrow> Inr (s\<lparr>sn_catalog := c\<rparr>, existing)
     | None \<Rightarrow> Inr (s\<lparr>sn_catalog := c\<lparr>cat_candidates := mput key prepared (cat_candidates c)\<rparr>\<rparr>, prepared))"

definition local_save_release_candidate :: "call_env \<Rightarrow> deployment \<Rightarrow> time \<Rightarrow> release_candidate body" where
  "local_save_release_candidate e d synced s =
    (case prepare_release_candidate e d synced of
       Inl err \<Rightarrow> Inl (CatalogFailure err)
     | Inr prepared \<Rightarrow> update e (save_release_candidate prepared) s)"

definition get_release_candidate :: "snapshot \<Rightarrow> string \<Rightarrow> string \<Rightarrow> string \<Rightarrow> store_error + release_candidate" where
  "get_release_candidate s w git_source commit =
    (case map_of (cat_candidates (normalize_snapshot (sn_catalog s))) (release_candidate_key w git_source commit) of
       None \<Rightarrow> Inl (CatalogFailure CandidateNotFound) | Some cand \<Rightarrow> Inr cand)"

definition get_latest_release_candidate :: "snapshot \<Rightarrow> string \<Rightarrow> string \<Rightarrow> store_error + release_candidate" where
  "get_latest_release_candidate s w git_source =
    (let c = normalize_snapshot (sn_catalog s);
         w = normalize_workspace w; g = normalize_git_source git_source '''' in
     case latest_candidate w g None (mvals (cat_candidates c)) of
       None \<Rightarrow> Inl (CatalogFailure CandidateNotFound) | Some cand \<Rightarrow> Inr cand)"

end
