(* ===== verification/Webhook_Machine.thy ===== *)
theory Webhook_Machine
  imports Local_Catalog Catalog_Invariant Lease_Fencing
begin

text \<open>
  Webhooks as a state machine. Every operation on subscriptions, deliveries and releases is a step;
  any other write leaves them as they are and may change the order in which a \<^verbatim>\<open>range\<close> loop sees a map.
  Of \<^verbatim>\<open>NewID\<close> the steps use that the identifier of a new delivery is not the one of a delivery in the
  store. Shown are the invariant of the records, that a delivery only moves forward, so that its lease
  is fenced (an interpretation of \<open>leases\<close>), what a claim hands out, and what publishing enqueues.
\<close>

section \<open>The invariant of the records\<close>

definition delivery_view :: "snapshot \<Rightarrow> string \<Rightarrow> delivery option" where
  "delivery_view s = map_of (sn_deliveries s)"

fun delivery_settled :: "delivery_state \<Rightarrow> bool" where
  "delivery_settled DeliverySucceeded = True"
| "delivery_settled DeliveryFailed = True"
| "delivery_settled DeliveryCanceled = True"
| "delivery_settled st = False"

text \<open>A delivery is leased exactly while it is being delivered, and completed exactly when settled.\<close>

definition delivery_ok :: "delivery \<Rightarrow> bool" where
  "delivery_ok d \<longleftrightarrow> 0 \<le> del_attempt d
     \<and> (del_lease_owner d \<noteq> None \<longleftrightarrow> del_state d = DeliveryDelivering)
     \<and> (del_lease_expires_at d \<noteq> None \<longleftrightarrow> del_state d = DeliveryDelivering)
     \<and> (del_completed_at d \<noteq> None \<longleftrightarrow> delivery_settled (del_state d))
     \<and> valid_delivery_state (del_state d)"

definition subscriptions_ok :: "snapshot \<Rightarrow> bool" where
  "subscriptions_ok s \<longleftrightarrow> map_ok (sn_subscriptions s)
     \<and> (\<forall>k r. map_of (sn_subscriptions s) k = Some r \<longrightarrow>
          k = webhook_subscription_key (sr_workspace r) (sr_id r) \<and> normalize_workspace (sr_workspace r) = sr_workspace r)"

definition names_unique :: "snapshot \<Rightarrow> bool" where
  "names_unique s \<longleftrightarrow> (\<forall>k k' r r'. map_of (sn_subscriptions s) k = Some r \<longrightarrow> map_of (sn_subscriptions s) k' = Some r' \<longrightarrow>
     sr_deleted_at r = None \<longrightarrow> sr_deleted_at r' = None \<longrightarrow>
     normalize_workspace (sr_workspace r) = normalize_workspace (sr_workspace r') \<longrightarrow> sr_name r = sr_name r' \<longrightarrow> k = k')"

definition deliveries_ok :: "snapshot \<Rightarrow> bool" where
  "deliveries_ok s \<longleftrightarrow> map_ok (sn_deliveries s) \<and> map_ok (sn_control_events s)
     \<and> (\<forall>k d. delivery_view s k = Some d \<longrightarrow> del_id d = k \<and> delivery_ok d
          \<and> map_of (sn_control_events s) (del_event d) \<noteq> None \<and> subscription_of s d \<noteq> None)"

definition webhooks_ok :: "snapshot \<Rightarrow> bool" where
  "webhooks_ok s \<longleftrightarrow> subscriptions_ok s \<and> names_unique s \<and> deliveries_ok s"

lemma ensure_webhooks [simp]:
  "webhooks_ok (ensure_snapshot e s) = webhooks_ok s" "delivery_view (ensure_snapshot e s) = delivery_view s"
  "subscription_of (ensure_snapshot e s) = subscription_of s"
  by (simp_all add: webhooks_ok_def subscriptions_ok_def names_unique_def deliveries_ok_def delivery_view_def
      subscription_of_def fun_eq_iff)

lemma webhooks_okD:
  assumes "webhooks_ok s" and "delivery_view s k = Some d"
  shows "del_id d = k" "delivery_ok d" "map_of (sn_control_events s) (del_event d) \<noteq> None" "subscription_of s d \<noteq> None"
  using assms by (simp_all add: webhooks_ok_def deliveries_ok_def)

section \<open>Steps\<close>

definition same_webhooks :: "snapshot \<Rightarrow> snapshot \<Rightarrow> bool" where
  "same_webhooks s t \<longleftrightarrow> map_ok (sn_subscriptions t) \<and> map_of (sn_subscriptions t) = map_of (sn_subscriptions s)
     \<and> map_ok (sn_deliveries t) \<and> delivery_view t = delivery_view s
     \<and> map_ok (sn_control_events t) \<and> map_of (sn_control_events t) = map_of (sn_control_events s)"

definition fresh_deliveries :: "call_env \<Rightarrow> snapshot \<Rightarrow> bool" where
  "fresh_deliveries e s \<longleftrightarrow> (\<forall>n. delivery_view s (draw_id e ''whd'' n) = None)"

inductive webhook_step :: "net_lib \<Rightarrow> input_crypto \<Rightarrow> snapshot \<Rightarrow> snapshot \<Rightarrow> bool" for net C where
  webhook_create: "local_create_subscription net C e sub s = Inr (t, x) \<Longrightarrow> webhook_step net C s t"
| webhook_update: "local_update_subscription net C e sub s = Inr (t, x) \<Longrightarrow> webhook_step net C s t"
| webhook_delete: "local_delete_subscription e w sid actor s = Inr (t, u) \<Longrightarrow> webhook_step net C s t"
| webhook_probe: "local_create_test_delivery e w sid actor s = Inr (t, x) \<Longrightarrow> fresh_deliveries e s \<Longrightarrow> webhook_step net C s t"
| webhook_publish: "local_publish_release e d released s = Inr (t, p) \<Longrightarrow> fresh_deliveries e s \<Longrightarrow> webhook_step net C s t"
| webhook_rollback: "local_rollback_release e rq s = Inr (t, q) \<Longrightarrow> fresh_deliveries e s \<Longrightarrow> webhook_step net C s t"
| webhook_claim: "local_claim_delivery C e worker ttl s = Inr (t, cd) \<Longrightarrow> webhook_step net C s t"
| webhook_complete: "local_complete_delivery e l res s = Inr (t, u) \<Longrightarrow> webhook_step net C s t"
| webhook_retry: "local_retry_delivery e w did actor s = Inr (t, u) \<Longrightarrow> webhook_step net C s t"
| webhook_prune: "local_prune_webhook_data e pol s = Inr (t, n) \<Longrightarrow> webhook_step net C s t"
| webhook_other: "same_webhooks s t \<Longrightarrow> webhook_step net C s t"

inductive_cases webhook_stepE: "webhook_step net C s t"

section \<open>A delivery moves forward\<close>

definition delivery_after :: "delivery \<Rightarrow> delivery \<Rightarrow> bool" where
  "delivery_after d d' \<longleftrightarrow> del_attempt d < del_attempt d'
     \<or> del_attempt d = del_attempt d' \<and> (del_state d' = DeliveryDelivering \<longrightarrow> d' = d)"

lemma delivery_after_refl [simp]: "delivery_after d d"
  by (simp add: delivery_after_def)

definition deliveries_after :: "snapshot \<Rightarrow> snapshot \<Rightarrow> bool" where
  "deliveries_after s t \<longleftrightarrow> (\<forall>k d d'. delivery_view s k = Some d \<longrightarrow> delivery_view t k = Some d' \<longrightarrow> delivery_after d d')"

text \<open>What the steps keep: the invariant, and the order of each delivery.\<close>

definition webhooks_keep :: "snapshot \<Rightarrow> snapshot \<Rightarrow> bool" where
  "webhooks_keep s t \<longleftrightarrow> webhooks_ok t \<and> deliveries_after s t"

lemma webhooks_keep_ensure [simp]:
  "webhooks_keep (ensure_snapshot e s) t = webhooks_keep s t" "webhooks_keep s (ensure_snapshot e t) = webhooks_keep s t"
  by (simp_all add: webhooks_keep_def deliveries_after_def)

lemma local_keep:
  assumes "update e f s = Inr (t, x)" and "webhooks_ok s"
    and "\<And>u. webhooks_ok (ensure_snapshot e s) \<Longrightarrow> f (ensure_snapshot e s) = Inr (u, x) \<Longrightarrow> webhooks_keep (ensure_snapshot e s) u"
  shows "webhooks_keep s t"
  using assms(1) by (rule local_step) (use assms(2,3) in force)

text \<open>Replacing one delivery by a later one.\<close>

lemma keep_put:
  assumes ok: "webhooks_ok s" and d: "delivery_ok d"
    and old: "\<And>d0. delivery_view s (del_id d) = Some d0 \<Longrightarrow> delivery_after d0 d"
    and ev: "map_of (sn_control_events s) (del_event d) \<noteq> None" and sub: "subscription_of s d \<noteq> None"
  shows "webhooks_keep s (put_delivery d s)"
  using assms
  by (auto simp: webhooks_keep_def webhooks_ok_def subscriptions_ok_def names_unique_def deliveries_ok_def
      deliveries_after_def delivery_view_def put_delivery_def subscription_of_def map_ok_mput)

lemma keep_trans_view:
  assumes "webhooks_keep s t" and "webhooks_ok u" and "delivery_view u = delivery_view t"
  shows "webhooks_keep s u"
  using assms by (simp add: webhooks_keep_def deliveries_after_def)

lemma audit_webhooks [simp]:
  "webhooks_ok (append_webhook_audit w a s) = webhooks_ok s" "delivery_view (append_webhook_audit w a s) = delivery_view s"
  "subscription_of (append_webhook_audit w a s) = subscription_of s"
  "sn_subscriptions (append_webhook_audit w a s) = sn_subscriptions s"
  "webhooks_keep r (append_webhook_audit w a s) = webhooks_keep r s"
  by (simp_all add: append_webhook_audit_def webhooks_ok_def subscriptions_ok_def names_unique_def deliveries_ok_def
      delivery_view_def subscription_of_def fun_eq_iff webhooks_keep_def deliveries_after_def)

text \<open>An event that is recorded, and a new delivery of it.\<close>

lemma put_event_ok [simp]:
  "webhooks_ok s \<Longrightarrow> webhooks_ok (put_control_event v s)" "delivery_view (put_control_event v s) = delivery_view s"
  "subscription_of (put_control_event v s) = subscription_of s"
  "sn_subscriptions (put_control_event v s) = sn_subscriptions s"
  "map_of (sn_control_events (put_control_event v s)) = (map_of (sn_control_events s))(env_id v \<mapsto> v)"
  by (auto simp: put_control_event_def webhooks_ok_def subscriptions_ok_def names_unique_def deliveries_ok_def
      delivery_view_def subscription_of_def map_ok_mput)

lemma put_delivery_simps [simp]:
  "delivery_view (put_delivery d s) = (delivery_view s)(del_id d \<mapsto> d)"
  "subscription_of (put_delivery d s) = subscription_of s"
  "sn_control_events (put_delivery d s) = sn_control_events s"
  "sn_subscriptions (put_delivery d s) = sn_subscriptions s"
  by (simp_all add: put_delivery_def delivery_view_def subscription_of_def fun_eq_iff)

lemma new_delivery_ok: "delivery_ok (new_webhook_delivery e n v w sid)"
  by (simp add: delivery_ok_def new_webhook_delivery_def)

lemma new_delivery_simps [simp]:
  "del_id (new_webhook_delivery e n v w sid) = draw_id e ''whd'' n"
  "del_event (new_webhook_delivery e n v w sid) = env_id v"
  "del_workspace (new_webhook_delivery e n v w sid) = normalize_workspace w"
  "del_subscription (new_webhook_delivery e n v w sid) = sid"
  by (simp_all add: new_webhook_delivery_def)

lemma webhook_subscription_key_norm [simp]:
  "webhook_subscription_key (normalize_workspace w) sid = webhook_subscription_key w sid"
  by (simp add: webhook_subscription_key_def)

lemma matching_subscription_key:
  assumes "subscriptions_ok s" and "r \<in> set (matching_subscriptions s w ty app)"
  shows "map_of (sn_subscriptions s) (webhook_subscription_key w (sr_id r)) = Some r"
proof -
  from assms(2) have "r \<in> set (mvals (sn_subscriptions s))" and w: "normalize_workspace (sr_workspace r) = normalize_workspace w"
    by (auto simp: matching_subscriptions_def)
  with assms(1) obtain k where k: "map_of (sn_subscriptions s) k = Some r"
    by (auto simp: subscriptions_ok_def mvals_mem)
  with assms(1) have "k = webhook_subscription_key (sr_workspace r) (sr_id r)" by (simp add: subscriptions_ok_def)
  then have "k = webhook_subscription_key w (sr_id r)" using w by (simp add: webhook_subscription_key_def)
  with k show ?thesis by simp
qed

lemma record_event_keep:
  assumes ok: "webhooks_ok s" and fresh: "fresh_deliveries e s"
  shows "webhooks_keep s (record_event e v w app s)"
proof -
  let ?I = "\<lambda>u. webhooks_ok u \<and> map_of (sn_control_events u) (env_id v) \<noteq> None \<and> sn_subscriptions u = sn_subscriptions s
    \<and> (\<forall>k d. delivery_view s k = Some d \<longrightarrow> delivery_view u k = Some d)
    \<and> (\<forall>n d. delivery_view u (draw_id e ''whd'' n) = Some d \<longrightarrow> del_attempt d = 0)"
  have "?I (record_event e v w app s)"
    unfolding record_event_def
  proof (rule fold_invariant_mem)
    show "?I (put_control_event v s)" using ok fresh by (simp add: fresh_deliveries_def)
  next
    fix x u
    assume x: "x \<in> set (enumerate 0 (matching_subscriptions s w (env_type v) app))" and I: "?I u"
    obtain n r where xr: "x = (n, r)" by (cases x)
    then have r: "r \<in> set (matching_subscriptions s w (env_type v) app)"
      using x by (auto simp: enumerate_eq_zip dest: set_zip_rightD)
    let ?d = "new_webhook_delivery e n v w (sr_id r)"
    have a: "del_attempt ?d = 0" "del_state ?d = DeliveryPending" by (simp_all add: new_webhook_delivery_def)
    have sub: "subscription_of u ?d \<noteq> None"
      using matching_subscription_key [OF _ r] ok I by (simp add: subscription_of_def webhooks_ok_def)
    have "webhooks_keep u (put_delivery ?d u)"
      by (rule keep_put [OF _ new_delivery_ok]) (use I sub a in \<open>auto simp: delivery_after_def\<close>)
    then have "webhooks_ok (put_delivery ?d u)" by (simp add: webhooks_keep_def)
    then show "?I ((case x of (n, r) \<Rightarrow> put_delivery (new_webhook_delivery e n v w (sr_id r))) u)"
      using I fresh a by (auto simp: xr fresh_deliveries_def)
  qed
  then show ?thesis by (auto simp: webhooks_keep_def deliveries_after_def)
qed

section \<open>Each operation keeps the records\<close>

lemma put_subscription_keep:
  assumes ok: "webhooks_ok s" and key: "k = webhook_subscription_key (sr_workspace r) (sr_id r)"
      "normalize_workspace (sr_workspace r) = sr_workspace r"
    and name: "sr_deleted_at r = None \<Longrightarrow> \<forall>k' r'. k' \<noteq> k \<longrightarrow> map_of (sn_subscriptions s) k' = Some r' \<longrightarrow> sr_deleted_at r' = None \<longrightarrow>
      normalize_workspace (sr_workspace r') = normalize_workspace (sr_workspace r) \<longrightarrow> sr_name r' \<noteq> sr_name r"
  shows "webhooks_ok (s\<lparr>sn_subscriptions := mput k r (sn_subscriptions s)\<rparr>)"
proof -
  let ?t = "s\<lparr>sn_subscriptions := mput k r (sn_subscriptions s)\<rparr>"
  have "subscriptions_ok ?t" using ok key by (auto simp: webhooks_ok_def subscriptions_ok_def map_ok_mput)
  moreover have "names_unique ?t"
    unfolding names_unique_def
  proof (intro allI impI)
    fix k1 k2 r1 r2
    assume a: "map_of (sn_subscriptions ?t) k1 = Some r1" "map_of (sn_subscriptions ?t) k2 = Some r2"
      "sr_deleted_at r1 = None" "sr_deleted_at r2 = None"
      "normalize_workspace (sr_workspace r1) = normalize_workspace (sr_workspace r2)" "sr_name r1 = sr_name r2"
    have old: "k1 = k2" if "k1 \<noteq> k" "k2 \<noteq> k"
      using ok a that unfolding webhooks_ok_def names_unique_def by simp
    show "k1 = k2"
    proof (rule ccontr)
      assume ne: "k1 \<noteq> k2"
      with old consider "k1 = k" "k2 \<noteq> k" | "k2 = k" "k1 \<noteq> k" by blast
      then show False using a name ne by cases auto
    qed
  qed
  moreover have "deliveries_ok ?t"
    using ok by (auto simp: webhooks_ok_def deliveries_ok_def delivery_view_def subscription_of_def)
  ultimately show ?thesis by (simp add: webhooks_ok_def)
qed

lemma put_subscription_view [simp]:
  "delivery_view (s\<lparr>sn_subscriptions := m\<rparr>) = delivery_view s"
  by (simp add: delivery_view_def)

lemma name_taken_iff:
  "map_ok (sn_subscriptions s) \<Longrightarrow> name_taken s except w name \<longleftrightarrow> (\<exists>k r. map_of (sn_subscriptions s) k = Some r
    \<and> Some k \<noteq> except \<and> sr_deleted_at r = None \<and> normalize_workspace (sr_workspace r) = w \<and> sr_name r = name)"
  by (auto simp: name_taken_def list_ex_iff map_of_eq_Some_iff_mem)

lemma keep_same_deliveries: "webhooks_ok t \<Longrightarrow> delivery_view t = delivery_view s \<Longrightarrow> webhooks_keep s t"
  by (simp add: webhooks_keep_def deliveries_after_def)

lemma create_subscription_keep:
  assumes ok: "webhooks_ok s" and c: "create_subscription e sub a b s = Inr (t, x)"
    and w: "normalize_workspace (sub_workspace sub) = sub_workspace sub"
  shows "webhooks_keep s t"
proof -
  let ?k = "webhook_subscription_key (sub_workspace sub) (sub_id sub)"
  have m: "map_ok (sn_subscriptions s)" using ok by (simp add: webhooks_ok_def subscriptions_ok_def)
  from c have free: "\<not> name_taken s None (sub_workspace sub) (sub_name sub)"
    and t: "\<exists>au. t = append_webhook_audit (sub_workspace sub) au
      (s\<lparr>sn_subscriptions := mput ?k (subscription_to_record sub a b) (sn_subscriptions s)\<rparr>)"
    by (auto simp: create_subscription_def Let_def fail_webhook_def split: if_splits)
  have "webhooks_ok (s\<lparr>sn_subscriptions := mput ?k (subscription_to_record sub a b) (sn_subscriptions s)\<rparr>)"
    using free w by (intro put_subscription_keep [OF ok]) (fastforce simp: subscription_to_record_def name_taken_iff [OF m])+
  then show ?thesis using t by (auto intro!: keep_same_deliveries)
qed

lemma prepared_new_workspace:
  "prepare_new_subscription net e sub = Inr x \<Longrightarrow> normalize_workspace (sub_workspace x) = sub_workspace x"
  by (auto simp: prepare_new_subscription_def Let_def fail_webhook_def normalize_filters_def split: if_splits)

lemma prepared_update:
  "prepare_updated_subscription net ex upd now = Inr x \<Longrightarrow> sub_workspace x = sub_workspace ex \<and> sub_id x = sub_id ex
    \<and> sub_deleted_at x = sub_deleted_at ex"
  by (auto simp: prepare_updated_subscription_def Let_def fail_webhook_def normalize_filters_def split: if_splits)

lemma local_subscription_Inr:
  "local_subscription C r = Inr x \<Longrightarrow> sub_workspace x = sr_workspace r \<and> sub_id x = sr_id r \<and> sub_name x = sr_name r
    \<and> sub_enabled x = sr_enabled r \<and> sub_deleted_at x = sr_deleted_at r"
  by (auto simp: local_subscription_def and_then_eq_Inr subscription_from_record_def)

lemma update_subscription_keep:
  assumes ok: "webhooks_ok s" and u: "update_subscription net C e upd s = Inr (t, x)"
  shows "webhooks_keep s t"
proof -
  let ?k = "webhook_subscription_key (normalize_workspace (sub_workspace upd)) (sub_id upd)"
  have m: "map_ok (sn_subscriptions s)" using ok by (simp add: webhooks_ok_def subscriptions_ok_def)
  from u obtain cur ex a b au where cur: "map_of (sn_subscriptions s) ?k = Some cur"
    and ex: "local_subscription C cur = Inr ex" and x: "prepare_updated_subscription net ex upd (clock e) = Inr x"
    and free: "\<not> name_taken s (Some ?k) (sub_workspace x) (sub_name x)"
    and t: "t = append_webhook_audit (sub_workspace x) au
      (s\<lparr>sn_subscriptions := mput ?k (subscription_to_record x a b) (sn_subscriptions s)\<rparr>)"
    by (auto simp: update_subscription_def Let_def fail_webhook_def and_then_eq_Inr split: option.splits if_splits)
  have k: "?k = webhook_subscription_key (sr_workspace cur) (sr_id cur)"
    using ok cur by (simp add: webhooks_ok_def subscriptions_ok_def)
  note ids = local_subscription_Inr [OF ex] prepared_update [OF x]
  have w: "normalize_workspace (sr_workspace cur) = sr_workspace cur"
    using ok cur by (simp add: webhooks_ok_def subscriptions_ok_def)
  have "webhooks_ok (s\<lparr>sn_subscriptions := mput ?k (subscription_to_record x a b) (sn_subscriptions s)\<rparr>)"
    using free w k ids by (intro put_subscription_keep [OF ok]) (fastforce simp: subscription_to_record_def name_taken_iff [OF m])+
  then show ?thesis unfolding t by (auto intro!: keep_same_deliveries)
qed


lemma cancel_on_delete_simps [simp]:
  "del_id (cancel_on_delete e w sid d) = del_id d" "del_event (cancel_on_delete e w sid d) = del_event d"
  "del_workspace (cancel_on_delete e w sid d) = del_workspace d"
  "del_subscription (cancel_on_delete e w sid d) = del_subscription d"
  "del_attempt (cancel_on_delete e w sid d) = del_attempt d"
  by (simp_all add: cancel_on_delete_def)

lemma cancel_on_delete_ok: "delivery_ok d \<Longrightarrow> delivery_ok (cancel_on_delete e w sid d)"
  by (auto simp: cancel_on_delete_def delivery_ok_def)

lemma cancel_on_delete_after: "delivery_after d (cancel_on_delete e w sid d)"
  by (auto simp: cancel_on_delete_def delivery_after_def)

lemma mmap_deliveries_keep:
  assumes ok: "webhooks_ok s" and f: "\<And>d. delivery_ok d \<Longrightarrow> delivery_ok (f d)" "\<And>d. delivery_after d (f d)"
    and same: "\<And>d. del_id (f d) = del_id d" "\<And>d. del_event (f d) = del_event d"
      "\<And>d. del_workspace (f d) = del_workspace d" "\<And>d. del_subscription (f d) = del_subscription d"
  shows "webhooks_keep s (s\<lparr>sn_deliveries := mmap (\<lambda>_. f) (sn_deliveries s)\<rparr>)"
  using assms
  by (auto simp: webhooks_keep_def webhooks_ok_def subscriptions_ok_def names_unique_def deliveries_ok_def deliveries_after_def
      delivery_view_def subscription_of_def)

lemma delete_subscription_keep:
  assumes ok: "webhooks_ok s" and del: "delete_subscription e w sid actor s = Inr (t, u)"
  shows "webhooks_keep s t"
proof -
  let ?k = "webhook_subscription_key w sid"
  from del obtain r where r: "map_of (sn_subscriptions s) ?k = Some r" and live: "sr_deleted_at r = None"
    by (auto simp: delete_subscription_def Let_def fail_webhook_def split: option.splits if_splits)
  define r' where "r' = r\<lparr>sr_enabled := False, sr_updated_by := first_non_empty [trim_space actor, ''system''],
    sr_updated_at := clock e, sr_deleted_at := Some (clock e)\<rparr>"
  have r': "sr_workspace r' = sr_workspace r" "sr_id r' = sr_id r" "sr_deleted_at r' = Some (clock e)"
    by (simp_all add: r'_def)
  from del r live obtain au where t: "t = append_webhook_audit (normalize_workspace w) au
      (s\<lparr>sn_subscriptions := mput ?k r' (sn_subscriptions s),
         sn_deliveries := mmap (\<lambda>_. cancel_on_delete e w sid) (sn_deliveries s)\<rparr>)"
    by (auto simp: delete_subscription_def Let_def r'_def)
  let ?s1 = "s\<lparr>sn_subscriptions := mput ?k r' (sn_subscriptions s)\<rparr>"
  have k: "?k = webhook_subscription_key (sr_workspace r) (sr_id r)" "normalize_workspace (sr_workspace r) = sr_workspace r"
    using ok r by (simp_all add: webhooks_ok_def subscriptions_ok_def)
  have ok1: "webhooks_ok ?s1" by (rule put_subscription_keep [OF ok]) (use k r' in simp_all)
  have "webhooks_keep ?s1 (?s1\<lparr>sn_deliveries := mmap (\<lambda>_. cancel_on_delete e w sid) (sn_deliveries ?s1)\<rparr>)"
    by (rule mmap_deliveries_keep [OF ok1]) (simp_all add: cancel_on_delete_ok cancel_on_delete_after)
  then show ?thesis by (simp add: t webhooks_keep_def deliveries_after_def)
qed

lemma fresh_ensure [simp]: "fresh_deliveries e (ensure_snapshot e' s) = fresh_deliveries e s"
  by (simp add: fresh_deliveries_def)

lemma test_delivery_keep:
  assumes ok: "webhooks_ok s" and p: "create_test_delivery e w sid actor s = Inr (t, x)" and fresh: "fresh_deliveries e s"
  shows "webhooks_keep s t"
proof -
  from p obtain r v au where r: "map_of (sn_subscriptions s) (webhook_subscription_key w sid) = Some r"
    and t: "t = append_webhook_audit (normalize_workspace w) au
      (put_delivery (new_webhook_delivery e 0 v (normalize_workspace w) sid) (put_control_event v s))"
    by (auto simp: create_test_delivery_def Let_def fail_webhook_def split: option.splits if_splits sum.splits)
  have "webhooks_keep (put_control_event v s) (put_delivery (new_webhook_delivery e 0 v (normalize_workspace w) sid) (put_control_event v s))"
    by (rule keep_put [OF _ new_delivery_ok])
      (use ok r fresh in \<open>simp_all add: fresh_deliveries_def subscription_of_def\<close>)
  then show ?thesis by (simp add: t webhooks_keep_def deliveries_after_def)
qed

lemma catalog_webhooks [simp]:
  "webhooks_ok (s\<lparr>sn_catalog := c\<rparr>) = webhooks_ok s" "delivery_view (s\<lparr>sn_catalog := c\<rparr>) = delivery_view s"
  "subscription_of (s\<lparr>sn_catalog := c\<rparr>) = subscription_of s"
  "fresh_deliveries e (s\<lparr>sn_catalog := c\<rparr>) = fresh_deliveries e s"
  "webhooks_keep (s\<lparr>sn_catalog := c\<rparr>) t = webhooks_keep s t"
  by (simp_all add: webhooks_ok_def subscriptions_ok_def names_unique_def deliveries_ok_def delivery_view_def
      subscription_of_def fresh_deliveries_def webhooks_keep_def deliveries_after_def fun_eq_iff)

lemma publish_keep:
  assumes "webhooks_ok s" and "fresh_deliveries e s" and p: "publish_release e d released s = Inr (t, x)"
  shows "webhooks_keep s t"
proof -
  from p obtain v w app c where t: "t = record_event e v w app (s\<lparr>sn_catalog := c\<rparr>)"
    by (auto simp: publish_release_def Let_def split: prod.splits sum.splits)
  show ?thesis unfolding t using record_event_keep [of "s\<lparr>sn_catalog := c\<rparr>" e v w app] assms(1,2) by simp
qed

lemma rollback_keep:
  assumes "webhooks_ok s" and "fresh_deliveries e s" and p: "rollback_release e rq s = Inr (t, x)"
  shows "webhooks_keep s t"
proof -
  from p obtain v w app c where t: "t = record_event e v w app (s\<lparr>sn_catalog := c\<rparr>)"
    by (auto simp: rollback_release_def Let_def split: prod.splits sum.splits)
  show ?thesis unfolding t using record_event_keep [of "s\<lparr>sn_catalog := c\<rparr>" e v w app] assms(1,2) by simp
qed

text \<open>Claims.\<close>

lemma select_delivery_mem:
  assumes "map_ok (sn_deliveries s)" and "select_delivery s now = Some d"
  shows "(\<exists>k. delivery_view s k = Some d) \<and> claimable_delivery s now d"
proof -
  let ?I = "\<lambda>best. \<forall>d. best = Some d \<longrightarrow> d \<in> set (mvals (sn_deliveries s)) \<and> claimable_delivery s now d"
  have "?I (select_delivery s now)"
    unfolding select_delivery_def
    by (rule fold_invariant_mem) (auto split: option.splits if_splits)
  with assms show ?thesis by (simp add: mvals_mem delivery_view_def)
qed

lemma claim_delivery_Inr:
  assumes "claim_delivery C e worker ttl s = Inr (t, cd)"
  obtains d :: delivery and r v where "select_delivery s (clock e) = Some d" "subscription_of s d = Some r"
    "local_subscription C r = Inr (cd_subscription cd)" "map_of (sn_control_events s) (del_event d) = Some v"
    "cd_delivery cd = d\<lparr>del_state := DeliveryDelivering, del_attempt := del_attempt d + 1, del_lease_owner := Some worker,
       del_lease_expires_at := Some (clock e + ttl), del_updated_at := clock e\<rparr>"
    "cd_event cd = v" "t = put_delivery (cd_delivery cd) s"
    "cd_lease cd = \<lparr>dl_delivery = del_id d, dl_worker = worker, dl_attempt = del_attempt d + 1, dl_expires_at = clock e + ttl\<rparr>"
  using assms by (auto simp: claim_delivery_def Let_def fail_webhook_def and_then_eq_Inr split: option.splits)

lemma eligible_unsettled: "delivery_eligible d r now \<Longrightarrow> \<not> delivery_settled (del_state d)"
  by (cases "del_state d") (auto simp: delivery_eligible_def)

lemma claim_keep:
  assumes ok: "webhooks_ok s" and c: "claim_delivery C e worker ttl s = Inr (t, cd)"
  shows "webhooks_keep s t"
  using c
proof (rule claim_delivery_Inr)
  fix d :: delivery and r :: subscription_record and v :: envelope
  let ?d = "d\<lparr>del_state := DeliveryDelivering, del_attempt := del_attempt d + 1, del_lease_owner := Some worker,
       del_lease_expires_at := Some (clock e + ttl), del_updated_at := clock e\<rparr>"
  assume sel: "select_delivery s (clock e) = Some d" and r: "subscription_of s d = Some r"
    and v: "map_of (sn_control_events s) (del_event d) = Some v" and d': "cd_delivery cd = ?d" and t: "t = put_delivery (cd_delivery cd) s"
  obtain k where k: "delivery_view s k = Some d" and cl: "claimable_delivery s (clock e) d"
    using select_delivery_mem [OF _ sel] ok by (auto simp: webhooks_ok_def deliveries_ok_def)
  note d = webhooks_okD [OF ok k]
  have "\<not> delivery_settled (del_state d)" using cl r by (auto simp: claimable_delivery_def dest: eligible_unsettled)
  then have c: "del_completed_at d = None" using d(2) by (auto simp: delivery_ok_def)
  show ?thesis unfolding t d'
    by (rule keep_put [OF ok]) (use d c k v r in \<open>auto simp: delivery_ok_def delivery_after_def subscription_of_def\<close>)
qed

text \<open>Completions and retries.\<close>

lemma complete_delivery_Inr:
  "complete_delivery e l res s = Inr (t, u) \<longleftrightarrow> (\<exists>d r. delivery_view s (dl_delivery l) = Some d \<and> validate_delivery_lease d l
     \<and> subscription_of s d = Some r \<and> t = put_delivery (completed_delivery e res r d) s)"
  by (auto simp: complete_delivery_def fail_webhook_def delivery_view_def split: option.splits)

lemma completed_delivery_simps [simp]:
  "del_id (completed_delivery e res r d) = del_id d" "del_event (completed_delivery e res r d) = del_event d"
  "del_workspace (completed_delivery e res r d) = del_workspace d"
  "del_subscription (completed_delivery e res r d) = del_subscription d"
  "del_attempt (completed_delivery e res r d) = del_attempt d"
  "del_state (completed_delivery e res r d) =
     (if sr_deleted_at r \<noteq> None \<and> dr_state res = DeliveryRetrying then DeliveryCanceled else dr_state res)"
  by (simp_all add: completed_delivery_def Let_def)

lemma validated_result_state:
  "validate_delivery_result res \<Longrightarrow> dr_state res = DeliveryRetrying \<or> delivery_settled (dr_state res)"
  by (auto simp: validate_delivery_result_def split: delivery_state.splits)

lemma completed_not_delivering:
  assumes "validate_delivery_result res"
  shows "del_state (completed_delivery e res r d) \<noteq> DeliveryDelivering"
  using validated_result_state [OF assms] by auto

lemma completed_delivery_ok:
  assumes "validate_delivery_result res" and "0 \<le> del_attempt d"
  shows "delivery_ok (completed_delivery e res r d)"
  using validated_result_state [OF assms(1)] assms(2)
  by (cases "dr_state res") (auto simp: delivery_ok_def completed_delivery_def Let_def)

lemma complete_keep:
  assumes ok: "webhooks_ok s" and c: "complete_delivery e l res s = Inr (t, u)" and v: "validate_delivery_result res"
  shows "webhooks_keep s t"
proof -
  from c obtain d r where d: "delivery_view s (dl_delivery l) = Some d" and r: "subscription_of s d = Some r"
    and t: "t = put_delivery (completed_delivery e res r d) s"
    unfolding complete_delivery_Inr by blast
  note k = webhooks_okD [OF ok d]
  have "delivery_ok (completed_delivery e res r d)" using k(2) by (intro completed_delivery_ok [OF v]) (simp add: delivery_ok_def)
  then show ?thesis unfolding t
    by (rule keep_put [OF ok])
      (use d r k completed_not_delivering [OF v] in \<open>auto simp: delivery_after_def subscription_of_def\<close>)
qed

lemma retry_keep:
  assumes ok: "webhooks_ok s" and c: "retry_delivery e w did actor s = Inr (t, u)"
  shows "webhooks_keep s t"
proof -
  from c obtain d wa au where d: "delivery_view s did = Some d" and t: "t = append_webhook_audit wa au (put_delivery
      (d\<lparr>del_state := DeliveryRetrying, del_next_attempt_at := clock e, del_lease_owner := None,
         del_lease_expires_at := None, del_completed_at := None, del_updated_at := clock e\<rparr>) s)"
    by (auto simp: retry_delivery_def Let_def fail_webhook_def delivery_view_def split: option.splits if_splits)
  have "webhooks_keep s (put_delivery
      (d\<lparr>del_state := DeliveryRetrying, del_next_attempt_at := clock e, del_lease_owner := None,
         del_lease_expires_at := None, del_completed_at := None, del_updated_at := clock e\<rparr>) s)"
    using webhooks_okD [OF ok d] d
    by (intro keep_put [OF ok]) (auto simp: delivery_ok_def delivery_after_def subscription_of_def)
  then show ?thesis by (simp add: t)
qed

text \<open>Retention.\<close>

lemma fold_mdel: "map_of (fold mdel ks m) k = (if k \<in> set ks then None else map_of m k)"
  by (induction ks arbitrary: m) auto

lemma map_ok_fold_mdel: "map_ok m \<Longrightarrow> map_ok (fold mdel ks m)"
  by (induction ks arbitrary: m) (simp_all add: map_ok_mdel)

lemma in_set_sort_slice: "x \<in> set (take n (sort_slice f xs)) \<Longrightarrow> x \<in> set xs"
  by (auto dest: in_set_takeD)

lemma in_set_sort_strings: "x \<in> set (take n (sort_strings xs)) \<Longrightarrow> x \<in> set xs"
  by (auto dest: in_set_takeD)

text \<open>What a batch removes: expired deliveries, and what no remaining delivery refers to.\<close>

definition prune_removes :: "retention_policy \<Rightarrow> snapshot \<Rightarrow> string list \<Rightarrow> string list \<Rightarrow> string list \<Rightarrow> bool" where
  "prune_removes pol s ds evs subs \<longleftrightarrow>
     (\<forall>k \<in> set ds. \<exists>d. delivery_view s k = Some d \<and> webhook_delivery_expired d pol)
     \<and> (\<forall>k \<in> set evs. \<forall>k' d. delivery_view s k' = Some d \<longrightarrow> del_event d = k \<longrightarrow> k' \<in> set ds)
     \<and> (\<forall>k \<in> set subs. \<forall>k' d. delivery_view s k' = Some d \<longrightarrow>
          webhook_subscription_key (del_workspace d) (del_subscription d) = k \<longrightarrow> k' \<in> set ds)
     \<and> (\<forall>k \<in> set subs. \<exists>r t. map_of (sn_subscriptions s) k = Some r \<and> sr_deleted_at r = Some t)"

lemma snapshot_prunes:
  "sn_deliveries (s\<lparr>sn_deliveries := d\<rparr>) = d" "sn_control_events (s\<lparr>sn_deliveries := d\<rparr>) = sn_control_events s"
  "sn_deliveries (s\<lparr>sn_deliveries := d, sn_control_events := v\<rparr>) = d"
  "sn_subscriptions (s\<lparr>sn_deliveries := d, sn_control_events := v\<rparr>) = sn_subscriptions s"
  by simp_all

lemma prune_webhook_data_Inr:
  assumes ok: "webhooks_ok s" and p: "prune_webhook_data pol s = Inr (t, n)"
  obtains ds evs subs where "prune_removes pol s ds evs subs"
    "t = s\<lparr>sn_deliveries := fold mdel ds (sn_deliveries s), sn_control_events := fold mdel evs (sn_control_events s),
           sn_subscriptions := fold mdel subs (sn_subscriptions s)\<rparr>"
    "length ds + length evs + length subs \<le> nat (normalized_webhook_retention_batch_size (pol_batch_size pol))"
    "n = \<lparr>rtn_deliveries = int (length ds), rtn_events = int (length evs), rtn_subscriptions = int (length subs)\<rparr>"
proof -
  let ?n = "nat (normalized_webhook_retention_batch_size (pol_batch_size pol))"
  define ds where "ds = map del_id (take ?n (sort_slice retention_before
    (filter (\<lambda>d. webhook_delivery_expired d pol) (mvals (sn_deliveries s)))))"
  define m where "m = fold mdel ds (sn_deliveries s)"
  define evs where "evs = take (?n - length ds) (sort_strings (filter (\<lambda>k. k \<notin> del_event ` set (mvals m)) (mkeys (sn_control_events s))))"
  define subs where "subs = (if pol_subscription_before pol = 0 then []
     else take (?n - length ds - length evs) (sort_strings (map fst (filter (\<lambda>(k, r).
             (case sr_deleted_at r of None \<Rightarrow> False | Some t \<Rightarrow> t < pol_subscription_before pol)
             \<and> k \<notin> (\<lambda>d. webhook_subscription_key (del_workspace d) (del_subscription d)) ` set (mvals m))
             (sn_subscriptions s)))))"
  have ok': "map_ok (sn_deliveries s)" "map_ok m" "map_ok (sn_subscriptions s)"
    using ok by (simp_all add: webhooks_ok_def deliveries_ok_def subscriptions_ok_def m_def map_ok_fold_mdel)
  have id: "delivery_view s k = Some d \<Longrightarrow> del_id d = k" for k d using webhooks_okD(1) [OF ok] by blast
  have left: "k \<in> set ds \<or> d \<in> set (mvals m)" if "delivery_view s k = Some d" for k d
  proof (cases "k \<in> set ds")
    case False
    then have "map_of m k = Some d" using that by (simp add: m_def fold_mdel delivery_view_def)
    then show ?thesis by (auto simp: mvals_mem [OF ok'(2)])
  qed simp
  have "\<exists>d. delivery_view s k = Some d \<and> webhook_delivery_expired d pol" if "k \<in> set ds" for k
    using that id by (fastforce simp: ds_def mvals_mem [OF ok'(1)] delivery_view_def dest!: in_set_sort_slice)
  moreover have "k' \<in> set ds" if "k \<in> set evs" "delivery_view s k' = Some d" "del_event d = k" for k k' d
    using that left [OF that(2)] by (auto simp: evs_def dest!: in_set_sort_strings)
  moreover have "k' \<in> set ds" if "k \<in> set subs" "delivery_view s k' = Some d"
      "webhook_subscription_key (del_workspace d) (del_subscription d) = k" for k k' d
    using that left [OF that(2)] by (auto simp: subs_def split: if_splits option.splits dest!: in_set_sort_strings)
  moreover have "\<exists>r t. map_of (sn_subscriptions s) k = Some r \<and> sr_deleted_at r = Some t" if "k \<in> set subs" for k
    using that ok'(3) by (auto simp: subs_def map_of_eq_Some_iff_mem split: if_splits option.splits dest!: in_set_sort_strings) blast
  ultimately have "prune_removes pol s ds evs subs" by (auto simp: prune_removes_def)
  moreover have "length ds \<le> ?n" "length evs \<le> ?n - length ds" "length subs \<le> ?n - length ds - length evs"
    by (simp_all add: ds_def evs_def subs_def)
  moreover have "prune_webhook_data pol s = Inr (s\<lparr>sn_deliveries := m, sn_control_events := fold mdel evs (sn_control_events s),
           sn_subscriptions := fold mdel subs (sn_subscriptions s)\<rparr>,
           \<lparr>rtn_deliveries = int (length ds), rtn_events = int (length evs), rtn_subscriptions = int (length subs)\<rparr>)"
    unfolding prune_webhook_data_def Let_def ds_def [symmetric] snapshot_prunes
    by (simp only: m_def evs_def subs_def)
  with p m_def have "t = s\<lparr>sn_deliveries := fold mdel ds (sn_deliveries s), sn_control_events := fold mdel evs (sn_control_events s),
           sn_subscriptions := fold mdel subs (sn_subscriptions s)\<rparr>"
    "n = \<lparr>rtn_deliveries = int (length ds), rtn_events = int (length evs), rtn_subscriptions = int (length subs)\<rparr>"
    by simp_all
  ultimately show thesis by (intro that) auto
qed

lemma prune_keep:
  assumes ok: "webhooks_ok s" and p: "prune_webhook_data pol s = Inr (t, n)"
  shows "webhooks_keep s t"
  using ok p
proof (rule prune_webhook_data_Inr)
  fix ds evs subs
  assume r: "prune_removes pol s ds evs subs"
    and t: "t = s\<lparr>sn_deliveries := fold mdel ds (sn_deliveries s), sn_control_events := fold mdel evs (sn_control_events s),
           sn_subscriptions := fold mdel subs (sn_subscriptions s)\<rparr>"
  have view: "delivery_view t k = Some d \<longleftrightarrow> k \<notin> set ds \<and> delivery_view s k = Some d" for k d
    by (simp add: t delivery_view_def fold_mdel)
  have "deliveries_ok t"
    unfolding deliveries_ok_def
  proof (intro conjI allI impI)
    show "map_ok (sn_deliveries t)" "map_ok (sn_control_events t)"
      using ok by (simp_all add: t webhooks_ok_def deliveries_ok_def map_ok_fold_mdel)
    fix k d
    assume "delivery_view t k = Some d"
    then have d: "delivery_view s k = Some d" "k \<notin> set ds" by (simp_all add: view)
    note k = webhooks_okD [OF ok d(1)]
    show "del_id d = k" "delivery_ok d" by (rule k)+
    show "map_of (sn_control_events t) (del_event d) \<noteq> None" "subscription_of t d \<noteq> None"
      using r d k(3,4) by (auto simp: prune_removes_def t subscription_of_def fold_mdel)
  qed
  moreover have "subscriptions_ok t" "names_unique t"
    using ok by (auto simp: t webhooks_ok_def subscriptions_ok_def names_unique_def map_ok_fold_mdel fold_mdel split: if_splits)
  ultimately show ?thesis by (auto simp: webhooks_keep_def webhooks_ok_def deliveries_after_def view)
qed

section \<open>The invariant holds in every reachable state\<close>

lemma same_webhooks_keep:
  assumes ok: "webhooks_ok s" and same: "same_webhooks s t"
  shows "webhooks_keep s t"
  using assms by (auto simp: same_webhooks_def webhooks_keep_def webhooks_ok_def subscriptions_ok_def names_unique_def
      deliveries_ok_def deliveries_after_def subscription_of_def)

lemma webhook_step_keep:
  assumes ok: "webhooks_ok s" and step: "webhook_step net C s t"
  shows "webhooks_keep s t"
  using step
proof cases
  case (webhook_create e sub x)
  then show ?thesis
    by (auto simp: local_create_subscription_def and_then_eq_Inr
        intro: local_keep [OF _ ok] create_subscription_keep prepared_new_workspace)
next
  case (webhook_update e sub x)
  then show ?thesis
    unfolding local_update_subscription_def by (elim local_keep [OF _ ok] update_subscription_keep)
next
  case (webhook_delete e w sid actor u)
  then show ?thesis
    unfolding local_delete_subscription_def by (elim local_keep [OF _ ok] delete_subscription_keep)
next
  case (webhook_probe e w sid actor x)
  then show ?thesis
    unfolding local_create_test_delivery_def by (auto intro!: local_keep [OF _ ok] elim!: test_delivery_keep)
next
  case (webhook_publish e d released p)
  then show ?thesis
    unfolding local_publish_release_def by (auto intro!: local_keep [OF _ ok] elim!: publish_keep [rotated 2])
next
  case (webhook_rollback e rq q)
  then show ?thesis
    unfolding local_rollback_release_def by (auto intro!: local_keep [OF _ ok] elim!: rollback_keep [rotated 2])
next
  case (webhook_claim e worker ttl cd)
  then show ?thesis
    unfolding local_claim_delivery_def fail_webhook_def
    by (auto split: if_splits intro!: local_keep [OF _ ok] elim!: claim_keep [rotated])
next
  case (webhook_complete e l res u)
  then show ?thesis
    unfolding local_complete_delivery_def fail_webhook_def
    by (auto split: if_splits intro!: local_keep [OF _ ok] elim!: complete_keep [rotated])
next
  case (webhook_retry e w did actor u)
  then show ?thesis
    unfolding local_retry_delivery_def by (elim local_keep [OF _ ok] retry_keep)
next
  case (webhook_prune e pol n)
  then show ?thesis
    unfolding local_prune_webhook_data_def by (elim local_keep [OF _ ok] prune_keep)
next
  case webhook_other
  then show ?thesis by (rule same_webhooks_keep [OF ok])
qed

definition webhook_start :: "snapshot \<Rightarrow> bool" where
  "webhook_start s \<longleftrightarrow> (\<exists>e. s = new_snapshot e)"

lemma webhook_start_ok: "webhook_start s \<Longrightarrow> webhooks_ok s"
  by (auto simp: webhook_start_def new_snapshot_def empty_snapshot_def webhooks_ok_def subscriptions_ok_def names_unique_def
      deliveries_ok_def delivery_view_def)

interpretation webhooks: inductive_invariant webhook_start "webhook_step net C" webhooks_ok for net C
  by unfold_locales (use webhook_start_ok webhook_step_keep in \<open>auto simp: webhooks_keep_def\<close>)

section \<open>Leases of deliveries\<close>

text \<open>
  Identifiers of deliveries are not drawn twice, also not after a delivery was pruned: the machine with
  the identifiers used so far.
\<close>

definition delivery_ids :: "snapshot \<Rightarrow> string set" where
  "delivery_ids s = dom (delivery_view s)"

definition sent_good :: "snapshot \<times> string set \<Rightarrow> bool" where
  "sent_good p \<longleftrightarrow> webhooks_ok (fst p) \<and> delivery_ids (fst p) \<subseteq> snd p"

definition sent_step :: "net_lib \<Rightarrow> input_crypto \<Rightarrow> snapshot \<times> string set \<Rightarrow> snapshot \<times> string set \<Rightarrow> bool" where
  "sent_step net C p q \<longleftrightarrow> webhook_step net C (fst p) (fst q) \<and> snd q = snd p \<union> delivery_ids (fst q)
     \<and> (delivery_ids (fst q) - delivery_ids (fst p)) \<inter> snd p = {}"

text \<open>A lease that is no longer held: its delivery was completed, canceled or claimed again, or is gone.\<close>

definition delivery_stale :: "delivery_lease \<Rightarrow> snapshot \<times> string set \<Rightarrow> bool" where
  "delivery_stale l p \<longleftrightarrow> dl_delivery l \<in> snd p \<and> (\<forall>d. delivery_view (fst p) (dl_delivery l) = Some d \<longrightarrow>
     dl_attempt l < del_attempt d \<or> dl_attempt l = del_attempt d \<and> del_state d \<noteq> DeliveryDelivering)"

definition settles :: "delivery_lease \<Rightarrow> snapshot \<Rightarrow> snapshot \<Rightarrow> bool" where
  "settles l s t \<longleftrightarrow> (\<exists>e res. local_complete_delivery e l res s = Inr (t, ()))"

definition settles_sent :: "delivery_lease \<Rightarrow> snapshot \<times> string set \<Rightarrow> snapshot \<times> string set \<Rightarrow> bool" where
  "settles_sent l p q \<longleftrightarrow> settles l (fst p) (fst q) \<and> snd q = snd p \<union> delivery_ids (fst q)"

lemma settles_step: "settles l s t \<Longrightarrow> webhook_step net C s t"
  by (auto simp: settles_def intro: webhook_complete)

lemma settles_Inr:
  assumes "settles l s t"
  obtains e res d r where "validate_delivery_result res" "delivery_view s (dl_delivery l) = Some d" "validate_delivery_lease d l"
    "delivery_view t = (delivery_view s)(del_id d \<mapsto> completed_delivery e res r d)"
  using assms
  by (auto simp: settles_def local_complete_delivery_def fail_webhook_def update_Inr complete_delivery_Inr split: if_splits)

lemma settles_stale:
  assumes "webhooks_ok s" and "settles l s t"
  shows "\<exists>d. delivery_view t (dl_delivery l) = Some d \<and> dl_attempt l = del_attempt d \<and> del_state d \<noteq> DeliveryDelivering"
  using assms(2)
proof (rule settles_Inr)
  fix e res d r
  assume v: "validate_delivery_result res" and d: "delivery_view s (dl_delivery l) = Some d" and l: "validate_delivery_lease d l"
    and t: "delivery_view t = (delivery_view s)(del_id d \<mapsto> completed_delivery e res r d)"
  have "dl_attempt l = del_attempt (completed_delivery e res r d)" using l by (simp add: validate_delivery_lease_def)
  then show ?thesis using webhooks_okD(1) [OF assms(1) d] t completed_not_delivering [OF v] by fastforce
qed

interpretation delivering: leases sent_good "sent_step net C" delivery_stale settles_sent for net C
proof
  fix p q l t
  show "sent_good q" if "sent_good p" "sent_step net C p q"
    using that webhook_step_keep by (auto simp: sent_good_def sent_step_def webhooks_keep_def)
  show "delivery_stale l q" if "sent_good p" "sent_step net C p q" "delivery_stale l p"
  proof -
    have after: "deliveries_after (fst p) (fst q)"
      using that webhook_step_keep by (auto simp: sent_good_def sent_step_def webhooks_keep_def)
    show ?thesis
      unfolding delivery_stale_def
    proof (intro conjI allI impI)
      show "dl_delivery l \<in> snd q" using that by (simp add: delivery_stale_def sent_step_def)
      fix d'
      assume d': "delivery_view (fst q) (dl_delivery l) = Some d'"
      with that(2,3) obtain d where d: "delivery_view (fst p) (dl_delivery l) = Some d"
        by (fastforce simp: sent_step_def delivery_stale_def delivery_ids_def)
      have "delivery_after d d'" using after d d' unfolding deliveries_after_def by blast
      moreover have "dl_attempt l < del_attempt d \<or> dl_attempt l = del_attempt d \<and> del_state d \<noteq> DeliveryDelivering"
        using that(3) d by (simp add: delivery_stale_def)
      ultimately show "dl_attempt l < del_attempt d' \<or> dl_attempt l = del_attempt d' \<and> del_state d' \<noteq> DeliveryDelivering"
        unfolding delivery_after_def by auto
    qed
  qed
  show "delivery_stale l q" if "sent_good p" "settles_sent l p q"
    using settles_stale that by (fastforce simp: delivery_stale_def sent_good_def settles_sent_def delivery_ids_def)
  show "sent_good q" if "sent_good p" "settles_sent l p q"
    using that webhook_step_keep [OF _ settles_step] by (fastforce simp: sent_good_def settles_sent_def webhooks_keep_def)
  show "\<not> settles_sent l p q" if "delivery_stale l p"
    using that by (auto simp: settles_sent_def delivery_stale_def validate_delivery_lease_def elim!: settles_Inr)
qed

lemma sent_goodI: "webhooks_ok s \<Longrightarrow> sent_good (s, U \<union> delivery_ids s)"
  by (simp add: sent_good_def)

text \<open>What a granted claim did to its delivery.\<close>

lemma claim_delivery_grants:
  assumes inv: "webhooks_ok s" and c: "local_claim_delivery C e worker ttl s = Inr (t, cd)"
  shows "\<exists>d. delivery_view s (dl_delivery (cd_lease cd)) = Some d \<and> select_delivery s (clock e) = Some d
    \<and> dl_attempt (cd_lease cd) = del_attempt d + 1 \<and> validate_delivery_lease (cd_delivery cd) (cd_lease cd)
    \<and> del_attempt (cd_delivery cd) = del_attempt d + 1
    \<and> map_of (sn_control_events s) (del_event d) = Some (cd_event cd)
    \<and> (\<exists>r. subscription_of s d = Some r \<and> local_subscription C r = Inr (cd_subscription cd))
    \<and> delivery_view t = (delivery_view s)(dl_delivery (cd_lease cd) \<mapsto> cd_delivery cd)"
proof -
  from c obtain ttl' u where "claim_delivery C e (trim_space worker) ttl' (ensure_snapshot e s) = Inr (u, cd)"
    and t: "t = ensure_snapshot e u"
    by (auto simp: local_claim_delivery_def fail_webhook_def update_Inr split: if_splits)
  then show ?thesis
  proof (elim claim_delivery_Inr)
    fix d :: delivery and r v
    assume sel: "select_delivery (ensure_snapshot e s) (clock e) = Some d" and r: "subscription_of (ensure_snapshot e s) d = Some r"
      "local_subscription C r = Inr (cd_subscription cd)" and v: "map_of (sn_control_events (ensure_snapshot e s)) (del_event d) = Some v"
      and cd: "cd_delivery cd = d\<lparr>del_state := DeliveryDelivering, del_attempt := del_attempt d + 1, del_lease_owner := Some (trim_space worker),
        del_lease_expires_at := Some (clock e + ttl'), del_updated_at := clock e\<rparr>" "cd_event cd = v"
      and u: "u = put_delivery (cd_delivery cd) (ensure_snapshot e s)"
      and l: "cd_lease cd = \<lparr>dl_delivery = del_id d, dl_worker = trim_space worker, dl_attempt = del_attempt d + 1, dl_expires_at = clock e + ttl'\<rparr>"
    have sel': "select_delivery s (clock e) = Some d"
      using sel by (simp add: select_delivery_def claimable_delivery_def)
    obtain k where k: "delivery_view s k = Some d"
      using select_delivery_mem [OF _ sel'] inv by (auto simp: webhooks_ok_def deliveries_ok_def)
    with webhooks_okD(1) [OF inv k] sel' r v cd u t l show ?thesis
      by (simp add: validate_delivery_lease_def)
  qed
qed

end
