(* ===== verification/Catalog_Refinement.thy ===== *)
theory Catalog_Refinement
  imports Webhook_Machine
begin

text \<open>
  The catalog inside the store refines the file catalog: the releases, the active entries and the audit
  trail the store keeps evolve by the steps of \<open>catalog_step\<close>, so what \<open>Catalog_Invariant\<close> shows of
  \<^verbatim>\<open>FileCatalog\<close> holds of the store as well.
\<close>

section \<open>Steps of the store on its catalog\<close>

inductive release_step :: "snapshot \<Rightarrow> snapshot \<Rightarrow> bool" where
  release_publish: "local_publish_release e d released s = Inr (t, p) \<Longrightarrow> fresh_version e (sn_catalog s) \<Longrightarrow> deployment_ok d
    \<Longrightarrow> release_step s t"
| release_rollback: "local_rollback_release e rq s = Inr (t, q) \<Longrightarrow> release_step s t"
| release_app_tag: "local_set_app_tag_override e w app ov s = Inr (t, d) \<Longrightarrow> release_step s t"
| release_action_tag: "local_set_action_tag_override e w app k ov s = Inr (t, a) \<Longrightarrow> release_step s t"
| release_candidate: "local_save_release_candidate e d synced s = Inr (t, cand) \<Longrightarrow> release_step s t"
| release_audit: "local_append_audit e r s = Inr (t, u) \<Longrightarrow> release_step s t"
| release_import: "local_import_catalog e i s = Inr (t, u) \<Longrightarrow> catalog_inv i \<Longrightarrow>
    \<forall>h \<in> set (cat_history (sn_catalog s)). \<forall>h' \<in> set (cat_history i). hist_id h = hist_id h' \<longrightarrow> h = h' \<Longrightarrow> release_step s t"
| release_other: "sn_catalog t = sn_catalog s \<Longrightarrow> release_step s t"

section \<open>Each step is a step of the file catalog\<close>

lemma record_event_catalog [simp]: "sn_catalog (record_event e v w app s) = sn_catalog s"
proof -
  have "sn_catalog (fold (\<lambda>(n, r). put_delivery (new_webhook_delivery e n v w (sr_id r))) xs u) = sn_catalog u"
    for xs :: "(nat \<times> subscription_record) list" and u
    by (induction xs arbitrary: u) (auto simp: put_delivery_def)
  then show ?thesis by (simp add: record_event_def put_control_event_def)
qed

lemma publish_release_catalog:
  "publish_release e d released s = Inr (t, p) \<Longrightarrow>
    (sn_catalog t, p) = file_publish_release e d (non_zero_time released (clock e)) (sn_catalog s)"
  by (auto simp: publish_release_def file_publish_release_def Let_def split: prod.splits sum.splits)

lemma rollback_release_catalog:
  "rollback_release e rq s = Inr (t, q) \<Longrightarrow>
    apply_release_rollback e (rq\<lparr>rbr_at := non_zero_time (rbr_at rq) (clock e)\<rparr>) (sn_catalog s) = Inr (sn_catalog t, q)"
  by (auto simp: rollback_release_def split: prod.splits sum.splits)

lemma app_tag_catalog:
  "set_app_tag_override e w app ov s = Inr (t, d) \<Longrightarrow> normalize_snapshot (sn_catalog s) = sn_catalog s \<Longrightarrow>
    file_set_app_tag_override e w app ov (sn_catalog s) = Inr (sn_catalog t, d)"
  by (auto simp: set_app_tag_override_def file_set_app_tag_override_def Let_def split: option.splits)

lemma action_tag_catalog:
  "set_action_tag_override e w app k ov s = Inr (t, a) \<Longrightarrow> normalize_snapshot (sn_catalog s) = sn_catalog s \<Longrightarrow>
    file_set_action_tag_override e w app k ov (sn_catalog s) = Inr (sn_catalog t, a)"
  by (auto simp: set_action_tag_override_def file_set_action_tag_override_def Let_def split: option.splits)

lemma save_candidate_catalog:
  assumes "prepare_release_candidate e d synced = Inr prepared" and "save_release_candidate prepared s = Inr (t, cand)"
    and "normalize_snapshot (sn_catalog s) = sn_catalog s"
  shows "file_save_release_candidate e d synced (sn_catalog s) = Inr (sn_catalog t, cand)"
  using assms
  by (auto simp: save_release_candidate_def file_save_release_candidate_def Let_def split: option.splits)

lemma append_audit_catalog:
  "append_audit e r s = Inr (t, u) \<Longrightarrow> normalize_snapshot (sn_catalog s) = sn_catalog s \<Longrightarrow>
    sn_catalog t = file_append_audit e r (sn_catalog s)"
  by (auto simp: append_audit_def file_append_audit_def Let_def)

text \<open>An operation of the store whose body makes a step of the catalog.\<close>

lemma local_catalog_step:
  assumes "update e f s = Inr (t, x)" and inv: "catalog_inv (sn_catalog s)"
    and step: "\<And>u v. sn_catalog v = sn_catalog s \<Longrightarrow> f v = Inr (u, x) \<Longrightarrow> catalog_step (sn_catalog s) (sn_catalog u)"
  shows "catalog_step (sn_catalog s) (sn_catalog t)"
  using assms(1)
proof (rule local_step)
  fix u
  assume f: "f (ensure_snapshot e s) = Inr (u, x)" and t: "t = ensure_snapshot e u"
  have "sn_catalog (ensure_snapshot e s) = sn_catalog s" by (simp add: normalize_snapshot_id [OF inv])
  from step [OF this f] have st: "catalog_step (sn_catalog s) (sn_catalog u)" .
  then have "catalog_inv (sn_catalog u)" using inv by (rule catalog_step_inv)
  with st show ?thesis by (simp add: t normalize_snapshot_id)
qed

lemma release_step_refines:
  assumes inv: "catalog_inv (sn_catalog s)" and step: "release_step s t"
  shows "catalog_step\<^sup>=\<^sup>= (sn_catalog s) (sn_catalog t)"
  using step
proof cases
  case (release_publish e d released p)
  have "catalog_step (sn_catalog s) (sn_catalog t)"
    using release_publish(1) [unfolded local_publish_release_def] inv
  proof (rule local_catalog_step)
    fix u v
    assume v: "sn_catalog v = sn_catalog s" and u: "publish_release e d released v = Inr (u, p)"
    from publish_release_catalog [OF u] v
    have "sn_catalog u = fst (file_publish_release e d (non_zero_time released (clock e)) (sn_catalog s))"
      by (metis fst_conv)
    with release_publish show "catalog_step (sn_catalog s) (sn_catalog u)" by (auto intro: catalog_step.publish)
  qed
  then show ?thesis by simp
next
  case (release_rollback e rq q)
  have "catalog_step (sn_catalog s) (sn_catalog t)"
    using release_rollback [unfolded local_rollback_release_def] inv
    by (rule local_catalog_step) (metis rollback_release_catalog catalog_step.rollback)
  then show ?thesis by simp
next
  case (release_app_tag e w app ov d)
  have "catalog_step (sn_catalog s) (sn_catalog t)"
    using release_app_tag [unfolded local_set_app_tag_override_def] inv
    by (rule local_catalog_step) (metis app_tag_catalog catalog_step.app_tag normalize_snapshot_id [OF inv])
  then show ?thesis by simp
next
  case (release_action_tag e w app k ov a)
  have "catalog_step (sn_catalog s) (sn_catalog t)"
    using release_action_tag [unfolded local_set_action_tag_override_def] inv
    by (rule local_catalog_step) (metis action_tag_catalog catalog_step.action_tag normalize_snapshot_id [OF inv])
  then show ?thesis by simp
next
  case (release_candidate e d synced cand)
  then obtain prepared where p: "prepare_release_candidate e d synced = Inr prepared"
    and u: "update e (save_release_candidate prepared) s = Inr (t, cand)"
    by (auto simp: local_save_release_candidate_def split: sum.splits)
  have "catalog_step (sn_catalog s) (sn_catalog t)"
    using u inv
    by (rule local_catalog_step) (metis save_candidate_catalog [OF p] catalog_step.save_candidate normalize_snapshot_id [OF inv])
  then show ?thesis by simp
next
  case (release_audit e r u)
  have "catalog_step (sn_catalog s) (sn_catalog t)"
    using release_audit [unfolded local_append_audit_def] inv
    by (rule local_catalog_step) (metis append_audit_catalog catalog_step.audit normalize_snapshot_id [OF inv])
  then show ?thesis by simp
next
  case (release_import e i u)
  have "catalog_step (sn_catalog s) (sn_catalog t)"
    using release_import(1) [unfolded local_import_catalog_def] inv
    by (rule local_catalog_step) (use release_import(2,3) in \<open>auto intro: catalog_step.import_snapshot\<close>)
  then show ?thesis by simp
next
  case release_other
  then show ?thesis by simp
qed

interpretation store_catalog: simulation webhook_start release_step "\<lambda>s. catalog_inv (sn_catalog s)" sn_catalog catalog_step
proof
  fix s t
  show "catalog_inv (sn_catalog s)" if "webhook_start s"
    using that by (auto simp: webhook_start_def new_snapshot_def empty_snapshot_def normalize_snapshot_id catalog_inv_new)
  show "catalog_inv (sn_catalog t)" if "catalog_inv (sn_catalog s)" "release_step s t"
    using release_step_refines [OF that] that(1) catalog_step_inv by auto
  show "catalog_step\<^sup>*\<^sup>* (sn_catalog s) (sn_catalog t)" if "catalog_inv (sn_catalog s)" "release_step s t"
    using release_step_refines [OF that] by auto
qed

lemma catalog_reachable_later: "catalog_step\<^sup>*\<^sup>* c c' \<Longrightarrow> catalog_reachable c \<Longrightarrow> catalog_reachable c'"
  by (induction rule: rtranclp_induct) (auto intro: catalog_reachable.step)

lemma release_reachable_catalog: "reachable webhook_start release_step s \<Longrightarrow> catalog_reachable (sn_catalog s)"
proof (induction rule: reachable.induct)
  case (reachable_start s)
  then have "sn_catalog s = new_catalog"
    by (auto simp: webhook_start_def new_snapshot_def empty_snapshot_def normalize_snapshot_id catalog_inv_new)
  then show ?case by (simp add: catalog_reachable.start)
next
  case (reachable_step s t)
  then show ?case
    using store_catalog.step_view [OF store_catalog.reachable_good] catalog_reachable_later by blast
qed

end
