(* ===== verification/Webhook_Example.thy ===== *)
theory Webhook_Example
  imports Catalog_Refinement One_Run
begin

text \<open>
  The store the witnesses use: one subscription, created at time 1, and a release published at time 2.
  What the operations do to it is computed here step by step.
\<close>

section \<open>Events carry what was published\<close>

lemma decode_marshal_published:
  assumes "env_type v = release_published_type" and "env_data v = marshal_published d"
  shows "decode_published v = Inr d"
  using assms
  by (cases d; cases "rp_previous_release d"; cases "rp_previous_commit d"; cases "rp_note d")
    (simp_all add: decode_published_def marshal_published_def omit_nil_def known_fields_def equal_fold_def to_lower_def lower_char_def)

lemma new_release_published_Inr:
  "new_release_published ident t d = Inr v \<Longrightarrow> validate_event v \<and> env_id v = trim_space ident
    \<and> env_type v = release_published_type \<and> env_time v = t
    \<and> decode_published v = Inr (d\<lparr>rp_workspace := normalize_workspace (rp_workspace d),
        rp_actor := (if blank (rp_actor d) then ''system'' else trim_space (rp_actor d)),
        rp_note := (case rp_note d of None \<Rightarrow> None | Some n \<Rightarrow> if blank n then None else Some (trim_space n))\<rparr>)"
  unfolding new_release_published_def Let_def checked_def
  by (auto split: if_splits intro!: decode_marshal_published)

section \<open>The secrets of a subscription\<close>

lemma webhook_string_round_trip:
  assumes "prims_ok (prims C) (JStr v)" and "length nonce = nonce_size"
    and "encrypt_webhook_string None C nonce w v = Inr r"
  shows "decrypt_webhook_string None C w r = Inr v"
proof -
  have c: "canonical_json_value (RawDoc (JStr v)) d = RawDoc (JStr v)" for d by (simp add: canonical_json_value_def)
  have n: "\<not> is_enc (RawDoc (JStr v))" by (simp add: is_enc_def)
  from assms have "encrypt_json_at_rest None C nonce w (RawDoc (JStr v)) (RawDoc (JStr '''')) = Inr r"
    by (auto simp: encrypt_webhook_string_def split: if_splits)
  from at_rest_round_trip_json [OF _ assms(2) _ this] assms(1) n show ?thesis
    by (simp add: c decrypt_webhook_string_def raw_doc_def)
qed

lemma webhook_string_encrypts:
  "trim_space (secret_key C) \<noteq> '''' \<Longrightarrow> \<exists>r. encrypt_webhook_string None C nonce w v = Inr r"
  using encrypt_local_total [of "RawDoc (JStr v)" "RawDoc (JStr '''')"]
  by (simp add: encrypt_webhook_string_def canonical_json_value_def)

lemma encrypted_webhook_string:
  "trim_space (secret_key C) \<noteq> '''' \<Longrightarrow> encrypt_webhook_string None C nonce w v = Inr r \<Longrightarrow> is_enc r"
  by (auto simp: encrypt_webhook_string_def encrypt_json_at_rest_def canonical_json_value_def and_then_eq_Inr
      split: if_splits)

lemma subscription_record_round_trip:
  assumes "prims_ok (prims C) (JStr (sub_endpoint sub))" and "prims_ok (prims C) (JStr (sub_secret sub))"
    and "\<And>p n. length (draw_nonce e p n) = nonce_size" and "encrypt_local_subscription C e sub = Inr (a, b)"
  shows "local_subscription C (subscription_to_record sub a b) = Inr sub"
proof -
  from assms(4) have "encrypt_webhook_string None C (draw_nonce e ''webhook endpoint'' 0) (sub_workspace sub) (sub_endpoint sub) = Inr a"
    "encrypt_webhook_string None C (draw_nonce e ''webhook secret'' 0) (sub_workspace sub) (sub_secret sub) = Inr b"
    by (auto simp: encrypt_local_subscription_def and_then_eq_Inr)
  then have "decrypt_webhook_string None C (sub_workspace sub) a = Inr (sub_endpoint sub)"
    "decrypt_webhook_string None C (sub_workspace sub) b = Inr (sub_secret sub)"
    using webhook_string_round_trip assms(1-3) by blast+
  then show ?thesis
    by (simp add: local_subscription_def subscription_to_record_def subscription_from_record_def)
qed

section \<open>The example\<close>

definition ex_net :: net_lib where
  "ex_net = \<lparr>parse_url = (\<lambda>_. Some \<lparr>url_scheme = ''https'', url_hostname = ''a.example'', url_host = ''a.example'',
     url_has_user = False, url_fragment = ''''\<rparr>), loopback_addr = (\<lambda>_. False)\<rparr>"

text \<open>A cipher that ignores its key and a codec for strings.\<close>

definition ex_vault :: input_crypto where
  "ex_vault = \<lparr>secret_key = ''k'', secret_key_previous = '''', prims = \<lparr>sha256 = (\<lambda>s. s), gcm_seal = (\<lambda>k n pt. pt),
     gcm_open = (\<lambda>k n ct. Some ct), json_text = (\<lambda>d. case d of JStr s \<Rightarrow> s | _ \<Rightarrow> ''''), json_read = (\<lambda>s. Some (JStr s))\<rparr>\<rparr>"

definition wh_at :: "time \<Rightarrow> call_env" where
  "wh_at t = \<lparr>clock = t, draw_id = (\<lambda>p n. p @ ''_'' @ itoa t @ replicate n (CHR ''x'')), draw_nonce = (\<lambda>s n. ''000000000000'')\<rparr>"

definition ex_sub :: subscription where
  "ex_sub = \<lparr>sub_id = '''', sub_workspace = ''main'', sub_name = ''chat'', sub_endpoint = ''https://a.example/h'',
     sub_secret = ''0123456789abcdef'', sub_event_types = [release_published_type], sub_app_keys = [],
     sub_enabled = True, sub_created_by = ''ops'', sub_updated_by = '''', sub_created_at = 0, sub_updated_at = 0,
     sub_deleted_at = None\<rparr>"

definition ex_ready :: subscription where
  "ex_ready = ex_sub\<lparr>sub_id := ''whs_1'', sub_created_by := ''ops'', sub_updated_by := ''ops'', sub_created_at := 1, sub_updated_at := 1\<rparr>"

definition ex_sent :: delivery_result where
  "ex_sent = \<lparr>dr_state = DeliverySucceeded, dr_next_attempt_at = 4, dr_response_status = Some 200,
     dr_latency_ms = Some 5, dr_error_summary = None, dr_completed_at = 4\<rparr>"

lemma wh_at_fields [simp]: "clock (wh_at t) = t" "length (draw_nonce (wh_at t) p n) = nonce_size"
  "draw_id (wh_at t) p 0 = p @ ''_'' @ itoa t"
  by (simp_all add: wh_at_def nonce_size_def)

lemma wh_at_inj: "inj (draw_id (wh_at t) p)"
  by (auto simp: wh_at_def inj_def)

lemma ex_vault_ok: "prims_ok (prims ex_vault) (JStr v)" "trim_space (secret_key ex_vault) \<noteq> ''''"
  by (simp_all add: ex_vault_def prims_ok_def trim_space_graphic graphic_def)

lemma ex_trims: "normalize_workspace ''main'' = ''main''" "trim_space '''' = ''''" "trim_space ''ops'' = ''ops''"
  "itoa 1 = ''1''" "itoa 2 = ''2''" "trim_space ''d1'' = ''d1''"
  by code_simp+

lemma ex_prepared: "prepare_new_subscription ex_net (wh_at 1) ex_sub = Inr ex_ready"
proof -
  define x where "x = ex_sub\<lparr>sub_id := ''whs_1''\<rparr>"
  have f: "normalize_filters x = x" "validate_subscription ex_net x" unfolding x_def by code_simp+
  have e: "sub_workspace ex_sub = ''main''" "sub_id ex_sub = ''''" "sub_created_by x = ''ops''" "sub_id x = ''whs_1''"
    "ex_sub\<lparr>sub_workspace := ''main'', sub_id := ''whs_1''\<rparr> = x"
    "x\<lparr>sub_created_by := ''ops'', sub_updated_by := ''ops'', sub_created_at := 1, sub_updated_at := 1, sub_deleted_at := None\<rparr>
      = ex_ready"
    by (simp_all add: ex_sub_def x_def ex_ready_def)
  show ?thesis
    by (simp add: prepare_new_subscription_def ex_trims e f)
qed

lemma ex_create_subscription:
  "\<exists>s a b. local_create_subscription ex_net ex_vault (wh_at 1) ex_sub (new_snapshot (wh_at 0)) = Inr (s, ex_ready)
    \<and> sn_subscriptions s = [(''main/whs_1'', subscription_to_record ex_ready a b)] \<and> sn_deliveries s = []
    \<and> sn_control_events s = [] \<and> sn_catalog s = new_catalog
    \<and> local_subscription ex_vault (subscription_to_record ex_ready a b) = Inr ex_ready \<and> is_enc a"
proof -
  obtain a b where ab: "encrypt_local_subscription ex_vault (wh_at 1) ex_ready = Inr (a, b)"
    using webhook_string_encrypts [OF ex_vault_ok(2)] by (simp add: encrypt_local_subscription_def and_then_def) (metis sum.case(2))
  have d: "local_subscription ex_vault (subscription_to_record ex_ready a b) = Inr ex_ready"
    by (rule subscription_record_round_trip [OF _ _ _ ab]) (simp_all add: ex_vault_ok)
  have ia: "is_enc a"
    using ab by (auto simp: encrypt_local_subscription_def and_then_eq_Inr dest: encrypted_webhook_string [OF ex_vault_ok(2)])
  have k: "webhook_subscription_key ''main'' ''whs_1'' = ''main/whs_1''" by (simp add: webhook_subscription_key_def ex_trims)
  have r: "sub_workspace ex_ready = ''main''" "sub_id ex_ready = ''whs_1''" by (simp_all add: ex_ready_def ex_sub_def)
  have s0: "sn_subscriptions (new_snapshot (wh_at 0)) = []" "sn_deliveries (new_snapshot (wh_at 0)) = []"
    "sn_control_events (new_snapshot (wh_at 0)) = []" "sn_catalog (new_snapshot (wh_at 0)) = new_catalog"
    by (simp_all add: new_snapshot_def empty_snapshot_def normalize_snapshot_id catalog_inv_new)
  show ?thesis
    using ab d k r s0 ia
    by (simp add: local_create_subscription_def ex_prepared update_def create_subscription_def name_taken_def
        append_webhook_audit_def normalize_snapshot_id catalog_inv_new mput_def) blast
qed

definition ex_publication :: "deployment \<times> history \<times> audit_record" where
  "ex_publication = prepare_publication (wh_at 2) (ex_deployment ''c1'') 2"

lemma ex_event: "\<not> isl (prepare_release_event (wh_at 2) (fst (snd ex_publication)) None)"
  by code_simp

lemma ex_published_app: "dep_app (fst ex_publication) = ''crawler''" "source_workspace (fst ex_publication) = ''main''"
  by code_simp+

lemma ex_publish:
  "\<exists>s t a b p. local_create_subscription ex_net ex_vault (wh_at 1) ex_sub (new_snapshot (wh_at 0)) = Inr (s, ex_ready)
    \<and> local_publish_release (wh_at 2) (ex_deployment ''c1'') 0 s = Inr (t, p) \<and> sn_deliveries s = []
    \<and> source_workspace p = ''main'' \<and> dep_app p = ''crawler''
    \<and> matching_subscriptions s ''main'' release_published_type ''crawler'' = [subscription_to_record ex_ready a b]
    \<and> sn_subscriptions t = [(''main/whs_1'', subscription_to_record ex_ready a b)]
    \<and> local_subscription ex_vault (subscription_to_record ex_ready a b) = Inr ex_ready
    \<and> (\<exists>v. sn_deliveries t = [(''whd_2'', new_webhook_delivery (wh_at 2) 0 v ''main'' ''whs_1'')]
        \<and> map_of (sn_control_events t) (env_id v) = Some v) \<and> is_enc a"
proof -
  obtain s a b where s: "local_create_subscription ex_net ex_vault (wh_at 1) ex_sub (new_snapshot (wh_at 0)) = Inr (s, ex_ready)"
    "sn_subscriptions s = [(''main/whs_1'', subscription_to_record ex_ready a b)]" "sn_deliveries s = []"
    "sn_control_events s = []" "sn_catalog s = new_catalog"
    "local_subscription ex_vault (subscription_to_record ex_ready a b) = Inr ex_ready" "is_enc a"
    using ex_create_subscription by blast
  obtain p h au where pub: "ex_publication = (p, h, au)" by (metis prod_cases3)
  have "\<not> isl (prepare_release_event (wh_at 2) h None)" using ex_event unfolding pub fst_conv snd_conv .
  then obtain v where v: "prepare_release_event (wh_at 2) h None = Inr v" by (metis sum.collapse(2)) 
  have ty: "env_type v = release_published_type"
    using new_release_published_Inr [OF v [unfolded prepare_release_event_def]] by blast
  have p: "dep_app p = ''crawler''" "source_workspace p = ''main''" using ex_published_app unfolding pub fst_conv .
  have pp: "prepare_publication (wh_at 2) (ex_deployment ''c1'') (non_zero_time 0 2) = (p, h, au)"
    using pub unfolding ex_publication_def by (simp add: non_zero_time_def)
  have hist: "latest_release_history new_catalog w app = None" "normalize_snapshot new_catalog = new_catalog" for w app
    by (simp add: latest_release_history_def new_catalog_def) (rule normalize_snapshot_id [OF catalog_inv_new])
  have m: "matching_subscriptions s ''main'' release_published_type ''crawler'' = [subscription_to_record ex_ready a b]"
    using s(2) by (simp add: matching_subscriptions_def mvals_def subscription_to_record_def ex_ready_def ex_sub_def filter_matches_def)
  let ?t = "\<lambda>c. record_event (wh_at 2) v ''main'' ''crawler'' ((ensure_snapshot (wh_at 2) s)\<lparr>sn_catalog := c\<rparr>)"
  have m': "matching_subscriptions ((ensure_snapshot (wh_at 2) s)\<lparr>sn_catalog := c\<rparr>) ''main'' (env_type v) ''crawler''
      = [subscription_to_record ex_ready a b]" for c
    using m by (simp add: matching_subscriptions_def ty)
  obtain c where "local_publish_release (wh_at 2) (ex_deployment ''c1'') 0 s = Inr (ensure_snapshot (wh_at 2) (?t c), p)"
    by (simp add: local_publish_release_def update_def publish_release_def pp hist v p s(5) Let_def)
  moreover have "sn_deliveries (?t c) = [(''whd_2'', new_webhook_delivery (wh_at 2) 0 v ''main'' ''whs_1'')]" for c
    using s(3) by (simp add: record_event_def m' put_delivery_def put_control_event_def mput_def new_webhook_delivery_def
        ex_trims subscription_to_record_def ex_ready_def)
  moreover have "map_of (sn_control_events (?t c)) (env_id v) = Some v" "sn_subscriptions (?t c) = sn_subscriptions s" for c
    by (simp_all add: record_event_def m' put_delivery_def put_control_event_def)
  ultimately show ?thesis using s m p by fastforce
qed

text \<open>The published store is reachable, its delivery is due, and a claim of it can be completed.\<close>

lemma wh_start: "reachable webhook_start step (new_snapshot e)"
  by (rule reachable_start) (auto simp: webhook_start_def)

lemma ex_published:
  "\<exists>s t a b p v. reachable webhook_start (webhook_step ex_net ex_vault) s
    \<and> local_publish_release (wh_at 2) (ex_deployment ''c1'') 0 s = Inr (t, p) \<and> sn_deliveries s = [] \<and> fresh_deliveries (wh_at 2) s
    \<and> source_workspace p = ''main'' \<and> dep_app p = ''crawler''
    \<and> matching_subscriptions s ''main'' release_published_type ''crawler'' = [subscription_to_record ex_ready a b]
    \<and> reachable webhook_start (webhook_step ex_net ex_vault) t
    \<and> sn_subscriptions t = [(''main/whs_1'', subscription_to_record ex_ready a b)]
    \<and> local_subscription ex_vault (subscription_to_record ex_ready a b) = Inr ex_ready
    \<and> sn_deliveries t = [(''whd_2'', new_webhook_delivery (wh_at 2) 0 v ''main'' ''whs_1'')]
    \<and> map_of (sn_control_events t) (env_id v) = Some v \<and> is_enc a"
proof -
  obtain s t a b p v where s: "local_create_subscription ex_net ex_vault (wh_at 1) ex_sub (new_snapshot (wh_at 0)) = Inr (s, ex_ready)"
    and t: "local_publish_release (wh_at 2) (ex_deployment ''c1'') 0 s = Inr (t, p)" "sn_deliveries s = []"
      "source_workspace p = ''main''" "dep_app p = ''crawler''"
      "matching_subscriptions s ''main'' release_published_type ''crawler'' = [subscription_to_record ex_ready a b]"
      "sn_subscriptions t = [(''main/whs_1'', subscription_to_record ex_ready a b)]"
      "local_subscription ex_vault (subscription_to_record ex_ready a b) = Inr ex_ready"
      "sn_deliveries t = [(''whd_2'', new_webhook_delivery (wh_at 2) 0 v ''main'' ''whs_1'')]"
      "map_of (sn_control_events t) (env_id v) = Some v" "is_enc a"
    using ex_publish by blast
  have f: "fresh_deliveries (wh_at 2) s" using t(2) by (simp add: fresh_deliveries_def delivery_view_def)
  have rs: "reachable webhook_start (webhook_step ex_net ex_vault) s"
    by (rule reachable_step [where step = "webhook_step ex_net ex_vault", OF wh_start webhook_create [OF s]])
  have "reachable webhook_start (webhook_step ex_net ex_vault) t"
    by (rule reachable_step [OF rs webhook_publish [OF t(1) f]])
  with rs t f show ?thesis by blast
qed

lemma ex_claim_delivery:
  "\<exists>s t cd. reachable webhook_start (webhook_step ex_net ex_vault) s
    \<and> local_claim_delivery ex_vault (wh_at 3) ''d1'' 0 s = Inr (t, cd)
    \<and> (\<exists>u. local_complete_delivery (wh_at 4) (cd_lease cd) ex_sent t = Inr (u, ()))"
proof -
  obtain s a b v where r: "reachable webhook_start (webhook_step ex_net ex_vault) s"
    and s: "sn_subscriptions s = [(''main/whs_1'', subscription_to_record ex_ready a b)]"
      "sn_deliveries s = [(''whd_2'', new_webhook_delivery (wh_at 2) 0 v ''main'' ''whs_1'')]"
    and sub: "local_subscription ex_vault (subscription_to_record ex_ready a b) = Inr ex_ready"
    and v: "map_of (sn_control_events s) (env_id v) = Some v"
    using ex_published by blast
  let ?d = "new_webhook_delivery (wh_at 2) 0 v ''main'' ''whs_1''"
  have d: "del_workspace ?d = ''main''" "del_subscription ?d = ''whs_1''" "del_state ?d = DeliveryPending"
    "del_next_attempt_at ?d = 2" "del_id ?d = ''whd_2''" "del_event ?d = env_id v"
    by (simp_all add: new_webhook_delivery_def ex_trims)
  have k: "webhook_subscription_key ''main'' ''whs_1'' = ''main/whs_1''" by (simp add: webhook_subscription_key_def ex_trims)
  let ?r = "subscription_to_record ex_ready a b"
  have of: "subscription_of u x = Some ?r" if "sn_subscriptions u = sn_subscriptions s" "del_workspace x = ''main''" "del_subscription x = ''whs_1''" for u x
    using that s(1) k by (simp add: subscription_of_def)
  have live: "sr_enabled ?r" "sr_deleted_at ?r = None" by (simp_all add: subscription_to_record_def ex_ready_def ex_sub_def)
  have "select_delivery (ensure_snapshot (wh_at 3) s) 3 = Some ?d"
    using s(2) of d live by (simp add: select_delivery_def mvals_def claimable_delivery_def delivery_eligible_def)
  then obtain t cd where c: "claim_delivery ex_vault (wh_at 3) ''d1'' (seconds 30) (ensure_snapshot (wh_at 3) s) = Inr (t, cd)"
    using of d sub v by (simp add: claim_delivery_def Let_def)
  then have c': "local_claim_delivery ex_vault (wh_at 3) ''d1'' 0 s = Inr (ensure_snapshot (wh_at 3) t, cd)"
    by (simp add: local_claim_delivery_def update_def ex_trims)
  note ok = webhooks.reachable_good [OF r]
  from claim_delivery_grants [OF ok c'] have g: "validate_delivery_lease (cd_delivery cd) (cd_lease cd)"
    "delivery_view (ensure_snapshot (wh_at 3) t) = (delivery_view s)(dl_delivery (cd_lease cd) \<mapsto> cd_delivery cd)" by auto
  have okt: "webhooks_ok (ensure_snapshot (wh_at 3) t)" by (rule webhooks.step_good [OF ok webhook_claim [OF c']])
  have dv: "delivery_view (ensure_snapshot (wh_at 3) t) (dl_delivery (cd_lease cd)) = Some (cd_delivery cd)" using g by simp
  obtain r' where "subscription_of (ensure_snapshot (wh_at 3) t) (cd_delivery cd) = Some r'"
    using webhooks_okD(4) [OF okt dv] by blast
  then obtain u where "complete_delivery (wh_at 4) (cd_lease cd) ex_sent (ensure_snapshot (wh_at 4) (ensure_snapshot (wh_at 3) t)) = Inr (u, ())"
    using complete_delivery_Inr [of "wh_at 4" "cd_lease cd" ex_sent "ensure_snapshot (wh_at 4) (ensure_snapshot (wh_at 3) t)"] g(1) dv
    by auto
  moreover have "validate_delivery_result ex_sent" by (simp add: validate_delivery_result_def ex_sent_def)
  ultimately show ?thesis using r c' by (fastforce simp: local_complete_delivery_def update_def)
qed

end
