(* ===== verification/Webhook_Properties.thy ===== *)
theory Webhook_Properties
  imports Webhook_Example
begin

text \<open>
  The properties of webhooks and of the catalog inside the store: consistent records, fenced leases,
  which delivery a claim hands out, what a publication enqueues and what it says, and the refinement
  of the file catalog.
\<close>

section \<open>What recording an event leaves behind\<close>

lemma record_deliveries_view:
  "delivery_view (fold (\<lambda>(n, r). put_delivery (new_webhook_delivery e n v w (sr_id r))) xs u)
    = delivery_view u ++ map_of (rev (map (\<lambda>(n, r). (draw_id e ''whd'' n, new_webhook_delivery e n v w (sr_id r))) xs))"
  for xs :: "(nat \<times> subscription_record) list"
  by (induction xs arbitrary: u) (auto simp: fun_upd_def map_add_def fun_eq_iff split: option.splits)

lemma record_deliveries_events:
  "sn_control_events (fold (\<lambda>(n, r). put_delivery (new_webhook_delivery e n v w (sr_id r))) xs u) = sn_control_events u"
  for xs :: "(nat \<times> subscription_record) list"
  by (induction xs arbitrary: u) auto

lemma record_event_events: "map_of (sn_control_events (record_event e v w app s)) (env_id v) = Some v"
  by (simp add: record_event_def record_deliveries_events)

lemma record_event_view:
  assumes inj: "inj (draw_id e ''whd'')"
  shows "delivery_view (record_event e v w app s) k = Some d \<longleftrightarrow>
    (\<exists>n < length (matching_subscriptions s w (env_type v) app). k = draw_id e ''whd'' n
       \<and> d = new_webhook_delivery e n v w (sr_id (matching_subscriptions s w (env_type v) app ! n)))
    \<or> k \<notin> draw_id e ''whd'' ` {..<length (matching_subscriptions s w (env_type v) app)} \<and> delivery_view s k = Some d"
proof -
  let ?M = "matching_subscriptions s w (env_type v) app"
  let ?kv = "\<lambda>(n, r). (draw_id e ''whd'' n, new_webhook_delivery e n v w (sr_id r))"
  have keys: "map fst (map ?kv (enumerate 0 ?M)) = map (draw_id e ''whd'') [0..<length ?M]"
    by (rule nth_equalityI) (simp_all add: nth_enumerate_eq)
  have "distinct (map fst (map ?kv (enumerate 0 ?M)))"
    unfolding keys using inj by (auto simp: distinct_map intro: inj_on_subset)
  then have "distinct (map fst (rev (map ?kv (enumerate 0 ?M))))"
    unfolding rev_map [symmetric] distinct_rev .
  then have "map_of (rev (map ?kv (enumerate 0 ?M))) k = Some d \<longleftrightarrow> (k, d) \<in> set (map ?kv (enumerate 0 ?M))" for d
    by (simp add: map_of_eq_Some_iff)
  moreover have en: "set (enumerate 0 ?M) = (\<lambda>n. (n, ?M ! n)) ` {..<length ?M}"
    by (auto simp: in_set_enumerate_eq image_iff)
  moreover have "(k, d) \<in> set (map ?kv (enumerate 0 ?M)) \<longleftrightarrow>
    (\<exists>n < length ?M. k = draw_id e ''whd'' n \<and> d = new_webhook_delivery e n v w (sr_id (?M ! n)))" for d
    unfolding set_map en image_image by auto
  moreover have "map_of (rev (map ?kv (enumerate 0 ?M))) k = None \<longleftrightarrow> k \<notin> draw_id e ''whd'' ` {..<length ?M}"
    unfolding map_of_eq_None_iff set_rev set_map en image_image by simp
  ultimately show ?thesis
    by (auto simp: record_event_def record_deliveries_view map_add_Some_iff)
qed

text \<open>The subscriptions that match have distinct identifiers.\<close>

lemma matching_distinct:
  assumes "subscriptions_ok s"
  shows "distinct (map sr_id (matching_subscriptions s w ty app))"
proof -
  let ?P = "\<lambda>r. normalize_workspace (sr_workspace r) = normalize_workspace w
    \<and> filter_matches (sr_enabled r) (sr_deleted_at r) (sr_event_types r) (sr_app_keys r) ty app"
  have ok: "map_ok (sn_subscriptions s)" using assms by (simp add: subscriptions_ok_def)
  have inj: "kr = kr'" if "kr \<in> set (sn_subscriptions s)" "?P (snd kr)" "kr' \<in> set (sn_subscriptions s)" "?P (snd kr')"
    "sr_id (snd kr) = sr_id (snd kr')" for kr kr'
  proof -
    have at: "map_of (sn_subscriptions s) (fst p) = Some (snd p)" if "p \<in> set (sn_subscriptions s)" for p
      using that ok by (simp add: map_of_eq_Some_iff_mem)
    have "fst p = webhook_subscription_key (sr_workspace (snd p)) (sr_id (snd p))" if "p \<in> set (sn_subscriptions s)" for p
      using at [OF that] assms unfolding subscriptions_ok_def by blast
    then have "fst kr = fst kr'" using that by (simp add: webhook_subscription_key_def)
    with at [OF that(1)] at [OF that(3)] show ?thesis by (simp add: prod_eq_iff)
  qed
  have "distinct (map fst (sn_subscriptions s))" using ok by (simp add: map_ok_def mkeys_def)
  then have "distinct (sn_subscriptions s)" by (simp add: distinct_map)
  then have "distinct (map (\<lambda>kr. sr_id (snd kr)) (filter (\<lambda>kr. ?P (snd kr)) (sn_subscriptions s)))"
    unfolding distinct_map using inj by (auto intro!: inj_onI)
  moreover have "map sr_id (matching_subscriptions s w ty app)
      = map (\<lambda>kr. sr_id (snd kr)) (filter (\<lambda>kr. ?P (snd kr)) (sn_subscriptions s))"
    by (simp add: matching_subscriptions_def mvals_def filter_map o_def)
  ultimately show ?thesis by simp
qed

text \<open>The deliveries a recorded event adds: one for each subscription that matches.\<close>

lemma record_event_adds:
  assumes ok: "webhooks_ok s" and fresh: "fresh_deliveries e s" and inj: "inj (draw_id e ''whd'')"
    and t: "t = record_event e v w app s"
  shows "delivery_view s k = Some d \<Longrightarrow> delivery_view t k = Some d"
    and "delivery_view t k = Some d \<Longrightarrow> delivery_view s k = None \<Longrightarrow>
      del_event d = env_id v \<and> del_state d = DeliveryPending \<and> del_attempt d = 0 \<and> del_next_attempt_at d = clock e
      \<and> del_workspace d = normalize_workspace w"
    and "(\<exists>!k. \<exists>d. delivery_view t k = Some d \<and> delivery_view s k = None \<and> del_subscription d = sid)
      \<longleftrightarrow> (\<exists>r \<in> set (matching_subscriptions s w (env_type v) app). sr_id r = sid)"
proof -
  let ?M = "matching_subscriptions s w (env_type v) app"
  let ?new = "\<lambda>n. new_webhook_delivery e n v w (sr_id (?M ! n))"
  have none: "delivery_view s (draw_id e ''whd'' n) = None" for n using fresh by (simp add: fresh_deliveries_def)
  note view = record_event_view [OF inj, of v w app s, folded t]
  show "delivery_view t k = Some d" if "delivery_view s k = Some d" for k d
    using that none by (auto simp: view)
  have added: "delivery_view t k = Some d \<and> delivery_view s k = None \<longleftrightarrow>
      (\<exists>n < length ?M. k = draw_id e ''whd'' n \<and> d = ?new n)" for k d
    using none by (auto simp: view)
  show "del_event d = env_id v \<and> del_state d = DeliveryPending \<and> del_attempt d = 0 \<and> del_next_attempt_at d = clock e
      \<and> del_workspace d = normalize_workspace w" if "delivery_view t k = Some d" "delivery_view s k = None" for k d
    using added [of k d] that by (auto simp: new_webhook_delivery_def)
  have one: "n = m" if "n < length ?M" "m < length ?M" "sr_id (?M ! n) = sr_id (?M ! m)" for n m
    using matching_distinct [of s w "env_type v" app] ok that
    by (simp add: webhooks_ok_def distinct_conv_nth) (metis that)
  have ex: "(\<exists>d. delivery_view t k = Some d \<and> delivery_view s k = None \<and> del_subscription d = sid)
      \<longleftrightarrow> (\<exists>n < length ?M. k = draw_id e ''whd'' n \<and> sr_id (?M ! n) = sid)" for k
    using added [of k] by (metis new_delivery_simps(4))
  have "(\<exists>!k. \<exists>n < length ?M. k = draw_id e ''whd'' n \<and> sr_id (?M ! n) = sid) \<longleftrightarrow> (\<exists>n < length ?M. sr_id (?M ! n) = sid)"
    using one by blast
  then show "(\<exists>!k. \<exists>d. delivery_view t k = Some d \<and> delivery_view s k = None \<and> del_subscription d = sid)
      \<longleftrightarrow> (\<exists>r \<in> set ?M. sr_id r = sid)"
    unfolding ex by (metis in_set_conv_nth)
qed

section \<open>Properties\<close>

text \<open>C13. The webhook records of a reachable store are consistent: a delivery is leased exactly while it
is being delivered and completed exactly when it is settled, its event and its subscription are stored,
and in a workspace no two subscriptions that are not deleted share a name.\<close>

theorem webhooks_consistent:
  assumes "reachable webhook_start (webhook_step net C) s"
  shows "(\<forall>k d. map_of (sn_deliveries s) k = Some d \<longrightarrow> del_id d = k
        \<and> (del_lease_owner d \<noteq> None \<longleftrightarrow> del_state d = DeliveryDelivering)
        \<and> (del_lease_expires_at d \<noteq> None \<longleftrightarrow> del_state d = DeliveryDelivering)
        \<and> (del_completed_at d \<noteq> None \<longleftrightarrow> del_state d \<in> {DeliverySucceeded, DeliveryFailed, DeliveryCanceled})
        \<and> map_of (sn_control_events s) (del_event d) \<noteq> None
        \<and> map_of (sn_subscriptions s) (webhook_subscription_key (del_workspace d) (del_subscription d)) \<noteq> None)
    \<and> (\<forall>k k' r r'. map_of (sn_subscriptions s) k = Some r \<longrightarrow> map_of (sn_subscriptions s) k' = Some r' \<longrightarrow>
        sr_deleted_at r = None \<longrightarrow> sr_deleted_at r' = None \<longrightarrow> sr_workspace r = sr_workspace r' \<longrightarrow>
        sr_name r = sr_name r' \<longrightarrow> k = k')"
proof -
  have ok: "webhooks_ok s" by (rule webhooks.reachable_good [OF assms])
  have settled: "delivery_settled st \<longleftrightarrow> st \<in> {DeliverySucceeded, DeliveryFailed, DeliveryCanceled}" for st
    by (cases st) simp_all
  have "del_id d = k \<and> delivery_ok d \<and> map_of (sn_control_events s) (del_event d) \<noteq> None
      \<and> map_of (sn_subscriptions s) (webhook_subscription_key (del_workspace d) (del_subscription d)) \<noteq> None"
    if "map_of (sn_deliveries s) k = Some d" for k d
    using webhooks_okD [OF ok, of k d] that by (simp add: delivery_view_def subscription_of_def)
  moreover have "names_unique s" using ok by (simp add: webhooks_ok_def)
  ultimately show ?thesis unfolding names_unique_def delivery_ok_def settled by (intro conjI allI impI) metis+
qed

text \<open>The lease of a delivery is fenced: once the delivery was claimed again or completed under the
lease of a claim, no result is accepted with that lease again, whatever happens later.\<close>

theorem delivery_lease_fenced:
  assumes "reachable webhook_start (webhook_step net C) s"
    and "local_claim_delivery C e worker ttl s = Inr (t, cd)"
    and "(sent_step net C)\<^sup>*\<^sup>* (t, U \<union> delivery_ids t) (u, V)"
    and "settles (cd_lease cd) u v
      \<or> (\<exists>e' worker' ttl' cd'. local_claim_delivery C e' worker' ttl' u = Inr (v, cd')
           \<and> dl_delivery (cd_lease cd') = dl_delivery (cd_lease cd))"
    and "(sent_step net C)\<^sup>*\<^sup>* (v, V \<union> delivery_ids v) (x, W)"
  shows "local_complete_delivery e'' (cd_lease cd) res x \<noteq> Inr (y, ())"
proof -
  let ?l = "cd_lease cd"
  have ok: "webhooks_ok s" "webhooks_ok t"
    using webhooks.reachable_good [OF assms(1)] webhooks.step_good [OF _ webhook_claim [OF assms(2)]] by blast+
  let ?held = "\<lambda>p. sent_good p \<and> dl_delivery ?l \<in> snd p
    \<and> (\<forall>d. delivery_view (fst p) (dl_delivery ?l) = Some d \<longrightarrow> dl_attempt ?l \<le> del_attempt d)"
  have held: "?held (t, U \<union> delivery_ids t)"
    using claim_delivery_grants [OF ok(1) assms(2)] sent_goodI [OF ok(2)] by (auto simp: delivery_ids_def)
  have u: "?held (u, V)"
    using assms(3) held
  proof (induction rule: rtranclp_induct)
    case (step p q)
    then have p: "?held p" by blast
    have keep: "webhooks_keep (fst p) (fst q)"
      using step.hyps(2) p webhook_step_keep by (auto simp: sent_step_def sent_good_def)
    have "dl_attempt ?l \<le> del_attempt d'" if d': "delivery_view (fst q) (dl_delivery ?l) = Some d'" for d'
    proof -
      obtain d where d: "delivery_view (fst p) (dl_delivery ?l) = Some d"
        using step.hyps(2) p d' by (fastforce simp: sent_step_def delivery_ids_def)
      with keep d' have "delivery_after d d'" unfolding webhooks_keep_def deliveries_after_def by blast
      with p d show ?thesis by (fastforce simp: delivery_after_def)
    qed
    with p delivering.good_step [OF _ step.hyps(2)] step.hyps(2) show ?case by (simp add: sent_step_def)
  qed simp
  then have good: "webhooks_ok u" by (simp add: sent_good_def)
  have "webhooks_ok v \<and> delivery_stale ?l (v, V \<union> delivery_ids v)"
    using assms(4)
  proof
    assume "settles ?l u v"
    then show ?thesis using settles_stale [OF good] webhook_step_keep [OF good settles_step] u
      by (fastforce simp: delivery_stale_def webhooks_keep_def)
  next
    assume "\<exists>e' worker' ttl' cd'. local_claim_delivery C e' worker' ttl' u = Inr (v, cd') \<and> dl_delivery (cd_lease cd') = dl_delivery ?l"
    then obtain e' worker' ttl' cd' where c: "local_claim_delivery C e' worker' ttl' u = Inr (v, cd')"
      "dl_delivery (cd_lease cd') = dl_delivery ?l" by blast
    show ?thesis using claim_delivery_grants [OF good c(1)] u c(2) webhooks.step_good [OF good webhook_claim [OF c(1)]]
      by (auto simp: delivery_stale_def)
  qed
  then have "\<not> settles_sent ?l (x, W) (y, W \<union> delivery_ids y)"
    using delivering.lost_lease [OF sent_goodI _ assms(5)] by blast
  then show ?thesis by (auto simp: settles_sent_def settles_def)
qed

text \<open>Decrypting a subscription does not fail with an error of a claim.\<close>

lemma decrypt_webhook_error: "decrypt_webhook_string None C w v \<noteq> Inl (WebhookFailure err)"
  by (auto simp: decrypt_webhook_string_def decrypt_json_at_rest_def and_then_def resolve_input_dek_def Let_def
      split: sum.splits option.splits raw.splits json.splits if_splits)

lemma local_subscription_error: "local_subscription C r \<noteq> Inl (WebhookFailure err)"
  using decrypt_webhook_error by (auto simp: local_subscription_def and_then_def split: sum.splits)

text \<open>What a claim selects.\<close>

lemma select_delivery_first:
  assumes ok: "map_ok (sn_deliveries s)" and k: "delivery_view s k = Some d" and c: "claimable_delivery s now d"
  shows "\<exists>b. select_delivery s now = Some b \<and> \<not> due_before d b"
proof -
  let ?f = "\<lambda>d best. if \<not> claimable_delivery s now d then best
      else case best of None \<Rightarrow> Some d | Some b \<Rightarrow> if due_before d b then Some d else Some b"
  have "(\<forall>x \<in> set xs. claimable_delivery s now x \<longrightarrow> (\<exists>b. fold ?f xs best = Some b \<and> \<not> due_before x b))
    \<and> (\<forall>a. best = Some a \<longrightarrow> (\<exists>b. fold ?f xs best = Some b \<and> \<not> due_before a b))" for xs best
  proof (induction xs arbitrary: best)
    case (Cons x xs)
    have trans: "\<not> due_before a c" if "\<not> due_before a b" "\<not> due_before b c" for a b c
      using that by (auto simp: due_before_def)
    show ?case using Cons.IH [of "?f x best"] trans
      by (auto split: option.splits if_splits simp: due_before_def) 
  qed (simp add: due_before_def)
  moreover have "d \<in> set (mvals (sn_deliveries s))" using k by (auto simp: mvals_mem [OF ok] delivery_view_def)
  ultimately show ?thesis using c unfolding select_delivery_def by blast
qed

text \<open>A claim hands out a due delivery than which none is due earlier: in a reachable store it answers
\<^verbatim>\<open>ErrNoPendingDelivery\<close> exactly when no delivery is claimable, and a granted one is claimable, was created
no later than any other with the same due time, is leased to the worker with its attempt raised by one,
comes with its stored event and a live subscription, and every other delivery stays as it was.\<close>

theorem delivery_claim_takes_first:
  assumes "reachable webhook_start (webhook_step net C) s" and "trim_space worker \<noteq> ''''"
  shows "(local_claim_delivery C e worker ttl s = Inl (WebhookFailure NoPendingDelivery) \<longleftrightarrow>
        (\<forall>k d. map_of (sn_deliveries s) k = Some d \<longrightarrow> \<not> claimable_delivery s (clock e) d))
    \<and> (\<forall>t cd. local_claim_delivery C e worker ttl s = Inr (t, cd) \<longrightarrow>
        (\<exists>k d r. map_of (sn_deliveries s) k = Some d \<and> claimable_delivery s (clock e) d
          \<and> (\<forall>k' d'. map_of (sn_deliveries s) k' = Some d' \<longrightarrow> claimable_delivery s (clock e) d' \<longrightarrow> \<not> due_before d' d)
          \<and> subscription_of s d = Some r \<and> sr_enabled r \<and> sr_deleted_at r = None
          \<and> cd_lease cd = \<lparr>dl_delivery = k, dl_worker = trim_space worker, dl_attempt = del_attempt d + 1,
              dl_expires_at = clock e + (if ttl \<le> 0 then seconds 30 else ttl)\<rparr>
          \<and> validate_delivery_lease (cd_delivery cd) (cd_lease cd)
          \<and> map_of (sn_control_events s) (del_event d) = Some (cd_event cd)
          \<and> map_of (sn_deliveries t) = (map_of (sn_deliveries s))(k \<mapsto> cd_delivery cd)))"
proof (intro conjI allI impI)
  have ok: "webhooks_ok s" by (rule webhooks.reachable_good [OF assms(1)])
  then have m: "map_ok (sn_deliveries s)" by (simp add: webhooks_ok_def deliveries_ok_def)
  let ?ttl = "if ttl \<le> 0 then seconds 30 else ttl"
  have sel0: "select_delivery (ensure_snapshot e s) (clock e) = select_delivery s (clock e)"
    by (simp add: select_delivery_def claimable_delivery_def)
  have none: "select_delivery s (clock e) = None \<longleftrightarrow> (\<forall>k d. map_of (sn_deliveries s) k = Some d \<longrightarrow> \<not> claimable_delivery s (clock e) d)"
    using select_delivery_first [OF m] select_delivery_mem [OF m]
    by (metis (mono_tags, lifting) delivery_view_def not_Some_eq)
  show "local_claim_delivery C e worker ttl s = Inl (WebhookFailure NoPendingDelivery) \<longleftrightarrow>
        (\<forall>k d. map_of (sn_deliveries s) k = Some d \<longrightarrow> \<not> claimable_delivery s (clock e) d)"
  proof -
    have "update e (claim_delivery C e (trim_space worker) ttl') s = Inl (WebhookFailure NoPendingDelivery)
        \<longleftrightarrow> select_delivery s (clock e) = None" for ttl'
    proof (cases "select_delivery s (clock e)")
      case (Some d)
      with select_delivery_mem [OF m Some] obtain r where r: "subscription_of s d = Some r"
        by (auto simp: claimable_delivery_def split: option.splits)
      have "local_subscription C r \<noteq> Inl (WebhookFailure NoPendingDelivery)"
        by (rule local_subscription_error)
      with Some r show ?thesis
        by (auto simp: update_def claim_delivery_def sel0 fail_webhook_def and_then_def Let_def split: sum.splits option.splits)
    qed (simp add: update_def claim_delivery_def sel0 fail_webhook_def)
    with assms(2) none show ?thesis by (simp add: local_claim_delivery_def)
  qed
  fix t cd
  assume c: "local_claim_delivery C e worker ttl s = Inr (t, cd)"
  then obtain u where c': "claim_delivery C e (trim_space worker) ?ttl (ensure_snapshot e s) = Inr (u, cd)"
    using assms(2) by (auto simp: local_claim_delivery_def update_Inr)
  from claim_delivery_grants [OF ok c] obtain d where
    g: "delivery_view s (dl_delivery (cd_lease cd)) = Some d" "select_delivery s (clock e) = Some d"
      "validate_delivery_lease (cd_delivery cd) (cd_lease cd)" "map_of (sn_control_events s) (del_event d) = Some (cd_event cd)"
      "delivery_view t = (delivery_view s)(dl_delivery (cd_lease cd) \<mapsto> cd_delivery cd)"
    by blast
  have l: "cd_lease cd = \<lparr>dl_delivery = del_id d, dl_worker = trim_space worker, dl_attempt = del_attempt d + 1,
              dl_expires_at = clock e + ?ttl\<rparr>"
    using c' g(2) by (elim claim_delivery_Inr) (simp add: sel0)
  have cl: "claimable_delivery s (clock e) d" using select_delivery_mem [OF m g(2)] by blast
  then obtain r where r: "subscription_of s d = Some r" "sr_enabled r" "sr_deleted_at r = None"
    by (auto simp: claimable_delivery_def delivery_eligible_def split: option.splits)
  have first: "\<not> due_before d' d" if "map_of (sn_deliveries s) k' = Some d'" "claimable_delivery s (clock e) d'" for k' d'
    using select_delivery_first [OF m _ that(2)] that(1) g(2) by (auto simp: delivery_view_def)
  show "\<exists>k d r. map_of (sn_deliveries s) k = Some d \<and> claimable_delivery s (clock e) d
          \<and> (\<forall>k' d'. map_of (sn_deliveries s) k' = Some d' \<longrightarrow> claimable_delivery s (clock e) d' \<longrightarrow> \<not> due_before d' d)
          \<and> subscription_of s d = Some r \<and> sr_enabled r \<and> sr_deleted_at r = None
          \<and> cd_lease cd = \<lparr>dl_delivery = k, dl_worker = trim_space worker, dl_attempt = del_attempt d + 1,
              dl_expires_at = clock e + ?ttl\<rparr>
          \<and> validate_delivery_lease (cd_delivery cd) (cd_lease cd)
          \<and> map_of (sn_control_events s) (del_event d) = Some (cd_event cd)
          \<and> map_of (sn_deliveries t) = (map_of (sn_deliveries s))(k \<mapsto> cd_delivery cd)"
    using g r cl l first by (intro exI [of _ "del_id d"] exI [of _ d] exI [of _ r]) (simp add: delivery_view_def)
qed

lemma publish_release_Inr:
  assumes "publish_release e d released s = Inr (t, p)"
  obtains v c pub h where "t = record_event e v (source_workspace p) (dep_app p) (s\<lparr>sn_catalog := c\<rparr>)"
    "validate_event v" "env_type v = release_published_type" "decode_published v = Inr pub"
    "map_of (cat_active c) (deployment_key (source_workspace p) (dep_app p)) = Some (rp_release pub)"
    "rp_app pub = dep_app p" "rp_commit pub = dep_commit p" "rp_workspace pub = source_workspace p"
    "cat_history c = cat_history (sn_catalog s) @ [h]" "hist_id h = rp_release pub" "hist_app h = dep_app p"
    "hist_commit h = dep_commit p" "hist_workspace h = source_workspace p" "\<not> blank (rp_release pub)"
    "p = ensure_deployment_updated_at (normalize_deployment_defaults d) (non_zero_time (non_zero_time released (clock e)) (clock e))"
proof -
  obtain published h audit where pub: "prepare_publication e d (non_zero_time released (clock e)) = (published, h, audit)"
    by (metis prod_cases3)
  let ?c = "normalize_snapshot (sn_catalog s)"
  let ?key = "deployment_key (source_workspace published) (dep_app published)"
  let ?m = "release_marker published (hist_created_at h)"
  define c where "c = ?c\<lparr>cat_deployments := mput ?key published (cat_deployments ?c), cat_active := mput ?key (hist_id h) (cat_active ?c),
    cat_history := cat_history ?c @ [h], cat_audit := cat_audit ?c @ [audit],
    cat_markers := mput (source_release_key (mark_workspace ?m) (mark_git_source ?m)) ?m (cat_markers ?c)\<rparr>"
  from assms pub obtain v where v: "prepare_release_event e h (latest_release_history ?c (source_workspace published) (dep_app published)) = Inr v"
    and p: "p = published" and t: "t = record_event e v (source_workspace published) (dep_app published) (s\<lparr>sn_catalog := c\<rparr>)"
    unfolding publish_release_def Let_def c_def by (auto split: sum.splits)
  have active: "map_of (cat_active c) ?key = Some (hist_id h)" by (simp add: c_def)
  have h: "hist_workspace h = source_workspace published" "hist_app h = dep_app published" "hist_commit h = dep_commit published"
    "published = ensure_deployment_updated_at (normalize_deployment_defaults d) (non_zero_time (non_zero_time released (clock e)) (clock e))"
    using pub by (auto simp: prepare_publication_def new_deployment_history_def Let_def)
  have n: "normalize_workspace (source_workspace published) = source_workspace published" by (simp add: source_workspace_def)
  note v' = new_release_published_Inr [OF v [unfolded prepare_release_event_def]]
  then have "\<exists>pub. decode_published v = Inr pub \<and> rp_workspace pub = normalize_workspace (hist_workspace h)
      \<and> rp_app pub = hist_app h \<and> rp_release pub = hist_id h \<and> rp_commit pub = hist_commit h"
    by simp
  then obtain pub where pub: "decode_published v = Inr pub" "rp_workspace pub = normalize_workspace (hist_workspace h)"
    "rp_app pub = hist_app h" "rp_release pub = hist_id h" "rp_commit pub = hist_commit h" by blast
  have "\<not> blank (rp_release pub)"
    using v' pub(1) by (auto simp: validate_event_def validate_published_def)
  then show thesis
    by (rule that [OF t [folded p], of pub h, rotated -2]) (use v' active pub h(1-3) h(4) [folded p] n p in \<open>simp_all add: c_def\<close>)
qed

text \<open>C14. Publishing notifies, in the write that makes the release active: the stored event is valid and
carries the identifier under which the release is now the last entry of the history and the active one of
its app, with the commit, app and workspace published; every subscription of the workspace that is enabled,
not deleted and asks for the event and the app gets exactly one new delivery and no other one does, the
new deliveries are pending and due at once, and the deliveries there were stay as they are.\<close>

theorem publish_notifies:
  assumes "reachable webhook_start (webhook_step net C) s"
    and "local_publish_release e d released s = Inr (t, p)"
    and "fresh_deliveries e s" and "inj (draw_id e ''whd'')"
  shows "\<exists>v pub. map_of (sn_control_events t) (env_id v) = Some v \<and> validate_event v
    \<and> decode_published v = Inr pub \<and> rp_commit pub = dep_commit p \<and> rp_app pub = dep_app p
    \<and> rp_workspace pub = source_workspace p
    \<and> map_of (cat_active (sn_catalog t)) (deployment_key (source_workspace p) (dep_app p)) = Some (rp_release pub)
    \<and> (\<exists>h. cat_history (sn_catalog t) = cat_history (sn_catalog s) @ [h] \<and> hist_id h = rp_release pub
        \<and> hist_workspace h = source_workspace p \<and> hist_app h = dep_app p \<and> hist_commit h = dep_commit p)
    \<and> (\<forall>sid. (\<exists>!k. \<exists>d. map_of (sn_deliveries t) k = Some d \<and> map_of (sn_deliveries s) k = None \<and> del_subscription d = sid)
        \<longleftrightarrow> (\<exists>r \<in> set (matching_subscriptions s (source_workspace p) release_published_type (dep_app p)). sr_id r = sid))
    \<and> (\<forall>k d. map_of (sn_deliveries t) k = Some d \<longrightarrow>
        map_of (sn_deliveries s) k = Some d \<or> del_event d = env_id v \<and> del_state d = DeliveryPending
          \<and> del_attempt d = 0 \<and> del_next_attempt_at d = clock e
          \<and> (\<exists>r \<in> set (matching_subscriptions s (source_workspace p) release_published_type (dep_app p)). sr_id r = del_subscription d))
    \<and> (\<forall>k d. map_of (sn_deliveries s) k = Some d \<longrightarrow> map_of (sn_deliveries t) k = Some d)"
proof -
  have ok: "webhooks_ok s" by (rule webhooks.reachable_good [OF assms(1)])
  from assms(2) obtain u where "publish_release e d released (ensure_snapshot e s) = Inr (u, p)" and t: "t = ensure_snapshot e u"
    unfolding local_publish_release_def by (rule local_step)
  then show ?thesis
  proof (elim publish_release_Inr)
    fix v c pub h
    let ?s = "(ensure_snapshot e s)\<lparr>sn_catalog := c\<rparr>"
    let ?M = "matching_subscriptions s (source_workspace p) release_published_type (dep_app p)"
    assume u: "u = record_event e v (source_workspace p) (dep_app p) ?s" and v: "validate_event v" "env_type v = release_published_type"
      "decode_published v = Inr pub" "rp_app pub = dep_app p" "rp_commit pub = dep_commit p" "rp_workspace pub = source_workspace p"
      and c: "map_of (cat_active c) (deployment_key (source_workspace p) (dep_app p)) = Some (rp_release pub)"
        "cat_history c = cat_history (sn_catalog (ensure_snapshot e s)) @ [h]" "\<not> blank (rp_release pub)"
      and h: "hist_id h = rp_release pub" "hist_app h = dep_app p" "hist_commit h = dep_commit p" "hist_workspace h = source_workspace p"
    have cat: "map_of (cat_active (sn_catalog t)) (deployment_key (source_workspace p) (dep_app p)) = Some (rp_release pub)"
      "cat_history (sn_catalog t) = cat_history (sn_catalog s) @ [h]"
      using c by (simp_all add: t u cat_active_normalize mget_or_def blank_def)
    have ok': "webhooks_ok ?s" "fresh_deliveries e ?s" using ok assms(3) by simp_all
    have m: "matching_subscriptions ?s w ty app = matching_subscriptions s w ty app" for w ty app
      by (simp add: matching_subscriptions_def)
    note add = record_event_adds [OF ok' assms(4) u, unfolded m v(2)]
    have view: "delivery_view u = map_of (sn_deliveries t)" "delivery_view ?s = map_of (sn_deliveries s)"
      by (simp_all add: t delivery_view_def)
    have sub: "\<exists>r \<in> set ?M. sr_id r = del_subscription d" if "map_of (sn_deliveries t) k = Some d" "map_of (sn_deliveries s) k = None" for k d
      using record_event_view [OF assms(4), of v "source_workspace p" "dep_app p" ?s k d, folded u, unfolded m v(2) view] that
      by (auto intro!: bexI nth_mem)
    have old: "map_of (sn_deliveries t) k = map_of (sn_deliveries s) k" if "map_of (sn_deliveries s) k \<noteq> None" for k
      using that add(1) unfolding view by auto
    have "map_of (sn_control_events t) (env_id v) = Some v" by (simp add: t u record_event_events)
    then show ?thesis using v cat h add(1-3) sub old unfolding view
      by (intro exI [of _ v] exI [of _ pub] conjI allI impI) (assumption | metis not_Some_eq)+
  qed
qed

text \<open>C15. The catalog of the store refines the file catalog: in every reachable store it is a catalog that
\<^verbatim>\<open>FileCatalog\<close> can reach by the same publications, rollbacks, overrides, candidates, audit records and
imports, each call to the store being one step, and reads of the store answer what the file catalog
answers.\<close>

theorem store_catalog_refines_file_catalog:
  assumes "reachable webhook_start release_step s"
  shows "catalog_reachable (sn_catalog s)
    \<and> (\<forall>t. release_step s t \<longrightarrow> catalog_step\<^sup>=\<^sup>= (sn_catalog s) (sn_catalog t))
    \<and> (\<forall>w app. get_deployment_for_workspace s w app =
        (case file_get_deployment w app (sn_catalog s) of Inl err \<Rightarrow> Inl (CatalogFailure err) | Inr d \<Rightarrow> Inr d))
    \<and> (\<forall>w g commit. get_release_candidate s w g commit =
        (case file_get_release_candidate w g commit (sn_catalog s) of Inl err \<Rightarrow> Inl (CatalogFailure err) | Inr c \<Rightarrow> Inr c))
    \<and> (\<forall>w g. get_latest_release_candidate s w g =
        (case file_get_latest_release_candidate w g (sn_catalog s) of Inl err \<Rightarrow> Inl (CatalogFailure err) | Inr c \<Rightarrow> Inr c))"
proof -
  have inv: "catalog_inv (sn_catalog s)" by (rule store_catalog.reachable_good [OF assms])
  show ?thesis
    using release_reachable_catalog [OF assms] release_step_refines [OF inv]
    by (auto simp: get_deployment_for_workspace_def file_get_deployment_def get_release_candidate_def
        file_get_release_candidate_def get_latest_release_candidate_def file_get_latest_release_candidate_def
        normalize_snapshot_id [OF inv] Let_def split: option.splits)
qed

section \<open>The properties at the example\<close>

theorem webhooks_consistent_witness:
  "\<exists>(s :: snapshot) d. map_of (sn_deliveries s) ''whd_2'' = Some d \<and> del_lease_owner d = None
    \<and> map_of (sn_subscriptions s) (webhook_subscription_key (del_workspace d) (del_subscription d)) \<noteq> None"
proof -
  obtain s v where r: "reachable webhook_start (webhook_step ex_net ex_vault) s"
    and d: "sn_deliveries s = [(''whd_2'', new_webhook_delivery (wh_at 2) 0 v ''main'' ''whs_1'')]"
    using ex_published by blast
  from d have m: "map_of (sn_deliveries s) ''whd_2'' = Some (new_webhook_delivery (wh_at 2) 0 v ''main'' ''whs_1'')" by simp
  note c = webhooks_consistent [OF r, THEN conjunct1, THEN spec, THEN spec, THEN mp, OF m]
  have "del_lease_owner (new_webhook_delivery (wh_at 2) 0 v ''main'' ''whs_1'') = None"
    by (simp add: new_webhook_delivery_def)
  with m c show ?thesis
    by (intro exI [of _ s] exI [of _ "new_webhook_delivery (wh_at 2) 0 v ''main'' ''whs_1''"]) blast
qed

theorem delivery_lease_fenced_witness:
  "\<exists>(cd :: claimed_delivery) s t. local_complete_delivery (wh_at 4) (cd_lease cd) ex_sent s = Inr (t, ())
    \<and> (\<forall>e res u. local_complete_delivery e (cd_lease cd) res t \<noteq> Inr (u, ()))"
proof -
  obtain s t cd u where r: "reachable webhook_start (webhook_step ex_net ex_vault) s"
    and c: "local_claim_delivery ex_vault (wh_at 3) ''d1'' 0 s = Inr (t, cd)"
    and u: "local_complete_delivery (wh_at 4) (cd_lease cd) ex_sent t = Inr (u, ())"
    using ex_claim_delivery by blast
  have "settles (cd_lease cd) t u" using u by (auto simp: settles_def)
  note no = delivery_lease_fenced [OF r c rtranclp.rtrancl_refl disjI1 [OF this] rtranclp.rtrancl_refl]
  show ?thesis by (intro exI conjI allI, rule u, rule no)
qed

theorem delivery_claim_takes_first_witness:
  "\<exists>s d. map_of (sn_deliveries s) ''whd_2'' = Some d \<and> claimable_delivery s 3 d
    \<and> local_claim_delivery ex_vault (wh_at 3) ''d1'' 0 s \<noteq> Inl (WebhookFailure NoPendingDelivery)"
proof -
  obtain s a b v where r: "reachable webhook_start (webhook_step ex_net ex_vault) s"
    and s: "sn_subscriptions s = [(''main/whs_1'', subscription_to_record ex_ready a b)]"
      "sn_deliveries s = [(''whd_2'', new_webhook_delivery (wh_at 2) 0 v ''main'' ''whs_1'')]"
    using ex_published by blast
  have c: "claimable_delivery s 3 (new_webhook_delivery (wh_at 2) 0 v ''main'' ''whs_1'')"
    using s(1) by (simp add: claimable_delivery_def subscription_of_def webhook_subscription_key_def ex_trims delivery_eligible_def
        new_webhook_delivery_def subscription_to_record_def ex_ready_def ex_sub_def)
  have "trim_space ''d1'' \<noteq> ''''" by (simp add: ex_trims)
  from delivery_claim_takes_first [OF r this, of "wh_at 3" 0] s c show ?thesis by fastforce
qed

theorem publish_notifies_witness:
  "\<exists>s t p. local_publish_release (wh_at 2) (ex_deployment ''c1'') 0 s = Inr (t, p)
    \<and> (\<exists>!k. \<exists>d. map_of (sn_deliveries t) k = Some d \<and> map_of (sn_deliveries s) k = None \<and> del_subscription d = ''whs_1'')"
proof -
  obtain s t a b p where r: "reachable webhook_start (webhook_step ex_net ex_vault) s"
    and t: "local_publish_release (wh_at 2) (ex_deployment ''c1'') 0 s = Inr (t, p)" "fresh_deliveries (wh_at 2) s"
      "source_workspace p = ''main''" "dep_app p = ''crawler''"
      "matching_subscriptions s ''main'' release_published_type ''crawler'' = [subscription_to_record ex_ready a b]"
    using ex_published by blast
  have id: "sr_id (subscription_to_record ex_ready a b) = ''whs_1''" by (simp add: subscription_to_record_def ex_ready_def)
  from publish_notifies [OF r t(1,2) wh_at_inj] t(3-5)
  have "\<exists>!k. \<exists>d. map_of (sn_deliveries t) k = Some d \<and> map_of (sn_deliveries s) k = None
      \<and> del_subscription d = ''whs_1''"
    by (elim exE conjE) (simp add: id)
  with t(1) show ?thesis by blast
qed

theorem store_catalog_refines_file_catalog_witness:
  "catalog_reachable (sn_catalog (new_snapshot (wh_at 0)))"
  using store_catalog_refines_file_catalog [OF wh_start] by blast

end
