(* ===== verification/Dispatcher_Properties.thy ===== *)
theory Dispatcher_Properties
  imports Dispatcher Webhook_Properties
begin

text \<open>
  The properties of sending: the delay before the next attempt, what one iteration of the dispatcher
  does to the store, that the deliveries drain, and what a verified signature proves.
\<close>

section \<open>The delay\<close>

lemma backoff_loop_eq:
  assumes "0 < delay" and "delay \<le> maximum" and "maximum < 2 ^ 63"
  shows "backoff_loop count att maximum delay = min maximum (delay * 2 ^ nat (att - count))"
  using assms
proof (induction count att maximum delay rule: backoff_loop.induct)
  case (1 count att maximum delay)
  show ?case
  proof (cases "count < att \<and> delay < maximum")
    case False
    show ?thesis
    proof (cases "count < att")
      case True
      with False 1 have "delay = maximum" by simp
      moreover have "maximum \<le> maximum * 2 ^ nat (att - count)" using 1 by (simp add: mult_le_cancel_left1)
      ultimately show ?thesis using False by (simp add: backoff_loop.simps [of count])
    qed (use False 1 in \<open>simp add: backoff_loop.simps [of count]\<close>)
  next
    case True
    then have pow: "delay * 2 ^ nat (att - count) = delay * 2 * 2 ^ nat (att - (count + 1))"
      by (simp add: mult.assoc power_Suc [symmetric] Suc_nat_eq_nat_zadd1 del: power_Suc)
    show ?thesis
    proof (cases "maximum div 2 < delay")
      case big: True
      have "(1::int) \<le> 2 ^ nat (att - (count + 1))" by simp
      then have "delay * 2 * 1 \<le> delay * 2 * 2 ^ nat (att - (count + 1))"
        using 1 by (intro mult_left_mono) simp_all
      moreover have "maximum < delay * 2" using big by simp
      ultimately have "maximum \<le> delay * 2 ^ nat (att - count)" unfolding pow by simp
      then show ?thesis using True big 1 by (simp add: backoff_loop.simps [of count] sdiv_2)
    next
      case False
      then have le: "delay * 2 \<le> maximum" by simp
      then have w: "wrap64 (delay * 2) = delay * 2" using 1 by (intro wrap64_id) simp_all
      have small: "\<not> maximum sdiv 2 < delay" using False 1 by (simp add: sdiv_2)
      from "1.IH" [OF True small] le 1 show ?thesis
        using True small w pow by (simp add: backoff_loop.simps [of count])
    qed
  qed
qed

lemma jitter_bounds:
  assumes "0 < half" and "half < 2 ^ 62"
  shows "let j = wrap64 (uint (h mod word_of_int (wrap64 (half + 1)) :: 64 word)) in 0 \<le> j \<and> j \<le> half"
proof -
  have w: "wrap64 (half + 1) = half + 1" using assms by (intro wrap64_id) simp_all
  have "uint (word_of_int k :: 64 word) = k" if "0 \<le> k" "k < 2 ^ 64" for k
    using that by (simp add: uint_word_of_int_eq take_bit_int_eq_self)
  from this [of "half + 1"] have u: "uint (word_of_int (half + 1) :: 64 word) = half + 1" using assms by simp
  have m: "uint (h mod word_of_int (half + 1)) = uint h mod (half + 1)" unfolding uint_mod_distrib u ..
  have lo: "0 \<le> uint h mod (half + 1)" using assms by simp
  have "uint h mod (half + 1) < half + 1" using assms by (intro pos_mod_bound) simp
  then have hi: "uint h mod (half + 1) \<le> half" by linarith
  have "wrap64 (uint h mod (half + 1)) = uint h mod (half + 1)"
    by (rule wrap64_id) (rule order_trans [OF _ lo], simp, rule le_less_trans [OF hi], use assms in simp)
  with m lo hi show ?thesis by (simp add: w Let_def)
qed

text \<open>The delay the loop is to compute, in numbers that do not overflow.\<close>

definition ideal_delay :: "duration \<Rightarrow> duration \<Rightarrow> int \<Rightarrow> int" where
  "ideal_delay base maximum att =
    (let b = (if base \<le> 0 then default_backoff_base else base);
         m = (if maximum \<le> 0 then default_backoff_max else maximum)
     in min m (b * 2 ^ nat (att - 1)))"

text \<open>The delay before a retry is exponential with jitter and never overflows: for every base and maximum
of 64 bits, every attempt and every seed it lies between half of and the whole of
\<^verbatim>\<open>min(maximum, base * 2^(attempt-1))\<close>, so it is positive and at most the maximum.\<close>

theorem retry_delay_bounds:
  assumes "base < 2 ^ 63" and "maximum < 2 ^ 63"
  shows "ideal_delay base maximum att div 2 \<le> retry_delay base maximum att seed
    \<and> retry_delay base maximum att seed \<le> ideal_delay base maximum att \<and> 0 < retry_delay base maximum att seed"
proof -
  define b where "b = (if base \<le> 0 then default_backoff_base else base)"
  define m where "m = (if maximum \<le> 0 then default_backoff_max else maximum)"
  define b' where "b' = (if m < b then m else b)"
  define n where "n = (if att < 1 then 1 else att)"
  have pos: "0 < b" "0 < m" "m < 2 ^ 63" "0 < b'" "b' \<le> m"
    using assms by (auto simp: b_def m_def b'_def dispatcher_defaults)
  have exp: "nat (n - 1) = nat (att - 1)" by (simp add: n_def)
  have "min m (b' * 2 ^ k) = min m (b * 2 ^ k)" for k :: nat
  proof (cases "m < b")
    case True
    have "m * 1 \<le> m * 2 ^ k" "b * 1 \<le> b * 2 ^ k" using pos by (intro mult_left_mono; simp)+
    with True show ?thesis by (simp add: b'_def)
  qed (simp add: b'_def)
  then have loop: "backoff_loop 1 n m b' = ideal_delay base maximum att"
    unfolding backoff_loop_eq [OF pos(4,5,3)] exp ideal_delay_def Let_def b_def [symmetric] m_def [symmetric] .
  define d where "d = ideal_delay base maximum att"
  have "0 < b * 2 ^ nat (att - 1)" using pos by simp
  then have d: "0 < d" "d \<le> m" using pos unfolding d_def ideal_delay_def Let_def b_def [symmetric] m_def [symmetric] by simp_all
  have r: "retry_delay base maximum att seed = (if d div 2 = 0 then d else wrap64 (d div 2 +
      wrap64 (uint (fnv64a (seed @ ''/'' @ itoa n) mod word_of_int (wrap64 (d div 2 + 1))))))"
    using d unfolding retry_delay_def Let_def b_def [symmetric] m_def [symmetric] b'_def [symmetric] n_def [symmetric]
      loop d_def [symmetric]
    by (simp add: sdiv_2)
  show ?thesis
  proof (cases "d div 2 = 0")
    case True
    with d r show ?thesis by (simp add: d_def [symmetric])
  next
    case False
    have half: "0 < d div 2" "d div 2 < 2 ^ 62" using False d pos by auto
    define j where "j = wrap64 (uint (fnv64a (seed @ ''/'' @ itoa n) mod word_of_int (wrap64 (d div 2 + 1))))"
    have j: "0 \<le> j" "j \<le> d div 2" using jitter_bounds [OF half] by (simp_all add: j_def Let_def)
    have "wrap64 (d div 2 + j) = d div 2 + j" using j half by (intro wrap64_id) simp_all
    with r False have "retry_delay base maximum att seed = d div 2 + j" by (simp add: j_def)
    with j half d show ?thesis unfolding d_def [symmetric] by simp
  qed
qed

theorem retry_delay_bounds_witness:
  "seconds 10 \<le> retry_delay (seconds 5) (seconds 60) 3 ''whd_1'' \<and> retry_delay (seconds 5) (seconds 60) 3 ''whd_1'' \<le> seconds 20"
  using retry_delay_bounds [of "seconds 5" "seconds 60" 3 "''whd_1''"]
  by (simp add: ideal_delay_def seconds_def Let_def)

section \<open>One iteration\<close>

definition dispatcher_ok :: "dispatcher \<Rightarrow> bool" where
  "dispatcher_ok d \<longleftrightarrow> trim_space (dsp_worker d) \<noteq> '''' \<and> 0 < dsp_lease_ttl d \<and> 0 < dsp_max_attempts d
     \<and> 0 < dsp_backoff_base d \<and> dsp_backoff_base d < 2 ^ 63 \<and> 0 < dsp_backoff_max d \<and> dsp_backoff_max d < 2 ^ 63"

lemma defaults_ok:
  assumes "dsp_backoff_base d < 2 ^ 63" and "dsp_backoff_max d < 2 ^ 63"
  shows "dispatcher_ok (apply_defaults hostname pid d)"
proof -
  let ?w = "''webhook-'' @ first_non_blank [hostname, ''dispatcher''] @ ''-'' @ itoa pid"
  have "itoa pid \<noteq> []" "is_digit (last (itoa pid))" by (simp_all add: itoa_def digits_hd)
  then have "graphic (hd ?w)" "graphic (last ?w)" using is_digit_graphic by (simp_all add: graphic_def)
  then have "trim_space ?w = ?w" by (intro trim_space_graphic) simp
  then show ?thesis
    using assms by (simp add: dispatcher_ok_def apply_defaults_def dispatcher_defaults)
qed

lemma delivery_result_cases:
  assumes "dispatcher_ok d"
  shows "att_outcome att = AttemptSucceeded \<Longrightarrow> dr_state (delivery_result_of d now cd att) = DeliverySucceeded
      \<and> dr_completed_at (delivery_result_of d now cd att) = now"
    and "att_outcome att \<noteq> AttemptSucceeded \<Longrightarrow>
      \<not> (att_outcome att = AttemptRetry \<and> del_attempt (cd_delivery cd) < dsp_max_attempts d) \<Longrightarrow>
      dr_state (delivery_result_of d now cd att) = DeliveryFailed \<and> dr_completed_at (delivery_result_of d now cd att) = now"
    and "att_outcome att = AttemptRetry \<Longrightarrow> del_attempt (cd_delivery cd) < dsp_max_attempts d \<Longrightarrow>
      dr_state (delivery_result_of d now cd att) = DeliveryRetrying
      \<and> now \<le> dr_next_attempt_at (delivery_result_of d now cd att)
      \<and> dr_next_attempt_at (delivery_result_of d now cd att) \<le> now + dsp_backoff_max d"
proof -
  show "att_outcome att = AttemptSucceeded \<Longrightarrow> dr_state (delivery_result_of d now cd att) = DeliverySucceeded
      \<and> dr_completed_at (delivery_result_of d now cd att) = now"
    by (simp add: delivery_result_of_def Let_def)
  show "att_outcome att \<noteq> AttemptSucceeded \<Longrightarrow>
      \<not> (att_outcome att = AttemptRetry \<and> del_attempt (cd_delivery cd) < dsp_max_attempts d) \<Longrightarrow>
      dr_state (delivery_result_of d now cd att) = DeliveryFailed \<and> dr_completed_at (delivery_result_of d now cd att) = now"
    by (cases "att_outcome att") (simp_all add: delivery_result_of_def Let_def)
  assume a: "att_outcome att = AttemptRetry" "del_attempt (cd_delivery cd) < dsp_max_attempts d"
  then obtain x where "delivery_result_of d now cd att = \<lparr>dr_state = DeliveryRetrying,
      dr_next_attempt_at = now + (if (if dsp_backoff_max d < x then dsp_backoff_max d else x) < 0 then 0
        else if dsp_backoff_max d < x then dsp_backoff_max d else x),
      dr_response_status = att_status att, dr_latency_ms = Some (att_latency att sdiv 1000000),
      dr_error_summary = (if att_error att = '''' then None else Some (att_error att)), dr_completed_at = 0\<rparr>"
    unfolding delivery_result_of_def Let_def by simp
  then show "dr_state (delivery_result_of d now cd att) = DeliveryRetrying
      \<and> now \<le> dr_next_attempt_at (delivery_result_of d now cd att)
      \<and> dr_next_attempt_at (delivery_result_of d now cd att) \<le> now + dsp_backoff_max d"
    using assms by (simp add: dispatcher_ok_def)
qed

lemma delivery_result_ok:
  assumes d: "dispatcher_ok d" and now: "0 < now"
  shows "validate_delivery_result (delivery_result_of d now cd att)"
proof -
  consider "att_outcome att = AttemptSucceeded" | "att_outcome att = AttemptRetry \<and> del_attempt (cd_delivery cd) < dsp_max_attempts d"
    | "att_outcome att \<noteq> AttemptSucceeded" "\<not> (att_outcome att = AttemptRetry \<and> del_attempt (cd_delivery cd) < dsp_max_attempts d)"
    by blast
  then show ?thesis
    using delivery_result_cases [OF d, where att = att and now = now and cd = cd] now by cases (auto simp: validate_delivery_result_def)
qed

lemma complete_after_claim:
  assumes r: "webhooks_ok s" and c: "local_claim_delivery C e worker ttl s = Inr (t, cd)" and v: "validate_delivery_result res"
  shows "\<exists>u. local_complete_delivery e' (cd_lease cd) res t = Inr (u, ())
    \<and> delivery_view u = (delivery_view s)(dl_delivery (cd_lease cd) \<mapsto>
        completed_delivery e' res (the (subscription_of s (cd_delivery cd))) (cd_delivery cd))
    \<and> sn_subscriptions u = sn_subscriptions s"
proof -
  have okt: "webhooks_ok t" by (rule webhooks.step_good [OF r webhook_claim [OF c]])
  obtain d where g: "validate_delivery_lease (cd_delivery cd) (cd_lease cd)"
    "delivery_view t = (delivery_view s)(dl_delivery (cd_lease cd) \<mapsto> cd_delivery cd)"
    using claim_delivery_grants [OF r c] by blast
  have v': "delivery_view t (dl_delivery (cd_lease cd)) = Some (cd_delivery cd)" using g by simp
  have sub: "sn_subscriptions t = sn_subscriptions s"
    using c by (auto simp: local_claim_delivery_def fail_webhook_def update_Inr split: if_splits elim!: claim_delivery_Inr)
  then have same: "subscription_of t = subscription_of s" by (simp add: subscription_of_def fun_eq_iff)
  obtain r' where r': "subscription_of t (cd_delivery cd) = Some r'" using webhooks_okD(4) [OF okt v'] by blast
  have id: "del_id (cd_delivery cd) = dl_delivery (cd_lease cd)" by (rule webhooks_okD(1) [OF okt v'])
  have "complete_delivery e' (cd_lease cd) res (ensure_snapshot e' t)
      = Inr (put_delivery (completed_delivery e' res r' (cd_delivery cd)) (ensure_snapshot e' t), ())"
    using complete_delivery_Inr [of e' "cd_lease cd" res "ensure_snapshot e' t"] g(1) v' r' by auto
  with v r' show ?thesis
    by (simp add: local_complete_delivery_def update_def g(2) same [symmetric] sub id fun_eq_iff)
qed

lemma claimed_fields:
  assumes c: "local_claim_delivery C e worker ttl s = Inr (t, cd)" and d: "select_delivery s (clock e) = Some d"
  shows "del_workspace (cd_delivery cd) = del_workspace d" and "del_subscription (cd_delivery cd) = del_subscription d"
proof -
  have sel: "select_delivery (ensure_snapshot e s) (clock e) = select_delivery s (clock e)"
    by (simp add: select_delivery_def claimable_delivery_def)
  from c obtain ttl' u where "claim_delivery C e (trim_space worker) ttl' (ensure_snapshot e s) = Inr (u, cd)"
    by (auto simp: local_claim_delivery_def fail_webhook_def update_Inr split: if_splits)
  then show "del_workspace (cd_delivery cd) = del_workspace d" "del_subscription (cd_delivery cd) = del_subscription d"
    by (elim claim_delivery_Inr, simp add: sel d)+
qed

lemma claimed_live:
  assumes ok: "webhooks_ok s" and c: "local_claim_delivery C e worker ttl s = Inr (t, cd)"
  shows "sr_deleted_at (the (subscription_of s (cd_delivery cd))) = None"
proof -
  obtain d where d: "select_delivery s (clock e) = Some d"
    using claim_delivery_grants [OF ok c] by blast
  have cl: "claimable_delivery s (clock e) d"
    using select_delivery_mem [OF _ d] ok by (simp add: webhooks_ok_def deliveries_ok_def)
  have "subscription_of s (cd_delivery cd) = subscription_of s d"
    by (simp add: subscription_of_def claimed_fields [OF c d])
  with cl show ?thesis by (auto simp: claimable_delivery_def delivery_eligible_def split: option.splits)
qed

text \<open>When the subscriptions decrypt, a claim fails only because nothing is claimable.\<close>

lemma claim_fails_idle:
  assumes ok: "webhooks_ok s" and d: "dispatcher_ok dsp"
    and dec: "\<forall>k r. map_of (sn_subscriptions s) k = Some r \<longrightarrow> \<not> isl (local_subscription C r)"
    and c: "local_claim_delivery C e (dsp_worker dsp) (dsp_lease_ttl dsp) s = Inl err"
  shows "\<not> (\<exists>k d. map_of (sn_deliveries s) k = Some d \<and> claimable_delivery s (clock e) d) \<and> err = WebhookFailure NoPendingDelivery"
proof -
  have m: "map_ok (sn_deliveries s)" using ok by (simp add: webhooks_ok_def deliveries_ok_def)
  have sel0: "select_delivery (ensure_snapshot e s) (clock e) = select_delivery s (clock e)"
    by (simp add: select_delivery_def claimable_delivery_def)
  have "select_delivery s (clock e) = None \<and> err = WebhookFailure NoPendingDelivery"
  proof (cases "select_delivery s (clock e)")
    case None
    with c d show ?thesis by (simp add: local_claim_delivery_def dispatcher_ok_def update_def claim_delivery_def sel0 fail_webhook_def)
  next
    case (Some x)
    obtain k where k: "delivery_view s k = Some x" using select_delivery_mem [OF m Some] by blast
    obtain r where r: "subscription_of s x = Some r" using webhooks_okD(4) [OF ok k] by blast
    then have "\<not> isl (local_subscription C r)" using dec by (simp add: subscription_of_def)
    then obtain sub where "local_subscription C r = Inr sub" by (metis sum.collapse(2))
    with Some r webhooks_okD(3) [OF ok k] c d show ?thesis
      by (auto simp: local_claim_delivery_def dispatcher_ok_def update_def claim_delivery_def sel0 Let_def)
  qed
  then show ?thesis using select_delivery_first [OF m, of _ _ "clock e"]
    unfolding delivery_view_def by (metis option.distinct(1))
qed

text \<open>What is left of a delivery the dispatcher attempted.\<close>

definition attempted :: "dispatcher \<Rightarrow> time \<Rightarrow> delivery \<Rightarrow> delivery \<Rightarrow> bool" where
  "attempted dsp now d d' \<longleftrightarrow> del_attempt d' = del_attempt d + 1 \<and> del_lease_owner d' = None
     \<and> del_workspace d' = del_workspace d \<and> del_subscription d' = del_subscription d
     \<and> (del_state d' = DeliverySucceeded \<or> del_state d' = DeliveryFailed
        \<or> del_state d' = DeliveryRetrying \<and> del_attempt d' < dsp_max_attempts dsp
            \<and> now \<le> del_next_attempt_at d' \<and> del_next_attempt_at d' \<le> now + dsp_backoff_max dsp)"

text \<open>What one iteration does to the store.\<close>

lemma process_one_effect:
  assumes ok: "webhooks_ok s" and dsp: "dispatcher_ok dsp" and now: "0 < itn_now i"
    and dec: "\<forall>k r. map_of (sn_subscriptions s) k = Some r \<longrightarrow> \<not> isl (local_subscription C r)"
  obtains (idle) "process_one C dsp i s = (s, False, None)"
      "\<not> (\<exists>k d. map_of (sn_deliveries s) k = Some d \<and> claimable_delivery s (clock (itn_claim i)) d)"
  | (worked) u k d d' where "process_one C dsp i s = (u, True, None)" "map_of (sn_deliveries s) k = Some d"
      "claimable_delivery s (clock (itn_claim i)) d" "map_of (sn_deliveries u) = (map_of (sn_deliveries s))(k \<mapsto> d')"
      "attempted dsp (itn_now i) d d'" "webhooks_ok u" "sn_subscriptions u = sn_subscriptions s"
proof (cases "local_claim_delivery C (itn_claim i) (dsp_worker dsp) (dsp_lease_ttl dsp) s")
  case (Inl err)
  from claim_fails_idle [OF ok dsp dec Inl] Inl show ?thesis by (intro idle) (auto simp: process_one_def)
next
  case (Inr p)
  obtain t cd where "p = (t, cd)" by (cases p)
  with Inr have c: "local_claim_delivery C (itn_claim i) (dsp_worker dsp) (dsp_lease_ttl dsp) s = Inr (t, cd)" by simp
  let ?res = "delivery_result_of dsp (itn_now i) cd (itn_send i cd)"
  obtain d where g: "delivery_view s (dl_delivery (cd_lease cd)) = Some d" "select_delivery s (clock (itn_claim i)) = Some d"
    "del_attempt (cd_delivery cd) = del_attempt d + 1"
    using claim_delivery_grants [OF ok c] by blast
  note fields = claimed_fields [OF c g(2)]
  have cl: "claimable_delivery s (clock (itn_claim i)) d"
    using select_delivery_mem [OF _ g(2)] ok by (simp add: webhooks_ok_def deliveries_ok_def)
  obtain u where u: "local_complete_delivery (itn_complete i) (cd_lease cd) ?res t = Inr (u, ())"
    "delivery_view u = (delivery_view s)(dl_delivery (cd_lease cd) \<mapsto>
      completed_delivery (itn_complete i) ?res (the (subscription_of s (cd_delivery cd))) (cd_delivery cd))"
    "sn_subscriptions u = sn_subscriptions s"
    using complete_after_claim [OF ok c delivery_result_ok [OF dsp now]] by blast
  let ?d' = "completed_delivery (itn_complete i) ?res (the (subscription_of s (cd_delivery cd))) (cd_delivery cd)"
  have live: "sr_deleted_at (the (subscription_of s (cd_delivery cd))) = None" by (rule claimed_live [OF ok c])
  consider "att_outcome (itn_send i cd) = AttemptSucceeded"
    | "att_outcome (itn_send i cd) = AttemptRetry" "del_attempt (cd_delivery cd) < dsp_max_attempts dsp"
    | "att_outcome (itn_send i cd) \<noteq> AttemptSucceeded"
      "\<not> (att_outcome (itn_send i cd) = AttemptRetry \<and> del_attempt (cd_delivery cd) < dsp_max_attempts dsp)"
    by blast
  then have at: "attempted dsp (itn_now i) d ?d'"
    using delivery_result_cases [OF dsp, where att = "itn_send i cd" and now = "itn_now i" and cd = cd] live g(3) fields
    by cases (simp_all add: attempted_def completed_delivery_def)
  have "webhooks_ok u"
    by (rule webhooks.step_good [OF webhooks.step_good [OF ok webhook_claim [OF c]] webhook_complete [OF u(1)]])
  with c u(1,3) at g(1) cl u(2) show ?thesis
    by (intro worked [of u "dl_delivery (cd_lease cd)" d ?d']) (simp_all add: process_one_def delivery_view_def)
qed

text \<open>One iteration of the dispatcher attempts one delivery and settles the attempt: in a reachable store
whose subscriptions decrypt it is idle exactly when no delivery is claimable, and otherwise exactly one
claimable delivery changes, has one attempt more and no lease, and succeeded, failed, or waits for a
retry that is at most the maximal delay away and is not the last attempt.\<close>

theorem process_one_attempts:
  assumes "reachable webhook_start (webhook_step net C) s" and "dispatcher_ok dsp" and "0 < itn_now i"
    and "\<forall>k r. map_of (sn_subscriptions s) k = Some r \<longrightarrow> \<not> isl (local_subscription C r)"
  shows "if \<exists>k d. map_of (sn_deliveries s) k = Some d \<and> claimable_delivery s (clock (itn_claim i)) d
    then \<exists>u k d d'. process_one C dsp i s = (u, True, None) \<and> map_of (sn_deliveries s) k = Some d
      \<and> claimable_delivery s (clock (itn_claim i)) d \<and> map_of (sn_deliveries u) = (map_of (sn_deliveries s))(k \<mapsto> d')
      \<and> attempted dsp (itn_now i) d d'
    else process_one C dsp i s = (s, False, None)"
  by (rule process_one_effect [OF webhooks.reachable_good [OF assms(1)] assms(2-4)]) auto

definition ex_dispatcher :: dispatcher where
  "ex_dispatcher = \<lparr>dsp_worker = ''d1'', dsp_lease_ttl = seconds 30, dsp_max_attempts = 8, dsp_backoff_base = seconds 5,
     dsp_backoff_max = seconds 60\<rparr>"

definition ex_iteration :: "time \<Rightarrow> attempt_outcome \<Rightarrow> iteration" where
  "ex_iteration t outcome = \<lparr>itn_claim = wh_at t, itn_send = (\<lambda>_. attempt outcome 5000000 ''''),
     itn_now = t + 1, itn_complete = wh_at (t + 2)\<rparr>"

lemma ex_dispatcher_ok: "dispatcher_ok ex_dispatcher"
  by (simp add: dispatcher_ok_def ex_dispatcher_def ex_trims seconds_def)

lemma ex_iteration_simps [simp]: "clock (itn_claim (ex_iteration t c)) = t" "itn_now (ex_iteration t c) = t + 1"
  "itn_send (ex_iteration t c) = (\<lambda>_. attempt c 5000000 '''')" "clock (itn_complete (ex_iteration t c)) = t + 2"
  by (simp_all add: ex_iteration_def)

text \<open>The published store, as the dispatcher finds it.\<close>

lemma ex_due_record:
  "\<exists>s d a b. reachable webhook_start (webhook_step ex_net ex_vault) s
    \<and> (\<forall>k r. map_of (sn_subscriptions s) k = Some r \<longrightarrow> \<not> isl (local_subscription ex_vault r))
    \<and> sn_deliveries s = [(''whd_2'', d)] \<and> claimable_delivery s 3 d \<and> del_attempt d = 0 \<and> is_enc a
    \<and> map_of (sn_subscriptions s) (webhook_subscription_key (del_workspace d) (del_subscription d))
        = Some (subscription_to_record ex_ready a b)"
proof -
  obtain s a b v where s: "reachable webhook_start (webhook_step ex_net ex_vault) s"
    "sn_subscriptions s = [(''main/whs_1'', subscription_to_record ex_ready a b)]"
    "local_subscription ex_vault (subscription_to_record ex_ready a b) = Inr ex_ready"
    "sn_deliveries s = [(''whd_2'', new_webhook_delivery (wh_at 2) 0 v ''main'' ''whs_1'')]" "is_enc a"
    using ex_published by blast
  let ?d = "new_webhook_delivery (wh_at 2) 0 v ''main'' ''whs_1''"
  have k: "webhook_subscription_key ''main'' ''whs_1'' = ''main/whs_1''" by (simp add: webhook_subscription_key_def ex_trims)
  have "claimable_delivery s 3 ?d"
    using s(2) k by (simp add: claimable_delivery_def subscription_of_def new_webhook_delivery_def ex_trims delivery_eligible_def
        subscription_to_record_def ex_ready_def ex_sub_def)
  moreover have "\<forall>k r. map_of (sn_subscriptions s) k = Some r \<longrightarrow> \<not> isl (local_subscription ex_vault r)"
    using s(2,3) by simp
  moreover have "del_attempt ?d = 0" by (simp add: new_webhook_delivery_def)
  moreover have "map_of (sn_subscriptions s) (webhook_subscription_key (del_workspace ?d) (del_subscription ?d))
      = Some (subscription_to_record ex_ready a b)"
    using s(2) k by (simp add: new_webhook_delivery_def ex_trims)
  ultimately show ?thesis using s(1,4,5) by blast
qed

lemma ex_due:
  "\<exists>s d. reachable webhook_start (webhook_step ex_net ex_vault) s
    \<and> (\<forall>k r. map_of (sn_subscriptions s) k = Some r \<longrightarrow> \<not> isl (local_subscription ex_vault r))
    \<and> sn_deliveries s = [(''whd_2'', d)] \<and> claimable_delivery s 3 d \<and> del_attempt d = 0"
  using ex_due_record by blast

theorem process_one_attempts_witness:
  "\<exists>s u d d'. process_one ex_vault ex_dispatcher (ex_iteration 3 AttemptRetry) s = (u, True, None)
    \<and> map_of (sn_deliveries s) ''whd_2'' = Some d \<and> map_of (sn_deliveries u) ''whd_2'' = Some d' \<and> attempted ex_dispatcher 4 d d'"
proof -
  obtain s d where s: "reachable webhook_start (webhook_step ex_net ex_vault) s"
    "\<forall>k r. map_of (sn_subscriptions s) k = Some r \<longrightarrow> \<not> isl (local_subscription ex_vault r)"
    "sn_deliveries s = [(''whd_2'', d)]" "claimable_delivery s 3 d"
    using ex_due by blast
  from process_one_attempts [OF s(1) ex_dispatcher_ok _ s(2), of "ex_iteration 3 AttemptRetry"] s(3,4)
  obtain u d' where u: "process_one ex_vault ex_dispatcher (ex_iteration 3 AttemptRetry) s = (u, True, None)"
    "map_of (sn_deliveries u) = [''whd_2'' \<mapsto> d']" "attempted ex_dispatcher 4 d d'"
    by (auto split: if_splits)
  then have "map_of (sn_deliveries u) ''whd_2'' = Some d'" by simp
  moreover have "map_of (sn_deliveries s) ''whd_2'' = Some d" by (simp add: s(3))
  ultimately show ?thesis using u by blast
qed

section \<open>The deliveries drain\<close>

text \<open>The attempts a delivery may still get, and their number over a store.\<close>

definition attempts_left :: "dispatcher \<Rightarrow> delivery \<Rightarrow> nat" where
  "attempts_left dsp d = (if delivery_settled (del_state d) then 0 else Suc (nat (dsp_max_attempts dsp - del_attempt d)))"

definition work_left :: "dispatcher \<Rightarrow> snapshot \<Rightarrow> nat" where
  "work_left dsp s = sum_list (map (attempts_left dsp) (mvals (sn_deliveries s)))"

lemma sum_list_mvals:
  "distinct (map fst m) \<Longrightarrow> sum_list (map f (mvals m)) = (\<Sum>k \<in> dom (map_of m). f (the (map_of m k)))"
  for f :: "'v \<Rightarrow> nat"
proof (induction m)
  case (Cons p m)
  have new: "fst p \<notin> dom (map_of m)" using Cons.prems by (simp add: dom_map_of_conv_image_fst)
  have "(\<Sum>k \<in> dom (map_of m). f (the (map_of (p # m) k))) = (\<Sum>k \<in> dom (map_of m). f (the (map_of m k)))"
    using new by (intro sum.cong) auto
  moreover have "dom (map_of (p # m)) = insert (fst p) (dom (map_of m))" by (cases p) (simp add: dom_fun_upd)
  ultimately have "(\<Sum>k \<in> dom (map_of (p # m)). f (the (map_of (p # m) k)))
      = f (snd p) + (\<Sum>k \<in> dom (map_of m). f (the (map_of m k)))"
    using new by (simp only: sum.insert [OF finite_dom_map_of new]) simp
  with Cons show ?case by (simp add: mvals_def del: dom_fun_upd fun_upd_apply map_of.simps)
qed (simp add: mvals_def)

lemma work_left_update:
  assumes "map_ok (sn_deliveries s)" and "map_ok (sn_deliveries u)" and "map_of (sn_deliveries s) k = Some d"
    and "map_of (sn_deliveries u) = (map_of (sn_deliveries s))(k \<mapsto> d')"
  shows "work_left dsp u + attempts_left dsp d = work_left dsp s + attempts_left dsp d'"
proof -
  let ?m = "map_of (sn_deliveries s)"
  have k: "k \<in> dom ?m" "finite (dom ?m)" "dom (?m(k \<mapsto> d')) = dom ?m" using assms(3) by (auto simp: finite_dom_map_of)
  have "work_left dsp u = (\<Sum>x \<in> dom ?m. attempts_left dsp (the ((?m(k \<mapsto> d')) x)))"
    using assms(2,4) k(3) by (simp add: work_left_def sum_list_mvals map_ok_def mkeys_def)
  also have "\<dots> = attempts_left dsp d' + (\<Sum>x \<in> dom ?m - {k}. attempts_left dsp (the (?m x)))"
    using k by (simp add: sum.remove [of "dom ?m" k])
  finally have u: "work_left dsp u = attempts_left dsp d' + (\<Sum>x \<in> dom ?m - {k}. attempts_left dsp (the (?m x)))" .
  have "work_left dsp s = (\<Sum>x \<in> dom ?m. attempts_left dsp (the (?m x)))"
    using assms(1) by (simp add: work_left_def sum_list_mvals map_ok_def mkeys_def)
  also have "\<dots> = attempts_left dsp d + (\<Sum>x \<in> dom ?m - {k}. attempts_left dsp (the (?m x)))"
    using k assms(3) by (simp add: sum.remove [of "dom ?m" k])
  finally show ?thesis using u by simp
qed

lemma attempted_fewer: "attempted dsp now d d' \<Longrightarrow> \<not> delivery_settled (del_state d) \<Longrightarrow> attempts_left dsp d' < attempts_left dsp d"
  by (auto simp: attempted_def attempts_left_def)

lemma claimable_later: "claimable_delivery s now d \<Longrightarrow> now \<le> t \<Longrightarrow> claimable_delivery s t d"
  by (auto simp: claimable_delivery_def delivery_eligible_def split: option.splits delivery_state.splits)

lemma claimable_unsettled: "claimable_delivery s now d \<Longrightarrow> \<not> delivery_settled (del_state d)"
  by (auto simp: claimable_delivery_def eligible_unsettled split: option.splits)

lemma claimable_subscriptions: "sn_subscriptions u = sn_subscriptions s \<Longrightarrow> claimable_delivery u = claimable_delivery s"
  by (simp add: claimable_delivery_def subscription_of_def fun_eq_iff)

lemma attempted_not_due: "attempted dsp now d d' \<Longrightarrow> t < now \<Longrightarrow> \<not> claimable_delivery s t d'"
  by (auto simp: attempted_def claimable_delivery_def delivery_eligible_def split: option.splits)

text \<open>The induction: what is due at \<open>t\<close> and was not attempted needs one iteration more.\<close>

lemma run_iterations_drain:
  assumes "webhooks_ok s" and "dispatcher_ok dsp"
    and "\<forall>k r. map_of (sn_subscriptions s) k = Some r \<longrightarrow> \<not> isl (local_subscription C r)"
    and "\<forall>i \<in> set is. 0 < itn_now i \<and> t \<le> clock (itn_claim i) \<and> t < itn_now i"
    and "work_left dsp s \<le> length is \<or> \<not> (\<exists>k d. map_of (sn_deliveries s) k = Some d \<and> claimable_delivery s t d)"
  shows "(\<forall>k d. map_of (sn_deliveries s) k = Some d \<longrightarrow> (\<exists>d'. map_of (sn_deliveries (run_iterations C dsp is s)) k = Some d'
      \<and> (claimable_delivery s t d \<longrightarrow> del_attempt d < del_attempt d') \<and> del_attempt d \<le> del_attempt d'))"
  using assms
proof (induction "is" arbitrary: s)
  case Nil
  have "\<not> claimable_delivery s t d" if k: "map_of (sn_deliveries s) k = Some d" for k d
  proof
    assume "claimable_delivery s t d"
    then have "0 < attempts_left dsp d" by (simp add: attempts_left_def claimable_unsettled)
    moreover have "d \<in> set (mvals (sn_deliveries s))" using map_of_SomeD [OF k] by (force simp: mvals_def)
    ultimately have "work_left dsp s \<noteq> 0" unfolding work_left_def sum_list_eq_0_iff by auto
    with Nil.prems(5) k \<open>claimable_delivery s t d\<close> show False by auto
  qed
  then show ?case by auto
next
  case (Cons i "is")
  from Cons.prems(4) have i: "0 < itn_now i" "t \<le> clock (itn_claim i)" "t < itn_now i" by simp_all
  from Cons.prems(1,2) i(1) Cons.prems(3) show ?case
  proof (cases rule: process_one_effect)
    case idle
    then have none: "\<not> (\<exists>k d. map_of (sn_deliveries s) k = Some d \<and> claimable_delivery s t d)"
      using claimable_later [OF _ i(2)] by blast
    have "run_iterations C dsp (i # is) s = run_iterations C dsp is s" using idle(1) by simp
    moreover have "\<forall>i \<in> set is. 0 < itn_now i \<and> t \<le> clock (itn_claim i) \<and> t < itn_now i" using Cons.prems(4) by simp
    ultimately show ?thesis using Cons.IH [OF Cons.prems(1,2,3) _ disjI2 [OF none]] by simp
  next
    case (worked u k d d')
    have m: "map_ok (sn_deliveries s)" "map_ok (sn_deliveries u)"
      using Cons.prems(1) worked(6) by (simp_all add: webhooks_ok_def deliveries_ok_def)
    note cl = claimable_subscriptions [OF worked(7)]
    have "work_left dsp u < work_left dsp s"
      using work_left_update [OF m worked(2,4), of dsp] attempted_fewer [OF worked(5) claimable_unsettled [OF worked(3)]] by simp
    moreover have nd: "\<not> claimable_delivery u t d'" by (rule attempted_not_due [OF worked(5) i(3)])
    ultimately have "work_left dsp u \<le> length is
        \<or> \<not> (\<exists>k d. map_of (sn_deliveries u) k = Some d \<and> claimable_delivery u t d)"
      using Cons.prems(5) worked(4) by (auto simp: cl)
    then have IH: "\<forall>k d. map_of (sn_deliveries u) k = Some d \<longrightarrow> (\<exists>d'. map_of (sn_deliveries (run_iterations C dsp is u)) k = Some d'
      \<and> (claimable_delivery u t d \<longrightarrow> del_attempt d < del_attempt d') \<and> del_attempt d \<le> del_attempt d')"
      using Cons.IH [OF worked(6) Cons.prems(2)] Cons.prems(3,4) worked(7) by simp
    have at: "del_attempt d < del_attempt d'" using worked(5) by (simp add: attempted_def)
    show ?thesis
    proof (intro allI impI)
      fix j x assume x: "map_of (sn_deliveries s) j = Some x"
      show "\<exists>d'. map_of (sn_deliveries (run_iterations C dsp (i # is) s)) j = Some d'
        \<and> (claimable_delivery s t x \<longrightarrow> del_attempt x < del_attempt d') \<and> del_attempt x \<le> del_attempt d'"
      proof (cases "j = k")
        case True
        have "map_of (sn_deliveries u) k = Some d'" using worked(4) by simp
        then obtain y where "map_of (sn_deliveries (run_iterations C dsp is u)) k = Some y" "del_attempt d' \<le> del_attempt y"
          using IH by blast
        with True x worked(1,2) at show ?thesis by simp
      next
        case False
        with x worked(4) have "map_of (sn_deliveries u) j = Some x" by simp
        with IH worked(1) show ?thesis by (simp add: cl)
      qed
    qed
  qed
qed

text \<open>C18. The queue drains whatever the endpoints answer: in a reachable store whose subscriptions decrypt,
after as many iterations as the unsettled deliveries have attempts left, started at or after a time \<open>t\<close>,
every delivery that was claimable at \<open>t\<close> has been attempted, so no delivery starves behind the retries of
others.\<close>

theorem dispatcher_drains:
  assumes "reachable webhook_start (webhook_step net C) s" and "dispatcher_ok dsp"
    and "\<forall>k r. map_of (sn_subscriptions s) k = Some r \<longrightarrow> \<not> isl (local_subscription C r)"
    and "\<forall>i \<in> set is. 0 < itn_now i \<and> t \<le> clock (itn_claim i) \<and> t < itn_now i"
    and "work_left dsp s \<le> length is"
    and "map_of (sn_deliveries s) k = Some d" and "claimable_delivery s t d"
  shows "\<exists>d'. map_of (sn_deliveries (run_iterations C dsp is s)) k = Some d' \<and> del_attempt d < del_attempt d'"
  using run_iterations_drain [OF webhooks.reachable_good [OF assms(1)] assms(2-4)] assms(5-7) by blast

theorem dispatcher_drains_witness:
  "\<exists>s d d'. map_of (sn_deliveries s) ''whd_2'' = Some d
    \<and> map_of (sn_deliveries (run_iterations ex_vault ex_dispatcher (replicate 9 (ex_iteration 3 AttemptRetry)) s)) ''whd_2'' = Some d'
    \<and> del_attempt d < del_attempt d'"
proof -
  obtain s d where s: "reachable webhook_start (webhook_step ex_net ex_vault) s"
    "\<forall>k r. map_of (sn_subscriptions s) k = Some r \<longrightarrow> \<not> isl (local_subscription ex_vault r)"
    "sn_deliveries s = [(''whd_2'', d)]" "claimable_delivery s 3 d" "del_attempt d = 0"
    using ex_due by blast
  have w: "work_left ex_dispatcher s \<le> length (replicate 9 (ex_iteration 3 AttemptRetry))"
    using s(3-5) by (simp add: work_left_def mvals_def attempts_left_def ex_dispatcher_def)
  have k: "map_of (sn_deliveries s) ''whd_2'' = Some d" by (simp add: s(3))
  from dispatcher_drains [OF s(1) ex_dispatcher_ok s(2) _ w k s(4)] k show ?thesis by auto
qed

section \<open>A subscription that does not decrypt\<close>

text \<open>C17. One delivery whose subscription no longer decrypts stops all deliveries: while it is the one due
first, every iteration at or after its time ends with the error of the decryption and leaves the store as it
is, so the other deliveries, claimable or not, are never attempted.\<close>

theorem undecryptable_delivery_blocks:
  assumes "reachable webhook_start (webhook_step net C0) s" and "dispatcher_ok dsp"
    and "map_of (sn_deliveries s) k = Some d" and "claimable_delivery s t d"
    and "\<forall>k' d'. map_of (sn_deliveries s) k' = Some d' \<longrightarrow> k' \<noteq> k \<longrightarrow> due_before d d'"
    and "map_of (sn_subscriptions s) (webhook_subscription_key (del_workspace d) (del_subscription d)) = Some r"
    and "local_subscription C r = Inl err"
    and "\<forall>i \<in> set is. t \<le> clock (itn_claim i)"
  shows "run_iterations C dsp is s = s \<and> (\<forall>i \<in> set is. process_one C dsp i s = (s, False, Some err))"
proof -
  have m: "map_ok (sn_deliveries s)"
    using webhooks.reachable_good [OF assms(1)] by (simp add: webhooks_ok_def deliveries_ok_def)
  have one: "process_one C dsp i s = (s, False, Some err)" if i: "i \<in> set is" for i
  proof -
    have c: "claimable_delivery s (clock (itn_claim i)) d" using claimable_later assms(4,8) i by blast
    obtain b where b: "select_delivery s (clock (itn_claim i)) = Some b" "\<not> due_before d b"
      using select_delivery_first [OF m _ c] assms(3) by (auto simp: delivery_view_def)
    obtain k' where "map_of (sn_deliveries s) k' = Some b"
      using select_delivery_mem [OF m b(1)] by (auto simp: delivery_view_def)
    with b assms(3,5) have bd: "b = d" by (cases "k' = k") auto
    have "select_delivery (ensure_snapshot (itn_claim i) s) (clock (itn_claim i)) = Some d"
      using b(1) by (simp add: select_delivery_def claimable_delivery_def bd)
    then have "local_claim_delivery C (itn_claim i) (dsp_worker dsp) (dsp_lease_ttl dsp) s = Inl err"
      using assms(2,6,7) by (simp add: local_claim_delivery_def dispatcher_ok_def update_def claim_delivery_def subscription_of_def)
    moreover have "err \<noteq> WebhookFailure NoPendingDelivery"
      using local_subscription_error assms(7) by fastforce
    ultimately show ?thesis by (simp add: process_one_def)
  qed
  moreover have "run_iterations C dsp js s = s" if "set js \<subseteq> set is" for js
    using that one by (induction js) auto
  ultimately show ?thesis by blast
qed

text \<open>The service restarted without its secret.\<close>

definition ex_lost_vault :: input_crypto where
  "ex_lost_vault = ex_vault\<lparr>secret_key := ''''\<rparr>"

theorem undecryptable_delivery_blocks_witness:
  "\<exists>s d. map_of (sn_deliveries s) ''whd_2'' = Some d \<and> claimable_delivery s 3 d
    \<and> run_iterations ex_lost_vault ex_dispatcher [ex_iteration 3 AttemptSucceeded, ex_iteration 9 AttemptSucceeded] s = s"
proof -
  obtain s d a b where s: "reachable webhook_start (webhook_step ex_net ex_vault) s"
    "sn_deliveries s = [(''whd_2'', d)]" "claimable_delivery s 3 d" "is_enc a"
    "map_of (sn_subscriptions s) (webhook_subscription_key (del_workspace d) (del_subscription d))
      = Some (subscription_to_record ex_ready a b)"
    using ex_due_record by blast
  have n: "canonical_json_value a dflt = a" for dflt using s(4) by (cases a) (auto simp: canonical_json_value_def is_enc_def)
  have "local_subscription ex_lost_vault (subscription_to_record ex_ready a b) = Inl CryptoFailed"
    using s(4) by (simp add: local_subscription_def decrypt_webhook_string_def decrypt_json_at_rest_def n ex_lost_vault_def
        subscription_to_record_def ex_trims and_then_def)
  then have "run_iterations ex_lost_vault ex_dispatcher [ex_iteration 3 AttemptSucceeded, ex_iteration 9 AttemptSucceeded] s = s"
    using undecryptable_delivery_blocks [OF s(1) ex_dispatcher_ok _ s(3) _ s(5),
        of "''whd_2''" ex_lost_vault CryptoFailed "[ex_iteration 3 AttemptSucceeded, ex_iteration 9 AttemptSucceeded]"]
    by (simp add: s(2) del: run_iterations.simps split: if_splits)
  moreover have "map_of (sn_deliveries s) ''whd_2'' = Some d" by (simp add: s(2))
  ultimately show ?thesis using s(3) by blast
qed

section \<open>Signatures\<close>

lemma sign_body_trimmed: "trim_space (sign_body hmac secret ts body) = sign_body hmac secret ts body"
proof (rule trim_space_graphic)
  let ?h = "hex_encode (hmac secret (ts @ ''.'' @ body))"
  have "graphic (last (''v1='' @ ?h))"
    using hex_encode_graphic [of "hmac secret (ts @ ''.'' @ body)"] last_in_set [of ?h]
    by (cases "?h = []") (auto simp: graphic_def)
  then show "graphic (hd (sign_body hmac secret ts body)) \<and> graphic (last (sign_body hmac secret ts body))"
    by (simp add: sign_body_def) (simp add: graphic_def)
qed

text \<open>A signed request verifies, and a signature binds the time and the body: the headers of a sender and
its body are accepted by a verifier with the same secret while the clocks are at most the tolerance apart,
for the event and the delivery sent; and when HMAC does not collide, two requests accepted with one secret
and one signature have the same timestamp and the same body.\<close>

theorem signature_round_trip:
  assumes "trim_space secret \<noteq> ''''" and "0 < tolerance" and "0 \<le> t"
    and "\<forall>v \<in> {env_id (cd_event cd), env_type (cd_event cd), del_id (cd_delivery cd)}. v \<noteq> '''' \<and> trim_space v = v"
    and "sub_secret (cd_subscription cd) = secret"
    and "now - tolerance \<le> seconds (t div 1000000000)" and "seconds (t div 1000000000) \<le> now + tolerance"
    and "now + tolerance < seconds (2 ^ 63)"
    and "\<forall>m m'. snd_hmac S secret m = snd_hmac S secret m' \<longrightarrow> m = m'"
  shows "verify_request (snd_hmac S) \<lparr>vrf_secret = secret, vrf_tolerance = tolerance\<rparr> now (request_headers S cd (timestamp_value t) body) body = Inr \<lparr>ver_event = env_id (cd_event cd), ver_type = env_type (cd_event cd),
      ver_delivery = del_id (cd_delivery cd), ver_timestamp = seconds (t div 1000000000)\<rparr>
    \<and> (\<forall>now' hs' body' x. verify_request (snd_hmac S) \<lparr>vrf_secret = secret, vrf_tolerance = tolerance\<rparr> now' hs' body' = Inr x \<longrightarrow>
        trim_space (mget_or '''' hs' header_signature) = mget_or '''' (request_headers S cd (timestamp_value t) body) header_signature \<longrightarrow>
        body' = body \<and> trim_space (mget_or '''' hs' header_timestamp) = timestamp_value t)"
proof
  let ?v = "\<lparr>vrf_secret = secret, vrf_tolerance = tolerance\<rparr>"
  let ?hs = "request_headers S cd (timestamp_value t) body"
  let ?secs = "unix_seconds t"
  have "t div 1000000000 < 2 ^ 63" using assms(7,8) by (simp add: seconds_def)
  moreover have "0 \<le> t div 1000000000" using assms(3) by (simp add: pos_imp_zdiv_nonneg_iff)
  ultimately have range: "- (2 ^ 63) \<le> ?secs" "?secs < 2 ^ 63" "wrap64 (?secs + unix_epoch) = t div 1000000000"
    by (simp_all add: unix_seconds_def unix_epoch_def wrap64_id)
  have ts: "trim_space (timestamp_value t) = timestamp_value t" "timestamp_value t \<noteq> ''''"
    "parse_int64 (timestamp_value t) = Some ?secs"
    using range by (simp_all add: timestamp_value_def itoa_trimmed parse_itoa)
  have names: "distinct [''Content-Type'', ''User-Agent'', header_event_id, header_event_type, header_delivery, header_timestamp,
      header_signature]" by (simp add: header_names)
  let ?sig = "sign_body (snd_hmac S) secret (timestamp_value t) body"
  have h: "mget_or '''' ?hs header_event_id = env_id (cd_event cd)" "mget_or '''' ?hs header_event_type = env_type (cd_event cd)"
    "mget_or '''' ?hs header_delivery = del_id (cd_delivery cd)" "mget_or '''' ?hs header_timestamp = timestamp_value t"
    "mget_or '''' ?hs header_signature = ?sig"
    using assms(5) by (simp_all add: request_headers_def mget_or_def header_names)
  have sig: "trim_space ?sig = ?sig" by (rule sign_body_trimmed)
  show "verify_request (snd_hmac S) ?v now ?hs body = Inr \<lparr>ver_event = env_id (cd_event cd), ver_type = env_type (cd_event cd),
      ver_delivery = del_id (cd_delivery cd), ver_timestamp = seconds (t div 1000000000)\<rparr>"
    using assms(1,2,4,6,7)
    by (simp add: verify_request_def Let_def h ts range(3) verify_signature_def sig) (simp add: sign_body_def)
  show "\<forall>now' hs' body' x. verify_request (snd_hmac S) ?v now' hs' body' = Inr x \<longrightarrow>
        trim_space (mget_or '''' hs' header_signature) = mget_or '''' ?hs header_signature \<longrightarrow>
        body' = body \<and> trim_space (mget_or '''' hs' header_timestamp) = timestamp_value t"
  proof (intro allI impI)
    fix now' :: time and hs' body' x
    let ?ts = "trim_space (mget_or '''' hs' header_timestamp)"
    assume a: "verify_request (snd_hmac S) ?v now' hs' body' = Inr x"
      and s: "trim_space (mget_or '''' hs' header_signature) = mget_or '''' ?hs header_signature"
    from a obtain i where i: "parse_int64 ?ts = Some i" and g: "verify_signature (snd_hmac S) secret ?ts body' (mget_or '''' hs' header_signature)"
      by (auto simp: verify_request_def Let_def split: if_splits option.splits)
    from g s have "sign_body (snd_hmac S) secret ?ts body' = ?sig" by (simp add: verify_signature_def h)
    then have "?ts @ ''.'' @ body' = timestamp_value t @ ''.'' @ body"
      using assms(9) by (simp add: sign_body_def hex_encode_inj)
    then show "body' = body \<and> ?ts = timestamp_value t"
      using split_at_dot [of ?ts body' "timestamp_value t" body] parse_int64_no_dot [OF i] parse_int64_no_dot [OF ts(3)] by simp
  qed
qed

text \<open>A sender whose HMAC keeps its message, and a delivery of a test event.\<close>

definition ex_sender :: sender where
  "ex_sender = \<lparr>snd_net = ex_net, snd_resolver = ex_resolver, snd_policy = ex_policy, snd_user_agent = ''ua'',
     snd_hmac = (\<lambda>k m. m), snd_event_text = (\<lambda>_. Some ''{}''), snd_request_ok = (\<lambda>_. True),
     snd_http = (\<lambda>_ _ _. HttpResponse 200 ''''), snd_parse_date = (\<lambda>_. None)\<rparr>"

definition ex_claimed :: claimed_delivery where
  "ex_claimed =
    (let v = \<lparr>env_specversion = ''1.0'', env_id = ''evt_1'', env_type = webhook_test_type, env_source = ''x'', env_subject = ''x'',
               env_time = 1, env_contenttype = ''application/json'', env_data = empty_object\<rparr>;
         d = new_webhook_delivery (wh_at 2) 0 v ''main'' ''whs_1''
     in \<lparr>cd_delivery = d, cd_event = v, cd_subscription = ex_ready,
         cd_lease = \<lparr>dl_delivery = del_id d, dl_worker = ''d1'', dl_attempt = 1, dl_expires_at = 33\<rparr>\<rparr>)"

lemma ex_claimed_fields: "env_id (cd_event ex_claimed) = ''evt_1''" "env_type (cd_event ex_claimed) = webhook_test_type"
  "del_id (cd_delivery ex_claimed) = ''whd_2''" "sub_secret (cd_subscription ex_claimed) = ''0123456789abcdef''"
  by (simp_all add: ex_claimed_def new_webhook_delivery_def ex_trims ex_ready_def ex_sub_def Let_def)

theorem signature_round_trip_witness:
  "\<exists>x. verify_request (\<lambda>k m. m) \<lparr>vrf_secret = ''0123456789abcdef'', vrf_tolerance = seconds 300\<rparr> (seconds 64000000100)
     (request_headers ex_sender ex_claimed (timestamp_value (seconds 64000000000)) ''{}'') ''{}'' = Inr x
    \<and> ver_delivery x = ''whd_2''"
proof -
  have trims: "trim_space ''0123456789abcdef'' = ''0123456789abcdef''" "trim_space ''evt_1'' = ''evt_1''" "trim_space ''whd_2'' = ''whd_2''"
    "trim_space webhook_test_type = webhook_test_type" "webhook_test_type \<noteq> ''''"
    by code_simp+
  have h: "snd_hmac ex_sender = (\<lambda>k m. m)" by (simp add: ex_sender_def)
  have ids: "\<forall>v \<in> {env_id (cd_event ex_claimed), env_type (cd_event ex_claimed), del_id (cd_delivery ex_claimed)}.
      v \<noteq> '''' \<and> trim_space v = v"
    by (simp add: ex_claimed_fields trims)
  show ?thesis
    using signature_round_trip [OF _ _ _ ids ex_claimed_fields(4), of "seconds 300" "seconds 64000000000" "seconds 64000000100"
        ex_sender "''{}''"]
    by (simp add: trims h seconds_def ex_claimed_fields)
qed

end
