(* ===== verification/Token.thy ===== *)
theory Token
  imports Crypto_At_Rest Go_Int
begin

text \<open>
  The stateless token of a job (\<^verbatim>\<open>internal/token/token.go\<close>): its claims as unpadded URL base64 and an HMAC
  over that text. HMAC and the text of a JSON document are arguments.
\<close>

section \<open>Unpadded URL base64\<close>

definition url_char :: "char \<Rightarrow> char" where
  "url_char c = (if c = CHR ''+'' then CHR ''-'' else if c = CHR ''/'' then CHR ''_'' else c)"

definition std_char :: "char \<Rightarrow> char" where
  "std_char c = (if c = CHR ''-'' then CHR ''+'' else if c = CHR ''_'' then CHR ''/'' else c)"

definition raw_url_encode :: "string \<Rightarrow> string" where
  "raw_url_encode s = map url_char (b64_encode False s)"

definition raw_url_decode :: "string \<Rightarrow> string option" where
  "raw_url_decode s =
    (let cs = filter (\<lambda>c. c \<noteq> CHR 0x0A \<and> c \<noteq> CHR 0x0D) s in
     if list_ex (\<lambda>c. c \<in> {CHR ''+'', CHR ''/'', CHR ''=''}) cs then None
     else b64_groups [] (map std_char cs @ replicate ((4 - length cs mod 4) mod 4) (CHR ''='')))"

section \<open>Claims\<close>

record job_claims =
  jc_workspace :: string
  jc_job :: string
  jc_subject :: string
  jc_exp :: int

definition claims_doc :: "job_claims \<Rightarrow> json" where
  "claims_doc c = JObj [(''ws'', JStr (jc_workspace c)), (''job'', JStr (jc_job c)), (''sub'', JStr (jc_subject c)),
     (''exp'', int_doc (jc_exp c))]"

fun int_field :: "string \<Rightarrow> int \<Rightarrow> (string \<times> json) list \<Rightarrow> int option" where
  "int_field name v [] = Some v"
| "int_field name v ((k, d) # kvs) =
    (if equal_fold k name then
       (case d of JNum s \<Rightarrow> (case parse_int64 s of None \<Rightarrow> None | Some i \<Rightarrow> int_field name i kvs)
        | JNull \<Rightarrow> int_field name v kvs | _ \<Rightarrow> None)
     else int_field name v kvs)"

fun decode_claims :: "json \<Rightarrow> job_claims option" where
  "decode_claims (JObj kvs) =
    (case (string_field ''ws'' '''' kvs, string_field ''job'' '''' kvs, string_field ''sub'' '''' kvs, int_field ''exp'' 0 kvs) of
       (Some w, Some j, Some s, Some x) \<Rightarrow> Some \<lparr>jc_workspace = w, jc_job = j, jc_subject = s, jc_exp = x\<rparr>
     | _ \<Rightarrow> None)"
| "decode_claims JNull = Some \<lparr>jc_workspace = '''', jc_job = '''', jc_subject = '''', jc_exp = 0\<rparr>"
| "decode_claims d = None"

section \<open>Minting and verifying\<close>

definition job_prefix :: string where "job_prefix = ''wfjob_''"

definition is_job_token :: "string \<Rightarrow> bool" where
  "is_job_token tok \<longleftrightarrow> prefix job_prefix tok"

definition sign_token :: "(string \<Rightarrow> string \<Rightarrow> string) \<Rightarrow> string \<Rightarrow> string \<Rightarrow> string" where
  "sign_token hmac secret msg = raw_url_encode (hmac secret msg)"

definition mint_job :: "(string \<Rightarrow> string \<Rightarrow> string) \<Rightarrow> crypto_prims \<Rightarrow> string \<Rightarrow> job_claims \<Rightarrow> string" where
  "mint_job hmac P secret c =
    (let p = raw_url_encode (json_text P (claims_doc c)) in job_prefix @ p @ ''.'' @ sign_token hmac secret p)"

text \<open>The text before and after the last dot.\<close>

fun split_last_dot :: "string \<Rightarrow> (string \<times> string) option" where
  "split_last_dot [] = None"
| "split_last_dot (c # cs) =
    (case split_last_dot cs of
       Some (a, b) \<Rightarrow> Some (c # a, b)
     | None \<Rightarrow> if c = CHR ''.'' then Some ([], cs) else None)"

definition verify_job :: "(string \<Rightarrow> string \<Rightarrow> string) \<Rightarrow> crypto_prims \<Rightarrow> int \<Rightarrow> string \<Rightarrow> string \<Rightarrow> job_claims option" where
  "verify_job hmac P now_unix secret tok =
    (if secret = '''' \<or> \<not> prefix job_prefix tok then None
     else case split_last_dot (drop (length job_prefix) tok) of
       None \<Rightarrow> None
     | Some (p, mac) \<Rightarrow>
       if mac \<noteq> sign_token hmac secret p then None
       else case raw_url_decode p of
         None \<Rightarrow> None
       | Some raw \<Rightarrow>
         (case json_read P raw of
            None \<Rightarrow> None
          | Some d \<Rightarrow>
            (case decode_claims d of
               None \<Rightarrow> None
             | Some c \<Rightarrow> if jc_exp c \<noteq> 0 \<and> jc_exp c < now_unix then None else Some c)))"

fun verify_job_any :: "(string \<Rightarrow> string \<Rightarrow> string) \<Rightarrow> crypto_prims \<Rightarrow> int \<Rightarrow> string list \<Rightarrow> string \<Rightarrow> job_claims option" where
  "verify_job_any hmac P now_unix [] tok = None"
| "verify_job_any hmac P now_unix (secret # secrets) tok =
    (case verify_job hmac P now_unix secret tok of
       Some c \<Rightarrow> Some c | None \<Rightarrow> verify_job_any hmac P now_unix secrets tok)"

section \<open>What was minted verifies\<close>

lemma b64_encode_chars: "set (b64_encode False s) \<subseteq> b64_digit ` {..<64}"
proof (induction False s rule: b64_encode.induct)
  case (1 x y z rest)
  then show ?case using b64_digits_of_bytes by (simp add: Let_def)
qed (use b64_digits_of_bytes in \<open>simp_all add: Let_def\<close>)

lemma b64_padding:
  "b64_encode True s = b64_encode False s @ replicate ((4 - length (b64_encode False s) mod 4) mod 4) (CHR ''='')"
proof (induction False s rule: b64_encode.induct)
  case (1 x y z rest)
  then show ?case by (simp add: Let_def)
qed (simp_all add: Let_def numeral_2_eq_2)

lemma std_url_char: "c \<noteq> CHR ''-'' \<Longrightarrow> c \<noteq> CHR ''_'' \<Longrightarrow> std_char (url_char c) = c"
  by (simp add: std_char_def url_char_def)

lemma b64_digit_std: "n < 64 \<Longrightarrow> b64_digit n \<notin> {CHR ''-'', CHR ''_'', CHR ''='', CHR ''.'', CHR 0x0A, CHR 0x0D}"
  using b64_value_digit [of n] by (auto simp: b64_value_def)

lemma raw_url_round_trip [simp]: "raw_url_decode (raw_url_encode s) = Some s"
proof -
  have c: "c \<notin> {CHR ''-'', CHR ''_'', CHR ''='', CHR ''.'', CHR 0x0A, CHR 0x0D}" if "c \<in> set (b64_encode False s)" for c
    using subsetD [OF b64_encode_chars that] b64_digit_std by fastforce
  then have plain: "filter (\<lambda>c. c \<noteq> CHR 0x0A \<and> c \<noteq> CHR 0x0D) (raw_url_encode s) = raw_url_encode s"
    by (auto simp: raw_url_encode_def filter_id_conv url_char_def)
  have "\<not> list_ex (\<lambda>c. c \<in> {CHR ''+'', CHR ''/'', CHR ''=''}) (raw_url_encode s)"
    using c by (fastforce simp: raw_url_encode_def list_ex_iff url_char_def)
  moreover have "map std_char (raw_url_encode s) = b64_encode False s"
    using c by (simp add: raw_url_encode_def o_def std_url_char cong: map_cong)
  ultimately show ?thesis
    using b64_padding [of s] b64_groups_encode [of s] unfolding raw_url_decode_def plain Let_def
    by (simp add: raw_url_encode_def)
qed

lemma raw_url_no_dot: "CHR ''.'' \<notin> set (raw_url_encode s)"
  using b64_encode_chars [of s] b64_digit_std by (force simp: raw_url_encode_def url_char_def split: if_splits)

lemma raw_url_inj: "raw_url_encode a = raw_url_encode b \<longleftrightarrow> a = b"
  by (metis raw_url_round_trip option.inject)

lemma split_last_dot_mac: "CHR ''.'' \<notin> set mac \<Longrightarrow> split_last_dot (p @ CHR ''.'' # mac) = Some (p, mac)"
proof -
  assume m: "CHR ''.'' \<notin> set mac"
  then have "split_last_dot mac = None" by (induction mac) auto
  then show ?thesis by (induction p) simp_all
qed

lemma split_last_dot_Some: "split_last_dot s = Some (p, mac) \<Longrightarrow> s = p @ CHR ''.'' # mac"
  by (induction s arbitrary: p mac) (auto split: option.splits if_splits)

lemma decode_claims_doc:
  "- (2 ^ 63) \<le> jc_exp c \<Longrightarrow> jc_exp c < 2 ^ 63 \<Longrightarrow> decode_claims (claims_doc c) = Some c"
  by (simp add: claims_doc_def int_doc_def parse_itoa equal_fold_def to_lower_def lower_char_def)

section \<open>Properties\<close>

text \<open>A job token proves its claims: what is minted verifies to the same claims until it expires, under its
secret; and when HMAC does not collide, a token that verifies with the signature of a minted one is the minted one.\<close>

theorem job_token_round_trip:
  assumes "secret \<noteq> ''''" and "- (2 ^ 63) \<le> jc_exp c" and "jc_exp c < 2 ^ 63"
    and "json_read P (json_text P (claims_doc c)) = Some (claims_doc c)"
    and "\<forall>m m'. hmac secret m = hmac secret m' \<longrightarrow> m = m'"
  shows "verify_job hmac P now secret (mint_job hmac P secret c) = (if jc_exp c \<noteq> 0 \<and> jc_exp c < now then None else Some c)
    \<and> (\<forall>tok p mac c'. verify_job hmac P now secret tok = Some c' \<longrightarrow> tok = job_prefix @ p @ ''.'' @ mac \<longrightarrow>
        CHR ''.'' \<notin> set mac \<longrightarrow> mac = sign_token hmac secret (raw_url_encode (json_text P (claims_doc c))) \<longrightarrow>
        tok = mint_job hmac P secret c \<and> c' = c)"
proof
  let ?p = "raw_url_encode (json_text P (claims_doc c))"
  have split: "split_last_dot (?p @ ''.'' @ sign_token hmac secret ?p) = Some (?p, sign_token hmac secret ?p)"
    using split_last_dot_mac [OF raw_url_no_dot] by (simp add: sign_token_def)
  show minted: "verify_job hmac P now secret (mint_job hmac P secret c) = (if jc_exp c \<noteq> 0 \<and> jc_exp c < now then None else Some c)"
    using assms(1,4) split by (simp add: verify_job_def mint_job_def Let_def decode_claims_doc [OF assms(2,3)])
  show "\<forall>tok p mac c'. verify_job hmac P now secret tok = Some c' \<longrightarrow> tok = job_prefix @ p @ ''.'' @ mac \<longrightarrow>
        CHR ''.'' \<notin> set mac \<longrightarrow> mac = sign_token hmac secret ?p \<longrightarrow> tok = mint_job hmac P secret c \<and> c' = c"
  proof (intro allI impI)
    fix tok p mac c'
    assume v: "verify_job hmac P now secret tok = Some c'" and t: "tok = job_prefix @ p @ ''.'' @ mac"
      and d: "CHR ''.'' \<notin> set mac" and m: "mac = sign_token hmac secret ?p"
    have "split_last_dot (drop (length job_prefix) tok) = Some (p, mac)"
      using split_last_dot_mac [OF d, of p] by (simp add: t)
    with v have "sign_token hmac secret p = mac" by (auto simp: verify_job_def split: if_splits)
    then have "hmac secret p = hmac secret ?p" using m by (simp add: sign_token_def raw_url_inj)
    then have "p = ?p" using assms(5) by blast
    then have "tok = mint_job hmac P secret c" by (simp add: t m mint_job_def Let_def)
    with minted v show "tok = mint_job hmac P secret c \<and> c' = c" by (auto split: if_splits)
  qed
qed

definition ex_claims :: job_claims where
  "ex_claims = \<lparr>jc_workspace = ''main'', jc_job = ''job1'', jc_subject = ''ops'', jc_exp = 100\<rparr>"

definition ex_text_prims :: "json \<Rightarrow> crypto_prims" where
  "ex_text_prims d = \<lparr>sha256 = (\<lambda>s. s), gcm_seal = (\<lambda>k n pt. pt), gcm_open = (\<lambda>k n ct. Some ct),
     json_text = (\<lambda>_. ''claims''), json_read = (\<lambda>_. Some d)\<rparr>"

theorem job_token_round_trip_witness:
  "verify_job (\<lambda>k m. m) (ex_text_prims (claims_doc ex_claims)) 99 ''s''
      (mint_job (\<lambda>k m. m) (ex_text_prims (claims_doc ex_claims)) ''s'' ex_claims) = Some ex_claims"
  using job_token_round_trip [of "''s''" ex_claims "ex_text_prims (claims_doc ex_claims)" "\<lambda>k m. m" 99]
  by (simp add: ex_text_prims_def ex_claims_def)

end
