(* ===== verification/Log_Stream.thy ===== *)
theory Log_Stream
  imports Go_Strings
begin

text \<open>
  The logs of a job (\<^verbatim>\<open>logStreamer\<close> of \<^verbatim>\<open>internal/executor/executor.go\<close> and \<^verbatim>\<open>logLimiter\<close> of
  \<^verbatim>\<open>internal/runner/json_runner.go\<close>): both pass on what a process writes up to a cap and mark what they
  cut. The first collects writes and passes them on when it is flushed, the second at once and keeps the
  two streams apart. A cap of zero or less is no cap. Both are compared with what they are to pass on: a
  prefix of everything that was written.
\<close>

definition truncation_marker :: string where
  "truncation_marker = [CHR 0x0A] @ ''[log truncated: job exceeded log size cap]'' @ [CHR 0x0A]"

section \<open>The streamer of the executor\<close>

record log_streamer =
  lst_pending :: string
  lst_acc :: string
  lst_total :: int
  lst_truncated :: bool
  lst_sent :: "string list"

definition new_log_streamer :: log_streamer where
  "new_log_streamer = \<lparr>lst_pending = '''', lst_acc = '''', lst_total = 0, lst_truncated = False, lst_sent = []\<rparr>"

definition stream_append :: "string \<Rightarrow> log_streamer \<Rightarrow> log_streamer" where
  "stream_append p l = l\<lparr>lst_pending := lst_pending l @ p, lst_total := lst_total l + int (length p)\<rparr>"

definition stream_chunk :: "int \<Rightarrow> string \<Rightarrow> log_streamer \<Rightarrow> log_streamer" where
  "stream_chunk cap p l =
    (if 0 < cap \<and> cap \<le> lst_total l then l\<lparr>lst_truncated := True\<rparr>
     else if 0 < cap \<and> cap < lst_total l + int (length p)
     then stream_append (take (nat (cap - lst_total l)) p) (l\<lparr>lst_truncated := True\<rparr>)
     else stream_append p l)"

definition stream_flush :: "bool \<Rightarrow> log_streamer \<Rightarrow> log_streamer" where
  "stream_flush has_sink l =
    (if lst_pending l = '''' then l
     else if has_sink then l\<lparr>lst_sent := lst_sent l @ [lst_pending l], lst_pending := ''''\<rparr>
     else l\<lparr>lst_acc := lst_acc l @ lst_pending l, lst_pending := ''''\<rparr>)"

definition stream_finalize :: "bool \<Rightarrow> log_streamer \<Rightarrow> log_streamer" where
  "stream_finalize has_sink l =
    (if \<not> lst_truncated l then l
     else if has_sink then l\<lparr>lst_sent := lst_sent l @ [truncation_marker]\<rparr>
     else l\<lparr>lst_acc := lst_acc l @ truncation_marker\<rparr>)"

text \<open>What happens while the process runs: it writes, and a ticker flushes.\<close>

datatype log_event = LogChunk string | LogFlush

fun stream_event :: "int \<Rightarrow> bool \<Rightarrow> log_event \<Rightarrow> log_streamer \<Rightarrow> log_streamer" where
  "stream_event cap has_sink (LogChunk p) l = stream_chunk cap p l"
| "stream_event cap has_sink LogFlush l = stream_flush has_sink l"

text \<open>After the process ended \<^verbatim>\<open>Run\<close> flushes once more and finalises.\<close>

definition stream_run :: "int \<Rightarrow> bool \<Rightarrow> log_event list \<Rightarrow> log_streamer" where
  "stream_run cap has_sink evs =
    stream_finalize has_sink (stream_flush has_sink (fold (stream_event cap has_sink) evs new_log_streamer))"

definition stream_output :: "log_streamer \<Rightarrow> string" where
  "stream_output l = concat (lst_sent l) @ lst_acc l"

section \<open>The limiter of the runner\<close>

datatype std_stream = Stdout | Stderr

record log_limiter =
  lim_total :: int
  lim_truncated :: bool
  lim_stdout :: string
  lim_stderr :: string
  lim_sent :: "string list"

definition new_log_limiter :: log_limiter where
  "new_log_limiter = \<lparr>lim_total = 0, lim_truncated = False, lim_stdout = '''', lim_stderr = '''', lim_sent = []\<rparr>"

definition limiter_append :: "std_stream \<Rightarrow> string \<Rightarrow> log_limiter \<Rightarrow> log_limiter" where
  "limiter_append st p l =
    (let l = (case st of Stdout \<Rightarrow> l\<lparr>lim_stdout := lim_stdout l @ p\<rparr> | Stderr \<Rightarrow> l\<lparr>lim_stderr := lim_stderr l @ p\<rparr>)
     in l\<lparr>lim_total := lim_total l + int (length p), lim_sent := lim_sent l @ [p]\<rparr>)"

definition limiter_chunk :: "int \<Rightarrow> std_stream \<Rightarrow> string \<Rightarrow> log_limiter \<Rightarrow> log_limiter" where
  "limiter_chunk cap st p l =
    (if p = '''' then l
     else if 0 < cap \<and> cap \<le> lim_total l then l\<lparr>lim_truncated := True\<rparr>
     else if 0 < cap \<and> cap < lim_total l + int (length p)
     then limiter_append st (take (nat (cap - lim_total l)) p) (l\<lparr>lim_truncated := True\<rparr>)
     else limiter_append st p l)"

definition limiter_finalize :: "log_limiter \<Rightarrow> log_limiter" where
  "limiter_finalize l =
    (if lim_truncated l then l\<lparr>lim_stdout := lim_stdout l @ truncation_marker, lim_sent := lim_sent l @ [truncation_marker]\<rparr>
     else l)"

definition limiter_run :: "int \<Rightarrow> (std_stream \<times> string) list \<Rightarrow> log_limiter" where
  "limiter_run cap ws = limiter_finalize (fold (\<lambda>(st, p). limiter_chunk cap st p) ws new_log_limiter)"

definition join_log_text :: "string \<Rightarrow> string \<Rightarrow> string" where
  "join_log_text left right =
    (if left = '''' then right else if right = '''' then left
     else if last left = CHR 0x0A \<or> last left = CHR 0x0D then left @ right else left @ [CHR 0x0A] @ right)"

section \<open>What both are to pass on\<close>

definition capped_log :: "int \<Rightarrow> string \<Rightarrow> string" where
  "capped_log cap body =
    (if 0 < cap \<and> cap < int (length body) then take (nat cap) body @ truncation_marker else body)"

definition chunks_of :: "log_event list \<Rightarrow> string" where
  "chunks_of evs = concat (map (\<lambda>ev. case ev of LogChunk p \<Rightarrow> p | LogFlush \<Rightarrow> '''') evs)"

text \<open>The state after some of the body: what was kept, and whether something was cut.\<close>

definition kept_log :: "int \<Rightarrow> string \<Rightarrow> string" where
  "kept_log cap body = (if 0 < cap then take (nat cap) body else body)"

definition cut_log :: "int \<Rightarrow> string \<Rightarrow> bool" where
  "cut_log cap body \<longleftrightarrow> 0 < cap \<and> cap < int (length body)"

lemma capped_log_kept: "capped_log cap body = kept_log cap body @ (if cut_log cap body then truncation_marker else '''')"
  by (simp add: capped_log_def kept_log_def cut_log_def)

lemma kept_length: "0 < cap \<Longrightarrow> int (length (kept_log cap body)) = min cap (int (length body))"
  by (simp add: kept_log_def)

lemma kept_more:
  "kept_log cap (body @ p) = kept_log cap body @
    (if 0 < cap then take (nat (cap - int (length (kept_log cap body)))) p else p)"
proof (cases "0 < cap")
  case True
  then have "nat (cap - int (length (kept_log cap body))) = nat cap - length body"
    by (simp add: kept_length)
  with True show ?thesis by (simp add: kept_log_def)
qed (simp add: kept_log_def)

lemma stream_chunk_kept:
  assumes "p \<noteq> ''''" and "lst_sent l = sent" and "stream_output l @ lst_pending l = kept_log cap body"
    and "lst_total l = int (length (kept_log cap body))" and "lst_truncated l = cut_log cap body"
  defines "l' \<equiv> stream_chunk cap p l"
  shows "stream_output l' @ lst_pending l' = kept_log cap (body @ p)" and "lst_total l' = int (length (kept_log cap (body @ p)))"
    and "lst_truncated l' = cut_log cap (body @ p)" and "lst_sent l' = sent" and "lst_acc l' = lst_acc l"
proof -
  have more: "0 < length p" using assms(1) by simp
  have "stream_output l' @ lst_pending l' = kept_log cap (body @ p) \<and> lst_total l' = int (length (kept_log cap (body @ p)))
      \<and> lst_truncated l' = cut_log cap (body @ p)"
  proof (cases "0 < cap")
    case False
    with assms show ?thesis
      by (simp add: stream_chunk_def stream_append_def stream_output_def kept_log_def cut_log_def)
  next
    case True
    note len = kept_length [OF True, of body]
    show ?thesis
    proof (cases "cap \<le> int (length body)")
      case full: True
      with True len have "cap \<le> lst_total l" using assms(4) by simp
      moreover from this have "kept_log cap (body @ p) = kept_log cap body" using full True by (simp add: kept_log_def)
      moreover have "cap < int (length body) + int (length p)" using full more by linarith
      ultimately show ?thesis using True full assms(3,4) by (simp add: l'_def stream_chunk_def stream_output_def cut_log_def)
    next
      case False
      with len have tot: "lst_total l = int (length body)" "kept_log cap body = body" "\<not> cut_log cap body"
        using assms(4) True by (simp_all add: kept_log_def cut_log_def)
      show ?thesis
      proof (cases "cap < int (length body) + int (length p)")
        case cut: True
        have "kept_log cap (body @ p) = body @ take (nat (cap - int (length body))) p"
          using kept_more [of cap body p] True tot by simp
        with cut True False tot more assms(3) show ?thesis
          by (simp add: l'_def stream_chunk_def stream_append_def stream_output_def cut_log_def)
      next
        case all: False
        have "kept_log cap (body @ p) = body @ p" using all True by (simp add: kept_log_def)
        with all True False tot assms(3,5) show ?thesis
          by (simp add: l'_def stream_chunk_def stream_append_def stream_output_def cut_log_def)
      qed
    qed
  qed
  then show "stream_output l' @ lst_pending l' = kept_log cap (body @ p)" "lst_total l' = int (length (kept_log cap (body @ p)))"
    "lst_truncated l' = cut_log cap (body @ p)" by blast+
  show "lst_sent l' = sent" "lst_acc l' = lst_acc l"
    using assms(2) by (simp_all add: l'_def stream_chunk_def stream_append_def)
qed

text \<open>What a streamer and a limiter hold after some of the writes.\<close>

definition streamed :: "int \<Rightarrow> bool \<Rightarrow> string \<Rightarrow> log_streamer \<Rightarrow> bool" where
  "streamed cap sink body l \<longleftrightarrow> stream_output l @ lst_pending l = kept_log cap body
     \<and> lst_total l = int (length (kept_log cap body)) \<and> lst_truncated l = cut_log cap body
     \<and> (if sink then lst_acc l = '''' else lst_sent l = [])"

lemma streamed_chunk: "streamed cap sink body l \<Longrightarrow> p \<noteq> '''' \<Longrightarrow> streamed cap sink (body @ p) (stream_chunk cap p l)"
  using stream_chunk_kept [of p l "lst_sent l" cap body] by (auto simp: streamed_def split: if_splits)

lemma streamed_flush: "streamed cap sink body l \<Longrightarrow> streamed cap sink body (stream_flush sink l) \<and> lst_pending (stream_flush sink l) = ''''"
  by (auto simp: streamed_def stream_flush_def stream_output_def split: if_splits)

lemma streamed_events:
  "streamed cap sink body l \<Longrightarrow> \<forall>p. LogChunk p \<in> set evs \<longrightarrow> p \<noteq> '''' \<Longrightarrow>
    streamed cap sink (body @ chunks_of evs) (fold (stream_event cap sink) evs l)"
proof (induction evs arbitrary: body l)
  case (Cons ev evs)
  then show ?case
  proof (cases ev)
    case (LogChunk p)
    with Cons have "streamed cap sink (body @ p) (stream_chunk cap p l)" by (intro streamed_chunk) auto
    from Cons.IH [OF this] Cons.prems(2) LogChunk show ?thesis by (simp add: chunks_of_def)
  next
    case LogFlush
    with Cons.prems(1) have "streamed cap sink body (stream_flush sink l)" using streamed_flush by blast
    from Cons.IH [OF this] Cons.prems(2) LogFlush show ?thesis by (simp add: chunks_of_def)
  qed
qed (simp add: chunks_of_def)

lemma stream_run_output:
  assumes "\<forall>p. LogChunk p \<in> set evs \<longrightarrow> p \<noteq> ''''"
  shows "stream_output (stream_run cap sink evs) = capped_log cap (chunks_of evs)"
proof -
  have "streamed cap sink '''' new_log_streamer"
    by (simp add: streamed_def new_log_streamer_def stream_output_def kept_log_def cut_log_def)
  from streamed_events [OF this assms] have "streamed cap sink (chunks_of evs) (fold (stream_event cap sink) evs new_log_streamer)"
    by simp
  from streamed_flush [OF this] show ?thesis
    by (auto simp: stream_run_def stream_finalize_def streamed_def capped_log_kept stream_output_def split: if_splits)
qed

definition limited :: "int \<Rightarrow> string \<Rightarrow> log_limiter \<Rightarrow> bool" where
  "limited cap body l \<longleftrightarrow> concat (lim_sent l) = kept_log cap body \<and> lim_total l = int (length (kept_log cap body))
     \<and> lim_truncated l = cut_log cap body"

text \<open>The limiter keeps what the streamer keeps.\<close>

lemma limited_chunk: "limited cap body l \<Longrightarrow> p \<noteq> '''' \<Longrightarrow> limited cap (body @ p) (limiter_chunk cap st p l)"
proof -
  assume l: "limited cap body l" and p: "p \<noteq> ''''"
  let ?s = "\<lparr>lst_pending = '''', lst_acc = '''', lst_total = lim_total l, lst_truncated = lim_truncated l, lst_sent = lim_sent l\<rparr>"
  have "streamed cap True body ?s" using l by (simp add: limited_def streamed_def stream_output_def)
  from streamed_chunk [OF this p] p show ?thesis
    by (cases st) (auto simp: streamed_def limited_def stream_chunk_def stream_append_def limiter_chunk_def limiter_append_def
        stream_output_def Let_def split: if_splits)
qed

lemma limiter_run_output: "concat (lim_sent (limiter_run cap ws)) = capped_log cap (concat (map snd ws))"
proof -
  have "limited cap (body @ concat (map snd ws)) (fold (\<lambda>(st, p). limiter_chunk cap st p) ws l)" if "limited cap body l" for body l
    using that
  proof (induction ws arbitrary: body l)
    case (Cons w ws)
    obtain st p where w: "w = (st, p)" by (cases w)
    have "limited cap (body @ p) (limiter_chunk cap st p l)"
      using limited_chunk [OF Cons.prems] Cons.prems by (cases "p = ''''") (simp_all add: limiter_chunk_def)
    from Cons.IH [OF this] w show ?case by simp
  qed simp
  from this [of "''''" new_log_limiter] show ?thesis
    by (auto simp: limiter_run_def limiter_finalize_def limited_def new_log_limiter_def kept_log_def cut_log_def capped_log_def)
qed

text \<open>The two log limiters are equivalent to one reference: whatever the chunks a process writes and the flushes
in between, the streamer of the executor, with a sink or without, and the limiter of the runner pass on the
same text, the first \<open>cap\<close> bytes of everything that was written followed by the marker exactly when
something was cut.\<close>

theorem log_limiters_agree:
  assumes "\<forall>p. LogChunk p \<in> set evs \<longrightarrow> p \<noteq> ''''" and "concat (map snd ws) = chunks_of evs"
  shows "stream_output (stream_run cap sink evs) = capped_log cap (chunks_of evs)
    \<and> concat (lim_sent (limiter_run cap ws)) = capped_log cap (chunks_of evs)"
  using stream_run_output [OF assms(1)] limiter_run_output [of cap ws] assms(2) by simp

theorem log_limiters_agree_witness:
  "stream_output (stream_run 5 True [LogChunk ''abc'', LogFlush, LogChunk ''defg'', LogChunk ''h'']) = ''abcde'' @ truncation_marker
    \<and> concat (lim_sent (limiter_run 5 [(Stdout, ''abcd''), (Stderr, ''''), (Stderr, ''efgh'')])) = ''abcde'' @ truncation_marker"
  using log_limiters_agree [of "[LogChunk ''abc'', LogFlush, LogChunk ''defg'', LogChunk ''h'']"
      "[(Stdout, ''abcd''), (Stderr, ''''), (Stderr, ''efgh'')]" 5 True]
  by (auto simp: chunks_of_def capped_log_def)

end
