(* ===== verification/Job_Runner.thy ===== *)
theory Job_Runner
  imports Token Log_Stream Contract
begin

text \<open>
  Running one job (\<^verbatim>\<open>internal/runtime/runtime.go\<close>, \<^verbatim>\<open>error.go\<close>, \<^verbatim>\<open>internal/executor/executor.go\<close> and
  \<^verbatim>\<open>internal/runner/json_runner.go\<close>): the environment and the token a job gets, its timeout, which kind of
  process runs it, and what becomes of the exit of the process and of its result file. Processes, files
  and the opening of an execution bundle are arguments.
\<close>

section \<open>Errors\<close>

text \<open>An error, with the name of a \<^verbatim>\<open>namedError\<close> where it has one.\<close>

record run_error =
  re_name :: string
  re_text :: string

definition plain_error :: "string \<Rightarrow> run_error" where
  "plain_error t = \<lparr>re_name = '''', re_text = t\<rparr>"

definition error_name :: "run_error \<Rightarrow> string option" where
  "error_name err = (if re_name err \<noteq> '''' then Some (re_name err) else None)"

definition error_result :: "string \<Rightarrow> string \<Rightarrow> raw" where
  "error_result name message =
    marshal_object [(''message'', JStr message), (''name'', JStr (if name = '''' then ''Error'' else name))]"

section \<open>The request of a run\<close>

record run_request =
  rr_job :: string
  rr_workspace :: string
  rr_deployment :: deployment
  rr_action :: string
  rr_input :: raw
  rr_trigger_kind :: string
  rr_trigger_headers :: raw
  rr_tag :: string
  rr_runnable_path :: string
  rr_timeout :: duration
  rr_created_by :: string
  rr_permissioned_as :: string
  rr_worker_group :: string
  rr_egress_proxy :: string
  rr_log_cap :: int
  rr_job_token :: string

text \<open>The timeout of a run, in nanoseconds of 64 bits; 0 is no timeout.\<close>

definition action_timeout :: "run_request \<Rightarrow> action \<Rightarrow> duration" where
  "action_timeout req a =
    (if 0 < rr_timeout req then rr_timeout req
     else case act_timeout_s a of
       Some n \<Rightarrow> if 0 < n then wrap64 (n * 1000000000)
                else if 0 < act_timeout_ms a then wrap64 (act_timeout_ms a * 1000000)
                else if 0 < dep_timeout_s (rr_deployment req) then wrap64 (dep_timeout_s (rr_deployment req) * 1000000000) else 0
     | None \<Rightarrow> if 0 < act_timeout_ms a then wrap64 (act_timeout_ms a * 1000000)
                else if 0 < dep_timeout_s (rr_deployment req) then wrap64 (dep_timeout_s (rr_deployment req) * 1000000000) else 0)"

section \<open>The environment of a job\<close>

definition job_host_env_allow :: "string list" where
  "job_host_env_allow =
    [''PATH'', ''HOME'', ''TZ'', ''LANG'', ''LANGUAGE'', ''LC_ALL'', ''LC_CTYPE'', ''TMPDIR'', ''TMP'', ''TEMP'',
     ''SystemRoot'', ''COMSPEC'', ''PATHEXT'', ''PLAYWRIGHT_BROWSERS_PATH'', ''PLAYWRIGHT_SKIP_BROWSER_DOWNLOAD'',
     ''LOG_LEVEL'', ''PYTHON_LOG_LEVEL'', ''PYTHONUNBUFFERED'', ''PYTHONIOENCODING'']"

definition prepare_host_env_allow :: "string list" where
  "prepare_host_env_allow =
    [''PIP_INDEX_URL'', ''PIP_EXTRA_INDEX_URL'', ''PIP_TRUSTED_HOST'', ''PIP_FIND_LINKS'', ''PIP_NO_INDEX'', ''PIP_CERT'',
     ''PIP_CLIENT_CERT'']"

definition env_key :: "string \<Rightarrow> string" where
  "env_key v = takeWhile (\<lambda>c. c \<noteq> CHR ''='') v"

definition curated_host_env :: "string list \<Rightarrow> string list" where
  "curated_host_env = filter (\<lambda>v. env_key v \<in> set job_host_env_allow)"

definition curated_prepare_env :: "string list \<Rightarrow> string list" where
  "curated_prepare_env = filter (\<lambda>v. env_key v \<in> set job_host_env_allow \<or> env_key v \<in> set prepare_host_env_allow)"

text \<open>The runner, with the processes it starts as functions.\<close>

record process_result =
  prc_exit :: int
  prc_stdout :: string
  prc_stderr :: string
  prc_duration :: int

record exec_result =
  exr_exit :: int
  exr_result :: raw
  exr_logs :: string
  exr_timed_out :: bool
  exr_duration :: int

record job_runner =
  jr_host_env :: "string list"
  jr_base_url :: string
  jr_token_secret :: string
  jr_api_token :: string
  jr_hmac :: "string \<Rightarrow> string \<Rightarrow> string"
  jr_prims :: crypto_prims
  jr_go_binary :: string
  jr_quote :: "string \<Rightarrow> string"
  jr_open_bundle :: "deployment \<Rightarrow> run_error + string"
  jr_header_text :: "raw \<Rightarrow> string"
  jr_execute :: "string \<Rightarrow> string \<Rightarrow> string list \<Rightarrow> raw \<Rightarrow> duration \<Rightarrow> run_error + exec_result"
  jr_json_process :: "string \<Rightarrow> string list \<Rightarrow> string list \<Rightarrow> raw \<Rightarrow> duration \<Rightarrow> process_result \<times> run_error option \<times> raw option"
  jr_adapter_process :: "string \<Rightarrow> action_adapter \<Rightarrow> string list \<Rightarrow> raw \<Rightarrow> duration \<Rightarrow> process_result \<times> run_error option \<times> raw option"

definition run_job_token :: "job_runner \<Rightarrow> time \<Rightarrow> run_request \<Rightarrow> action \<Rightarrow> string \<Rightarrow> string \<Rightarrow> string" where
  "run_job_token R now req a workspace subject =
    (if trim_space (rr_job_token req) \<noteq> '''' then trim_space (rr_job_token req)
     else
       let secret = trim_space (first_non_empty [jr_token_secret R, jr_api_token R]) in
       if secret = '''' \<or> rr_job req = '''' then trim_space (jr_api_token R)
       else
         let timeout = action_timeout req a;
             expires = (if 0 < timeout then unix_seconds (now + wrap64 (timeout + 60 * 1000000000))
              else unix_seconds (now + 3600 * 1000000000))
         in mint_job (jr_hmac R) (jr_prims R) secret
              \<lparr>jc_workspace = workspace, jc_job = rr_job req, jc_subject = subject, jc_exp = expires\<rparr>)"

definition job_env :: "job_runner \<Rightarrow> time \<Rightarrow> run_request \<Rightarrow> action \<Rightarrow> string list" where
  "job_env R now req a =
    (let workspace = normalize_workspace (first_non_empty [rr_workspace req, source_workspace (rr_deployment req)]);
         kind = first_non_empty [rr_trigger_kind req, ''api''];
         tag = first_non_empty [rr_tag req, effective_route_tag_for_action (rr_deployment req) a];
         created = first_non_empty [trim_space (rr_created_by req), ''system''];
         permissioned = first_non_empty [trim_space (rr_permissioned_as req), created];
         grp = first_non_empty [trim_space (rr_worker_group req), ''default''];
         proxy = trim_space (rr_egress_proxy req);
         proxy_url = ''http://job-'' @ rr_job req @ ''@'' @ proxy;
         app = dep_app (rr_deployment req) in
     curated_host_env (jr_host_env R)
     @ [''WF_JOB_ID='' @ rr_job req, ''WF_WORKSPACE='' @ workspace, ''WF_APP='' @ app, ''WF_ACTION='' @ rr_action req,
        ''WF_TAG='' @ tag, ''WF_RUNNABLE_PATH='' @ trim_space (rr_runnable_path req), ''WF_EMAIL='' @ created,
        ''WF_USERNAME='' @ created, ''WF_PERMISSIONED_AS='' @ permissioned,
        ''WF_STATE_PATH='' @ app @ ''/'' @ rr_action req, ''WF_TRIGGER_KIND='' @ kind, ''WF_WORKER_GROUP='' @ grp]
     @ (if proxy \<noteq> '''' then [''WF_PROXY_URL='' @ proxy_url, ''HTTP_PROXY='' @ proxy_url, ''HTTPS_PROXY='' @ proxy_url] else [])
     @ [''WF_BASE_URL='' @ jr_base_url R, ''WF_TOKEN='' @ run_job_token R now req a workspace permissioned])"

definition py_vendor_dir :: string where "py_vendor_dir = ''.windforce/site-packages''"

definition append_prepared_source_env :: "string list \<Rightarrow> string \<Rightarrow> string \<Rightarrow> string list" where
  "append_prepared_source_env env dir lang =
    (if lang = ''python'' then env @ [''WF_PY_VENDOR='' @ dir @ ''/'' @ py_vendor_dir, ''WF_PY_SOURCE_ROOT='' @ dir] else env)"

section \<open>The executor\<close>

definition exec_success :: "exec_result \<Rightarrow> bool" where
  "exec_success r \<longleftrightarrow> exr_exit r = 0 \<and> \<not> exr_timed_out r"

definition synth_error :: "bool \<Rightarrow> string option \<Rightarrow> raw" where
  "synth_error timed_out wait_err =
    marshal_object [(''message'', JStr (if timed_out then ''job timed out''
       else case wait_err of Some t \<Rightarrow> t | None \<Rightarrow> ''job failed'')), (''name'', JStr ''ExecutionError'')]"

text \<open>
  The result of a process that ended: its exit code when it has a state, and the result file when it is
  readable JSON. \<open>logs\<close> is what the streamer kept without a sink.
\<close>

definition executor_result :: "int option \<Rightarrow> string option \<Rightarrow> bool \<Rightarrow> log_streamer \<Rightarrow> int \<Rightarrow> raw option \<Rightarrow> exec_result" where
  "executor_result state_exit wait_err timed_out logs ms file =
    (let code = (case state_exit of Some c \<Rightarrow> c | None \<Rightarrow> if wait_err \<noteq> None then - 1 else 0);
         res = \<lparr>exr_exit = code, exr_result = raw_nil, exr_logs = lst_acc logs, exr_timed_out = timed_out, exr_duration = ms\<rparr> in
     res\<lparr>exr_result := (case file of
         Some r \<Rightarrow> if json_valid r then r
                  else if exec_success res then null_doc else synth_error timed_out wait_err
       | None \<Rightarrow> if exec_success res then null_doc else synth_error timed_out wait_err)\<rparr>)"

definition runtime_argv :: "string \<Rightarrow> string \<Rightarrow> string \<Rightarrow> string \<Rightarrow> string list option" where
  "runtime_argv bun python entry lang =
    (if lang = '''' \<or> lang = ''typescript'' then Some [if bun = '''' then ''bun'' else bun, ''run'', ''wrapper.ts'']
     else if lang = ''python'' then Some [if python = '''' then ''python3'' else python, ''wrapper.py'']
     else if lang = ''go'' then Some [entry]
     else None)"

definition result_error_message :: "exec_result \<Rightarrow> string" where
  "result_error_message r =
    (let fallback = (if exr_timed_out r then ''action timed out''
           else if exr_exit r \<noteq> 0 then ''action exited with code '' @ itoa (exr_exit r) else ''action failed'') in
     case exr_result r of
       RawDoc (JObj kvs) \<Rightarrow>
         (case (string_field ''message'' '''' kvs, string_field ''error'' '''' kvs) of
            (Some m, Some x) \<Rightarrow> if m \<noteq> '''' then m else if x \<noteq> '''' then x else fallback
          | _ \<Rightarrow> fallback)
     | _ \<Rightarrow> fallback)"

section \<open>One run\<close>

definition job_result_of :: "run_request \<Rightarrow> job_result" where
  "job_result_of req = \<lparr>res_job = '''', res_app = dep_app (rr_deployment req), res_action = rr_action req, res_output = raw_nil,
     res_exit_code = 0, res_stdout = '''', res_stderr = '''', res_duration_ms = 0, res_error = ''''\<rparr>"

definition no_result :: job_result where
  "no_result = \<lparr>res_job = '''', res_app = '''', res_action = '''', res_output = raw_nil, res_exit_code = 0, res_stdout = '''',
     res_stderr = '''', res_duration_ms = 0, res_error = ''''\<rparr>"

definition script_lang :: "run_request \<Rightarrow> string" where
  "script_lang req = first_non_empty [dep_script_lang (rr_deployment req), ''typescript'']"

text \<open>The environment with the headers of the trigger, when there are any; they must be JSON.\<close>

definition with_headers :: "job_runner \<Rightarrow> run_request \<Rightarrow> string list \<Rightarrow> run_error + string list" where
  "with_headers R req env =
    (if raw_empty (rr_trigger_headers req) then Inr env
     else if \<not> json_valid (rr_trigger_headers req) then Inl (plain_error ''trigger headers are not valid JSON'')
     else Inr (env @ [''WF_TRIGGER_HEADERS='' @ jr_header_text R (rr_trigger_headers req)]))"

definition run_entrypoint :: "job_runner \<Rightarrow> time \<Rightarrow> run_request \<Rightarrow> string \<Rightarrow> action \<Rightarrow> job_result \<times> run_error option" where
  "run_entrypoint R now req dir a =
    (let entry = trim_space (dep_entrypoint (rr_deployment req)) in
     if entry = '''' then (no_result, Some (plain_error (''app '' @ jr_quote R (dep_app (rr_deployment req)) @ '' has no entrypoint'')))
     else case normalize_source_path entry of
       Inl err \<Rightarrow> (no_result, Some (plain_error err))
     | Inr p0 \<Rightarrow>
       (let p = (if script_lang req = ''go'' then jr_go_binary R else p0) in
        if p = ''..'' \<or> prefix ''../'' p then
          (no_result, Some (plain_error (''entrypoint '' @ jr_quote R entry @ '' escapes source root'')))
        else case with_headers R req (job_env R now req a) of
          Inl err \<Rightarrow> (no_result, Some err)
        | Inr env0 \<Rightarrow>
          (let env = append_prepared_source_env env0 dir (script_lang req) in
           case jr_execute R (script_lang req) (dir @ ''/'' @ p) env (rr_input req) (action_timeout req a) of
             Inl err \<Rightarrow> ((job_result_of req)\<lparr>res_error := re_text err\<rparr>, Some err)
           | Inr r \<Rightarrow>
             ((job_result_of req)\<lparr>res_output := exr_result r, res_exit_code := exr_exit r, res_stdout := exr_logs r,
                res_duration_ms := exr_duration r,
                res_error := (if exec_success r then '''' else result_error_message r)\<rparr>, None))))"

text \<open>What becomes of a process that wrote its result to a file.\<close>

definition process_outcome :: "run_request \<Rightarrow> process_result \<times> run_error option \<times> raw option \<Rightarrow> job_result \<times> run_error option" where
  "process_outcome req outcome =
    (let (p, err, file) = outcome;
         res = (job_result_of req)\<lparr>res_exit_code := prc_exit p, res_stdout := prc_stdout p, res_stderr := prc_stderr p,
                  res_duration_ms := prc_duration p\<rparr> in
     case err of
       Some x \<Rightarrow> (res\<lparr>res_error := re_text x\<rparr>, Some x)
     | None \<Rightarrow>
       (case file of
          None \<Rightarrow> (res, None)
        | Some r \<Rightarrow>
          if raw_empty r then (res, None)
          else if json_valid r then (res\<lparr>res_output := r\<rparr>, None)
          else (res\<lparr>res_error := ''output file is not valid JSON''\<rparr>, Some (plain_error ''output file is not valid JSON''))))"

definition run_job :: "job_runner \<Rightarrow> time \<Rightarrow> run_request \<Rightarrow> job_result \<times> run_error option" where
  "run_job R now req =
    (let d = rr_deployment req; fail = (\<lambda>t. (no_result, Some (plain_error t))) in
     if dep_app d = '''' then fail ''deployment app is required''
     else if dep_commit d = '''' then fail ''deployment commit is required''
     else case dep_action d (rr_action req) of
       None \<Rightarrow> fail (''action '' @ jr_quote R (rr_action req) @ '' not found in app '' @ jr_quote R (dep_app d))
     | Some a \<Rightarrow>
       (let kind = adapter_type a;
            no_command = (case act_adapter a of None \<Rightarrow> True | Some ad \<Rightarrow> ada_command ad = []) in
        if kind = ''command'' \<and> no_command then fail (''action '' @ jr_quote R (rr_action req) @ '' has no adapter command'')
        else case jr_open_bundle R d of
          Inl err \<Rightarrow> (no_result, Some err)
        | Inr dir \<Rightarrow>
          if kind = ''json-file'' \<and> act_command a = [] then run_entrypoint R now req dir a
          else
            (let input = (if raw_empty (rr_input req) then empty_object else rr_input req) in
             if \<not> json_valid input then fail ''input is not valid JSON''
             else case with_headers R req (append_prepared_source_env (job_env R now req a) dir (script_lang req)) of
               Inl err \<Rightarrow> (no_result, Some err)
             | Inr env \<Rightarrow>
               if kind = ''json-file'' then
                 process_outcome req (jr_json_process R dir (act_command a) env input (action_timeout req a))
               else if kind = ''command'' then
                 (case act_adapter a of
                    None \<Rightarrow> (no_result, None)
                  | Some ad \<Rightarrow> process_outcome req (jr_adapter_process R dir ad env input (action_timeout req a)))
               else fail (''unsupported action adapter '' @ jr_quote R kind))))"

text \<open>The two processes of \<^verbatim>\<open>json_runner.go\<close>, from what the operating system reports of them.\<close>

record process_files =
  pf_input :: string
  pf_output :: string
  pf_app :: string
  pf_action :: string

definition json_process_env :: "string list \<Rightarrow> process_files \<Rightarrow> string list" where
  "json_process_env env f =
    env @ [''WF_INPUT_JSON='' @ pf_input f, ''WF_RESULT_JSON='' @ pf_output f, ''WF_APP='' @ pf_app f,
           ''WF_ACTION='' @ pf_action f]"

definition adapter_process_env :: "string list \<Rightarrow> process_files \<Rightarrow> string list" where
  "adapter_process_env env f =
    env @ [''WF_ADAPTER_REQUEST_JSON='' @ pf_input f, ''WF_ADAPTER_RESULT_JSON='' @ pf_output f, ''WF_APP='' @ pf_app f,
           ''WF_ACTION='' @ pf_action f]"

record process_exit =
  pex_state :: "int option"
  pex_error :: "run_error option"
  pex_exited :: bool
  pex_context :: "run_error option"
  pex_ms :: int

definition process_base :: "process_exit \<Rightarrow> log_limiter \<Rightarrow> process_result" where
  "process_base x l =
    \<lparr>prc_exit = (case pex_state x of Some c \<Rightarrow> c | None \<Rightarrow> if pex_error x \<noteq> None then - 1 else 0),
     prc_stdout = lim_stdout l, prc_stderr = lim_stderr l, prc_duration = pex_ms x\<rparr>"

definition no_process :: process_result where
  "no_process = \<lparr>prc_exit = - 1, prc_stdout = '''', prc_stderr = '''', prc_duration = 0\<rparr>"

definition run_json_subprocess :: "string list \<Rightarrow> process_exit \<Rightarrow> log_limiter \<Rightarrow> process_result \<times> run_error option" where
  "run_json_subprocess command x l =
    (if command = [] then (no_process, Some (plain_error ''command is required''))
     else case pex_context x of
       Some err \<Rightarrow> (process_base x l, Some err)
     | None \<Rightarrow> (process_base x l, if pex_exited x then None else pex_error x))"

text \<open>
  An adapter gets its request in a file and reports the result of the process it ran in another one:
  \<open>written\<close> is the error of encoding or writing the first, \<open>file\<close> what reading and decoding the second gives. The
  last component is what goes to the log sink when there is one.
\<close>

definition run_adapter_subprocess ::
    "string list \<Rightarrow> process_files \<Rightarrow> run_error option \<Rightarrow> process_exit \<Rightarrow> log_limiter \<Rightarrow> run_error + process_result
      \<Rightarrow> process_result \<times> run_error option \<times> string list" where
  "run_adapter_subprocess command f written x l file =
    (let base = process_base x l; refused = (\<lambda>t. (no_process, Some (plain_error t), [])) in
     if command = [] then refused ''adapter command is required''
     else if pf_input f = '''' then refused ''adapter request path is required''
     else if pf_output f = '''' then refused ''adapter result path is required''
     else case written of
       Some err \<Rightarrow> (no_process, Some err, [])
     | None \<Rightarrow>
       (case pex_context x of
          Some err \<Rightarrow> (base, Some err, [])
        | None \<Rightarrow>
          (case pex_error x of
             Some err \<Rightarrow> (base, Some err, [])
           | None \<Rightarrow>
             (case file of
                Inl err \<Rightarrow> (base, Some err, [])
              | Inr r \<Rightarrow>
                (r\<lparr>prc_duration := (if prc_duration r = 0 then prc_duration base else prc_duration r),
                   prc_stdout := join_log_text (prc_stdout base) (prc_stdout r),
                   prc_stderr := join_log_text (prc_stderr base) (prc_stderr r)\<rparr>, None,
                 filter (\<lambda>t. t \<noteq> '''') [prc_stdout r, prc_stderr r])))))"

section \<open>Paths of the cache\<close>

definition safe_rune :: "string \<Rightarrow> string" where
  "safe_rune r = (case r of
     [c] \<Rightarrow> if in_range (CHR ''a'') (CHR ''z'') c \<or> in_range (CHR ''A'') (CHR ''Z'') c \<or> in_range (CHR ''0'') (CHR ''9'') c
             \<or> c = CHR ''.'' \<or> c = CHR ''-'' \<or> c = CHR ''_'' then [c] else ''_''
   | _ \<Rightarrow> ''_'')"

definition safe_path :: "string \<Rightarrow> string" where
  "safe_path v = (let s = concat (map safe_rune (runes v)) in if s = '''' then ''_'' else s)"

definition bundle_dir :: "string \<Rightarrow> string \<Rightarrow> string" where
  "bundle_dir cache_root digest = cache_root @ ''/execution-bundles/'' @ safe_path digest"

end
