(* ===== verification/Worker.thy ===== *)
theory Worker
  imports Job_Runner Retention Input_Config
begin

text \<open>
  The worker (\<^verbatim>\<open>internal/worker/worker.go\<close>, \<^verbatim>\<open>action_failure.go\<close>, \<^verbatim>\<open>runtime_bindings.go\<close>): it claims a
  job, prepares its input, runs it, decides what its result means and reports that to the store. Between
  the claim and the report any number of other operations may have run on the store, so an iteration is a
  claim on one snapshot and a report on a later one. The runner is an argument.
\<close>

section \<open>Runtime bindings\<close>

record auth_session =
  as_url :: string
  as_jwt :: string
  as_timeout :: duration

definition no_auth_session :: auth_session where
  "no_auth_session = \<lparr>as_url = '''', as_jwt = '''', as_timeout = 0\<rparr>"

text \<open>The token of the binding comes from the environment or from a file; both are arguments.\<close>

definition new_runtime_bindings ::
    "(string \<Rightarrow> string) \<Rightarrow> (string \<Rightarrow> string + string) \<Rightarrow> string \<Rightarrow> string \<Rightarrow> string \<Rightarrow> duration \<Rightarrow> string + auth_session" where
  "new_runtime_bindings getenv read_file url token_env token_file timeout =
    (let b = \<lparr>as_url = trim_space url, as_jwt = '''', as_timeout = timeout\<rparr>;
         env_name = trim_space token_env; file = trim_space token_file in
     if as_url b = '''' then Inr no_auth_session
     else
       let b = (if env_name \<noteq> '''' then b\<lparr>as_jwt := trim_space (getenv env_name)\<rparr> else b) in
       and_then (if as_jwt b = '''' \<and> file \<noteq> '''' then
            (case read_file file of
               Inl err \<Rightarrow> Inl (''read auth-session token file: '' @ err)
             | Inr t \<Rightarrow> Inr (b\<lparr>as_jwt := trim_space t\<rparr>))
          else Inr b)
        (\<lambda>b. if as_jwt b = ''''
             then Inl ''auth-session binding requires a token from --auth-session-token-env or --auth-session-token-file''
             else Inr b))"

definition apply_bindings :: "auth_session \<Rightarrow> raw \<Rightarrow> raw option" where
  "apply_bindings b input =
    (case (if raw_empty input then Some [] else raw_object input) of
       None \<Rightarrow> None
     | Some m \<Rightarrow>
       (let m = mdel reserved_runtime_input_key m;
            ms = as_timeout b sdiv 1000000;
            ms = (if ms \<le> 0 then 15000 else ms);
            session = JObj [(''jwt'', JStr (as_jwt b)), (''serviceUrl'', JStr (as_url b)), (''timeoutMs'', int_doc ms)] in
        Some (marshal_object (if as_url b = '''' then m
          else mput reserved_runtime_input_key (JObj [(''authSession'', session)]) m))))"

section \<open>Failures an action declares\<close>

text \<open>The string a raw message decodes to, trimmed, and nothing for any other document.\<close>

definition json_string :: "json option \<Rightarrow> string" where
  "json_string d = (case d of Some (JStr s) \<Rightarrow> trim_space s | _ \<Rightarrow> '''')"

definition json_string_equal :: "json option \<Rightarrow> string \<Rightarrow> bool" where
  "json_string_equal d expected \<longleftrightarrow> equal_fold (json_string d) expected"

fun first_text :: "(string, json) gomap \<Rightarrow> string list \<Rightarrow> string option" where
  "first_text m [] = None"
| "first_text m (k # ks) = (if json_string (map_of m k) \<noteq> '''' then Some (json_string (map_of m k)) else first_text m ks)"

definition windforce_declared_failure :: "json option \<Rightarrow> string option" where
  "windforce_declared_failure d =
    (case d of
       Some (JObj kvs) \<Rightarrow>
         (let m = object_map kvs in
          if \<not> json_string_equal (map_of m ''type'') ''action_failure'' \<and> \<not> json_string_equal (map_of m ''status'') ''failed''
          then None
          else case first_text m [''code'', ''message'', ''name''] of
            Some t \<Rightarrow> Some t | None \<Rightarrow> Some ''action declared failure'')
     | _ \<Rightarrow> None)"

definition action_declared_failure :: "job_result \<Rightarrow> string option" where
  "action_declared_failure res =
    (case raw_object (res_output res) of
       None \<Rightarrow> None
     | Some m \<Rightarrow>
       (case windforce_declared_failure (map_of m ''$windforce'') of
          Some t \<Rightarrow> Some t
        | None \<Rightarrow>
          if \<not> json_string_equal (map_of m ''RESULT'') ''FAIL'' then None
          else case first_text m [''ECODE'', ''EMSG'', ''ERRMSG''] of
            Some t \<Rightarrow> Some t | None \<Rightarrow> Some ''action returned RESULT=FAIL''))"

section \<open>Human tasks\<close>

text \<open>
  The struct the output of an action is decoded into. A member that belongs to a field and does not fit
  its type makes the whole decoding fail.
\<close>

record windforce_output =
  wo_type :: string
  wo_title :: string
  wo_description :: string
  wo_fields :: raw
  wo_timeout_ms :: int

definition zero_output :: windforce_output where
  "zero_output = \<lparr>wo_type = '''', wo_title = '''', wo_description = '''', wo_fields = raw_nil, wo_timeout_ms = 0\<rparr>"

fun raw_field :: "string \<Rightarrow> raw \<Rightarrow> (string \<times> json) list \<Rightarrow> raw" where
  "raw_field name v [] = v"
| "raw_field name v ((k, d) # kvs) = raw_field name (if equal_fold k name then RawDoc d else v) kvs"

definition decode_windforce :: "windforce_output \<Rightarrow> (string \<times> json) list \<Rightarrow> windforce_output option" where
  "decode_windforce w kvs =
    (case (string_field ''type'' (wo_type w) kvs, string_field ''title'' (wo_title w) kvs,
           string_field ''description'' (wo_description w) kvs, int_field ''timeoutMs'' (wo_timeout_ms w) kvs) of
       (Some ty, Some title, Some desc, Some ms) \<Rightarrow>
         Some \<lparr>wo_type = ty, wo_title = title, wo_description = desc, wo_fields = raw_field ''fields'' (wo_fields w) kvs,
               wo_timeout_ms = ms\<rparr>
     | _ \<Rightarrow> None)"

text \<open>The pointer \<^verbatim>\<open>envelope.Windforce\<close> after the members of the output.\<close>

fun windforce_field :: "windforce_output option \<Rightarrow> (string \<times> json) list \<Rightarrow> windforce_output option option" where
  "windforce_field w [] = Some w"
| "windforce_field w ((k, d) # kvs) =
    (if \<not> equal_fold k ''$windforce'' then windforce_field w kvs
     else case d of
       JNull \<Rightarrow> windforce_field None kvs
     | JObj ms \<Rightarrow>
       (case decode_windforce (case w of None \<Rightarrow> zero_output | Some x \<Rightarrow> x) ms of
          None \<Rightarrow> None | Some x \<Rightarrow> windforce_field (Some x) kvs)
     | _ \<Rightarrow> None)"

datatype human_outcome = NoHumanTask | HumanError string | HumanTaskFor human_task

definition fields_schema :: "raw \<Rightarrow> raw" where
  "fields_schema r = (case r of RawDoc d \<Rightarrow> RawDoc (JObj [(''fields'', d)]) | RawBytes s \<Rightarrow> raw_nil)"

text \<open>\<open>decode_text\<close> is the message of the error \<^verbatim>\<open>json.Unmarshal\<close> returns, \<open>quote\<close> the verb \<^verbatim>\<open>%q\<close>.\<close>

definition human_task_from_output ::
    "(raw \<Rightarrow> string) \<Rightarrow> (string \<Rightarrow> string) \<Rightarrow> call_env \<Rightarrow> string \<Rightarrow> raw \<Rightarrow> human_outcome" where
  "human_task_from_output decode_text quote e rid output =
    (if raw_empty output then NoHumanTask
     else case output of
       RawBytes s \<Rightarrow> HumanError (decode_text output)
     | RawDoc JNull \<Rightarrow> NoHumanTask
     | RawDoc (JObj kvs) \<Rightarrow>
       (case windforce_field None kvs of
          None \<Rightarrow> HumanError (decode_text output)
        | Some None \<Rightarrow> NoHumanTask
        | Some (Some w) \<Rightarrow>
          if wo_type w \<noteq> ''human_task'' then HumanError (''unsupported $windforce type '' @ quote (wo_type w))
          else HumanTaskFor
            \<lparr>task_id = draw_id e ''human'' 0, task_run = rid, task_state = TaskPending,
             task_title = (if wo_title w = '''' then ''Human task'' else wo_title w),
             task_description = wo_description w, task_schema = fields_schema (wo_fields w), task_resume_input = raw_nil,
             task_created_at = 0, task_completed_at = None,
             task_expires_at = (if 0 < wo_timeout_ms w then Some (clock e + wrap64 (wo_timeout_ms w * 1000000)) else None)\<rparr>)
     | _ \<Rightarrow> HumanError (decode_text output))"

section \<open>One job\<close>

record processor =
  pr_worker :: string
  pr_group :: string
  pr_tags :: "string list"
  pr_labels :: "string list"
  pr_slots :: int
  pr_egress_proxy :: string
  pr_lease_ttl :: duration
  pr_heartbeat :: duration
  pr_log_cap :: int
  pr_bindings :: auth_session
  pr_job_token :: "string \<Rightarrow> string"
  pr_decode_text :: "raw \<Rightarrow> string"
  pr_quote :: "string \<Rightarrow> string"

definition processor_id :: "call_env \<Rightarrow> processor \<Rightarrow> string" where
  "processor_id e P = (if pr_worker P = '''' then draw_id e ''worker'' 0 else pr_worker P)"

text \<open>What a worker reports of a job.\<close>

datatype report = ReportFailed job_result | ReportWaiting job_result human_task | ReportSucceeded job_result

definition failed_early :: "job \<Rightarrow> string \<Rightarrow> string \<Rightarrow> report" where
  "failed_early j name message =
    ReportFailed \<lparr>res_job = job_id j, res_app = jp_app (job_payload j), res_action = jp_action (job_payload j),
      res_output = error_result name message, res_exit_code = - 1, res_stdout = '''', res_stderr = '''',
      res_duration_ms = 0, res_error = message\<rparr>"

definition job_workspace :: "job \<Rightarrow> string" where
  "job_workspace j =
    normalize_workspace (if jp_workspace (job_payload j) = '''' then source_workspace (pinned_deployment (job_payload j))
      else jp_workspace (job_payload j))"

text \<open>The input the action gets, or the report of a job whose input cannot be prepared.\<close>

definition prepare_input :: "input_crypto \<Rightarrow> processor \<Rightarrow> snapshot \<Rightarrow> job \<Rightarrow> report + raw" where
  "prepare_input C P s j =
    (let p = job_payload j; w = job_workspace j in
     case decrypt_input C w (jp_input p) of
       Inl _ \<Rightarrow> Inl (failed_early j ''InputDecryptError'' ''could not decrypt job input'')
     | Inr plain \<Rightarrow>
       (case (if jp_input_resolved p then Inr plain
              else resolve_input C s w (jp_app p) (jp_action p) (jp_client p) plain) of
          Inl (LockedKeys ks) \<Rightarrow>
            Inl (failed_early j ''InputConfigLocked'' (''request set locked input keys: '' @ join_with '', '' ks))
        | Inl _ \<Rightarrow> Inl (failed_early j ''InputConfigError'' ''could not resolve input settings'')
        | Inr input \<Rightarrow>
          (case apply_bindings (pr_bindings P) (strip_reserved_runtime_input input) of
             None \<Rightarrow> Inl (failed_early j ''RuntimeBindingError'' ''could not apply runtime bindings'')
           | Some bound \<Rightarrow> Inr bound)))"

definition job_request :: "processor \<Rightarrow> job \<Rightarrow> raw \<Rightarrow> run_request" where
  "job_request P j input =
    (let p = job_payload j in
     \<lparr>rr_job = job_id j, rr_workspace = job_workspace j, rr_deployment = pinned_deployment p, rr_action = jp_action p,
      rr_input = input, rr_trigger_kind = jp_trigger_kind p, rr_trigger_headers = jp_trigger_headers p, rr_tag = jp_tag p,
      rr_runnable_path = '''', rr_timeout = 0, rr_created_by = jp_created_by p, rr_permissioned_as = jp_permissioned_as p,
      rr_worker_group = pr_group P, rr_egress_proxy = pr_egress_proxy P, rr_log_cap = pr_log_cap P,
      rr_job_token = pr_job_token P (job_id j)\<rparr>)"

definition named_error_result :: "run_error \<Rightarrow> string \<Rightarrow> raw" where
  "named_error_result err message =
    error_result (case error_name err of Some n \<Rightarrow> n | None \<Rightarrow> ''ExecutionError'') message"

text \<open>What the result of a run means.\<close>

definition outcome_of :: "processor \<Rightarrow> call_env \<Rightarrow> job \<Rightarrow> job_result \<times> run_error option \<Rightarrow> report" where
  "outcome_of P e j outcome =
    (let (res, err) = outcome;
         res = res\<lparr>res_job := job_id j, res_stdout := '''', res_stderr := ''''\<rparr> in
     case err of
       Some x \<Rightarrow>
         (let res = (if res_error res = '''' then res\<lparr>res_error := re_text x\<rparr> else res) in
          ReportFailed (if raw_empty (res_output res) then res\<lparr>res_output := named_error_result x (res_error res)\<rparr> else res))
     | None \<Rightarrow>
       if res_exit_code res \<noteq> 0 then
         (let res = (if res_error res = '''' then res\<lparr>res_error := ''action exited with code '' @ itoa (res_exit_code res)\<rparr> else res) in
          ReportFailed (if raw_empty (res_output res)
            then res\<lparr>res_output := error_result ''ExecutionError'' (res_error res)\<rparr> else res))
       else case action_declared_failure res of
         Some message \<Rightarrow> ReportFailed (res\<lparr>res_error := message\<rparr>)
       | None \<Rightarrow>
         (case human_task_from_output (pr_decode_text P) (pr_quote P) e (job_run j) (res_output res) of
            HumanError message \<Rightarrow> ReportFailed (res\<lparr>res_error := message\<rparr>)
          | HumanTaskFor t \<Rightarrow> ReportWaiting res t
          | NoHumanTask \<Rightarrow> ReportSucceeded res))"

definition job_report ::
    "input_crypto \<Rightarrow> processor \<Rightarrow> (run_request \<Rightarrow> job_result \<times> run_error option) \<Rightarrow> call_env \<Rightarrow> snapshot \<Rightarrow> job \<Rightarrow> report" where
  "job_report C P run e s j =
    (case prepare_input C P s j of
       Inl r \<Rightarrow> r
     | Inr input \<Rightarrow> outcome_of P e j (run (job_request P j input)))"

section \<open>One iteration\<close>

fun send_report :: "input_crypto \<Rightarrow> call_env \<Rightarrow> lease \<Rightarrow> report \<Rightarrow> unit body" where
  "send_report C e l (ReportFailed res) = local_complete_failed C e l res"
| "send_report C e l (ReportWaiting res t) = local_complete_waiting_human C e l res t"
| "send_report C e l (ReportSucceeded res) = local_complete_succeeded C e l res"

text \<open>
  \<^verbatim>\<open>ProcessOne\<close>: the claim on \<open>s\<close>, the reading of input settings on \<open>mid t\<close> and the report on
  \<open>late t\<close>, where \<open>t\<close> is what the claim left. The result is the store after the report, whether a job was
  processed, and the error; a report that comes too late for its lease is not an error.
\<close>

record work_env =
  we_claim :: call_env
  we_run :: call_env
  we_report :: call_env

definition worker_process_one ::
    "input_crypto \<Rightarrow> processor \<Rightarrow> (run_request \<Rightarrow> job_result \<times> run_error option) \<Rightarrow> work_env
      \<Rightarrow> (snapshot \<Rightarrow> snapshot) \<Rightarrow> (snapshot \<Rightarrow> snapshot) \<Rightarrow> snapshot \<Rightarrow> snapshot \<times> bool \<times> store_error option" where
  "worker_process_one C P run W mid late s =
    (case local_claim_job C (we_claim W) (processor_id (we_claim W) P) (pr_tags P) (pr_labels P) (pr_lease_ttl P) s of
       Inl NoQueuedJob \<Rightarrow> (s, False, None)
     | Inl err \<Rightarrow> (s, False, Some err)
     | Inr (t, (j, l)) \<Rightarrow>
       (case send_report C (we_report W) l (job_report C P run (we_run W) (mid t) j) (late t) of
          Inr (v, _) \<Rightarrow> (v, True, None)
        | Inl InvalidLease \<Rightarrow> (late t, True, None)
        | Inl err \<Rightarrow> (late t, True, Some err)))"

section \<open>The loop around it\<close>

definition effective_heartbeat_interval :: "processor \<Rightarrow> duration" where
  "effective_heartbeat_interval P =
    (if 0 < pr_heartbeat P then pr_heartbeat P
     else if 0 < pr_lease_ttl P then
       (let i = pr_lease_ttl P sdiv 3 in
        if i < 10 * 1000000 then 10 * 1000000 else if seconds 10 < i then seconds 10 else i)
     else seconds 10)"

definition max_retry_delay :: duration where "max_retry_delay = seconds 30"

function worker_backoff :: "int \<Rightarrow> int \<Rightarrow> duration \<Rightarrow> duration" where
  "worker_backoff i failures delay =
    (if i < failures then
       (let d = wrap64 (delay * 2) in if max_retry_delay \<le> d then max_retry_delay else worker_backoff (i + 1) failures d)
     else if max_retry_delay < delay then max_retry_delay else delay)"
  by pat_completeness auto
termination by (relation "measure (\<lambda>(i, failures, _). nat (failures - i))") auto

declare worker_backoff.simps [simp del]

definition worker_retry_delay :: "duration \<Rightarrow> int \<Rightarrow> duration" where
  "worker_retry_delay poll failures = worker_backoff 1 failures poll"

definition worker_poll_interval :: "duration \<Rightarrow> duration" where
  "worker_poll_interval poll = (if poll \<le> 0 then 500 * 1000000 else poll)"

text \<open>
  The wait after an iteration, given the failures in a row before it: a failure backs off, an idle
  iteration waits for the poll interval, and a processed job is followed by the next at once.
\<close>

definition after_iteration :: "duration \<Rightarrow> int \<Rightarrow> bool \<times> store_error option \<Rightarrow> int \<times> duration" where
  "after_iteration poll failures outcome =
    (case snd outcome of
       Some _ \<Rightarrow> (failures + 1, worker_retry_delay poll (failures + 1))
     | None \<Rightarrow> (0, if fst outcome then 0 else poll))"

definition worker_registration :: "call_env \<Rightarrow> processor \<Rightarrow> worker_record" where
  "worker_registration e P = \<lparr>wk_id = processor_id e P, wk_group = pr_group P, wk_tags = pr_tags P, wk_labels = pr_labels P,
     wk_slots = pr_slots P, wk_started_at = 0, wk_last_heartbeat_at = 0\<rparr>"

text \<open>A heartbeat of the registry: a worker the registry lost registers again.\<close>

definition registry_beat :: "call_env \<Rightarrow> worker_record \<Rightarrow> snapshot \<Rightarrow> snapshot" where
  "registry_beat e w s =
    (case update e (heartbeat_worker e (wk_id w)) s of
       Inr (t, _) \<Rightarrow> t
     | Inl NotFound \<Rightarrow> (case update e (register_worker e w) s of Inr (t, _) \<Rightarrow> t | Inl _ \<Rightarrow> s)
     | Inl _ \<Rightarrow> s)"

text \<open>A heartbeat of a job cancels its run when the lease is lost or the job was canceled.\<close>

definition heartbeat_cancels :: "store_error + heartbeat_result \<Rightarrow> bool" where
  "heartbeat_cancels h = (case h of Inl _ \<Rightarrow> False | Inr r \<Rightarrow> \<not> hb_still_owned r \<or> hb_canceled_by r \<noteq> None)"

definition result_error :: "job_result \<Rightarrow> string" where
  "result_error res =
    (if res_error res \<noteq> '''' then res_error res
     else if res_exit_code res \<noteq> 0 then ''action exited with code '' @ itoa (res_exit_code res) else '''')"

end
