(* ===== verification/Worker_Properties.thy ===== *)
theory Worker_Properties
  imports Worker Run_Properties
begin

text \<open>
  The properties of the worker: every report of a lease that is still good settles the job, whatever the
  action returned; what an action returns that is not an object fails its job; what an action sees under
  the reserved key of its input comes from the worker.
\<close>

section \<open>Reports\<close>

definition output_ok :: "raw \<Rightarrow> bool" where
  "output_ok r \<longleftrightarrow> raw_empty r \<or> json_valid r"

fun report_result :: "report \<Rightarrow> job_result" where
  "report_result (ReportFailed res) = res"
| "report_result (ReportWaiting res t) = res"
| "report_result (ReportSucceeded res) = res"

lemma error_result_ok: "output_ok (error_result n m)" "\<not> raw_empty (error_result n m)"
  by (simp_all add: output_ok_def error_result_def)

lemma outcome_of_ok: "output_ok (res_output res) \<Longrightarrow> output_ok (res_output (report_result (outcome_of P e j (res, err))))"
  by (auto simp: outcome_of_def Let_def named_error_result_def error_result_ok split: option.splits human_outcome.splits)

lemma job_report_ok:
  assumes "\<forall>q. output_ok (res_output (fst (run q)))"
  shows "output_ok (res_output (report_result (job_report C P run e s j)))"
proof (cases "prepare_input C P s j")
  case (Inl r)
  then have "\<exists>n m. r = failed_early j n m"
    by (auto simp: prepare_input_def Let_def split: sum.splits store_error.splits option.splits if_splits)
  with Inl show ?thesis by (auto simp: job_report_def failed_early_def error_result_ok)
next
  case (Inr input)
  show ?thesis
    using outcome_of_ok [of "fst (run (job_request P j input))" P e j "snd (run (job_request P j input))"] assms Inr
    by (simp add: job_report_def)
qed

lemma output_ok_canonical: "output_ok r \<Longrightarrow> json_valid (canonical_json_value r null_doc)"
  by (cases r) (auto simp: output_ok_def canonical_json_value_def null_doc_def raw_empty_def)

lemma encrypts_ok:
  assumes "output_ok (res_output res)"
  shows "\<exists>out. encrypt_job_result C n w res = Inr out"
  using encrypt_local_total [OF output_ok_canonical [OF assms]]
  by (fastforce simp: encrypt_job_result_def encrypt_result_def encrypt_result_at_rest_def and_then_eq_Inr)

text \<open>How the state of the run follows from the report.\<close>

fun reported_state :: "report \<Rightarrow> run_state" where
  "reported_state (ReportFailed res) = RunFailed"
| "reported_state (ReportWaiting res t) = RunWaitingHuman"
| "reported_state (ReportSucceeded res) = RunSucceeded"

fun reported_job_state :: "report \<Rightarrow> job_state" where
  "reported_job_state (ReportFailed res) = JobFailed"
| "reported_job_state (ReportWaiting res t) = JobSucceeded"
| "reported_job_state (ReportSucceeded res) = JobSucceeded"

lemma leased_ensure [simp]: "leased_job_and_run (ensure_snapshot e u) l t = leased_job_and_run u l t"
  by (auto simp: leased_job_and_run_def split: option.splits)

lemma exit_error_output [simp]: "res_output (exit_error res) = res_output res"
  by (simp add: exit_error_def)

lemma send_report_settles:
  assumes inv: "store_inv u" and l: "leased_job_and_run u l (clock e) = Inr (j, r)" and c: "job_canceled_by j = None"
    and ok: "output_ok (res_output (report_result rep))"
    and fresh: "\<forall>res t. rep = ReportWaiting res t \<longrightarrow> task_id t \<noteq> '''' \<and> map_of (sn_tasks u) (task_id t) = None"
  shows "\<exists>v. send_report C e l rep u = Inr (v, ())
    \<and> map_option job_state (map_of (sn_jobs v) (lease_job l)) = Some (reported_job_state rep)
    \<and> map_option run_state (map_of (sn_runs v) (job_run j)) = Some (reported_state rep)"
proof -
  have j: "job_view u (lease_job l) = Some j" "run_view u (job_run j) = Some r" using leased_active [OF l] by blast+
  note core = store_invD(2) [OF inv]
  have ids: "job_id j = lease_job l" "run_id r = job_run j" using core_inv_job(1) [OF core j(1)] core_inv_run(1) [OF core j(2)] .
  have l': "leased_job_and_run (ensure_snapshot e u) l (clock e) = Inr (j, r)"
    using l by simp
  show ?thesis
  proof (cases rep)
    case (ReportFailed res)
    then obtain out where "encrypt_job_result C (draw_nonce e ''result'' 0) (normalized_job_workspace '''' j) (exit_error res) = Inr out"
      using encrypts_ok [of "exit_error res" C "draw_nonce e ''result'' 0" "normalized_job_workspace '''' j"] ok by auto
    with ReportFailed l' c ids show ?thesis
      by (simp add: local_complete_failed_def update_def complete_job_failed_def complete_leased_def Let_def
          finish_job_def lookup_views)
  next
    case (ReportSucceeded res)
    then obtain out where "encrypt_job_result C (draw_nonce e ''result'' 0) (normalized_job_workspace '''' j) res = Inr out"
      using encrypts_ok [of res C "draw_nonce e ''result'' 0" "normalized_job_workspace '''' j"] ok by auto
    with ReportSucceeded l' c ids show ?thesis
      by (simp add: local_complete_succeeded_def update_def complete_job_succeeded_def complete_leased_def Let_def
          finish_job_def lookup_views)
  next
    case (ReportWaiting res t)
    then obtain out where "encrypt_job_result C (draw_nonce e ''result'' 0) (normalized_job_workspace '''' j) res = Inr out"
      using encrypts_ok [of res C "draw_nonce e ''result'' 0" "normalized_job_workspace '''' j"] ok by auto
    moreover have "task_id (prepare_human_task e r t) = task_id t" "map_of (sn_tasks u) (task_id t) = None"
      using fresh ReportWaiting by (auto simp: prepare_human_task_def)
    ultimately show ?thesis using ReportWaiting l' c ids
      by (simp add: local_complete_waiting_human_def update_def complete_job_waiting_human_def complete_leased_def Let_def
          finish_job_def lookup_views)
  qed
qed

lemma send_report_refused:
  assumes "leased_job_and_run u l (clock e) = Inl err"
  shows "send_report C e l rep u = Inl err"
proof -
  have "leased_job_and_run (ensure_snapshot e u) l (clock e) = Inl err"
    using assms by simp
  then show ?thesis
    by (cases rep) (simp_all add: local_complete_failed_def local_complete_succeeded_def local_complete_waiting_human_def
        update_def complete_job_failed_def complete_job_succeeded_def complete_job_waiting_human_def complete_leased_def)
qed

text \<open>The task of a report is the one the worker drew.\<close>

lemma job_report_task: "job_report C P run e s j = ReportWaiting res t \<Longrightarrow> task_id t = draw_id e ''human'' 0"
  by (auto simp: job_report_def prepare_input_def failed_early_def outcome_of_def human_task_from_output_def Let_def
      split: sum.splits option.splits prod.splits if_splits human_outcome.splits store_error.splits raw.splits json.splits)

section \<open>Properties\<close>

text \<open>C21. A job is settled by the worker that claimed it: in a reachable store, whatever else happened between the
claim and the report, a report under a lease that is still good is accepted and leaves the job settled and
its run succeeded, failed or waiting for a human; under a lease that was lost the store stays as it is and
the worker goes on without an error. This holds for every action whose runner returns JSON or nothing.\<close>

theorem worker_settles_job:
  assumes "reachable store_start (store_step C) s"
    and "local_claim_job C (we_claim W) (processor_id (we_claim W) P) (pr_tags P) (pr_labels P) (pr_lease_ttl P) s = Inr (t, (j, l))"
    and "(store_step C)\<^sup>*\<^sup>* t (late t)"
    and "\<forall>q. raw_empty (res_output (fst (run q))) \<or> json_valid (res_output (fst (run q)))"
    and "draw_id (we_run W) ''human'' 0 \<noteq> ''''" and "map_of (sn_tasks (late t)) (draw_id (we_run W) ''human'' 0) = None"
  shows "case leased_job_and_run (late t) l (clock (we_report W)) of
      Inr (j', r') \<Rightarrow> job_canceled_by j' = None \<longrightarrow>
        (\<exists>v. worker_process_one C P run W mid late s = (v, True, None)
          \<and> map_option job_state (map_of (sn_jobs v) (lease_job l)) \<in> {Some JobSucceeded, Some JobFailed}
          \<and> map_option run_state (map_of (sn_runs v) (job_run j')) \<in> {Some RunSucceeded, Some RunFailed, Some RunWaitingHuman})
    | Inl InvalidLease \<Rightarrow> worker_process_one C P run W mid late s = (late t, True, None)
    | Inl err \<Rightarrow> worker_process_one C P run W mid late s = (late t, True, Some err)"
proof -
  define rep where "rep = job_report C P run (we_run W) (mid t) j"
  have one: "worker_process_one C P run W mid late s =
      (case send_report C (we_report W) l rep (late t) of
          Inr (v, _) \<Rightarrow> (v, True, None) | Inl InvalidLease \<Rightarrow> (late t, True, None) | Inl err \<Rightarrow> (late t, True, Some err))"
    using assms(2) by (simp add: worker_process_one_def rep_def)
  have "store_inv t" by (rule store_step_inv [OF store.reachable_good [OF assms(1)] step_claim [OF assms(2)]])
  with assms(3) have inv: "store_inv (late t)" by (induction rule: rtranclp_induct) (auto intro: store_step_inv)
  have ok: "output_ok (res_output (report_result rep))"
    unfolding rep_def by (rule job_report_ok) (use assms(4) in \<open>simp add: output_ok_def\<close>)
  have fresh: "\<forall>res x. rep = ReportWaiting res x \<longrightarrow> task_id x \<noteq> '''' \<and> map_of (sn_tasks (late t)) (task_id x) = None"
    using assms(5,6) job_report_task unfolding rep_def by metis
  show ?thesis
  proof (cases "leased_job_and_run (late t) l (clock (we_report W))")
    case (Inl err)
    with send_report_refused [OF Inl] one show ?thesis by (cases err) simp_all
  next
    case (Inr p)
    obtain j' r' where p: "p = (j', r')" by (cases p)
    have "\<exists>v. worker_process_one C P run W mid late s = (v, True, None)
          \<and> map_option job_state (map_of (sn_jobs v) (lease_job l)) \<in> {Some JobSucceeded, Some JobFailed}
          \<and> map_option run_state (map_of (sn_runs v) (job_run j')) \<in> {Some RunSucceeded, Some RunFailed, Some RunWaitingHuman}"
      if c: "job_canceled_by j' = None"
    proof -
      obtain v where v: "send_report C (we_report W) l rep (late t) = Inr (v, ())"
        "map_option job_state (map_of (sn_jobs v) (lease_job l)) = Some (reported_job_state rep)"
        "map_option run_state (map_of (sn_runs v) (job_run j')) = Some (reported_state rep)"
        using send_report_settles [OF inv Inr [unfolded p] c ok fresh] by blast
      have "worker_process_one C P run W mid late s = (v, True, None)" using v(1) one by simp
      moreover have "Some (reported_job_state rep) \<in> {Some JobSucceeded, Some JobFailed}"
        "Some (reported_state rep) \<in> {Some RunSucceeded, Some RunFailed, Some RunWaitingHuman}"
        by (cases rep; simp)+
      ultimately show ?thesis unfolding v(2,3) [symmetric] by blast
    qed
    with Inr p show ?thesis by simp
  qed
qed

definition ex_processor :: processor where
  "ex_processor = \<lparr>pr_worker = ''w1'', pr_group = '''', pr_tags = [], pr_labels = [], pr_slots = 1, pr_egress_proxy = '''',
     pr_lease_ttl = seconds 30, pr_heartbeat = 0, pr_log_cap = 0, pr_bindings = no_auth_session, pr_job_token = (\<lambda>_. ''''),
     pr_decode_text = (\<lambda>_. ''cannot decode''), pr_quote = (\<lambda>s. s)\<rparr>"

text \<open>An environment that draws a name no task of the store has.\<close>

lemma fresh_env: "\<exists>e :: call_env. draw_id e ''human'' 0 \<noteq> '''' \<and> map_of (sn_tasks u) (draw_id e ''human'' 0) = None"
proof -
  obtain x :: string where x: "x \<notin> insert '''' (dom (map_of (sn_tasks u)))"
    using ex_new_if_finite [OF infinite_UNIV_listI] by (metis finite_dom_map_of finite_insert)
  then have "map_of (sn_tasks u) x = None" by auto
  with x show ?thesis by (intro exI [where x = "(ex_at 0)\<lparr>draw_id := (\<lambda>_ _. x)\<rparr>"]) simp
qed

theorem worker_settles_job_witness:
  "\<exists>W v. worker_process_one ex_plain ex_processor (\<lambda>_. (ex_result, None)) W id id ex_created = (v, True, None)
    \<and> map_option job_state (map_of (sn_jobs v) ''job1'') \<in> {Some JobSucceeded, Some JobFailed}"
proof -
  obtain j r t where c: "local_claim_job ex_plain (ex_at 2) ''w1'' [] [] (seconds 30) ex_created
      = Inr (t, (j, lease_of j 2 (seconds 30)))" and j: "one_run j r t" "job_state j = JobRunning" "job_id j = ''job1''"
    "job_lease_expires_at j = Some (2 + seconds 30)"
    using ex_claim by blast
  obtain e :: call_env where e: "draw_id e ''human'' 0 \<noteq> ''''" "map_of (sn_tasks (id t)) (draw_id e ''human'' 0) = None"
    using fresh_env [of t] by auto
  define W where "W = \<lparr>we_claim = ex_at 2, we_run = e, we_report = ex_at 3\<rparr>"
  have W: "we_claim W = ex_at 2" "we_run W = e" "we_report W = ex_at 3" by (simp_all add: W_def)
  have "local_claim_job ex_plain (we_claim W) (processor_id (we_claim W) ex_processor) (pr_tags ex_processor)
      (pr_labels ex_processor) (pr_lease_ttl ex_processor) ex_created = Inr (t, (j, lease_of j 2 (seconds 30)))"
    using c by (simp add: W ex_processor_def processor_id_def)
  moreover have "(store_step ex_plain)\<^sup>*\<^sup>* t (id t)" by simp
  moreover have "\<forall>q. raw_empty (res_output (fst ((\<lambda>_. (ex_result, None :: run_error option)) q)))
      \<or> json_valid (res_output (fst ((\<lambda>_. (ex_result, None :: run_error option)) q)))" by (simp add: ex_result_def)
  moreover have l: "leased_job_and_run (id t) (lease_of j 2 (seconds 30)) (clock (we_report W)) = Inr (j, r)"
    using one_run_lookup [OF j(1)] j by (simp add: leased_job_and_run_def lease_of_def W ex_at_def seconds_def)
  moreover have "job_canceled_by j = None" using j(1) by (simp add: one_run_def)
  ultimately show ?thesis
    using worker_settles_job [OF ex_created_reachable, of W ex_processor t j "lease_of j 2 (seconds 30)" id "\<lambda>_. (ex_result, None)" id]
      e by (auto simp: W j(3) lease_of_def)
qed

section \<open>What an action may return\<close>

text \<open>C22. An action that succeeds with a result that is not a JSON object fails its job: when its process exits
with code 0 and its result is an array, a string, a number or a boolean, the worker reports a failure with
the message of a decoding error, although the executor takes every result file that is JSON.\<close>

theorem non_object_result_fails:
  assumes "prepare_input C P s j = Inr input" and "run (job_request P j input) = (res, None)"
    and "res_exit_code res = 0" and "res_output res = RawDoc d" and "d \<noteq> JNull" and "\<forall>kvs. d \<noteq> JObj kvs"
  shows "job_report C P run e s j = ReportFailed (res\<lparr>res_job := job_id j, res_stdout := '''', res_stderr := '''',
      res_error := pr_decode_text P (RawDoc d)\<rparr>)
    \<and> exr_result (executor_result (Some 0) None False logs ms (Some (RawDoc d))) = RawDoc d"
proof -
  have "raw_object (RawDoc d) = None" using assms(6) by (cases d) auto
  moreover have "human_task_from_output (pr_decode_text P) (pr_quote P) e (job_run j) (RawDoc d)
      = HumanError (pr_decode_text P (RawDoc d))"
    using assms(5,6) by (cases d) (auto simp: human_task_from_output_def)
  ultimately show ?thesis
    using assms(1-4) by (simp add: job_report_def outcome_of_def Let_def action_declared_failure_def executor_result_def)
qed

lemma bindings_of_object: "\<exists>b. apply_bindings c (strip_reserved_runtime_input (RawDoc (JObj kvs))) = Some b"
proof -
  have "\<exists>m. raw_object (strip_reserved_runtime_input (RawDoc (JObj kvs))) = Some m"
    by (auto simp: strip_reserved_runtime_input_def marshal_object_def)
  moreover have "\<not> raw_empty (strip_reserved_runtime_input (RawDoc (JObj kvs)))"
    by (simp add: strip_reserved_runtime_input_def)
  ultimately show ?thesis by (auto simp: apply_bindings_def Let_def)
qed

definition ex_input_job :: "(string \<times> json) list \<Rightarrow> job" where
  "ex_input_job kvs =
    ex_job\<lparr>job_payload := (job_payload ex_job)\<lparr>jp_input_resolved := True, jp_input := RawDoc (JObj kvs)\<rparr>\<rparr>"

lemma ex_input_job_prepares:
  assumes "\<not> is_enc (RawDoc (JObj kvs))"
  shows "decrypt_input ex_plain (job_workspace (ex_input_job kvs)) (jp_input (job_payload (ex_input_job kvs))) = Inr (RawDoc (JObj kvs))"
    and "prepare_input ex_plain ex_processor s (ex_input_job kvs) =
      Inr (the (apply_bindings no_auth_session (strip_reserved_runtime_input (RawDoc (JObj kvs)))))"
proof -
  show d: "decrypt_input ex_plain (job_workspace (ex_input_job kvs)) (jp_input (job_payload (ex_input_job kvs))) = Inr (RawDoc (JObj kvs))"
    using assms by (simp add: ex_input_job_def decrypt_input_def decrypt_input_at_rest_def decrypt_json_at_rest_def
        canonical_json_value_def Let_def)
  have "\<exists>b. apply_bindings no_auth_session (strip_reserved_runtime_input (RawDoc (JObj kvs))) = Some b"
    by (rule bindings_of_object)
  moreover have "jp_input_resolved (job_payload (ex_input_job kvs))" "pr_bindings ex_processor = no_auth_session"
    by (simp_all add: ex_input_job_def ex_processor_def)
  ultimately show "prepare_input ex_plain ex_processor s (ex_input_job kvs) =
      Inr (the (apply_bindings no_auth_session (strip_reserved_runtime_input (RawDoc (JObj kvs)))))"
    using d by (auto simp: prepare_input_def Let_def)
qed

theorem non_object_result_fails_witness:
  "\<exists>res. job_report ex_plain ex_processor (\<lambda>_. (ex_result\<lparr>res_output := RawDoc (JArr [JNum ''1''])\<rparr>, None)) (ex_at 3) ex_created
     (ex_input_job []) = ReportFailed res \<and> res_error res = ''cannot decode''"
proof -
  have "\<not> is_enc (RawDoc (JObj []))" by code_simp
  from non_object_result_fails [OF ex_input_job_prepares(2) [OF this], of "\<lambda>_. (ex_result\<lparr>res_output := RawDoc (JArr [JNum ''1''])\<rparr>, None)"
      "ex_result\<lparr>res_output := RawDoc (JArr [JNum ''1''])\<rparr>" "JArr [JNum ''1'']"]
  show ?thesis by (simp add: ex_result_def ex_processor_def)
qed

section \<open>The reserved key of an input\<close>

text \<open>A caller cannot put anything under the key the worker binds: in the input an action sees, the reserved
key is absent without a binding and holds the session of the worker with one, whatever the request, the
settings and the stored input had there; every other key keeps its value.\<close>

theorem reserved_key_is_workers:
  assumes "prepare_input C P s j = Inr bound" and "jp_input_resolved (job_payload j)"
    and "decrypt_input C (job_workspace j) (jp_input (job_payload j)) = Inr plain" and "raw_object plain = Some m"
  shows "\<exists>m'. raw_object bound = Some m' \<and> (\<forall>k. k \<noteq> reserved_runtime_input_key \<longrightarrow> map_of m' k = map_of m k)
    \<and> (as_url (pr_bindings P) = '''' \<longrightarrow> map_of m' reserved_runtime_input_key = None)
    \<and> (as_url (pr_bindings P) \<noteq> '''' \<longrightarrow> (\<exists>timeout. map_of m' reserved_runtime_input_key = Some (JObj [(''authSession'',
         JObj [(''jwt'', JStr (as_jwt (pr_bindings P))), (''serviceUrl'', JStr (as_url (pr_bindings P))), (''timeoutMs'', timeout)])])))"
proof -
  let ?b = "pr_bindings P"
  have m: "map_ok m" using assms(4) by (auto simp: raw_object_Some map_ok_object_map)
  obtain m1 where m1: "raw_object (strip_reserved_runtime_input plain) = Some m1" "map_ok m1"
    "\<And>k. k \<noteq> reserved_runtime_input_key \<Longrightarrow> map_of m1 k = map_of m k"
  proof (cases "map_of m reserved_runtime_input_key")
    case None
    with that [of m] m assms(4) show ?thesis by (simp add: strip_reserved_runtime_input_def)
  next
    case (Some d)
    obtain m1 where "raw_object (marshal_object (mdel reserved_runtime_input_key m)) = Some m1" "map_ok m1"
      "map_of m1 = map_of (mdel reserved_runtime_input_key m)"
      using raw_object_marshal [OF map_ok_mdel [OF m]] by blast
    with that [of m1] Some assms(4) show ?thesis by (simp add: strip_reserved_runtime_input_def)
  qed
  define kept where "kept = mdel reserved_runtime_input_key m1"
  define ms where "ms = (if as_timeout ?b sdiv 1000000 \<le> 0 then 15000 else as_timeout ?b sdiv 1000000)"
  define session where "session = JObj [(''authSession'',
         JObj [(''jwt'', JStr (as_jwt ?b)), (''serviceUrl'', JStr (as_url ?b)), (''timeoutMs'', int_doc ms)])]"
  define out where "out = (if as_url ?b = '''' then kept else mput reserved_runtime_input_key session kept)"
  have ne: "\<not> raw_empty (strip_reserved_runtime_input plain)" using m1(1) by (auto simp: raw_object_Some)
  have bound: "bound = marshal_object out"
    using assms(1-3) m1(1) ne
    by (simp add: prepare_input_def Let_def apply_bindings_def out_def kept_def session_def ms_def split: if_splits)
  have "map_ok out" using m1(2) by (simp add: out_def kept_def map_ok_mdel map_ok_mput)
  from raw_object_marshal [OF this] obtain m' where m': "raw_object bound = Some m'" "map_of m' = map_of out"
    unfolding bound by blast
  have "\<forall>k. k \<noteq> reserved_runtime_input_key \<longrightarrow> map_of m' k = map_of m k"
    using m1(3) by (simp add: m'(2) out_def kept_def)
  moreover have "as_url ?b = '''' \<longrightarrow> map_of m' reserved_runtime_input_key = None"
    by (simp add: m'(2) out_def kept_def)
  moreover have "as_url ?b \<noteq> '''' \<longrightarrow> map_of m' reserved_runtime_input_key = Some session"
    by (simp add: m'(2) out_def)
  ultimately show ?thesis using m'(1) unfolding session_def by blast
qed

lemma ex_spoofed:
  "\<not> is_enc (RawDoc (JObj [(''_SCRAPING_RUNTIME'', JStr ''mine''), (''a'', JNum ''1'')]))"
  "raw_object (RawDoc (JObj [(''_SCRAPING_RUNTIME'', JStr ''mine''), (''a'', JNum ''1'')]))
    = Some [(''_SCRAPING_RUNTIME'', JStr ''mine''), (''a'', JNum ''1'')]"
  by code_simp+

theorem reserved_key_is_workers_witness:
  "\<exists>bound m'. prepare_input ex_plain ex_processor ex_created
      (ex_input_job [(''_SCRAPING_RUNTIME'', JStr ''mine''), (''a'', JNum ''1'')]) = Inr bound
    \<and> raw_object bound = Some m' \<and> map_of m' reserved_runtime_input_key = None \<and> map_of m' ''a'' = Some (JNum ''1'')"
proof -
  note prep = ex_input_job_prepares [OF ex_spoofed(1)]
  have "jp_input_resolved (job_payload (ex_input_job kvs))" for kvs by (simp add: ex_input_job_def)
  then show ?thesis
    using reserved_key_is_workers [OF prep(2) _ prep(1) ex_spoofed(2)] prep(2)
    by (fastforce simp: ex_processor_def no_auth_session_def reserved_runtime_input_key_def)
qed

end
