(* ===== verification/Execution_Service.thy ===== *)
theory Execution_Service
  imports Retention Client_Store Input_Config
begin

text \<open>
  Admission of runs (\<^verbatim>\<open>internal/execution/service.go\<close> and \<^verbatim>\<open>schema.go\<close>): checking a request, replaying
  an idempotent one, resolving and validating its input against the schema of the action, and enqueueing
  the run. A call reads the store at one time and writes it at a later one, so the definitions take both
  snapshots. The catalog, the bundles that hold schema files, the JSON Schema compiler and the quoting of \<^verbatim>\<open>%q\<close> are
  arguments.
\<close>

section \<open>Schemas\<close>

text \<open>What reading a file of a materialised bundle gives, and what a schema is compiled to.\<close>

datatype file_read = FileMissing | FileError string | FileData raw

type_synonym source_tree = "string \<Rightarrow> file_read"

record schema_lib =
  sch_quote :: "string \<Rightarrow> string"
  sch_fetch :: "(string \<Rightarrow> string \<Rightarrow> string \<Rightarrow> string + source_tree) option"
  sch_compile :: "string option \<Rightarrow> json \<Rightarrow> string + (json \<Rightarrow> string option)"

record schema_reader =
  rd_deployment :: deployment
  rd_dir :: "source_tree option"
  rd_err :: "string option"

definition new_schema_reader :: "deployment \<Rightarrow> schema_reader" where
  "new_schema_reader d = \<lparr>rd_deployment = d, rd_dir = None, rd_err = None\<rparr>"

definition validate_schema_path :: "schema_lib \<Rightarrow> string \<Rightarrow> string option" where
  "validate_schema_path X p =
    (if p = '''' then None
     else if prefix ''/'' p \<or> has_infix ''..'' p
     then Some (''schema path '' @ sch_quote X p @ '' must be a relative path inside the app'') else None)"

definition ensure_source_dir :: "schema_lib \<Rightarrow> schema_reader \<Rightarrow> schema_reader \<times> (string + source_tree)" where
  "ensure_source_dir X rd =
    (case rd_err rd of
       Some err \<Rightarrow> (rd, Inl err)
     | None \<Rightarrow>
       (case rd_dir rd of
          Some tree \<Rightarrow> (rd, Inr tree)
        | None \<Rightarrow>
          (let d = rd_deployment rd in
           case sch_fetch X of
             None \<Rightarrow> (rd, Inl ''source storage is not configured'')
           | Some fetch \<Rightarrow>
             (case fetch (source_workspace d) (source_git_source d) (dep_commit d) of
                Inl err \<Rightarrow> (rd\<lparr>rd_err := Some err\<rparr>, Inl err)
              | Inr tree \<Rightarrow> (rd\<lparr>rd_dir := Some tree\<rparr>, Inr tree)))))"

definition read_schema_file :: "schema_lib \<Rightarrow> source_tree \<Rightarrow> string \<Rightarrow> string + raw" where
  "read_schema_file X tree p =
    (case tree p of
       FileMissing \<Rightarrow> Inl (''manifest references schema '' @ sch_quote X p @ '' but the file is missing'')
     | FileError err \<Rightarrow> Inl err
     | FileData r \<Rightarrow> if json_valid r then Inr r else Inl (''schema '' @ sch_quote X p @ '' is not valid JSON''))"

text \<open>The body materialised with the deployment wins over the file; without either the schema is empty.\<close>

definition schema_read :: "schema_lib \<Rightarrow> schema_reader \<Rightarrow> string \<Rightarrow> raw \<Rightarrow> schema_reader \<times> (string + raw)" where
  "schema_read X rd p body =
    (case validate_schema_path X p of
       Some err \<Rightarrow> (rd, Inl err)
     | None \<Rightarrow>
       (let from_file = (if p = '''' then (rd, Inr empty_object)
            else if sch_fetch X = None then (rd, Inl ''source storage is not configured'')
            else case ensure_source_dir X rd of
                (rd', Inl err) \<Rightarrow> (rd', Inl err)
              | (rd', Inr tree) \<Rightarrow> (rd', read_schema_file X tree p)) in
        case body of
          RawBytes s \<Rightarrow> if trim_space s = '''' then from_file else (rd, Inl ''materialized schema is not valid JSON'')
        | RawDoc JNull \<Rightarrow> from_file
        | RawDoc d \<Rightarrow> (rd, Inr (RawDoc d))))"

datatype schema_failure = InputInvalid string | SchemaFailed string

definition schema_validate ::
    "schema_lib \<Rightarrow> schema_reader \<Rightarrow> string \<Rightarrow> raw \<Rightarrow> raw \<Rightarrow> schema_reader \<times> (schema_failure + unit)" where
  "schema_validate X rd p schema input =
    (case validate_schema_path X p of
       Some err \<Rightarrow> (rd, Inl (SchemaFailed err))
     | None \<Rightarrow>
       (case schema of
          RawBytes s \<Rightarrow> (rd, Inl (SchemaFailed ''decode input schema''))
        | RawDoc doc \<Rightarrow>
          (let (rd', base) = (if trim_space p \<noteq> '''' \<and> sch_fetch X \<noteq> None
                 then map_prod id (map_sum id (\<lambda>_. Some p)) (ensure_source_dir X rd) else (rd, Inr None)) in
           case base of
             Inl err \<Rightarrow> (rd', Inl (SchemaFailed err))
           | Inr resource \<Rightarrow>
             (case sch_compile X resource doc of
                Inl err \<Rightarrow> (rd', Inl (SchemaFailed err))
              | Inr validate \<Rightarrow>
                (case input of
                   RawBytes s \<Rightarrow> (rd', Inl (SchemaFailed ''decode input''))
                 | RawDoc i \<Rightarrow>
                   (case validate i of
                      Some err \<Rightarrow> (rd', Inl (InputInvalid (''input does not match action schema: '' @ err)))
                    | None \<Rightarrow> (rd', Inr ())))))))"

section \<open>Faults\<close>

datatype fault_kind = FaultUnavailable | FaultInvalidRequest | FaultAppNotFound | FaultActionNotFound
  | FaultRoutingConflict | FaultConflict | FaultInternal

record fault =
  fault_kind :: fault_kind
  fault_message :: string
  fault_err :: "store_error option"

definition fail_with :: "fault_kind \<Rightarrow> string \<Rightarrow> fault + 'a" where
  "fail_with k m = Inl \<lparr>fault_kind = k, fault_message = m, fault_err = None\<rparr>"

definition fail_from :: "fault_kind \<Rightarrow> string \<Rightarrow> store_error \<Rightarrow> fault + 'a" where
  "fail_from k m err = Inl \<lparr>fault_kind = k, fault_message = m, fault_err = Some err\<rparr>"

definition locked_keys_text :: "string list \<Rightarrow> string" where
  "locked_keys_text ks = ''request set locked input keys: '' @ join_with '', '' ks"

section \<open>Looking up a deployment\<close>

text \<open>A catalog that knows workspaces is asked with the workspace; another one is checked.\<close>

datatype catalog_service =
    Scoped "string \<Rightarrow> string \<Rightarrow> store_error + deployment"
  | Unscoped "string \<Rightarrow> store_error + deployment"

definition lookup_deployment :: "catalog_service \<Rightarrow> string \<Rightarrow> string \<Rightarrow> store_error + deployment" where
  "lookup_deployment cat w app =
    (case cat of
       Scoped f \<Rightarrow> f w app
     | Unscoped f \<Rightarrow> and_then (f app) (\<lambda>d.
         if normalize_workspace (source_workspace d) \<noteq> normalize_workspace w then Inl NotFound else Inr d))"

section \<open>Admission\<close>

record create_run_request =
  crr_workspace :: string
  crr_app :: string
  crr_action :: string
  crr_input :: raw
  crr_adapter :: string
  crr_trigger_kind :: string
  crr_trigger_headers :: raw
  crr_correlation :: string
  crr_idempotency_key :: string
  crr_env :: "string list"
  crr_client :: string
  crr_created_by :: string
  crr_permissioned_as :: string

record admission =
  adm_run :: run
  adm_job :: job
  adm_replayed :: bool

definition nul :: string where "nul = [char_of (0::nat)]"

definition deterministic_run_id :: "(string \<Rightarrow> string) \<Rightarrow> string \<Rightarrow> string \<Rightarrow> string \<Rightarrow> string \<Rightarrow> string" where
  "deterministic_run_id sha w app action key =
    ''run_'' @ hex_encode (take 12 (sha (w @ nul @ app @ nul @ action @ nul @ key)))"

text \<open>The request as the call goes on with it, or why it is invalid.\<close>

definition checked_request :: "create_run_request \<Rightarrow> fault + create_run_request" where
  "checked_request req =
    (let req = req\<lparr>crr_workspace := normalize_workspace (crr_workspace req), crr_app := trim_space (crr_app req),
                   crr_action := trim_space (crr_action req)\<rparr> in
     if \<not> valid_app_key (crr_app req) \<or> \<not> valid_action_key (crr_action req)
     then fail_with FaultInvalidRequest ''invalid app/action key''
     else
       let req = (if raw_empty (crr_input req) then req\<lparr>crr_input := empty_object\<rparr> else req) in
       if \<not> json_valid (crr_input req) then fail_with FaultInvalidRequest ''input must be valid JSON'' else Inr req)"

definition request_client :: "snapshot \<Rightarrow> create_run_request \<Rightarrow> fault + string" where
  "request_client s req =
    (let cid = trim_space (crr_client req) in
     if cid = '''' then Inr ''''
     else case get_client s (crr_workspace req) cid of
       Inl NotFound \<Rightarrow> fail_with FaultInvalidRequest ''unknown client''
     | Inl err \<Rightarrow> fail_from FaultInternal ''could not resolve client'' err
     | Inr c \<Rightarrow> Inr (cli_id c))"

definition request_run_id :: "(string \<Rightarrow> string) \<Rightarrow> create_run_request \<Rightarrow> string \<Rightarrow> string" where
  "request_run_id sha req client =
    (let key = trim_space (crr_idempotency_key req) in
     if key = '''' then ''''
     else deterministic_run_id sha (crr_workspace req) (crr_app req) (crr_action req)
       (if client \<noteq> '''' then key @ nul @ ''client:'' @ client else key))"

definition find_replay :: "input_crypto \<Rightarrow> snapshot \<Rightarrow> string \<Rightarrow> string \<Rightarrow> fault + admission option" where
  "find_replay C s w rid =
    (case get_job_by_run_id C w rid s of
       Inl err \<Rightarrow> fail_from FaultInternal ''could not resolve idempotent run'' err
     | Inr None \<Rightarrow> Inr None
     | Inr (Some (j, r)) \<Rightarrow> Inr (Some \<lparr>adm_run = r, adm_job = j, adm_replayed = True\<rparr>))"

record admitted =
  adt_deployment :: deployment
  adt_action :: action
  adt_input :: raw
  adt_input_schema :: raw
  adt_reader :: schema_reader

definition admit_request ::
    "input_crypto \<Rightarrow> schema_lib \<Rightarrow> catalog_service \<Rightarrow> snapshot \<Rightarrow> create_run_request \<Rightarrow> string \<Rightarrow> fault + admitted" where
  "admit_request C X cat s req client =
    (case lookup_deployment cat (crr_workspace req) (crr_app req) of
       Inl err \<Rightarrow> fail_from FaultAppNotFound (''app not found: '' @ crr_app req) err
     | Inr d \<Rightarrow>
       (case dep_action d (crr_action req) of
          None \<Rightarrow> fail_with FaultActionNotFound (''action not found: '' @ crr_app req @ ''/'' @ crr_action req)
        | Some a \<Rightarrow>
          if trim_space (dep_bundle_digest d) = ''''
          then fail_with FaultUnavailable ''active release has no execution bundle; publish the synchronized source again''
          else
            (case resolve_input C s (crr_workspace req) (crr_app req) (crr_action req) client (crr_input req) of
               Inl (LockedKeys ks) \<Rightarrow> fail_from FaultInvalidRequest (locked_keys_text ks) (LockedKeys ks)
             | Inl err \<Rightarrow> fail_from FaultInternal ''could not validate input settings'' err
             | Inr input \<Rightarrow>
               (let name = crr_app req @ ''/'' @ crr_action req in
                case schema_read X (new_schema_reader d) (act_input_schema a) (act_input_body a) of
                  (rd, Inl err) \<Rightarrow> fail_with FaultInternal (''input schema for '' @ name @ '': '' @ err)
                | (rd, Inr schema) \<Rightarrow>
                  (case schema_validate X rd (act_input_schema a) schema input of
                     (rd, Inl (InputInvalid err)) \<Rightarrow> fail_with FaultInvalidRequest err
                   | (rd, Inl (SchemaFailed err)) \<Rightarrow>
                       fail_with FaultInternal (''input schema for '' @ name @ '' could not be evaluated'')
                   | (rd, Inr _) \<Rightarrow> Inr \<lparr>adt_deployment = d, adt_action = a, adt_input = input,
                       adt_input_schema = schema, adt_reader = rd\<rparr>)))))"

definition request_adapter :: "create_run_request \<Rightarrow> string" where
  "request_adapter req = (if trim_space (crr_adapter req) = '''' then ''http'' else trim_space (crr_adapter req))"

definition admitted_run :: "call_env \<Rightarrow> create_run_request \<Rightarrow> string \<Rightarrow> string \<Rightarrow> admitted \<Rightarrow> run" where
  "admitted_run e req client rid a =
    (new_run e (request_adapter req) rid (crr_app req) (crr_action req) (adt_deployment a) (adt_input a))
      \<lparr>run_input_resolved := True, run_correlation := clean_id (crr_correlation req), run_env := crr_env req,
       run_created_by := trim_space (crr_created_by req), run_permissioned_as := trim_space (crr_permissioned_as req),
       run_client := client\<rparr>"

definition admitted_job :: "call_env \<Rightarrow> create_run_request \<Rightarrow> admitted \<Rightarrow> run \<Rightarrow> job" where
  "admitted_job e req a r =
    (let j = new_action_job e r (adt_input a);
         kind = trim_space (crr_trigger_kind req) in
     j\<lparr>job_payload := (job_payload j)\<lparr>jp_trigger_kind := (if kind = '''' then request_adapter req else kind),
         jp_trigger_headers := crr_trigger_headers req, jp_input_schema := adt_input_schema a\<rparr>\<rparr>)"

text \<open>
  \<^verbatim>\<open>CreateRun\<close>: reads of the store \<open>s0\<close>, the write on \<open>s\<close>. After a conflict with an idempotent run the
  store is read again, at the time of the write or later: \<open>s1\<close>. The store after the call is what the
  write leaves.
\<close>

definition service_create_run ::
    "input_crypto \<Rightarrow> schema_lib \<Rightarrow> catalog_service \<Rightarrow> call_env \<Rightarrow> call_env \<Rightarrow> create_run_request
      \<Rightarrow> snapshot \<Rightarrow> snapshot \<Rightarrow> snapshot \<Rightarrow> snapshot \<times> (fault + admission)" where
  "service_create_run C X cat e e' req0 s0 s s1 =
    (case checked_request req0 of
       Inl f \<Rightarrow> (s, Inl f)
     | Inr req \<Rightarrow>
     (case request_client s0 req of
       Inl f \<Rightarrow> (s, Inl f)
     | Inr client \<Rightarrow>
     (let rid = request_run_id (sha256 (prims C)) req client in
      case (if rid = '''' then Inr None else find_replay C s0 (crr_workspace req) rid) of
        Inl f \<Rightarrow> (s, Inl f)
      | Inr (Some adm) \<Rightarrow> (s, Inr adm)
      | Inr None \<Rightarrow>
      (case admit_request C X cat s0 req client of
         Inl f \<Rightarrow> (s, Inl f)
       | Inr a \<Rightarrow>
         (let r = admitted_run e req client rid a;
              j = admitted_job e req a r;
              name = crr_app req @ ''/'' @ crr_action req in
          case schema_read X (adt_reader a) (act_output_schema (adt_action a)) (act_output_body (adt_action a)) of
            (rd, Inl err) \<Rightarrow> (s, fail_with FaultInternal (''output schema for '' @ name @ '': '' @ err))
          | (rd, Inr schema) \<Rightarrow>
            (let j = j\<lparr>job_payload := (job_payload j)\<lparr>jp_output_schema := schema\<rparr>\<rparr> in
             case local_create_run C e' r j s of
               Inr (t, _) \<Rightarrow> (t, Inr \<lparr>adm_run = r, adm_job = j, adm_replayed = False\<rparr>)
             | Inl Conflict \<Rightarrow>
               (if rid = '''' then (s, fail_from FaultConflict '''' Conflict)
                else case find_replay C s1 (crr_workspace req) rid of
                  Inl f \<Rightarrow> (s, Inl f)
                | Inr (Some adm) \<Rightarrow> (s, Inr adm)
                | Inr None \<Rightarrow> (s, fail_from FaultConflict ''idempotent run already exists'' Conflict))
             | Inl err \<Rightarrow> (s, fail_from FaultInternal '''' err)))))))"

section \<open>Runs and apps\<close>

definition service_get_run :: "input_crypto \<Rightarrow> string \<Rightarrow> string \<Rightarrow> snapshot \<Rightarrow> fault + run" where
  "service_get_run C w rid s =
    (case get_run C (trim_space rid) s of
       Inl NotFound \<Rightarrow> fail_from FaultAppNotFound ''run not found'' NotFound
     | Inl err \<Rightarrow> fail_from FaultInternal '''' err
     | Inr r \<Rightarrow>
       if normalize_workspace (source_workspace (run_deployment r)) \<noteq> normalize_workspace w
       then fail_with FaultAppNotFound ''run not found'' else Inr r)"

definition service_cancel_run ::
    "input_crypto \<Rightarrow> call_env \<Rightarrow> string \<Rightarrow> string \<Rightarrow> string \<Rightarrow> snapshot \<Rightarrow> snapshot \<Rightarrow> snapshot \<times> (fault + run)" where
  "service_cancel_run C e w rid reason s0 s =
    (case service_get_run C w rid s0 of
       Inl f \<Rightarrow> (s, Inl f)
     | Inr _ \<Rightarrow>
       (case local_cancel_run e (trim_space rid) (trim_space reason) s of
          Inl err \<Rightarrow> (s, fail_from FaultInternal '''' err)
        | Inr (t, r) \<Rightarrow> (t, Inr r)))"

record action_description =
  ad_spec :: action
  ad_input_schema :: raw
  ad_output_schema :: raw

record app_description =
  apd_deployment :: deployment
  apd_actions :: "(string, action_description) gomap"

fun describe_actions ::
    "schema_lib \<Rightarrow> string \<Rightarrow> schema_reader \<Rightarrow> (string, action) gomap \<Rightarrow> fault + (string, action_description) gomap" where
  "describe_actions X app rd [] = Inr []"
| "describe_actions X app rd ((k, a) # as) =
    (case schema_read X rd (act_input_schema a) (act_input_body a) of
       (rd, Inl err) \<Rightarrow> fail_with FaultInternal (''input schema for '' @ app @ ''/'' @ k @ '': '' @ err)
     | (rd, Inr input) \<Rightarrow>
       (case schema_read X rd (act_output_schema a) (act_output_body a) of
          (rd, Inl err) \<Rightarrow> fail_with FaultInternal (''output schema for '' @ app @ ''/'' @ k @ '': '' @ err)
        | (rd, Inr output) \<Rightarrow>
          (case describe_actions X app rd as of
             Inl f \<Rightarrow> Inl f
           | Inr m \<Rightarrow> Inr (mput k \<lparr>ad_spec = a, ad_input_schema = input, ad_output_schema = output\<rparr> m))))"

definition describe_app :: "schema_lib \<Rightarrow> catalog_service \<Rightarrow> string \<Rightarrow> string \<Rightarrow> fault + app_description" where
  "describe_app X cat w app0 =
    (let app = trim_space app0 in
     if \<not> valid_app_key app then fail_with FaultInvalidRequest ''invalid app key''
     else case lookup_deployment cat (normalize_workspace w) app of
       Inl err \<Rightarrow> fail_from FaultAppNotFound (''app not found: '' @ app) err
     | Inr d \<Rightarrow>
       (case describe_actions X app (new_schema_reader d) (case dep_actions d of None \<Rightarrow> [] | Some m \<Rightarrow> m) of
          Inl f \<Rightarrow> Inl f
        | Inr m \<Rightarrow> Inr \<lparr>apd_deployment = d, apd_actions = m\<rparr>))"

end
