(* ===== verification/Execution_Properties.thy ===== *)
theory Execution_Properties
  imports Execution_Service Run_Properties Tenancy
begin

text \<open>
  What the admission of runs promises: an idempotency key names at most one run, and what is enqueued was
  looked up, resolved and validated.
\<close>

section \<open>What a call that creates a run did\<close>

lemma service_created:
  assumes "service_create_run C X cat e e' q s0 s s1 = (t, Inr a)" and "\<not> adm_replayed a"
  obtains req client ad rd out where "checked_request q = Inr req" and "request_client s0 req = Inr client"
    and "admit_request C X cat s0 req client = Inr ad"
    and "adm_run a = admitted_run e req client (request_run_id (sha256 (prims C)) req client) ad"
    and "adm_job a = (let j = admitted_job e req ad (adm_run a) in j\<lparr>job_payload := (job_payload j)\<lparr>jp_output_schema := out\<rparr>\<rparr>)"
    and "schema_read X (adt_reader ad) (act_output_schema (adt_action ad)) (act_output_body (adt_action ad)) = (rd, Inr out)"
    and "local_create_run C e' (adm_run a) (adm_job a) s = Inr (t, ())"
proof -
  have replay: "adm_replayed b" if "find_replay C v w i = Inr (Some b)" for v w i b
    using that by (auto simp: find_replay_def fail_from_def split: sum.splits option.splits)
  obtain req where req: "checked_request q = Inr req"
    using assms(1) by (auto simp: service_create_run_def split: sum.splits)
  obtain client where client: "request_client s0 req = Inr client"
    using assms(1) by (auto simp: service_create_run_def req split: sum.splits)
  let ?rid = "request_run_id (sha256 (prims C)) req client"
  have "(if ?rid = '''' then Inr None else find_replay C s0 (crr_workspace req) ?rid) = Inr None"
    using assms replay
    by (cases "if ?rid = '''' then Inr None else find_replay C s0 (crr_workspace req) ?rid")
      (auto simp: service_create_run_def req client Let_def split: option.splits if_splits)
  note none = this
  obtain ad where ad: "admit_request C X cat s0 req client = Inr ad"
    using assms(1) by (auto simp: service_create_run_def req client Let_def none split: sum.splits)
  obtain rd out where out: "schema_read X (adt_reader ad) (act_output_schema (adt_action ad)) (act_output_body (adt_action ad)) = (rd, Inr out)"
    using assms(1) by (auto simp: service_create_run_def req client Let_def none ad fail_with_def split: sum.splits prod.splits)
  let ?r = "admitted_run e req client ?rid ad"
  let ?j = "(admitted_job e req ad ?r)\<lparr>job_payload := (job_payload (admitted_job e req ad ?r))\<lparr>jp_output_schema := out\<rparr>\<rparr>"
  have "local_create_run C e' ?r ?j s = Inr (t, ()) \<and> a = \<lparr>adm_run = ?r, adm_job = ?j, adm_replayed = False\<rparr>"
    using assms replay
    by (cases "local_create_run C e' ?r ?j s")
      (auto simp: service_create_run_def req client Let_def none ad out fail_from_def
        split: sum.splits store_error.splits option.splits if_splits)
  then show thesis using that [OF req client ad _ _ out] by (auto simp: Let_def)
qed

lemma service_created_fresh:
  assumes "service_create_run C X cat e e' q s0 s s1 = (t, Inr a)" and "\<not> adm_replayed a" and "draw_id e ''job'' 0 \<noteq> ''''"
  shows "fresh_pair (adm_run a) (adm_job a)"
  using assms(1,2)
proof (rule service_created)
  fix req client ad rd out
  assume "adm_run a = admitted_run e req client (request_run_id (sha256 (prims C)) req client) ad"
    and "adm_job a = (let j = admitted_job e req ad (adm_run a) in j\<lparr>job_payload := (job_payload j)\<lparr>jp_output_schema := out\<rparr>\<rparr>)"
  then show ?thesis
    using assms(3) by (simp add: fresh_pair_def queued_clean_def admitted_run_def admitted_job_def new_run_def new_action_job_def Let_def)
qed

text \<open>A call that creates a run is a step of the store.\<close>

lemma service_created_step:
  assumes "service_create_run C X cat e e' q s0 s s1 = (t, Inr a)" and "\<not> adm_replayed a" and "draw_id e ''job'' 0 \<noteq> ''''"
  shows "store_step C s t"
  using service_created [OF assms(1,2)] step_create [OF _ service_created_fresh [OF assms]] by metis

section \<open>Idempotency keys\<close>

lemma checked_request_keeps:
  assumes "checked_request q = Inr req"
  shows "crr_workspace req = normalize_workspace (crr_workspace q)" and "crr_app req = trim_space (crr_app q)"
    and "crr_action req = trim_space (crr_action q)" and "crr_idempotency_key req = crr_idempotency_key q"
    and "crr_client req = crr_client q" and "valid_app_key (crr_app req)" and "valid_action_key (crr_action req)"
    and "json_valid (crr_input req)"
    and "crr_input req = (if raw_empty (crr_input q) then empty_object else crr_input q)"
  using assms by (auto simp: checked_request_def Let_def fail_with_def split: if_splits)

lemma request_client_id:
  assumes "clients_keyed s" and "request_client s req = Inr client"
  shows "client = trim_space (crr_client req)"
  using assms by (auto simp: request_client_def get_client_def clients_keyed_def fail_with_def fail_from_def Let_def
      split: if_splits sum.splits store_error.splits option.splits)

lemma first_job_mem:
  "first_job_of_run w rid sel js = Some j \<Longrightarrow> sel = Some j \<or> j \<in> set js \<and> job_run j = rid \<and> normalized_job_workspace '''' j = w"
  by (induction w rid sel js rule: first_job_of_run.induct) (auto split: if_splits option.splits)

lemma decrypt_run_result_id: "decrypt_run_result C w r = Inr r' \<Longrightarrow> run_id r' = run_id r \<and> run_deployment r' = run_deployment r"
  by (auto simp: decrypt_run_result_def and_then_eq_Inr split: if_splits option.splits)

lemma find_replay_id:
  assumes inv: "store_inv s" and f: "find_replay C s w rid = Inr (Some b)"
  shows "adm_replayed b \<and> run_id (adm_run b) = rid"
proof -
  obtain j r where b: "get_job_by_run_id C w rid s = Inr (Some (j, r))" "b = \<lparr>adm_run = r, adm_job = j, adm_replayed = True\<rparr>"
    using f by (auto simp: find_replay_def fail_from_def split: sum.splits option.splits)
  then obtain j0 where j0: "first_job_of_run (normalize_workspace w) rid None (mvals (sn_jobs s)) = Some j0"
    "get_job C (normalize_workspace w) (job_id j0) s = Inr (Some (j, r))"
    by (auto simp: get_job_by_run_id_def split: option.splits)
  have mem: "j0 \<in> set (mvals (sn_jobs s))" "job_run j0 = rid" using first_job_mem [OF j0(1)] by simp_all
  have ok: "map_ok (sn_jobs s)" using store_invD(1) [OF inv] by (simp add: maps_ok_def)
  moreover obtain k where "(k, j0) \<in> set (sn_jobs s)" using mem(1) by (auto simp: mvals_def)
  ultimately have k: "job_view s k = Some j0" by (simp add: job_view_def map_ok_def mkeys_def)
  then have "job_view s (job_id j0) = Some j0" using ids_of(1) [OF inv k] by simp
  then obtain ji ri r0 where r: "run_view s rid = Some r0" "j = j0\<lparr>job_payload := (job_payload j0)\<lparr>jp_input := ji\<rparr>\<rparr>"
    "decrypt_run_result C (normalized_job_workspace '''' j) (r0\<lparr>run_input := ri\<rparr>) = Inr r"
    "normalized_job_workspace '''' j0 = normalize_workspace (normalize_workspace w)"
    using j0(2) mem(2)
    by (auto simp: get_job_def job_view_def run_view_def and_then_eq_Inr Let_def split: if_splits option.splits)
  show ?thesis
    using decrypt_run_result_id [OF r(3)] ids_of(2) [OF inv r(1)] b(2) by simp
qed

lemma local_create_conflict:
  "map_of (sn_runs s) (run_id r) \<noteq> None \<Longrightarrow> local_create_run C e r j s = Inl Conflict"
  by (auto simp: local_create_run_def update_def create_run_and_enqueue_def)

lemma service_again:
  assumes inv: "store_inv u0" "store_inv u1" and req: "checked_request q = Inr req" and client: "request_client u0 req = Inr client"
    and rid: "request_run_id (sha256 (prims C)) req client = rid" "rid \<noteq> ''''" and run: "map_of (sn_runs u) rid \<noteq> None"
  shows "\<exists>x. service_create_run C X cat e e' q u0 u u1 = (u, x) \<and> (\<forall>b. x = Inr b \<longrightarrow> adm_replayed b \<and> run_id (adm_run b) = rid)"
proof (cases "find_replay C u0 (crr_workspace req) rid")
  case (Inl f)
  then show ?thesis using req client rid by (simp add: service_create_run_def Let_def)
next
  case (Inr found)
  show ?thesis
  proof (cases found)
    case (Some b)
    with Inr show ?thesis using req client rid find_replay_id [OF inv(1)] by (simp add: service_create_run_def Let_def)
  next
    case None
    have "run_id (admitted_run e req client rid a) = rid" for a using rid by (simp add: admitted_run_def new_run_def)
    then have "local_create_run C e' (admitted_run e req client rid a) j u = Inl Conflict" for a j
      using run by (simp add: local_create_conflict)
    with None Inr show ?thesis using req client rid find_replay_id [OF inv(2)]
      by (auto simp: service_create_run_def Let_def fail_with_def fail_from_def split: sum.splits option.splits prod.splits)
  qed
qed

lemma same_key_same_run:
  assumes "clients_keyed s0" and "clients_keyed u0" and "checked_request q = Inr req" and "checked_request q' = Inr req'"
    and "request_client s0 req = Inr client" and "request_client u0 req' = Inr client'"
    and "normalize_workspace (crr_workspace q') = normalize_workspace (crr_workspace q)" and "trim_space (crr_app q') = trim_space (crr_app q)"
    and "trim_space (crr_action q') = trim_space (crr_action q)"
    and "trim_space (crr_idempotency_key q') = trim_space (crr_idempotency_key q)" and "trim_space (crr_client q') = trim_space (crr_client q)"
  shows "request_run_id sha req' client' = request_run_id sha req client"
  using checked_request_keeps [OF assms(3)] checked_request_keeps [OF assms(4)]
    request_client_id [OF assms(1,5)] request_client_id [OF assms(2,6)] assms(7-)
  by (simp add: request_run_id_def Let_def)

section \<open>What is stored\<close>

lemma create_stores:
  assumes "local_create_run C e r j s = Inr (t, ())"
  shows "\<exists>r' j'. run_view t (run_id r) = Some r' \<and> run_state r' = run_state r \<and> run_deployment r' = run_deployment r
    \<and> job_view t (job_id j) = Some j' \<and> job_state j' = job_state j \<and> job_run j' = job_run j"
  using assms
  by (auto simp: local_create_run_def update_Inr create_run_and_enqueue_def Let_def and_then_eq_Inr
      run_view_def [symmetric] job_view_def [symmetric] split: if_splits)

text \<open>The example: a call with an idempotency key in an empty store.\<close>

definition ex_schemas :: schema_lib where
  "ex_schemas = \<lparr>sch_quote = (\<lambda>s. s), sch_fetch = None, sch_compile = (\<lambda>_ _. Inr (\<lambda>_. None))\<rparr>"

definition ex_catalog :: catalog_service where
  "ex_catalog = Scoped (\<lambda>_ _. Inr ((ex_deployment ''c1'')\<lparr>dep_bundle_digest := ''b1''\<rparr>))"

definition ex_call :: create_run_request where
  "ex_call = \<lparr>crr_workspace = ''main'', crr_app = ''crawler'', crr_action = ''fetch'', crr_input = empty_object,
     crr_adapter = '''', crr_trigger_kind = '''', crr_trigger_headers = raw_nil, crr_correlation = '''',
     crr_idempotency_key = ''k1'', crr_env = [], crr_client = '''', crr_created_by = '''', crr_permissioned_as = ''''\<rparr>"

definition ex_admit :: "snapshot \<Rightarrow> snapshot \<times> (fault + admission)" where
  "ex_admit s = service_create_run One_Run.ex_plain ex_schemas ex_catalog (ex_at 1) (ex_at 1) ex_call s s s"

definition newly_admitted :: "snapshot \<times> (fault + admission) \<Rightarrow> bool" where
  "newly_admitted x = (case x of (t, Inr a) \<Rightarrow> \<not> adm_replayed a | _ \<Rightarrow> False)"

lemma newly_admittedD: "newly_admitted x \<Longrightarrow> \<exists>t a. x = (t, Inr a) \<and> \<not> adm_replayed a"
  by (auto simp: newly_admitted_def split: prod.splits sum.splits)

lemma ex_admitted: "newly_admitted (ex_admit (new_snapshot (ex_at 0)))"
  by code_simp

lemma ex_job_id: "draw_id (ex_at 1) ''job'' 0 \<noteq> ''''"
  by (simp add: ex_at_def)

lemma ex_first_call:
  "\<exists>t a. service_create_run One_Run.ex_plain ex_schemas ex_catalog (ex_at 1) (ex_at 1) ex_call (new_snapshot (ex_at 0))
      (new_snapshot (ex_at 0)) (new_snapshot (ex_at 0)) = (t, Inr a) \<and> \<not> adm_replayed a
    \<and> reachable store_start (store_step One_Run.ex_plain) t"
proof -
  obtain t a where c: "service_create_run One_Run.ex_plain ex_schemas ex_catalog (ex_at 1) (ex_at 1) ex_call (new_snapshot (ex_at 0))
      (new_snapshot (ex_at 0)) (new_snapshot (ex_at 0)) = (t, Inr a)" "\<not> adm_replayed a"
    using newly_admittedD [OF ex_admitted] unfolding ex_admit_def by blast
  have "reachable store_start (store_step One_Run.ex_plain) (new_snapshot (ex_at 0))"
    by (rule reachable_start) (auto simp: store_start_def)
  moreover have "store_step One_Run.ex_plain (new_snapshot (ex_at 0)) t"
    using service_created_step [OF c] by (simp add: ex_job_id)
  ultimately have "reachable store_start (store_step One_Run.ex_plain) t" by (rule reachable_step)
  with c show ?thesis by (intro exI conjI)
qed

text \<open>C19. An idempotency key names at most one run: when a call with a key created a run, every later call with the
same key for the same workspace, app, action and client leaves the store as it is while the run is stored, and
when it answers with an admission that is the run created first. The later call may have read the store before
the first one wrote it.\<close>

theorem one_run_per_key:
  assumes "service_create_run C X cat e e' q s0 s s1 = (t, Inr a)" and "\<not> adm_replayed a"
    and "trim_space (crr_idempotency_key q) \<noteq> ''''"
    and "normalize_workspace (crr_workspace q') = normalize_workspace (crr_workspace q)" and "trim_space (crr_app q') = trim_space (crr_app q)"
    and "trim_space (crr_action q') = trim_space (crr_action q)"
    and "trim_space (crr_idempotency_key q') = trim_space (crr_idempotency_key q)" and "trim_space (crr_client q') = trim_space (crr_client q)"
    and "reachable store_start (store_step C) u0" and "reachable store_start (store_step C) u1"
    and "clients_keyed s0" and "clients_keyed u0"
    and "map_of (sn_runs u) (run_id (adm_run a)) \<noteq> None"
  shows "map_of (sn_runs t) (run_id (adm_run a)) \<noteq> None
    \<and> (\<exists>x. service_create_run C X' cat' e1 e1' q' u0 u u1 = (u, x)
        \<and> (\<forall>b. x = Inr b \<longrightarrow> adm_replayed b \<and> run_id (adm_run b) = run_id (adm_run a)))"
proof -
  obtain req client ad where c: "checked_request q = Inr req" "request_client s0 req = Inr client"
    "adm_run a = admitted_run e req client (request_run_id (sha256 (prims C)) req client) ad"
    "local_create_run C e' (adm_run a) (adm_job a) s = Inr (t, ())"
    using service_created [OF assms(1,2)] by metis
  let ?rid = "request_run_id (sha256 (prims C)) req client"
  have key: "?rid \<noteq> ''''" using checked_request_keeps(4) [OF c(1)] assms(3)
    by (simp add: request_run_id_def deterministic_run_id_def Let_def)
  then have rid: "run_id (adm_run a) = ?rid" by (simp add: c(3) admitted_run_def new_run_def)
  have "\<exists>x. service_create_run C X' cat' e1 e1' q' u0 u u1 = (u, x)
        \<and> (\<forall>b. x = Inr b \<longrightarrow> adm_replayed b \<and> run_id (adm_run b) = ?rid)"
  proof (cases "checked_request q'")
    case (Inl f)
    then show ?thesis by (simp add: service_create_run_def)
  next
    case (Inr req')
    show ?thesis
    proof (cases "request_client u0 req'")
      case (Inl f)
      with Inr show ?thesis by (simp add: service_create_run_def)
    next
      case client': (Inr client')
      have "request_run_id (sha256 (prims C)) req' client' = ?rid"
        by (rule same_key_same_run [OF assms(11,12) c(1) Inr c(2) client' assms(4-8)])
      then show ?thesis
        using service_again [OF store.reachable_good [OF assms(9)] store.reachable_good [OF assms(10)] Inr client' _ key]
          assms(13) rid by simp
    qed
  qed
  then show ?thesis using create_stores [OF c(4)] rid by (auto simp: run_view_def)
qed

theorem one_run_per_key_witness:
  "\<exists>s t a. service_create_run One_Run.ex_plain ex_schemas ex_catalog (ex_at 1) (ex_at 1) ex_call s s s = (t, Inr a)
    \<and> \<not> adm_replayed a
    \<and> (\<exists>x. service_create_run One_Run.ex_plain ex_schemas ex_catalog (ex_at 2) (ex_at 2) ex_call s t t = (t, x)
        \<and> (\<forall>b. x = Inr b \<longrightarrow> adm_replayed b \<and> run_id (adm_run b) = run_id (adm_run a)))"
proof -
  obtain t a where c: "service_create_run One_Run.ex_plain ex_schemas ex_catalog (ex_at 1) (ex_at 1) ex_call (new_snapshot (ex_at 0))
      (new_snapshot (ex_at 0)) (new_snapshot (ex_at 0)) = (t, Inr a)" "\<not> adm_replayed a"
    "reachable store_start (store_step One_Run.ex_plain) t"
    using ex_first_call by blast
  have "\<exists>r'. run_view t (run_id (adm_run a)) = Some r'" using service_created [OF c(1,2)] create_stores by metis
  then have stored: "map_of (sn_runs t) (run_id (adm_run a)) \<noteq> None" by (auto simp: run_view_def)
  have key: "trim_space (crr_idempotency_key ex_call) \<noteq> ''''" by code_simp
  have start: "reachable store_start (store_step One_Run.ex_plain) (new_snapshot (ex_at 0))"
    by (rule reachable_start) (auto simp: store_start_def)
  have keyed: "clients_keyed (new_snapshot (ex_at 0))"
    using tenant_start_ok by (auto simp: tenant_start_def tenants_ok_def)
  from one_run_per_key [OF c(1,2) key refl refl refl refl refl start c(3) keyed keyed stored, of ex_schemas ex_catalog "ex_at 2" "ex_at 2"] c(1,2)
  show ?thesis by blast
qed

section \<open>What is admitted\<close>

text \<open>The schema a deployment gives at a path: the body materialised with it, else the empty schema when it
names no path, else the file there of the source at the commit of the deployment.\<close>

definition schema_of :: "schema_lib \<Rightarrow> deployment \<Rightarrow> string \<Rightarrow> raw \<Rightarrow> json \<Rightarrow> bool" where
  "schema_of X d p body doc \<longleftrightarrow>
    (if body = RawDoc JNull \<or> (\<exists>s. body = RawBytes s)
     then if p = '''' then doc = JObj []
       else \<exists>fetch tree. sch_fetch X = Some fetch \<and> tree p = FileData (RawDoc doc)
         \<and> fetch (source_workspace d) (source_git_source d) (dep_commit d) = Inr tree
     else body = RawDoc doc)"

text \<open>Where references inside a schema are resolved: at the file the action names, if there is one.\<close>

definition schema_base :: "schema_lib \<Rightarrow> string \<Rightarrow> string option" where
  "schema_base X p = (if trim_space p \<noteq> '''' \<and> sch_fetch X \<noteq> None then Some p else None)"

lemma schema_read_of:
  assumes "schema_read X (new_schema_reader d) p body = (rd, Inr (RawDoc doc))"
  shows "schema_of X d p body doc"
  using assms unfolding schema_read_def schema_of_def new_schema_reader_def
  by (auto simp: Let_def ensure_source_dir_def read_schema_file_def empty_object_def
      split: option.splits raw.splits json.splits prod.splits sum.splits file_read.splits if_splits)

lemma schema_validate_base:
  assumes "schema_validate X rd p (RawDoc doc) input = (rd', Inr u)"
  obtains i accepts where "input = RawDoc i" "accepts i = None"
    "sch_compile X (schema_base X p) doc = Inr accepts"
  using assms by (auto simp: schema_validate_def schema_base_def Let_def ensure_source_dir_def
      split: option.splits raw.splits prod.splits sum.splits if_splits)

lemma admit_request_checked:
  assumes "admit_request C X cat s req client = Inr ad"
  shows "lookup_deployment cat (crr_workspace req) (crr_app req) = Inr (adt_deployment ad)
    \<and> dep_action (adt_deployment ad) (crr_action req) = Some (adt_action ad)
    \<and> trim_space (dep_bundle_digest (adt_deployment ad)) \<noteq> ''''
    \<and> resolve_input C s (crr_workspace req) (crr_app req) (crr_action req) client (crr_input req) = Inr (adt_input ad)
    \<and> (\<exists>doc input accepts. adt_input_schema ad = RawDoc doc \<and> adt_input ad = RawDoc input
        \<and> schema_of X (adt_deployment ad) (act_input_schema (adt_action ad)) (act_input_body (adt_action ad)) doc
        \<and> sch_compile X (schema_base X (act_input_schema (adt_action ad))) doc = Inr accepts
        \<and> accepts input = None)"
proof -
  obtain d where d: "lookup_deployment cat (crr_workspace req) (crr_app req) = Inr d"
    using assms by (cases "lookup_deployment cat (crr_workspace req) (crr_app req)") (auto simp: admit_request_def fail_from_def)
  obtain act where act: "dep_action d (crr_action req) = Some act"
    using assms by (cases "dep_action d (crr_action req)") (auto simp: admit_request_def d fail_with_def)
  have digest: "trim_space (dep_bundle_digest d) \<noteq> ''''"
    using assms by (auto simp: admit_request_def d act fail_with_def)
  obtain input where input: "resolve_input C s (crr_workspace req) (crr_app req) (crr_action req) client (crr_input req) = Inr input"
    using assms by (cases "resolve_input C s (crr_workspace req) (crr_app req) (crr_action req) client (crr_input req)")
      (auto simp: admit_request_def d act digest fail_from_def split: store_error.splits)
  obtain rd schema where schema: "schema_read X (new_schema_reader d) (act_input_schema act) (act_input_body act) = (rd, Inr schema)"
    using assms by (auto simp: admit_request_def d act digest input fail_with_def Let_def split: prod.splits sum.splits)
  obtain rd' where valid: "schema_validate X rd (act_input_schema act) schema input = (rd', Inr ())"
    using assms by (auto simp: admit_request_def d act digest input schema fail_with_def Let_def
        split: prod.splits sum.splits schema_failure.splits)
  have ad: "ad = \<lparr>adt_deployment = d, adt_action = act, adt_input = input, adt_input_schema = schema, adt_reader = rd'\<rparr>"
    using assms by (simp add: admit_request_def d act digest input schema valid Let_def)
  obtain doc where doc: "schema = RawDoc doc"
    using valid by (cases schema) (auto simp: schema_validate_def split: option.splits)
  obtain i accepts where i: "input = RawDoc i" "accepts i = None"
    "sch_compile X (schema_base X (act_input_schema act)) doc = Inr accepts"
    using valid unfolding doc by (rule schema_validate_base)
  show ?thesis using d act digest input schema_read_of [OF schema [unfolded doc]] i by (simp add: ad doc)
qed

text \<open>C20. A run that is admitted is one that can be executed: its app is deployed with an execution bundle, its action
is one of the deployment, its input is the one the input settings resolve the request to, which the input schema
of that action accepts (the schema stored with the deployment, or the file the action names at the commit deployed),
and the run and its job are stored, queued and pinned to that deployment.\<close>

theorem admitted_run_is_valid:
  assumes "service_create_run C X cat e e' q s0 s s1 = (t, Inr a)" and "\<not> adm_replayed a"
  shows "\<exists>w app act client request d spec doc input accepts r j.
      w = normalize_workspace (crr_workspace q) \<and> app = trim_space (crr_app q) \<and> act = trim_space (crr_action q)
    \<and> valid_app_key app \<and> valid_action_key act
    \<and> lookup_deployment cat w app = Inr d \<and> dep_action d act = Some spec \<and> trim_space (dep_bundle_digest d) \<noteq> ''''
    \<and> request = (if raw_empty (crr_input q) then empty_object else crr_input q) \<and> json_valid request
    \<and> client = run_client (adm_run a) \<and> resolve_input C s0 w app act client request = Inr (RawDoc input)
    \<and> jp_input_schema (job_payload (adm_job a)) = RawDoc doc
    \<and> schema_of X d (act_input_schema spec) (act_input_body spec) doc
    \<and> sch_compile X (schema_base X (act_input_schema spec)) doc = Inr accepts
    \<and> accepts input = None
    \<and> run_input (adm_run a) = RawDoc input \<and> jp_input (job_payload (adm_job a)) = RawDoc input
    \<and> run_view t (run_id (adm_run a)) = Some r \<and> run_state r = RunQueued
    \<and> run_deployment r = pin_execution_deployment d act
    \<and> job_view t (job_id (adm_job a)) = Some j \<and> job_state j = JobQueued \<and> job_run j = run_id (adm_run a)"
proof -
  obtain req client ad rd out where c: "checked_request q = Inr req" "admit_request C X cat s0 req client = Inr ad"
    and r: "adm_run a = admitted_run e req client (request_run_id (sha256 (prims C)) req client) ad"
    and j: "adm_job a = (let j = admitted_job e req ad (adm_run a) in j\<lparr>job_payload := (job_payload j)\<lparr>jp_output_schema := out\<rparr>\<rparr>)"
    and stored: "local_create_run C e' (adm_run a) (adm_job a) s = Inr (t, ())"
    using service_created [OF assms] by metis
  note req = checked_request_keeps [OF c(1)] and ad = admit_request_checked [OF c(2)]
  obtain doc input accepts where v: "adt_input_schema ad = RawDoc doc" "adt_input ad = RawDoc input"
    "schema_of X (adt_deployment ad) (act_input_schema (adt_action ad)) (act_input_body (adt_action ad)) doc"
    "sch_compile X (schema_base X (act_input_schema (adt_action ad))) doc = Inr accepts"
    "accepts input = None" using ad by blast
  have "run_input (adm_run a) = RawDoc input" "run_state (adm_run a) = RunQueued"
    "run_deployment (adm_run a) = pin_execution_deployment (adt_deployment ad) (crr_action req)" "run_client (adm_run a) = client"
    by (simp_all add: r admitted_run_def new_run_def v raw_empty_def)
  moreover have "jp_input (job_payload (adm_job a)) = RawDoc input" "jp_input_schema (job_payload (adm_job a)) = RawDoc doc"
    "job_state (adm_job a) = JobQueued" "job_run (adm_job a) = run_id (adm_run a)"
    by (simp_all add: j admitted_job_def new_action_job_def Let_def v raw_empty_def)
  moreover obtain r' j' where "run_view t (run_id (adm_run a)) = Some r'" "run_state r' = run_state (adm_run a)"
    "run_deployment r' = run_deployment (adm_run a)" "job_view t (job_id (adm_job a)) = Some j'"
    "job_state j' = job_state (adm_job a)" "job_run j' = job_run (adm_job a)"
    using create_stores [OF stored] by blast
  moreover have "resolve_input C s0 (crr_workspace req) (crr_app req) (crr_action req) (run_client (adm_run a)) (crr_input req)
      = Inr (RawDoc input)"
    using ad v(2) by (simp add: r admitted_run_def)
  moreover note ad v req
  ultimately show ?thesis
    by (intro exI [where x = "normalize_workspace (crr_workspace q)"] exI [where x = "trim_space (crr_app q)"]
        exI [where x = "trim_space (crr_action q)"] exI [where x = "run_client (adm_run a)"] exI [where x = "if raw_empty (crr_input q) then empty_object else crr_input q"]
        exI [where x = "adt_deployment ad"] exI [where x = "adt_action ad"] exI [where x = doc]
        exI [where x = input] exI [where x = accepts] exI [where x = r'] exI [where x = j']) (simp split del: if_split)
qed

theorem admitted_run_is_valid_witness:
  "\<exists>s t a d. service_create_run One_Run.ex_plain ex_schemas ex_catalog (ex_at 1) (ex_at 1) ex_call s s s = (t, Inr a)
    \<and> lookup_deployment ex_catalog ''main'' ''crawler'' = Inr d
    \<and> map_option run_deployment (run_view t (run_id (adm_run a))) = Some (pin_execution_deployment d ''fetch'')"
proof -
  obtain t a where c: "service_create_run One_Run.ex_plain ex_schemas ex_catalog (ex_at 1) (ex_at 1) ex_call (new_snapshot (ex_at 0))
      (new_snapshot (ex_at 0)) (new_snapshot (ex_at 0)) = (t, Inr a)" "\<not> adm_replayed a"
    using ex_first_call by (elim exE conjE)
  have "normalize_workspace (crr_workspace ex_call) = ''main''" "trim_space (crr_app ex_call) = ''crawler''"
    "trim_space (crr_action ex_call) = ''fetch''"
    by code_simp+
  with admitted_run_is_valid [OF c] obtain d r where "lookup_deployment ex_catalog ''main'' ''crawler'' = Inr d"
    "run_view t (run_id (adm_run a)) = Some r" "run_deployment r = pin_execution_deployment d ''fetch''"
    by auto
  then have "lookup_deployment ex_catalog ''main'' ''crawler'' = Inr d
    \<and> map_option run_deployment (run_view t (run_id (adm_run a))) = Some (pin_execution_deployment d ''fetch'')" by simp
  from conjI [OF c(1) this] show ?thesis by (intro exI)
qed

end
