(* ===== verification/Http_Routes.thy ===== *)
theory Http_Routes
  imports Token Client_Store Workspace_Store
begin

text \<open>
  The HTTP surface (\<^verbatim>\<open>internal/server/server.go\<close>): how a path is split, which handler a request reaches, and
  who may reach it. A handler is given by its name in the code and the parts of the path it gets.
  The chains of conditions of the code are tables here, tried in the order of the code.
\<close>

section \<open>Requests\<close>

text \<open>The path is \<^verbatim>\<open>r.URL.Path\<close>, unescaped once by the HTTP library.\<close>

record http_request =
  hq_method :: string
  hq_path :: string
  hq_header :: "string \<Rightarrow> string"

section \<open>Paths\<close>

text \<open>\<^verbatim>\<open>url.PathUnescape\<close>\<close>

fun path_unescape :: "string \<Rightarrow> string option" where
  "path_unescape [] = Some []"
| "path_unescape (c # cs) =
    (if c = CHR ''%'' then
       (case cs of
          a # b # rest \<Rightarrow>
            (case (hex_value a, hex_value b) of
               (Some x, Some y) \<Rightarrow> map_option (\<lambda>s. char_of (x * 16 + y) # s) (path_unescape rest)
             | _ \<Rightarrow> None)
        | _ \<Rightarrow> None)
     else map_option (\<lambda>s. c # s) (path_unescape cs))"

definition trim_slashes :: "string \<Rightarrow> string" where
  "trim_slashes s = rev (dropWhile (\<lambda>c. c = CHR ''/'') (rev (dropWhile (\<lambda>c. c = CHR ''/'') s)))"

definition split_path :: "string \<Rightarrow> string list" where
  "split_path path =
    map (\<lambda>raw. case path_unescape raw of None \<Rightarrow> raw | Some v \<Rightarrow> v)
      (filter (\<lambda>raw. raw \<noteq> '''') (split_at (CHR ''/'') (trim_slashes path)))"

definition join_path_parts :: "string list \<Rightarrow> nat \<Rightarrow> string" where
  "join_path_parts parts start = join_with ''/'' (drop start parts)"

section \<open>Handlers\<close>

datatype route = Handler (handler_name: string) (handler_args: "string list")

text \<open>
  One condition of a chain: the method, the number of parts (or how many there are at least), the parts that are
  fixed, and the handler. \<open>fixed\<close> takes \<open>None\<close> for a part that may be anything.
\<close>

record route_rule =
  rule_method :: string
  rule_open :: bool
  rule_parts :: "string option list"
  rule_route :: "string list \<Rightarrow> route"

definition rule_matches :: "string \<Rightarrow> string list \<Rightarrow> route_rule \<Rightarrow> bool" where
  "rule_matches m parts rule \<longleftrightarrow>
     (if rule_open rule then length (rule_parts rule) \<le> length parts else length parts = length (rule_parts rule))
   \<and> list_all (\<lambda>(f, p). f = None \<or> f = Some p) (zip (rule_parts rule) parts) \<and> m = rule_method rule"

definition find_route :: "route_rule list \<Rightarrow> string \<Rightarrow> string list \<Rightarrow> route option" where
  "find_route rules m parts = map_option (\<lambda>rule. rule_route rule parts) (find (rule_matches m parts) rules)"

text \<open>A rule under \<^verbatim>\<open>/api/w/{workspace}\<close>.\<close>

definition api_w :: "string \<Rightarrow> string option list \<Rightarrow> (string list \<Rightarrow> route) \<Rightarrow> route_rule" where
  "api_w m rest r = \<lparr>rule_method = m, rule_open = False, rule_parts = [Some ''api'', Some ''w'', None] @ rest, rule_route = r\<rparr>"

definition api_w_open :: "string \<Rightarrow> string option list \<Rightarrow> (string list \<Rightarrow> route) \<Rightarrow> route_rule" where
  "api_w_open m rest r = \<lparr>rule_method = m, rule_open = True, rule_parts = [Some ''api'', Some ''w'', None] @ rest, rule_route = r\<rparr>"

definition runtime_rules :: "route_rule list" where
  "runtime_rules =
    [api_w ''GET'' [Some ''state''] (\<lambda>p. Handler ''handleGetState'' [p ! 2]),
     api_w ''POST'' [Some ''state''] (\<lambda>p. Handler ''handleSetState'' [p ! 2]),
     api_w_open ''GET'' [Some ''variables'', Some ''get'', Some ''p'', None] (\<lambda>p. Handler ''handleGetVariable'' [p ! 2, join_path_parts p 6]),
     api_w_open ''GET'' [Some ''resources'', Some ''get'', Some ''p'', None] (\<lambda>p. Handler ''handleGetResource'' [p ! 2, join_path_parts p 6])]"

definition workspace_rules :: "route_rule list" where
  "workspace_rules =
    (let rule = (\<lambda>m rest r. \<lparr>rule_method = m, rule_open = False, rule_parts = [Some ''api'', Some ''workspaces''] @ rest, rule_route = r\<rparr>) in
    [rule ''GET'' [] (\<lambda>p. Handler ''handleWorkspaceAPI: list'' []), rule ''POST'' [] (\<lambda>p. Handler ''handleWorkspaceAPI: create'' []),
     rule ''GET'' [None] (\<lambda>p. Handler ''handleWorkspaceAPI: get'' [p ! 2]), rule ''PATCH'' [None] (\<lambda>p. Handler ''handleWorkspaceAPI: update'' [p ! 2]),
     rule ''POST'' [None, Some ''archive''] (\<lambda>p. Handler ''handleWorkspaceAPI: archive'' [p ! 2]),
     rule ''POST'' [None, Some ''token''] (\<lambda>p. Handler ''handleWorkspaceAPI: token'' [p ! 2]),
     rule ''GET'' [None, Some ''audit''] (\<lambda>p. Handler ''handleWorkspaceAPI: audit'' [p ! 2])])"

definition webhook_rules :: "route_rule list" where
  "webhook_rules =
    [api_w ''GET'' [Some ''webhooks''] (\<lambda>p. Handler ''handleCanonicalWebhooks'' [p ! 2]),
     api_w ''POST'' [Some ''webhooks''] (\<lambda>p. Handler ''handleCanonicalCreateWebhook'' [p ! 2]),
     api_w ''GET'' [Some ''webhooks'', None] (\<lambda>p. Handler ''handleCanonicalWebhook'' [p ! 2, p ! 4]),
     api_w ''PATCH'' [Some ''webhooks'', None] (\<lambda>p. Handler ''handleCanonicalUpdateWebhook'' [p ! 2, p ! 4]),
     api_w ''DELETE'' [Some ''webhooks'', None] (\<lambda>p. Handler ''handleCanonicalDeleteWebhook'' [p ! 2, p ! 4]),
     api_w ''POST'' [Some ''webhooks'', None, Some ''test''] (\<lambda>p. Handler ''handleCanonicalTestWebhook'' [p ! 2, p ! 4]),
     api_w ''GET'' [Some ''webhooks'', None, Some ''deliveries''] (\<lambda>p. Handler ''handleCanonicalWebhookDeliveries'' [p ! 2, p ! 4]),
     api_w ''GET'' [Some ''webhook-deliveries'', None] (\<lambda>p. Handler ''handleCanonicalWebhookDelivery'' [p ! 2, p ! 4]),
     api_w ''POST'' [Some ''webhook-deliveries'', None, Some ''retry''] (\<lambda>p. Handler ''handleCanonicalRetryWebhookDelivery'' [p ! 2, p ! 4])]"

definition job_rules :: "route_rule list" where
  "job_rules =
    [api_w ''POST'' [Some ''jobs'', Some ''run'', None, None] (\<lambda>p. Handler ''handleJobRun'' [p ! 2, p ! 5, p ! 6]),
     api_w ''POST'' [Some ''jobs'', Some ''run'', None, None, Some ''wait''] (\<lambda>p. Handler ''handleJobRun: wait'' [p ! 2, p ! 5, p ! 6]),
     api_w ''POST'' [Some ''jobs'', Some ''webhook'', None, None] (\<lambda>p. Handler ''handleJobWebhook'' [p ! 2, p ! 5, p ! 6]),
     api_w ''GET'' [Some ''jobs''] (\<lambda>p. Handler ''handleJobList'' [p ! 2]),
     api_w ''GET'' [Some ''jobs'', Some ''summary''] (\<lambda>p. Handler ''handleJobSummary'' [p ! 2]),
     api_w ''GET'' [Some ''variables''] (\<lambda>p. Handler ''handleListVariables'' [p ! 2]),
     api_w ''POST'' [Some ''variables''] (\<lambda>p. Handler ''handleSetVariable'' [p ! 2]),
     api_w_open ''DELETE'' [Some ''variables'', Some ''p'', None] (\<lambda>p. Handler ''handleDeleteVariable'' [p ! 2, join_path_parts p 5]),
     api_w ''POST'' [Some ''resources''] (\<lambda>p. Handler ''handleSetResource'' [p ! 2]),
     api_w ''GET'' [Some ''openapi.json''] (\<lambda>p. Handler ''handleCanonicalControlPlaneOpenAPI'' [p ! 2]),
     api_w ''GET'' [Some ''system'', Some ''info''] (\<lambda>p. Handler ''handleSystemInfo'' [p ! 2]),
     api_w ''POST'' [Some ''provisioning'', Some ''import''] (\<lambda>p. Handler ''handleCanonicalProvisioningImport'' [p ! 2]),
     api_w ''GET'' [Some ''provisioning'', Some ''export''] (\<lambda>p. Handler ''handleCanonicalProvisioningExport'' [p ! 2])]"

definition client_rules :: "route_rule list" where
  "client_rules =
    [api_w ''GET'' [Some ''clients''] (\<lambda>p. Handler ''handleCanonicalClients'' [p ! 2]),
     api_w ''POST'' [Some ''clients''] (\<lambda>p. Handler ''handleCanonicalCreateClient'' [p ! 2]),
     api_w ''GET'' [Some ''clients'', None] (\<lambda>p. Handler ''handleCanonicalClient'' [p ! 2, p ! 4]),
     api_w ''PATCH'' [Some ''clients'', None] (\<lambda>p. Handler ''handleCanonicalUpdateClient'' [p ! 2, p ! 4]),
     api_w ''DELETE'' [Some ''clients'', None] (\<lambda>p. Handler ''handleCanonicalDeleteClient'' [p ! 2, p ! 4]),
     api_w ''POST'' [Some ''clients'', None, Some ''token''] (\<lambda>p. Handler ''handleCanonicalRotateClientToken'' [p ! 2, p ! 4]),
     api_w ''DELETE'' [Some ''clients'', None, Some ''token''] (\<lambda>p. Handler ''handleCanonicalRevokeClientToken'' [p ! 2, p ! 4]),
     api_w ''GET'' [Some ''clients'', None, Some ''audit''] (\<lambda>p. Handler ''handleCanonicalClientAudit'' [p ! 2, p ! 4]),
     api_w ''GET'' [Some ''clients'', None, Some ''input-configs''] (\<lambda>p. Handler ''handleCanonicalClientInputConfigs'' [p ! 2, p ! 4]),
     api_w ''GET'' [Some ''clients'', None, Some ''input-config-audit''] (\<lambda>p. Handler ''handleCanonicalClientInputConfigAudit'' [p ! 2, p ! 4])]"

definition git_source_rules :: "route_rule list" where
  "git_source_rules =
    [api_w ''GET'' [Some ''git_sources''] (\<lambda>p. Handler ''handleCanonicalGitSources'' [p ! 2]),
     api_w ''GET'' [Some ''audit-events''] (\<lambda>p. Handler ''handleCanonicalAuditEvents'' [p ! 2]),
     api_w ''POST'' [Some ''git_sources''] (\<lambda>p. Handler ''handleCanonicalRegisterGitSource'' [p ! 2]),
     api_w ''POST'' [Some ''git_sources'', Some ''probe''] (\<lambda>p. Handler ''handleCanonicalProbeGitSource'' [p ! 2]),
     api_w ''POST'' [Some ''git_sources'', Some ''sample''] (\<lambda>p. Handler ''handleCanonicalSampleGitSource'' [p ! 2]),
     api_w ''PATCH'' [Some ''git_sources'', None] (\<lambda>p. Handler ''handleCanonicalPatchGitSource'' [p ! 2, p ! 4]),
     api_w ''DELETE'' [Some ''git_sources'', None] (\<lambda>p. Handler ''handleCanonicalDeleteGitSource'' [p ! 2, p ! 4]),
     api_w ''POST'' [Some ''git_sources'', None, Some ''sync''] (\<lambda>p. Handler ''handleCanonicalGitSourceSync'' [p ! 2, p ! 4]),
     api_w ''POST'' [Some ''git_sources'', None, Some ''deploy''] (\<lambda>p. Handler ''handleCanonicalGitSourceDeploy'' [p ! 2, p ! 4]),
     api_w ''GET'' [Some ''git_sources'', None, Some ''audit''] (\<lambda>p. Handler ''handleCanonicalGitSourceAudit'' [p ! 2, p ! 4])]"

definition app_rules :: "route_rule list" where
  "app_rules =
    [api_w ''GET'' [Some ''apps''] (\<lambda>p. Handler ''handleCanonicalApps'' [p ! 2]),
     api_w ''GET'' [Some ''apps'', None, Some ''source''] (\<lambda>p. Handler ''handleCanonicalAppSource'' [p ! 2, p ! 4]),
     api_w ''GET'' [Some ''apps'', None, Some ''documentation''] (\<lambda>p. Handler ''handleCanonicalAppDocumentation'' [p ! 2, p ! 4]),
     api_w ''GET'' [Some ''apps'', None, Some ''history''] (\<lambda>p. Handler ''handleCanonicalAppHistory'' [p ! 2, p ! 4]),
     api_w ''POST'' [Some ''apps'', None, Some ''releases'', None, Some ''rollback''] (\<lambda>p. Handler ''handleCanonicalReleaseRollback'' [p ! 2, p ! 4, p ! 6]),
     api_w ''GET'' [Some ''apps'', None, Some ''openapi.json''] (\<lambda>p. Handler ''handleCanonicalAppOpenAPI'' [p ! 2, p ! 4]),
     api_w ''GET'' [Some ''apps'', None, Some ''input-configs''] (\<lambda>p. Handler ''handleCanonicalAppInputConfigs'' [p ! 2, p ! 4]),
     api_w ''PUT'' [Some ''apps'', None, Some ''input-configs''] (\<lambda>p. Handler ''handleCanonicalSetInputConfig'' [p ! 2, p ! 4]),
     api_w ''DELETE'' [Some ''apps'', None, Some ''input-configs''] (\<lambda>p. Handler ''handleCanonicalDeleteInputConfig'' [p ! 2, p ! 4]),
     api_w ''GET'' [Some ''apps'', None, Some ''input-config-audit''] (\<lambda>p. Handler ''handleCanonicalAppInputConfigAudit'' [p ! 2, p ! 4]),
     api_w ''GET'' [Some ''apps'', None] (\<lambda>p. Handler ''handleCanonicalApp'' [p ! 2, p ! 4]),
     api_w ''PATCH'' [Some ''apps'', None] (\<lambda>p. Handler ''handleCanonicalPatchApp'' [p ! 2, p ! 4]),
     api_w ''GET'' [Some ''apps'', None, Some ''actions'', None] (\<lambda>p. Handler ''handleCanonicalAction'' [p ! 2, p ! 4, p ! 6]),
     api_w ''GET'' [Some ''apps'', None, Some ''actions'', None, Some ''schema''] (\<lambda>p. Handler ''handleCanonicalActionSchema'' [p ! 2, p ! 4, p ! 6]),
     api_w ''PATCH'' [Some ''apps'', None, Some ''actions'', None] (\<lambda>p. Handler ''handleCanonicalPatchAction'' [p ! 2, p ! 4, p ! 6]),
     api_w ''POST'' [Some ''apps'', None, Some ''requeue''] (\<lambda>p. Handler ''handleCanonicalRequeueApp'' [p ! 2, p ! 4]),
     api_w ''GET'' [Some ''workers''] (\<lambda>p. Handler ''handleCanonicalListWorkers'' []),
     api_w ''GET'' [Some ''worker-tags''] (\<lambda>p. Handler ''handleCanonicalWorkerTags'' [p ! 2]),
     api_w ''GET'' [Some ''jobs'', None] (\<lambda>p. Handler ''handleJobStatus'' [p ! 2, p ! 4]),
     api_w ''GET'' [Some ''jobs'', None, Some ''result''] (\<lambda>p. Handler ''handleJobResult'' [p ! 2, p ! 4]),
     api_w ''POST'' [Some ''jobs'', None, Some ''cancel''] (\<lambda>p. Handler ''handleJobCancel'' [p ! 2, p ! 4]),
     api_w ''GET'' [Some ''jobs'', None, Some ''logs''] (\<lambda>p. Handler ''handleJobLogs'' [p ! 2, p ! 4])]"

definition execution_rules :: "route_rule list" where
  "execution_rules =
    (let rule = (\<lambda>m rest r. \<lparr>rule_method = m, rule_open = False,
           rule_parts = [Some ''execution'', Some ''v1''] @ rest, rule_route = r\<rparr>) in
    [rule ''GET'' [Some ''openapi.json''] (\<lambda>p. Handler ''handleExecutionOpenAPI'' []),
     rule ''POST'' [Some ''workspaces'', None, Some ''runs''] (\<lambda>p. Handler ''handleExecutionCreateRun'' [p ! 3]),
     rule ''GET'' [Some ''workspaces'', None, Some ''runs'', None] (\<lambda>p. Handler ''handleExecutionGetRun'' [p ! 3, p ! 5]),
     rule ''GET'' [Some ''workspaces'', None, Some ''runs'', None, Some ''result''] (\<lambda>p. Handler ''handleExecutionRunResult'' [p ! 3, p ! 5]),
     rule ''POST'' [Some ''workspaces'', None, Some ''runs'', None, Some ''cancel''] (\<lambda>p. Handler ''handleExecutionCancelRun'' [p ! 3, p ! 5]),
     rule ''GET'' [Some ''workspaces'', None, Some ''apps'', None] (\<lambda>p. Handler ''handleExecutionDescribeApp'' [p ! 3, p ! 5])])"

definition all_rules :: "route_rule list" where
  "all_rules = execution_rules @ runtime_rules @ workspace_rules @ webhook_rules @ job_rules @ client_rules
     @ git_source_rules @ app_rules"

definition route_of :: "http_request \<Rightarrow> route option" where
  "route_of r = find_route all_rules (hq_method r) (split_path (hq_path r))"

end
