(* ===== verification/Http_Auth.thy ===== *)
theory Http_Auth
  imports Http_Routes
begin

text \<open>
  Who may reach which handler (\<^verbatim>\<open>ServeHTTP\<close> and \<^verbatim>\<open>authorizeAPIRequest\<close> of \<^verbatim>\<open>internal/server/server.go\<close>):
  the admin token, the token of a workspace and the token of a job. HMAC, the clock and the state of the
  rate limiter are arguments.
\<close>

record handler_config =
  hc_admin_token :: string
  hc_worker_token :: string
  hc_job_token_secret :: string
  hc_managed :: bool
  hc_store :: bool
  hc_metrics :: bool

text \<open>What a response carries here: the status and the message of an error.\<close>

type_synonym http_error = "nat \<times> string"

datatype principal = JobPrincipal string string string | WorkspacePrincipal string string bool

section \<open>Tokens\<close>

definition bearer :: "http_request \<Rightarrow> string" where
  "bearer r =
    (let h = hq_header r ''Authorization'' in
     if prefix ''Bearer '' h then trim_space (drop (length ''Bearer '') h) else '''')"

definition authorized :: "http_request \<Rightarrow> string \<Rightarrow> bool" where
  "authorized r admin_token \<longleftrightarrow> admin_token = '''' \<or> hq_header r ''Authorization'' = ''Bearer '' @ admin_token"

definition hash_workspace_token :: "crypto_prims \<Rightarrow> string \<Rightarrow> string" where
  "hash_workspace_token P v = hex_encode (sha256 P (trim_space v))"

definition workspace_token_matches :: "crypto_prims \<Rightarrow> workspace \<Rightarrow> string \<Rightarrow> bool" where
  "workspace_token_matches P w v \<longleftrightarrow> ws_token_hash w \<noteq> '''' \<and> trim_space v \<noteq> ''''
     \<and> (case (hex_decode (ws_token_hash w), hex_decode (hash_workspace_token P v)) of
          (Some want, Some got) \<Rightarrow> want = got | _ \<Rightarrow> False)"

section \<open>The workspace of a request\<close>

definition workspace_from_api_path :: "string \<Rightarrow> string" where
  "workspace_from_api_path path =
    (let parts = split_path path in
     if 3 \<le> length parts \<and> parts ! 0 = ''api'' \<and> parts ! 1 = ''w'' then parts ! 2 else '''')"

definition workspace_from_request_path :: "string \<Rightarrow> string" where
  "workspace_from_request_path path =
    (if workspace_from_api_path path \<noteq> '''' then workspace_from_api_path path
     else let parts = split_path path in
       if 4 \<le> length parts \<and> parts ! 0 = ''execution'' \<and> parts ! 1 = ''v1'' \<and> parts ! 2 = ''workspaces'' then parts ! 3
       else '''')"

definition is_job_sdk_callback :: "http_request \<Rightarrow> bool" where
  "is_job_sdk_callback r =
    (let path = hq_path r; m = hq_method r in
     if \<not> prefix ''/api/w/'' path then False
     else if m = ''GET'' \<and> has_infix ''/variables/get/p/'' path then True
     else if m = ''GET'' \<and> has_infix ''/resources/get/p/'' path then True
     else if m = ''POST'' \<and> suffix ''/flow/resume-urls'' path then True
     else (m = ''GET'' \<or> m = ''POST'') \<and> suffix ''/state'' path)"

definition workspace_request_changes_state :: "http_request \<Rightarrow> bool" where
  "workspace_request_changes_state r \<longleftrightarrow>
     hq_method r \<noteq> ''GET'' \<and> hq_method r \<noteq> ''HEAD'' \<and> hq_method r \<noteq> ''OPTIONS'' \<and> \<not> is_job_sdk_callback r"

definition validate_workspace_request :: "handler_config \<Rightarrow> snapshot \<Rightarrow> http_request \<Rightarrow> string \<Rightarrow> http_error option" where
  "validate_workspace_request H s r w =
    (if \<not> hc_store H then Some (503, ''state store is not configured'')
     else case get_workspace s w of
       Inl NotFound \<Rightarrow> Some (404, ''workspace not found'')
     | Inl err \<Rightarrow> Some (500, '''')
     | Inr x \<Rightarrow> if ws_status x = workspace_archived \<and> workspace_request_changes_state r
         then Some (409, ''workspace is archived'') else None)"

section \<open>Authorization\<close>

definition authorize_api_request ::
    "handler_config \<Rightarrow> (string \<Rightarrow> string \<Rightarrow> string) \<Rightarrow> crypto_prims \<Rightarrow> int \<Rightarrow> snapshot \<Rightarrow> http_request \<Rightarrow> http_error + principal" where
  "authorize_api_request H hmac P now_unix s r =
    (let tok = bearer r in
     if is_job_token tok then
       (case verify_job_any hmac P now_unix [hc_job_token_secret H] tok of
          None \<Rightarrow> Inl (401, ''unauthorized'')
        | Some c \<Rightarrow>
          if \<not> is_job_sdk_callback r then Inl (403, ''job token may only call SDK callback endpoints'')
          else if workspace_from_api_path (hq_path r) \<noteq> '''' \<and> workspace_from_api_path (hq_path r) \<noteq> jc_workspace c
          then Inl (403, ''job token workspace mismatch'')
          else Inr (JobPrincipal (jc_workspace c) (jc_job c) (jc_subject c)))
     else
       let w = workspace_from_request_path (hq_path r) in
       if authorized r (hc_admin_token H) then
         (case (if w \<noteq> '''' \<and> hc_managed H then validate_workspace_request H s r w else None) of
            Some err \<Rightarrow> Inl err
          | None \<Rightarrow> Inr (WorkspacePrincipal w '''' True))
       else if w = '''' \<or> \<not> hc_store H then Inl (401, ''unauthorized'')
       else
         (case get_workspace s w of
            Inl _ \<Rightarrow> Inl (401, ''unauthorized'')
          | Inr x \<Rightarrow>
            if \<not> workspace_token_matches P x tok then Inl (401, ''unauthorized'')
            else if ws_status x = workspace_archived \<and> workspace_request_changes_state r then Inl (409, ''workspace is archived'')
            else Inr (WorkspacePrincipal w (''workspace:'' @ w) False)))"

definition worker_plane_authorized :: "handler_config \<Rightarrow> http_request \<Rightarrow> bool" where
  "worker_plane_authorized H r =
    authorized r (if hc_worker_token H = '''' then hc_admin_token H else hc_worker_token H)"

text \<open>The subject an operation is recorded under; \<open>utf8\<close> decodes the header for subjects that are not ASCII.\<close>

definition request_actor_subject :: "(string \<Rightarrow> string option) \<Rightarrow> principal option \<Rightarrow> http_request \<Rightarrow> string" where
  "request_actor_subject utf8 p r =
    (let header = (let encoded = trim_space (hq_header r ''X-Windforce-Actor-Utf8'');
                       decoded = (if encoded = '''' then '''' else case utf8 encoded of None \<Rightarrow> '''' | Some v \<Rightarrow> trim_space v)
                   in if decoded \<noteq> '''' then decoded else trim_space (hq_header r ''X-Windforce-Actor'')) in
     case p of
       Some (JobPrincipal w j subject) \<Rightarrow> if trim_space subject \<noteq> '''' then trim_space subject else header
     | Some (WorkspacePrincipal w subject admin) \<Rightarrow> if \<not> admin then subject else header
     | None \<Rightarrow> header)"

definition request_actor_or_system :: "(string \<Rightarrow> string option) \<Rightarrow> principal option \<Rightarrow> http_request \<Rightarrow> string" where
  "request_actor_or_system utf8 p r =
    (if request_actor_subject utf8 p r \<noteq> '''' then request_actor_subject utf8 p r else ''system'')"

section \<open>Dispatch\<close>

text \<open>Where a request ends. The public API, the worker plane and the web assets have theories of their own or none.\<close>

datatype served = Healthz | WorkerPlane | Readyz bool | Metrics | RateLimited | PublicAPI | WebUI
  | Refused http_error | Served principal route | NoRoute principal

definition is_public_api :: "http_request \<Rightarrow> bool" where
  "is_public_api r \<longleftrightarrow> (let parts = split_path (hq_path r) in
     3 \<le> length parts \<and> parts ! 0 = ''api'' \<and> parts ! 1 = ''v1'' \<and> parts ! 2 = ''w'')"

definition is_web_ui :: "http_request \<Rightarrow> bool" where
  "is_web_ui r \<longleftrightarrow> (hq_method r = ''GET'' \<or> hq_method r = ''HEAD'')
     \<and> (hq_path r = ''/'' \<or> hq_path r = ''/ui'' \<or> prefix ''/ui/'' (hq_path r))"

definition serve_http ::
    "handler_config \<Rightarrow> (string \<Rightarrow> string \<Rightarrow> string) \<Rightarrow> crypto_prims \<Rightarrow> int \<Rightarrow> bool \<Rightarrow> snapshot \<Rightarrow> http_request \<Rightarrow> served" where
  "serve_http H hmac P now_unix allowed s r =
    (if hq_path r = ''/healthz'' then Healthz
     else if prefix ''/worker/v1/'' (hq_path r) then WorkerPlane
     else if hq_path r = ''/readyz'' then Readyz (hc_store H)
     else if hq_path r = ''/metrics'' \<and> hq_method r = ''GET'' \<and> hc_metrics H then Metrics
     else if prefix ''/api/v1/'' (hq_path r) \<and> \<not> allowed then RateLimited
     else if prefix ''/api/v1/'' (hq_path r) \<and> is_public_api r then PublicAPI
     else if is_web_ui r then WebUI
     else case authorize_api_request H hmac P now_unix s r of
       Inl err \<Rightarrow> Refused err
     | Inr p \<Rightarrow> (case route_of r of Some h \<Rightarrow> Served p h | None \<Rightarrow> NoRoute p))"

section \<open>Splitting and matching\<close>

lemma split_at_slash: "split_at c (a @ c # b) = split_at c a @ split_at c b"
proof (induction a)
  case (Cons x a)
  show ?case
  proof (cases "x = c")
    case False
    obtain p ps where "split_at c a = p # ps" by (cases "split_at c a") auto
    with False Cons.IH show ?thesis by simp
  qed (use Cons.IH in simp)
qed simp

lemma split_at_drop_lead: "filter (\<lambda>p. p \<noteq> '''') (split_at c (dropWhile (\<lambda>x. x = c) s)) = filter (\<lambda>p. p \<noteq> '''') (split_at c s)"
  by (induction s) auto

lemma split_at_drop_trail:
  "filter (\<lambda>p. p \<noteq> '''') (split_at c (rev (dropWhile (\<lambda>x. x = c) (rev s)))) = filter (\<lambda>p. p \<noteq> '''') (split_at c s)"
proof (induction s rule: rev_induct)
  case (snoc x s)
  show ?case
  proof (cases "x = c")
    case True
    then show ?thesis using snoc.IH split_at_slash [of c s "[]"] by simp
  qed (simp add: snoc.IH)
qed simp

lemma split_path_trim: "split_path path = map (\<lambda>raw. case path_unescape raw of None \<Rightarrow> raw | Some v \<Rightarrow> v)
    (filter (\<lambda>raw. raw \<noteq> '''') (split_at (CHR ''/'') path))"
  by (simp add: split_path_def trim_slashes_def split_at_drop_lead split_at_drop_trail)

lemma split_path_slash: "split_path (a @ CHR ''/'' # b) = split_path a @ split_path b"
  by (simp add: split_path_trim split_at_slash)

lemma split_path_nil [simp]: "split_path [] = []"
  by (simp add: split_path_trim)

lemma split_path_plain: "p \<noteq> '''' \<Longrightarrow> CHR ''/'' \<notin> set p \<Longrightarrow> CHR ''%'' \<notin> set p \<Longrightarrow> split_path p = [p]"
proof -
  have un: "CHR ''%'' \<notin> set q \<Longrightarrow> path_unescape q = Some q" for q by (induction q) auto
  show "p \<noteq> '''' \<Longrightarrow> CHR ''/'' \<notin> set p \<Longrightarrow> CHR ''%'' \<notin> set p \<Longrightarrow> ?thesis"
    by (simp add: split_path_trim split_at_plain un)
qed

end
