(* ===== verification/Http_Properties.thy ===== *)
theory Http_Properties
  imports Http_Auth
begin

text \<open>
  What a token opens: the handlers a job token and a workspace token reach, and the paths the check of
  the callbacks lets through although they belong to other handlers.
\<close>

section \<open>What a rule asks of a path\<close>

lemma rule_matches_method: "rule_matches m parts rule \<Longrightarrow> rule_method rule = m"
  by (simp add: rule_matches_def)

lemma rule_matches_length:
  "rule_matches m parts rule \<Longrightarrow> length (rule_parts rule) \<le> length parts"
  "rule_matches m parts rule \<Longrightarrow> \<not> rule_open rule \<Longrightarrow> length parts = length (rule_parts rule)"
  by (auto simp: rule_matches_def split: if_splits)

lemma rule_matches_part:
  assumes "rule_matches m parts rule" and "i < length (rule_parts rule)"
  shows "rule_parts rule ! i = None \<or> rule_parts rule ! i = Some (parts ! i)"
proof -
  have n: "length (rule_parts rule) \<le> length parts" using assms(1) by (rule rule_matches_length)
  then have "(rule_parts rule ! i, parts ! i) \<in> set (zip (rule_parts rule) parts)"
    using assms(2) by (auto simp: set_zip)
  with assms(1) show ?thesis unfolding rule_matches_def list_all_iff by blast
qed

lemma route_of_rule:
  assumes "route_of r = Some h"
  obtains rule where "rule \<in> set all_rules" "rule_matches (hq_method r) (split_path (hq_path r)) rule"
    "h = rule_route rule (split_path (hq_path r))"
  using assms by (auto simp: route_of_def find_route_def find_Some_iff dest: nth_mem)

text \<open>Could the parts \<open>t\<close> stand somewhere under a rule, or at its end?\<close>

definition fits_at :: "string option list \<Rightarrow> string list \<Rightarrow> nat \<Rightarrow> bool" where
  "fits_at fs t i \<longleftrightarrow> list_all (\<lambda>(f, p). f = None \<or> f = Some p) (zip (drop i fs) t)"

definition fits_inside :: "string option list \<Rightarrow> string list \<Rightarrow> bool" where
  "fits_inside fs t \<longleftrightarrow> list_ex (fits_at fs t) [0 ..< Suc (length fs - length t)]"

lemma matches_fits_at:
  assumes "rule_matches m (xs @ t @ ys) rule"
  shows "fits_at (rule_parts rule) t (length xs)"
proof -
  have "f = None \<or> f = Some p" if "(f, p) \<in> set (zip (drop (length xs) (rule_parts rule)) t)" for f p
  proof -
    from that obtain k where k: "k < length t" "length xs + k < length (rule_parts rule)" "f = rule_parts rule ! (length xs + k)" "p = t ! k"
      by (auto simp: set_zip)
    then have "(xs @ t @ ys) ! (length xs + k) = p" by (simp add: nth_append)
    with rule_matches_part [OF assms k(2)] k(3) show ?thesis by simp
  qed
  then show ?thesis by (auto simp: fits_at_def list_all_iff)
qed

lemma matches_fits_inside:
  assumes "rule_matches m (xs @ t @ ys) rule" and "\<not> rule_open rule"
  shows "fits_inside (rule_parts rule) t"
proof -
  have "length (rule_parts rule) = length xs + length t + length ys"
    using rule_matches_length(2) [OF assms] by simp
  then show ?thesis using matches_fits_at [OF assms(1)] by (force simp: fits_inside_def list_ex_iff)
qed

lemma matches_fits_end:
  assumes "rule_matches m (xs @ t) rule" and "\<not> rule_open rule"
  shows "fits_at (rule_parts rule) t (length (rule_parts rule) - length t)"
proof -
  have "length xs = length (rule_parts rule) - length t" using rule_matches_length(2) [OF assms] by simp
  then show ?thesis using matches_fits_at [of m xs t "[]" rule] assms(1) by simp
qed

section \<open>The tables\<close>

definition sdk_rule :: "route_rule \<Rightarrow> bool" where
  "sdk_rule rule \<longleftrightarrow> handler_name (rule_route rule []) \<in> {''handleGetState'', ''handleSetState'', ''handleGetVariable'', ''handleGetResource''}"

definition rule_safe :: "route_rule \<Rightarrow> bool" where
  "rule_safe rule \<longleftrightarrow>
     (rule_method rule = ''GET'' \<longrightarrow> (rule_open rule \<longrightarrow> sdk_rule rule)
        \<and> \<not> fits_inside (rule_parts rule) [''variables'', ''get'', ''p''] \<and> \<not> fits_inside (rule_parts rule) [''resources'', ''get'', ''p'']
      \<or> sdk_rule rule)
   \<and> (rule_method rule = ''POST'' \<longrightarrow> \<not> rule_open rule)
   \<and> (take 2 (rule_parts rule) = [Some ''api'', Some ''w'']
        \<longrightarrow> 4 \<le> length (rule_parts rule) \<and> rule_parts rule ! 2 = None)
   \<and> (take 2 (rule_parts rule) \<noteq> [Some ''api'', Some ''w''] \<longrightarrow> \<not> fits_at (rule_parts rule) [''api'', ''w''] 0)
   \<and> (rule_parts rule ! 0 = Some ''execution'' \<longrightarrow> length (rule_parts rule) = 3
        \<or> take 3 (rule_parts rule) = [Some ''execution'', Some ''v1'', Some ''workspaces''] \<and> 5 \<le> length (rule_parts rule))"

lemma rules_safe: "list_all rule_safe all_rules"
  by code_simp

text \<open>What a handler gets as its first part is the workspace of the path.\<close>

definition first_part :: "route_rule \<Rightarrow> bool" where
  "first_part rule \<longleftrightarrow> (\<forall>parts. handler_args (rule_route rule parts) = []
     \<or> hd (handler_args (rule_route rule parts)) = parts ! (if rule_parts rule ! 0 = Some ''execution'' then 3 else 2))"

lemma rules_first_part: "list_all first_part all_rules"
  by (simp add: all_rules_def execution_rules_def runtime_rules_def workspace_rules_def webhook_rules_def job_rules_def
      client_rules_def git_source_rules_def app_rules_def api_w_def api_w_open_def first_part_def Let_def)

text \<open>The handler of a rule does not depend on the parts.\<close>

lemma rules_named: "list_all (\<lambda>rule. \<forall>parts. handler_name (rule_route rule parts) = handler_name (rule_route rule [])) all_rules"
  by (simp add: all_rules_def execution_rules_def runtime_rules_def workspace_rules_def webhook_rules_def job_rules_def
      client_rules_def git_source_rules_def app_rules_def api_w_def api_w_open_def Let_def)

lemma api_path_parts: "prefix ''/api/w/'' path \<Longrightarrow> \<exists>rest. split_path path = ''api'' # ''w'' # rest"
  using split_path_slash [of "[]"] split_path_slash [of "''api''"] split_path_slash [of "''w''"]
    split_path_plain [of "''api''"] split_path_plain [of "''w''"]
  by (auto simp: prefix_def)

lemma infix_parts:
  assumes "has_infix (CHR ''/'' # t1 @ CHR ''/'' # t2 @ CHR ''/'' # t3 @ [CHR ''/'']) path"
    and "split_path t1 = [t1]" "split_path t2 = [t2]" "split_path t3 = [t3]"
  shows "\<exists>xs ys. split_path path = xs @ [t1, t2, t3] @ ys"
proof -
  from assms(1) obtain a b where "path = a @ CHR ''/'' # t1 @ CHR ''/'' # t2 @ CHR ''/'' # t3 @ CHR ''/'' # b"
    by (auto simp: has_infix_def list_ex_iff suffix_def prefix_def)
  then have "split_path path = split_path a @ [t1, t2, t3] @ split_path b" using assms(2-) by (simp add: split_path_slash)
  then show ?thesis by blast
qed

lemma suffix_parts:
  assumes "suffix (CHR ''/'' # t) path" and "split_path t = ts"
  shows "\<exists>xs. split_path path = xs @ ts"
  using assms by (auto simp: suffix_def split_path_slash)

lemma callback_parts:
  assumes "is_job_sdk_callback r"
  obtains rest where "split_path (hq_path r) = ''api'' # ''w'' # rest"
    and "hq_method r = ''GET'' \<and> (\<exists>xs ys. split_path (hq_path r) = xs @ [''variables'', ''get'', ''p''] @ ys)
       \<or> hq_method r = ''GET'' \<and> (\<exists>xs ys. split_path (hq_path r) = xs @ [''resources'', ''get'', ''p''] @ ys)
       \<or> hq_method r = ''POST'' \<and> (\<exists>xs. split_path (hq_path r) = xs @ [''flow'', ''resume-urls''])
       \<or> (hq_method r = ''GET'' \<or> hq_method r = ''POST'') \<and> (\<exists>xs. split_path (hq_path r) = xs @ [''state''])"
proof -
  have parts: "split_path ''variables'' = [''variables'']" "split_path ''get'' = [''get'']" "split_path ''p'' = [''p'']"
    "split_path ''resources'' = [''resources'']" "split_path ''state'' = [''state'']"
    "split_path ''flow/resume-urls'' = [''flow'', ''resume-urls'']"
    by code_simp+
  have "prefix ''/api/w/'' (hq_path r)" using assms by (auto simp: is_job_sdk_callback_def Let_def split: if_splits)
  then obtain rest where rest: "split_path (hq_path r) = ''api'' # ''w'' # rest" using api_path_parts by blast
  show thesis
    using that [OF rest] assms infix_parts [of "''variables''" "''get''" "''p''" "hq_path r"] parts
      infix_parts [of "''resources''" "''get''" "''p''" "hq_path r"]
      suffix_parts [of "''flow/resume-urls''" "hq_path r"] suffix_parts [of "''state''" "hq_path r"]
    by (auto simp: is_job_sdk_callback_def Let_def split: if_splits)
qed

section \<open>The tokens of jobs\<close>

lemma served_job:
  assumes "serve_http H hmac P t allowed s r = Served (JobPrincipal w j sub) h"
  shows "route_of r = Some h \<and> is_job_sdk_callback r
    \<and> (\<exists>c. verify_job_any hmac P t [hc_job_token_secret H] (bearer r) = Some c \<and> jc_workspace c = w \<and> jc_job c = j
         \<and> jc_subject c = sub)
    \<and> (workspace_from_api_path (hq_path r) = '''' \<or> workspace_from_api_path (hq_path r) = w)"
  using assms
  by (auto simp: serve_http_def authorize_api_request_def Let_def split: if_splits sum.splits option.splits)

lemma path_unescape_ne: "s \<noteq> '''' \<Longrightarrow> path_unescape s \<noteq> Some ''''"
  by (cases s) (auto split: if_splits list.splits option.splits)

lemma split_path_parts: "p \<in> set (split_path path) \<Longrightarrow> p \<noteq> ''''"
  using path_unescape_ne by (auto simp: split_path_def split: option.splits)

lemma api_rule_workspace:
  assumes "rule \<in> set all_rules" and "rule_matches m (''api'' # ''w'' # rest) rule"
  shows "rest \<noteq> [] \<and> 2 \<le> length rest \<and> (handler_args (rule_route rule (''api'' # ''w'' # rest)) = []
    \<or> hd (handler_args (rule_route rule (''api'' # ''w'' # rest))) = hd rest)"
proof -
  have safe: "rule_safe rule" "first_part rule" using rules_safe rules_first_part assms(1) by (auto simp: list_all_iff)
  have "fits_at (rule_parts rule) [''api'', ''w''] 0" using matches_fits_at [of m "[]" "[''api'', ''w'']" rest rule] assms(2) by simp
  then have two: "take 2 (rule_parts rule) = [Some ''api'', Some ''w'']" using safe(1) by (auto simp: rule_safe_def)
  then have "4 \<le> length (''api'' # ''w'' # rest)" using safe(1) rule_matches_length(1) [OF assms(2)] by (simp add: rule_safe_def)
  then have n: "2 \<le> length rest" by simp
  then obtain a b where rest: "rest = a # b" by (cases rest) auto
  have "rule_parts rule ! 0 = Some ''api''" using two by (cases "rule_parts rule") auto
  then show ?thesis using safe(2) n by (force simp: first_part_def rest)
qed

text \<open>C23. A job token opens little: what is served to it is served under the claims of a token that verifies with the
secret of the instance, in the workspace of those claims, and is one of the four handlers of the SDK, or a
handler that is reached because the path ends in \<^verbatim>\<open>/state\<close> or \<^verbatim>\<open>/flow/resume-urls\<close>.\<close>

theorem job_token_confined:
  assumes "serve_http H hmac P t allowed s r = Served (JobPrincipal w j sub) h"
  shows "(\<exists>c. verify_job_any hmac P t [hc_job_token_secret H] (bearer r) = Some c \<and> jc_workspace c = w \<and> jc_job c = j \<and> jc_subject c = sub)
    \<and> workspace_from_api_path (hq_path r) = w \<and> (handler_args h = [] \<or> hd (handler_args h) = w)
    \<and> (handler_name h \<in> {''handleGetState'', ''handleSetState'', ''handleGetVariable'', ''handleGetResource''}
        \<or> (hq_method r = ''GET'' \<or> hq_method r = ''POST'') \<and> last (split_path (hq_path r)) = ''state''
        \<or> hq_method r = ''POST'' \<and> last (split_path (hq_path r)) = ''resume-urls'')"
proof -
  note sv = served_job [OF assms]
  then obtain rest where rest: "split_path (hq_path r) = ''api'' # ''w'' # rest"
    and shape: "hq_method r = ''GET'' \<and> (\<exists>xs ys. split_path (hq_path r) = xs @ [''variables'', ''get'', ''p''] @ ys)
       \<or> hq_method r = ''GET'' \<and> (\<exists>xs ys. split_path (hq_path r) = xs @ [''resources'', ''get'', ''p''] @ ys)
       \<or> hq_method r = ''POST'' \<and> (\<exists>xs. split_path (hq_path r) = xs @ [''flow'', ''resume-urls''])
       \<or> (hq_method r = ''GET'' \<or> hq_method r = ''POST'') \<and> (\<exists>xs. split_path (hq_path r) = xs @ [''state''])"
    using callback_parts [of r] by blast
  obtain rule where rule: "rule \<in> set all_rules" "rule_matches (hq_method r) (split_path (hq_path r)) rule"
    "h = rule_route rule (split_path (hq_path r))"
    using route_of_rule [of r h] sv by blast
  have ws: "rest \<noteq> []" "2 \<le> length rest" "handler_args h = [] \<or> hd (handler_args h) = hd rest"
    using api_rule_workspace [OF rule(1)] rule(2,3) rest by auto
  have "hd rest \<noteq> ''''" using ws(1) rest split_path_parts [of "hd rest" "hq_path r"] by simp
  moreover have "workspace_from_api_path (hq_path r) = hd rest"
    using ws(1) rest by (cases rest) (simp_all add: workspace_from_api_path_def)
  ultimately have w: "workspace_from_api_path (hq_path r) = w" "hd rest = w" using sv by simp_all
  have name: "handler_name h = handler_name (rule_route rule [])"
    using rules_named rule(1,3) unfolding list_all_iff by blast
  have safe: "rule_safe rule" using rules_safe rule(1) by (simp add: list_all_iff)
  have m: "hq_method r = rule_method rule" using rule_matches_method [OF rule(2)] by simp
  have inside: "sdk_rule rule" if "hq_method r = ''GET''" "split_path (hq_path r) = xs @ v @ ys"
    "v = [''variables'', ''get'', ''p''] \<or> v = [''resources'', ''get'', ''p'']" for xs v ys
    using safe m that matches_fits_inside [of "hq_method r" xs v ys rule] rule(2) by (auto simp: rule_safe_def)
  have "sdk_rule rule \<or> (hq_method r = ''GET'' \<or> hq_method r = ''POST'') \<and> last (split_path (hq_path r)) = ''state''
        \<or> hq_method r = ''POST'' \<and> last (split_path (hq_path r)) = ''resume-urls''"
  proof -
    consider "hq_method r = ''GET''" "\<exists>xs v ys. split_path (hq_path r) = xs @ v @ ys
        \<and> (v = [''variables'', ''get'', ''p''] \<or> v = [''resources'', ''get'', ''p''])"
      | "hq_method r = ''POST''" "\<exists>xs. split_path (hq_path r) = xs @ [''flow'', ''resume-urls'']"
      | "hq_method r = ''GET'' \<or> hq_method r = ''POST''" "\<exists>xs. split_path (hq_path r) = xs @ [''state'']"
      using shape by blast
    then show ?thesis
    proof cases
      case 1
      then show ?thesis using inside by blast
    qed (auto simp: last_append)
  qed
  then show ?thesis using sv w ws(3) name by (auto simp: sdk_rule_def)
qed


text \<open>The example: an instance with an admin token and a secret for job tokens, and a job of workspace \<^verbatim>\<open>main\<close>.\<close>

definition ex_handler :: handler_config where
  "ex_handler = \<lparr>hc_admin_token = ''root'', hc_worker_token = '''', hc_job_token_secret = ''s3'', hc_managed = False,
     hc_store = True, hc_metrics = False\<rparr>"

definition ex_job_request :: "string \<Rightarrow> string \<Rightarrow> string \<Rightarrow> http_request" where
  "ex_job_request tok m path = \<lparr>hq_method = m, hq_path = path,
     hq_header = (\<lambda>name. if name = ''Authorization'' then ''Bearer '' @ tok else '''')\<rparr>"


lemma ex_job_token:
  "verify_job_any (\<lambda>k m. m) (ex_text_prims (claims_doc ex_claims)) 99 [''s3'']
     (mint_job (\<lambda>k m. m) (ex_text_prims (claims_doc ex_claims)) ''s3'' ex_claims) = Some ex_claims"
  by code_simp

lemma ex_job_bearer:
  "bearer (ex_job_request (mint_job (\<lambda>k m. m) (ex_text_prims (claims_doc ex_claims)) ''s3'' ex_claims) m path)
     = mint_job (\<lambda>k m. m) (ex_text_prims (claims_doc ex_claims)) ''s3'' ex_claims"
proof -
  have "trim_space (mint_job (\<lambda>k m. m) (ex_text_prims (claims_doc ex_claims)) ''s3'' ex_claims)
     = mint_job (\<lambda>k m. m) (ex_text_prims (claims_doc ex_claims)) ''s3'' ex_claims" by code_simp
  then show ?thesis by (simp add: bearer_def ex_job_request_def)
qed

definition ex_served :: "string \<Rightarrow> string \<Rightarrow> served" where
  "ex_served m path = serve_http ex_handler (\<lambda>k m. m) (ex_text_prims (claims_doc ex_claims)) 99 True empty_snapshot
     (ex_job_request (mint_job (\<lambda>k m. m) (ex_text_prims (claims_doc ex_claims)) ''s3'' ex_claims) m path)"

lemma ex_variable_served:
  "ex_served ''GET'' ''/api/w/main/variables/get/p/db/password''
     = Served (JobPrincipal ''main'' ''job1'' ''ops'') (Handler ''handleGetVariable'' [''main'', ''db/password''])"
  by code_simp

theorem job_token_confined_witness:
  "\<exists>s r. serve_http ex_handler (\<lambda>k m. m) (ex_text_prims (claims_doc ex_claims)) 99 True s r
      = Served (JobPrincipal ''main'' ''job1'' ''ops'') (Handler ''handleGetVariable'' [''main'', ''db/password''])
    \<and> workspace_from_api_path (hq_path r) = ''main''"
  using ex_variable_served [unfolded ex_served_def] job_token_confined [OF ex_variable_served [unfolded ex_served_def]] by blast

section \<open>The tokens of workspaces\<close>

lemma served_workspace:
  assumes "serve_http H hmac P t allowed s r = Served (WorkspacePrincipal w sub False) h"
  shows "route_of r = Some h \<and> w = workspace_from_request_path (hq_path r) \<and> w \<noteq> '''' \<and> sub = ''workspace:'' @ w
    \<and> \<not> authorized r (hc_admin_token H)
    \<and> (\<exists>x. get_workspace s w = Inr x \<and> workspace_token_matches P x (bearer r)
         \<and> (ws_status x = workspace_archived \<longrightarrow> \<not> workspace_request_changes_state r))"
  using assms
  by (auto simp: serve_http_def authorize_api_request_def Let_def split: if_splits sum.splits option.splits)

text \<open>The first parts of a rule, for paths with a workspace.\<close>

definition rule_has_workspace :: "route_rule \<Rightarrow> bool" where
  "rule_has_workspace rule \<longleftrightarrow>
     \<not> fits_at (rule_parts rule) [''execution'', ''v1'', ''workspaces''] 0 \<and> \<not> fits_at (rule_parts rule) [''api'', ''w''] 0
   \<or> (fits_at (rule_parts rule) [''api'', ''w''] 0 \<and> rule_parts rule ! 0 = Some ''api'')
   \<or> (fits_at (rule_parts rule) [''execution'', ''v1'', ''workspaces''] 0 \<and> rule_parts rule ! 0 = Some ''execution'')"

lemma rules_have_workspace: "list_all rule_has_workspace all_rules"
  by code_simp

lemma safe_rules_ne: "rule \<in> set all_rules \<Longrightarrow> rule_parts rule \<noteq> []"
proof -
  have "list_all (\<lambda>rule. rule_parts rule \<noteq> []) all_rules" by code_simp
  then show "rule \<in> set all_rules \<Longrightarrow> ?thesis" by (auto simp: list_all_iff)
qed

lemma route_first_part:
  assumes "route_of r = Some h" and "workspace_from_request_path (hq_path r) \<noteq> ''''"
  shows "handler_args h = [] \<or> hd (handler_args h) = workspace_from_request_path (hq_path r)"
proof -
  let ?parts = "split_path (hq_path r)"
  obtain rule where rule: "rule \<in> set all_rules" "rule_matches (hq_method r) ?parts rule" "h = rule_route rule ?parts"
    using route_of_rule [OF assms(1)] by blast
  have facts: "rule_has_workspace rule" "first_part rule"
    using rules_have_workspace rules_first_part rule(1) by (auto simp: list_all_iff)
  show ?thesis
  proof (cases "workspace_from_api_path (hq_path r) = ''''")
    case False
    then obtain w rest where p: "?parts = ''api'' # ''w'' # w # rest" and w: "workspace_from_request_path (hq_path r) = w"
      by (cases ?parts; cases "tl ?parts"; cases "tl (tl ?parts)")
        (auto simp: workspace_from_api_path_def workspace_from_request_path_def Let_def split: if_splits)
    have "fits_at (rule_parts rule) [''api'', ''w''] 0"
      using matches_fits_at [of _ "[]" "[''api'', ''w'']" "w # rest" rule] rule(2) p by simp
    moreover have "\<not> fits_at (rule_parts rule) [''api'', ''w''] 0" if "rule_parts rule ! 0 = Some ''execution''" "rule_parts rule \<noteq> []"
      using that by (cases "rule_parts rule") (auto simp: fits_at_def)
    ultimately have "rule_parts rule ! 0 \<noteq> Some ''execution''"
      using facts(1) safe_rules_ne [OF rule(1)] by (auto simp: rule_has_workspace_def)
    then show ?thesis using facts(2) rule(3) p w by (force simp: first_part_def)
  next
    case True
    then obtain w rest where p: "?parts = ''execution'' # ''v1'' # ''workspaces'' # w # rest"
      and w: "workspace_from_request_path (hq_path r) = w"
      using assms(2)
      by (cases ?parts; cases "tl ?parts"; cases "tl (tl ?parts)"; cases "tl (tl (tl ?parts))")
        (auto simp: workspace_from_request_path_def Let_def split: if_splits)
    have "fits_at (rule_parts rule) [''execution'', ''v1'', ''workspaces''] 0"
      using matches_fits_at [of _ "[]" "[''execution'', ''v1'', ''workspaces'']" "w # rest" rule] rule(2) p by simp
    moreover have "\<not> fits_at (rule_parts rule) [''execution'', ''v1'', ''workspaces''] 0" if "rule_parts rule ! 0 = Some ''api''" "rule_parts rule \<noteq> []"
      using that by (cases "rule_parts rule") (auto simp: fits_at_def)
    ultimately have "rule_parts rule ! 0 = Some ''execution''"
      using facts(1) safe_rules_ne [OF rule(1)] by (auto simp: rule_has_workspace_def)
    then show ?thesis using facts(2) rule(3) p w by (force simp: first_part_def)
  qed
qed

text \<open>What a \<^verbatim>\<open>POST\<close> reaches that the check of the callbacks lets through.\<close>

definition post_callback_safe :: "route_rule \<Rightarrow> bool" where
  "post_callback_safe rule \<longleftrightarrow>
     (if rule_method rule \<noteq> ''POST'' then True
      else if \<not> fits_at (rule_parts rule) [''api'', ''w''] 0 then True
      else if fits_at (rule_parts rule) [''state''] (length (rule_parts rule) - 1)
         \<or> fits_at (rule_parts rule) [''flow'', ''resume-urls''] (length (rule_parts rule) - 2)
      then handler_name (rule_route rule []) \<in> {''handleSetState'', ''handleJobRun'', ''handleJobWebhook''}
      else True)"

lemma rules_post_callback: "list_all post_callback_safe all_rules"
  by (simp add: all_rules_def execution_rules_def runtime_rules_def workspace_rules_def webhook_rules_def job_rules_def
      client_rules_def git_source_rules_def app_rules_def api_w_def api_w_open_def post_callback_safe_def fits_at_def Let_def)

lemma post_callback_handler:
  assumes cb: "is_job_sdk_callback r" and post: "hq_method r = ''POST''" and h: "route_of r = Some h"
  shows "handler_name h \<in> {''handleSetState'', ''handleJobRun'', ''handleJobWebhook''}
    \<and> (last (split_path (hq_path r)) = ''state'' \<or> last (split_path (hq_path r)) = ''resume-urls'')"
proof -
  obtain rest where rest: "split_path (hq_path r) = ''api'' # ''w'' # rest"
    and shape: "(\<exists>xs. split_path (hq_path r) = xs @ [''flow'', ''resume-urls'']) \<or> (\<exists>xs. split_path (hq_path r) = xs @ [''state''])"
    by (rule callback_parts [OF cb]) (use post in simp)
  obtain xs ts where ts: "split_path (hq_path r) = xs @ ts" "ts = [''state''] \<or> ts = [''flow'', ''resume-urls'']"
    using shape by blast
  obtain rule where rule: "rule \<in> set all_rules" "rule_matches (hq_method r) (split_path (hq_path r)) rule"
    "h = rule_route rule (split_path (hq_path r))"
    using route_of_rule [OF h] by blast
  have m: "rule_method rule = ''POST''" using rule_matches_method [OF rule(2)] post by simp
  have "rule_safe rule" "post_callback_safe rule" using rules_safe rules_post_callback rule(1) by (simp_all add: list_all_iff)
  then have safe: "\<not> rule_open rule" "post_callback_safe rule" using m by (simp_all add: rule_safe_def)
  have "fits_at (rule_parts rule) [''api'', ''w''] 0"
    using matches_fits_at [of "hq_method r" "[]" "[''api'', ''w'']" rest rule] rule(2) rest by simp
  moreover have "fits_at (rule_parts rule) ts (length (rule_parts rule) - length ts)"
    using matches_fits_end [of "hq_method r" xs ts rule] rule(2) ts(1) safe(1) by simp
  moreover have "handler_name h = handler_name (rule_route rule [])"
    using rules_named rule(1,3) unfolding list_all_iff by blast
  ultimately show ?thesis using safe(2) m ts
    by (auto simp: post_callback_safe_def last_append numeral_2_eq_2 split: if_splits)
qed

text \<open>C24. A workspace token opens its workspace only: what is served to it was asked for under the path of a workspace
whose token hash it matches and acts on that workspace. In an archived workspace what is served is a request that
reads or one of three handlers, reached by a path that ends in \<^verbatim>\<open>/state\<close> or \<^verbatim>\<open>/resume-urls\<close>: the one that sets the
state of a job, and the two that start runs, of an action of one of these names (C25).\<close>

theorem workspace_token_confined:
  assumes "serve_http H hmac P t allowed s r = Served (WorkspacePrincipal w sub False) h"
  shows "w \<noteq> '''' \<and> workspace_from_request_path (hq_path r) = w \<and> (handler_args h = [] \<or> hd (handler_args h) = w)
    \<and> (\<exists>x. get_workspace s w = Inr x \<and> ws_token_hash x \<noteq> '''' \<and> workspace_token_matches P x (bearer r)
        \<and> (ws_status x = workspace_archived \<longrightarrow> hq_method r \<in> {''GET'', ''HEAD'', ''OPTIONS''}
          \<or> hq_method r = ''POST'' \<and> handler_name h \<in> {''handleSetState'', ''handleJobRun'', ''handleJobWebhook''}
            \<and> (last (split_path (hq_path r)) = ''state'' \<or> last (split_path (hq_path r)) = ''resume-urls'')))"
proof -
  note sv = served_workspace [OF assms]
  have "hq_method r = ''POST''" if "is_job_sdk_callback r" "hq_method r \<noteq> ''GET''"
    using that by (auto simp: is_job_sdk_callback_def Let_def split: if_splits)
  then have "hq_method r \<in> {''GET'', ''HEAD'', ''OPTIONS''}
      \<or> hq_method r = ''POST'' \<and> handler_name h \<in> {''handleSetState'', ''handleJobRun'', ''handleJobWebhook''}
        \<and> (last (split_path (hq_path r)) = ''state'' \<or> last (split_path (hq_path r)) = ''resume-urls'')"
    if "\<not> workspace_request_changes_state r"
    using that post_callback_handler [of r h] sv by (auto simp: workspace_request_changes_state_def)
  then show ?thesis using sv route_first_part [of r h] by (auto simp: workspace_token_matches_def)
qed

definition ex_tenant :: "string \<Rightarrow> workspace" where
  "ex_tenant status = \<lparr>ws_id = ''shop'', ws_name = ''Shop'', ws_status = status,
     ws_token_hash = hash_workspace_token (ex_text_prims JNull) ''wfw_1'',
     ws_created_by = '''', ws_updated_by = '''', ws_created_at = 0, ws_updated_at = 0\<rparr>"

definition ex_tenant_served :: "string \<Rightarrow> string \<Rightarrow> string \<Rightarrow> served" where
  "ex_tenant_served status m path = serve_http ex_handler (\<lambda>k m. m) (ex_text_prims JNull) 99 True
     (empty_snapshot\<lparr>sn_workspaces := [(''shop'', ex_tenant status)]\<rparr>) (ex_job_request ''wfw_1'' m path)"

lemma ex_tenant_deploys:
  "ex_tenant_served workspace_active ''POST'' ''/api/w/shop/git_sources/7/deploy''
     = Served (WorkspacePrincipal ''shop'' ''workspace:shop'' False) (Handler ''handleCanonicalGitSourceDeploy'' [''shop'', ''7''])"
  by code_simp

theorem workspace_token_confined_witness:
  "\<exists>s x r. serve_http ex_handler (\<lambda>k m. m) (ex_text_prims JNull) 99 True s r
      = Served (WorkspacePrincipal ''shop'' ''workspace:shop'' False) (Handler ''handleCanonicalGitSourceDeploy'' [''shop'', ''7''])
    \<and> get_workspace s ''shop'' = Inr x \<and> workspace_token_matches (ex_text_prims JNull) x (bearer r)"
  using ex_tenant_deploys [unfolded ex_tenant_served_def] workspace_token_confined [OF ex_tenant_deploys [unfolded ex_tenant_served_def]]
  by blast

section \<open>The check of the callbacks looks at the end of the path\<close>

text \<open>C25. A job token, and the token of an archived workspace, run an action that is called \<^verbatim>\<open>state\<close>: the check of the
callbacks takes every path under \<^verbatim>\<open>/api/w/\<close> that ends in \<^verbatim>\<open>/state\<close> for a callback of the SDK, and so the path that
starts a run of the action \<^verbatim>\<open>state\<close> of any app.\<close>

theorem state_suffix_runs_jobs:
  assumes "w \<noteq> ''''" and "CHR ''/'' \<notin> set w" and "CHR ''%'' \<notin> set w"
    and "app \<noteq> ''''" and "CHR ''/'' \<notin> set app" and "CHR ''%'' \<notin> set app"
    and "hq_method r = ''POST''" and "hq_path r = ''/api/w/'' @ w @ ''/jobs/run/'' @ app @ ''/state''"
  shows "(\<forall>c. is_job_token (bearer r) \<longrightarrow> verify_job_any hmac P t [hc_job_token_secret H] (bearer r) = Some c \<longrightarrow> jc_workspace c = w
        \<longrightarrow> serve_http H hmac P t allowed s r = Served (JobPrincipal w (jc_job c) (jc_subject c)) (Handler ''handleJobRun'' [w, app, ''state'']))
    \<and> (\<forall>x. \<not> is_job_token (bearer r) \<longrightarrow> \<not> authorized r (hc_admin_token H) \<longrightarrow> hc_store H
        \<longrightarrow> get_workspace s w = Inr x \<longrightarrow> ws_status x = workspace_archived \<longrightarrow> workspace_token_matches P x (bearer r)
        \<longrightarrow> serve_http H hmac P t allowed s r = Served (WorkspacePrincipal w (''workspace:'' @ w) False) (Handler ''handleJobRun'' [w, app, ''state'']))"
proof -
  have sp: "split_path (hq_path r) = [''api'', ''w'', w, ''jobs'', ''run'', app, ''state'']"
  proof -
    have "hq_path r = [] @ CHR ''/'' # ''api'' @ CHR ''/'' # ''w'' @ CHR ''/'' # w @ CHR ''/'' # ''jobs'' @ CHR ''/'' # ''run'' @ CHR ''/'' # app @ CHR ''/'' # ''state''"
      by (simp add: assms(8))
    then show ?thesis
      by (simp only: split_path_slash split_path_nil split_path_plain [OF assms(1-3)] split_path_plain [OF assms(4-6)])
        (simp add: split_path_plain)
  qed
  have route: "route_of r = Some (Handler ''handleJobRun'' [w, app, ''state''])"
    by (simp add: route_of_def find_route_def assms(7) sp all_rules_def execution_rules_def runtime_rules_def workspace_rules_def
        webhook_rules_def job_rules_def api_w_def api_w_open_def rule_matches_def Let_def)
  have cb: "is_job_sdk_callback r" "workspace_from_api_path (hq_path r) = w"
    by (simp_all add: is_job_sdk_callback_def assms(7,8) workspace_from_api_path_def sp [unfolded assms(8), simplified] suffix_def)
  have "\<not> is_web_ui r" "\<not> prefix ''/api/v1/'' (hq_path r)" by (simp_all add: is_web_ui_def assms(7,8))
  then have "serve_http H hmac P t allowed s r = (case authorize_api_request H hmac P t s r of
       Inl err \<Rightarrow> Refused err | Inr p \<Rightarrow> Served p (Handler ''handleJobRun'' [w, app, ''state'']))"
    by (simp add: serve_http_def assms(7,8) route split: sum.splits)
  then show ?thesis
    using cb assms(1) by (auto simp: authorize_api_request_def Let_def workspace_from_request_path_def workspace_request_changes_state_def)
qed

theorem state_suffix_runs_jobs_witness:
  "\<exists>r. hq_path r = ''/api/w/main/jobs/run/billing/state'' \<and> serve_http ex_handler (\<lambda>k m. m) (ex_text_prims (claims_doc ex_claims)) 99 True empty_snapshot r
      = Served (JobPrincipal ''main'' ''job1'' ''ops'') (Handler ''handleJobRun'' [''main'', ''billing'', ''state''])"
proof -
  let ?tok = "mint_job (\<lambda>k m. m) (ex_text_prims (claims_doc ex_claims)) ''s3'' ex_claims"
  let ?r = "ex_job_request ?tok ''POST'' ''/api/w/main/jobs/run/billing/state''"
  have tok: "is_job_token ?tok" by (simp add: is_job_token_def mint_job_def Let_def)
  have c: "jc_workspace ex_claims = ''main''" "jc_job ex_claims = ''job1''" "jc_subject ex_claims = ''ops''"
    "hc_job_token_secret ex_handler = ''s3''" by (simp_all add: ex_claims_def ex_handler_def)
  have r: "hq_method ?r = ''POST''" "hq_path ?r = ''/api/w/'' @ ''main'' @ ''/jobs/run/'' @ ''billing'' @ ''/state''"
    by (simp_all add: ex_job_request_def)
  have "serve_http ex_handler (\<lambda>k m. m) (ex_text_prims (claims_doc ex_claims)) 99 True empty_snapshot ?r
      = Served (JobPrincipal ''main'' ''job1'' ''ops'') (Handler ''handleJobRun'' [''main'', ''billing'', ''state''])"
    using conjunct1 [OF state_suffix_runs_jobs [OF _ _ _ _ _ _ r, where P = "ex_text_prims (claims_doc ex_claims)" and t = 99
          and H = ex_handler and hmac = "\<lambda>k m. m" and allowed = True and s = empty_snapshot], THEN spec, of ex_claims]
    unfolding ex_job_bearer c using tok ex_job_token by (simp del: verify_job_any.simps)
  moreover have "hq_path ?r = ''/api/w/main/jobs/run/billing/state''" by (simp add: ex_job_request_def)
  ultimately show ?thesis by blast
qed

end
