(* ===== verification/Worker_Plane.thy ===== *)
theory Worker_Plane
  imports Http_Auth App_Store Worker
begin

text \<open>
  The worker plane: the handlers a remote worker calls (\<^verbatim>\<open>internal/server/worker_plane.go\<close>) and the client
  that puts them behind the interface of a store (\<^verbatim>\<open>internal/remoteworker/client.go\<close>). Requests and replies are
  taken after decoding; \<open>None\<close> stands for a body that does not decode. Of the text of a request its length counts, as
  bodies are capped; the lengths of the texts \<^verbatim>\<open>encoding/json\<close> makes are an argument of the client. The text of an
  error is left out of a reply, its status and code are kept.
\<close>

section \<open>Replies\<close>

datatype plane_body = NoBody | Registered string | Claimed job lease string | HeartbeatReply heartbeat_result | ErrorCode string

record plane_reply =
  rep_status :: nat
  rep_body :: plane_body

definition reply :: "nat \<Rightarrow> plane_body \<Rightarrow> plane_reply" where
  "reply status body = \<lparr>rep_status = status, rep_body = body\<rparr>"

definition write_error :: "nat \<Rightarrow> plane_reply" where
  "write_error status = reply status (ErrorCode '''')"

definition write_store_error :: "store_error \<Rightarrow> plane_reply" where
  "write_store_error err =
    (case err of
       InvalidLease \<Rightarrow> reply 409 (ErrorCode ''invalid_lease'')
     | NotFound \<Rightarrow> reply 404 (ErrorCode ''not_found'')
     | Conflict \<Rightarrow> reply 409 (ErrorCode ''conflict'')
     | _ \<Rightarrow> write_error 500)"

section \<open>Routes\<close>

datatype plane_route = PlaneRegister | PlaneWorkerHeartbeat string | PlaneDeregister string | PlaneClaim
  | PlaneJobHeartbeat string | PlaneComplete string | PlaneLogs string | PlaneArtifact string

text \<open>The parts are those of \<^verbatim>\<open>strings.Split\<close>: neither unescaped nor freed of empty ones.\<close>

definition plane_route :: "http_request \<Rightarrow> plane_route option" where
  "plane_route r =
    (let path = hq_path r;
         path = (if prefix ''/worker/v1'' path then drop (length ''/worker/v1'') path else path);
         parts = split_at (CHR ''/'') (trim_slashes path); n = length parts; m = hq_method r in
     if n = 1 \<and> parts ! 0 = ''workers'' \<and> m = ''POST'' then Some PlaneRegister
     else if n = 3 \<and> parts ! 0 = ''workers'' \<and> parts ! 2 = ''heartbeat'' \<and> m = ''POST'' then Some (PlaneWorkerHeartbeat (parts ! 1))
     else if n = 2 \<and> parts ! 0 = ''workers'' \<and> m = ''DELETE'' then Some (PlaneDeregister (parts ! 1))
     else if n = 1 \<and> parts ! 0 = ''claims'' \<and> m = ''POST'' then Some PlaneClaim
     else if n = 3 \<and> parts ! 0 = ''jobs'' \<and> parts ! 2 = ''heartbeat'' \<and> m = ''POST'' then Some (PlaneJobHeartbeat (parts ! 1))
     else if n = 3 \<and> parts ! 0 = ''jobs'' \<and> parts ! 2 = ''complete'' \<and> m = ''POST'' then Some (PlaneComplete (parts ! 1))
     else if n = 3 \<and> parts ! 0 = ''jobs'' \<and> parts ! 2 = ''logs'' \<and> m = ''POST'' then Some (PlaneLogs (parts ! 1))
     else if n = 2 \<and> parts ! 0 = ''artifacts'' \<and> m = ''GET'' then Some (PlaneArtifact (parts ! 1))
     else None)"

text \<open>
  Decoding a body of which the JSON value ends at byte \<open>n\<close>, through \<^verbatim>\<open>http.MaxBytesReader\<close>: past the limit
  the reader fails and with it the decoder, which the handlers answer like any body that is not JSON.
\<close>

definition max_bytes_reader :: "nat \<Rightarrow> nat \<Rightarrow> 'a option \<Rightarrow> 'a option" where
  "max_bytes_reader limit n body = (if limit < n then None else body)"

definition worker_plane_max_body :: nat where
  "worker_plane_max_body = 10 * 2 ^ 20"

text \<open>401 without the token of the plane, 404 for a path that is none of these; else the route and the body
its handler decodes.\<close>

definition handle_worker_plane :: "handler_config \<Rightarrow> http_request \<Rightarrow> nat \<Rightarrow> 'a option \<Rightarrow> plane_reply + plane_route \<times> 'a option" where
  "handle_worker_plane H r n body =
    (if \<not> worker_plane_authorized H r then Inl (write_error 401)
     else
       (let body = max_bytes_reader worker_plane_max_body n body in
        case plane_route r of None \<Rightarrow> Inl (write_error 404) | Some x \<Rightarrow> Inr (x, body)))"

section \<open>Handlers\<close>

definition worker_plane_max_lease_ttl :: duration where
  "worker_plane_max_lease_ttl = seconds (15 * 60)"

definition clamp_lease_ttl :: "int \<Rightarrow> duration" where
  "clamp_lease_ttl ms =
    (let ttl = wrap64 (ms * 1000000) in
     if ttl \<le> 0 then seconds 30
     else if worker_plane_max_lease_ttl < ttl then worker_plane_max_lease_ttl else ttl)"

record register_request =
  rgr_id :: string
  rgr_group :: string
  rgr_tags :: "string list"
  rgr_labels :: "string list"
  rgr_slots :: int

definition worker_plane_register :: "call_env \<Rightarrow> register_request option \<Rightarrow> snapshot \<Rightarrow> snapshot \<times> plane_reply" where
  "worker_plane_register e body s =
    (case body of
       None \<Rightarrow> (s, write_error 400)
     | Some req \<Rightarrow>
       (case normalize_labels (rgr_labels req) True of
          Inl err \<Rightarrow> (s, write_error 400)
        | Inr labels \<Rightarrow>
          (let wid = (if trim_space (rgr_id req) = '''' then draw_id e ''worker'' 0 else rgr_id req) in
           case update e (register_worker e \<lparr>wk_id = wid, wk_group = rgr_group req, wk_tags = rgr_tags req, wk_labels = labels,
               wk_slots = rgr_slots req, wk_started_at = 0, wk_last_heartbeat_at = 0\<rparr>) s of
             Inl err \<Rightarrow> (s, write_error 500)
           | Inr (t, _) \<Rightarrow> (t, reply 201 (Registered wid)))))"

definition worker_plane_worker_heartbeat :: "call_env \<Rightarrow> string \<Rightarrow> snapshot \<Rightarrow> snapshot \<times> plane_reply" where
  "worker_plane_worker_heartbeat e wid s =
    (case update e (heartbeat_worker e wid) s of
       Inl err \<Rightarrow> (s, write_store_error err) | Inr (t, _) \<Rightarrow> (t, reply 204 NoBody))"

definition worker_plane_deregister :: "call_env \<Rightarrow> string \<Rightarrow> snapshot \<Rightarrow> snapshot \<times> plane_reply" where
  "worker_plane_deregister e wid s =
    (case update e (deregister_worker wid) s of
       Inl err \<Rightarrow> (s, write_error 500) | Inr (t, _) \<Rightarrow> (t, reply 204 NoBody))"

record claim_request =
  clr_worker :: string
  clr_tags :: "string list"
  clr_labels :: "string list"
  clr_lease_ttl_ms :: int

definition job_token_ttl :: "job \<Rightarrow> duration" where
  "job_token_ttl j =
    (let p = job_payload j;
         timeout = wrap64 (jp_timeout_s p * 1000000000);
         timeout = (case dep_action (pinned_deployment p) (jp_action p) of
            None \<Rightarrow> timeout
          | Some a \<Rightarrow>
            (case act_timeout_s a of
               Some n \<Rightarrow> if 0 < n then wrap64 (n * 1000000000)
                        else if 0 < act_timeout_ms a then wrap64 (act_timeout_ms a * 1000000) else timeout
             | None \<Rightarrow> if 0 < act_timeout_ms a then wrap64 (act_timeout_ms a * 1000000) else timeout))
     in if timeout \<le> 0 then 3600 * 1000000000 else wrap64 (timeout + 60 * 1000000000))"

text \<open>
  The claim on \<open>s\<close>, the reading of input settings on \<open>mid t\<close> and, when the input cannot be prepared, the report of
  the failure on \<open>late t\<close>, where \<open>t\<close> is what the claim left.
\<close>

definition prepared_input :: "input_crypto \<Rightarrow> snapshot \<Rightarrow> job \<Rightarrow> store_error + raw" where
  "prepared_input C s j =
    (let p = job_payload j; w = normalize_workspace (jp_workspace p) in
     and_then (decrypt_input C w (jp_input p)) (\<lambda>plain. resolve_input C s w (jp_app p) (jp_action p) (jp_client p) plain))"

definition preparation_failed :: "job \<Rightarrow> string \<Rightarrow> job_result" where
  "preparation_failed j text =
    \<lparr>res_job = job_id j, res_app = jp_app (job_payload j), res_action = jp_action (job_payload j), res_output = raw_nil,
     res_exit_code = 0, res_stdout = '''', res_stderr = ''input preparation failed: '' @ text, res_duration_ms = 0, res_error = ''''\<rparr>"

definition plane_job_token :: "handler_config \<Rightarrow> (string \<Rightarrow> string \<Rightarrow> string) \<Rightarrow> crypto_prims \<Rightarrow> time \<Rightarrow> job \<Rightarrow> string" where
  "plane_job_token H hmac P now j =
    (let secret = trim_space (hc_job_token_secret H) in
     if secret = '''' then ''''
     else mint_job hmac P secret \<lparr>jc_workspace = normalize_workspace (jp_workspace (job_payload j)), jc_job = job_id j,
       jc_subject = jp_permissioned_as (job_payload j), jc_exp = unix_seconds (now + job_token_ttl j)\<rparr>)"

definition worker_plane_claim ::
    "input_crypto \<Rightarrow> handler_config \<Rightarrow> (string \<Rightarrow> string \<Rightarrow> string) \<Rightarrow> (store_error \<Rightarrow> string) \<Rightarrow> work_env \<Rightarrow> claim_request option
      \<Rightarrow> (snapshot \<Rightarrow> snapshot) \<Rightarrow> (snapshot \<Rightarrow> snapshot) \<Rightarrow> snapshot \<Rightarrow> snapshot \<times> plane_reply" where
  "worker_plane_claim C H hmac err_text W body mid late s =
    (case body of
       None \<Rightarrow> (s, write_error 400)
     | Some req \<Rightarrow>
       if trim_space (clr_worker req) = '''' then (s, write_error 400)
       else
         (case local_claim_job C (we_claim W) (clr_worker req) (clr_tags req) (clr_labels req)
             (clamp_lease_ttl (clr_lease_ttl_ms req)) s of
            Inl NoQueuedJob \<Rightarrow> (s, reply 204 NoBody)
          | Inl err \<Rightarrow> (s, write_store_error err)
          | Inr (t, (j, l)) \<Rightarrow>
            (case prepared_input C (mid t) j of
               Inl err \<Rightarrow>
                 (case local_complete_failed C (we_report W) l (preparation_failed j (err_text err)) (late t) of
                    Inl _ \<Rightarrow> (late t, write_error 500)
                  | Inr (v, _) \<Rightarrow> (v, reply 204 NoBody))
             | Inr input \<Rightarrow>
                 (t, reply 200 (Claimed (j\<lparr>job_payload := (job_payload j)\<lparr>jp_input := input\<rparr>\<rparr>) l
                   (plane_job_token H hmac (prims C) (clock (we_run W)) j))))))"

record heartbeat_request =
  hbr_lease :: lease
  hbr_lease_ttl_ms :: int

definition worker_plane_job_heartbeat :: "call_env \<Rightarrow> string \<Rightarrow> heartbeat_request option \<Rightarrow> snapshot \<Rightarrow> snapshot \<times> plane_reply" where
  "worker_plane_job_heartbeat e jid body s =
    (case body of
       None \<Rightarrow> (s, write_error 400)
     | Some req \<Rightarrow>
       if lease_job (hbr_lease req) \<noteq> jid then (s, write_error 400)
       else
         (case local_heartbeat_job e (hbr_lease req) (clamp_lease_ttl (hbr_lease_ttl_ms req)) s of
            Inl err \<Rightarrow> (s, write_store_error err)
          | Inr (t, h) \<Rightarrow> (t, reply 200 (HeartbeatReply h))))"

record complete_request =
  cor_lease :: lease
  cor_outcome :: string
  cor_result :: job_result
  cor_task :: "human_task option"

definition worker_plane_complete ::
    "input_crypto \<Rightarrow> call_env \<Rightarrow> string \<Rightarrow> complete_request option \<Rightarrow> snapshot \<Rightarrow> snapshot \<times> plane_reply" where
  "worker_plane_complete C e jid body s =
    (case body of
       None \<Rightarrow> (s, write_error 400)
     | Some req \<Rightarrow>
       if lease_job (cor_lease req) \<noteq> jid then (s, write_error 400)
       else
         (let finish = (\<lambda>op. case op s of Inl err \<Rightarrow> (s, write_store_error err) | Inr (t, _) \<Rightarrow> (t, reply 204 NoBody)) in
          if cor_outcome req = ''succeeded'' then finish (local_complete_succeeded C e (cor_lease req) (cor_result req))
          else if cor_outcome req = ''failed'' then finish (local_complete_failed C e (cor_lease req) (cor_result req))
          else if cor_outcome req = ''waiting_human'' then
            (case cor_task req of
               None \<Rightarrow> (s, write_error 400)
             | Some task \<Rightarrow> finish (local_complete_waiting_human C e (cor_lease req) (cor_result req) task))
          else (s, write_error 400)))"

definition worker_plane_logs :: "call_env \<Rightarrow> string \<Rightarrow> (string \<times> string) option \<Rightarrow> snapshot \<Rightarrow> snapshot \<times> plane_reply" where
  "worker_plane_logs e jid body s =
    (case body of
       None \<Rightarrow> (s, write_error 400)
     | Some (w, chunk) \<Rightarrow>
       (case local_append_logs e jid (normalize_workspace w) chunk s of
          Inl err \<Rightarrow> (s, write_store_error err) | Inr (t, _) \<Rightarrow> (t, reply 204 NoBody)))"

section \<open>The client\<close>

text \<open>An error of the client: one of the store it can tell apart, or only a status.\<close>

datatype remote_error = StoreError store_error | StatusError nat

definition wire_error :: "plane_reply \<Rightarrow> remote_error" where
  "wire_error r =
    (case rep_body r of
       ErrorCode code \<Rightarrow>
         if code = ''invalid_lease'' then StoreError InvalidLease
         else if code = ''not_found'' then StoreError NotFound
         else if code = ''conflict'' then StoreError Conflict
         else StatusError (rep_status r)
     | _ \<Rightarrow> StatusError (rep_status r))"

definition client_do :: "plane_reply \<Rightarrow> remote_error option" where
  "client_do r = (if 400 \<le> rep_status r then Some (wire_error r) else None)"

text \<open>The lengths of the JSON texts of the requests, and a request as the plane decodes it.\<close>

record wire_sizes =
  wz_register :: "register_request \<Rightarrow> nat"
  wz_claim :: "claim_request \<Rightarrow> nat"
  wz_heartbeat :: "heartbeat_request \<Rightarrow> nat"
  wz_complete :: "complete_request \<Rightarrow> nat"
  wz_logs :: "string \<times> string \<Rightarrow> nat"

definition sent :: "('a \<Rightarrow> nat) \<Rightarrow> 'a \<Rightarrow> 'a option" where
  "sent n body = max_bytes_reader worker_plane_max_body (n body) (Some body)"

text \<open>\<^verbatim>\<open>Duration.Milliseconds\<close>\<close>

definition milliseconds :: "duration \<Rightarrow> int" where
  "milliseconds d = d sdiv 1000000"

definition remote_claim ::
    "wire_sizes \<Rightarrow> input_crypto \<Rightarrow> handler_config \<Rightarrow> (string \<Rightarrow> string \<Rightarrow> string) \<Rightarrow> (store_error \<Rightarrow> string) \<Rightarrow> work_env \<Rightarrow> string \<Rightarrow> string list
      \<Rightarrow> string list \<Rightarrow> duration \<Rightarrow> (snapshot \<Rightarrow> snapshot) \<Rightarrow> (snapshot \<Rightarrow> snapshot) \<Rightarrow> snapshot
      \<Rightarrow> snapshot \<times> (remote_error + job \<times> lease \<times> string)" where
  "remote_claim Z C H hmac err_text W wid tags labels ttl mid late s =
    (let (t, r) = worker_plane_claim C H hmac err_text W
           (sent (wz_claim Z) \<lparr>clr_worker = wid, clr_tags = tags, clr_labels = labels, clr_lease_ttl_ms = milliseconds ttl\<rparr>)
           mid late s in
     (t, case client_do r of
           Some err \<Rightarrow> Inl err
         | None \<Rightarrow>
           if rep_status r = 204 then Inl (StoreError NoQueuedJob)
           else case rep_body r of Claimed j l tok \<Rightarrow> Inr (j, l, tok) | _ \<Rightarrow> Inl (StatusError (rep_status r))))"

fun complete_request_of :: "lease \<Rightarrow> report \<Rightarrow> complete_request" where
  "complete_request_of l (ReportSucceeded res) =
    \<lparr>cor_lease = l, cor_outcome = ''succeeded'', cor_result = res, cor_task = None\<rparr>"
| "complete_request_of l (ReportFailed res) =
    \<lparr>cor_lease = l, cor_outcome = ''failed'', cor_result = res, cor_task = None\<rparr>"
| "complete_request_of l (ReportWaiting res task) =
    \<lparr>cor_lease = l, cor_outcome = ''waiting_human'', cor_result = res, cor_task = Some task\<rparr>"

definition remote_send_report ::
    "wire_sizes \<Rightarrow> input_crypto \<Rightarrow> call_env \<Rightarrow> lease \<Rightarrow> report \<Rightarrow> snapshot \<Rightarrow> snapshot \<times> remote_error option" where
  "remote_send_report Z C e l rep s =
    map_prod id client_do (worker_plane_complete C e (lease_job l) (sent (wz_complete Z) (complete_request_of l rep)) s)"

definition remote_heartbeat_job ::
    "wire_sizes \<Rightarrow> call_env \<Rightarrow> lease \<Rightarrow> duration \<Rightarrow> snapshot \<Rightarrow> snapshot \<times> (remote_error + heartbeat_result)" where
  "remote_heartbeat_job Z e l ttl s =
    (let (t, r) = worker_plane_job_heartbeat e (lease_job l)
           (sent (wz_heartbeat Z) \<lparr>hbr_lease = l, hbr_lease_ttl_ms = milliseconds ttl\<rparr>) s in
     (t, case client_do r of
           Some err \<Rightarrow> Inl err
         | None \<Rightarrow> (case rep_body r of HeartbeatReply h \<Rightarrow> Inr h | _ \<Rightarrow> Inl (StatusError (rep_status r)))))"

definition remote_register_worker :: "wire_sizes \<Rightarrow> call_env \<Rightarrow> worker_record \<Rightarrow> snapshot \<Rightarrow> snapshot \<times> remote_error option" where
  "remote_register_worker Z e w s = map_prod id client_do (worker_plane_register e (sent (wz_register Z)
     \<lparr>rgr_id = wk_id w, rgr_group = wk_group w, rgr_tags = wk_tags w, rgr_labels = wk_labels w, rgr_slots = wk_slots w\<rparr>) s)"

definition remote_heartbeat_worker :: "call_env \<Rightarrow> string \<Rightarrow> snapshot \<Rightarrow> snapshot \<times> remote_error option" where
  "remote_heartbeat_worker e wid s = map_prod id client_do (worker_plane_worker_heartbeat e wid s)"

definition remote_deregister_worker :: "call_env \<Rightarrow> string \<Rightarrow> snapshot \<Rightarrow> snapshot \<times> remote_error option" where
  "remote_deregister_worker e wid s = map_prod id client_do (worker_plane_deregister e wid s)"

definition remote_append_logs ::
    "wire_sizes \<Rightarrow> call_env \<Rightarrow> string \<Rightarrow> string \<Rightarrow> string \<Rightarrow> snapshot \<Rightarrow> snapshot \<times> remote_error option" where
  "remote_append_logs Z e jid w chunk s = map_prod id client_do (worker_plane_logs e jid (sent (wz_logs Z) (w, chunk)) s)"

text \<open>
  \<^verbatim>\<open>ProcessOne\<close> of a worker behind this client: decrypting and resolving are the identity, the token is the one that
  came with the claim.
\<close>

definition remote_process_one ::
    "wire_sizes \<Rightarrow> input_crypto \<Rightarrow> handler_config \<Rightarrow> (string \<Rightarrow> string \<Rightarrow> string) \<Rightarrow> (store_error \<Rightarrow> string) \<Rightarrow> processor
      \<Rightarrow> (run_request \<Rightarrow> job_result \<times> run_error option) \<Rightarrow> work_env
      \<Rightarrow> (snapshot \<Rightarrow> snapshot) \<Rightarrow> (snapshot \<Rightarrow> snapshot) \<Rightarrow> snapshot \<Rightarrow> snapshot \<times> bool \<times> remote_error option" where
  "remote_process_one Z C H hmac err_text P run W mid late s =
    (case remote_claim Z C H hmac err_text W (processor_id (we_claim W) P) (pr_tags P) (pr_labels P) (pr_lease_ttl P) mid late s of
       (t, Inl (StoreError NoQueuedJob)) \<Rightarrow> (t, False, None)
     | (t, Inl err) \<Rightarrow> (t, False, Some err)
     | (t, Inr (j, l, tok)) \<Rightarrow>
       (let rep = (case apply_bindings (pr_bindings P) (strip_reserved_runtime_input (jp_input (job_payload j))) of
              None \<Rightarrow> failed_early j ''RuntimeBindingError'' ''could not apply runtime bindings''
            | Some bound \<Rightarrow> outcome_of P (we_run W) j (run (job_request (P\<lparr>pr_job_token := (\<lambda>_. tok)\<rparr>) j bound)))
        in case remote_send_report Z C (we_report W) l rep (late t) of
             (v, None) \<Rightarrow> (v, True, None)
           | (v, Some (StoreError InvalidLease)) \<Rightarrow> (v, True, None)
           | (v, Some err) \<Rightarrow> (v, True, Some err)))"

end
