(* ===== verification/Plane_Properties.thy ===== *)
theory Plane_Properties
  imports Worker_Plane Worker_Properties Tenancy Http_Properties
begin

text \<open>
  A worker behind the wire and a worker beside the store: reports and claims mean the same through the plane,
  leases are bounded there, and a run whose settings lock a key executes on the one but not on the other.
\<close>

section \<open>Reports\<close>

text \<open>What the client makes of an error of the store.\<close>

definition remote_of :: "store_error \<Rightarrow> remote_error" where
  "remote_of err = (if err \<in> {InvalidLease, NotFound, Conflict} then StoreError err else StatusError 500)"

lemma wire_store_error: "client_do (write_store_error err) = Some (remote_of err)"
  by (cases err) (simp_all add: client_do_def write_store_error_def write_error_def reply_def wire_error_def remote_of_def)

lemma client_do_reply [simp]: "status < 400 \<Longrightarrow> client_do (reply status body) = None"
  by (simp add: client_do_def reply_def)

lemma sent_fits: "n x \<le> worker_plane_max_body \<Longrightarrow> sent n x = Some x"
  by (simp add: sent_def max_bytes_reader_def)

lemma remote_send_report_local:
  assumes "wz_complete Z (complete_request_of l rep) \<le> worker_plane_max_body"
  shows "remote_send_report Z C e l rep s =
    (case send_report C e l rep s of Inl err \<Rightarrow> (s, Some (remote_of err)) | Inr (t, _) \<Rightarrow> (t, None))"
  by (cases rep) (use assms in \<open>simp_all add: remote_send_report_def sent_fits worker_plane_complete_def Let_def
      wire_store_error split: sum.splits\<close>)

text \<open>A report past the cap is answered 400 and not recorded.\<close>

lemma remote_send_report_capped:
  assumes "worker_plane_max_body < wz_complete Z (complete_request_of l rep)"
  shows "remote_send_report Z C e l rep s = (s, Some (StatusError 400))"
  using assms by (simp add: remote_send_report_def sent_def max_bytes_reader_def worker_plane_complete_def client_do_def
      write_error_def reply_def wire_error_def)

lemma rep_reply [simp]: "rep_status (reply n b) = n" "rep_body (reply n b) = b"
  by (simp_all add: reply_def)

section \<open>Claims\<close>

lemma clamp_milliseconds:
  assumes "0 < ttl" and "ttl \<le> seconds (15 * 60)" and "1000000 dvd ttl"
  shows "clamp_lease_ttl (milliseconds ttl) = ttl"
proof -
  have "milliseconds ttl * 1000000 = ttl"
    using assms(1,3) by (auto simp: milliseconds_def signed_divide_int_def elim!: dvdE)
  moreover have "wrap64 ttl = ttl" using assms(1,2) by (intro wrap64_id) (auto simp: seconds_def)
  ultimately show ?thesis using assms(1,2) by (simp add: clamp_lease_ttl_def worker_plane_max_lease_ttl_def)
qed

lemma clamp_bounds: "0 < clamp_lease_ttl ms \<and> clamp_lease_ttl ms \<le> seconds (15 * 60)"
  by (simp add: clamp_lease_ttl_def worker_plane_max_lease_ttl_def Let_def seconds_def)

lemma claim_lease_expires:
  assumes "local_claim_job C e w tags labels ttl s = Inr (t, (j, l))"
  shows "lease_expires_at l = clock e + lease_ttl ttl" and "lease_acquired_at l = clock e"
  using assms by (auto simp: local_claim_job_def update_Inr claim_job_for_worker_def Let_def and_then_eq_Inr
      split: option.splits if_splits)

lemma with_input:
  "job_id (j\<lparr>job_payload := q\<rparr>) = job_id j" "job_run (j\<lparr>job_payload := q\<rparr>) = job_run j"
  by simp_all

lemma with_token:
  "pr_decode_text (P\<lparr>pr_job_token := f\<rparr>) = pr_decode_text P" "pr_quote (P\<lparr>pr_job_token := f\<rparr>) = pr_quote P"
  by simp_all

lemma outcome_of_input:
  "outcome_of P e (j\<lparr>job_payload := (job_payload j)\<lparr>jp_input := i\<rparr>\<rparr>) x = outcome_of P e j x"
  unfolding outcome_of_def with_input by (rule refl)

lemma failed_early_input: "failed_early (j\<lparr>job_payload := (job_payload j)\<lparr>jp_input := i\<rparr>\<rparr>) n m = failed_early j n m"
  by (simp add: failed_early_def)

lemma job_request_input:
  "job_request P (j\<lparr>job_payload := (job_payload j)\<lparr>jp_input := i\<rparr>\<rparr>) b = job_request P j b"
proof -
  have "job_workspace (j\<lparr>job_payload := (job_payload j)\<lparr>jp_input := i\<rparr>\<rparr>) = job_workspace j"
    by (cases "jp_workspace (job_payload j) = ''''") (simp_all add: job_workspace_def pinned_deployment_input)
  then show ?thesis by (simp add: job_request_def Let_def pinned_deployment_input)
qed

lemma outcome_of_token: "outcome_of (P\<lparr>pr_job_token := f\<rparr>) e j x = outcome_of P e j x"
  unfolding outcome_of_def with_token by (rule refl)

text \<open>C26. A worker behind the wire does what a worker beside the store does, up to the cap on bodies. For a run that was
admitted with its input resolved, provided that resolving the input again changes nothing (C27 is the case where it
does), that the lease time is one the wire can carry and that the claim itself fits the cap: when the report
fits in 10 MiB, an iteration through the plane leaves the same store and comes to the same end as a local one
that hands the job the token of the plane, and of an error the client keeps whether it is a lost lease, a
missing record or a conflict; a larger report is refused with 400 and the store stays as it is, whatever the
local worker would have recorded.\<close>

theorem remote_worker_agrees:
  assumes "local_claim_job C (we_claim W) (processor_id (we_claim W) P) (pr_tags P) (pr_labels P) (pr_lease_ttl P) s = Inr (t, (j, l))"
    and "jp_workspace (job_payload j) \<noteq> ''''" and "jp_input_resolved (job_payload j)"
    and "decrypt_input C (job_workspace j) (jp_input (job_payload j)) = Inr plain"
    and "resolve_input C (mid t) (job_workspace j) (jp_app (job_payload j)) (jp_action (job_payload j)) (jp_client (job_payload j)) plain
       = Inr plain"
    and "0 < pr_lease_ttl P" and "pr_lease_ttl P \<le> seconds (15 * 60)" and "1000000 dvd pr_lease_ttl P"
    and "trim_space (processor_id (we_claim W) P) \<noteq> ''''"
    and "wz_claim Z \<lparr>clr_worker = processor_id (we_claim W) P, clr_tags = pr_tags P, clr_labels = pr_labels P,
        clr_lease_ttl_ms = milliseconds (pr_lease_ttl P)\<rparr> \<le> 10 * 2 ^ 20"
  shows "let P' = P\<lparr>pr_job_token := (\<lambda>_. plane_job_token H hmac (prims C) (clock (we_run W)) j)\<rparr>;
      rep = job_report C P' run (we_run W) (mid t) j in
    remote_process_one Z C H hmac err_text P run W mid late s =
      (if wz_complete Z (complete_request_of l rep) \<le> 10 * 2 ^ 20
       then (case worker_process_one C P' run W mid late s of
         (v, processed, err) \<Rightarrow> (v, processed, map_option remote_of err))
       else (late t, True, Some (StatusError 400)))"
proof -
  let ?tok = "plane_job_token H hmac (prims C) (clock (we_run W)) j"
  let ?P = "P\<lparr>pr_job_token := (\<lambda>_. ?tok)\<rparr>"
  let ?j = "j\<lparr>job_payload := (job_payload j)\<lparr>jp_input := plain\<rparr>\<rparr>"
  have w: "job_workspace j = normalize_workspace (jp_workspace (job_payload j))"
    using assms(2) by (simp add: job_workspace_def)
  have "prepared_input C (mid t) j = Inr plain"
    using assms(4,5) by (simp add: prepared_input_def Let_def w and_then_eq_Inr)
  then have claim: "remote_claim Z C H hmac err_text W (processor_id (we_claim W) P) (pr_tags P) (pr_labels P) (pr_lease_ttl P) mid late s
      = (t, Inr (?j, l, ?tok))"
    using assms(1,9) clamp_milliseconds [OF assms(6-8)] sent_fits [of "wz_claim Z", OF assms(10) [folded worker_plane_max_body_def]]
    by (simp add: remote_claim_def worker_plane_claim_def)
  define rep where "rep = job_report C ?P run (we_run W) (mid t) j"
  have "rep = (case apply_bindings (pr_bindings P) (strip_reserved_runtime_input plain) of
              None \<Rightarrow> failed_early j ''RuntimeBindingError'' ''could not apply runtime bindings''
            | Some bound \<Rightarrow> outcome_of P (we_run W) j (run (job_request ?P j bound)))"
  proof (cases "apply_bindings (pr_bindings P) (strip_reserved_runtime_input plain)")
    case None
    with assms(3,4) show ?thesis by (simp add: rep_def job_report_def prepare_input_def Let_def)
  next
    case (Some bound)
    with assms(3,4) have "prepare_input C ?P (mid t) j = Inr bound" by (simp add: prepare_input_def Let_def)
    with Some show ?thesis by (simp add: rep_def job_report_def outcome_of_token)
  qed
  then have rep: "(case apply_bindings (pr_bindings P) (strip_reserved_runtime_input plain) of
              None \<Rightarrow> failed_early ?j ''RuntimeBindingError'' ''could not apply runtime bindings''
            | Some bound \<Rightarrow> outcome_of P (we_run W) ?j (run (job_request ?P ?j bound))) = rep"
    by (cases "apply_bindings (pr_bindings P) (strip_reserved_runtime_input plain)")
      (simp_all add: outcome_of_input failed_early_input job_request_input)
  have remote: "remote_process_one Z C H hmac err_text P run W mid late s =
      (case remote_send_report Z C (we_report W) l rep (late t) of
             (v, None) \<Rightarrow> (v, True, None)
           | (v, Some (StoreError InvalidLease)) \<Rightarrow> (v, True, None)
           | (v, Some err) \<Rightarrow> (v, True, Some err))"
    by (simp add: remote_process_one_def claim Let_def rep)
  have "processor_id (we_claim W) ?P = processor_id (we_claim W) P" by (simp add: processor_id_def)
  then have local: "worker_process_one C ?P run W mid late s =
      (case send_report C (we_report W) l rep (late t) of
          Inr (v, _) \<Rightarrow> (v, True, None) | Inl InvalidLease \<Rightarrow> (late t, True, None) | Inl err \<Rightarrow> (late t, True, Some err))"
    using assms(1) by (simp add: worker_process_one_def rep_def)
  have fits: "remote_process_one Z C H hmac err_text P run W mid late s =
      (case worker_process_one C ?P run W mid late s of (v, processed, err) \<Rightarrow> (v, processed, map_option remote_of err))"
    if "wz_complete Z (complete_request_of l rep) \<le> worker_plane_max_body"
    unfolding remote local remote_send_report_local [OF that]
    by (simp add: remote_of_def split: sum.splits store_error.splits prod.splits)
  have capped: "remote_process_one Z C H hmac err_text P run W mid late s = (late t, True, Some (StatusError 400))"
    if "\<not> wz_complete Z (complete_request_of l rep) \<le> worker_plane_max_body"
    using that by (simp add: remote remote_send_report_capped)
  show ?thesis
    unfolding Let_def rep_def [symmetric] worker_plane_max_body_def [symmetric] using fits capped by simp
qed

text \<open>A lease granted over the wire ends: whatever time to live a worker asks for, negative, zero or past the 64
bits, the lease of its claim runs for more than nothing and for at most 15 minutes.\<close>

theorem remote_lease_bounded:
  assumes "worker_plane_claim C H hmac err_text W body mid late s = (t, reply 200 (Claimed j l tok))"
  shows "clock (we_claim W) < lease_expires_at l \<and> lease_expires_at l \<le> clock (we_claim W) + seconds (15 * 60)
    \<and> lease_acquired_at l = clock (we_claim W)"
proof -
  have "\<exists>(req :: claim_request) j0. local_claim_job C (we_claim W) (clr_worker req) (clr_tags req) (clr_labels req)
      (clamp_lease_ttl (clr_lease_ttl_ms req)) s = Inr (t, (j0, l))"
    using assms by (auto simp: worker_plane_claim_def write_error_def write_store_error_def reply_def
        split: option.splits if_splits sum.splits store_error.splits) blast
  then obtain req :: claim_request and j0 where "local_claim_job C (we_claim W) (clr_worker req) (clr_tags req) (clr_labels req)
      (clamp_lease_ttl (clr_lease_ttl_ms req)) s = Inr (t, (j0, l))" by blast
  from claim_lease_expires [OF this] clamp_bounds [of "clr_lease_ttl_ms req"] show ?thesis
    by (simp add: lease_ttl_def)
qed

section \<open>An example\<close>

text \<open>A store with one run that was admitted with its input resolved, and settings that lock a key of it.\<close>

definition ex_input :: raw where
  "ex_input = RawDoc (JObj [(''n'', JNum ''1''), (''region'', JStr ''eu'')])"

definition ex_resolved_run :: run where
  "ex_resolved_run = ex_run\<lparr>run_input := ex_input, run_input_resolved := True\<rparr>"

definition ex_resolved_job :: job where
  "ex_resolved_job = new_action_job (ex_at 1) ex_resolved_run raw_nil"

definition ex_resolved_store :: snapshot where
  "ex_resolved_store = state_of (local_create_run One_Run.ex_plain (ex_at 1) ex_resolved_run ex_resolved_job (new_snapshot (ex_at 0)))"

definition ex_locked_setting :: input_config where
  "ex_locked_setting = ex_setting\<lparr>ic_workspace := ''main'', ic_app := ''crawler''\<rparr>"

definition ex_settings :: snapshot where
  "ex_settings = (new_snapshot (ex_at 0))\<lparr>sn_input_configs := [(''main'', [(input_config_key ''crawler'' '''' '''', ex_locked_setting)])]\<rparr>"

definition resolved_facts :: "store_error + snapshot \<times> 'r \<Rightarrow> bool" where
  "resolved_facts x = (case x of Inl e \<Rightarrow> False
     | Inr (s, _) \<Rightarrow> mkeys (sn_jobs s) = [''job1''] \<and> mkeys (sn_runs s) = [''r1'']
         \<and> list_all (\<lambda>j. job_id j = ''job1'' \<and> job_run j = ''r1'' \<and> job_required_labels j = []
             \<and> jp_workspace (job_payload j) = ''main'' \<and> jp_app (job_payload j) = ''crawler'' \<and> jp_action (job_payload j) = ''fetch''
             \<and> jp_client (job_payload j) = '''' \<and> jp_input_resolved (job_payload j) \<and> jp_input (job_payload j) = ex_input
             \<and> job_workspace j = ''main'' \<and> job_canceled_by j = None \<and> job_state j = JobQueued)
             (mvals (sn_jobs s))
         \<and> list_all (\<lambda>r. run_id r = ''r1'' \<and> run_state r = RunQueued \<and> raw_empty (run_output r)) (mvals (sn_runs s)))"

lemma ex_resolved_facts:
  "resolved_facts (local_create_run One_Run.ex_plain (ex_at 1) ex_resolved_run ex_resolved_job (new_snapshot (ex_at 0)))"
  by code_simp

lemma ex_resolved_create:
  "local_create_run One_Run.ex_plain (ex_at 1) ex_resolved_run ex_resolved_job (new_snapshot (ex_at 0)) = Inr (ex_resolved_store, ())"
  using ex_resolved_facts by (auto simp: resolved_facts_def ex_resolved_store_def state_of_def split: sum.splits)

lemma ex_resolved_reachable: "reachable store_start (store_step One_Run.ex_plain) ex_resolved_store"
proof -
  have "fresh_pair ex_resolved_run ex_resolved_job"
    by (simp add: ex_resolved_job_def ex_resolved_run_def ex_run_def fresh_pair_def new_run_def new_action_job_def
        queued_clean_def Let_def ex_at_def)
  with ex_resolved_create have "store_step One_Run.ex_plain (new_snapshot (ex_at 0)) ex_resolved_store" by (rule step_create)
  moreover have "reachable store_start (store_step One_Run.ex_plain) (new_snapshot (ex_at 0))"
    by (rule reachable_start) (auto simp: store_start_def)
  ultimately show ?thesis by (metis reachable_step)
qed

lemma ex_resolved_claim:
  "\<exists>j r t. local_claim_job One_Run.ex_plain (ex_at 2) ''w1'' [] [] (seconds 30) ex_resolved_store
      = Inr (t, (j, lease_of j 2 (seconds 30))) \<and> one_run j r t \<and> job_state j = JobRunning \<and> job_id j = ''job1''
    \<and> job_lease_expires_at j = Some (2 + seconds 30) \<and> jp_workspace (job_payload j) = ''main'' \<and> jp_app (job_payload j) = ''crawler''
    \<and> jp_action (job_payload j) = ''fetch'' \<and> jp_client (job_payload j) = '''' \<and> jp_input_resolved (job_payload j)
    \<and> jp_input (job_payload j) = ex_input \<and> job_workspace j = ''main''"
proof -
  have f: "resolved_facts (Inr (ex_resolved_store, ()))" using ex_resolved_facts by (simp add: ex_resolved_create)
  obtain q where q: "sn_jobs ex_resolved_store = [(''job1'', q)]" "job_id q = ''job1''" "job_run q = ''r1''"
    "job_required_labels q = []" "jp_workspace (job_payload q) = ''main''" "jp_app (job_payload q) = ''crawler''"
    "jp_action (job_payload q) = ''fetch''" "jp_client (job_payload q) = ''''" "jp_input_resolved (job_payload q)"
    "jp_input (job_payload q) = ex_input" "job_workspace q = ''main''" "job_canceled_by q = None" "job_state q = JobQueued"
    using f unfolding resolved_facts_def by (auto dest!: single_entry)
  moreover obtain r where "sn_runs ex_resolved_store = [(''r1'', r)]" "run_id r = ''r1''" "raw_empty (run_output r)"
    using f unfolding resolved_facts_def by (auto dest!: single_entry)
  ultimately have one: "one_run q r ex_resolved_store" by (auto simp: one_run_def)
  have "clock (ex_at 2) = 2" by (simp add: ex_at_def)
  with one_run_claim [OF one, of "''w1''" "seconds 30" "ex_at 2" One_Run.ex_plain] q
  obtain j r' t where c: "local_claim_job One_Run.ex_plain (ex_at 2) ''w1'' [] [] (seconds 30) ex_resolved_store
      = Inr (t, (j, lease_of j 2 (seconds 30)))" "one_run j r' t" "job_state j = JobRunning" "job_id j = ''job1''"
    "job_lease_expires_at j = Some (2 + seconds 30)" "job_payload j = job_payload q"
    by (fastforce simp: seconds_def)
  moreover have "job_workspace j = job_workspace q" using c(6) by (simp add: job_workspace_def)
  ultimately show ?thesis using q by (intro exI [of _ j] exI [of _ r'] exI [of _ t]) simp
qed

lemma ex_input_plain:
  "decrypt_input One_Run.ex_plain w ex_input = Inr ex_input"
  by (simp add: decrypt_input_def decrypt_input_at_rest_def decrypt_json_at_rest_def canonical_json_value_def
      One_Run.ex_plain_def ex_crypto_def ex_input_def is_enc_def object_map_def enc_marker_key_def Let_def)

lemma no_settings: "resolve_input C (new_snapshot (ex_at 0)) w app action '''' request = Inr request"
  by (subst resolve_input_eq [where ics = "[]"])
    (simp_all add: list_input_configs_for_app_def list_local_input_configs_def new_snapshot_clients mget_or_def mvals_def
      resolve_input_configs_def)

text \<open>What the worker of the examples asks for.\<close>

lemma ex_remote:
  assumes "we_claim W = ex_at 2"
  shows "pr_lease_ttl ex_processor = seconds 30" "processor_id (we_claim W) ex_processor = ''w1''"
    "trim_space (processor_id (we_claim W) ex_processor) \<noteq> ''''" "pr_tags ex_processor = []" "pr_labels ex_processor = []"
    "0 < pr_lease_ttl ex_processor" "pr_lease_ttl ex_processor \<le> seconds (15 * 60)" "1000000 dvd pr_lease_ttl ex_processor"
proof -
  show "processor_id (we_claim W) ex_processor = ''w1''" by (simp add: ex_processor_def processor_id_def)
  then show "trim_space (processor_id (we_claim W) ex_processor) \<noteq> ''''" by (simp only:) code_simp
qed (simp_all add: ex_processor_def seconds_def)

definition ex_sizes :: wire_sizes where
  "ex_sizes = \<lparr>wz_register = (\<lambda>_. 200), wz_claim = (\<lambda>_. 200), wz_heartbeat = (\<lambda>_. 200), wz_complete = (\<lambda>_. 500),
     wz_logs = (\<lambda>(w, chunk). 100 + length chunk)\<rparr>"

theorem remote_worker_agrees_witness:
  "\<exists>W tok v processed err. remote_process_one ex_sizes One_Run.ex_plain ex_handler (\<lambda>k m. m) (\<lambda>_. '''') ex_processor (\<lambda>_. (ex_result, None)) W
      (\<lambda>_. new_snapshot (ex_at 0)) id ex_resolved_store = (v, processed, map_option remote_of err)
    \<and> worker_process_one One_Run.ex_plain (ex_processor\<lparr>pr_job_token := (\<lambda>_. tok)\<rparr>) (\<lambda>_. (ex_result, None)) W
      (\<lambda>_. new_snapshot (ex_at 0)) id ex_resolved_store = (v, processed, err)"
proof -
  define W where "W = \<lparr>we_claim = ex_at 2, we_run = ex_at 2, we_report = ex_at 3\<rparr>"
  have W: "we_claim W = ex_at 2" by (simp add: W_def)
  obtain j t where c: "local_claim_job One_Run.ex_plain (ex_at 2) ''w1'' [] [] (seconds 30) ex_resolved_store
      = Inr (t, (j, lease_of j 2 (seconds 30)))" and j: "jp_workspace (job_payload j) = ''main''" "jp_client (job_payload j) = ''''"
    "jp_input_resolved (job_payload j)" "jp_input (job_payload j) = ex_input"
    using ex_resolved_claim by blast
  from c have claim: "local_claim_job One_Run.ex_plain (we_claim W) (processor_id (we_claim W) ex_processor) (pr_tags ex_processor)
      (pr_labels ex_processor) (pr_lease_ttl ex_processor) ex_resolved_store = Inr (t, (j, lease_of j 2 (seconds 30)))"
    by (simp add: ex_remote [OF W, unfolded W] W)
  have dec: "decrypt_input One_Run.ex_plain (job_workspace j) (jp_input (job_payload j)) = Inr ex_input"
    by (simp add: j ex_input_plain)
  have w: "jp_workspace (job_payload j) \<noteq> ''''" by (simp add: j(1))
  have eq: "remote_process_one ex_sizes One_Run.ex_plain ex_handler (\<lambda>k m. m) (\<lambda>_. '''') ex_processor (\<lambda>_. (ex_result, None)) W
      (\<lambda>_. new_snapshot (ex_at 0)) id ex_resolved_store =
    (case worker_process_one One_Run.ex_plain (ex_processor\<lparr>pr_job_token := (\<lambda>_. plane_job_token ex_handler (\<lambda>k m. m)
        (prims One_Run.ex_plain) (clock (we_run W)) j)\<rparr>) (\<lambda>_. (ex_result, None)) W (\<lambda>_. new_snapshot (ex_at 0)) id ex_resolved_store of
      (v, processed, err) \<Rightarrow> (v, processed, map_option remote_of err))"
    using remote_worker_agrees [OF claim w j(3) dec, of "\<lambda>_. new_snapshot (ex_at 0)" ex_sizes]
    using ex_remote(3,6-8) [OF W] by (simp add: Let_def j no_settings ex_sizes_def)
  show ?thesis
    by (cases "worker_process_one One_Run.ex_plain (ex_processor\<lparr>pr_job_token := (\<lambda>_. plane_job_token ex_handler (\<lambda>k m. m)
        (prims One_Run.ex_plain) (clock (we_run W)) j)\<rparr>) (\<lambda>_. (ex_result, None)) W (\<lambda>_. new_snapshot (ex_at 0)) id ex_resolved_store")
      (use eq in \<open>intro exI conjI; simp\<close>)
qed

theorem remote_lease_bounded_witness:
  "\<exists>t j tok. worker_plane_claim One_Run.ex_plain ex_handler (\<lambda>k m. m) (\<lambda>_. '''') \<lparr>we_claim = ex_at 2, we_run = ex_at 2, we_report = ex_at 3\<rparr>
      (Some \<lparr>clr_worker = ''w1'', clr_tags = [], clr_labels = [], clr_lease_ttl_ms = 0\<rparr>) (\<lambda>_. new_snapshot (ex_at 0)) id ex_resolved_store
      = (t, reply 200 (Claimed j (lease_of j 2 (seconds 30)) tok))
    \<and> 2 < 2 + seconds 30 \<and> 2 + seconds 30 \<le> 2 + seconds (15 * 60)"
proof -
  let ?W = "\<lparr>we_claim = ex_at 2, we_run = ex_at 2, we_report = ex_at 3\<rparr>"
  obtain j t where c: "local_claim_job One_Run.ex_plain (ex_at 2) ''w1'' [] [] (seconds 30) ex_resolved_store
      = Inr (t, (j, lease_of j 2 (seconds 30)))" and j: "jp_workspace (job_payload j) = ''main''" "jp_client (job_payload j) = ''''"
    "jp_input_resolved (job_payload j)" "jp_input (job_payload j) = ex_input"
    using ex_resolved_claim by blast
  have "clamp_lease_ttl 0 = seconds 30" "trim_space ''w1'' \<noteq> ''''" by code_simp+
  then have r: "worker_plane_claim One_Run.ex_plain ex_handler (\<lambda>k m. m) (\<lambda>_. '''') ?W
      (Some \<lparr>clr_worker = ''w1'', clr_tags = [], clr_labels = [], clr_lease_ttl_ms = 0\<rparr>) (\<lambda>_. new_snapshot (ex_at 0)) id ex_resolved_store
      = (t, reply 200 (Claimed (j\<lparr>job_payload := (job_payload j)\<lparr>jp_input := ex_input\<rparr>\<rparr>) (lease_of j 2 (seconds 30))
          (plane_job_token ex_handler (\<lambda>k m. m) (prims One_Run.ex_plain) 2 j)))"
    using c j by (simp add: worker_plane_claim_def prepared_input_def Let_def ex_input_plain no_settings and_then_def)
      (simp add: ex_at_def)
  from remote_lease_bounded [OF r]
  have "2 < 2 + seconds 30 \<and> 2 + seconds 30 \<le> 2 + seconds (15 * 60)" by (simp add: lease_of_def ex_at_def)
  moreover have "lease_of (j\<lparr>job_payload := (job_payload j)\<lparr>jp_input := ex_input\<rparr>\<rparr>) 2 (seconds 30) = lease_of j 2 (seconds 30)"
    by (simp add: lease_of_def)
  ultimately show ?thesis using r
    by (intro exI [of _ t] exI [of _ "j\<lparr>job_payload := (job_payload j)\<lparr>jp_input := ex_input\<rparr>\<rparr>"] exI conjI) simp_all
qed

text \<open>C27. Through the plane a run fails that a local worker executes: when the input of a claimed run was resolved under
settings that lock a key they set, the plane resolves it again, takes the locked value for the caller's and
reports the run failed; the worker is told that nothing is queued, and a local worker would hand the input to
the action. (The request for the claim fits the cap on bodies, else nothing is claimed.)\<close>

theorem remote_plane_fails_locked_run:
  assumes "reachable store_start (store_step C) s"
    and claim: "local_claim_job C (we_claim W) (processor_id (we_claim W) P) (pr_tags P) (pr_labels P) (pr_lease_ttl P) s = Inr (t, (j, l))"
    and w: "jp_workspace (job_payload j) \<noteq> ''''" and res: "jp_input_resolved (job_payload j)"
    and dec: "decrypt_input C (job_workspace j) (jp_input (job_payload j)) = Inr plain"
    and ttl: "0 < pr_lease_ttl P" "pr_lease_ttl P \<le> seconds (15 * 60)" "1000000 dvd pr_lease_ttl P"
    and name: "trim_space (processor_id (we_claim W) P) \<noteq> ''''"
    and was: "resolve_input C (mid t) (job_workspace j) (jp_app (job_payload j)) (jp_action (job_payload j))
      (jp_client (job_payload j)) request = Inr plain"
    and req: "raw_object (canonical_json_value request empty_object) = Some m"
    and ics: "list_input_configs_for_app C (mid t) (job_workspace j) (jp_app (job_payload j)) = Inr ics" "one_per_level ics"
    and ic: "ic \<in> set ics" "config_applies (jp_action (job_payload j)) (jp_client (job_payload j)) ic"
      "k \<in> set (ic_locked_keys ic)" "sets_key k ic \<noteq> None"
    and late: "(store_step C)\<^sup>*\<^sup>* t (late t)"
    and held: "leased_job_and_run (late t) l (clock (we_report W)) = Inr (j', r')" "job_canceled_by j' = None"
    and fits: "wz_claim Z \<lparr>clr_worker = processor_id (we_claim W) P, clr_tags = pr_tags P, clr_labels = pr_labels P,
        clr_lease_ttl_ms = milliseconds (pr_lease_ttl P)\<rparr> \<le> 10 * 2 ^ 20"
  shows "(\<exists>v. remote_process_one Z C H hmac err_text P run W mid late s = (v, False, None)
      \<and> map_option job_state (map_of (sn_jobs v) (lease_job l)) = Some JobFailed
      \<and> map_option run_state (map_of (sn_runs v) (job_run j')) = Some RunFailed)
    \<and> (\<exists>bound. prepare_input C P (mid t) j = Inr bound)"
proof -
  let ?p = "job_payload j"
  have ws: "job_workspace j = normalize_workspace (jp_workspace ?p)" using w by (simp add: job_workspace_def)
  obtain ks where ks: "resolve_input C (mid t) (job_workspace j) (jp_app ?p) (jp_action ?p) (jp_client ?p) plain = Inl (LockedKeys ks)"
    using resolved_input_refused_again [OF was req ics(1) ic(1,2,3,4) ics(2)] by blast
  with dec have prep: "prepared_input C (mid t) j = Inl (LockedKeys ks)"
    by (simp add: prepared_input_def Let_def ws and_then_def)
  have "store_inv t" by (rule store_step_inv [OF store.reachable_good [OF assms(1)] step_claim [OF claim]])
  with late have inv: "store_inv (late t)" by (induction rule: rtranclp_induct) (auto intro: store_step_inv)
  let ?rep = "ReportFailed (preparation_failed j (err_text (LockedKeys ks)))"
  have "output_ok (res_output (report_result ?rep))" by (simp add: preparation_failed_def output_ok_def)
  from send_report_settles [OF inv held this] have "\<exists>v. send_report C (we_report W) l ?rep (late t) = Inr (v, ())
      \<and> map_option job_state (map_of (sn_jobs v) (lease_job l)) = Some JobFailed
      \<and> map_option run_state (map_of (sn_runs v) (job_run j')) = Some RunFailed" by simp
  then obtain v where v: "local_complete_failed C (we_report W) l (preparation_failed j (err_text (LockedKeys ks))) (late t) = Inr (v, ())"
      "map_option job_state (map_of (sn_jobs v) (lease_job l)) = Some JobFailed"
      "map_option run_state (map_of (sn_runs v) (job_run j')) = Some RunFailed"
    unfolding send_report.simps by blast
  have "remote_process_one Z C H hmac err_text P run W mid late s = (v, False, None)"
    using claim name prep v(1) clamp_milliseconds [OF ttl] sent_fits [of "wz_claim Z", OF fits [folded worker_plane_max_body_def]]
    by (simp add: remote_process_one_def remote_claim_def worker_plane_claim_def)
  moreover have "\<exists>bound. prepare_input C P (mid t) j = Inr bound"
  proof -
    from was obtain ics' where "list_input_configs_for_app C (mid t) (job_workspace j) (jp_app ?p) = Inr ics'"
      "resolve_input_configs request (filter (config_applies (jp_action ?p) (jp_client ?p)) ics') = Inr plain"
      by (rule resolve_input_Inr)
    moreover have "filter (config_applies (jp_action ?p) (jp_client ?p)) ics \<noteq> []" using ic(1,2) by (auto simp: filter_empty_conv)
    ultimately have "\<exists>eff. plain = marshal_object eff"
      using ics(1) by (auto simp: resolve_input_configs_def Let_def and_then_eq_Inr case_prod_beta split: option.splits if_splits)
    then obtain kvs where "plain = RawDoc (JObj kvs)" by (auto simp: marshal_object_def)
    then have "\<exists>b. apply_bindings (pr_bindings P) (strip_reserved_runtime_input plain) = Some b" by (simp add: bindings_of_object)
    with res dec show ?thesis by (auto simp: prepare_input_def Let_def)
  qed
  ultimately show ?thesis using v(2,3) by blast
qed

lemma ex_locked_settings:
  "list_input_configs_for_app One_Run.ex_plain ex_settings ''main'' ''crawler'' = Inr [ex_locked_setting]"
  by code_simp

lemma ex_locked_resolved:
  "resolve_input One_Run.ex_plain ex_settings ''main'' ''crawler'' ''fetch'' '''' (RawDoc (JObj [(''n'', JNum ''1'')])) = Inr ex_input"
  by code_simp

theorem remote_plane_fails_locked_run_witness:
  "\<exists>W v. remote_process_one ex_sizes One_Run.ex_plain ex_handler (\<lambda>k m. m) (\<lambda>_. '''') ex_processor (\<lambda>_. (ex_result, None)) W
      (\<lambda>_. ex_settings) id ex_resolved_store = (v, False, None)
    \<and> map_option job_state (map_of (sn_jobs v) ''job1'') = Some JobFailed"
proof -
  define W where "W = \<lparr>we_claim = ex_at 2, we_run = ex_at 2, we_report = ex_at 3\<rparr>"
  have W: "we_claim W = ex_at 2" "we_report W = ex_at 3" by (simp_all add: W_def)
  obtain j r t where c: "local_claim_job One_Run.ex_plain (ex_at 2) ''w1'' [] [] (seconds 30) ex_resolved_store
      = Inr (t, (j, lease_of j 2 (seconds 30)))" and one: "one_run j r t" "job_state j = JobRunning" "job_id j = ''job1''"
    "job_lease_expires_at j = Some (2 + seconds 30)"
    and j: "jp_workspace (job_payload j) = ''main''" "jp_app (job_payload j) = ''crawler''" "jp_action (job_payload j) = ''fetch''"
    "jp_client (job_payload j) = ''''" "jp_input_resolved (job_payload j)" "jp_input (job_payload j) = ex_input" "job_workspace j = ''main''"
    using ex_resolved_claim by blast
  from c have claim: "local_claim_job One_Run.ex_plain (we_claim W) (processor_id (we_claim W) ex_processor) (pr_tags ex_processor)
      (pr_labels ex_processor) (pr_lease_ttl ex_processor) ex_resolved_store = Inr (t, (j, lease_of j 2 (seconds 30)))"
    by (simp add: ex_remote [OF W(1), unfolded W(1)] W)
  have "raw_object (canonical_json_value (RawDoc (JObj [(''n'', JNum ''1'')])) empty_object) = Some [(''n'', JNum ''1'')]"
    "one_per_level [ex_locked_setting]" "config_applies ''fetch'' '''' ex_locked_setting"
    "''region'' \<in> set (ic_locked_keys ex_locked_setting)" "sets_key ''region'' ex_locked_setting \<noteq> None"
    by (code_simp, simp_all add: one_per_level_def config_applies_def ex_locked_setting_def ex_setting_def find_input_config_def
        config_values_def sets_key_def ex_setting_values)
  moreover have "leased_job_and_run (id t) (lease_of j 2 (seconds 30)) (clock (we_report W)) = Inr (j, r)"
    using one_run_lookup [OF one(1)] one by (simp add: leased_job_and_run_def lease_of_def W ex_at_def seconds_def)
  moreover have "job_canceled_by j = None" using one(1) by (simp add: one_run_def)
  moreover have "lease_job (lease_of j 2 (seconds 30)) = ''job1''" by (simp add: lease_of_def one(3))
  ultimately show ?thesis
    using remote_plane_fails_locked_run [OF ex_resolved_reachable claim, of ex_input "\<lambda>_. ex_settings"
        "RawDoc (JObj [(''n'', JNum ''1'')])" "[(''n'', JNum ''1'')]" "[ex_locked_setting]" ex_locked_setting "''region''" id j r
        ex_sizes ex_handler "\<lambda>k m. m" "\<lambda>_. ''''" "\<lambda>_. (ex_result, None)"]
      ex_remote [OF W(1)] ex_input_plain ex_locked_settings ex_locked_resolved
    by (auto simp: j ex_sizes_def)
qed

end
