(* ===== verification/Git_Sources.thy ===== *)
theory Git_Sources
  imports Contract Go_Int
begin

text \<open>
  The registry of Git sources (\<^verbatim>\<open>internal/gitsource/file_registry.go\<close>). Every operation loads the file, changes
  the map and writes it; here an operation takes the content of the file and gives the content to write.
  Reading, renaming and decoding the file are not modelled.
\<close>

section \<open>Sources\<close>

record git_source =
  gs_workspace :: string
  gs_id :: string
  gs_name :: string
  gs_repo_url :: string
  gs_branch :: string
  gs_subpath :: string
  gs_token_env :: string
  gs_kind :: string
  gs_created_at :: "time option"
  gs_last_commit :: "string option"
  gs_last_at :: "time option"

record source_patch =
  gp_name :: "string option"
  gp_id :: "string option"
  gp_repo_url :: "string option"
  gp_branch :: "string option"
  gp_subpath :: "string option"
  gp_token_env :: "string option"

type_synonym registry = "(string, git_source) gomap"

datatype source_error = SourceNotFound | SourceConflict | NameRequired | RepoRequired | BadKind

section \<open>Identifiers\<close>

definition parse_positive_id :: "string \<Rightarrow> int option" where
  "parse_positive_id value = (case parse_int64 (trim_space value) of Some i \<Rightarrow> if 0 < i then Some i else None | None \<Rightarrow> None)"

definition is_positive_integer :: "string \<Rightarrow> bool" where
  "is_positive_integer value = (parse_positive_id value \<noteq> None)"

definition normalize_numeric_id :: "string \<Rightarrow> string" where
  "normalize_numeric_id value = (if is_positive_integer (trim_space value) then trim_space value else '''')"

definition source_key :: "string \<Rightarrow> string \<Rightarrow> string" where
  "source_key w i = normalize_workspace w @ ''/'' @ trim_space i"

definition next_source_id :: "registry \<Rightarrow> int" where
  "next_source_id reg =
    fold (\<lambda>s next. case parse_positive_id (gs_id s) of Some i \<Rightarrow> if next \<le> i then wrap64 (i + 1) else next | None \<Rightarrow> next)
      (mvals reg) 1"

definition normalize_source :: "git_source \<Rightarrow> source_error + git_source" where
  "normalize_source s0 =
    (let w = normalize_workspace (gs_workspace s0); raw_id = trim_space (gs_id s0); i = normalize_numeric_id raw_id;
         n = trim_space (gs_name s0);
         n = (if n = '''' \<and> i \<noteq> '''' then i else n);
         n = (if n = '''' then raw_id else n);
         branch = (if gs_branch s0 = '''' then ''main'' else gs_branch s0);
         kind = (if gs_kind s0 = '''' then ''external'' else gs_kind s0) in
     if n = '''' \<or> n = default_git_source then Inl NameRequired
     else if gs_repo_url s0 = '''' then Inl RepoRequired
     else if kind \<noteq> ''external'' \<and> kind \<noteq> ''managed'' then Inl BadKind
     else Inr (s0\<lparr>gs_workspace := w, gs_id := i, gs_name := n, gs_branch := branch, gs_kind := kind\<rparr>))"

section \<open>Loading\<close>

text \<open>
  The first loop prepares every source and collects the keys in use, the second names the sources without an
  identifier. The search for a free one counts in 64 bits; its fuel is one more than the keys in use.
\<close>

definition prepare_source :: "git_source \<Rightarrow> git_source" where
  "prepare_source s0 =
    (let n = trim_space (gs_name s0); i = trim_space (gs_id s0);
         (n, i) = (if n = '''' \<and> \<not> is_positive_integer i then (i, '''') else (n, i));
         n = (if n = '''' then i else n);
         i = (case parse_positive_id i of Some _ \<Rightarrow> i | None \<Rightarrow> '''') in
     s0\<lparr>gs_workspace := normalize_workspace (gs_workspace s0), gs_id := i, gs_name := n,
       gs_branch := (if gs_branch s0 = '''' then ''main'' else gs_branch s0),
       gs_kind := (if gs_kind s0 = '''' then ''external'' else gs_kind s0)\<rparr>)"

definition used_key :: "git_source \<Rightarrow> string list" where
  "used_key s = (if gs_id s = '''' then [] else [source_key (gs_workspace s) (gs_id s)])"

definition next_after :: "git_source list \<Rightarrow> int" where
  "next_after ss =
    fold (\<lambda>s next. case parse_positive_id (gs_id s) of Some i \<Rightarrow> if next \<le> i then wrap64 (i + 1) else next | None \<Rightarrow> next) ss 1"

fun free_id :: "nat \<Rightarrow> string list \<Rightarrow> string \<Rightarrow> int \<Rightarrow> (string \<times> int) option" where
  "free_id 0 used w next = None"
| "free_id (Suc n) used w next =
    (if source_key w (itoa next) \<in> set used then free_id n used w (wrap64 (next + 1))
     else Some (itoa next, wrap64 (next + 1)))"

fun assign_ids :: "git_source list \<Rightarrow> string list \<Rightarrow> int \<Rightarrow> registry \<Rightarrow> registry option" where
  "assign_ids [] used next reg = Some reg"
| "assign_ids (s # ss) used next reg =
    (if gs_id s \<noteq> '''' then assign_ids ss used next (mput (source_key (gs_workspace s) (gs_id s)) s reg)
     else case free_id (Suc (length used)) used (gs_workspace s) next of
       None \<Rightarrow> None
     | Some (i, next') \<Rightarrow>
         assign_ids ss (source_key (gs_workspace s) i # used) next' (mput (source_key (gs_workspace s) i) (s\<lparr>gs_id := i\<rparr>) reg))"

definition normalize_registry :: "registry \<Rightarrow> registry option" where
  "normalize_registry file =
    (let prepared = map prepare_source (mvals file) in
     assign_ids prepared (concat (map used_key prepared)) (next_after prepared) [])"

section \<open>Finding a source\<close>

definition find_source_by_name :: "registry \<Rightarrow> string \<Rightarrow> string \<Rightarrow> git_source option" where
  "find_source_by_name reg w n =
    find (\<lambda>s. normalize_workspace (gs_workspace s) = normalize_workspace w \<and> gs_name s = trim_space n) (mvals reg)"

definition has_source_name :: "registry \<Rightarrow> string \<Rightarrow> string \<Rightarrow> string \<Rightarrow> bool" where
  "has_source_name reg w n except \<longleftrightarrow>
    list_ex (\<lambda>(k, s). k \<noteq> except \<and> normalize_workspace (gs_workspace s) = normalize_workspace w \<and> gs_name s = trim_space n) reg"

definition resolve_source :: "registry \<Rightarrow> string \<Rightarrow> string \<Rightarrow> (string \<times> git_source) option" where
  "resolve_source reg w ref0 =
    (let ref = trim_space ref0 in
     if ref = '''' then None
     else if is_positive_integer ref then map_option (\<lambda>s. (source_key w ref, s)) (map_of reg (source_key w ref))
     else map_option (\<lambda>s. (source_key (gs_workspace s) (gs_id s), s)) (find_source_by_name reg w ref))"

section \<open>Operations\<close>

text \<open>On the loaded map.\<close>

definition create_source :: "time \<Rightarrow> git_source \<Rightarrow> registry \<Rightarrow> source_error + registry \<times> git_source" where
  "create_source now s0 reg = and_then (normalize_source s0) (\<lambda>s.
    if has_source_name reg (gs_workspace s) (gs_name s) '''' then Inl SourceConflict
    else
      (let s = (if gs_id s = '''' then s\<lparr>gs_id := itoa (next_source_id reg)\<rparr> else s); k = source_key (gs_workspace s) (gs_id s) in
       if map_of reg k \<noteq> None then Inl SourceConflict
       else
         (let s = (if gs_created_at s = None then s\<lparr>gs_created_at := Some now\<rparr> else s) in
          Inr (mput k s reg, s))))"

definition upsert_source :: "time \<Rightarrow> git_source \<Rightarrow> registry \<Rightarrow> source_error + registry" where
  "upsert_source now s0 reg = and_then (normalize_source s0) (\<lambda>s.
    let s = (if gs_id s = '''' then
               (case find_source_by_name reg (gs_workspace s) (gs_name s) of
                  Some x \<Rightarrow> s\<lparr>gs_id := gs_id x\<rparr>
                | None \<Rightarrow> s\<lparr>gs_id := itoa (next_source_id reg)\<rparr>)
             else s);
        k = source_key (gs_workspace s) (gs_id s);
        s = (case map_of reg k of
               None \<Rightarrow> s
             | Some x \<Rightarrow> s\<lparr>gs_created_at := (if gs_created_at s = None then gs_created_at x else gs_created_at s),
                 gs_last_commit := (if gs_last_commit s = None then gs_last_commit x else gs_last_commit s),
                 gs_last_at := (if gs_last_at s = None then gs_last_at x else gs_last_at s)\<rparr>);
        s = (if gs_created_at s = None then s\<lparr>gs_created_at := Some now\<rparr> else s) in
    Inr (mput k s reg))"

definition apply_source_patch :: "source_patch \<Rightarrow> git_source \<Rightarrow> git_source" where
  "apply_source_patch p s =
    (let or_old = (\<lambda>new old. case new of None \<Rightarrow> old | Some v \<Rightarrow> v);
         name = (case gp_name p of None \<Rightarrow> gp_id p | Some n \<Rightarrow> Some n) in
     s\<lparr>gs_name := or_old name (gs_name s), gs_repo_url := or_old (gp_repo_url p) (gs_repo_url s),
       gs_branch := or_old (gp_branch p) (gs_branch s), gs_subpath := or_old (gp_subpath p) (gs_subpath s),
       gs_token_env := or_old (gp_token_env p) (gs_token_env s)\<rparr>)"

definition same_location :: "git_source \<Rightarrow> git_source \<Rightarrow> bool" where
  "same_location s t \<longleftrightarrow> gs_repo_url s = gs_repo_url t \<and> gs_branch s = gs_branch t \<and> gs_subpath s = gs_subpath t"

definition patch_source :: "string \<Rightarrow> string \<Rightarrow> source_patch \<Rightarrow> registry \<Rightarrow> source_error + registry \<times> git_source" where
  "patch_source w0 i p reg =
    (let w = normalize_workspace w0 in
     case resolve_source reg w i of
       None \<Rightarrow> Inl SourceNotFound
     | Some (old_key, old) \<Rightarrow>
       and_then (normalize_source ((apply_source_patch p old)\<lparr>gs_workspace := w\<rparr>)) (\<lambda>s.
       let s = (if same_location s old then s else s\<lparr>gs_last_commit := None, gs_last_at := None\<rparr>) in
       if has_source_name reg (gs_workspace s) (gs_name s) old_key then Inl SourceConflict
       else
         (let new_key = source_key (gs_workspace s) (gs_id s) in
          if new_key \<noteq> old_key \<and> map_of reg new_key \<noteq> None then Inl SourceConflict
          else Inr (mput new_key s (if new_key \<noteq> old_key then mdel old_key reg else reg), s))))"

definition mark_synced :: "time \<Rightarrow> string \<Rightarrow> string \<Rightarrow> string \<Rightarrow> time \<Rightarrow> registry \<Rightarrow> source_error + registry \<times> git_source" where
  "mark_synced now w i commit synced_at reg =
    (case resolve_source reg (normalize_workspace w) i of
       None \<Rightarrow> Inl SourceNotFound
     | Some (k, s) \<Rightarrow>
       (let s = s\<lparr>gs_last_commit := Some commit, gs_last_at := Some (non_zero_time synced_at now)\<rparr> in
        Inr (mput k s reg, s)))"

definition delete_source :: "string \<Rightarrow> string \<Rightarrow> registry \<Rightarrow> registry \<times> bool" where
  "delete_source w i reg =
    (case resolve_source reg (normalize_workspace w) i of
       None \<Rightarrow> (reg, False)
     | Some (k, _) \<Rightarrow> (mdel k reg, True))"

definition get_source :: "string \<Rightarrow> string \<Rightarrow> registry \<Rightarrow> source_error + git_source" where
  "get_source w i reg =
    (case resolve_source reg (normalize_workspace w) i of None \<Rightarrow> Inl SourceNotFound | Some (_, s) \<Rightarrow> Inr s)"

section \<open>Applying a document of a bundle\<close>

text \<open>
  \<^verbatim>\<open>applyAppSource\<close> of \<^verbatim>\<open>internal/provisioning/provisioning.go\<close>, from where the document is decoded: the name, the
  repository and the reference to its credential. The result is what was done and the identifier it was done to.
\<close>

definition apply_app_source ::
    "time \<Rightarrow> string \<Rightarrow> bool \<Rightarrow> string \<Rightarrow> string \<Rightarrow> string \<Rightarrow> string \<Rightarrow> string \<Rightarrow> string \<Rightarrow> registry
      \<Rightarrow> source_error + registry \<times> string \<times> string" where
  "apply_app_source now w dry_run spec_name meta_name url branch0 subpath creds reg =
    (let name = first_non_empty [trim_space spec_name, trim_space meta_name];
         branch = first_non_empty [trim_space branch0, ''main''] in
     if name = '''' then Inl NameRequired
     else if trim_space url = '''' then Inl RepoRequired
     else if dry_run then Inr (reg, ''validated'', name)
     else case get_source w name reg of
       Inr existing \<Rightarrow>
         and_then (patch_source w (gs_id existing) \<lparr>gp_name = Some name, gp_id = None, gp_repo_url = Some (trim_space url),
             gp_branch = Some branch, gp_subpath = Some (trim_space subpath), gp_token_env = Some creds\<rparr> reg)
           (\<lambda>(t, s). Inr (t, ''updated'', gs_id s))
     | Inl SourceNotFound \<Rightarrow>
         and_then (create_source now \<lparr>gs_workspace = w, gs_id = '''', gs_name = name, gs_repo_url = trim_space url,
             gs_branch = branch, gs_subpath = trim_space subpath, gs_token_env = creds, gs_kind = ''external'',
             gs_created_at = None, gs_last_commit = None, gs_last_at = None\<rparr> reg)
           (\<lambda>(t, s). Inr (t, ''created'', gs_id s))
     | Inl err \<Rightarrow> Inl err)"

end
