(* ===== verification/Git_Source_Properties.thy ===== *)
theory Git_Source_Properties
  imports Git_Sources Transitions
begin

text \<open>
  The registry of Git sources: what holds of every registry its operations lead to, what a patch changes,
  that loading ends, and two ways a source is lost.
\<close>

section \<open>Well-formed registries\<close>

definition source_ok :: "git_source \<Rightarrow> bool" where
  "source_ok s \<longleftrightarrow> normalize_workspace (gs_workspace s) = gs_workspace s \<and> trim_space (gs_id s) = gs_id s
     \<and> is_positive_integer (gs_id s) \<and> trim_space (gs_name s) = gs_name s \<and> gs_name s \<noteq> '''' \<and> gs_branch s \<noteq> ''''
     \<and> (gs_kind s = ''external'' \<or> gs_kind s = ''managed'') \<and> gs_repo_url s \<noteq> ''''"

definition keyed :: "string \<Rightarrow> git_source \<Rightarrow> bool" where
  "keyed k s \<longleftrightarrow> k = source_key (gs_workspace s) (gs_id s)"

definition registry_ok :: "registry \<Rightarrow> bool" where
  "registry_ok reg \<longleftrightarrow> map_ok reg \<and> (\<forall>(k, s) \<in> set reg. keyed k s \<and> source_ok s)"

definition names_unique :: "registry \<Rightarrow> bool" where
  "names_unique reg \<longleftrightarrow> (\<forall>k s k' s'. map_of reg k = Some s \<longrightarrow> map_of reg k' = Some s' \<longrightarrow>
     gs_workspace s = gs_workspace s' \<longrightarrow> gs_name s = gs_name s' \<longrightarrow> k = k')"

lemma registry_okD:
  assumes "registry_ok reg" and "map_of reg k = Some s"
  shows "k = source_key (gs_workspace s) (gs_id s)" and "source_ok s"
  using assms map_of_SomeD [of reg k s] by (auto simp: registry_ok_def keyed_def)

lemma registry_ok_mput:
  "registry_ok reg \<Longrightarrow> source_ok s \<Longrightarrow> k = source_key (gs_workspace s) (gs_id s) \<Longrightarrow> registry_ok (mput k s reg)"
proof -
  assume ok: "registry_ok reg" and s: "source_ok s" "k = source_key (gs_workspace s) (gs_id s)"
  have m: "map_ok (mput k s reg)" using ok by (simp add: registry_ok_def map_ok_mput)
  have "keyed k' s' \<and> source_ok s'" if "(k', s') \<in> set (mput k s reg)" for k' s'
  proof -
    from that m have "map_of (mput k s reg) k' = Some s'" by (simp only: map_of_eq_Some_iff_mem)
    with s ok registry_okD [OF ok, of k' s'] show ?thesis by (auto simp: keyed_def split: if_splits)
  qed
  with m show ?thesis by (auto simp: registry_ok_def)
qed

lemma registry_ok_mdel: "registry_ok reg \<Longrightarrow> registry_ok (mdel k reg)"
  using map_ok_mdel [of reg k] by (auto simp: registry_ok_def mdel_def AList.delete_eq)

text \<open>The key of a source determines its workspace and its identifier.\<close>

lemma id_no_slash: "is_positive_integer i \<Longrightarrow> CHR ''/'' \<notin> set (trim_space i)"
proof -
  assume "is_positive_integer i"
  then obtain n where p: "parse_int64 (trim_space i) = Some n"
    by (auto simp: is_positive_integer_def parse_positive_id_def split: option.splits)
  then obtain c cs where s: "trim_space i = c # cs" by (cases "trim_space i") (simp_all add: parse_int64_def)
  with p have "(c = CHR ''-'' \<or> c = CHR ''+'' \<or> is_digit c) \<and> (\<forall>x \<in> set cs. is_digit x)"
    by (auto simp: parse_int64_def Let_def split: if_splits option.splits dest!: parse_digits_only)
  with s show ?thesis by (auto simp: is_digit_def)
qed

lemma split_last_unique:
  "xs @ c # ys = xs' @ c # ys' \<Longrightarrow> c \<notin> set ys \<Longrightarrow> c \<notin> set ys' \<Longrightarrow> xs = xs' \<and> ys = ys'"
  by (induction xs arbitrary: xs') (case_tac xs'; auto)+

lemma source_key_inj:
  assumes "source_key w i = source_key w' i'" and "is_positive_integer i" and "is_positive_integer i'"
  shows "normalize_workspace w = normalize_workspace w'" and "trim_space i = trim_space i'"
  using split_last_unique [of "normalize_workspace w" "CHR ''/''" "trim_space i" "normalize_workspace w'" "trim_space i'"] assms
    id_no_slash [OF assms(2)] id_no_slash [OF assms(3)]
  by (auto simp: source_key_def)

lemma normalize_source_parts:
  assumes "normalize_source s0 = Inr s"
  shows "\<exists>n b k. s = s0\<lparr>gs_workspace := normalize_workspace (gs_workspace s0), gs_id := normalize_numeric_id (gs_id s0),
      gs_name := n, gs_branch := b, gs_kind := k\<rparr> \<and> n \<noteq> '''' \<and> n \<noteq> default_git_source \<and> trim_space n = n \<and> b \<noteq> '''' \<and> (k = ''external'' \<or> k = ''managed'')
    \<and> gs_repo_url s0 \<noteq> '''' \<and> (trim_space (gs_name s0) \<noteq> '''' \<longrightarrow> n = trim_space (gs_name s0))
    \<and> (gs_branch s0 \<noteq> '''' \<longrightarrow> b = gs_branch s0)"
proof -
  define i where "i = normalize_numeric_id (gs_id s0)"
  define n1 where "n1 = (if trim_space (gs_name s0) = '''' \<and> i \<noteq> '''' then i else trim_space (gs_name s0))"
  define n where "n = (if n1 = '''' then trim_space (gs_id s0) else n1)"
  define b where "b = (if gs_branch s0 = '''' then ''main'' else gs_branch s0)"
  define k where "k = (if gs_kind s0 = '''' then ''external'' else gs_kind s0)"
  have i: "normalize_numeric_id (trim_space (gs_id s0)) = i" by (simp add: i_def normalize_numeric_id_def)
  have eq: "normalize_source s0 = (if n = '''' \<or> n = default_git_source then Inl NameRequired else if gs_repo_url s0 = '''' then Inl RepoRequired
      else if k \<noteq> ''external'' \<and> k \<noteq> ''managed'' then Inl BadKind
      else Inr (s0\<lparr>gs_workspace := normalize_workspace (gs_workspace s0), gs_id := i, gs_name := n, gs_branch := b, gs_kind := k\<rparr>))"
    unfolding normalize_source_def Let_def i n_def n1_def b_def k_def by (rule refl)
  have t: "trim_space i = i" by (simp add: i_def normalize_numeric_id_def)
  from assms have "s = s0\<lparr>gs_workspace := normalize_workspace (gs_workspace s0), gs_id := i, gs_name := n, gs_branch := b, gs_kind := k\<rparr>"
    "n \<noteq> ''''" "n \<noteq> default_git_source" "k = ''external'' \<or> k = ''managed''" "gs_repo_url s0 \<noteq> ''''"
    unfolding eq by (auto split: if_splits)
  moreover have "trim_space n = n" "b \<noteq> ''''" "gs_branch s0 \<noteq> '''' \<longrightarrow> b = gs_branch s0"
    "trim_space (gs_name s0) \<noteq> '''' \<longrightarrow> n = trim_space (gs_name s0)"
    using t by (simp_all add: n_def n1_def b_def k_def)
  ultimately show ?thesis unfolding i_def by blast
qed

lemma normalize_source_Inr:
  assumes "normalize_source s0 = Inr s"
  shows "normalize_workspace (gs_workspace s) = gs_workspace s" "gs_workspace s = normalize_workspace (gs_workspace s0)"
    "gs_id s = normalize_numeric_id (gs_id s0)" "gs_name s \<noteq> ''''" "trim_space (gs_name s) = gs_name s" "gs_branch s \<noteq> ''''"
    "gs_kind s = ''external'' \<or> gs_kind s = ''managed''" "gs_repo_url s \<noteq> ''''" "gs_repo_url s = gs_repo_url s0" "gs_subpath s = gs_subpath s0"
    "gs_token_env s = gs_token_env s0" "gs_created_at s = gs_created_at s0" "gs_last_commit s = gs_last_commit s0"
    "gs_last_at s = gs_last_at s0" "trim_space (gs_name s0) \<noteq> '''' \<longrightarrow> gs_name s = trim_space (gs_name s0)"
    "gs_branch s0 \<noteq> '''' \<longrightarrow> gs_branch s = gs_branch s0"
  using normalize_source_parts [OF assms] by (elim exE conjE, simp)+

lemma numeric_id_cases: "normalize_numeric_id i = '''' \<or> is_positive_integer (normalize_numeric_id i) \<and> trim_space (normalize_numeric_id i) = normalize_numeric_id i"
  by (auto simp: normalize_numeric_id_def)

section \<open>Fresh identifiers\<close>

definition room :: "registry \<Rightarrow> bool" where
  "room reg \<longleftrightarrow> (\<forall>s \<in> set (mvals reg). \<forall>i. parse_positive_id (gs_id s) = Some i \<longrightarrow> i < max_int64)"

lemma next_fold:
  assumes "\<forall>s \<in> set ss. \<forall>i. parse_positive_id (gs_id s) = Some i \<longrightarrow> i < max_int64" and "1 \<le> n" and "n \<le> max_int64"
  shows "n \<le> fold (\<lambda>s next. case parse_positive_id (gs_id s) of Some i \<Rightarrow> if next \<le> i then wrap64 (i + 1) else next | None \<Rightarrow> next) ss n
    \<and> fold (\<lambda>s next. case parse_positive_id (gs_id s) of Some i \<Rightarrow> if next \<le> i then wrap64 (i + 1) else next | None \<Rightarrow> next) ss n \<le> max_int64
    \<and> (\<forall>s \<in> set ss. \<forall>i. parse_positive_id (gs_id s) = Some i \<longrightarrow>
        i < fold (\<lambda>s next. case parse_positive_id (gs_id s) of Some i \<Rightarrow> if next \<le> i then wrap64 (i + 1) else next | None \<Rightarrow> next) ss n)"
  using assms
proof (induction ss arbitrary: n)
  case (Cons s ss)
  show ?case
  proof (cases "parse_positive_id (gs_id s)")
    case None
    with Cons.IH [of n] Cons.prems show ?thesis by auto
  next
    case (Some i)
    define n' where "n' = (if n \<le> i then wrap64 (i + 1) else n)"
    have i: "0 < i" "i < max_int64" using Some Cons.prems(1) by (auto simp: parse_positive_id_def split: option.splits if_splits)
    then have "wrap64 (i + 1) = i + 1" by (intro wrap64_id) (auto simp: max_int64_def)
    with i Cons.prems have n': "1 \<le> n'" "n' \<le> max_int64" "n \<le> n'" "i < n'" by (auto simp: n'_def)
    have "\<forall>s \<in> set ss. \<forall>i. parse_positive_id (gs_id s) = Some i \<longrightarrow> i < max_int64" using Cons.prems(1) by simp
    note IH = Cons.IH [OF this n'(1,2)]
    show ?thesis using IH n' Some unfolding fold_simps(2) list.set by (force simp: n'_def)
  qed
qed auto

lemma next_source_id_fresh:
  assumes "room reg"
  shows "1 \<le> next_source_id reg" "next_source_id reg \<le> max_int64"
    "\<forall>s \<in> set (mvals reg). \<forall>i. parse_positive_id (gs_id s) = Some i \<longrightarrow> i < next_source_id reg"
  using next_fold [of "mvals reg" 1] assms by (simp_all add: room_def next_source_id_def max_int64_def)

lemma itoa_positive:
  assumes "1 \<le> i" and "i \<le> max_int64"
  shows "parse_positive_id (itoa i) = Some i" "is_positive_integer (itoa i)"
  using assms parse_itoa [of i] by (simp_all add: parse_positive_id_def itoa_trimmed is_positive_integer_def max_int64_def)

lemma fresh_key:
  assumes "registry_ok reg" and "room reg" and "map_of reg (source_key w (itoa (next_source_id reg))) = Some s"
  shows False
proof -
  from registry_okD [OF assms(1,3)] have s: "source_key w (itoa (next_source_id reg)) = source_key (gs_workspace s) (gs_id s)"
    "source_ok s" .
  have "s \<in> set (mvals reg)" using map_of_SomeD [OF assms(3)] by (force simp: mvals_def)
  note fresh = next_source_id_fresh [OF assms(2)]
  have "trim_space (itoa (next_source_id reg)) = trim_space (gs_id s)"
    using source_key_inj(2) [OF s(1)] itoa_positive(2) [OF fresh(1,2)] s(2) by (simp add: source_ok_def)
  then have "gs_id s = itoa (next_source_id reg)" using s(2) by (simp add: itoa_trimmed source_ok_def)
  then have "parse_positive_id (gs_id s) = Some (next_source_id reg)" using itoa_positive(1) [OF fresh(1,2)] by simp
  with fresh(3) \<open>s \<in> set (mvals reg)\<close> show False by blast
qed

section \<open>Finding\<close>

lemma registry_entry: "registry_ok reg \<Longrightarrow> (k, s) \<in> set reg \<longleftrightarrow> map_of reg k = Some s"
  by (simp add: registry_ok_def map_of_eq_Some_iff_mem)

lemma has_name_iff:
  assumes "registry_ok reg"
  shows "has_source_name reg w n ex \<longleftrightarrow> (\<exists>k s. map_of reg k = Some s \<and> k \<noteq> ex \<and> gs_workspace s = normalize_workspace w
    \<and> gs_name s = trim_space n)"
proof -
  have w: "normalize_workspace (gs_workspace s) = gs_workspace s" if "map_of reg k = Some s" for k s
    using registry_okD(2) [OF assms that] by (simp add: source_ok_def)
  have "has_source_name reg w n ex \<longleftrightarrow> (\<exists>k s. map_of reg k = Some s \<and> k \<noteq> ex
      \<and> normalize_workspace (gs_workspace s) = normalize_workspace w \<and> gs_name s = trim_space n)"
    unfolding has_source_name_def list_ex_iff Bex_def split_paired_Ex registry_entry [OF assms] by simp
  then show ?thesis using w by (metis (no_types, lifting))
qed

lemma find_name_Some:
  assumes "registry_ok reg" and "find_source_by_name reg w n = Some s"
  shows "map_of reg (source_key (gs_workspace s) (gs_id s)) = Some s" and "gs_workspace s = normalize_workspace w"
    and "gs_name s = trim_space n"
proof -
  from assms(2) have s: "s \<in> set (mvals reg)" "normalize_workspace (gs_workspace s) = normalize_workspace w" "gs_name s = trim_space n"
    by (auto simp: find_source_by_name_def find_Some_iff)
  then obtain k where "map_of reg k = Some s" using assms(1) by (auto simp: mvals_mem registry_ok_def)
  with registry_okD [OF assms(1) this] s
  show "map_of reg (source_key (gs_workspace s) (gs_id s)) = Some s" "gs_workspace s = normalize_workspace w" "gs_name s = trim_space n"
    by (auto simp: source_ok_def)
qed

lemma find_name_None:
  assumes "registry_ok reg" and "find_source_by_name reg w n = None" and "map_of reg k = Some s"
  shows "gs_workspace s \<noteq> normalize_workspace w \<or> gs_name s \<noteq> trim_space n"
proof -
  have "s \<in> set (mvals reg)" using map_of_SomeD [OF assms(3)] by (force simp: mvals_def)
  with assms(2) registry_okD(2) [OF assms(1,3)] show ?thesis
    by (auto simp: find_source_by_name_def find_None_iff source_ok_def)
qed

lemma resolve_Some:
  assumes "registry_ok reg" and "resolve_source reg w i = Some (k, s)"
  shows "map_of reg k = Some s" and "k = source_key (gs_workspace s) (gs_id s)" and "source_ok s"
    and "gs_workspace s = normalize_workspace w"
proof -
  show m: "map_of reg k = Some s"
    using assms find_name_Some [OF assms(1)] by (auto simp: resolve_source_def Let_def split: if_splits)
  from registry_okD [OF assms(1) m] show k: "k = source_key (gs_workspace s) (gs_id s)" and ok: "source_ok s" .
  show "gs_workspace s = normalize_workspace w"
  proof (cases "is_positive_integer (trim_space i)")
    case True
    with assms(2) have "k = source_key w (trim_space i)" by (auto simp: resolve_source_def Let_def split: if_splits)
    with k have "source_key (gs_workspace s) (gs_id s) = source_key w (trim_space i)" by simp
    from source_key_inj(1) [OF this] ok True show ?thesis by (simp add: source_ok_def)
  next
    case False
    with assms find_name_Some(2) [OF assms(1)] show ?thesis by (auto simp: resolve_source_def Let_def split: if_splits)
  qed
qed

section \<open>Every operation keeps the registry well-formed\<close>

definition consistent :: "registry \<Rightarrow> bool" where
  "consistent reg \<longleftrightarrow> registry_ok reg \<and> names_unique reg"

lemma consistent_mput:
  assumes "consistent reg" and "source_ok s" and "k = source_key (gs_workspace s) (gs_id s)"
    and "\<And>k' s'. map_of reg k' = Some s' \<Longrightarrow> k' \<noteq> k \<Longrightarrow> gs_workspace s' = gs_workspace s \<Longrightarrow> gs_name s' = gs_name s \<Longrightarrow> False"
  shows "consistent (mput k s reg)"
proof -
  have "registry_ok (mput k s reg)" using assms by (simp add: consistent_def registry_ok_mput)
  moreover have "names_unique (mput k s reg)"
    unfolding names_unique_def map_of_mput
  proof (intro allI impI)
    fix k1 s1 k2 s2
    assume "((map_of reg)(k \<mapsto> s)) k1 = Some s1" "((map_of reg)(k \<mapsto> s)) k2 = Some s2"
      and same: "gs_workspace s1 = gs_workspace s2" "gs_name s1 = gs_name s2"
    then have "k1 = k \<and> s1 = s \<or> k1 \<noteq> k \<and> map_of reg k1 = Some s1" "k2 = k \<and> s2 = s \<or> k2 \<noteq> k \<and> map_of reg k2 = Some s2"
      by (auto split: if_splits)
    with same assms(1,4) show "k1 = k2" unfolding consistent_def names_unique_def by metis
  qed
  ultimately show ?thesis by (simp add: consistent_def)
qed

lemma consistent_mdel: "consistent reg \<Longrightarrow> consistent (mdel k reg)"
  by (auto simp: consistent_def registry_ok_mdel names_unique_def split: if_splits)

lemma create_consistent:
  assumes "consistent reg" and "room reg" and "create_source now s0 reg = Inr (t, s)"
  shows "consistent t" and "source_ok s" and "map_of reg (source_key (gs_workspace s) (gs_id s)) = None"
    and "t = mput (source_key (gs_workspace s) (gs_id s)) s reg"
proof -
  have ok: "registry_ok reg" using assms(1) by (simp add: consistent_def)
  obtain s1 where n: "normalize_source s0 = Inr s1" using assms(3) by (auto simp: create_source_def and_then_eq_Inr)
  define s2 where "s2 = (if gs_id s1 = '''' then s1\<lparr>gs_id := itoa (next_source_id reg)\<rparr> else s1)"
  define s3 where "s3 = (if gs_created_at s2 = None then s2\<lparr>gs_created_at := Some now\<rparr> else s2)"
  have s3: "gs_workspace s3 = gs_workspace s1" "gs_name s3 = gs_name s1" "gs_branch s3 = gs_branch s1" "gs_kind s3 = gs_kind s1"
      "gs_repo_url s3 = gs_repo_url s1" "gs_id s3 = (if gs_id s1 = '''' then itoa (next_source_id reg) else gs_id s1)"
      "gs_workspace s2 = gs_workspace s3" "gs_id s2 = gs_id s3"
    by (simp_all add: s3_def s2_def)
  have eq: "create_source now s0 reg = (if has_source_name reg (gs_workspace s1) (gs_name s1) '''' then Inl SourceConflict
      else if map_of reg (source_key (gs_workspace s2) (gs_id s2)) \<noteq> None then Inl SourceConflict
      else Inr (mput (source_key (gs_workspace s2) (gs_id s2)) s3 reg, s3))"
    by (simp add: create_source_def n Let_def s2_def s3_def)
  from assms(3) have "s = s3" and free: "\<not> has_source_name reg (gs_workspace s1) (gs_name s1) ''''"
    and m: "map_of reg (source_key (gs_workspace s) (gs_id s)) = None" and t: "t = mput (source_key (gs_workspace s) (gs_id s)) s reg"
    unfolding eq s3(7,8) by (auto split: if_splits)
  note s = s3(1-6) [folded \<open>s = s3\<close>]
  note N = normalize_source_Inr [OF n]
  show "source_ok s"
    using N s numeric_id_cases [of "gs_id s0"] itoa_positive(2) next_source_id_fresh(1,2) [OF assms(2)]
    by (auto simp: source_ok_def itoa_trimmed)
  then show "consistent t" unfolding t
  proof (rule consistent_mput [OF assms(1) _ refl])
    fix k' s' assume k': "map_of reg k' = Some s'" "gs_workspace s' = gs_workspace s" "gs_name s' = gs_name s"
    have "k' \<noteq> ''''" using registry_okD(1) [OF ok k'(1)] by (simp add: source_key_def)
    with free k' show False unfolding has_name_iff [OF ok] s(1,2) N(1,5) by blast
  qed
  from m t show "map_of reg (source_key (gs_workspace s) (gs_id s)) = None" "t = mput (source_key (gs_workspace s) (gs_id s)) s reg" .
qed

lemma upsert_consistent:
  assumes "consistent reg" and "room reg" and "normalize_numeric_id (gs_id s0) = ''''" and "upsert_source now s0 reg = Inr t"
  shows "consistent t"
proof -
  have ok: "registry_ok reg" using assms(1) by (simp add: consistent_def)
  obtain s1 where n: "normalize_source s0 = Inr s1" using assms(4) by (auto simp: upsert_source_def and_then_eq_Inr)
  note N = normalize_source_Inr [OF n]
  define i where "i = (case find_source_by_name reg (gs_workspace s1) (gs_name s1) of Some x \<Rightarrow> gs_id x | None \<Rightarrow> itoa (next_source_id reg))"
  let ?k = "source_key (gs_workspace s1) i"
  have "\<exists>s. t = mput ?k s reg \<and> gs_workspace s = gs_workspace s1 \<and> gs_name s = gs_name s1 \<and> gs_id s = i \<and> gs_branch s = gs_branch s1
      \<and> gs_kind s = gs_kind s1 \<and> gs_repo_url s = gs_repo_url s1"
  proof -
    have "gs_id s1 = ''''" using N(3) assms(3) by simp
    with assms(4) n show ?thesis
      by (cases "find_source_by_name reg (gs_workspace s1) (gs_name s1)"; cases "map_of reg ?k")
        (auto simp: upsert_source_def Let_def i_def)
  qed
  then obtain s where t: "t = mput ?k s reg" and s: "gs_workspace s = gs_workspace s1" "gs_name s = gs_name s1" "gs_id s = i"
    "gs_branch s = gs_branch s1" "gs_kind s = gs_kind s1" "gs_repo_url s = gs_repo_url s1" by blast
  have i: "is_positive_integer i \<and> trim_space i = i"
  proof (cases "find_source_by_name reg (gs_workspace s1) (gs_name s1)")
    case None
    then show ?thesis using itoa_positive(2) [OF next_source_id_fresh(1,2) [OF assms(2)]] by (simp add: i_def itoa_trimmed)
  next
    case (Some x)
    from registry_okD(2) [OF ok find_name_Some(1) [OF ok Some]] Some show ?thesis by (simp add: i_def source_ok_def)
  qed
  show ?thesis unfolding t
  proof (rule consistent_mput [OF assms(1)])
    show "source_ok s" using N s i by (simp add: source_ok_def)
    show "?k = source_key (gs_workspace s) (gs_id s)" using s by simp
    fix k' s' assume k': "map_of reg k' = Some s'" "k' \<noteq> ?k" "gs_workspace s' = gs_workspace s" "gs_name s' = gs_name s"
    show False
    proof (cases "find_source_by_name reg (gs_workspace s1) (gs_name s1)")
      case None
      from find_name_None [OF ok None k'(1)] k' s N show False by simp
    next
      case (Some x)
      note x = find_name_Some [OF ok Some]
      have "gs_workspace s' = gs_workspace x" "gs_name s' = gs_name x" "?k = source_key (gs_workspace x) (gs_id x)"
        using x k' s N Some by (simp_all add: i_def)
      with k' x(1) assms(1) show False unfolding consistent_def names_unique_def by metis
    qed
  qed
qed

lemma patched_fields:
  "gs_id (apply_source_patch p s) = gs_id s" "gs_created_at (apply_source_patch p s) = gs_created_at s"
  "gs_last_commit (apply_source_patch p s) = gs_last_commit s" "gs_last_at (apply_source_patch p s) = gs_last_at s"
  by (simp_all add: apply_source_patch_def Let_def)

text \<open>What a patch that succeeds makes of the registry.\<close>

lemma patch_Inr:
  assumes "consistent reg" and "patch_source w i p reg = Inr (t, s)"
  obtains k old s1 where "resolve_source reg (normalize_workspace w) i = Some (k, old)"
    and "normalize_source ((apply_source_patch p old)\<lparr>gs_workspace := normalize_workspace w\<rparr>) = Inr s1"
    and "s = (if same_location s1 old then s1 else s1\<lparr>gs_last_commit := None, gs_last_at := None\<rparr>)"
    and "\<not> has_source_name reg (gs_workspace s) (gs_name s) k" and "t = mput k s reg"
    and "gs_workspace s = gs_workspace old" and "gs_id s = gs_id old" and "source_ok s" and "source_ok old"
    and "k = source_key (gs_workspace old) (gs_id old)" and "map_of reg k = Some old"
proof -
  have ok: "registry_ok reg" using assms(1) by (simp add: consistent_def)
  obtain k old where r: "resolve_source reg (normalize_workspace w) i = Some (k, old)"
    using assms(2) by (auto simp: patch_source_def Let_def split: option.splits)
  obtain s1 where n: "normalize_source ((apply_source_patch p old)\<lparr>gs_workspace := normalize_workspace w\<rparr>) = Inr s1"
    using assms(2) r by (auto simp: patch_source_def Let_def and_then_eq_Inr)
  note R = resolve_Some [OF ok r] and N = normalize_source_Inr [OF n]
  define s2 where "s2 = (if same_location s1 old then s1 else s1\<lparr>gs_last_commit := None, gs_last_at := None\<rparr>)"
  have id: "gs_id s1 = gs_id old" "gs_workspace s1 = gs_workspace old"
    using N(2,3) R(3,4) by (auto simp: patched_fields normalize_numeric_id_def source_ok_def)
  then have id2: "gs_id s2 = gs_id old" "gs_workspace s2 = gs_workspace old" by (simp_all add: s2_def)
  have "patch_source w i p reg = (if has_source_name reg (gs_workspace s2) (gs_name s2) k then Inl SourceConflict
      else Inr (mput k s2 reg, s2))"
    using r n R(2) id2 by (simp add: patch_source_def Let_def s2_def)
  with assms(2) have f: "s = s2" "\<not> has_source_name reg (gs_workspace s) (gs_name s) k" "t = mput k s reg" by (auto split: if_splits)
  have "source_ok s" using N id R(3) f(1) by (auto simp: s2_def source_ok_def)
  with that r n f id2 R show thesis unfolding s2_def by simp
qed

lemma patch_consistent:
  assumes "consistent reg" and "patch_source w i p reg = Inr (t, s)"
  shows "consistent t"
proof -
  have ok: "registry_ok reg" using assms(1) by (simp add: consistent_def)
  from assms show ?thesis
  proof (rule patch_Inr)
    fix k old
    assume t: "t = mput k s reg" and s: "source_ok s" "gs_workspace s = gs_workspace old" "gs_id s = gs_id old"
      and free: "\<not> has_source_name reg (gs_workspace s) (gs_name s) k" and k: "k = source_key (gs_workspace old) (gs_id old)"
    show "consistent t" unfolding t
      by (rule consistent_mput [OF assms(1) s(1)])
        (use s k free in \<open>auto simp: has_name_iff [OF ok] source_ok_def\<close>)
  qed
qed

lemma mark_consistent:
  assumes "consistent reg" and "mark_synced now w i commit at reg = Inr (t, s)"
  shows "consistent t"
proof -
  have ok: "registry_ok reg" and un: "names_unique reg" using assms(1) by (simp_all add: consistent_def)
  obtain k old where r: "resolve_source reg (normalize_workspace w) i = Some (k, old)"
    and t: "t = mput k s reg" "s = old\<lparr>gs_last_commit := Some commit, gs_last_at := Some (non_zero_time at now)\<rparr>"
    using assms(2) by (auto simp: mark_synced_def Let_def split: option.splits)
  note R = resolve_Some [OF ok r]
  show ?thesis unfolding t(1)
  proof (rule consistent_mput [OF assms(1)])
    show "source_ok s" using R(3) by (simp add: t(2) source_ok_def)
    show "k = source_key (gs_workspace s) (gs_id s)" using R(2) by (simp add: t(2))
    fix k' s' assume "map_of reg k' = Some s'" "k' \<noteq> k" "gs_workspace s' = gs_workspace s" "gs_name s' = gs_name s"
    then have "gs_workspace s' = gs_workspace old" "gs_name s' = gs_name old" by (simp_all add: t(2))
    with un R(1) \<open>map_of reg k' = Some s'\<close> \<open>k' \<noteq> k\<close> show False unfolding names_unique_def by metis
  qed
qed

lemma delete_consistent: "consistent reg \<Longrightarrow> consistent (fst (delete_source w i reg))"
  by (auto simp: delete_source_def consistent_mdel split: option.splits)

section \<open>Loading what was written\<close>

lemma prepare_ok: "source_ok s \<Longrightarrow> prepare_source s = s"
proof -
  assume ok: "source_ok s"
  then obtain n where "parse_positive_id (gs_id s) = Some n" by (auto simp: source_ok_def is_positive_integer_def)
  moreover have "gs_kind s \<noteq> ''''" using ok by (auto simp: source_ok_def)
  ultimately show ?thesis using ok by (simp add: prepare_source_def Let_def source_ok_def)
qed

lemma mput_new: "k \<notin> fst ` set m \<Longrightarrow> mput k v m = m @ [(k, v)]"
  unfolding mput_def by (induction m) auto

lemma source_ok_id: "source_ok s \<Longrightarrow> gs_id s \<noteq> ''''"
  by (auto simp: source_ok_def is_positive_integer_def parse_positive_id_def parse_int64_def)

lemma assign_ok:
  assumes "distinct (map fst (acc @ reg))" and "\<forall>(k, s) \<in> set reg. keyed k s \<and> source_ok s"
  shows "assign_ids (mvals reg) used next acc = Some (acc @ reg)"
  using assms
proof (induction reg arbitrary: acc)
  case (Cons e reg)
  obtain k s where e: "e = (k, s)" by (cases e)
  with Cons.prems have k: "source_key (gs_workspace s) (gs_id s) = k" "gs_id s \<noteq> ''''" "k \<notin> fst ` set acc"
    by (auto simp: keyed_def source_ok_id)
  have "distinct (map fst ((acc @ [(k, s)]) @ reg))" using Cons.prems(1) e by simp
  with Cons.IH [of "acc @ [(k, s)]"] Cons.prems(2) e k show ?case by (simp add: mvals_def mput_new)
qed (simp add: mvals_def)

lemma load_consistent: "registry_ok reg \<Longrightarrow> normalize_registry reg = Some reg"
proof -
  assume ok: "registry_ok reg"
  then have "map prepare_source (mvals reg) = mvals reg"
    by (auto simp: registry_ok_def mvals_def prepare_ok intro!: map_idI)
  then show ?thesis
    using assign_ok [of "[]" reg] ok by (simp add: normalize_registry_def registry_ok_def map_ok_def mkeys_def)
qed

section \<open>The registry as a machine\<close>

text \<open>
  A step loads the file, runs an operation and writes what it leaves. A source comes without an identifier of
  its own, as in every call of the program, and the identifiers in use are below the largest.
\<close>

inductive source_step :: "registry \<Rightarrow> registry \<Rightarrow> bool" where
  source_create: "normalize_registry stored = Some reg \<Longrightarrow> room reg \<Longrightarrow> create_source now s0 reg = Inr (t, s) \<Longrightarrow> source_step stored t"
| source_upsert: "normalize_registry stored = Some reg \<Longrightarrow> room reg \<Longrightarrow> normalize_numeric_id (gs_id s0) = '''' \<Longrightarrow>
    upsert_source now s0 reg = Inr t \<Longrightarrow> source_step stored t"
| source_patch: "normalize_registry stored = Some reg \<Longrightarrow> patch_source w i p reg = Inr (t, s) \<Longrightarrow> source_step stored t"
| source_mark: "normalize_registry stored = Some reg \<Longrightarrow> mark_synced now w i commit at reg = Inr (t, s) \<Longrightarrow> source_step stored t"
| source_delete: "normalize_registry stored = Some reg \<Longrightarrow> source_step stored (fst (delete_source w i reg))"

lemma source_step_consistent:
  assumes c: "consistent f" and "source_step f t"
  shows "consistent t"
proof -
  have load: "reg = f" if "normalize_registry f = Some reg" for reg
    using load_consistent [of f] c that by (simp add: consistent_def)
  from assms(2) show ?thesis
  proof (cases rule: source_step.cases)
    case (source_create reg now s0 s)
    with load [OF source_create(1)] c create_consistent(1) show ?thesis by blast
  next
    case (source_upsert reg s0 now)
    with load [OF source_upsert(1)] c upsert_consistent show ?thesis by blast
  next
    case (source_patch reg w i p s)
    with load [OF source_patch(1)] c patch_consistent show ?thesis by blast
  next
    case (source_mark reg now w i commit at s)
    with load [OF source_mark(1)] c mark_consistent show ?thesis by blast
  next
    case (source_delete reg w i)
    with load [OF source_delete(2)] c delete_consistent show ?thesis by simp
  qed
qed

interpretation sources: inductive_invariant "\<lambda>stored. stored = []" source_step consistent
proof
  show "\<And>s. s = [] \<Longrightarrow> consistent s" by (simp add: consistent_def registry_ok_def names_unique_def)
qed (rule source_step_consistent)

text \<open>C31. In every registry the operations lead to, each source is stored under its workspace and identifier, the
identifiers are positive integers, a workspace has no two sources of one name, and loading the file that was
written gives what was written.\<close>

theorem sources_consistent:
  assumes "reachable (\<lambda>stored. stored = []) source_step reg"
  shows "registry_ok reg \<and> names_unique reg \<and> normalize_registry reg = Some reg"
  using sources.reachable_good [OF assms] load_consistent by (simp add: consistent_def)

section \<open>What the operations do\<close>

text \<open>Patching a source. The source keeps its workspace, its identifier and its creation time, no other source
changes, and what is recorded of its last synchronisation stays exactly when the repository, the branch and the
path in it stay; a name another source of the workspace has is a conflict.\<close>

theorem patch_outcome:
  assumes "reachable (\<lambda>stored. stored = []) source_step reg"
    and "resolve_source reg (normalize_workspace w) i = Some (k, old)"
    and "normalize_source ((apply_source_patch p old)\<lparr>gs_workspace := normalize_workspace w\<rparr>) = Inr new"
  shows "if \<exists>k' s'. map_of reg k' = Some s' \<and> k' \<noteq> k \<and> gs_workspace s' = normalize_workspace w \<and> gs_name s' = gs_name new
    then patch_source w i p reg = Inl SourceConflict
    else \<exists>t s. patch_source w i p reg = Inr (t, s) \<and> map_of t = (map_of reg)(k \<mapsto> s)
      \<and> gs_workspace s = gs_workspace old \<and> gs_id s = gs_id old \<and> gs_created_at s = gs_created_at old
      \<and> gs_name s = gs_name new \<and> same_location s new
      \<and> (gs_last_commit s, gs_last_at s) = (if same_location new old then (gs_last_commit old, gs_last_at old) else (None, None))"
proof -
  have c: "consistent reg" by (rule sources.reachable_good [OF assms(1)])
  then have ok: "registry_ok reg" by (simp add: consistent_def)
  note R = resolve_Some [OF ok assms(2)] and N = normalize_source_Inr [OF assms(3)]
  define s where "s = (if same_location new old then new else new\<lparr>gs_last_commit := None, gs_last_at := None\<rparr>)"
  have id: "gs_id new = gs_id old" "gs_workspace new = gs_workspace old"
    using N(2,3) R(3,4) by (auto simp: patched_fields normalize_numeric_id_def source_ok_def)
  have s: "gs_id s = gs_id old" "gs_workspace s = gs_workspace old" "gs_name s = gs_name new" "same_location s new"
    "gs_created_at s = gs_created_at old"
    "(gs_last_commit s, gs_last_at s) = (if same_location new old then (gs_last_commit old, gs_last_at old) else (None, None))"
    using id N(12-14) by (simp_all add: s_def same_location_def patched_fields)
  have "patch_source w i p reg = (if has_source_name reg (gs_workspace s) (gs_name s) k then Inl SourceConflict
      else Inr (mput k s reg, s))"
    using assms(2,3) R(2) s(1,2) by (simp add: patch_source_def Let_def s_def)
  moreover have "has_source_name reg (gs_workspace s) (gs_name s) k \<longleftrightarrow>
      (\<exists>k' s'. map_of reg k' = Some s' \<and> k' \<noteq> k \<and> gs_workspace s' = normalize_workspace w \<and> gs_name s' = gs_name new)"
    using N(5) R(4) s(2,3) by (simp add: has_name_iff [OF ok])
  ultimately have eq: "patch_source w i p reg =
      (if \<exists>k' s'. map_of reg k' = Some s' \<and> k' \<noteq> k \<and> gs_workspace s' = normalize_workspace w \<and> gs_name s' = gs_name new
       then Inl SourceConflict else Inr (mput k s reg, s))" (is "_ = (if ?taken then _ else _)")
    by simp
  show ?thesis
  proof (cases ?taken)
    case False
    have "patch_source w i p reg = Inr (mput k s reg, s)" unfolding eq if_not_P [OF False] by (rule refl)
    with s show ?thesis unfolding if_not_P [OF False] by (intro exI conjI) (rule map_of_mput | simp)+
  qed (use eq in argo)
qed

section \<open>Loading ends\<close>

lemma wrap64_mod: "wrap64 x = wrap64 y \<longleftrightarrow> x mod 2 ^ 64 = y mod 2 ^ 64"
  unfolding wrap64_def using signed_take_bit_eq_iff_take_bit_eq [of 63 x y] by (simp add: take_bit_eq_mod)

lemma wrap64_add: "wrap64 (wrap64 x + y) = wrap64 (x + y)"
proof -
  have "wrap64 (wrap64 x) = wrap64 x" by (rule wrap64_id [OF conjunct1 conjunct2]) (rule wrap64_range)+
  then have "wrap64 x mod 2 ^ 64 = x mod 2 ^ 64" by (simp only: wrap64_mod)
  then show ?thesis unfolding wrap64_mod by (rule mod_add_cong) (rule refl)
qed

lemma free_id_tries:
  assumes "free_id n used w next = None" and "wrap64 next = next" and "j < n"
  shows "source_key w (itoa (wrap64 (next + int j))) \<in> set used"
  using assms
proof (induction n used w "next" arbitrary: j rule: free_id.induct)
  case (2 n used w "next")
  show ?case
  proof (cases j)
    case 0
    with 2 show ?thesis by (auto split: if_splits)
  next
    case (Suc k)
    from 2(2) have taken: "source_key w (itoa next) \<in> set used" and rest: "free_id n used w (wrap64 (next + 1)) = None"
      by (auto split: if_splits)
    have "wrap64 (wrap64 (next + 1)) = wrap64 (next + 1)" using wrap64_add [of "next + 1" 0] by simp
    from 2(1) [OF taken rest this, of k] 2(4) Suc show ?thesis by (simp add: wrap64_add add.assoc)
  qed
qed simp

lemma itoa_inj:
  assumes "itoa (wrap64 x) = itoa (wrap64 y)"
  shows "wrap64 x = wrap64 y"
proof -
  have p: "parse_int64 (itoa (wrap64 z)) = Some (wrap64 z)" for z
    by (rule parse_itoa [OF wrap64_range [THEN conjunct1] wrap64_range [THEN conjunct2]])
  from p [of x] have "Some (wrap64 x) = Some (wrap64 y)" unfolding assms p by (rule sym)
  then show ?thesis by (rule option.inject [THEN iffD1])
qed

lemma free_id_found:
  assumes "length used < 2 ^ 64" and "wrap64 next = next"
  shows "\<exists>i next'. free_id (Suc (length used)) used w next = Some (i, next') \<and> wrap64 next' = next'"
proof (cases "free_id (Suc (length used)) used w next")
  case None
  let ?f = "\<lambda>j. source_key w (itoa (wrap64 (next + int j)))"
  have "inj_on ?f {..<Suc (length used)}"
  proof (rule inj_onI)
    fix a b assume ab: "a \<in> {..<Suc (length used)}" "b \<in> {..<Suc (length used)}" "?f a = ?f b"
    then have "wrap64 (next + int a) = wrap64 (next + int b)" by (intro itoa_inj) (simp add: source_key_def itoa_trimmed)
    then have "(next + int a) mod 2 ^ 64 = (next + int b) mod 2 ^ 64" by (simp only: wrap64_mod)
    then have "(2 ^ 64 :: int) dvd int a - int b" by (simp add: mod_eq_dvd_iff)
    moreover have "\<bar>int a - int b\<bar> < 2 ^ 64" using ab assms(1) by auto
    ultimately have "int a - int b = 0" using dvd_imp_le_int [of "int a - int b" "2 ^ 64"] by fastforce
    then show "a = b" by simp
  qed
  moreover have "?f ` {..<Suc (length used)} \<subseteq> set used" using free_id_tries [OF None assms(2)] by auto
  ultimately have "Suc (length used) \<le> card (set used)" using card_inj_on_le by fastforce
  then show ?thesis using card_length [of used] by simp
next
  case (Some p)
  have "free_id n used w m = Some (i, m') \<Longrightarrow> wrap64 m' = m'" for n m i m'
    using wrap64_add [of _ 0] by (induction n used w m rule: free_id.induct) (auto split: if_splits)
  with Some show ?thesis by (cases p) blast
qed

lemma assign_returns:
  assumes "length used + length (filter (\<lambda>s. gs_id s = '''') ss) < 2 ^ 64" and "wrap64 next = next"
  shows "\<exists>reg. assign_ids ss used next acc = Some reg"
  using assms
proof (induction ss arbitrary: used "next" acc)
  case (Cons s ss)
  show ?case
  proof (cases "gs_id s = ''''")
    case True
    with Cons.prems(1) have len: "length used < 2 ^ 64" by simp
    from free_id_found [OF len Cons.prems(2), of "gs_workspace s"] obtain i m where
      f: "free_id (Suc (length used)) used (gs_workspace s) next = Some (i, m)" "wrap64 m = m" by blast
    with True Cons.IH [OF _ f(2), of "source_key (gs_workspace s) i # used"] Cons.prems(1) show ?thesis by (simp del: free_id.simps)
  next
    case False
    with Cons show ?thesis by simp
  qed
qed simp

text \<open>Loading ends. Whatever map the file holds, in whatever order it is walked, the search for free identifiers
comes to an end, as long as there are fewer sources than numbers of 64 bits.\<close>

theorem loading_returns:
  assumes "length stored < 2 ^ 64"
  shows "\<exists>reg. normalize_registry stored = Some reg"
proof -
  let ?ss = "map prepare_source (mvals stored)"
  have "length (concat (map used_key ss)) + length (filter (\<lambda>s. gs_id s = '''') ss) = length ss" for ss
    by (induction ss) (auto simp: used_key_def)
  from this [of ?ss] assms have "length (concat (map used_key ?ss)) + length (filter (\<lambda>s. gs_id s = '''') ?ss) < 2 ^ 64"
    by (simp add: mvals_def)
  moreover have "wrap64 (next_after ss) = next_after ss" for ss
  proof -
    have "wrap64 m = m \<Longrightarrow> wrap64 (fold (\<lambda>s next. case parse_positive_id (gs_id s) of Some i \<Rightarrow> if next \<le> i then wrap64 (i + 1) else next
        | None \<Rightarrow> next) ss m) = fold (\<lambda>s next. case parse_positive_id (gs_id s) of Some i \<Rightarrow> if next \<le> i then wrap64 (i + 1) else next
        | None \<Rightarrow> next) ss m" for m
    proof (induction ss arbitrary: m)
      case (Cons s ss)
      show ?case unfolding fold_simps by (rule Cons.IH) (use Cons.prems wrap64_add [of _ 0] in \<open>auto split: option.split\<close>)
    qed simp
    then show ?thesis unfolding next_after_def by (simp add: wrap64_id)
  qed
  ultimately show ?thesis unfolding normalize_registry_def Let_def by (rule assign_returns)
qed

section \<open>Names that are numbers\<close>

lemma numeric_name:
  assumes "is_positive_integer n" and "trim_space n = n"
  shows "n \<noteq> ''''" "n \<noteq> default_git_source" "first_non_empty [n, x] = n"
proof -
  have "\<not> is_positive_integer ''''" "\<not> is_positive_integer default_git_source" by code_simp+
  with assms show "n \<noteq> ''''" "n \<noteq> default_git_source" by auto
  then show "first_non_empty [n, x] = n" by simp
qed

text \<open>C32. A name that is a number. Applying a document for a source whose name is a positive integer looks the name up
as an identifier: when another source has that identifier, it is this one that is renamed and pointed to the
repository of the document; when none has it and a source of the name exists already, the document is refused
as a conflict, so it cannot be applied twice.\<close>

theorem numeric_name_hits_other_source:
  assumes "reachable (\<lambda>stored. stored = []) source_step reg"
    and "is_positive_integer n" and "trim_space n = n" and "trim_space url \<noteq> ''''"
  shows "case map_of reg (source_key w n) of
      Some other \<Rightarrow> has_source_name reg w n (source_key w n)
        \<or> (\<exists>t s. apply_app_source now w False n '''' url branch subpath creds reg = Inr (t, ''updated'', gs_id other)
            \<and> map_of t (source_key w n) = Some s \<and> gs_name s = n \<and> gs_repo_url s = trim_space url)
    | None \<Rightarrow> \<not> has_source_name reg w n '''' \<or> apply_app_source now w False n '''' url branch subpath creds reg = Inl SourceConflict"
proof -
  have c: "consistent reg" by (rule sources.reachable_good [OF assms(1)])
  then have ok: "registry_ok reg" by (simp add: consistent_def)
  note n = numeric_name [OF assms(2,3)]
  define b where "b = first_non_empty [trim_space branch, ''main'']"
  have key: "source_key (normalize_workspace w) n = source_key w n" by (simp add: source_key_def)
  have res: "resolve_source reg (normalize_workspace w) n = map_option (\<lambda>s. (source_key w n, s)) (map_of reg (source_key w n))"
    using assms(2,3) n(1) by (simp add: resolve_source_def key)
  show ?thesis
  proof (cases "map_of reg (source_key w n)")
    case None
    let ?s = "\<lparr>gs_workspace = w, gs_id = '''', gs_name = n, gs_repo_url = trim_space url,
             gs_branch = b, gs_subpath = trim_space subpath, gs_token_env = creds, gs_kind = ''external'',
             gs_created_at = None, gs_last_commit = None, gs_last_at = None\<rparr>"
    have "apply_app_source now w False n '''' url branch subpath creds reg
        = and_then (create_source now ?s reg) (\<lambda>(t, s). Inr (t, ''created'', gs_id s))"
      using None res n assms(3,4) by (simp add: apply_app_source_def get_source_def Let_def b_def)
    moreover have "create_source now ?s reg = Inl SourceConflict" if "has_source_name reg w n ''''"
    proof -
      have "\<exists>s. normalize_source ?s = Inr s \<and> gs_workspace s = normalize_workspace w \<and> gs_name s = n"
        using n assms(3,4) by (simp add: normalize_source_def Let_def normalize_numeric_id_def)
      with that show ?thesis by (auto simp: create_source_def has_source_name_def)
    qed
    ultimately show ?thesis using None by auto
  next
    case (Some other)
    let ?p = "\<lparr>gp_name = Some n, gp_id = None, gp_repo_url = Some (trim_space url), gp_branch = Some b,
        gp_subpath = Some (trim_space subpath), gp_token_env = Some creds\<rparr>"
    from registry_okD [OF ok Some] have o: "source_key w n = source_key (gs_workspace other) (gs_id other)" "source_ok other" .
    with source_key_inj [OF o(1)] assms(2,3) have id: "gs_id other = n" "gs_workspace other = normalize_workspace w"
      by (simp_all add: source_ok_def)
    have "apply_app_source now w False n '''' url branch subpath creds reg
        = and_then (patch_source w n ?p reg) (\<lambda>(t, s). Inr (t, ''updated'', gs_id s))"
      using Some res n assms(3,4) id by (simp add: apply_app_source_def get_source_def Let_def b_def)
    moreover obtain s where s: "normalize_source ((apply_source_patch ?p other)\<lparr>gs_workspace := normalize_workspace w\<rparr>) = Inr s"
      "gs_workspace s = normalize_workspace w" "gs_name s = n" "gs_id s = n" "gs_repo_url s = trim_space url"
    proof -
      let ?q = "(apply_source_patch ?p other)\<lparr>gs_workspace := normalize_workspace w\<rparr>"
      have q: "gs_name ?q = n" "gs_id ?q = n" "gs_repo_url ?q = trim_space url" "gs_kind ?q = gs_kind other"
        "gs_workspace ?q = normalize_workspace w" by (simp_all add: apply_source_patch_def Let_def id)
      have "gs_kind other = ''external'' \<or> gs_kind other = ''managed''" using o(2) by (simp add: source_ok_def)
      then obtain s where s: "normalize_source ?q = Inr s"
        unfolding normalize_source_def Let_def q using n assms(3,4) by (auto split: if_splits)
      note N = normalize_source_Inr [OF s, unfolded q]
      show thesis by (rule that [OF s]) (use N(2,3,9,15) n(1) assms(2,3) in \<open>simp_all add: normalize_numeric_id_def\<close>)
    qed
    moreover define s' where "s' = (if same_location s other then s else s\<lparr>gs_last_commit := None, gs_last_at := None\<rparr>)"
    moreover have "gs_workspace s' = normalize_workspace w" "gs_name s' = n" "gs_id s' = n" "gs_repo_url s' = trim_space url"
      using s by (simp_all add: s'_def)
    moreover have "has_source_name reg (normalize_workspace w) n k = has_source_name reg w n k" for k
      by (simp add: has_source_name_def)
    ultimately show ?thesis using Some res id by (auto simp: patch_source_def Let_def key)
  qed
qed

section \<open>Two registrations at once\<close>

text \<open>C33. Two registrations that both load the file before either writes it. Both are answered with a created source,
both sources have the same identifier, and after the second write the first source is gone: its identifier
leads to the other one.\<close>

theorem concurrent_registration_lost:
  assumes "reachable (\<lambda>stored. stored = []) source_step reg"
    and "create_source now a reg = Inr (t, s)" and "create_source now' b reg = Inr (t', s')"
    and "normalize_numeric_id (gs_id a) = ''''" and "normalize_numeric_id (gs_id b) = ''''" and "s \<noteq> s'"
  shows "gs_id s = gs_id s' \<and> (\<forall>k. map_of t' k \<noteq> Some s)
    \<and> (gs_workspace s = gs_workspace s' \<longrightarrow> map_of t' (source_key (gs_workspace s) (gs_id s)) = Some s')"
proof -
  have ok: "registry_ok reg" using sources.reachable_good [OF assms(1)] by (simp add: consistent_def)
  have made: "gs_id y = itoa (next_source_id reg) \<and> map_of reg (source_key (gs_workspace y) (gs_id y)) = None
      \<and> u = mput (source_key (gs_workspace y) (gs_id y)) y reg"
    if c: "create_source n x reg = Inr (u, y)" "normalize_numeric_id (gs_id x) = ''''" for n x u y
  proof -
    obtain z where z: "normalize_source x = Inr z" using c(1) by (cases "normalize_source x") (simp_all add: create_source_def)
    have "gs_id z = ''''" using normalize_source_Inr(3) [OF z] c(2) by simp
    with c(1) z show ?thesis by (auto simp: create_source_def Let_def split: if_splits)
  qed
  note m = made [OF assms(2,4)] made [OF assms(3,5)]
  have "map_of reg k \<noteq> Some s" for k using registry_okD(1) [OF ok, of k s] m(1) by auto
  then show ?thesis using m assms(6) by simp
qed

section \<open>An example\<close>

definition ex_source :: "string \<Rightarrow> git_source" where
  "ex_source n = \<lparr>gs_workspace = ''main'', gs_id = '''', gs_name = n, gs_repo_url = ''https://git/'' @ n, gs_branch = '''',
     gs_subpath = '''', gs_token_env = '''', gs_kind = '''', gs_created_at = None, gs_last_commit = None, gs_last_at = None\<rparr>"

definition ex_stored :: "string \<Rightarrow> string \<Rightarrow> git_source" where
  "ex_stored i n = (ex_source n)\<lparr>gs_id := i, gs_branch := ''main'', gs_kind := ''external'', gs_created_at := Some 5\<rparr>"

lemma ex_created_source:
  "create_source 5 (ex_source ''shop'') [] = Inr ([(''main/1'', ex_stored ''1'' ''shop'')], ex_stored ''1'' ''shop'')"
  "create_source 5 (ex_source ''blog'') [] = Inr ([(''main/1'', ex_stored ''1'' ''blog'')], ex_stored ''1'' ''blog'')"
  by code_simp+

lemma ex_registry_reachable: "reachable (\<lambda>stored. stored = []) source_step [(''main/1'', ex_stored ''1'' ''shop'')]"
proof -
  have "normalize_registry [] = Some []" "room []" by (simp_all add: normalize_registry_def mvals_def room_def)
  from source_create [OF this ex_created_source(1)]
  show ?thesis by (rule reachable_step [rotated]) (rule reachable_start, rule refl)
qed

theorem sources_consistent_witness:
  "names_unique [(''main/1'', ex_stored ''1'' ''shop'')]
    \<and> normalize_registry [(''main/1'', ex_stored ''1'' ''shop'')] = Some [(''main/1'', ex_stored ''1'' ''shop'')]"
  using sources_consistent [OF ex_registry_reachable] by blast

definition ex_move :: source_patch where
  "ex_move = \<lparr>gp_name = None, gp_id = None, gp_repo_url = Some ''https://git/store'', gp_branch = None, gp_subpath = None,
     gp_token_env = None\<rparr>"

theorem patch_outcome_witness:
  "\<exists>t s. patch_source ''main'' ''shop'' ex_move [(''main/1'', ex_stored ''1'' ''shop'')] = Inr (t, s)
    \<and> map_of t ''main/1'' = Some s \<and> gs_last_commit s = None"
proof -
  have r: "resolve_source [(''main/1'', ex_stored ''1'' ''shop'')] (normalize_workspace ''main'') ''shop''
      = Some (''main/1'', ex_stored ''1'' ''shop'')"
    and n: "normalize_source ((apply_source_patch ex_move (ex_stored ''1'' ''shop''))\<lparr>gs_workspace := normalize_workspace ''main''\<rparr>)
      = Inr ((ex_stored ''1'' ''shop'')\<lparr>gs_repo_url := ''https://git/store''\<rparr>)"
    by code_simp+
  from patch_outcome [OF ex_registry_reachable r n] show ?thesis by (auto simp: ex_stored_def ex_source_def split: if_splits)
qed

theorem loading_returns_witness:
  "\<exists>reg. normalize_registry [(''a'', ex_source ''shop''), (''b'', ex_source ''blog'')] = Some reg"
  using loading_returns [of "[(''a'', ex_source ''shop''), (''b'', ex_source ''blog'')]"] by simp

theorem numeric_name_hits_other_source_witness:
  "\<exists>t s. apply_app_source 9 ''main'' False ''1'' '''' ''https://git/new'' '''' '''' '''' [(''main/1'', ex_stored ''1'' ''shop'')]
      = Inr (t, ''updated'', ''1'') \<and> map_of t ''main/1'' = Some s \<and> gs_name s = ''1'' \<and> gs_repo_url s = ''https://git/new''"
proof -
  have h: "is_positive_integer ''1''" "trim_space ''1'' = ''1''" "trim_space ''https://git/new'' \<noteq> ''''"
    and k: "source_key ''main'' ''1'' = ''main/1''" "trim_space ''https://git/new'' = ''https://git/new''"
    and free: "\<not> has_source_name [(''main/1'', ex_stored ''1'' ''shop'')] ''main'' ''1'' ''main/1''"
    by code_simp+
  have "gs_id (ex_stored ''1'' ''shop'') = ''1''" by (simp add: ex_stored_def)
  with numeric_name_hits_other_source [OF ex_registry_reachable h, of "''main''" 9 "''''" "''''" "''''"] free
  show ?thesis by (simp add: k)
qed

theorem concurrent_registration_lost_witness:
  "\<exists>t'. create_source 5 (ex_source ''blog'') [] = Inr (t', ex_stored ''1'' ''blog'') \<and> (\<forall>k. map_of t' k \<noteq> Some (ex_stored ''1'' ''shop''))"
proof -
  have "reachable (\<lambda>stored. stored = []) source_step []" by (rule reachable_start) (rule refl)
  moreover have "normalize_numeric_id (gs_id (ex_source n)) = ''''" for n
    by (simp add: ex_source_def) code_simp
  moreover have "ex_stored ''1'' ''shop'' \<noteq> ex_stored ''1'' ''blog''" by code_simp
  ultimately show ?thesis
    using concurrent_registration_lost [OF _ ex_created_source] ex_created_source(2) by blast
qed

end
