(* ===== verification/Job_Api.thy ===== *)
theory Job_Api
  imports Execution_Service Retention App_Store Http_Auth
begin

text \<open>
  The job API (\<^verbatim>\<open>internal/server/jobs.go\<close>) and the execution API (\<^verbatim>\<open>internal/server/execution_api.go\<close>): what a
  request asks of the store and of the admission service, and what it is answered. A reply is its status and what
  it carries. The text of times, both ways, is an argument; query parameters are the strings the request has.
\<close>

section \<open>Base64 for URLs\<close>

text \<open>\<^verbatim>\<open>RawURLEncoding\<close>: no padding, and two digits of its own.\<close>

definition url_digit :: "char \<Rightarrow> char" where
  "url_digit c = (if c = CHR ''+'' then CHR ''-'' else if c = CHR ''/'' then CHR ''_'' else c)"

definition url_value :: "char \<Rightarrow> nat option" where
  "url_value c = (if c = CHR ''-'' then Some 62 else if c = CHR ''_'' then Some 63
     else if c = CHR ''+'' \<or> c = CHR ''/'' then None else b64_value c)"

definition b64url_encode :: "string \<Rightarrow> string" where
  "b64url_encode s = map url_digit (b64_encode False s)"

fun b64url_groups :: "nat list \<Rightarrow> string \<Rightarrow> string option" where
  "b64url_groups vs [] = (if length vs = 1 then None else Some (b64_bytes vs))"
| "b64url_groups vs (c # cs) =
    (case url_value c of
       None \<Rightarrow> None
     | Some v \<Rightarrow>
         if length vs = 3 then map_option (\<lambda>out. b64_bytes (vs @ [v]) @ out) (b64url_groups [] cs)
         else b64url_groups (vs @ [v]) cs)"

definition b64url_decode :: "string \<Rightarrow> string option" where
  "b64url_decode s = b64url_groups [] (filter (\<lambda>c. c \<noteq> CHR 0x0A \<and> c \<noteq> CHR 0x0D) s)"

section \<open>Cursors\<close>

record time_text =
  tt_format :: "time \<Rightarrow> string"
  tt_parse :: "string \<Rightarrow> time option"

definition encode_job_cursor :: "time_text \<Rightarrow> time \<Rightarrow> string \<Rightarrow> string" where
  "encode_job_cursor T created jid = b64url_encode (tt_format T created @ ''|'' @ jid)"

definition hex_letter :: "char \<Rightarrow> bool" where
  "hex_letter c \<longleftrightarrow> in_range (CHR ''0'') (CHR ''9'') c \<or> in_range (CHR ''a'') (CHR ''f'') c \<or> in_range (CHR ''A'') (CHR ''F'') c"

definition is_canonical_uuid :: "string \<Rightarrow> bool" where
  "is_canonical_uuid v \<longleftrightarrow> length v = 36
     \<and> list_all (\<lambda>i. if i \<in> {8, 13, 18, 23} then v ! i = CHR ''-'' else hex_letter (v ! i)) [0..<36]"

fun cut_at :: "char \<Rightarrow> string \<Rightarrow> (string \<times> string) option" where
  "cut_at c [] = None"
| "cut_at c (x # xs) = (if x = c then Some ([], xs) else map_option (\<lambda>(a, b). (x # a, b)) (cut_at c xs))"

definition decode_job_cursor :: "time_text \<Rightarrow> string \<Rightarrow> (time \<times> string) option" where
  "decode_job_cursor T raw =
    (case b64url_decode raw of
       None \<Rightarrow> None
     | Some data \<Rightarrow>
       (case cut_at (CHR ''|'') data of
          None \<Rightarrow> None
        | Some (created, jid) \<Rightarrow>
          (case tt_parse T created of
             None \<Rightarrow> None
           | Some t \<Rightarrow> if jid = '''' \<or> \<not> is_canonical_uuid jid then None else Some (t, jid))))"

section \<open>Query parameters\<close>

definition default_job_list_limit :: int where "default_job_list_limit = 50"
definition max_job_list_limit :: int where "max_job_list_limit = 500"

definition valid_job_status_filter :: "string \<Rightarrow> bool" where
  "valid_job_status_filter status \<longleftrightarrow>
     status \<in> {''queued'', ''running'', ''success'', ''failure'', ''completed'', ''canceled'', ''all''}"

definition parse_optional_time :: "time_text \<Rightarrow> string \<Rightarrow> string \<Rightarrow> http_error + time option" where
  "parse_optional_time T raw name =
    (if trim_space raw = '''' then Inr None
     else case tt_parse T (trim_space raw) of None \<Rightarrow> Inl (400, name @ '' must be RFC3339'') | Some t \<Rightarrow> Inr (Some t))"

text \<open>\<open>get\<close> is \<^verbatim>\<open>r.URL.Query().Get\<close>.\<close>

definition parse_job_list_query :: "time_text \<Rightarrow> (string \<Rightarrow> string) \<Rightarrow> string \<Rightarrow> http_error + job_list_query" where
  "parse_job_list_query T get w =
    (let status = (if trim_space (get ''status'') = '''' then ''all'' else trim_space (get ''status''));
         order = trim_space (get ''order''); limit_raw = trim_space (get ''limit''); cursor_raw = trim_space (get ''cursor'') in
     if \<not> valid_job_status_filter status then Inl (400, ''invalid status filter'')
     else if order \<noteq> '''' \<and> order \<noteq> ''created_at_desc'' then Inl (400, ''unsupported order'')
     else and_then
       (if limit_raw = '''' then Inr default_job_list_limit
        else case parse_int64 limit_raw of
          None \<Rightarrow> Inl (400, ''limit must be between 1 and 500'')
        | Some n \<Rightarrow> if n \<le> 0 \<or> max_job_list_limit < n then Inl (400, ''limit must be between 1 and 500'') else Inr n)
       (\<lambda>limit. and_then
         (if cursor_raw = '''' then Inr (None, '''')
          else case decode_job_cursor T cursor_raw of
            None \<Rightarrow> Inl (400, ''invalid cursor'') | Some (t, i) \<Rightarrow> Inr (Some t, i))
       (\<lambda>(cursor_at, cursor_id). and_then (parse_optional_time T (get ''since'') ''since'')
       (\<lambda>since. and_then (parse_optional_time T (get ''until'') ''until'')
       (\<lambda>until. Inr \<lparr>jq_workspace = normalize_workspace w, jq_status = status, jq_app = trim_space (get ''app''),
          jq_action = trim_space (get ''action''), jq_trigger_kind = trim_space (get ''trigger_kind''), jq_limit = limit,
          jq_cursor_created_at = cursor_at, jq_cursor_id = cursor_id, jq_since = since, jq_until = until\<rparr>)))))"

definition max_tail_bytes :: int where "max_tail_bytes = 1048576"

definition parse_tail_bytes :: "string \<Rightarrow> string + int" where
  "parse_tail_bytes raw =
    (if trim_space raw = '''' then Inr (- 1)
     else case parse_int64 (trim_space raw) of
       None \<Rightarrow> Inl ''tail_bytes must be a non-negative integer''
     | Some n \<Rightarrow> if n < 0 then Inl ''tail_bytes must be a non-negative integer''
         else if max_tail_bytes < n then Inl ''tail_bytes exceeds server limit'' else Inr n)"

definition max_run_wait_timeout :: duration where "max_run_wait_timeout = seconds 30"

definition parse_run_wait_timeout :: "string \<Rightarrow> http_error + duration" where
  "parse_run_wait_timeout raw =
    (if trim_space raw = '''' then Inr (seconds 30)
     else case parse_int64 (trim_space raw) of
       None \<Rightarrow> Inl (400, ''timeout_ms must be a non-negative integer'')
     | Some n \<Rightarrow>
       if n < 0 then Inl (400, ''timeout_ms must be a non-negative integer'')
       else (let t = wrap64 (n * 1000000) in Inr (if max_run_wait_timeout < t then max_run_wait_timeout else t)))"

section \<open>Results\<close>

definition terminal_job_status :: "job \<Rightarrow> run \<Rightarrow> string" where
  "terminal_job_status j r =
    (if run_state r = RunCanceled then ''canceled''
     else if job_state j = JobSucceeded \<or> run_state r = RunSucceeded \<or> run_state r = RunWaitingHuman then ''success''
     else ''failure'')"

text \<open>The bytes of an error that is no object are rendered by \<open>render\<close>.\<close>

definition run_error_message :: "(raw \<Rightarrow> string) \<Rightarrow> run \<Rightarrow> string" where
  "run_error_message render r =
    (let from_error = (if raw_empty (run_error r) then ''''
         else case struct_members (run_error r) of
           None \<Rightarrow> render (run_error r)
         | Some kvs \<Rightarrow> (case string_field ''message'' '''' kvs of None \<Rightarrow> render (run_error r) | Some m \<Rightarrow> m)) in
     case run_result r of
       Some res \<Rightarrow> if res_error res \<noteq> '''' then res_error res else from_error
     | None \<Rightarrow> from_error)"

definition raw_or_null :: "raw \<Rightarrow> raw" where
  "raw_or_null v = (if raw_empty v then RawDoc JNull else v)"

definition job_result_of :: "(raw \<Rightarrow> string) \<Rightarrow> job \<Rightarrow> run \<Rightarrow> (string \<times> raw) option" where
  "job_result_of render j r =
    (if job_state j = JobQueued \<or> job_state j = JobRunning then None
     else
       let status = terminal_job_status j r; message = run_error_message render r in
       Some (if status = ''success'' then (status, raw_or_null (run_output r))
         else if status = ''canceled'' then
           (status, must_raw [(''name'', JStr ''Canceled''), (''message'', JStr (if message = '''' then ''job canceled'' else message))])
         else case run_result r of
           Some res \<Rightarrow>
             if \<not> raw_empty (res_output res) then (''failure'', raw_or_null (res_output res))
             else (''failure'', must_raw [(''name'', JStr ''Error''), (''message'', JStr (if message = '''' then ''job failed'' else message))])
         | None \<Rightarrow>
             (''failure'', must_raw [(''name'', JStr ''Error''), (''message'', JStr (if message = '''' then ''job failed'' else message))])))"

section \<open>The status of a job\<close>

text \<open>\<^verbatim>\<open>int32((timeoutMs + 999) / 1000)\<close>\<close>

definition timeout_seconds :: "int \<Rightarrow> int" where
  "timeout_seconds ms = (if ms \<le> 0 then 0 else signed_take_bit 31 (wrap64 (ms + 999) sdiv 1000))"

record job_status_view =
  jsv_id :: string
  jsv_workspace :: string
  jsv_state :: string
  jsv_status :: "string option"
  jsv_worker :: "string option"
  jsv_app :: "string option"
  jsv_action :: "string option"
  jsv_trigger_kind :: "string option"
  jsv_kind :: "string option"
  jsv_git_source :: "int option"
  jsv_commit :: "string option"
  jsv_entrypoint :: "string option"
  jsv_input_schema :: raw
  jsv_output_schema :: raw
  jsv_tag :: string
  jsv_timeout_s :: int
  jsv_created_by :: string
  jsv_permissioned_as :: string
  jsv_input :: raw
  jsv_created_at :: time
  jsv_started_at :: "time option"
  jsv_completed_at :: "time option"
  jsv_duration_ms :: int
  jsv_canceled_by :: "string option"
  jsv_canceled_reason :: "string option"
  jsv_flow_run :: "string option"
  jsv_flow_key :: "string option"
  jsv_flow_step_key :: "string option"

definition job_status_trigger_kind :: "job \<Rightarrow> run \<Rightarrow> string" where
  "job_status_trigger_kind j r = (if jp_trigger_kind (job_payload j) \<noteq> '''' then jp_trigger_kind (job_payload j) else run_adapter r)"

definition job_status_canceled_reason :: "run \<Rightarrow> string option" where
  "job_status_canceled_reason r =
    (if run_state r \<noteq> RunCanceled \<or> raw_empty (run_error r) then None
     else case struct_members (run_error r) of
        None \<Rightarrow> None
      | Some kvs \<Rightarrow>
         (case (string_field ''message'' '''' kvs, string_ptr_field ''canceledReason'' None kvs) of
            (Some m, Some (Some reason)) \<Rightarrow> Some reason
          | (Some m, Some None) \<Rightarrow> if trim_space m \<noteq> '''' then string_ptr m else None
          | _ \<Rightarrow> None))"

definition job_status_canceled_by :: "run \<Rightarrow> string option" where
  "job_status_canceled_by r =
    (if run_state r \<noteq> RunCanceled \<or> raw_empty (run_error r) then None
     else case struct_members (run_error r) of
        None \<Rightarrow> None
      | Some kvs \<Rightarrow> (case string_field ''canceledBy'' '''' kvs of None \<Rightarrow> None | Some v \<Rightarrow> string_ptr (trim_space v)))"

definition new_job_status :: "string \<Rightarrow> job \<Rightarrow> run \<Rightarrow> job_status_view" where
  "new_job_status w j r =
    (let p = job_payload j; completed = job_state j = JobSucceeded \<or> job_state j = JobFailed in
     \<lparr>jsv_id = job_id j, jsv_workspace = normalize_workspace w,
      jsv_state = (if job_state j = JobRunning then ''running'' else if completed then ''completed'' else ''queued''),
      jsv_status = (if completed then Some (terminal_job_status j r) else None),
      jsv_worker = string_ptr (job_lease_owner j), jsv_app = string_ptr (jp_app p), jsv_action = string_ptr (jp_action p),
      jsv_trigger_kind = string_ptr (job_status_trigger_kind j r), jsv_kind = string_ptr (job_kind j),
      jsv_git_source = numeric_string_ptr (jp_git_source p), jsv_commit = string_ptr (jp_commit p),
      jsv_entrypoint = string_ptr (job_entrypoint j), jsv_input_schema = jp_input_schema p,
      jsv_output_schema = jp_output_schema p, jsv_tag = job_tag j, jsv_timeout_s = timeout_seconds (act_timeout_ms (jp_action_spec p)),
      jsv_created_by = first_non_empty [trim_space (jp_created_by p), trim_space (run_created_by r)],
      jsv_permissioned_as = first_non_empty [trim_space (jp_permissioned_as p), trim_space (run_permissioned_as r),
         trim_space (jp_created_by p), trim_space (run_created_by r)],
      jsv_input = jp_input p, jsv_created_at = job_created_at j,
      jsv_started_at = (case job_started_at j of Some t \<Rightarrow> Some t | None \<Rightarrow> if job_state j = JobRunning then Some (job_updated_at j) else None),
      jsv_completed_at = (if completed then Some (run_updated_at r) else None),
      jsv_duration_ms = (case run_result r of None \<Rightarrow> 0 | Some res \<Rightarrow> res_duration_ms res),
      jsv_canceled_by = first_present [job_canceled_by j, job_status_canceled_by r],
      jsv_canceled_reason = first_present [job_canceled_reason j, job_status_canceled_reason r],
      jsv_flow_run = string_ptr (jp_flow_run p), jsv_flow_key = string_ptr (jp_flow_key p),
      jsv_flow_step_key = string_ptr (jp_flow_step_key p)\<rparr>)"

section \<open>Handlers that read\<close>

record job_page =
  pg_items :: "job_list_item list"
  pg_limit :: int
  pg_has_more :: bool
  pg_next_cursor :: "string option"

definition handle_job_list ::
    "(raw \<Rightarrow> string) \<Rightarrow> time_text \<Rightarrow> input_crypto \<Rightarrow> (string \<Rightarrow> string) \<Rightarrow> string \<Rightarrow> snapshot \<Rightarrow> http_error + job_page" where
  "handle_job_list render T C get w s =
    and_then (parse_job_list_query T get w) (\<lambda>q.
      let limit = jq_limit q; items = list_jobs render C (q\<lparr>jq_limit := limit + 1\<rparr>) s;
          more = limit < int (length items); items = (if more then take (nat limit) items else items) in
      Inr \<lparr>pg_items = items, pg_limit = limit, pg_has_more = more,
        pg_next_cursor = (if more then Some (encode_job_cursor T (ji_created_at (last items)) (ji_id (last items))) else None)\<rparr>)"

definition handle_job_summary :: "input_crypto \<Rightarrow> time \<Rightarrow> (string \<Rightarrow> string) \<Rightarrow> string \<Rightarrow> snapshot \<Rightarrow> http_error + job_summary" where
  "handle_job_summary C now get w s =
    and_then
      (if trim_space (get ''recent_seconds'') = '''' then Inr (seconds (24 * 3600))
       else case parse_int64 (trim_space (get ''recent_seconds'')) of
         None \<Rightarrow> Inl (400, ''recent_seconds must be between 1 and 604800'')
       | Some n \<Rightarrow> if n \<le> 0 \<or> 7 * 24 * 60 * 60 < n then Inl (400, ''recent_seconds must be between 1 and 604800'') else Inr (seconds n))
      (\<lambda>recent. Inr (job_summary_of C now w recent s))"

definition found_job :: "input_crypto \<Rightarrow> string \<Rightarrow> string \<Rightarrow> snapshot \<Rightarrow> http_error + job \<times> run" where
  "found_job C w jid s =
    (case get_job C w jid s of
       Inl err \<Rightarrow> Inl (500, '''')
     | Inr None \<Rightarrow> Inl (404, ''job not found'')
     | Inr (Some (j, r)) \<Rightarrow> Inr (j, r))"

definition handle_job_status :: "input_crypto \<Rightarrow> string \<Rightarrow> string \<Rightarrow> snapshot \<Rightarrow> http_error + job_status_view" where
  "handle_job_status C w jid s = and_then (found_job C w jid s) (\<lambda>(j, r). Inr (new_job_status w j r))"

datatype result_reply = ResultPending | ResultDone string raw

definition handle_job_result :: "(raw \<Rightarrow> string) \<Rightarrow> input_crypto \<Rightarrow> string \<Rightarrow> string \<Rightarrow> snapshot \<Rightarrow> http_error + nat \<times> result_reply" where
  "handle_job_result render C w jid s = and_then (found_job C w jid s) (\<lambda>(j, r).
    Inr (case job_result_of render j r of None \<Rightarrow> (202, ResultPending) | Some (st, res) \<Rightarrow> (200, ResultDone st res)))"

text \<open>
  Waiting for a result: each round reads the store and, while there is no result, the clock. The rounds are a list of
  what they see; \<open>None\<close> when the list ends first, as when the client leaves.
\<close>

fun wait_for_job_result ::
    "(raw \<Rightarrow> string) \<Rightarrow> input_crypto \<Rightarrow> string \<Rightarrow> string \<Rightarrow> time \<Rightarrow> (snapshot \<times> time) list \<Rightarrow> (http_error + nat \<times> result_reply) option" where
  "wait_for_job_result render C w jid deadline [] = None"
| "wait_for_job_result render C w jid deadline ((s, now) # rounds) =
    (case handle_job_result render C w jid s of
       Inr (code, ResultPending) \<Rightarrow>
         if deadline \<le> now then Some (Inr (202, ResultPending)) else wait_for_job_result render C w jid deadline rounds
     | answer \<Rightarrow> Some answer)"

definition handle_job_logs :: "(string \<Rightarrow> string) \<Rightarrow> string \<Rightarrow> string \<Rightarrow> snapshot \<Rightarrow> http_error + string" where
  "handle_job_logs get w jid s =
    (let (logs, present) = get_logs s w jid in
     if \<not> present then Inl (404, ''job not found'')
     else case parse_tail_bytes (get ''tail_bytes'') of
       Inl m \<Rightarrow> Inl (400, m)
     | Inr tail_bytes \<Rightarrow>
       Inr (if 0 \<le> tail_bytes \<and> tail_bytes < int (length logs) then drop (length logs - nat tail_bytes) logs else logs))"

definition handle_job_cancel ::
    "input_crypto \<Rightarrow> call_env \<Rightarrow> string \<Rightarrow> string \<Rightarrow> string \<Rightarrow> string \<Rightarrow> snapshot \<Rightarrow> snapshot \<times> (http_error + cancel_result)" where
  "handle_job_cancel C e actor w jid reason s =
    (case local_cancel_job C e w jid actor reason s of
       Inl err \<Rightarrow> (s, Inl (500, ''''))
     | Inr (t, res) \<Rightarrow> (t, if cr_found res then Inr res else Inl (404, ''job not found'')))"

section \<open>Bodies\<close>

text \<open>What reading a body gives under the limit of one megabyte.\<close>

datatype body_read = BodyTooLarge | BodyUnreadable | BodyBytes string | BodyDocument json

definition read_run_input :: "body_read \<Rightarrow> http_error + raw" where
  "read_run_input b =
    (case b of
       BodyTooLarge \<Rightarrow> Inl (413, ''request body too large'')
     | BodyUnreadable \<Rightarrow> Inl (400, ''could not read request body'')
     | BodyBytes bytes \<Rightarrow> if trim_space bytes = '''' then Inr empty_object else Inl (400, ''request body must be a JSON object'')
     | BodyDocument d \<Rightarrow>
       (case raw_object (RawDoc d) of
          None \<Rightarrow> Inl (400, ''request body must be a JSON object'')
        | Some m \<Rightarrow> if map_of m enc_marker_key \<noteq> None then Inl (400, CHR 0x22 # enc_marker_key @ CHR 0x22 # '' is a reserved top-level input key'')
            else Inr (RawDoc d)))"

definition max_webhook_header_value_bytes :: nat where "max_webhook_header_value_bytes = 1024"
definition max_webhook_headers_bytes :: nat where "max_webhook_headers_bytes = 8192"

definition webhook_header_denied :: "string \<Rightarrow> bool" where
  "webhook_header_denied name \<longleftrightarrow> name \<in> {''Authorization'', ''Cookie'', ''Proxy-Authorization''}"

fun capture_headers :: "(string, string list) gomap \<Rightarrow> string list \<Rightarrow> nat \<Rightarrow> (string, string) gomap \<Rightarrow> (string, string) gomap" where
  "capture_headers h [] n out = out"
| "capture_headers h (name # names) n out =
    (let value = take max_webhook_header_value_bytes (join_with '', '' (mget_or [] h name)) in
     if max_webhook_headers_bytes < n + length name + length value then out
     else capture_headers h names (n + length name + length value) (mput name value out))"

definition captured_webhook_headers :: "(string, string list) gomap \<Rightarrow> (string, string) gomap" where
  "captured_webhook_headers h = capture_headers h (sort_strings (filter (\<lambda>n. \<not> webhook_header_denied n) (mkeys h))) 0 []"

definition capture_webhook_headers :: "(string, string list) gomap \<Rightarrow> raw" where
  "capture_webhook_headers h =
    (let m = captured_webhook_headers h in if m = [] then raw_nil else marshal_object (map (\<lambda>(k, v). (k, JStr v)) m))"

section \<open>Starting runs\<close>

definition execution_fault_status :: "fault \<Rightarrow> nat \<times> fault_kind" where
  "execution_fault_status f =
    (case fault_kind f of
       FaultUnavailable \<Rightarrow> 503
     | FaultInvalidRequest \<Rightarrow> 400
     | FaultAppNotFound \<Rightarrow> 404
     | FaultActionNotFound \<Rightarrow> 404
     | FaultRoutingConflict \<Rightarrow> 409
     | FaultConflict \<Rightarrow> 409
     | FaultInternal \<Rightarrow> 500, fault_kind f)"

definition write_execution_fault :: "fault \<Rightarrow> nat \<times> fault_kind \<times> string" where
  "write_execution_fault f =
    (if fault_err f = Some NotFound \<and> fault_kind f = FaultInternal then (404, FaultAppNotFound, ''not found'')
     else (fst (execution_fault_status f), fault_kind f, fault_message f))"

definition write_legacy_execution_fault :: "fault \<Rightarrow> http_error" where
  "write_legacy_execution_fault f = (fst (execution_fault_status f), fault_message f)"

text \<open>
  The reads and writes of the admission are those of \<open>service_create_run\<close>: \<open>s0\<close>, \<open>s\<close> and \<open>s1\<close>.
\<close>

definition api_enqueue_job ::
    "input_crypto \<Rightarrow> schema_lib \<Rightarrow> catalog_service \<Rightarrow> call_env \<Rightarrow> call_env \<Rightarrow> string \<Rightarrow> string \<Rightarrow> string \<Rightarrow> string \<Rightarrow> string
      \<Rightarrow> string \<Rightarrow> raw \<Rightarrow> raw \<Rightarrow> snapshot \<Rightarrow> snapshot \<Rightarrow> snapshot \<Rightarrow> snapshot \<times> (http_error + job)" where
  "api_enqueue_job C X cat e e' actor request_id w app action kind input headers s0 s s1 =
    (case service_create_run C X cat e e' \<lparr>crr_workspace = w, crr_app = app, crr_action = action, crr_input = input,
         crr_adapter = ''http'', crr_trigger_kind = kind, crr_trigger_headers = headers, crr_correlation = request_id,
         crr_idempotency_key = '''', crr_env = [], crr_client = '''', crr_created_by = actor, crr_permissioned_as = actor\<rparr> s0 s s1 of
       (t, Inl f) \<Rightarrow> (t, Inl (write_legacy_execution_fault f))
     | (t, Inr adm) \<Rightarrow> (t, Inr (adm_job adm)))"

definition handle_job_run ::
    "input_crypto \<Rightarrow> schema_lib \<Rightarrow> catalog_service \<Rightarrow> call_env \<Rightarrow> call_env \<Rightarrow> (raw \<Rightarrow> string) \<Rightarrow> (string \<Rightarrow> string) \<Rightarrow> string \<Rightarrow> string
      \<Rightarrow> string \<Rightarrow> string \<Rightarrow> string \<Rightarrow> bool \<Rightarrow> body_read \<Rightarrow> time \<Rightarrow> (snapshot \<Rightarrow> (snapshot \<times> time) list)
      \<Rightarrow> snapshot \<Rightarrow> snapshot \<Rightarrow> snapshot \<Rightarrow> snapshot \<times> (http_error + string \<times> (http_error + nat \<times> result_reply) option)" where
  "handle_job_run C X cat e e' render get actor request_id w app action wait b now rounds s0 s s1 =
    (case (if wait then parse_run_wait_timeout (get ''timeout_ms'') else Inr 0) of
       Inl err \<Rightarrow> (s, Inl err)
     | Inr timeout \<Rightarrow>
       (case read_run_input b of
          Inl err \<Rightarrow> (s, Inl err)
        | Inr input \<Rightarrow>
          (case api_enqueue_job C X cat e e' actor request_id w app action ''api'' input raw_nil s0 s s1 of
             (t, Inl err) \<Rightarrow> (t, Inl err)
           | (t, Inr j) \<Rightarrow>
             (t, Inr (job_id j, if wait then wait_for_job_result render C w (job_id j) (now + timeout) (rounds t) else None)))))"

text \<open>
  The body of a webhook is handed on as one JSON string. What marshalling does to bytes that are no UTF-8 is not modelled.
\<close>

definition handle_job_webhook ::
    "input_crypto \<Rightarrow> schema_lib \<Rightarrow> catalog_service \<Rightarrow> call_env \<Rightarrow> call_env \<Rightarrow> string \<Rightarrow> string \<Rightarrow> string \<Rightarrow> string \<Rightarrow> string
      \<Rightarrow> http_error + string \<Rightarrow> (string, string list) gomap \<Rightarrow> snapshot \<Rightarrow> snapshot \<Rightarrow> snapshot \<Rightarrow> snapshot \<times> (http_error + string)" where
  "handle_job_webhook C X cat e e' actor request_id w app action body headers s0 s s1 =
    (case body of
       Inl err \<Rightarrow> (s, Inl err)
     | Inr bytes \<Rightarrow>
       (case api_enqueue_job C X cat e e' actor request_id w app action ''webhook'' (RawDoc (JStr bytes))
           (capture_webhook_headers headers) s0 s s1 of
          (t, Inl err) \<Rightarrow> (t, Inl err) | (t, Inr j) \<Rightarrow> (t, Inr (job_id j))))"

section \<open>The execution API\<close>

record execution_run_view =
  erv_run :: string
  erv_job :: string
  erv_state :: run_state
  erv_app :: string
  erv_action :: string
  erv_correlation :: string
  erv_deployment_id :: "string option"
  erv_commit :: string
  erv_bundle_digest :: string
  erv_route_tag :: string
  erv_replayed :: bool
  erv_created_at :: time
  erv_updated_at :: time

definition new_execution_run_view :: "run \<Rightarrow> string \<Rightarrow> bool \<Rightarrow> execution_run_view" where
  "new_execution_run_view r jid replayed =
    (let d = run_deployment r; a = (case dep_action d (run_action r) of None \<Rightarrow> zero_action | Some a \<Rightarrow> a) in
     \<lparr>erv_run = run_id r, erv_job = jid, erv_state = run_state r, erv_app = run_app r, erv_action = run_action r,
      erv_correlation = run_correlation r, erv_deployment_id = dep_deployment_id d, erv_commit = dep_commit d,
      erv_bundle_digest = dep_bundle_digest d, erv_route_tag = effective_route_tag_for_action d a, erv_replayed = replayed,
      erv_created_at = run_created_at r, erv_updated_at = run_updated_at r\<rparr>)"

text \<open>The body decoded, \<open>None\<close> when that fails; the header \<^verbatim>\<open>Idempotency-Key\<close> goes before the field.\<close>

definition handle_execution_create_run ::
    "input_crypto \<Rightarrow> schema_lib \<Rightarrow> catalog_service \<Rightarrow> call_env \<Rightarrow> call_env \<Rightarrow> string \<Rightarrow> string \<Rightarrow> string \<Rightarrow> create_run_request option
      \<Rightarrow> snapshot \<Rightarrow> snapshot \<Rightarrow> snapshot \<Rightarrow> snapshot \<times> (nat \<times> fault_kind \<times> string + nat \<times> execution_run_view)" where
  "handle_execution_create_run C X cat e e' actor key_header w body s0 s s1 =
    (case body of
       None \<Rightarrow> (s, Inl (400, FaultInvalidRequest, ''request body must be a JSON object''))
     | Some req \<Rightarrow>
       (case service_create_run C X cat e e' (req\<lparr>crr_workspace := w, crr_created_by := actor, crr_permissioned_as := actor,
            crr_idempotency_key := (if trim_space key_header \<noteq> '''' then key_header else crr_idempotency_key req)\<rparr>) s0 s s1 of
          (t, Inl f) \<Rightarrow> (t, Inl (write_execution_fault f))
        | (t, Inr adm) \<Rightarrow> (t, Inr (if adm_replayed adm then 200 else 201,
            new_execution_run_view (adm_run adm) (job_id (adm_job adm)) (adm_replayed adm)))))"

definition handle_execution_get_run :: "input_crypto \<Rightarrow> string \<Rightarrow> string \<Rightarrow> snapshot \<Rightarrow> nat \<times> fault_kind \<times> string + execution_run_view" where
  "handle_execution_get_run C w rid s =
    (case service_get_run C w rid s of
       Inl f \<Rightarrow> Inl (write_execution_fault f) | Inr r \<Rightarrow> Inr (new_execution_run_view r '''' False))"

record run_result_view =
  rrv_run :: string
  rrv_state :: run_state
  rrv_output :: raw
  rrv_result :: "job_result option"
  rrv_error :: raw

definition handle_execution_run_result :: "input_crypto \<Rightarrow> string \<Rightarrow> string \<Rightarrow> snapshot \<Rightarrow> nat \<times> fault_kind \<times> string + nat \<times> run_result_view" where
  "handle_execution_run_result C w rid s =
    (case service_get_run C w rid s of
       Inl f \<Rightarrow> Inl (write_execution_fault f)
     | Inr r \<Rightarrow> Inr (if terminal_run_state (run_state r) then 200 else 202,
         \<lparr>rrv_run = run_id r, rrv_state = run_state r, rrv_output = run_output r, rrv_result = run_result r, rrv_error = run_error r\<rparr>))"

definition handle_execution_cancel_run ::
    "input_crypto \<Rightarrow> call_env \<Rightarrow> string \<Rightarrow> string \<Rightarrow> string option \<Rightarrow> snapshot \<Rightarrow> snapshot \<Rightarrow> snapshot \<times> (nat \<times> fault_kind \<times> string + execution_run_view)" where
  "handle_execution_cancel_run C e w rid body s0 s =
    (case body of
       None \<Rightarrow> (s, Inl (400, FaultInvalidRequest, ''request body must be valid JSON''))
     | Some reason \<Rightarrow>
       (case service_cancel_run C e w rid reason s0 s of
          (t, Inl f) \<Rightarrow> (t, Inl (write_execution_fault f))
        | (t, Inr r) \<Rightarrow> (t, Inr (new_execution_run_view r '''' False))))"

definition handle_execution_describe_app :: "schema_lib \<Rightarrow> catalog_service \<Rightarrow> string \<Rightarrow> string \<Rightarrow> nat \<times> fault_kind \<times> string + app_description" where
  "handle_execution_describe_app X cat w app =
    (case describe_app X cat w app of Inl f \<Rightarrow> Inl (write_execution_fault f) | Inr d \<Rightarrow> Inr d)"

end
