(* ===== verification/Job_Api_Properties.thy ===== *)
theory Job_Api_Properties
  imports Job_Api Run_Properties
begin

text \<open>
  Cursors read back as what they were made from, the pages a client reads by following them make up the whole list,
  and how long a request waits for a result.
\<close>

section \<open>Cursors read back\<close>

lemma url_value_digit: "n < 64 \<Longrightarrow> url_value (url_digit (b64_digit n)) = Some n"
proof -
  assume n: "n < 64"
  have v: "b64_value (b64_digit n) = Some n" using n by (rule b64_value_digit)
  consider "b64_digit n = CHR ''+''" | "b64_digit n = CHR ''/''"
    | "b64_digit n \<noteq> CHR ''+''" "b64_digit n \<noteq> CHR ''/''" by blast
  then show ?thesis
  proof cases
    case 1
    with v have "n = 62" by (simp add: b64_value_def)
    with 1 show ?thesis by (simp add: url_digit_def url_value_def)
  next
    case 2
    with v have "n = 63" by (simp add: b64_value_def)
    with 2 show ?thesis by (simp add: url_digit_def url_value_def)
  next
    case 3
    moreover have "b64_digit n \<noteq> CHR ''-''" "b64_digit n \<noteq> CHR ''_''" using v by (auto simp: b64_value_def)
    ultimately show ?thesis using v by (simp add: url_digit_def url_value_def)
  qed
qed

lemma b64url_groups_digit:
  "n < 64 \<Longrightarrow> length vs < 3 \<Longrightarrow> b64url_groups vs (url_digit (b64_digit n) # cs) = b64url_groups (vs @ [n]) cs"
  by (simp add: url_value_digit)

lemma b64url_groups_four:
  "n < 64 \<Longrightarrow> length vs = 3 \<Longrightarrow>
    b64url_groups vs (url_digit (b64_digit n) # cs) = map_option (\<lambda>out. b64_bytes (vs @ [n]) @ out) (b64url_groups [] cs)"
  by (simp add: url_value_digit)

lemmas b64url_steps = b64url_groups_digit b64url_groups_four b64_digits_of_bytes

lemma b64url_groups_encode: "b64url_groups [] (map url_digit (b64_encode False s)) = Some s"
proof (induction False s rule: b64_encode.induct)
  case (1 x y z rest)
  then have "b64url_groups [] (map url_digit (b64_encode False rest)) = Some rest" by simp
  then show ?case
    by (simp add: Let_def b64url_steps del: b64url_groups.simps(2)) (simp only: b64_bytes_encode append.simps simp_thms)
next
  case (2 x y)
  show ?case by (simp add: Let_def b64url_steps del: b64url_groups.simps(2)) (simp add: b64_bytes_encode)
next
  case (3 x)
  show ?case by (simp add: Let_def b64url_steps del: b64url_groups.simps(2)) (simp add: b64_bytes_encode)
qed (simp add: b64_bytes_def)

lemma b64_encode_digits: "set (b64_encode False s) \<subseteq> b64_digit ` {..<64}"
  by (induction False s rule: b64_encode.induct) (auto simp: Let_def b64_digits_of_bytes intro!: imageI)

lemma url_digit_graphic: "n < 64 \<Longrightarrow> graphic (url_digit (b64_digit n))"
  using b64_value_digit [of n] by (auto simp: url_digit_def graphic_def b64_value_def Let_def split: if_splits)

lemma b64url_graphic: "c \<in> set (b64url_encode s) \<Longrightarrow> graphic c"
  unfolding b64url_encode_def using b64_encode_digits [of s] url_digit_graphic by auto

lemma b64url_round_trip [simp]: "b64url_decode (b64url_encode s) = Some s"
proof -
  have "filter (\<lambda>c. c \<noteq> CHR 0x0A \<and> c \<noteq> CHR 0x0D) (b64url_encode s) = b64url_encode s"
    using b64url_graphic [of "CHR 0x0A" s] b64url_graphic [of "CHR 0x0D" s] by (auto simp: filter_id_conv graphic_def)
  then show ?thesis by (simp add: b64url_decode_def b64url_groups_encode b64url_encode_def)
qed

lemma trim_b64url [simp]: "trim_space (b64url_encode s) = b64url_encode s"
  by (rule trim_space_graphic) (simp add: b64url_graphic [of _ s])

lemma b64url_Nil [simp]: "b64url_encode s = [] \<longleftrightarrow> s = []"
  by (cases "(False, s)" rule: b64_encode.cases) (auto simp: b64url_encode_def Let_def)

lemma cut_at_first: "c \<notin> set a \<Longrightarrow> cut_at c (a @ c # b) = Some (a, b)"
  by (induction a) auto

definition readable_time :: "time_text \<Rightarrow> time \<Rightarrow> bool" where
  "readable_time T t \<longleftrightarrow> tt_parse T (tt_format T t) = Some t \<and> CHR ''|'' \<notin> set (tt_format T t)"

lemma cursor_round_trip:
  "readable_time T t \<Longrightarrow> is_canonical_uuid i \<Longrightarrow> decode_job_cursor T (encode_job_cursor T t i) = Some (t, i)"
  by (auto simp: decode_job_cursor_def encode_job_cursor_def readable_time_def cut_at_first is_canonical_uuid_def)

section \<open>Sorting and filtering commute\<close>

lemma filter_insert_by:
  assumes sw: "strict_weak lt" and "sorted_wrt (\<lambda>x y. \<not> lt y x) xs"
  shows "filter P (insert_by lt x xs) = (if P x then insert_by lt x (filter P xs) else filter P xs)"
  using assms(2)
proof (induction xs)
  case (Cons y ys)
  have "insert_by lt x (filter P ys) = x # filter P ys" if "\<not> lt y x"
  proof -
    have "\<not> lt z x" if "z \<in> set (filter P ys)" for z
      using strict_weakD(2) [OF sw, of y x z] \<open>\<not> lt y x\<close> that Cons.prems by simp
    then show ?thesis by (cases "filter P ys") simp_all
  qed
  with Cons show ?case by auto
qed simp

lemma filter_sort_slice: "strict_weak lt \<Longrightarrow> filter P (sort_slice lt xs) = sort_slice lt (filter P xs)"
  by (induction xs) (simp_all add: filter_insert_by sorted_sort_slice)

lemma strict_item_before: "strict_weak item_before"
  unfolding strict_weak_def item_before_def by (auto split: if_splits)

lemma filter_after_last:
  assumes "sorted_wrt lt (A @ B)" and "A \<noteq> []" and asym: "\<And>x y. lt x y \<Longrightarrow> \<not> lt y x"
  shows "filter (lt (last A)) (A @ B) = B"
proof -
  obtain A' c where A: "A = A' @ [c]" using assms(2) by (cases A rule: rev_cases) auto
  have "\<not> lt c x" if "x \<in> set A" for x
    using that assms(1) asym [of x c] asym [of c c] by (auto simp: A sorted_wrt_append)
  moreover have "lt c x" if "x \<in> set B" for x
    using that assms(1) by (auto simp: A sorted_wrt_append)
  ultimately show ?thesis using A by (auto simp: filter_empty_conv filter_id_conv)
qed

section \<open>The list behind the pages\<close>

definition listed_items :: "(raw \<Rightarrow> string) \<Rightarrow> input_crypto \<Rightarrow> job_list_query \<Rightarrow> snapshot \<Rightarrow> job_list_item list" where
  "listed_items render C q s = list_jobs render C (q\<lparr>jq_limit := 0\<rparr>) s"

definition after_cursor :: "time \<Rightarrow> string \<Rightarrow> job_list_item \<Rightarrow> bool" where
  "after_cursor t i x \<longleftrightarrow> ji_created_at x < t \<or> ji_created_at x = t \<and> ji_id x < i"

lemma after_cursor_item: "after_cursor (ji_created_at c) (ji_id c) = item_before c"
  by (auto simp: after_cursor_def item_before_def fun_eq_iff)

lemma job_listed_cursor:
  assumes "jq_cursor_created_at q = None"
  shows "job_listed (q\<lparr>jq_limit := m, jq_cursor_created_at := Some t, jq_cursor_id := i\<rparr>) j r
    \<longleftrightarrow> job_listed (q\<lparr>jq_limit := 0\<rparr>) j r \<and> after_cursor t i (new_job_list_item render w j r)"
  using assms by (auto simp: job_listed_def after_cursor_def new_job_list_item_def Let_def)

lemma list_jobs_limited:
  assumes "0 < m"
  shows "list_jobs render C (q\<lparr>jq_limit := m\<rparr>) s = take (nat m) (listed_items render C q s)"
proof -
  have "job_listed (q\<lparr>jq_limit := m\<rparr>) = job_listed (q\<lparr>jq_limit := 0\<rparr>)" by (intro ext, cases q) (simp add: job_listed_def split: option.splits)
  then show ?thesis using assms
    by (simp add: listed_items_def list_jobs_def list_jobs_from_records_def Let_def)
qed

lemma listed_items_cursor:
  assumes "jq_cursor_created_at q = None"
  shows "listed_items render C (q\<lparr>jq_cursor_created_at := Some t, jq_cursor_id := i\<rparr>) s
    = filter (after_cursor t i) (listed_items render C q s)"
proof -
  have q: "q\<lparr>jq_cursor_created_at := Some t, jq_cursor_id := i, jq_limit := 0\<rparr>
      = q\<lparr>jq_limit := 0, jq_cursor_created_at := Some t, jq_cursor_id := i\<rparr>" by simp
  show ?thesis
    unfolding listed_items_def list_jobs_def list_jobs_from_records_def Let_def q
      job_listed_cursor [OF assms, where render = render and w = "normalize_workspace (jq_workspace q)"]
    by (simp add: filter_sort_slice [OF strict_item_before] filter_map o_def case_prod_unfold)
qed

lemma item_total: "ji_id x \<noteq> ji_id y \<Longrightarrow> \<not> item_before y x \<Longrightarrow> item_before x y"
  by (auto simp: item_before_def split: if_splits)

lemma listed_items_sorted:
  assumes "distinct (map ji_id (listed_items render C q s))"
  shows "sorted_wrt item_before (listed_items render C q s)"
proof -
  let ?L = "listed_items render C q s"
  have "sorted_wrt (\<lambda>x y. \<not> item_before y x) ?L"
    unfolding listed_items_def list_jobs_def list_jobs_from_records_def Let_def
    by (simp add: sorted_sort_slice [OF strict_item_before])
  moreover have "sorted_wrt (\<lambda>x y. ji_id x \<noteq> ji_id y) ?L"
    using assms by (simp add: distinct_conv_nth sorted_wrt_iff_nth_less)
  ultimately show ?thesis using item_total unfolding sorted_wrt_iff_nth_less by blast
qed

section \<open>Pages\<close>

definition page_of :: "time_text \<Rightarrow> int \<Rightarrow> job_list_item list \<Rightarrow> job_page" where
  "page_of T limit items =
    \<lparr>pg_items = take (nat limit) items, pg_limit = limit, pg_has_more = limit < int (length items),
     pg_next_cursor = (if limit < int (length items)
       then Some (encode_job_cursor T (ji_created_at (last (take (nat limit) items))) (ji_id (last (take (nat limit) items)))) else None)\<rparr>"

lemma handle_job_list_page:
  assumes "parse_job_list_query T get w = Inr q" and "0 < jq_limit q"
  shows "handle_job_list render T C get w s = Inr (page_of T (jq_limit q) (listed_items render C q s))"
proof -
  let ?L = "listed_items render C q s"
  have l: "list_jobs render C (q\<lparr>jq_limit := jq_limit q + 1\<rparr>) s = take (nat (jq_limit q + 1)) ?L"
    using assms(2) by (intro list_jobs_limited) simp
  have more: "jq_limit q < int (length (take (nat (jq_limit q + 1)) ?L)) \<longleftrightarrow> jq_limit q < int (length ?L)"
    using assms(2) by auto
  have t: "take (nat (jq_limit q)) (take (nat (jq_limit q + 1)) ?L) = take (nat (jq_limit q)) ?L"
    by (simp add: min_def)
  show ?thesis using assms(2) more t unfolding handle_job_list_def assms(1) and_then_simps Let_def l page_of_def by simp
qed

text \<open>A client reads a page and asks for the next one with the cursor it was given, up to a number of pages.\<close>

fun follow_pages :: "(string \<Rightarrow> http_error + job_page) \<Rightarrow> nat \<Rightarrow> string \<Rightarrow> job_page list option" where
  "follow_pages ask 0 cursor = None"
| "follow_pages ask (Suc n) cursor =
    (case ask cursor of
       Inl err \<Rightarrow> None
     | Inr p \<Rightarrow> (case pg_next_cursor p of None \<Rightarrow> Some [p] | Some c \<Rightarrow> map_option ((#) p) (follow_pages ask n c)))"

lemma parse_limit:
  assumes "parse_job_list_query T get w = Inr q"
  shows "0 < jq_limit q"
  using assms by (auto simp: parse_job_list_query_def Let_def default_job_list_limit_def and_then_eq_Inr split: if_splits option.splits prod.splits)

lemma parse_cursor:
  assumes "parse_job_list_query T (get(''cursor'' := '''')) w = Inr q"
    and "decode_job_cursor T c = Some (t, i)" and "trim_space c = c" and "c \<noteq> ''''"
  shows "jq_cursor_created_at q = None"
    and "parse_job_list_query T (get(''cursor'' := c)) w = Inr (q\<lparr>jq_cursor_created_at := Some t, jq_cursor_id := i\<rparr>)"
proof -
  have g: "(get(''cursor'' := v)) ''cursor'' = v" "(get(''cursor'' := v)) ''status'' = get ''status''"
    "(get(''cursor'' := v)) ''order'' = get ''order''" "(get(''cursor'' := v)) ''limit'' = get ''limit''"
    "(get(''cursor'' := v)) ''since'' = get ''since''" "(get(''cursor'' := v)) ''until'' = get ''until''"
    "(get(''cursor'' := v)) ''app'' = get ''app''" "(get(''cursor'' := v)) ''action'' = get ''action''"
    "(get(''cursor'' := v)) ''trigger_kind'' = get ''trigger_kind''" for v by simp_all
  note parse = parse_job_list_query_def [unfolded Let_def, of T "get(''cursor'' := v)" w for v, unfolded g]
  note q = assms(1) [unfolded parse trim_space_Nil]
  show "jq_cursor_created_at q = None" using q by (auto simp: and_then_eq_Inr split: if_splits)
  show "parse_job_list_query T (get(''cursor'' := c)) w = Inr (q\<lparr>jq_cursor_created_at := Some t, jq_cursor_id := i\<rparr>)"
    using q assms(4) unfolding parse assms(2,3) by (auto simp: and_then_eq_Inr split: if_splits)
qed

lemma follow_pages_rest:
  assumes ask: "\<And>A B. L = A @ B \<Longrightarrow> A \<noteq> [] \<Longrightarrow> B \<noteq> [] \<Longrightarrow>
      ask (encode_job_cursor T (ji_created_at (last A)) (ji_id (last A))) = Inr (page_of T limit B)"
    and "0 < limit"
  shows "ask c = Inr (page_of T limit B) \<Longrightarrow> L = A @ B \<Longrightarrow> length B \<le> n \<Longrightarrow>
    \<exists>ps. follow_pages ask (Suc n) c = Some ps \<and> concat (map pg_items ps) = B \<and> (\<forall>p \<in> set ps. int (length (pg_items p)) \<le> limit)"
proof (induction n arbitrary: A B c)
  case 0
  then show ?case using assms(2) by (simp add: page_of_def)
next
  case (Suc n)
  show ?case
  proof (cases "limit < int (length B)")
    case False
    then have "take (nat limit) B = B" by simp
    with False Suc.prems(1) show ?thesis by (simp add: page_of_def)
  next
    case True
    let ?X = "take (nat limit) B" and ?Y = "drop (nat limit) B"
    let ?c = "encode_job_cursor T (ji_created_at (last ?X)) (ji_id (last ?X))"
    have ne: "?X \<noteq> []" "?Y \<noteq> []" using True assms(2) by auto
    have L: "L = (A @ ?X) @ ?Y" using Suc.prems(2) by simp
    have "ask ?c = Inr (page_of T limit ?Y)"
      using ask [OF L] ne by simp
    moreover have "length ?Y \<le> n" using Suc.prems(3) ne assms(2) True by simp
    ultimately obtain ps where ps: "follow_pages ask (Suc n) ?c = Some ps"
        "concat (map pg_items ps) = ?Y" "\<forall>p \<in> set ps. int (length (pg_items p)) \<le> limit"
      using Suc.IH [OF _ L] by blast
    have page: "pg_items (page_of T limit B) = ?X" "pg_next_cursor (page_of T limit B) = Some ?c"
      using True by (simp_all add: page_of_def)
    have "follow_pages ask (Suc (Suc n)) c = Some (page_of T limit B # ps)"
      unfolding follow_pages.simps(2) [of ask "Suc n"] Suc.prems(1) sum.case page option.case ps(1) by simp
    then show ?thesis using ps page True assms(2) by auto
  qed
qed

section \<open>The pages make up the list\<close>

lemma job_records_jobs:
  "map fst (job_records C s) = filter (\<lambda>j. map_of (sn_runs s) (job_run j) \<noteq> None) (mvals (sn_jobs s))"
proof -
  have "map fst (concat (map (\<lambda>j. case map_of (sn_runs s) (job_run j) of None \<Rightarrow> [] | Some r \<Rightarrow> [(j, f j r)]) js))
      = filter (\<lambda>j. map_of (sn_runs s) (job_run j) \<noteq> None) js" for f :: "job \<Rightarrow> run \<Rightarrow> run" and js
    by (induction js) (auto split: option.splits)
  then show ?thesis unfolding job_records_def .
qed

lemma distinct_map_sort_slice: "distinct (map f (sort_slice lt xs)) \<longleftrightarrow> distinct (map f xs)"
proof -
  have "distinct (map f ys) \<longleftrightarrow> card (f ` set ys) = length ys" for ys
    by (metis card_distinct distinct_card length_map set_map)
  then show ?thesis by simp
qed

lemma listed_item_job:
  assumes "x \<in> set (listed_items render C q s)"
  shows "\<exists>j \<in> set (mvals (sn_jobs s)). ji_id x = job_id j \<and> ji_created_at x = job_created_at j"
proof -
  from assms obtain j r where r: "(j, r) \<in> set (job_records C s)" and x: "x = new_job_list_item render (normalize_workspace (jq_workspace q)) j r"
    by (auto simp: listed_items_def list_jobs_def list_jobs_from_records_def Let_def)
  from r have "j \<in> fst ` set (job_records C s)" by force
  then have "j \<in> set (mvals (sn_jobs s))"
    using job_records_jobs [of C s] by (metis (no_types, lifting) filter_is_subset set_map subsetD)
  then show ?thesis by (auto simp: x new_job_list_item_def Let_def)
qed

lemma listed_items_distinct:
  assumes "map_ok (sn_jobs s)" and "\<forall>(k, j) \<in> set (sn_jobs s). job_id j = k"
  shows "distinct (map ji_id (listed_items render C q s))"
proof -
  let ?w = "normalize_workspace (jq_workspace q)" and ?R = "job_records C s"
  have "map job_id (mvals (sn_jobs s)) = mkeys (sn_jobs s)"
    using assms(2) by (auto simp: mvals_def mkeys_def)
  then have "distinct (map job_id (mvals (sn_jobs s)))" using assms(1) by (simp add: map_ok_def)
  then have "distinct (map job_id (map fst ?R))"
    unfolding job_records_jobs by (rule distinct_map_filter)
  moreover have "map ji_id (map (\<lambda>(j, r). new_job_list_item render ?w j r) rs) = map job_id (map fst rs)" for rs
    by (auto simp: new_job_list_item_def Let_def)
  ultimately show ?thesis
    unfolding listed_items_def list_jobs_def list_jobs_from_records_def Let_def
    by (simp add: distinct_map_sort_slice del: map_map) (simp add: distinct_map_filter)
qed

text \<open>C28. A client that lists jobs and follows the cursor of each page to the next ends after at most as many pages
as there are jobs to list, and one; the pages together are the whole list, no job twice and none left out, and no page
is longer than the limit asked for: provided that job identifiers are the UUIDs the store makes and that times read
back from their text.\<close>

theorem pages_enumerate_jobs:
  assumes keys: "map_ok (sn_jobs s)" "\<forall>(k, j) \<in> set (sn_jobs s). job_id j = k"
    and texts: "\<forall>j \<in> set (mvals (sn_jobs s)). is_canonical_uuid (job_id j) \<and> readable_time T (job_created_at j)"
    and q: "parse_job_list_query T (get(''cursor'' := '''')) w = Inr q"
  shows "\<exists>pages. follow_pages (\<lambda>c. handle_job_list render T C (get(''cursor'' := c)) w s)
        (Suc (length (list_jobs render C (q\<lparr>jq_limit := 0\<rparr>) s))) '''' = Some pages
      \<and> concat (map pg_items pages) = list_jobs render C (q\<lparr>jq_limit := 0\<rparr>) s
      \<and> (\<forall>p \<in> set pages. int (length (pg_items p)) \<le> jq_limit q)"
proof -
  let ?L = "listed_items render C q s"
  let ?ask = "\<lambda>c. handle_job_list render T C (get(''cursor'' := c)) w s"
  note limit = parse_limit [OF q]
  have sorted: "sorted_wrt item_before ?L" by (rule listed_items_sorted) (rule listed_items_distinct [OF keys])
  have "?ask (encode_job_cursor T (ji_created_at (last A)) (ji_id (last A))) = Inr (page_of T (jq_limit q) B)"
    if L: "?L = A @ B" and A: "A \<noteq> []" for A B
  proof -
    let ?x = "last A"
    have "?x \<in> set ?L" using L A by simp
    from listed_item_job [OF this] texts have x: "readable_time T (ji_created_at ?x)" "is_canonical_uuid (ji_id ?x)" by auto
    let ?q = "q\<lparr>jq_cursor_created_at := Some (ji_created_at ?x), jq_cursor_id := ji_id ?x\<rparr>"
    note cur = parse_cursor [OF q cursor_round_trip [OF x]]
    have trim: "trim_space (encode_job_cursor T (ji_created_at ?x) (ji_id ?x)) = encode_job_cursor T (ji_created_at ?x) (ji_id ?x)"
      "encode_job_cursor T (ji_created_at ?x) (ji_id ?x) \<noteq> ''''" by (simp_all add: encode_job_cursor_def)
    have "listed_items render C ?q s = filter (item_before ?x) (A @ B)"
      unfolding listed_items_cursor [OF cur(1) [OF trim]] after_cursor_item L ..
    also have "\<dots> = B"
      using sorted A strict_weakD(1) [OF strict_item_before] unfolding L by (rule filter_after_last)
    finally show ?thesis
      using handle_job_list_page [OF cur(2) [OF trim], where s = s] limit by simp
  qed
  moreover have "?ask '''' = Inr (page_of T (jq_limit q) ?L)" by (rule handle_job_list_page [OF q limit])
  ultimately show ?thesis
    using follow_pages_rest [of ?L ?ask T "jq_limit q" "''''" ?L "[]" "length ?L"] limit
    unfolding listed_items_def by simp
qed

definition ex_time_text :: time_text where
  "ex_time_text = \<lparr>tt_format = itoa, tt_parse = parse_int64\<rparr>"

definition ex_paged_job :: "string \<Rightarrow> string \<times> job" where
  "ex_paged_job i = (i, ex_job\<lparr>job_id := i\<rparr>)"

definition ex_paged :: snapshot where
  "ex_paged = empty_snapshot\<lparr>sn_runs := [(''r1'', ex_run)],
     sn_jobs := [ex_paged_job ''00000000-0000-4000-8000-00000000000a'', ex_paged_job ''00000000-0000-4000-8000-00000000000b'']\<rparr>"

definition ex_one_per_page :: "string \<Rightarrow> string" where
  "ex_one_per_page k = (if k = ''limit'' then ''1'' else '''')"

definition paged_facts :: "http_error + job_list_query \<Rightarrow> bool" where
  "paged_facts x = (case x of Inl err \<Rightarrow> False
     | Inr q \<Rightarrow> length (list_jobs (\<lambda>_. '''') ex_plain (q\<lparr>jq_limit := 0\<rparr>) ex_paged) = 2)"

theorem pages_enumerate_jobs_witness:
  "\<exists>pages. follow_pages (\<lambda>c. handle_job_list (\<lambda>_. '''') ex_time_text ex_plain (ex_one_per_page(''cursor'' := c)) ''main'' ex_paged) 3 ''''
      = Some pages \<and> length (concat (map pg_items pages)) = 2"
proof -
  have "paged_facts (parse_job_list_query ex_time_text (ex_one_per_page(''cursor'' := '''')) ''main'')" by code_simp
  then obtain q where q: "parse_job_list_query ex_time_text (ex_one_per_page(''cursor'' := '''')) ''main'' = Inr q"
    and two: "length (list_jobs (\<lambda>_. '''') ex_plain (q\<lparr>jq_limit := 0\<rparr>) ex_paged) = 2"
    by (auto simp: paged_facts_def split: sum.splits)
  have created: "job_created_at ex_job = 1" by code_simp
  have ids: "is_canonical_uuid ''00000000-0000-4000-8000-00000000000a''" "is_canonical_uuid ''00000000-0000-4000-8000-00000000000b''"
    by code_simp+
  have keys: "map_ok (sn_jobs ex_paged)" "\<forall>(k, j) \<in> set (sn_jobs ex_paged). job_id j = k"
    by (simp_all add: ex_paged_def ex_paged_job_def map_ok_def mkeys_def)
  have one: "readable_time ex_time_text 1"
    unfolding readable_time_def ex_time_text_def by code_simp
  have "\<forall>j \<in> set (mvals (sn_jobs ex_paged)). is_canonical_uuid (job_id j) \<and> readable_time ex_time_text (job_created_at j)"
    using ids created one by (simp add: ex_paged_def ex_paged_job_def mvals_def)
  with pages_enumerate_jobs [OF keys _ q, of "\<lambda>_. ''''" ex_plain] two show ?thesis
    by (auto simp: numeral_3_eq_3 numeral_2_eq_2)
qed

section \<open>How long a request waits\<close>

lemma wrap64_eq: "wrap64 x = (x + 2 ^ 63) mod 2 ^ 64 - 2 ^ 63"
  by (simp add: wrap64_def signed_take_bit_eq_take_bit_shift take_bit_eq_mod)

lemma wrap64_negative:
  assumes "2 ^ 63 \<le> x" and "x < 2 ^ 64"
  shows "wrap64 x < 0"
proof -
  have "(x + 2 ^ 63) mod 2 ^ 64 = (x - 2 ^ 63) mod 2 ^ 64"
    using mod_add_self2 [of "x - 2 ^ 63" "2 ^ 64 :: int"] by (simp add: add.commute)
  also have "\<dots> = x - 2 ^ 63" using assms by (intro mod_pos_pos_trivial) simp_all
  finally show ?thesis using assms(2) by (simp add: wrap64_eq)
qed

text \<open>C30. A request to run an action and wait for its result asks for a number of milliseconds. Up to 9223372036854 of
them it waits for the smaller of that and 30 seconds. Past that the product with a million nanoseconds wraps around, and
only what is left of it is compared with the limit: from 9223372036855 to 18446744073709 milliseconds it is
negative, the wait is over after one look at the job, and a job that is not done by then is answered as
pending at once; beyond, any duration up to the limit comes out, of either sign.\<close>

theorem long_wait_ends_at_once:
  assumes "handle_job_result render C w jid s = Inr (202, ResultPending)" and "now \<le> now'"
    and "parse_int64 (trim_space raw) = Some n" and "0 \<le> n"
  shows "\<exists>t. parse_run_wait_timeout raw = Inr t
    \<and> t = min (seconds 30) ((n * 1000000 + 2 ^ 63) mod 2 ^ 64 - 2 ^ 63)
    \<and> (n \<le> 9223372036854 \<longrightarrow> t = min (seconds 30) (n * 1000000))
    \<and> (9223372036855 \<le> n \<and> n \<le> 18446744073709 \<longrightarrow> t < 0
        \<and> wait_for_job_result render C w jid (now + t) ((s, now') # rounds) = Some (Inr (202, ResultPending)))"
proof -
  define t where "t = min (seconds 30) (wrap64 (n * 1000000))"
  have "trim_space raw \<noteq> ''''" using assms(3) by (auto simp: parse_int64_def)
  then have out: "parse_run_wait_timeout raw = Inr t"
    using assms(3,4) by (simp add: t_def parse_run_wait_timeout_def max_run_wait_timeout_def Let_def min_def)
  have neg: "t < 0" if "9223372036855 \<le> n \<and> n \<le> 18446744073709"
  proof -
    have "wrap64 (n * 1000000) < 0" by (rule wrap64_negative) (use that in simp_all)
    then show ?thesis by (simp add: t_def)
  qed
  have small: "t = min (seconds 30) (n * 1000000)" if "n \<le> 9223372036854"
  proof -
    have "wrap64 (n * 1000000) = n * 1000000" using that assms(4) by (intro wrap64_id) auto
    then show ?thesis by (simp add: t_def)
  qed
  have "wait_for_job_result render C w jid (now + t) ((s, now') # rounds) = Some (Inr (202, ResultPending))" if "t < 0"
    using that assms(1,2) by simp
  with out neg small t_def show ?thesis unfolding wrap64_eq by blast
qed

definition is_pending :: "http_error + nat \<times> result_reply \<Rightarrow> bool" where
  "is_pending x = (case x of Inr (c, ResultPending) \<Rightarrow> c = 202 | _ \<Rightarrow> False)"

theorem long_wait_ends_at_once_witness:
  "\<exists>t < 0. parse_run_wait_timeout ''9999999999999'' = Inr t
    \<and> wait_for_job_result (\<lambda>_. '''') ex_plain ''main'' ''job1'' (5 + t) [(ex_created, 5)] = Some (Inr (202, ResultPending))"
proof -
  have "is_pending (handle_job_result (\<lambda>_. '''') ex_plain ''main'' ''job1'' ex_created)" by code_simp
  then have pending: "handle_job_result (\<lambda>_. '''') ex_plain ''main'' ''job1'' ex_created = Inr (202, ResultPending)"
    by (auto simp: is_pending_def split: sum.splits prod.splits result_reply.splits if_splits)
  have trim: "trim_space ''9999999999999'' = ''9999999999999''" by (simp add: trim_space_graphic graphic_def)
  have "parse_int64 (trim_space ''9999999999999'') = Some 9999999999999"
    unfolding trim by (simp add: parse_int64_def is_digit_def)
  from long_wait_ends_at_once [OF pending _ this, of 5 5 "[]"] show ?thesis by auto
qed

section \<open>What a worker reports is what a client reads\<close>

lemma encrypt_result_Inr:
  assumes "prims_ok (prims C) (raw_doc (canonical_json_value v null_doc))" and "length nonce = nonce_size"
    and "\<not> is_enc (canonical_json_value v null_doc)" and "encrypt_result C nonce w v = Inr out"
  shows "decrypt_result C w out = Inr (canonical_json_value v null_doc)" and "\<not> raw_empty out"
  using at_rest_round_trip_json [OF assms(1-3), of None] assms(4) 
  by (auto simp: encrypt_result_def decrypt_result_def encrypt_result_at_rest_def decrypt_result_at_rest_def
      encrypt_json_at_rest_Inr raw_empty_def wrap_enc_def split: if_splits)

lemma job_workspace_frame:
  "normalized_job_workspace '''' (finish_job st now j) = normalized_job_workspace '''' j"
  "normalized_job_workspace '''' (j\<lparr>job_payload := (job_payload j)\<lparr>jp_input := x\<rparr>\<rparr>) = normalized_job_workspace '''' j"
  by (simp_all add: normalized_job_workspace_def finish_job_def Let_def pinned_deployment_input)

text \<open>C29. Once the store has taken the report of a worker that its job succeeded, a client that asks for the result of
that job gets status 200 and success with the very document the worker reported (null when it reported none), whichever
secret encrypts results at rest: provided that the job could be read before, was not canceled, and that the document is
not itself an envelope.\<close>

theorem reported_result_is_returned:
  assumes reach: "reachable store_start (store_step C) s"
    and read: "get_job C w (lease_job l) s = Inr (Some (j, r))" and kept: "job_canceled_by j = None"
    and report: "local_complete_succeeded C e l res s = Inr (t, ())"
    and prims: "prims_ok (prims C) (raw_doc (canonical_json_value (res_output res) null_doc))"
      "length (draw_nonce e ''result'' 0) = nonce_size" "\<not> is_enc (canonical_json_value (res_output res) null_doc)"
  shows "handle_job_result render C w (lease_job l) t
    = Inr (200, ResultDone ''success'' (canonical_json_value (res_output res) null_doc))"
proof -
  let ?s = "ensure_snapshot e s" and ?doc = "canonical_json_value (res_output res) null_doc"
  have inv: "store_inv ?s" using store.reachable_good [OF reach] by simp
  from report obtain j0 r0 where l: "leased_job_and_run ?s l (clock e) = Inr (j0, r0)"
    by (auto simp: local_complete_succeeded_def update_def complete_job_succeeded_def complete_leased_def and_then_eq_Inr)
  have v: "job_view s (lease_job l) = Some j0" "run_view s (job_run j0) = Some r0"
    using leased_active [OF l] by simp_all
  have ids: "job_id j0 = lease_job l" "run_id r0 = job_run j0"
    using ids_of [OF inv] leased_active [OF l] by auto
  let ?w = "normalized_job_workspace '''' j0"
  from read v obtain ji ri where w: "?w = normalize_workspace w"
    and d: "decrypt_input C ?w (jp_input (job_payload j0)) = Inr ji"
      "decrypt_input C (source_workspace (run_deployment r0)) (run_input r0) = Inr ri"
    and j: "j = j0\<lparr>job_payload := (job_payload j0)\<lparr>jp_input := ji\<rparr>\<rparr>"
    by (auto simp: get_job_def lookup_views and_then_eq_Inr Let_def split: if_splits)
  from report l j kept ids obtain out where out: "encrypt_result C (draw_nonce e ''result'' 0) ?w (res_output res) = Inr out"
    and tj: "job_view t (lease_job l) = Some (finish_job JobSucceeded (clock e) j0)"
    and tr: "run_view t (job_run j0) = Some (r0\<lparr>run_state := RunSucceeded, run_output := out,
        run_result := Some (res\<lparr>res_output := out\<rparr>), run_error := raw_nil, run_task := '''', run_updated_at := clock e\<rparr>)"
    by (auto simp: local_complete_succeeded_def update_def complete_job_succeeded_def complete_leased_def and_then_eq_Inr
        encrypt_job_result_def Let_def finish_job_def)
  have pay: "job_payload (finish_job JobSucceeded (clock e) j0) = job_payload j0" by (simp add: finish_job_def)
  have same: "normalized_job_workspace '''' (finish_job JobSucceeded (clock e) j0) = ?w"
    "normalized_job_workspace '''' ((finish_job JobSucceeded (clock e) j0)\<lparr>job_payload := (job_payload j0)\<lparr>jp_input := ji\<rparr>\<rparr>) = ?w"
    using job_workspace_frame(2) [where j = "finish_job JobSucceeded (clock e) j0" and x = ji] by (simp_all add: job_workspace_frame(1) pay)
  note dec = encrypt_result_Inr [OF prims out]
  have doc: "\<not> raw_empty ?doc" by (auto simp: canonical_json_value_def null_doc_def raw_empty_def)
  have "\<exists>j' r'. get_job C w (lease_job l) t = Inr (Some (j', r')) \<and> job_state j' = JobSucceeded
      \<and> run_state r' = RunSucceeded \<and> run_output r' = ?doc"
    using tj tr same w d dec
    by (simp add: get_job_def lookup_views decrypt_run_result_def Let_def pay) (simp add: finish_job_def decrypt_run_result_def)
  then show ?thesis using doc
    by (auto simp: handle_job_result_def found_job_def job_result_of_def terminal_job_status_def raw_or_null_def Let_def)
qed

definition claimed_readable :: "store_error + snapshot \<times> (job \<times> lease) \<Rightarrow> bool" where
  "claimed_readable x = (case x of Inl err \<Rightarrow> False
     | Inr (t, _) \<Rightarrow> (case get_job ex_plain ''main'' ''job1'' t of Inr (Some (j, r)) \<Rightarrow> job_canceled_by j = None | _ \<Rightarrow> False))"

definition ex_null_result :: job_result where
  "ex_null_result = ex_result\<lparr>res_output := null_doc\<rparr>"

theorem reported_result_is_returned_witness:
  "\<exists>t l u. (\<exists>j. local_claim_job ex_plain (ex_at 2) ''w1'' [] [] (seconds 30) ex_created = Inr (t, (j, l)))
    \<and> local_complete_succeeded ex_plain (ex_at 3) l ex_null_result t = Inr (u, ())
    \<and> handle_job_result (\<lambda>_. '''') ex_plain ''main'' ''job1'' u = Inr (200, ResultDone ''success'' (null_doc))"
proof -
  obtain j r t where c: "local_claim_job ex_plain (ex_at 2) ''w1'' [] [] (seconds 30) ex_created = Inr (t, (j, lease_of j 2 (seconds 30)))"
    and one: "one_run j r t" "job_state j = JobRunning" "job_id j = ''job1''" "job_lease_expires_at j = Some (2 + seconds 30)"
    using ex_claim by blast
  have doc: "canonical_json_value (res_output ex_null_result) null_doc = null_doc"
    by (simp add: ex_null_result_def ex_result_def canonical_json_value_def raw_empty_def null_doc_def)
  have "clock (ex_at 3) \<le> 2 + seconds 30" by (simp add: ex_at_def seconds_def)
  with one_run_done [OF one(1,2,4), of "ex_at 3" ex_null_result ex_plain 2 "seconds 30"] doc
  obtain u where u: "local_complete_succeeded ex_plain (ex_at 3) (lease_of j 2 (seconds 30)) ex_null_result t = Inr (u, ())"
    by (auto simp: null_doc_def)
  have "claimed_readable (local_claim_job ex_plain (ex_at 2) ''w1'' [] [] (seconds 30) ex_created)" by code_simp
  then obtain j' r' where read: "get_job ex_plain ''main'' ''job1'' t = Inr (Some (j', r'))" "job_canceled_by j' = None"
    unfolding c claimed_readable_def by (auto split: sum.splits option.splits)
  have reach: "reachable store_start (store_step ex_plain) t"
    using ex_created_reachable step_claim [OF c] by (rule reachable_step)
  have "lease_job (lease_of j 2 (seconds 30)) = ''job1''" by (simp add: lease_of_def one(3))
  with reported_result_is_returned [OF reach _ read(2) u, of "''main''" r'] read(1) doc c u show ?thesis
    by (auto simp: ex_plain_def ex_crypto_def ex_prims_ok is_enc_def raw_doc_def ex_at_def nonce_size_def null_doc_def)
qed

end
