(* ===== verification/Manifest.thy ===== *)
theory Manifest
  imports Execution_Service
begin

text \<open>
  The manifest \<^verbatim>\<open>windforce.json\<close> of an app (\<^verbatim>\<open>internal/manifest/manifest.go\<close>): its defaults, its checks, and the labels
  its jobs require. Decoding the text is an argument; a message of the code is a constructor of \<open>manifest_error\<close>. The code ranges
  over the actions in any order; here it is the order of the list.
\<close>

section \<open>Data\<close>

record app =
  man_app :: string
  man_name :: string
  man_entrypoint :: string
  man_runtime :: string
  man_script_lang :: string
  man_timeout_s :: int
  man_tag :: string
  man_max_concurrent :: "int option"
  man_capabilities :: "string list"
  man_runs_on :: "string list"
  man_actions :: "(string, action) gomap"

datatype manifest_error =
    ManifestMissing | ManifestUnreadable string | ManifestSyntax | BadAppKey string | FlowsDeclared string | NoActions
  | BadAppEntrypoint string | BadMaxConcurrent string | BadAppCapabilities label_error | BadAppRunsOn label_error
  | BadActionKey string | BadActionCapabilities string label_error | BadActionRunsOn string label_error
  | BadCombinedRunsOn string label_error | AdapterDeclared string | CommandDeclared string | NoEntrypoint string
  | BadActionEntrypoint string string

text \<open>A decoded manifest: the app and the names of the flows it declares.\<close>

record manifest_file =
  mf_app :: app
  mf_flows :: "string list"

definition manifest_name :: string where "manifest_name = ''windforce.json''"

section \<open>Actions\<close>

text \<open>A path that leaves the app: \<^verbatim>\<open>filepath.IsAbs\<close> is the leading slash.\<close>

definition outside_path :: "string \<Rightarrow> bool" where
  "outside_path p \<longleftrightarrow> prefix ''/'' p \<or> has_infix ''..'' p"

definition clear_runtime_owned :: "action \<Rightarrow> action" where
  "clear_runtime_owned a = a\<lparr>act_tag_override := None, act_input_body := raw_nil, act_output_body := raw_nil,
     act_operator_body := raw_nil, act_updated_at := None\<rparr>"

definition action_timeout_ms :: "app \<Rightarrow> action \<Rightarrow> int" where
  "action_timeout_ms m a =
    (if act_timeout_ms a \<noteq> 0 then act_timeout_ms a
     else case act_timeout_s a of
       Some s \<Rightarrow> s * 1000
     | None \<Rightarrow> if 0 < man_timeout_s m then man_timeout_s m * 1000 else 0)"

definition apply_app_defaults :: "app \<Rightarrow> action \<Rightarrow> action" where
  "apply_app_defaults m a =
    a\<lparr>act_entrypoint := (if act_entrypoint a = '''' then man_entrypoint m else act_entrypoint a),
      act_runtime := (if act_runtime a = '''' then man_script_lang m else act_runtime a),
      act_timeout_ms := action_timeout_ms m a\<rparr>"

definition validate_executable_action :: "string \<Rightarrow> string \<Rightarrow> action \<Rightarrow> manifest_error option" where
  "validate_executable_action app name a =
    (if act_adapter a \<noteq> None then Some (AdapterDeclared name)
     else if act_command a \<noteq> [] then Some (CommandDeclared name)
     else if act_entrypoint a = '''' then Some (NoEntrypoint app)
     else if outside_path (act_entrypoint a) then Some (BadActionEntrypoint name (act_entrypoint a))
     else None)"

definition error_as :: "('a \<Rightarrow> 'b) \<Rightarrow> 'a + 'c \<Rightarrow> 'b + 'c" where
  "error_as f x = map_sum f id x"

definition action_capabilities :: "string \<Rightarrow> action \<Rightarrow> manifest_error + action" where
  "action_capabilities name a =
    (case act_capabilities a of
       None \<Rightarrow> Inr a
     | Some caps \<Rightarrow> and_then (error_as (BadActionCapabilities name) (normalize_capabilities caps))
         (\<lambda>caps. Inr (a\<lparr>act_capabilities := Some caps\<rparr>)))"

definition option_list :: "string list option \<Rightarrow> string list" where
  "option_list x = (case x of None \<Rightarrow> [] | Some l \<Rightarrow> l)"

definition action_runs_on :: "app \<Rightarrow> string \<Rightarrow> action \<Rightarrow> manifest_error + action" where
  "action_runs_on m name a =
    (if act_runs_on a = None \<and> act_capabilities a = None then Inr a
     else and_then (error_as (BadActionRunsOn name) (normalize_labels (option_list (act_runs_on a) @ option_list (act_capabilities a)) False))
       (\<lambda>labels. and_then (error_as (BadCombinedRunsOn name) (normalize_labels (man_runs_on m @ labels) False))
         (\<lambda>_. Inr (a\<lparr>act_runs_on := Some labels\<rparr>))))"

definition parse_action :: "app \<Rightarrow> string \<Rightarrow> action \<Rightarrow> manifest_error + action" where
  "parse_action m name a =
    (if \<not> valid_action_key name then Inl (BadActionKey name)
     else
       and_then (action_capabilities name (clear_runtime_owned (a\<lparr>act_key := name\<rparr>))) (\<lambda>a.
       and_then (action_runs_on m name a) (\<lambda>a.
         let a = apply_app_defaults m a in
         case validate_executable_action (man_app m) name a of Some err \<Rightarrow> Inl err | None \<Rightarrow> Inr a)))"

fun parse_actions :: "app \<Rightarrow> (string, action) gomap \<Rightarrow> manifest_error + (string, action) gomap" where
  "parse_actions m [] = Inr []"
| "parse_actions m ((name, a) # rest) =
    and_then (parse_action m name a) (\<lambda>a. and_then (parse_actions m rest) (\<lambda>rest. Inr ((name, a) # rest)))"

section \<open>The manifest\<close>

definition app_defaults :: "app \<Rightarrow> app" where
  "app_defaults m =
    m\<lparr>man_runtime := '''', man_script_lang := (if man_script_lang m = '''' then ''typescript'' else man_script_lang m),
      man_timeout_s := (if man_timeout_s m = 0 then default_timeout_s else man_timeout_s m)\<rparr>"

definition app_labels :: "app \<Rightarrow> manifest_error + app" where
  "app_labels m =
    and_then (error_as BadAppCapabilities (normalize_capabilities (man_capabilities m))) (\<lambda>caps.
    and_then (error_as BadAppRunsOn (normalize_labels (man_runs_on m @ caps) False)) (\<lambda>runs_on.
      Inr (m\<lparr>man_capabilities := caps, man_runs_on := runs_on\<rparr>)))"

definition parse_manifest :: "manifest_file \<Rightarrow> manifest_error + app" where
  "parse_manifest f =
    (let m = mf_app f in
     if \<not> valid_app_key (man_app m) then Inl (BadAppKey (man_app m))
     else if mf_flows f \<noteq> [] then Inl (FlowsDeclared (man_app m))
     else if man_actions m = [] then Inl NoActions
     else if outside_path (man_entrypoint m) then Inl (BadAppEntrypoint (man_entrypoint m))
     else
       let m = app_defaults m in
       if (case man_max_concurrent m of None \<Rightarrow> False | Some n \<Rightarrow> n \<le> 0) then Inl (BadMaxConcurrent (man_app m))
       else
         and_then (app_labels m) (\<lambda>m.
         and_then (parse_actions m (man_actions m)) (\<lambda>actions.
           Inr (m\<lparr>man_actions := actions, man_tag := (if man_tag m = '''' then default_route_tag else man_tag m)\<rparr>))))"

definition load_manifest :: "(raw \<Rightarrow> manifest_file option) \<Rightarrow> source_tree \<Rightarrow> manifest_error + app" where
  "load_manifest decode tree =
    (case tree manifest_name of
       FileMissing \<Rightarrow> Inl ManifestMissing
     | FileError err \<Rightarrow> Inl (ManifestUnreadable err)
     | FileData text \<Rightarrow> (case decode text of None \<Rightarrow> Inl ManifestSyntax | Some f \<Rightarrow> parse_manifest f))"

section \<open>What an accepted manifest guarantees\<close>

lemma error_as_Inr [simp]: "error_as f x = Inr y \<longleftrightarrow> x = Inr y"
  by (cases x) (simp_all add: error_as_def)

lemma parse_actions_Inr:
  "parse_actions m as = Inr out \<Longrightarrow>
    list_all2 (\<lambda>(n, a) (n', a'). n' = n \<and> parse_action m n a = Inr a') as out"
proof (induction as arbitrary: out)
  case (Cons x as)
  obtain n a where "x = (n, a)" by (cases x)
  with Cons show ?case by (auto simp: and_then_eq_Inr)
qed simp

text \<open>What the rest of the system relies on of an action.\<close>

definition runnable_action :: "app \<Rightarrow> string \<Rightarrow> action \<Rightarrow> bool" where
  "runnable_action m name a \<longleftrightarrow> valid_action_key name \<and> act_key a = name \<and> act_adapter a = None \<and> act_command a = []
     \<and> act_entrypoint a \<noteq> '''' \<and> \<not> outside_path (act_entrypoint a) \<and> act_runtime a \<noteq> ''''
     \<and> act_tag_override a = None \<and> act_input_body a = raw_nil \<and> act_output_body a = raw_nil \<and> act_operator_body a = raw_nil
"

definition labels_offerable :: "app \<Rightarrow> action \<Rightarrow> bool" where
  "labels_offerable m a \<longleftrightarrow> (\<exists>out. normalize_labels (man_runs_on m @ option_list (act_runs_on a)) False = Inr out)
     \<and> (act_runs_on a = None \<longrightarrow> act_capabilities a = None)"

lemma action_capabilities_Inr:
  "action_capabilities name a = Inr b \<Longrightarrow> \<exists>caps. b = a\<lparr>act_capabilities := caps\<rparr> \<and> (caps = None \<longleftrightarrow> act_capabilities a = None)"
  by (auto simp: action_capabilities_def and_then_eq_Inr split: option.splits)

lemma action_runs_on_Inr:
  assumes "action_runs_on m name a = Inr b" and "\<exists>out. normalize_labels (man_runs_on m) False = Inr out"
  shows "\<exists>r. b = a\<lparr>act_runs_on := r\<rparr> \<and> labels_offerable m b"
proof (cases "act_runs_on a = None \<and> act_capabilities a = None")
  case True
  then have "b = a\<lparr>act_runs_on := act_runs_on a\<rparr>" using assms(1) by (simp add: action_runs_on_def)
  moreover have "labels_offerable m b" using True assms by (simp add: action_runs_on_def labels_offerable_def option_list_def)
  ultimately show ?thesis by blast
next
  case False
  with assms(1) show ?thesis
    by (auto simp: action_runs_on_def labels_offerable_def option_list_def and_then_eq_Inr split: if_splits)
qed

lemma parse_action_Inr:
  assumes "parse_action m name a = Inr b" and "man_script_lang m \<noteq> ''''"
    and "\<exists>out. normalize_labels (man_runs_on m) False = Inr out"
  shows "runnable_action m name b \<and> labels_offerable m b"
proof -
  from assms(1) obtain a1 a2 where
    1: "valid_action_key name" "action_capabilities name (clear_runtime_owned (a\<lparr>act_key := name\<rparr>)) = Inr a1"
    and 2: "action_runs_on m name a1 = Inr a2" and b: "b = apply_app_defaults m a2"
    and v: "validate_executable_action (man_app m) name b = None"
    by (auto simp: parse_action_def and_then_eq_Inr Let_def split: if_splits option.splits)
  from action_capabilities_Inr [OF 1(2)] obtain caps where a1: "a1 = (clear_runtime_owned (a\<lparr>act_key := name\<rparr>))\<lparr>act_capabilities := caps\<rparr>" by blast
  from action_runs_on_Inr [OF 2 assms(3)] obtain r where a2: "a2 = a1\<lparr>act_runs_on := r\<rparr>" "labels_offerable m a2" by blast
  have "labels_offerable m b" using a2(2) by (simp add: b apply_app_defaults_def labels_offerable_def)
  moreover have "runnable_action m name b"
    using v 1(1) assms(2) unfolding runnable_action_def b a2(1) a1
    by (auto simp: validate_executable_action_def apply_app_defaults_def clear_runtime_owned_def action_timeout_ms_def
        split: if_splits)
  ultimately show ?thesis by blast
qed

lemma parse_manifest_Inr:
  assumes "parse_manifest f = Inr m"
  shows "valid_app_key (man_app m)" and "man_app m = man_app (mf_app f)" and "man_actions m \<noteq> []" and "man_tag m \<noteq> ''''"
    and "set (man_capabilities m) \<subseteq> set (man_runs_on m)"
    and "normalize_labels (man_runs_on m) False = Inr (man_runs_on m)"
    and "\<forall>(n, a) \<in> set (man_actions m). runnable_action m n a \<and> labels_offerable m a"
proof -
  let ?m = "app_defaults (mf_app f)"
  from assms obtain m1 as where a: "valid_app_key (man_app (mf_app f))" "man_actions (mf_app f) \<noteq> []"
    and l: "app_labels ?m = Inr m1" and p: "parse_actions m1 (man_actions m1) = Inr as"
    and m: "m = m1\<lparr>man_actions := as, man_tag := (if man_tag m1 = '''' then default_route_tag else man_tag m1)\<rparr>"
    by (auto simp: parse_manifest_def Let_def and_then_eq_Inr split: if_splits)
  from l obtain caps runs_on where n: "normalize_labels (man_capabilities ?m) False = Inr caps"
    "normalize_labels (man_runs_on ?m @ caps) False = Inr runs_on"
    and m1: "m1 = ?m\<lparr>man_capabilities := caps, man_runs_on := runs_on\<rparr>"
    by (auto simp: app_labels_def normalize_capabilities_def and_then_eq_Inr)
  have trim: "trim_space ` set out = set out" if "normalize_labels ls b = Inr out" for ls b out
    using normalize_labels_Inr(4) [OF that] by (auto simp: image_image)
  have again: "normalize_labels out b = Inr out" if "normalize_labels ls b = Inr out" for ls b out
    using normalize_labels_cong [OF that, of out] trim [OF that] normalize_labels_Inr(4) [OF that] by simp
  show "valid_app_key (man_app m)" "man_app m = man_app (mf_app f)" using a by (simp_all add: m m1 app_defaults_def)
  show "man_tag m \<noteq> ''''" by (simp add: m default_route_tag_def)
  note all = parse_actions_Inr [OF p]
  show "man_actions m \<noteq> []" using a(2) all by (auto simp: m m1 app_defaults_def)
  show ro: "normalize_labels (man_runs_on m) False = Inr (man_runs_on m)" using again [OF n(2)] by (simp add: m m1)
  show "set (man_capabilities m) \<subseteq> set (man_runs_on m)"
    using normalize_labels_Inr(4) [OF n(2)] trim [OF n(1)] by (auto simp: m m1)
  have "man_script_lang m1 \<noteq> ''''" by (simp add: m1 app_defaults_def)
  moreover have "\<exists>out. normalize_labels (man_runs_on m1) False = Inr out" using ro by (auto simp: m)
  ultimately have "runnable_action m1 k b \<and> labels_offerable m1 b" if "(k, b) \<in> set as" for k b
    using all that parse_action_Inr by (auto simp: list_all2_conv_all_nth in_set_conv_nth)
  then show "\<forall>(n, a) \<in> set (man_actions m). runnable_action m n a \<and> labels_offerable m a"
    by (auto simp: m runnable_action_def labels_offerable_def)
qed

text \<open>The labels that a job of an accepted app requires are ones a worker can offer: none is reserved, and they are at
most as many as a worker may have.\<close>

lemma required_labels_offerable:
  assumes "normalize_labels (man_runs_on m) False = Inr (man_runs_on m)" and "set (man_capabilities m) \<subseteq> set (man_runs_on m)"
    and "labels_offerable m a" and d: "dep_labels d = man_runs_on m" "dep_capabilities d = man_capabilities m"
  shows "normalize_labels (effective_required_labels d a) False = Inr (effective_required_labels d a)"
proof -
  let ?ls = "man_runs_on m @ option_list (act_runs_on a)" and ?e = "effective_required_labels d a"
  from assms(3) obtain out where out: "normalize_labels ?ls False = Inr out" and c: "act_runs_on a = None \<longrightarrow> act_capabilities a = None"
    by (auto simp: labels_offerable_def)
  note n = normalize_labels_Inr [OF out]
  have base: "(if dep_labels d = [] then dep_capabilities d else dep_labels d) = man_runs_on m"
    using assms(2) by (auto simp: d)
  have "'''' \<notin> set out" using n(5) by (auto simp: label_ok_def)
  then have s: "set ?e = set out"
    using effective_required_labels_spec [of d a] n(4) c unfolding required_label_set_def base
    by (auto simp: option_list_def split: option.splits)
  then have e: "?e = out"
    using effective_required_labels_spec [of d a] n(1,2) by (auto intro: sorted_distinct_set_unique)
  have "trim_space ` set out = set out" using n(4) by (auto simp: image_image)
  then show ?thesis unfolding e using normalize_labels_cong [OF out, of out] n(4) by simp
qed

end
