(* ===== verification/Source_Sync.thy ===== *)
theory Source_Sync
  imports Manifest Job_Runner
begin

text \<open>
  Reading an app out of a Git repository (\<^verbatim>\<open>internal/syncer/syncer.go\<close>), with what it uses of Git
  (\<^verbatim>\<open>internal/source/git.go\<close>, \<^verbatim>\<open>digest.go\<close>) and the store of source bundles (\<^verbatim>\<open>internal/bundle/storage.go\<close>). A directory
  tree is the list of its regular files, by slash path relative to the root, with their bytes. The Git processes, SHA-256,
  URLs and JSON text are arguments; errors of the disk are not modelled.
\<close>

type_synonym file_tree = "(string, string) gomap"

section \<open>The digest of a tree\<close>

definition path_dirs :: "string \<Rightarrow> string list" where
  "path_dirs p = butlast (split_at (CHR ''/'') p)"

definition path_base :: "string \<Rightarrow> string" where
  "path_base p = last (split_at (CHR ''/'') p)"

definition skip_digest_dir :: "string \<Rightarrow> bool" where
  "skip_digest_dir base \<longleftrightarrow> to_lower base \<in> {''.git'', ''node_modules''}"

definition digest_files :: "file_tree \<Rightarrow> file_tree" where
  "digest_files t = filter (\<lambda>(p, b). \<not> list_ex skip_digest_dir (path_dirs p)) t"

text \<open>What is hashed: each path and its bytes, a zero byte after either.\<close>

definition digest_text :: "file_tree \<Rightarrow> string" where
  "digest_text t = concat (map (\<lambda>(p, b). p @ CHR 0x00 # b @ [CHR 0x00]) (sort_slice key_lt (digest_files t)))"

definition tree_digest :: "(string \<Rightarrow> string) \<Rightarrow> file_tree \<Rightarrow> string" where
  "tree_digest hash t = ''sha256-'' @ take 16 (hex_encode (hash (digest_text t)))"

section \<open>Git\<close>

definition git_object_id :: "string \<Rightarrow> bool" where
  "git_object_id s \<longleftrightarrow> (length s = 40 \<or> length s = 64)
     \<and> list_all (\<lambda>c. in_range (CHR ''0'') (CHR ''9'') c \<or> in_range (CHR ''a'') (CHR ''f'') c \<or> in_range (CHR ''A'') (CHR ''F'') c) s"

definition heads_prefix :: string where "heads_prefix = ''refs/heads/''"

definition trim_prefix :: "string \<Rightarrow> string \<Rightarrow> string" where
  "trim_prefix p s = fst (cut_prefix s p)"

definition remote_head_of :: "string \<Rightarrow> string \<Rightarrow> string option" where
  "remote_head_of branch line =
    (case string_fields line of
       commit # ref # _ \<Rightarrow> if git_object_id commit \<and> (ref = branch \<or> ref = heads_prefix @ branch) then Some commit else None
     | _ \<Rightarrow> None)"

fun first_hit :: "('a \<Rightarrow> 'b option) \<Rightarrow> 'a list \<Rightarrow> 'b option" where
  "first_hit f [] = None"
| "first_hit f (x # xs) = (case f x of None \<Rightarrow> first_hit f xs | Some y \<Rightarrow> Some y)"

definition parse_remote_head_commit :: "string \<Rightarrow> string \<Rightarrow> string option" where
  "parse_remote_head_commit out branch =
    first_hit (remote_head_of (trim_prefix heads_prefix branch)) (split_at (CHR 0x0A) out)"

definition branch_of_line :: "string \<Rightarrow> string list" where
  "branch_of_line line =
    (case string_fields line of
       commit # ref # _ \<Rightarrow>
         (let (branch, ok) = cut_prefix ref heads_prefix in if \<not> ok \<or> branch = '''' then [] else [branch])
     | _ \<Rightarrow> [])"

definition list_remote_branches :: "string + string \<Rightarrow> string + string list" where
  "list_remote_branches ls_remote =
    and_then ls_remote (\<lambda>out. Inr (sort_strings (concat (map branch_of_line (split_at (CHR 0x0A) out)))))"

definition resolve_branch_commit :: "(string \<Rightarrow> string + string) \<Rightarrow> string \<Rightarrow> string + string" where
  "resolve_branch_commit ls_remote branch =
    (let branch = (if branch = '''' then ''main'' else branch) in
     and_then (ls_remote branch) (\<lambda>out.
       case parse_remote_head_commit out branch of
         None \<Rightarrow> Inl (''branch was not found in repository: '' @ branch)
       | Some commit \<Rightarrow> Inr commit))"

text \<open>The user name and password of a credential: a JSON document or a bare token.\<close>

definition credential_of :: "(string \<times> json) list \<Rightarrow> (string \<times> string) option" where
  "credential_of kvs =
    (case (string_field ''type'' '''' kvs, string_field ''token'' '''' kvs, string_field ''username'' '''' kvs, string_field ''password'' '''' kvs) of
       (Some ty, Some token, Some user, Some password) \<Rightarrow>
         (let ty = to_lower (trim_space ty) in
          if ty = ''basic'' then (if user = '''' \<or> password = '''' then None else Some (user, password))
          else if ty \<in> {''pat'', ''token'', ''access_token'', ''''} then (if token = '''' then None else Some (''x-access-token'', token))
          else None)
     | _ \<Rightarrow> None)"

definition parse_git_credential :: "(string \<Rightarrow> json option) \<Rightarrow> string \<Rightarrow> (string \<times> string) option" where
  "parse_git_credential read value =
    (let value = trim_space value in
     if value = '''' then None
     else if prefix ''{'' value then
       (case read value of None \<Rightarrow> None | Some d \<Rightarrow> (case struct_members (RawDoc d) of None \<Rightarrow> None | Some kvs \<Rightarrow> credential_of kvs))
     else Some (''x-access-token'', value))"

section \<open>The store of source bundles\<close>

definition bundle_marker :: string where "bundle_marker = ''.windforce_clone_complete''"

definition skip_source_dir :: "string \<Rightarrow> bool" where
  "skip_source_dir base \<longleftrightarrow> base \<in> {''.git'', ''node_modules''}"

definition copy_tree :: "file_tree \<Rightarrow> file_tree" where
  "copy_tree t = filter (\<lambda>(p, b). \<not> list_ex skip_source_dir (path_dirs p) \<and> path_base p \<noteq> bundle_marker) t"

definition source_bundle_dir :: "string \<Rightarrow> string \<Rightarrow> string \<Rightarrow> string \<Rightarrow> string" where
  "source_bundle_dir root w g commit =
    root @ ''/gitrepos/'' @ safe_path (normalize_workspace w) @ ''/'' @ safe_path (normalize_git_source g '''') @ ''/'' @ safe_path commit"

text \<open>The bundles that are complete, by directory.\<close>

type_synonym bundles = "(string, file_tree) gomap"

definition bundle_exists :: "string \<Rightarrow> bundles \<Rightarrow> string \<Rightarrow> string \<Rightarrow> string \<Rightarrow> bool" where
  "bundle_exists root bs w g commit \<longleftrightarrow> map_of bs (source_bundle_dir root w g commit) \<noteq> None"

definition bundle_materialize :: "string \<Rightarrow> bundles \<Rightarrow> string \<Rightarrow> string \<Rightarrow> string \<Rightarrow> file_tree \<Rightarrow> bundles" where
  "bundle_materialize root bs w g commit t =
    (if bundle_exists root bs w g commit then bs else mput (source_bundle_dir root w g commit) (copy_tree t) bs)"

definition bundle_fetch :: "string \<Rightarrow> bundles \<Rightarrow> string \<Rightarrow> string \<Rightarrow> string \<Rightarrow> file_tree option" where
  "bundle_fetch root bs w g commit = map_option copy_tree (map_of bs (source_bundle_dir root w g commit))"

section \<open>Sources\<close>

record sync_source =
  ss_workspace :: string
  ss_git_source :: string
  ss_app :: string
  ss_repo :: string
  ss_branch :: string
  ss_commit :: string
  ss_subpath :: string
  ss_token :: string
  ss_local_dir :: string
  ss_source :: string
  ss_deployment_id :: "string option"
  ss_message :: "string option"
  ss_created_by :: "string option"

text \<open>A checked-out repository: its files and, when Git can tell, the subject of its commit.\<close>

record repository =
  rep_files :: file_tree
  rep_subject :: "string + string"

record sync_env =
  se_now :: time
  se_hash :: "string \<Rightarrow> string"
  se_local :: "string \<Rightarrow> repository"
  se_ls_remote :: "string \<Rightarrow> string \<Rightarrow> string \<Rightarrow> string + string"
  se_clone :: "string \<Rightarrow> string \<Rightarrow> string \<Rightarrow> string \<Rightarrow> string + repository"
  se_sparse :: "string \<Rightarrow> string \<Rightarrow> string \<Rightarrow> string \<Rightarrow> string \<Rightarrow> string + repository"
  se_json :: "string \<Rightarrow> raw"
  se_manifest :: "raw \<Rightarrow> manifest_file option"
  se_dependencies :: "raw \<Rightarrow> nat option"
  se_schemas :: schema_lib

datatype sync_error =
    StoreRequired | SourceRequired | GitFailed string | BadSubpath string | ManifestFailed manifest_error
  | PackageSyntax | LockfileMissing | AppMismatch string string | SchemaUnreadable string string string

definition optional_trimmed :: "string option \<Rightarrow> string option" where
  "optional_trimmed v = (case v of None \<Rightarrow> None | Some s \<Rightarrow> if trim_space s = '''' then None else Some (trim_space s))"

text \<open>
  A path inside the source directory. A subpath has no \<^verbatim>\<open>..\<close> when it is accepted, so that it stays inside the repository and
  the second check of \<^verbatim>\<open>sourceDirForSubpath\<close> passes.
\<close>

definition read_tree :: "sync_env \<Rightarrow> file_tree \<Rightarrow> source_tree" where
  "read_tree S t p = (case map_of t (path_clean p) of None \<Rightarrow> FileMissing | Some bytes \<Rightarrow> FileData (se_json S bytes))"

fun below :: "string \<Rightarrow> file_tree \<Rightarrow> file_tree" where
  "below dir [] = []"
| "below dir ((p, b) # t) =
    (if prefix (dir @ ''/'') p then (drop (Suc (length dir)) p, b) # below dir t else below dir t)"

definition source_dir_for_subpath :: "file_tree \<Rightarrow> string \<Rightarrow> sync_error + file_tree" where
  "source_dir_for_subpath t subpath =
    (if \<not> validate_source_subpath subpath then Inl (BadSubpath subpath)
     else if subpath = '''' \<or> path_clean subpath = ''.'' then Inr t
     else Inr (below (path_clean subpath) t))"

section \<open>Checks of a source\<close>

definition lock_files :: "string list" where "lock_files = [''bun.lock'', ''bun.lockb'']"

definition check_lockfile :: "sync_env \<Rightarrow> source_tree \<Rightarrow> sync_error option" where
  "check_lockfile S tree =
    (case tree ''package.json'' of
       FileMissing \<Rightarrow> None
     | FileError err \<Rightarrow> Some PackageSyntax
     | FileData text \<Rightarrow>
       (case se_dependencies S text of
          None \<Rightarrow> Some PackageSyntax
        | Some n \<Rightarrow> if n = 0 \<or> list_ex (\<lambda>f. tree f \<noteq> FileMissing) lock_files then None else Some LockfileMissing))"

definition sync_schema :: "sync_env \<Rightarrow> source_tree \<Rightarrow> string \<Rightarrow> string + raw" where
  "sync_schema S tree p =
    (if p = '''' then Inr empty_object
     else case validate_schema_path (se_schemas S) p of
       Some err \<Rightarrow> Inl err
     | None \<Rightarrow> read_schema_file (se_schemas S) tree p)"

definition materialize_action :: "sync_env \<Rightarrow> source_tree \<Rightarrow> string \<Rightarrow> action \<Rightarrow> sync_error + action" where
  "materialize_action S tree name a =
    and_then (error_as (SchemaUnreadable name ''input schema'') (sync_schema S tree (act_input_schema a))) (\<lambda>input.
    and_then (error_as (SchemaUnreadable name ''output schema'') (sync_schema S tree (act_output_schema a))) (\<lambda>output.
    and_then (error_as (SchemaUnreadable name ''operator settings schema'') (sync_schema S tree (act_operator_schema a))) (\<lambda>operator.
      Inr (a\<lparr>act_input_body := input, act_output_body := output, act_operator_body := operator\<rparr>))))"

fun materialize_action_schemas :: "sync_env \<Rightarrow> source_tree \<Rightarrow> (string, action) gomap \<Rightarrow> sync_error + (string, action) gomap" where
  "materialize_action_schemas S tree [] = Inr []"
| "materialize_action_schemas S tree ((name, a) # rest) =
    and_then (materialize_action S tree name a) (\<lambda>a.
    and_then (materialize_action_schemas S tree rest) (\<lambda>rest. Inr ((name, a) # rest)))"

section \<open>Inspecting\<close>

definition source_commit :: "sync_env \<Rightarrow> sync_source \<Rightarrow> sync_error + string" where
  "source_commit S src =
    (if ss_commit src \<noteq> '''' then Inr (ss_commit src)
     else if ss_local_dir src \<noteq> '''' then Inr (tree_digest (se_hash S) (rep_files (se_local S (ss_local_dir src))))
     else if ss_repo src = '''' then Inl SourceRequired
     else error_as GitFailed (resolve_branch_commit (\<lambda>b. se_ls_remote S (ss_repo src) b (ss_token src)) (ss_branch src)))"

text \<open>A sparse clone that fails falls back to a full one.\<close>

definition prepare_source :: "sync_env \<Rightarrow> sync_source \<Rightarrow> string \<Rightarrow> sync_error + repository \<times> file_tree" where
  "prepare_source S src commit =
    (if ss_local_dir src \<noteq> '''' then
       (let repo = se_local S (ss_local_dir src) in
        and_then (source_dir_for_subpath (rep_files repo) (ss_subpath src)) (\<lambda>dir. Inr (repo, dir)))
     else if ss_repo src = '''' then Inl SourceRequired
     else
       (let full = error_as GitFailed (se_clone S (ss_repo src) (ss_branch src) commit (ss_token src)) in
        and_then
          (if ss_subpath src = '''' then full
           else case se_sparse S (ss_repo src) (ss_branch src) commit (ss_subpath src) (ss_token src) of
             Inl _ \<Rightarrow> full | Inr repo \<Rightarrow> Inr repo)
          (\<lambda>repo. and_then (source_dir_for_subpath (rep_files repo) (ss_subpath src)) (\<lambda>dir. Inr (repo, dir)))))"

definition sync_message :: "sync_source \<Rightarrow> repository \<Rightarrow> string option" where
  "sync_message src repo =
    (case optional_trimmed (ss_message src) of
       Some m \<Rightarrow> Some m
     | None \<Rightarrow> if ss_repo src = '''' then None
         else (case rep_subject repo of Inl _ \<Rightarrow> None | Inr subject \<Rightarrow> optional_trimmed (Some subject)))"

definition synced_deployment :: "sync_env \<Rightarrow> sync_source \<Rightarrow> string \<Rightarrow> repository \<Rightarrow> app \<Rightarrow> (string, action) gomap \<Rightarrow> deployment" where
  "synced_deployment S src commit repo m actions =
    (let d = zero_deployment\<lparr>dep_workspace := normalize_workspace (ss_workspace src),
           dep_git_source := normalize_git_source (ss_git_source src) (man_app m), dep_app := man_app m, dep_tag := man_tag m,
           dep_entrypoint := man_entrypoint m, dep_runtime := man_runtime m, dep_script_lang := man_script_lang m,
           dep_timeout_s := man_timeout_s m, dep_max_concurrent := man_max_concurrent m,
           dep_capabilities := man_capabilities m, dep_labels := man_runs_on m, dep_commit := commit,
           dep_message := sync_message src repo, dep_source := trim_space (ss_source src),
           dep_deployment_id := optional_trimmed (ss_deployment_id src), dep_created_by := optional_trimmed (ss_created_by src),
           dep_actions := Some (map (\<lambda>(k, a). (k, a\<lparr>act_updated_at := Some (se_now S)\<rparr>)) actions),
           dep_updated_at := Some (se_now S)\<rparr>
     in d\<lparr>dep_object_uri := source_object_uri d\<rparr>)"

definition inspect_source :: "sync_env \<Rightarrow> sync_source \<Rightarrow> sync_error + deployment \<times> file_tree" where
  "inspect_source S src =
    and_then (source_commit S src) (\<lambda>commit.
    and_then (prepare_source S src commit) (\<lambda>(repo, dir).
    let tree = read_tree S dir in
    and_then (error_as ManifestFailed (load_manifest (se_manifest S) tree)) (\<lambda>m.
    case check_lockfile S tree of
      Some err \<Rightarrow> Inl err
    | None \<Rightarrow>
      if ss_app src \<noteq> '''' \<and> ss_app src \<noteq> man_app m then Inl (AppMismatch (ss_app src) (man_app m))
      else
        and_then (materialize_action_schemas S tree (man_actions m)) (\<lambda>actions.
          Inr (synced_deployment S src commit repo m actions, dir)))))"

definition syncer_validate :: "sync_env \<Rightarrow> sync_source \<Rightarrow> sync_error + deployment" where
  "syncer_validate S src = and_then (inspect_source S src) (\<lambda>(d, dir). Inr d)"

definition syncer_sync :: "sync_env \<Rightarrow> string \<Rightarrow> bundles option \<Rightarrow> sync_source \<Rightarrow> sync_error + bundles \<times> deployment" where
  "syncer_sync S root store src =
    (case store of
       None \<Rightarrow> Inl StoreRequired
     | Some bs \<Rightarrow>
       and_then (inspect_source S src) (\<lambda>(d, dir).
         let w = source_workspace d; g = source_git_source d in
         Inr (if bundle_exists root bs w g (dep_commit d) then bs else bundle_materialize root bs w g (dep_commit d) dir, d)))"

end
