(* ===== verification/Data_Api.thy ===== *)
theory Data_Api
  imports App_Store Retention Http_Auth Run_Properties
begin

text \<open>
  State values, variables and resources of a workspace over HTTP (\<^verbatim>\<open>internal/server/workspace_state.go\<close>). A secret
  variable is encrypted before it is stored and decrypted when it is read. A request body is what it decodes to, \<open>None\<close> when
  it does not.
\<close>

section \<open>The key of a workspace\<close>

definition handler_keks :: "input_crypto \<Rightarrow> string list" where
  "handler_keks C = derive_kek (prims C) (secret_key C)
     # (if secret_key_previous C \<noteq> '''' then [derive_kek (prims C) (secret_key_previous C)] else [])"

definition workspace_dek :: "key_provider \<Rightarrow> input_crypto \<Rightarrow> string \<Rightarrow> store_error + string" where
  "workspace_dek provider C w =
    (let derived = derive_workspace_key (prims C) (secret_key C) w in
     case provider of
       None \<Rightarrow> Inr derived
     | Some get \<Rightarrow> and_then (get w) (\<lambda>(key, version).
         if key \<noteq> '''' then (case resolve_dek (prims C) key version (handler_keks C) of
             None \<Rightarrow> Inl CryptoFailed | Some dek \<Rightarrow> Inr dek)
         else Inr derived))"

definition encrypt_secret_variable :: "key_provider \<Rightarrow> input_crypto \<Rightarrow> string \<Rightarrow> string \<Rightarrow> string \<Rightarrow> store_error + string" where
  "encrypt_secret_variable provider C nonce w value =
    and_then (workspace_dek provider C w) (\<lambda>key. Inr (encrypt_text (prims C) key nonce value))"

definition decrypt_secret_variable :: "key_provider \<Rightarrow> input_crypto \<Rightarrow> string \<Rightarrow> string \<Rightarrow> store_error + string" where
  "decrypt_secret_variable provider C w value =
    and_then (workspace_dek provider C w) (\<lambda>key.
      case decrypt_text (prims C) key value of None \<Rightarrow> Inl CryptoFailed | Some plain \<Rightarrow> Inr plain)"

text \<open>A failing operation of the store is a reply with status 500.\<close>

definition store_reply :: "snapshot \<Rightarrow> 'b \<Rightarrow> store_error + snapshot \<times> 'a \<Rightarrow> snapshot \<times> (http_error + 'b)" where
  "store_reply s ok x = (case x of Inl err \<Rightarrow> (s, Inl (500, '''')) | Inr (t, _) \<Rightarrow> (t, Inr ok))"

section \<open>State values\<close>

definition raw_or_null_doc :: "raw \<Rightarrow> raw" where
  "raw_or_null_doc v = (if raw_empty v then null_doc else v)"

definition handle_get_state :: "string \<Rightarrow> string \<Rightarrow> snapshot \<Rightarrow> http_error + raw" where
  "handle_get_state w path s =
    (if path = '''' then Inl (400, ''path query required'') else Inr (raw_or_null_doc (fst (get_state s w path))))"

definition handle_set_state :: "call_env \<Rightarrow> string \<Rightarrow> string \<Rightarrow> raw \<Rightarrow> snapshot \<Rightarrow> snapshot \<times> (http_error + string)" where
  "handle_set_state e w path body s =
    (if path = '''' then (s, Inl (400, ''path query required''))
     else store_reply s path (local_set_state e w path body s))"

section \<open>Variables\<close>

definition handle_list_variables :: "string \<Rightarrow> snapshot \<Rightarrow> variable list" where
  "handle_list_variables w s = map (\<lambda>v. if var_secret v then v\<lparr>var_value := ''''\<rparr> else v) (list_variables s w)"

record variable_request =
  vr_path :: string
  vr_value :: string
  vr_description :: string
  vr_secret :: bool
  vr_app :: string

definition handle_set_variable ::
    "key_provider \<Rightarrow> input_crypto \<Rightarrow> call_env \<Rightarrow> string \<Rightarrow> variable_request option \<Rightarrow> snapshot \<Rightarrow> snapshot \<times> (http_error + string \<times> string)" where
  "handle_set_variable provider C e w body s =
    (case body of
       None \<Rightarrow> (s, Inl (400, ''path required''))
     | Some q \<Rightarrow>
       if vr_path q = '''' then (s, Inl (400, ''path required''))
       else if vr_app q \<noteq> '''' \<and> \<not> valid_app_key (vr_app q) then (s, Inl (400, ''invalid app key''))
       else
         (case (if vr_secret q then encrypt_secret_variable provider C (draw_nonce e ''variable'' 0) w (vr_value q) else Inr (vr_value q)) of
            Inl err \<Rightarrow> (s, Inl (500, ''''))
          | Inr value \<Rightarrow>
            store_reply s (vr_path q, vr_app q)
              (local_set_variable e w (vr_app q) (vr_path q) value (vr_secret q) (vr_description q) s)))"

text \<open>
  The app whose variables a job token reads: that of its job, read from the store; a job that is not found
  has the variables of no app. Other callers name the app themselves.
\<close>

definition job_variable_scope :: "input_crypto \<Rightarrow> principal option \<Rightarrow> string \<Rightarrow> snapshot \<Rightarrow> store_error + string option" where
  "job_variable_scope C p w s =
    (case p of
       Some (JobPrincipal pw jid subject) \<Rightarrow>
         if jid = '''' then Inr None
         else and_then (get_job C w jid s) (\<lambda>found.
           Inr (Some (case found of None \<Rightarrow> '''' | Some (j, r) \<Rightarrow> jp_app (job_payload j))))
     | _ \<Rightarrow> Inr None)"

record variable_view =
  vv_path :: string
  vv_value :: string
  vv_secret :: bool

definition handle_get_variable ::
    "key_provider \<Rightarrow> input_crypto \<Rightarrow> principal option \<Rightarrow> string \<Rightarrow> string \<Rightarrow> string \<Rightarrow> snapshot \<Rightarrow> http_error + variable_view" where
  "handle_get_variable provider C p query_app w path s =
    (case job_variable_scope C p w s of
       Inl err \<Rightarrow> Inl (500, '''')
     | Inr scope \<Rightarrow>
       (case (case scope of Some app \<Rightarrow> get_variable s w app path | None \<Rightarrow> get_variable_exact s w query_app path) of
          None \<Rightarrow> Inl (404, ''variable not found'')
        | Some v \<Rightarrow>
          if \<not> var_secret v then Inr \<lparr>vv_path = var_path v, vv_value = var_value v, vv_secret = False\<rparr>
          else
            (case decrypt_secret_variable provider C w (var_value v) of
               Inl err \<Rightarrow> Inl (500, ''decrypt'')
             | Inr plain \<Rightarrow> Inr \<lparr>vv_path = var_path v, vv_value = plain, vv_secret = True\<rparr>)))"

definition handle_delete_variable :: "call_env \<Rightarrow> string \<Rightarrow> string \<Rightarrow> string \<Rightarrow> snapshot \<Rightarrow> snapshot \<times> (http_error + unit)" where
  "handle_delete_variable e query_app w path s = store_reply s () (local_delete_variable e w query_app path s)"

section \<open>Resources\<close>

record resource_request =
  rq_path :: string
  rq_value :: raw
  rq_type :: string
  rq_description :: string

definition handle_set_resource :: "call_env \<Rightarrow> string \<Rightarrow> resource_request option \<Rightarrow> snapshot \<Rightarrow> snapshot \<times> (http_error + string)" where
  "handle_set_resource e w body s =
    (case body of
       None \<Rightarrow> (s, Inl (400, ''path required''))
     | Some q \<Rightarrow>
       if rq_path q = '''' then (s, Inl (400, ''path required''))
       else store_reply s (rq_path q) (local_set_resource e w (rq_path q) (rq_value q) (rq_type q) (rq_description q) s))"

definition handle_get_resource :: "string \<Rightarrow> string \<Rightarrow> snapshot \<Rightarrow> http_error + raw" where
  "handle_get_resource w path s =
    (case get_resource s w path of
       None \<Rightarrow> Inl (404, ''resource not found'') | Some r \<Rightarrow> Inr (raw_or_null_doc (rsc_value r)))"

section \<open>Secrets come back to the jobs of their app only\<close>

lemma handle_set_variable_Inr:
  assumes "handle_set_variable None C e w (Some q) s = (t, Inr r)"
  shows "vr_path q \<noteq> ''''" and "vr_app q = '''' \<or> valid_app_key (vr_app q)"
    and "\<exists>u. local_set_variable e w (vr_app q) (vr_path q)
      (if vr_secret q then encrypt_text (prims C) (derive_workspace_key (prims C) (secret_key C) w) (draw_nonce e ''variable'' 0) (vr_value q)
       else vr_value q) (vr_secret q) (vr_description q) s = Inr (t, u)"
  using assms
  by (auto simp: handle_set_variable_def encrypt_secret_variable_def workspace_dek_def store_reply_def Let_def split: if_splits sum.splits)

lemma get_job_frame:
  assumes "job_view t = job_view s" and "run_view t = run_view s"
  shows "get_job C v jid t = get_job C v jid s"
  unfolding get_job_def lookup_views assms by (rule refl)

lemma set_variable_reads:
  assumes "local_set_variable e w app path value secret d s = Inr (t, u)"
  shows "nget (sn_variables t) w' k = (if w' = normalize_workspace w \<and> k = variable_key app path
      then Some \<lparr>var_app = app, var_path = path, var_value = value, var_secret = secret, var_description = d\<rparr>
      else nget (sn_variables s) w' k)"
    and "get_job C v jid t = get_job C v jid s"
proof -
  from assms have t: "t = ensure_snapshot e ((ensure_snapshot e s)\<lparr>sn_variables := nput (normalize_workspace w) (variable_key app path)
      \<lparr>var_app = app, var_path = path, var_value = value, var_secret = secret, var_description = d\<rparr> (sn_variables (ensure_snapshot e s))\<rparr>)"
    by (auto simp: local_set_variable_def update_Inr)
  show "nget (sn_variables t) w' k = (if w' = normalize_workspace w \<and> k = variable_key app path
      then Some \<lparr>var_app = app, var_path = path, var_value = value, var_secret = secret, var_description = d\<rparr>
      else nget (sn_variables s) w' k)" by (auto simp: t)
  show "get_job C v jid t = get_job C v jid s"
    by (rule get_job_frame) (simp_all add: t fun_eq_iff job_view_def run_view_def)
qed

lemma get_variable_own: "nget (sn_variables t) (normalize_workspace w) (variable_key app path) = Some v \<Longrightarrow> get_variable t w app path = Some v"
  by (cases "app = ''''") (simp_all add: get_variable_def Let_def)

lemma app_key_no_nul: "valid_app_key a \<Longrightarrow> CHR 0x00 \<notin> set a"
  by (auto simp: valid_app_key_def list_all_iff valid_portable_key_rune_def in_range_def less_eq_char_def)

text \<open>C39. A secret variable of an app comes back decrypted to the jobs of that app, and is blank in every listing. To a job of
any other app nothing has changed by setting it: it reads the variable of its own app, or the shared one, that it read
before.\<close>

theorem secret_variable_stays_with_app:
  assumes set: "handle_set_variable None C e w (Some q) s = (t, Inr r)" and secret: "vr_secret q"
    and prims: "\<forall>k n pt. gcm_open (prims C) k n (gcm_seal (prims C) k n pt) = Some pt" "length (draw_nonce e ''variable'' 0) = nonce_size"
    and job: "get_job C w jid s = Inr (Some (j, x))" "jid \<noteq> ''''"
  shows "(jp_app (job_payload j) = vr_app q \<longrightarrow>
        handle_get_variable None C (Some (JobPrincipal w jid subject)) app w (vr_path q) t
          = Inr \<lparr>vv_path = vr_path q, vv_value = vr_value q, vv_secret = True\<rparr>)
      \<and> (\<forall>v \<in> set (handle_list_variables w t). var_secret v \<longrightarrow> var_value v = '''')
      \<and> (jp_app (job_payload j) \<noteq> vr_app q \<and> vr_app q \<noteq> '''' \<and> CHR 0x00 \<notin> set (jp_app (job_payload j)) \<longrightarrow>
        handle_get_variable None C (Some (JobPrincipal w jid subject)) app w path t
          = handle_get_variable None C (Some (JobPrincipal w jid subject)) app w path s)"
proof (intro conjI impI)
  let ?key = "derive_workspace_key (prims C) (secret_key C) w"
  let ?ct = "encrypt_text (prims C) ?key (draw_nonce e ''variable'' 0) (vr_value q)"
  from handle_set_variable_Inr [OF set] secret obtain u
    where l: "local_set_variable e w (vr_app q) (vr_path q) ?ct True (vr_description q) s = Inr (t, u)" by auto
  note reads = set_variable_reads [OF l]
  have own: "nget (sn_variables t) (normalize_workspace w) (variable_key (vr_app q) (vr_path q)) = Some \<lparr>var_app = vr_app q,
      var_path = vr_path q, var_value = ?ct, var_secret = True, var_description = vr_description q\<rparr>" by (simp add: reads(1))
  have scope: "job_variable_scope C (Some (JobPrincipal w jid subject)) w t = Inr (Some (jp_app (job_payload j)))"
    "job_variable_scope C (Some (JobPrincipal w jid subject)) w s = Inr (Some (jp_app (job_payload j)))"
    using job by (simp_all add: job_variable_scope_def reads(2))
  have "decrypt_text (prims C) ?key ?ct = Some (vr_value q)"
    using prims by (simp add: decrypt_text_def encrypt_text_def)
  then have dec: "decrypt_secret_variable None C w ?ct = Inr (vr_value q)"
    by (simp add: decrypt_secret_variable_def workspace_dek_def Let_def)
  show "handle_get_variable None C (Some (JobPrincipal w jid subject)) app w (vr_path q) t
      = Inr \<lparr>vv_path = vr_path q, vv_value = vr_value q, vv_secret = True\<rparr>" if app: "jp_app (job_payload j) = vr_app q"
    using dec by (simp add: handle_get_variable_def scope app get_variable_own [OF own])
  show "\<forall>v \<in> set (handle_list_variables w t). var_secret v \<longrightarrow> var_value v = ''''"
    by (auto simp: handle_list_variables_def)
  assume other: "jp_app (job_payload j) \<noteq> vr_app q \<and> vr_app q \<noteq> '''' \<and> CHR 0x00 \<notin> set (jp_app (job_payload j))"
  then have nul: "CHR 0x00 \<notin> set (vr_app q)" using handle_set_variable_Inr(2) [OF set] app_key_no_nul by blast
  have "variable_key (jp_app (job_payload j)) path \<noteq> variable_key (vr_app q) (vr_path q)"
    using other variable_key_inj [OF _ nul, of "jp_app (job_payload j)"] by blast
  moreover have "variable_key '''' path \<noteq> variable_key (vr_app q) (vr_path q)"
    using other variable_key_inj [OF _ nul, of "''''"] by force
  ultimately have "get_variable t w (jp_app (job_payload j)) path = get_variable s w (jp_app (job_payload j)) path"
    by (simp add: get_variable_def reads(1) Let_def split: option.split)
  then show "handle_get_variable None C (Some (JobPrincipal w jid subject)) app w path t
      = handle_get_variable None C (Some (JobPrincipal w jid subject)) app w path s"
    by (simp add: handle_get_variable_def scope)
qed

text \<open>C40. Rotating the instance secret loses the secret variables of the local store: with the old secret kept as the
previous one, as it must be for stored inputs and results to stay readable, reading a secret variable that was set before the rotation
fails, since its key is derived from the new secret only.\<close>

theorem rotation_loses_secret_variables:
  assumes set: "handle_set_variable None C e w (Some q) s = (t, Inr r)" "vr_secret q"
    and new: "prims C' = prims C" "secret_key_previous C' = secret_key C"
    and reject: "decrypt_text (prims C) (derive_workspace_key (prims C) (secret_key C') w)
      (encrypt_text (prims C) (derive_workspace_key (prims C) (secret_key C) w) (draw_nonce e ''variable'' 0) (vr_value q)) = None"
  shows "handle_get_variable None C' None (vr_app q) w (vr_path q) t = Inl (500, ''decrypt'')"
proof -
  from handle_set_variable_Inr [OF set(1)] set(2) obtain u where l: "local_set_variable e w (vr_app q) (vr_path q)
      (encrypt_text (prims C) (derive_workspace_key (prims C) (secret_key C) w) (draw_nonce e ''variable'' 0) (vr_value q))
      True (vr_description q) s = Inr (t, u)" by auto
  show ?thesis using reject new(1)
    by (simp add: handle_get_variable_def job_variable_scope_def get_variable_exact_def set_variable_reads(1) [OF l]
        decrypt_secret_variable_def workspace_dek_def Let_def)
qed

definition ex_secret_request :: variable_request where
  "ex_secret_request = \<lparr>vr_path = ''db'', vr_value = ''pw'', vr_description = '''', vr_secret = True, vr_app = ''crawler''\<rparr>"

definition job_of_crawler :: "store_error + (job \<times> run) option \<Rightarrow> bool" where
  "job_of_crawler x = (case x of Inr (Some (j, r)) \<Rightarrow> jp_app (job_payload j) = ''crawler'' | _ \<Rightarrow> False)"

lemma ex_secret_set:
  "trim_space k = k \<Longrightarrow> \<exists>t. handle_set_variable None (ex_crypto k JNull) (ex_at 5) ''main'' (Some ex_secret_request) s = (t, Inr (''db'', ''crawler''))"
proof -
  have "valid_app_key ''crawler''" by code_simp
  then show ?thesis
    by (auto simp: handle_set_variable_def ex_secret_request_def encrypt_secret_variable_def workspace_dek_def store_reply_def
        local_set_variable_def update_def Let_def)
qed

theorem secret_variable_stays_with_app_witness:
  "\<exists>t. handle_set_variable None ex_plain (ex_at 5) ''main'' (Some ex_secret_request) ex_created = (t, Inr (''db'', ''crawler''))
    \<and> handle_get_variable None ex_plain (Some (JobPrincipal ''main'' ''job1'' '''')) '''' ''main'' ''db'' t
      = Inr \<lparr>vv_path = ''db'', vv_value = ''pw'', vv_secret = True\<rparr>"
proof -
  obtain t where t: "handle_set_variable None ex_plain (ex_at 5) ''main'' (Some ex_secret_request) ex_created = (t, Inr (''db'', ''crawler''))"
    using ex_secret_set [of "''''"] by (auto simp: ex_plain_def)
  have "job_of_crawler (get_job ex_plain ''main'' ''job1'' ex_created)" by code_simp
  then obtain j r where j: "get_job ex_plain ''main'' ''job1'' ex_created = Inr (Some (j, r))" "jp_app (job_payload j) = ''crawler''"
    by (auto simp: job_of_crawler_def split: sum.splits option.splits)
  have "\<forall>k n pt. gcm_open (prims ex_plain) k n (gcm_seal (prims ex_plain) k n pt) = Some pt"
    by (simp add: ex_plain_def ex_crypto_def ex_prims_def)
  then show ?thesis
    using secret_variable_stays_with_app [OF t _ _ _ j(1), of "''''" "''''"] t j(2)
    by (auto simp: ex_secret_request_def ex_at_def nonce_size_def)
qed

theorem rotation_loses_secret_variables_witness:
  "\<exists>t. handle_set_variable None (ex_crypto ''old'' JNull) (ex_at 5) ''main'' (Some ex_secret_request) ex_created = (t, Inr (''db'', ''crawler''))
    \<and> handle_get_variable None ((ex_crypto ''new'' JNull)\<lparr>secret_key_previous := ''old''\<rparr>) None ''crawler'' ''main'' ''db'' t = Inl (500, ''decrypt'')"
proof -
  have "trim_space ''old'' = ''old''" by (rule trim_space_graphic) (simp add: graphic_def)
  then obtain t where t: "handle_set_variable None (ex_crypto ''old'' JNull) (ex_at 5) ''main'' (Some ex_secret_request) ex_created
      = (t, Inr (''db'', ''crawler''))" using ex_secret_set by blast
  have "decrypt_text (prims (ex_crypto ''old'' JNull)) (derive_workspace_key (prims (ex_crypto ''old'' JNull)) ''new'' ''main'')
      (encrypt_text (prims (ex_crypto ''old'' JNull)) (derive_workspace_key (prims (ex_crypto ''old'' JNull)) ''old'' ''main'')
        ''000000000000'' ''pw'') = None" by code_simp
  then have "handle_get_variable None ((ex_crypto ''new'' JNull)\<lparr>secret_key_previous := ''old''\<rparr>) None (vr_app ex_secret_request) ''main''
      (vr_path ex_secret_request) t = Inl (500, ''decrypt'')"
    by (intro rotation_loses_secret_variables [OF t]) (simp_all add: ex_secret_request_def ex_crypto_def ex_at_def)
  then show ?thesis using t by (auto simp: ex_secret_request_def)
qed

end
