(* ===== verification/Release_Api.thy ===== *)
theory Release_Api
  imports Source_Sync Git_Sources Local_Catalog Data_Api
begin

text \<open>
  From a repository to a release: registering, changing and deleting Git sources (\<^verbatim>\<open>internal/server/canonical_git_sources.go\<close>),
  synchronising a source and deploying what was synchronised last (\<^verbatim>\<open>release_pipeline.go\<close>), rolling back
  (\<^verbatim>\<open>release_rollback.go\<close>) and the audit records of these (\<^verbatim>\<open>canonical_audit.go\<close>). The store holds the catalog; the registry of
  sources is the map its file loads to. Git, the builder of execution bundles and quoting are arguments; all parts are
  configured. A request body is what it decodes to, \<open>None\<close> when it does not.
\<close>

record control_state =
  cs_store :: snapshot
  cs_sources :: registry
  cs_bundles :: bundles

record api_env =
  ae_env :: call_env
  ae_provider :: key_provider
  ae_crypto :: input_crypto
  ae_sync :: sync_env
  ae_root :: string
  ae_branches :: "string \<Rightarrow> string \<Rightarrow> string + string"
  ae_build :: "deployment \<Rightarrow> string + deployment"
  ae_validate :: "deployment \<Rightarrow> string option"
  ae_actor :: string
  ae_busy :: bool

type_synonym 'a handled = "control_state \<times> (http_error + 'a)"

definition store_error_reply :: "control_state \<Rightarrow> 'a handled" where
  "store_error_reply c = (c, Inl (500, ''''))"

section \<open>Credentials\<close>

record git_credential_request =
  gcr_method :: string
  gcr_token :: string
  gcr_username :: string
  gcr_password :: string

definition git_credential_doc :: "git_credential_request \<Rightarrow> json" where
  "git_credential_doc q =
    (let ty = to_lower (trim_space (gcr_method q)) in
     if ty = ''basic'' then JObj [(''password'', JStr (trim_space (gcr_password q))), (''type'', JStr ty),
         (''username'', JStr (trim_space (gcr_username q)))]
     else JObj [(''token'', JStr (trim_space (gcr_token q))), (''type'', JStr ty)])"

text \<open>The text of a credential, empty for none; \<open>write\<close> marshals.\<close>

definition git_credential_from_request :: "(json \<Rightarrow> string) \<Rightarrow> git_credential_request \<Rightarrow> string + string" where
  "git_credential_from_request write q =
    (let m0 = to_lower (trim_space (gcr_method q)); token = trim_space (gcr_token q);
         user = trim_space (gcr_username q); password = trim_space (gcr_password q) in
     if m0 = '''' \<and> token = '''' \<and> user = '''' \<and> password = '''' then Inr ''''
     else
       let m = (if m0 \<noteq> '''' then m0 else if user \<noteq> '''' \<or> password \<noteq> '''' then ''basic'' else ''pat'') in
       if m \<in> {''none'', ''public''} then Inr ''''
       else if m \<in> {''pat'', ''token'', ''access_token''} then
         (if token = '''' then Inl ''access_token is required for personal access token authentication''
          else Inr (write (git_credential_doc \<lparr>gcr_method = ''pat'', gcr_token = token, gcr_username = '''', gcr_password = ''''\<rparr>)))
       else if m \<in> {''basic'', ''password''} then
         (if user = '''' \<or> password = '''' then Inl ''username and password are required for username/password authentication''
          else Inr (write (git_credential_doc \<lparr>gcr_method = ''basic'', gcr_token = '''', gcr_username = user, gcr_password = password\<rparr>)))
       else Inl (''unsupported auth_method '' @ gcr_method q))"

definition resolve_git_source_creds :: "api_env \<Rightarrow> string \<Rightarrow> string \<Rightarrow> snapshot \<Rightarrow> store_error + string" where
  "resolve_git_source_creds A w creds_ref s =
    (let ref = trim_space creds_ref in
     if ref = '''' then Inr ''''
     else case get_variable s w '''' ref of
       None \<Rightarrow> Inr ''''
     | Some v \<Rightarrow> if var_secret v then decrypt_secret_variable (ae_provider A) (ae_crypto A) w (var_value v) else Inr (var_value v))"

section \<open>Audit records\<close>

definition source_branch_or_default :: "git_source \<Rightarrow> string" where
  "source_branch_or_default s = (if trim_space (gs_branch s) = '''' then ''main'' else gs_branch s)"

definition git_source_audit_detail :: "git_source \<Rightarrow> string" where
  "git_source_audit_detail s =
    gs_repo_url s @ ''@'' @ source_branch_or_default s
      @ (if gs_subpath s \<noteq> '''' then '' '' @ [CHR 0xC2, CHR 0xB7] @ '' '' @ gs_subpath s else '''')"

definition change_text :: "(string \<Rightarrow> string) \<Rightarrow> string \<Rightarrow> string \<Rightarrow> string \<Rightarrow> string list" where
  "change_text quote field a b =
    (if a = b then [] else [field @ '': '' @ quote a @ '' '' @ [CHR 0xE2, CHR 0x86, CHR 0x92] @ '' '' @ quote b])"

definition git_source_change_detail :: "(string \<Rightarrow> string) \<Rightarrow> git_source \<Rightarrow> git_source \<Rightarrow> string" where
  "git_source_change_detail quote a b = join_with '', ''
    (change_text quote ''name'' (gs_name a) (gs_name b)
     @ change_text quote ''repo_url'' (gs_repo_url a) (gs_repo_url b)
     @ change_text quote ''branch'' (source_branch_or_default a) (source_branch_or_default b)
     @ change_text quote ''subpath'' (gs_subpath a) (gs_subpath b)
     @ change_text quote ''creds_ref'' (gs_token_env a) (gs_token_env b))"

text \<open>Recording is a best effort: a failure is not reported.\<close>

definition record_audit :: "api_env \<Rightarrow> string \<Rightarrow> string \<Rightarrow> string \<Rightarrow> string \<Rightarrow> string \<Rightarrow> control_state \<Rightarrow> control_state" where
  "record_audit A w git_source app kind detail c =
    (if git_source = '''' then c
     else case local_append_audit (ae_env A) \<lparr>aud_id = '''', aud_workspace = w, aud_git_source = git_source, aud_app = app,
         aud_kind = kind, aud_detail = detail, aud_actor = trim_space (ae_actor A), aud_created_at = 0\<rparr> (cs_store c) of
       Inl err \<Rightarrow> c | Inr (s, _) \<Rightarrow> c\<lparr>cs_store := s\<rparr>)"

section \<open>Listing\<close>

definition parse_canonical_git_source_id :: "string \<Rightarrow> int" where
  "parse_canonical_git_source_id i = (case parse_int64 (trim_space i) of None \<Rightarrow> 0 | Some n \<Rightarrow> if n < 0 then 0 else n)"

definition require_git_source_route_id :: "string \<Rightarrow> http_error + string" where
  "require_git_source_route_id i =
    (if parse_int64 (trim_space i) = None then Inl (400, ''bad git source id'') else Inr (trim_space i))"

record git_source_view =
  gv_id :: int
  gv_workspace :: string
  gv_name :: string
  gv_repo_url :: string
  gv_branch :: string
  gv_subpath :: string
  gv_creds_ref :: string
  gv_kind :: string
  gv_last_commit :: "string option"
  gv_last_at :: "time option"
  gv_created_at :: time

definition new_git_source_view :: "git_source \<Rightarrow> git_source_view" where
  "new_git_source_view s =
    \<lparr>gv_id = parse_canonical_git_source_id (gs_id s), gv_workspace = normalize_workspace (gs_workspace s), gv_name = gs_name s,
     gv_repo_url = gs_repo_url s, gv_branch = first_non_empty [gs_branch s, ''main''], gv_subpath = gs_subpath s,
     gv_creds_ref = gs_token_env s, gv_kind = first_non_empty [gs_kind s, ''external''], gv_last_commit = gs_last_commit s,
     gv_last_at = gs_last_at s, gv_created_at = (case gs_created_at s of None \<Rightarrow> 0 | Some t \<Rightarrow> t)\<rparr>"

definition source_view_before :: "git_source_view \<Rightarrow> git_source_view \<Rightarrow> bool" where
  "source_view_before a b \<longleftrightarrow> (if gv_id a = gv_id b then gv_name a < gv_name b else gv_id a < gv_id b)"

definition handle_git_sources :: "string \<Rightarrow> control_state \<Rightarrow> git_source_view list" where
  "handle_git_sources w c =
    sort_slice source_view_before
      (map new_git_source_view (filter (\<lambda>s. normalize_workspace (gs_workspace s) = normalize_workspace w) (mvals (cs_sources c))))"

definition handle_git_source_audit :: "string \<Rightarrow> string \<Rightarrow> control_state \<Rightarrow> http_error + audit_record list" where
  "handle_git_source_audit w i c =
    and_then (require_git_source_route_id i) (\<lambda>i.
      Inr (map (\<lambda>r. if aud_actor r = '''' then r\<lparr>aud_actor := ''system''\<rparr> else r)
        (sort_slice (\<lambda>a b. aud_created_at b < aud_created_at a) (audit_trail (cs_store c) w i))))"

section \<open>Synchronising and deploying\<close>

text \<open>
  One operation on a source at a time: \<open>ae_busy\<close> says that another one holds its lock. What an operation changed before
  it failed stays.
\<close>

definition source_to_sync :: "string \<Rightarrow> git_source \<Rightarrow> string \<Rightarrow> string \<Rightarrow> sync_source" where
  "source_to_sync w s branch token =
    \<lparr>ss_workspace = w, ss_git_source = gs_id s, ss_app = '''', ss_repo = gs_repo_url s, ss_branch = branch, ss_commit = '''',
     ss_subpath = gs_subpath s, ss_token = token, ss_local_dir = '''', ss_source = '''', ss_deployment_id = None,
     ss_message = None, ss_created_by = None\<rparr>"

definition sync_git_source_revision :: "api_env \<Rightarrow> string \<Rightarrow> git_source \<Rightarrow> control_state \<Rightarrow> release_candidate handled" where
  "sync_git_source_revision A w src c =
    (if ae_busy A then (c, Inl (409, ''git source operation already in progress''))
     else case resolve_git_source_creds A w (gs_token_env src) (cs_store c) of
       Inl err \<Rightarrow> store_error_reply c
     | Inr token \<Rightarrow>
       (case syncer_sync (ae_sync A) (ae_root A) (Some (cs_bundles c)) (source_to_sync w src (gs_branch src) token) of
          Inl err \<Rightarrow> store_error_reply c
        | Inr (bundles, d) \<Rightarrow>
          (let c = c\<lparr>cs_bundles := bundles\<rparr> in
           case local_save_release_candidate (ae_env A) d (clock (ae_env A)) (cs_store c) of
             Inl err \<Rightarrow> store_error_reply c
           | Inr (s, cand) \<Rightarrow>
             (let c = c\<lparr>cs_store := s\<rparr> in
              case mark_synced (clock (ae_env A)) w (gs_id src) (dep_commit (cand_deployment cand)) (cand_synced_at cand) (cs_sources c) of
                Inl err \<Rightarrow> store_error_reply c
              | Inr (reg, _) \<Rightarrow> (c\<lparr>cs_sources := reg\<rparr>, Inr cand)))))"

record operation_audit =
  oa_source :: string
  oa_deployment_id :: "string option"
  oa_message :: "string option"
  oa_created_by :: "string option"

definition stamp_release :: "operation_audit \<Rightarrow> time \<Rightarrow> deployment \<Rightarrow> deployment" where
  "stamp_release a released d =
    d\<lparr>dep_source := trim_space (oa_source a), dep_deployment_id := oa_deployment_id a, dep_created_by := oa_created_by a,
      dep_message := (case oa_message a of None \<Rightarrow> dep_message d | Some m \<Rightarrow> Some m), dep_updated_at := Some released,
      dep_actions := map_option (map (\<lambda>(k, x). (k, x\<lparr>act_updated_at := Some released\<rparr>))) (dep_actions d)\<rparr>"

definition deploy_latest_revision :: "api_env \<Rightarrow> string \<Rightarrow> git_source \<Rightarrow> operation_audit \<Rightarrow> control_state \<Rightarrow> deployment handled" where
  "deploy_latest_revision A w src audit c =
    (if ae_busy A then (c, Inl (409, ''git source operation already in progress''))
     else case get_latest_release_candidate (cs_store c) w (gs_id src) of
       Inl (CatalogFailure CandidateNotFound) \<Rightarrow> (c, Inl (409, ''sync source before publishing a release''))
     | Inl err \<Rightarrow> store_error_reply c
     | Inr cand \<Rightarrow>
       if \<not> validate_release_candidate cand w (gs_id src) (dep_commit (cand_deployment cand))
       then (c, Inl (409, ''release candidate identity mismatch''))
       else case ae_build A (cand_deployment cand) of
         Inl err \<Rightarrow> (c, Inl (422, ''execution bundle build failed: '' @ err))
       | Inr d \<Rightarrow>
         (case ae_validate A d of
            Some err \<Rightarrow> (c, Inl (422, ''execution bundle validation failed: '' @ err))
          | None \<Rightarrow>
            (case local_publish_release (ae_env A) (stamp_release audit (clock (ae_env A)) d) (clock (ae_env A)) (cs_store c) of
               Inl err \<Rightarrow> store_error_reply c
             | Inr (s, published) \<Rightarrow> (c\<lparr>cs_store := s\<rparr>, Inr published))))"

definition find_git_source :: "string \<Rightarrow> string \<Rightarrow> control_state \<Rightarrow> http_error + git_source" where
  "find_git_source w i c = (case get_source w i (cs_sources c) of Inl err \<Rightarrow> Inl (404, ''git source not found'') | Inr s \<Rightarrow> Inr s)"

record source_sync_result =
  ssr_commit :: string
  ssr_app :: string
  ssr_actions :: "string list"
  ssr_runtime :: string
  ssr_synced_at :: time

definition deployment_action_names :: "deployment \<Rightarrow> string list" where
  "deployment_action_names d =
    sort_strings (map (\<lambda>k. dep_app d @ ''.'' @ k) (case dep_actions d of None \<Rightarrow> [] | Some m \<Rightarrow> mkeys m))"

definition deployment_script_lang :: "deployment \<Rightarrow> string" where
  "deployment_script_lang d = (if dep_script_lang d = '''' then ''typescript'' else dep_script_lang d)"

definition new_source_sync_result :: "release_candidate \<Rightarrow> source_sync_result" where
  "new_source_sync_result cand =
    (let d = cand_deployment cand in
     \<lparr>ssr_commit = dep_commit d, ssr_app = dep_app d, ssr_actions = deployment_action_names d,
      ssr_runtime = deployment_script_lang d, ssr_synced_at = cand_synced_at cand\<rparr>)"

record deploy_result =
  dpr_commit :: string
  dpr_app :: string
  dpr_actions :: "string list"
  dpr_source :: string
  dpr_deployment_id :: "string option"
  dpr_created_by :: "string option"
  dpr_message :: "string option"
  dpr_bundle_status :: string
  dpr_bundle_digest :: string
  dpr_bundle_uri :: string
  dpr_runtime :: string

definition bundle_status :: "deployment \<Rightarrow> string" where
  "bundle_status d = (if trim_space (dep_bundle_digest d) = '''' then ''missing'' else ''ready'')"

definition new_deploy_result :: "deployment \<Rightarrow> deploy_result" where
  "new_deploy_result d =
    \<lparr>dpr_commit = dep_commit d, dpr_app = dep_app d, dpr_actions = deployment_action_names d, dpr_source = trim_space (dep_source d),
     dpr_deployment_id = dep_deployment_id d, dpr_created_by = dep_created_by d, dpr_message = dep_message d,
     dpr_bundle_status = bundle_status d, dpr_bundle_digest = trim_space (dep_bundle_digest d),
     dpr_bundle_uri = trim_space (dep_bundle_uri d), dpr_runtime = deployment_script_lang d\<rparr>"

definition handle_git_source_sync :: "api_env \<Rightarrow> string \<Rightarrow> string \<Rightarrow> control_state \<Rightarrow> source_sync_result handled" where
  "handle_git_source_sync A w i c =
    (case and_then (require_git_source_route_id i) (\<lambda>i. find_git_source w i c) of
       Inl err \<Rightarrow> (c, Inl err)
     | Inr src \<Rightarrow>
       (case sync_git_source_revision A w src c of
          (c, Inl err) \<Rightarrow> (c, Inl err) | (c, Inr cand) \<Rightarrow> (c, Inr (new_source_sync_result cand))))"

record deploy_request =
  dq_confirm :: "bool list"
  dq_messages :: "string option list"
  dq_commits :: "string list"

definition deploy_request_message :: "deploy_request \<Rightarrow> string option" where
  "deploy_request_message q =
    (case first_present (dq_messages q) of None \<Rightarrow> None | Some m \<Rightarrow> if trim_space m = '''' then None else Some (trim_space m))"

definition handle_git_source_deploy :: "api_env \<Rightarrow> string \<Rightarrow> string \<Rightarrow> deploy_request option \<Rightarrow> control_state \<Rightarrow> deploy_result handled" where
  "handle_git_source_deploy A w i body c =
    (case require_git_source_route_id i of
       Inl err \<Rightarrow> (c, Inl err)
     | Inr i \<Rightarrow>
       (case body of
          None \<Rightarrow> (c, Inl (400, ''invalid JSON''))
        | Some q \<Rightarrow>
          if True \<notin> set (dq_confirm q) then (c, Inl (400, ''deploy confirmation is required''))
          else if first_non_empty (map trim_space (dq_commits q)) \<noteq> ''''
          then (c, Inl (400, ''deploy always uses the latest synchronized revision; omit commit''))
          else if trim_space (ae_actor A) = '''' then (c, Inl (400, ''deploy actor is required''))
          else
            (case find_git_source w i c of
               Inl err \<Rightarrow> (c, Inl err)
             | Inr src \<Rightarrow>
               (case deploy_latest_revision A w src \<lparr>oa_source = ''deploy'', oa_deployment_id = Some (draw_id (ae_env A) ''deployment'' 0),
                   oa_message = deploy_request_message q, oa_created_by = Some (trim_space (ae_actor A))\<rparr> c of
                  (c, Inl err) \<Rightarrow> (c, Inl err) | (c, Inr d) \<Rightarrow> (c, Inr (new_deploy_result d))))))"

section \<open>Registering sources\<close>

definition branch_or_main :: "string \<Rightarrow> string" where
  "branch_or_main b = (if trim_space b = '''' then ''main'' else trim_space b)"

definition validate_git_source_contract :: "api_env \<Rightarrow> git_source \<Rightarrow> string \<Rightarrow> http_error + deployment" where
  "validate_git_source_contract A src token =
    (let branch = branch_or_main (gs_branch src) in
     case list_remote_branches (ae_branches A (trim_space (gs_repo_url src)) token) of
       Inl err \<Rightarrow> Inl (422, ''repository is not reachable: '' @ err)
     | Inr branches \<Rightarrow>
       if branch \<notin> set branches then Inl (422, ''branch was not found in repository'')
       else case syncer_validate (ae_sync A) (source_to_sync (gs_workspace src) src branch token) of
         Inl err \<Rightarrow> Inl (422, ''source contract validation failed'')
       | Inr d \<Rightarrow> Inr d)"

definition create_git_source :: "api_env \<Rightarrow> git_source \<Rightarrow> control_state \<Rightarrow> git_source handled" where
  "create_git_source A src c =
    (case create_source (clock (ae_env A)) src (cs_sources c) of
       Inl SourceConflict \<Rightarrow> (c, Inl (409, ''git source name already exists''))
     | Inl err \<Rightarrow> (c, Inl (400, ''''))
     | Inr (reg, s) \<Rightarrow>
       (record_audit A (gs_workspace s) (gs_id s) '''' ''source_registered'' (git_source_audit_detail s) (c\<lparr>cs_sources := reg\<rparr>), Inr s))"

text \<open>Each field comes under two names.\<close>

record register_request =
  rgr_name :: "string list"
  rgr_repo_url :: "string list"
  rgr_branch :: "string list"
  rgr_subpath :: "string list"
  rgr_creds_ref :: "string list"
  rgr_inline :: "string list"

definition handle_register_git_source :: "api_env \<Rightarrow> string \<Rightarrow> register_request option \<Rightarrow> control_state \<Rightarrow> git_source_view handled" where
  "handle_register_git_source A w body c =
    (case body of
       None \<Rightarrow> (c, Inl (400, ''name and repo_url required''))
     | Some q \<Rightarrow>
       (let name = trim_space (first_non_empty (rgr_name q)); url = trim_space (first_non_empty (rgr_repo_url q));
            branch = branch_or_main (first_non_empty (rgr_branch q)); creds = trim_space (first_non_empty (rgr_creds_ref q)) in
        if list_ex (\<lambda>v. trim_space v \<noteq> '''') (rgr_inline q)
        then (c, Inl (400, ''git credentials must be stored as a secret variable and referenced by creds_ref''))
        else if name = '''' \<or> url = '''' then (c, Inl (400, ''name and repo_url required''))
        else
          (let src = \<lparr>gs_workspace = w, gs_id = '''', gs_name = name, gs_repo_url = url, gs_branch = branch,
               gs_subpath = trim_space (first_non_empty (rgr_subpath q)), gs_token_env = creds, gs_kind = '''',
               gs_created_at = None, gs_last_commit = None, gs_last_at = None\<rparr> in
           case resolve_git_source_creds A w creds (cs_store c) of
             Inl err \<Rightarrow> store_error_reply c
           | Inr token \<Rightarrow>
             (case validate_git_source_contract A src token of
                Inl err \<Rightarrow> (c, Inl err)
              | Inr _ \<Rightarrow>
                (case create_git_source A src c of
                   (c, Inl err) \<Rightarrow> (c, Inl err) | (c, Inr s) \<Rightarrow> (c, Inr (new_git_source_view s)))))))"

datatype probe_reply = Unreachable string | Reachable string bool "string list"

definition handle_probe_git_source ::
    "api_env \<Rightarrow> (json \<Rightarrow> string) \<Rightarrow> string \<Rightarrow> (string \<times> string \<times> string \<times> git_credential_request) option \<Rightarrow> snapshot \<Rightarrow> http_error + probe_reply" where
  "handle_probe_git_source A write w body s =
    (case body of
       None \<Rightarrow> Inl (400, ''repo_url required'')
     | Some (url, branch0, creds_ref, credential) \<Rightarrow>
       if trim_space url = '''' then Inl (400, ''repo_url required'')
       else case git_credential_from_request write credential of
         Inl err \<Rightarrow> Inl (400, err)
       | Inr token0 \<Rightarrow>
         (case (if token0 \<noteq> '''' then Inr token0 else resolve_git_source_creds A w creds_ref s) of
            Inl err \<Rightarrow> Inl (500, '''')
          | Inr token \<Rightarrow>
            (case list_remote_branches (ae_branches A (trim_space url) token) of
               Inl err \<Rightarrow> Inr (Unreachable err)
             | Inr branches \<Rightarrow> Inr (Reachable (branch_or_main branch0) (branch_or_main branch0 \<in> set branches) branches))))"

section \<open>Changing and deleting sources\<close>

record patch_request =
  ptr_name :: "string option list"
  ptr_repo_url :: "string option list"
  ptr_branch :: "string option list"
  ptr_subpath :: "string option list"
  ptr_creds_ref :: "string option list"

definition git_source_patch_from_request :: "patch_request \<Rightarrow> http_error + source_patch" where
  "git_source_patch_from_request q =
    (let name = map_option trim_space (first_present (ptr_name q)); url = map_option trim_space (first_present (ptr_repo_url q)) in
     if name = Some '''' then Inl (400, ''name cannot be empty'')
     else if url = Some '''' then Inl (400, ''repo_url cannot be empty'')
     else Inr \<lparr>gp_name = name, gp_id = None, gp_repo_url = url, gp_branch = map_option branch_or_main (first_present (ptr_branch q)),
       gp_subpath = map_option trim_space (first_present (ptr_subpath q)),
       gp_token_env = map_option trim_space (first_present (ptr_creds_ref q))\<rparr>)"

definition or_field :: "string option \<Rightarrow> string \<Rightarrow> string" where
  "or_field new old = (case new of None \<Rightarrow> old | Some v \<Rightarrow> v)"

definition apply_git_source_patch :: "git_source \<Rightarrow> source_patch \<Rightarrow> git_source" where
  "apply_git_source_patch s p =
    s\<lparr>gs_name := or_field (gp_name p) (gs_name s), gs_id := or_field (gp_id p) (gs_id s),
      gs_repo_url := or_field (gp_repo_url p) (gs_repo_url s), gs_branch := or_field (gp_branch p) (gs_branch s),
      gs_subpath := or_field (gp_subpath p) (gs_subpath s), gs_token_env := or_field (gp_token_env p) (gs_token_env s)\<rparr>"

definition git_source_patch_requires_validation :: "git_source \<Rightarrow> git_source \<Rightarrow> bool" where
  "git_source_patch_requires_validation a b \<longleftrightarrow>
     gs_repo_url a \<noteq> gs_repo_url b \<or> gs_branch a \<noteq> gs_branch b \<or> gs_subpath a \<noteq> gs_subpath b \<or> gs_token_env a \<noteq> gs_token_env b"

definition handle_patch_git_source ::
    "api_env \<Rightarrow> (string \<Rightarrow> string) \<Rightarrow> string \<Rightarrow> string \<Rightarrow> patch_request option \<Rightarrow> control_state \<Rightarrow> git_source_view handled" where
  "handle_patch_git_source A quote w i body c =
    (case require_git_source_route_id i of
       Inl err \<Rightarrow> (c, Inl err)
     | Inr i \<Rightarrow>
       (case body of
          None \<Rightarrow> (c, Inl (400, ''invalid JSON''))
        | Some q \<Rightarrow>
          (case and_then (git_source_patch_from_request q) (\<lambda>p. and_then (find_git_source w i c) (\<lambda>old. Inr (p, old))) of
             Inl err \<Rightarrow> (c, Inl err)
           | Inr (p, old) \<Rightarrow>
             (let new = apply_git_source_patch old p in
              if gs_last_commit old \<noteq> None \<and> (gs_repo_url new \<noteq> gs_repo_url old \<or> gs_subpath new \<noteq> gs_subpath old)
              then (c, Inl (409, ''repository URL and subpath are locked after the first release''))
              else
                (case (if git_source_patch_requires_validation old new
                    then (case resolve_git_source_creds A w (gs_token_env new) (cs_store c) of
                        Inl err \<Rightarrow> Some (500, '''')
                      | Inr token \<Rightarrow> (case validate_git_source_contract A new token of Inl err \<Rightarrow> Some err | Inr _ \<Rightarrow> None))
                    else None) of
                   Some err \<Rightarrow> (c, Inl err)
                 | None \<Rightarrow>
                   (case patch_source w i p (cs_sources c) of
                      Inl SourceConflict \<Rightarrow> (c, Inl (409, ''git source name already exists''))
                    | Inl SourceNotFound \<Rightarrow> (c, Inl (404, ''git source not found''))
                    | Inl err \<Rightarrow> (c, Inl (400, ''''))
                    | Inr (reg, s) \<Rightarrow>
                      (let c = c\<lparr>cs_sources := reg\<rparr>; detail = git_source_change_detail quote old s in
                       (if detail = '''' then c else record_audit A w i '''' ''settings_changed'' detail c, Inr (new_git_source_view s)))))))))"

definition handle_delete_git_source :: "api_env \<Rightarrow> string \<Rightarrow> string \<Rightarrow> control_state \<Rightarrow> unit handled" where
  "handle_delete_git_source A w i c =
    (case require_git_source_route_id i of
       Inl err \<Rightarrow> (c, Inl err)
     | Inr i \<Rightarrow>
       (let detail = (case get_source w i (cs_sources c) of Inl err \<Rightarrow> '''' | Inr s \<Rightarrow> git_source_audit_detail s);
            (reg, deleted) = delete_source w i (cs_sources c) in
        if \<not> deleted then (c, Inl (404, ''git source not found''))
        else (record_audit A w i '''' ''source_deleted'' detail (c\<lparr>cs_sources := reg\<rparr>), Inr ())))"

section \<open>Samples\<close>

text \<open>\<open>repo\<close> is what the sample repository was set up as: name, URL and branch.\<close>

definition upsert_sample_source ::
    "api_env \<Rightarrow> string \<Rightarrow> string \<times> string \<times> string \<Rightarrow> control_state \<Rightarrow> (nat \<times> git_source) handled" where
  "upsert_sample_source A w repo c =
    (let (name, url, branch) = repo;
         src = \<lparr>gs_workspace = w, gs_id = '''', gs_name = name, gs_repo_url = url, gs_branch = branch, gs_subpath = '''',
           gs_token_env = '''', gs_kind = ''managed'', gs_created_at = None, gs_last_commit = None, gs_last_at = None\<rparr> in
     case get_source w name (cs_sources c) of
       Inr old \<Rightarrow>
         (case upsert_source (clock (ae_env A)) (src\<lparr>gs_created_at := gs_created_at old, gs_last_commit := gs_last_commit old,
             gs_last_at := gs_last_at old\<rparr>) (cs_sources c) of
            Inl err \<Rightarrow> store_error_reply c
          | Inr reg \<Rightarrow>
            (case get_source w name reg of
               Inl err \<Rightarrow> store_error_reply (c\<lparr>cs_sources := reg\<rparr>)
             | Inr s \<Rightarrow> (c\<lparr>cs_sources := reg\<rparr>, Inr (200, s))))
     | Inl err \<Rightarrow> (case create_git_source A src c of (c, Inl err) \<Rightarrow> (c, Inl err) | (c, Inr s) \<Rightarrow> (c, Inr (201, s))))"

definition handle_sample_git_source ::
    "api_env \<Rightarrow> string \<Rightarrow> (string + string \<times> string \<times> string) option \<Rightarrow> control_state \<Rightarrow> (nat \<times> git_source_view \<times> deploy_result) handled" where
  "handle_sample_git_source A w body c =
    (case body of
       None \<Rightarrow> (c, Inl (400, ''invalid JSON''))
     | Some (Inl err) \<Rightarrow> store_error_reply c
     | Some (Inr repo) \<Rightarrow>
       (case upsert_sample_source A w repo c of
          (c, Inl err) \<Rightarrow> (c, Inl err)
        | (c, Inr (status, s)) \<Rightarrow>
          (case sync_git_source_revision A w s c of
             (c, Inl err) \<Rightarrow> (c, Inl err)
           | (c, Inr _) \<Rightarrow>
             (case deploy_latest_revision A w s \<lparr>oa_source = ''external_sync'', oa_deployment_id = None, oa_message = None, oa_created_by = None\<rparr> c of
                (c, Inl err) \<Rightarrow> (c, Inl err)
              | (c, Inr d) \<Rightarrow> (c, Inr (status, new_git_source_view s, new_deploy_result d))))))"

section \<open>Rolling back\<close>

record rollback_view =
  rbv_app :: string
  rbv_active :: string
  rbv_previous :: string
  rbv_commit :: string
  rbv_bundle_digest :: string
  rbv_actor :: string
  rbv_reason :: string
  rbv_at :: time

definition rollback_error :: "store_error \<Rightarrow> http_error" where
  "rollback_error err =
    (case err of
       CatalogFailure ReleaseNotFound \<Rightarrow> (404, ''release not found'')
     | CatalogFailure ReleaseAlreadyActive \<Rightarrow> (409, ''release is already active'')
     | CatalogFailure InvalidRollback \<Rightarrow> (400, ''invalid release rollback request'')
     | _ \<Rightarrow> (500, ''''))"

text \<open>The body is the confirmation and the reason. \<open>s0\<close> is the store when the handler reads it, \<open>s\<close> when it writes.\<close>

definition handle_release_rollback ::
    "api_env \<Rightarrow> string \<Rightarrow> string \<Rightarrow> string \<Rightarrow> (bool \<times> string) option \<Rightarrow> snapshot \<Rightarrow> snapshot \<Rightarrow> snapshot \<times> (http_error + rollback_view)" where
  "handle_release_rollback A w app0 release0 body s0 s =
    (let app = trim_space app0; release = trim_space release0 in
     if \<not> valid_app_key app \<or> release = '''' then (s, Inl (400, ''invalid app/release id''))
     else case body of
       None \<Rightarrow> (s, Inl (400, ''invalid JSON''))
     | Some (confirm, reason) \<Rightarrow>
       if \<not> confirm then (s, Inl (400, ''rollback confirmation is required''))
       else if trim_space reason = '''' then (s, Inl (400, ''rollback reason is required''))
       else if trim_space (ae_actor A) = '''' then (s, Inl (400, ''rollback actor is required''))
       else
         (let c = load_catalog s0 in
          case find_release c w app release of
            Inl _ \<Rightarrow> (s, Inl (404, ''release not found''))
          | Inr target \<Rightarrow>
            if mget_or '''' (cat_active c) (deployment_key w app) = hist_id target then (s, Inl (409, ''release is already active''))
            else if dep_bundle_digest (hist_deployment target) = ''''
            then (s, Inl (422, ''release has no execution bundle and cannot be activated''))
            else
              (case ae_validate A (hist_deployment target) of
                 Some err \<Rightarrow> (s, Inl (422, ''execution bundle validation failed: '' @ err))
               | None \<Rightarrow>
                 (case local_rollback_release (ae_env A) \<lparr>rbr_workspace = w, rbr_app = app, rbr_release = release,
                     rbr_actor = trim_space (ae_actor A), rbr_reason = trim_space reason, rbr_at = 0\<rparr> s of
                    Inl err \<Rightarrow> (s, Inl (rollback_error err))
                  | Inr (t, x) \<Rightarrow>
                    (t, Inr \<lparr>rbv_app = hist_app (rbx_target x), rbv_active = hist_id (rbx_target x),
                       rbv_previous = rbx_previous_release x, rbv_commit = hist_commit (rbx_target x),
                       rbv_bundle_digest = dep_bundle_digest (hist_deployment (rbx_target x)), rbv_actor = aud_actor (rbx_audit x),
                       rbv_reason = rbx_reason x, rbv_at = rbx_at x\<rparr>)))))"

end
