(* ===== verification/Release_Properties.thy ===== *)
theory Release_Properties
  imports Release_Api Git_Source_Properties Webhook_Properties
begin

text \<open>
  What a synchronisation and a deployment of a source do together: which revision a deployment publishes, what a
  synchronised release guarantees a worker, and that the files of a commit stay what they were.
\<close>

section \<open>Publishing returns\<close>

definition event_drawn :: "call_env \<Rightarrow> bool" where
  "event_drawn e \<longleftrightarrow> clock e \<noteq> 0 \<and> prefix ''evt_'' (trim_space (draw_id e ''evt'' 0))
     \<and> 4 < length (trim_space (draw_id e ''evt'' 0)) \<and> \<not> blank (new_app_version_id e)"

lemma marshal_published_valid: "json_valid (marshal_published d)"
  by (simp add: marshal_published_def)

lemma new_release_published_returns:
  assumes "prefix ''evt_'' (trim_space ident)" "4 < length (trim_space ident)" "t \<noteq> 0"
    and "\<not> blank (rp_app d)" "\<not> blank (rp_release d)" "\<not> blank (rp_commit d)"
  shows "\<exists>v. new_release_published ident t d = Inr v"
proof -
  let ?d = "d\<lparr>rp_workspace := normalize_workspace (rp_workspace d),
        rp_actor := (if blank (rp_actor d) then ''system'' else trim_space (rp_actor d)),
        rp_note := (case rp_note d of None \<Rightarrow> None | Some n \<Rightarrow> if blank n then None else Some (trim_space n))\<rparr>"
  let ?v = "\<lparr>env_specversion = cloud_events_spec_version, env_id = trim_space ident,
          env_type = release_published_type, env_source = control_plane_source (rp_workspace ?d),
          env_subject = release_subject (rp_app ?d) (rp_release ?d), env_time = t,
          env_contenttype = json_content_type, env_data = marshal_published ?d\<rparr>"
  have dec: "decode_published ?v = Inr ?d" by (rule decode_marshal_published) simp_all
  have actor: "\<not> blank (rp_actor ?d)"
    by (simp add: blank_def trim_space_graphic graphic_def)
  have "validate_published ?v" unfolding validate_published_def dec using assms actor by simp
  then have "validate_event ?v" using assms by (simp add: validate_event_def marshal_published_valid)
  then show ?thesis by (simp add: new_release_published_def checked_def Let_def)
qed

lemma publish_returns:
  assumes "event_drawn e" "\<not> blank (dep_app d)" "\<not> blank (dep_commit d)"
  shows "\<exists>t p. local_publish_release e d released s = Inr (t, p)"
proof -
  obtain published h audit where pub: "prepare_publication e d (non_zero_time released (clock e)) = (published, h, audit)"
    by (metis prod_cases3)
  then have h: "hist_id h = new_app_version_id e" "hist_app h = dep_app d" "hist_commit h = dep_commit d" "hist_created_at h \<noteq> 0"
    using assms(1) by (auto simp: prepare_publication_def new_deployment_history_def Let_def event_drawn_def non_zero_time_def split: if_splits)
  have ev: "\<exists>v. prepare_release_event e h previous = Inr v" for previous
    unfolding prepare_release_event_def
    by (rule new_release_published_returns) (use assms h in \<open>simp_all add: event_drawn_def\<close>)
  obtain v where "prepare_release_event e h (latest_release_history
      (normalize_snapshot (sn_catalog (ensure_snapshot e s))) (source_workspace published) (dep_app published)) = Inr v"
    using ev by blast
  with pub show ?thesis
    by (simp add: local_publish_release_def update_def publish_release_def Let_def)
qed

section \<open>Which revision is deployed\<close>

text \<open>The candidates of a store: distinct keys, each the key of its candidate.\<close>

definition candidates_keyed :: "snapshot \<Rightarrow> bool" where
  "candidates_keyed s \<longleftrightarrow> map_ok (cat_candidates (sn_catalog s))
     \<and> (\<forall>k x. map_of (cat_candidates (sn_catalog s)) k = Some x \<longrightarrow> k = candidate_key x)"

definition candidate_of :: "string \<Rightarrow> git_source \<Rightarrow> snapshot \<Rightarrow> release_candidate \<Rightarrow> bool" where
  "candidate_of w src s x \<longleftrightarrow> (\<exists>k. map_of (cat_candidates (sn_catalog s)) k = Some x)
     \<and> of_source (normalize_workspace w) (normalize_git_source (gs_id src) '''') x"

lemma same_candidate:
  assumes "candidates_keyed s" "candidate_of w src s x" "candidate_of w src s y"
    and "dep_commit (cand_deployment x) = dep_commit (cand_deployment y)"
  shows "x = y"
  using assms by (auto simp: candidates_keyed_def candidate_of_def of_source_def candidate_key_def) (metis option.inject)

lemma latest_of_source:
  assumes "candidates_keyed s"
  shows "case get_latest_release_candidate s w (gs_id src) of
      Inl err \<Rightarrow> err = CatalogFailure CandidateNotFound \<and> (\<forall>x. \<not> candidate_of w src s x)
    | Inr m \<Rightarrow> candidate_of w src s m \<and> (\<forall>x. candidate_of w src s x \<longrightarrow> \<not> newer_candidate x m)"
proof -
  let ?cs = "cat_candidates (sn_catalog s)"
  have ok: "map_ok ?cs" using assms by (simp add: candidates_keyed_def)
  show ?thesis
    using latest_candidate_None [of "normalize_workspace w" "normalize_git_source (gs_id src) ''''" None "mvals ?cs"] mvals_mem [OF ok]
      latest_candidate_Some [of "normalize_workspace w" "normalize_git_source (gs_id src) ''''" None "mvals ?cs", unfolded newest_def]
    by (auto simp: get_latest_release_candidate_def candidate_of_def Let_def split: option.splits)
qed

lemma save_candidate_Inr:
  assumes "local_save_release_candidate e d t s = Inr (s', cand)" "candidates_keyed s"
  shows "candidates_keyed s' \<and> (\<forall>w src x. candidate_of w src s x \<longrightarrow> candidate_of w src s' x)
    \<and> map_of (cat_candidates (sn_catalog s')) (candidate_key cand) = Some cand
    \<and> candidate_key cand = release_candidate_key (source_workspace d) (source_git_source d) (dep_commit d)
    \<and> (\<forall>x. map_of (cat_candidates (sn_catalog s)) (candidate_key cand) = Some x \<longrightarrow> cand = x)
    \<and> (\<forall>w src x. candidate_of w src s' x \<longrightarrow> candidate_of w src s x \<or> x = cand)"
proof -
  from assms(1) obtain prepared u where p: "prepare_release_candidate e d t = Inr prepared"
    and u: "save_release_candidate prepared (ensure_snapshot e s) = Inr (u, cand)" "s' = ensure_snapshot e u"
    by (auto simp: local_save_release_candidate_def update_Inr split: sum.splits)
  let ?cs = "cat_candidates (sn_catalog s)"
  have c: "(if map_of ?cs (candidate_key prepared) = None then cat_candidates (sn_catalog s') = mput (candidate_key prepared) prepared ?cs \<and> cand = prepared
      else cat_candidates (sn_catalog s') = ?cs \<and> map_of ?cs (candidate_key prepared) = Some cand)"
    using u by (auto simp: save_release_candidate_def Let_def split: option.splits)
  have k: "candidate_key cand = candidate_key prepared"
    using c assms(2) by (auto simp: candidates_keyed_def split: if_splits)
  show ?thesis
  proof (cases "map_of ?cs (candidate_key prepared)")
    case None
    with c have new: "cat_candidates (sn_catalog s') = mput (candidate_key prepared) prepared ?cs" "cand = prepared" by auto
    then have "candidates_keyed s'" using assms(2) by (simp add: candidates_keyed_def map_ok_mput)
    moreover have "candidate_of w src s' x" if old: "candidate_of w src s x" for w src x
    proof -
      from old obtain k where "map_of ?cs k = Some x" by (auto simp: candidate_of_def)
      moreover from this None have "k \<noteq> candidate_key prepared" by auto
      ultimately show ?thesis using old new(1) by (auto simp: candidate_of_def)
    qed
    moreover have "map_of ?cs (candidate_key cand) = None" using None new(2) by simp
    moreover have "candidate_of w src s x \<or> x = cand" if "candidate_of w src s' x" for w src x
      using that new by (auto simp: candidate_of_def split: if_splits)
    ultimately show ?thesis using new prepare_candidate_key [OF p] by simp
  next
    case (Some x)
    with c have "cat_candidates (sn_catalog s') = ?cs" "map_of ?cs (candidate_key prepared) = Some cand" by auto
    then show ?thesis using assms(2) k prepare_candidate_key [OF p] by (simp add: candidates_keyed_def candidate_of_def)
  qed
qed

lemma sync_Inr:
  assumes "sync_git_source_revision A w src c = (c1, Inr cand)"
  obtains token bundles d s reg g where "resolve_git_source_creds A w (gs_token_env src) (cs_store c) = Inr token"
    and "syncer_sync (ae_sync A) (ae_root A) (Some (cs_bundles c)) (source_to_sync w src (gs_branch src) token) = Inr (bundles, d)"
    and "local_save_release_candidate (ae_env A) d (clock (ae_env A)) (cs_store c) = Inr (s, cand)"
    and "mark_synced (clock (ae_env A)) w (gs_id src) (dep_commit (cand_deployment cand)) (cand_synced_at cand) (cs_sources c) = Inr (reg, g)"
    and "c1 = \<lparr>cs_store = s, cs_sources = reg, cs_bundles = bundles\<rparr>"
  using assms
  by (auto simp: sync_git_source_revision_def store_error_reply_def Let_def split: if_splits sum.splits prod.splits)

lemma sync_returns:
  assumes "\<not> ae_busy A" "resolve_git_source_creds A w (gs_token_env src) (cs_store c) = Inr token"
    and sy: "syncer_sync (ae_sync A) (ae_root A) (Some (cs_bundles c)) (source_to_sync w src (gs_branch src) token) = Inr (bundles, d)"
    and "\<not> blank (dep_app d)" "\<not> blank (dep_commit d)" "candidates_keyed (cs_store c)" "get_source w (gs_id src) (cs_sources c) = Inr g"
  shows "\<exists>c1 cand. sync_git_source_revision A w src c = (c1, Inr cand)
    \<and> candidate_key cand = release_candidate_key (source_workspace d) (source_git_source d) (dep_commit d)"
proof -
  let ?e = "ae_env A"
  obtain x where x: "prepare_release_candidate ?e d (clock ?e) = Inr x"
    using assms(4,5) by (simp add: prepare_release_candidate_def Let_def blank_def source_git_source_def)
  have "\<exists>s cand. save_release_candidate x (ensure_snapshot ?e (cs_store c)) = Inr (s, cand)"
    by (simp add: save_release_candidate_def Let_def split: option.splits)
  with x obtain s cand where save: "local_save_release_candidate ?e d (clock ?e) (cs_store c) = Inr (s, cand)"
    by (auto simp: local_save_release_candidate_def update_Inr)
  obtain reg g' where "mark_synced (clock ?e) w (gs_id src) (dep_commit (cand_deployment cand)) (cand_synced_at cand) (cs_sources c) = Inr (reg, g')"
    using assms(7) by (auto simp: mark_synced_def get_source_def Let_def split: option.splits)
  with save sy assms(1,2) obtain c1 where "sync_git_source_revision A w src c = (c1, Inr cand)"
    by (simp add: sync_git_source_revision_def)
  moreover have "candidate_key cand = release_candidate_key (source_workspace d) (source_git_source d) (dep_commit d)"
    using save_candidate_Inr [OF save assms(6)] by blast
  ultimately show ?thesis by blast
qed

lemma mark_synced_recorded:
  assumes "mark_synced now w i commit t reg = Inr (reg', g)" and "is_positive_integer (trim_space i)"
  shows "get_source w i reg' = Inr g \<and> gs_last_commit g = Some commit"
  using assms by (auto simp: mark_synced_def get_source_def resolve_source_def Let_def split: option.splits if_splits)

lemma published_entry_stays:
  assumes "normalize_deployment_defaults p = p"
  shows "normalize_deployment_map (mput (deployment_key (dep_workspace p) (dep_app p)) p (normalize_deployment_map ds))
    = mput (deployment_key (dep_workspace p) (dep_app p)) p (normalize_deployment_map ds)"
  using assms normalize_deployment_map_canonical [of ds]
  by (intro normalize_deployment_map_id) (auto simp: map_ok_mput list_all_iff canonical_entry_def dest: subsetD [OF set_mput])

lemma published_is_active:
  assumes "local_publish_release e d released s = Inr (t, p)"
  shows "get_deployment_for_workspace t (source_workspace p) (dep_app p) = Inr p"
    and "dep_commit p = dep_commit d" "dep_app p = dep_app d" "source_workspace p = source_workspace d"
proof -
  from assms obtain u where u: "publish_release e d released (ensure_snapshot e s) = Inr (u, p)" "t = ensure_snapshot e u"
    unfolding local_publish_release_def by (rule local_step)
  obtain published h audit where pub: "prepare_publication e d (non_zero_time released (clock e)) = (published, h, audit)"
    by (metis prod_cases3)
  from u(1) have p: "p = ensure_deployment_updated_at (normalize_deployment_defaults d) (non_zero_time (non_zero_time released (clock e)) (clock e))"
    by (rule publish_release_Inr)
  then have n: "normalize_deployment_defaults p = p"
    by (simp add: ensure_deployment_updated_at_def normalize_deployment_defaults_def default_route_tag_def default_timeout_s_def)
  from u pub show "get_deployment_for_workspace t (source_workspace p) (dep_app p) = Inr p"
    by (auto simp: publish_release_def get_deployment_for_workspace_def Let_def published_entry_stays [OF n] split: sum.splits)
  from p show "dep_commit p = dep_commit d" "dep_app p = dep_app d" "source_workspace p = source_workspace d" by simp_all
qed

lemma stamp_release_frame [simp]:
  "dep_commit (stamp_release a t d) = dep_commit d" "dep_app (stamp_release a t d) = dep_app d"
  "source_workspace (stamp_release a t d) = source_workspace d" "dep_workspace (stamp_release a t d) = dep_workspace d"
  by (simp_all add: stamp_release_def source_workspace_def)

definition keeps_revision :: "api_env \<Rightarrow> bool" where
  "keeps_revision B \<longleftrightarrow> (\<forall>d d'. ae_build B d = Inr d' \<longrightarrow>
     dep_commit d' = dep_commit d \<and> dep_app d' = dep_app d \<and> dep_workspace d' = dep_workspace d)"

lemma deploy_Inr:
  assumes "deploy_latest_revision B w src audit c = (c2, Inr d)" "candidates_keyed (cs_store c)" "keeps_revision B"
  obtains m where "candidate_of w src (cs_store c) m" and "\<And>x. candidate_of w src (cs_store c) x \<Longrightarrow> \<not> newer_candidate x m"
    and "dep_commit d = dep_commit (cand_deployment m)" "dep_app d = dep_app (cand_deployment m)"
    and "source_workspace d = source_workspace (cand_deployment m)"
    and "get_deployment_for_workspace (cs_store c2) (source_workspace d) (dep_app d) = Inr d"
proof -
  obtain m where m: "get_latest_release_candidate (cs_store c) w (gs_id src) = Inr m"
    using assms(1) by (auto simp: deploy_latest_revision_def store_error_reply_def split: if_splits sum.splits store_error.splits catalog_error.splits)
  with assms(1) obtain d0 s where d0: "ae_build B (cand_deployment m) = Inr d0"
    and p: "local_publish_release (ae_env B) (stamp_release audit (clock (ae_env B)) d0) (clock (ae_env B)) (cs_store c) = Inr (s, d)"
    and c2: "c2 = c\<lparr>cs_store := s\<rparr>"
    by (auto simp: deploy_latest_revision_def store_error_reply_def split: if_splits sum.splits option.splits)
  from latest_of_source [OF assms(2), of w src] m
  have M: "candidate_of w src (cs_store c) m" "\<And>x. candidate_of w src (cs_store c) x \<Longrightarrow> \<not> newer_candidate x m" by auto
  show thesis
    by (rule that [OF M]) (use published_is_active [OF p] d0 assms(3) c2 in \<open>auto simp: keeps_revision_def source_workspace_def\<close>)
qed

lemma deploy_returns:
  assumes "candidates_keyed (cs_store c)" "candidate_of w src (cs_store c) m"
    and "\<And>x. candidate_of w src (cs_store c) x \<Longrightarrow> \<not> newer_candidate x m"
    and "\<not> ae_busy B" "ae_build B (cand_deployment m) = Inr d0" "ae_validate B d0 = None" "event_drawn (ae_env B)"
    and "\<not> blank (dep_app d0)" "\<not> blank (dep_commit d0)"
  shows "\<exists>c2 d. deploy_latest_revision B w src audit c = (c2, Inr d)"
proof -
  from latest_of_source [OF assms(1), of w src] assms(2) obtain m' where
    m': "get_latest_release_candidate (cs_store c) w (gs_id src) = Inr m'" "candidate_of w src (cs_store c) m'" "\<not> newer_candidate m m'"
    by (auto split: sum.splits)
  with assms(3) have "cand_synced_at m = cand_synced_at m' \<and> dep_commit (cand_deployment m) = dep_commit (cand_deployment m')"
    by (fastforce simp: newer_candidate_def)
  with same_candidate [OF assms(1,2) m'(2)] have eq: "m' = m" by simp
  have v: "validate_release_candidate m w (gs_id src) (dep_commit (cand_deployment m))"
    using assms(2)
    by (auto simp: candidate_of_def of_source_def validate_release_candidate_def candidate_key_def release_candidate_key_def
        source_workspace_def source_git_source_def)
  obtain s p where "local_publish_release (ae_env B) (stamp_release audit (clock (ae_env B)) d0) (clock (ae_env B)) (cs_store c) = Inr (s, p)"
    using publish_returns [OF assms(7), of "stamp_release audit (clock (ae_env B)) d0"] assms(8,9) by (simp; blast)
  with m' eq v assms(4-6) show ?thesis by (simp add: deploy_latest_revision_def)
qed

lemma prepared_of_source:
  assumes "prepare_release_candidate e d t = Inr x"
  shows "source_workspace (cand_deployment x) = source_workspace d" "source_git_source (cand_deployment x) = source_git_source d"
    and "dep_commit (cand_deployment x) = dep_commit d" "dep_app (cand_deployment x) = dep_app d" "cand_synced_at x = non_zero_time t (clock e)"
    and "\<not> blank (dep_commit d)" "\<not> blank (dep_app d)"
  using assms
  by (auto simp: prepare_release_candidate_def Let_def source_workspace_def source_git_source_def blank_def split: if_splits)

lemma synced_identity:
  assumes "syncer_sync S root store (source_to_sync w src branch token) = Inr (bs, d)" "trim_space (gs_id src) \<noteq> ''''"
  shows "source_workspace d = normalize_workspace w" "source_git_source d = normalize_git_source (gs_id src) ''''"
  using assms
  by (auto simp: syncer_sync_def inspect_source_def synced_deployment_def source_to_sync_def and_then_eq_Inr Let_def
      source_workspace_def source_git_source_def normalize_git_source_def split: option.splits if_splits)

text \<open>C34. Synchronising a commit that was not synchronised before, at a time later than every synchronisation of the
source, records it in the registry, and the next deployment of the source, by whatever request and through whatever builder
that keeps the revision, succeeds, publishes exactly this commit and makes it the active deployment of the app.\<close>

theorem synced_revision_is_deployed:
  assumes "candidates_keyed (cs_store c)" "is_positive_integer (trim_space (gs_id src))"
    and sync: "sync_git_source_revision A w src c = (c1, Inr cand)"
    and new: "map_of (cat_candidates (sn_catalog (cs_store c))) (candidate_key cand) = None"
    and later: "\<And>x. candidate_of w src (cs_store c) x \<Longrightarrow> cand_synced_at x < clock (ae_env A)"
    and builder: "keeps_revision B" "ae_build B (cand_deployment cand) = Inr d0" "ae_validate B d0 = None"
    and "\<not> ae_busy B" "event_drawn (ae_env B)"
  shows "\<exists>c2 d g. deploy_latest_revision B w src audit c1 = (c2, Inr d)
    \<and> dep_commit d = dep_commit (cand_deployment cand) \<and> dep_app d = dep_app (cand_deployment cand)
    \<and> get_deployment_for_workspace (cs_store c2) w (dep_app d) = Inr d
    \<and> get_source w (gs_id src) (cs_sources c1) = Inr g \<and> gs_last_commit g = Some (dep_commit d)"
proof -
  let ?e = "ae_env A"
  from sync show ?thesis
  proof (rule sync_Inr)
    fix token bundles d s reg g
    assume sy: "syncer_sync (ae_sync A) (ae_root A) (Some (cs_bundles c)) (source_to_sync w src (gs_branch src) token) = Inr (bundles, d)"
      and save: "local_save_release_candidate ?e d (clock ?e) (cs_store c) = Inr (s, cand)"
      and mark: "mark_synced (clock ?e) w (gs_id src) (dep_commit (cand_deployment cand)) (cand_synced_at cand) (cs_sources c) = Inr (reg, g)"
      and c1: "c1 = \<lparr>cs_store = s, cs_sources = reg, cs_bundles = bundles\<rparr>"
    have id: "trim_space (gs_id src) \<noteq> ''''" using mark by (auto simp: mark_synced_def resolve_source_def Let_def)
    note K = save_candidate_Inr [OF save assms(1)]
    from save obtain x where x: "prepare_release_candidate ?e d (clock ?e) = Inr x"
      by (auto simp: local_save_release_candidate_def split: sum.splits)
    have same_key: "candidate_key cand = candidate_key x" using K prepare_candidate_key [OF x] by simp
    from save x obtain u where u: "save_release_candidate x (ensure_snapshot ?e (cs_store c)) = Inr (u, cand)" "s = ensure_snapshot ?e u"
      by (auto simp: local_save_release_candidate_def update_Inr)
    have none: "map_of (cat_candidates (sn_catalog (cs_store c))) (candidate_key x) = None" using new same_key by simp
    have "x = cand" using u(1) none by (simp add: save_release_candidate_def Let_def)
    then have eq: "cand = x" by (rule sym)
    have cs: "cat_candidates (sn_catalog s) = mput (candidate_key x) x (cat_candidates (sn_catalog (cs_store c)))"
      using u(1) none unfolding u(2) by (clarsimp simp: save_release_candidate_def Let_def)
    note P = prepared_of_source [OF x, folded eq] and I = synced_identity [OF sy id]
    have "of_source (normalize_workspace w) (normalize_git_source (gs_id src) '''') cand"
      using P(1,2) I by (simp add: of_source_def)
    moreover have "map_of (cat_candidates (sn_catalog s)) (candidate_key cand) = Some cand" using K by blast
    ultimately have of: "candidate_of w src s cand" unfolding candidate_of_def by blast
    have newest: "\<not> newer_candidate y cand" if "candidate_of w src s y" for y
    proof (cases "y = cand")
      case False
      then have "candidate_of w src (cs_store c) y"
        using that cs eq by (auto simp: candidate_of_def split: if_splits)
      then have "cand_synced_at y < clock ?e" by (rule later)
      moreover have "cand_synced_at cand = clock ?e" using P(5) by (simp add: non_zero_time_def)
      ultimately show ?thesis by (simp add: newer_candidate_def)
    qed (simp add: newer_candidate_irrefl)
    have d0: "dep_commit d0 = dep_commit (cand_deployment cand)" "dep_app d0 = dep_app (cand_deployment cand)"
      using builder(1,2) by (simp_all add: keeps_revision_def)
    have k: "candidates_keyed (cs_store c1)" "candidate_of w src (cs_store c1) cand"
      "\<And>y. candidate_of w src (cs_store c1) y \<Longrightarrow> \<not> newer_candidate y cand"
      using K of newest by (simp_all add: c1)
    obtain c2 dd where dep: "deploy_latest_revision B w src audit c1 = (c2, Inr dd)"
      using deploy_returns [OF k assms(9) builder(2,3) assms(10), where audit = audit] P d0 by auto
    from deploy_Inr [OF dep k(1) builder(1)] obtain m where m: "candidate_of w src (cs_store c1) m"
      "\<And>y. candidate_of w src (cs_store c1) y \<Longrightarrow> \<not> newer_candidate y m"
      "dep_commit dd = dep_commit (cand_deployment m)" "dep_app dd = dep_app (cand_deployment m)"
      "source_workspace dd = source_workspace (cand_deployment m)"
      "get_deployment_for_workspace (cs_store c2) (source_workspace dd) (dep_app dd) = Inr dd" by blast
    have "dep_commit (cand_deployment m) = dep_commit (cand_deployment cand)"
      using k(3) [OF m(1)] m(2) [OF k(2)] by (force simp: newer_candidate_def)
    from same_candidate [OF k(1) m(1) k(2) this] have mc: "m = cand" .
    have "source_workspace dd = normalize_workspace w" using m(5) P(1) I(1) by (simp add: mc)
    then have "get_deployment_for_workspace (cs_store c2) w (dep_app dd) = Inr dd"
      using m(6) by (simp add: get_deployment_for_workspace_def deployment_key_def)
    then show ?thesis using dep m(3,4) mark_synced_recorded [OF mark assms(2)] by (auto simp: mc c1)
  qed
qed

text \<open>C37. A revision that is synchronised again is not what is deployed next. When another revision of the source was
synchronised after it, the synchronisation answers with the older one and the registry records it as synchronised last,
but every deployment that follows publishes a different commit.\<close>

theorem resynced_revision_is_not_deployed:
  assumes keyed: "candidates_keyed (cs_store c)" and "is_positive_integer (trim_space (gs_id src))"
    and known: "candidate_of w src (cs_store c) cand" "candidate_of w src (cs_store c) other"
    and older: "cand_synced_at cand < cand_synced_at other"
    and sync: "sync_git_source_revision A w src c = (c1, Inr cand)"
    and deploy: "deploy_latest_revision B w src audit c1 = (c2, Inr d)" "keeps_revision B"
  shows "dep_commit d \<noteq> dep_commit (cand_deployment cand)
    \<and> (\<exists>g. get_source w (gs_id src) (cs_sources c1) = Inr g \<and> gs_last_commit g = Some (dep_commit (cand_deployment cand)))"
proof -
  from sync obtain token bundles x s reg g where save: "local_save_release_candidate (ae_env A) x (clock (ae_env A)) (cs_store c) = Inr (s, cand)"
    and mark: "mark_synced (clock (ae_env A)) w (gs_id src) (dep_commit (cand_deployment cand)) (cand_synced_at cand) (cs_sources c) = Inr (reg, g)"
    and c1: "c1 = \<lparr>cs_store = s, cs_sources = reg, cs_bundles = bundles\<rparr>" by (rule sync_Inr)
  note K = save_candidate_Inr [OF save keyed]
  have k: "candidates_keyed (cs_store c1)" "candidate_of w src (cs_store c1) cand" "candidate_of w src (cs_store c1) other"
    using K known by (simp_all add: c1)
  from deploy_Inr [OF deploy(1) k(1) deploy(2)] obtain m where m: "candidate_of w src (cs_store c1) m"
    "\<And>y. candidate_of w src (cs_store c1) y \<Longrightarrow> \<not> newer_candidate y m" "dep_commit d = dep_commit (cand_deployment m)" by blast
  have "m \<noteq> cand" using m(2) [OF k(3)] older by (auto simp: newer_candidate_def)
  with same_candidate [OF k(1) m(1) k(2)] m(3) have "dep_commit d \<noteq> dep_commit (cand_deployment cand)" by auto
  with mark_synced_recorded [OF mark assms(2)] show ?thesis by (simp add: c1)
qed

section \<open>What a synchronised release guarantees\<close>

lemma inspect_source_Inr:
  assumes "inspect_source S src = Inr (d, dir)"
  obtains commit repo m as where "load_manifest (se_manifest S) (read_tree S dir) = Inr m"
    and "materialize_action_schemas S (read_tree S dir) (man_actions m) = Inr as" and "d = synced_deployment S src commit repo m as"
  using assms by (auto simp: inspect_source_def and_then_eq_Inr Let_def split: option.splits if_splits)

lemma all2_mem: "list_all2 P xs ys \<Longrightarrow> y \<in> set ys \<Longrightarrow> \<exists>x \<in> set xs. P x y"
  by (induction rule: list_all2_induct) auto

lemma materialize_all:
  "materialize_action_schemas S tree as = Inr out \<Longrightarrow>
    list_all2 (\<lambda>(n, a) (n', b). n' = n \<and> materialize_action S tree n a = Inr b) as out"
proof (induction as arbitrary: out)
  case (Cons x as)
  obtain n a where "x = (n, a)" by (cases x)
  with Cons show ?case by (auto simp: and_then_eq_Inr)
qed simp

lemma sync_schema_valid: "sync_schema S tree p = Inr r \<Longrightarrow> json_valid r"
  by (auto simp: sync_schema_def read_schema_file_def empty_object_def split: if_splits option.splits file_read.splits)

lemma materialized:
  assumes "materialize_action S tree n a = Inr b"
  obtains x y z where "b = a\<lparr>act_input_body := x, act_output_body := y, act_operator_body := z\<rparr>"
    and "json_valid x" "json_valid y" "json_valid z"
  using assms sync_schema_valid by (auto simp: materialize_action_def and_then_eq_Inr)

definition workable_action :: "deployment \<Rightarrow> string \<Rightarrow> action \<Rightarrow> bool" where
  "workable_action d n a \<longleftrightarrow> valid_action_key n \<and> act_key a = n \<and> act_adapter a = None \<and> act_command a = []
     \<and> act_entrypoint a \<noteq> '''' \<and> \<not> outside_path (act_entrypoint a) \<and> act_runtime a \<noteq> '''' \<and> act_tag_override a = None
     \<and> json_valid (act_input_body a) \<and> json_valid (act_output_body a) \<and> json_valid (act_operator_body a)
     \<and> normalize_labels (effective_required_labels d a) False = Inr (effective_required_labels d a)"

text \<open>C35. What a synchronisation accepts can be run: the app key is valid, there is a route tag and at least one action, and
every action has a valid key, an entrypoint inside the app, a runtime, no command or adapter, no override of its tag, a valid JSON document
for each schema, and requires labels that a worker can offer as they are, so that its jobs do not wait forever for a worker that no registration admits.\<close>

theorem synced_release_runnable:
  assumes "syncer_sync S root store src = Inr (bs, d)"
  shows "valid_app_key (dep_app d) \<and> dep_tag d \<noteq> '''' \<and> (\<exists>as. dep_actions d = Some as \<and> as \<noteq> []
    \<and> list_all (\<lambda>(n, a). workable_action d n a) as)"
proof -
  from assms obtain dir where "inspect_source S src = Inr (d, dir)"
    by (auto simp: syncer_sync_def and_then_eq_Inr Let_def split: option.splits)
  then obtain commit repo m as where l: "load_manifest (se_manifest S) (read_tree S dir) = Inr m"
    and mat: "materialize_action_schemas S (read_tree S dir) (man_actions m) = Inr as"
    and d: "d = synced_deployment S src commit repo m as" by (rule inspect_source_Inr)
  from l obtain f where "parse_manifest f = Inr m"
    by (auto simp: load_manifest_def split: file_read.splits option.splits)
  note P = parse_manifest_Inr [OF this] and all = materialize_all [OF mat]
  have D: "dep_app d = man_app m" "dep_tag d = man_tag m" "dep_labels d = man_runs_on m" "dep_capabilities d = man_capabilities m"
    "dep_actions d = Some (map (\<lambda>(k, a). (k, a\<lparr>act_updated_at := Some (se_now S)\<rparr>)) as)"
    by (simp_all add: d synced_deployment_def Let_def)
  have "workable_action d n (a\<lparr>act_updated_at := Some (se_now S)\<rparr>)" if mem: "(n, a) \<in> set as" for n a
  proof -
    obtain a0 where a0: "(n, a0) \<in> set (man_actions m)" "materialize_action S (read_tree S dir) n a0 = Inr a"
      using all2_mem [OF all mem] by auto
    from a0(2) obtain x y z where a: "a = a0\<lparr>act_input_body := x, act_output_body := y, act_operator_body := z\<rparr>"
      and v: "json_valid x" "json_valid y" "json_valid z" by (rule materialized)
    let ?a = "a\<lparr>act_updated_at := Some (se_now S)\<rparr>"
    have r: "runnable_action m n a0" "labels_offerable m a0" using P(7) a0(1) by auto
    have "labels_offerable m ?a" using r(2) by (simp add: a labels_offerable_def)
    from required_labels_offerable [OF P(6,5) this D(3,4)]
    have "normalize_labels (effective_required_labels d ?a) False = Inr (effective_required_labels d ?a)" .
    then show ?thesis using r(1) v by (simp add: workable_action_def runnable_action_def a)
  qed
  moreover have "as \<noteq> []" using all P(3) by auto
  ultimately show ?thesis using P(1,4) by (auto simp: D list_all_iff)
qed

section \<open>The files of a commit\<close>

lemma copy_tree_idem [simp]: "copy_tree (copy_tree t) = copy_tree t"
  by (simp add: copy_tree_def)

lemma bundle_dir_of_release:
  "source_bundle_dir root (source_workspace d) (source_git_source d) c = source_bundle_dir root (dep_workspace d) (source_git_source d) c"
  by (simp add: source_bundle_dir_def source_workspace_def)

lemma materialize_keeps:
  assumes "bundle_fetch root bs w g c = Some t"
  shows "bundle_fetch root (bundle_materialize root bs w' g' c' t') w g c = Some t"
  using assms by (auto simp: bundle_fetch_def bundle_materialize_def bundle_exists_def)

lemma materialized_is_fetched:
  "bundle_fetch root (bundle_materialize root bs w g c t) w g c = Some (case bundle_fetch root bs w g c of None \<Rightarrow> copy_tree t | Some t' \<Rightarrow> t')"
  by (auto simp: bundle_fetch_def bundle_materialize_def bundle_exists_def split: option.splits)

lemma syncer_sync_Inr:
  assumes "syncer_sync S root (Some bs) src = Inr (bs', d)"
  obtains dir where "inspect_source S src = Inr (d, dir)"
    and "bs' = bundle_materialize root bs (source_workspace d) (source_git_source d) (dep_commit d) dir"
  using assms by (auto simp: syncer_sync_def and_then_eq_Inr Let_def bundle_materialize_def split: if_splits)

text \<open>C36. Source snapshots are immutable: after a synchronisation the files of its commit can be fetched; they are the files that
were inspected, without the directories that are left out, when the commit was not stored before, and the files stored then otherwise;
and every commit that could be fetched before gives the same files, whatever source was synchronised.\<close>

theorem source_snapshots_immutable:
  assumes "syncer_sync S root (Some bs) src = Inr (bs', d)"
  shows "(\<exists>dir. inspect_source S src = Inr (d, dir)
      \<and> bundle_fetch root bs' (source_workspace d) (source_git_source d) (dep_commit d)
        = Some (case bundle_fetch root bs (source_workspace d) (source_git_source d) (dep_commit d) of None \<Rightarrow> copy_tree dir | Some t \<Rightarrow> t))
    \<and> (\<forall>w g c t. bundle_fetch root bs w g c = Some t \<longrightarrow> bundle_fetch root bs' w g c = Some t)"
proof -
  from assms obtain dir where i: "inspect_source S src = Inr (d, dir)"
    and bs': "bs' = bundle_materialize root bs (source_workspace d) (source_git_source d) (dep_commit d) dir" by (rule syncer_sync_Inr)
  show ?thesis using i materialize_keeps materialized_is_fetched unfolding bs' by metis
qed

text \<open>The digest of a local tree is ambiguous: a zero byte ends a path and ends a content, and a content may hold zero bytes,
so a tree of one file and a tree of two files can have the same digest, and the files of the first stay
those of the revision when the second is stored.\<close>

theorem tree_digest_ambiguous:
  "\<exists>t u. copy_tree t \<noteq> copy_tree u \<and> (\<forall>hash. tree_digest hash t = tree_digest hash u)
    \<and> (\<forall>hash root w g. bundle_fetch root (bundle_materialize root (bundle_materialize root [] w g (tree_digest hash t) t)
        w g (tree_digest hash u) u) w g (tree_digest hash u) = Some (copy_tree t))"
proof -
  let ?t = "[(''a'', [CHR ''x'', CHR 0x00, CHR ''b'', CHR 0x00, CHR ''y''])]" and ?u = "[(''a'', ''x''), (''b'', ''y'')]"
  have "digest_text ?t = digest_text ?u" by code_simp
  then have d: "tree_digest hash ?t = tree_digest hash ?u" for hash by (simp only: tree_digest_def)
  have "copy_tree ?t \<noteq> copy_tree ?u" by code_simp
  moreover have "bundle_fetch root (bundle_materialize root (bundle_materialize root [] w g (tree_digest hash ?t) ?t)
        w g (tree_digest hash ?u) ?u) w g (tree_digest hash ?u) = Some (copy_tree ?t)" for hash root w g
    unfolding d [of hash, symmetric] by (rule materialize_keeps) (simp add: materialized_is_fetched bundle_fetch_def [where bs = "[]"])
  ultimately show ?thesis using d by blast
qed

section \<open>Moving a source inside its repository\<close>

lemma record_audit_frame [simp]:
  "cs_sources (record_audit A w g app kind detail c) = cs_sources c" "cs_bundles (record_audit A w g app kind detail c) = cs_bundles c"
  "cat_candidates (sn_catalog (cs_store (record_audit A w g app kind detail c))) = cat_candidates (sn_catalog (cs_store c))"
  by (auto simp: record_audit_def local_append_audit_def update_Inr append_audit_def split: sum.splits)

lemma handle_patch_frame:
  assumes "handle_patch_git_source A quote w i body c = (c', r)"
  shows "cs_bundles c' = cs_bundles c" "cat_candidates (sn_catalog (cs_store c')) = cat_candidates (sn_catalog (cs_store c))"
  using assms by (auto simp: handle_patch_git_source_def Let_def split: sum.splits option.splits if_splits prod.splits source_error.splits)

lemma candidates_keyed_frame:
  "cat_candidates (sn_catalog t) = cat_candidates (sn_catalog s) \<Longrightarrow> candidates_keyed s \<Longrightarrow> candidates_keyed t"
  by (simp add: candidates_keyed_def)

lemma patch_locked:
  assumes "require_git_source_route_id i = Inr i'" "get_source w i' (cs_sources c) = Inr old" "gs_last_commit old \<noteq> None"
    and "git_source_patch_from_request q = Inr p" "gp_subpath p = Some sub" "sub \<noteq> gs_subpath old"
  shows "handle_patch_git_source A quote w i (Some q) c = (c, Inl (409, ''repository URL and subpath are locked after the first release''))"
  using assms by (simp add: handle_patch_git_source_def find_git_source_def apply_git_source_patch_def or_field_def)

text \<open>A patch that keeps name, workspace and identifier has no conflict, and finds its source again.\<close>

lemma normalize_source_ok:
  assumes "source_ok s" and "gs_name s \<noteq> default_git_source"
  shows "normalize_source s = Inr s"
proof -
  have "normalize_numeric_id (trim_space (gs_id s)) = gs_id s"
    using assms(1) by (simp add: source_ok_def normalize_numeric_id_def)
  then show ?thesis
    using assms by (cases s) (auto simp: normalize_source_def source_ok_def Let_def)
qed

lemma patch_kept_name:
  assumes c: "consistent reg" and r: "resolve_source reg (normalize_workspace w) i = Some (k, old)"
    and new: "new = (apply_source_patch p old)\<lparr>gs_workspace := normalize_workspace w\<rparr>" "source_ok new"
    and same: "gs_name new = gs_name old" "gs_name old \<noteq> default_git_source"
    and s: "s = (if same_location new old then new else new\<lparr>gs_last_commit := None, gs_last_at := None\<rparr>)"
  shows "patch_source w i p reg = Inr (mput k s reg, s)" and "get_source w i (mput k s reg) = Inr s"
    and "consistent (mput k s reg)"
proof -
  have ok: "registry_ok reg" using c by (simp add: consistent_def)
  note R = resolve_Some [OF ok r]
  have n: "normalize_source new = Inr new" using new(2) same by (simp add: normalize_source_ok)
  have ids: "gs_workspace new = gs_workspace old" "gs_id new = gs_id old" "gs_workspace s = gs_workspace old" "gs_id s = gs_id old"
    "gs_name s = gs_name old"
    using R(4) new(1) same(1) by (simp_all add: s patched_fields)
  have free: "\<not> has_source_name reg (gs_workspace s) (gs_name s) k"
    using c R(1,3) ids unfolding consistent_def Git_Source_Properties.names_unique_def has_name_iff [OF ok]
    by (metis source_ok_def)
  show p: "patch_source w i p reg = Inr (mput k s reg, s)"
    using r n free R(2) ids by (simp add: patch_source_def Let_def new(1) [symmetric] s [symmetric])
  show c': "consistent (mput k s reg)" by (rule patch_consistent [OF c p])
  then have ok': "registry_ok (mput k s reg)" and un: "Git_Source_Properties.names_unique (mput k s reg)" by (simp_all add: consistent_def)
  have m: "map_of (mput k s reg) k = Some s" by simp
  have key: "source_key (gs_workspace s) (gs_id s) = k" using R(2) ids by simp
  show "get_source w i (mput k s reg) = Inr s"
  proof (cases "is_positive_integer (trim_space i)")
    case True
    with r have "k = source_key (normalize_workspace w) (trim_space i)" "trim_space i \<noteq> ''''"
      by (auto simp: resolve_source_def Let_def split: if_splits)
    with True m show ?thesis by (simp add: get_source_def resolve_source_def Let_def)
  next
    case False
    with r have f: "find_source_by_name reg (normalize_workspace w) (trim_space i) = Some old" "trim_space i \<noteq> ''''"
      by (auto simp: resolve_source_def Let_def split: if_splits)
    note F = find_name_Some [OF ok f(1)]
    obtain s' where s': "find_source_by_name (mput k s reg) (normalize_workspace w) (trim_space i) = Some s'"
      using find_name_None [OF ok' _ m, of "normalize_workspace w" "trim_space i"] F(2,3) ids by fastforce
    note F' = find_name_Some [OF ok' s']
    have "source_key (gs_workspace s') (gs_id s') = k"
      using un F'(1) m F(2,3) F'(2,3) ids unfolding Git_Source_Properties.names_unique_def by metis
    with F'(1) m have "s' = s" by simp
    with False f(2) s' show ?thesis by (simp add: get_source_def resolve_source_def Let_def)
  qed
qed

lemma creds_after_patch:
  assumes "handle_patch_git_source A quote w i body c = (c', r)"
  shows "resolve_git_source_creds B v ref (cs_store c') = resolve_git_source_creds B v ref (cs_store c)"
proof -
  have "sn_variables (cs_store (record_audit A w g app kind detail x)) = sn_variables (cs_store x)" for w g app kind detail x
    by (auto simp: record_audit_def local_append_audit_def update_Inr append_audit_def split: sum.splits)
  then have "sn_variables (cs_store c') = sn_variables (cs_store c)"
    using assms by (auto simp: handle_patch_git_source_def Let_def split: sum.splits option.splits if_splits prod.splits source_error.splits)
  then have "get_variable (cs_store c') v a p = get_variable (cs_store c) v a p" for v a p by (simp add: get_variable_def)
  then show ?thesis by (simp add: resolve_git_source_creds_def Let_def)
qed

text \<open>Validating looks at where a source is, not at what was synchronised.\<close>

lemma validate_location:
  "validate_git_source_contract A (s\<lparr>gs_last_commit := x, gs_last_at := y\<rparr>) token = validate_git_source_contract A s token"
proof -
  have s: "source_to_sync w (s\<lparr>gs_last_commit := x, gs_last_at := y\<rparr>) = source_to_sync w s" for w
    by (simp add: source_to_sync_def fun_eq_iff)
  have f: "gs_branch (s\<lparr>gs_last_commit := x, gs_last_at := y\<rparr>) = gs_branch s" "gs_repo_url (s\<lparr>gs_last_commit := x, gs_last_at := y\<rparr>) = gs_repo_url s"
    "gs_workspace (s\<lparr>gs_last_commit := x, gs_last_at := y\<rparr>) = gs_workspace s" by simp_all
  show ?thesis unfolding validate_git_source_contract_def s f by (rule refl)
qed

text \<open>The patch of a source whose lock is open or that keeps what is locked, through the handler.\<close>

lemma handle_patch_kept_name:
  assumes c: "consistent (cs_sources c)" and i: "require_git_source_route_id i = Inr i'"
    and old: "get_source w i' (cs_sources c) = Inr old" "gs_name old \<noteq> default_git_source"
    and q: "git_source_patch_from_request q = Inr p"
    and new: "apply_git_source_patch old p = new" "apply_source_patch p old = new" "source_ok new" "gs_name new = gs_name old"
      "gs_workspace new = gs_workspace old"
    and lock: "gs_last_commit old = None \<or> gs_repo_url new = gs_repo_url old \<and> gs_subpath new = gs_subpath old"
    and valid: "resolve_git_source_creds A w (gs_token_env new) (cs_store c) = Inr token" "validate_git_source_contract A new token = Inr d"
    and s: "s = (if same_location new old then new else new\<lparr>gs_last_commit := None, gs_last_at := None\<rparr>)"
  shows "\<exists>c' v. handle_patch_git_source A quote w i (Some q) c = (c', Inr v) \<and> get_source w i' (cs_sources c') = Inr s
    \<and> consistent (cs_sources c')"
proof -
  have ok: "registry_ok (cs_sources c)" using c by (simp add: consistent_def)
  obtain k where r: "resolve_source (cs_sources c) (normalize_workspace w) i' = Some (k, old)"
    using old(1) by (auto simp: get_source_def split: option.splits)
  have "gs_workspace old = normalize_workspace w" using resolve_Some(4) [OF ok r] by simp
  then have "new = (apply_source_patch p old)\<lparr>gs_workspace := normalize_workspace w\<rparr>" using new(2,5) by (cases new) simp
  note P = patch_kept_name [OF c r this new(3,4) old(2) s]
  have keep: "\<not> (gs_last_commit old \<noteq> None \<and> (gs_repo_url new \<noteq> gs_repo_url old \<or> gs_subpath new \<noteq> gs_subpath old))"
    using lock by auto
  show ?thesis
    using i q old(1) valid keep P
    by (auto simp: handle_patch_git_source_def find_git_source_def new(1) Let_def)
qed

text \<open>C38. The lock of the subpath does not hold. A change of the subpath of a synchronised source is refused; but a change of its
branch, to any branch on which the contract of the source validates, is accepted and forgets what was synchronised,
and then the same change of the subpath is accepted, if the contract validates there. When the next synchronisation of
the moved source comes to a commit that was synchronised before, it answers with the release candidate of the old
subpath, and the files stored for that candidate stay those of the old subpath.\<close>

theorem changed_subpath_is_not_deployed:
  assumes reach: "reachable (\<lambda>stored. stored = []) source_step (cs_sources c)" and keyed: "candidates_keyed (cs_store c)"
    and old: "require_git_source_route_id i = Inr i'" "get_source w i' (cs_sources c) = Inr old" "gs_last_commit old \<noteq> None"
      "gs_name old \<noteq> default_git_source"
    and branch: "git_source_patch_from_request qb = Inr \<lparr>gp_name = None, gp_id = None, gp_repo_url = None, gp_branch = Some b,
        gp_subpath = None, gp_token_env = None\<rparr>" "b \<noteq> gs_branch old"
    and move: "git_source_patch_from_request qs = Inr \<lparr>gp_name = None, gp_id = None, gp_repo_url = None, gp_branch = None,
        gp_subpath = Some sub, gp_token_env = None\<rparr>" "sub \<noteq> gs_subpath old"
    and valid: "resolve_git_source_creds A w (gs_token_env old) (cs_store c) = Inr token1"
      "validate_git_source_contract A (old\<lparr>gs_branch := b\<rparr>) token1 = Inr d1"
      "resolve_git_source_creds B w (gs_token_env old) (cs_store c) = Inr token2"
      "validate_git_source_contract B (old\<lparr>gs_branch := b, gs_subpath := sub\<rparr>) token2 = Inr d2"
  shows "handle_patch_git_source B quote w i (Some qs) c = (c, Inl (409, ''repository URL and subpath are locked after the first release''))
    \<and> (\<exists>c1 v1 c2 v2 new. handle_patch_git_source A quote w i (Some qb) c = (c1, Inr v1)
      \<and> handle_patch_git_source B quote w i (Some qs) c1 = (c2, Inr v2)
      \<and> new = old\<lparr>gs_branch := b, gs_subpath := sub, gs_last_commit := None, gs_last_at := None\<rparr>
      \<and> get_source w i' (cs_sources c2) = Inr new
      \<and> (\<forall>S c3 cand before files. sync_git_source_revision S w new c2 = (c3, Inr cand)
          \<longrightarrow> map_of (cat_candidates (sn_catalog (cs_store c))) (candidate_key cand) = Some before
          \<longrightarrow> bundle_fetch (ae_root S) (cs_bundles c) (source_workspace (cand_deployment before))
                (source_git_source (cand_deployment before)) (dep_commit (cand_deployment before)) = Some files
          \<longrightarrow> cand = before
            \<and> bundle_fetch (ae_root S) (cs_bundles c3) (source_workspace (cand_deployment before))
                (source_git_source (cand_deployment before)) (dep_commit (cand_deployment before)) = Some files))"
proof -
  have c: "consistent (cs_sources c)" by (rule sources.reachable_good [OF reach])
  then have ok: "registry_ok (cs_sources c)" by (simp add: consistent_def)
  obtain k where r: "resolve_source (cs_sources c) (normalize_workspace w) i' = Some (k, old)"
    using old(2) by (auto simp: get_source_def split: option.splits)
  have src: "source_ok old" using resolve_Some(3) [OF ok r] .
  have b: "b \<noteq> ''''" using branch(1) by (auto simp: git_source_patch_from_request_def branch_or_main_def Let_def split: if_splits)
  let ?m = "old\<lparr>gs_branch := b, gs_last_commit := None, gs_last_at := None\<rparr>"
  let ?n = "old\<lparr>gs_branch := b, gs_subpath := sub, gs_last_commit := None, gs_last_at := None\<rparr>"
  obtain c1 v1 where first: "handle_patch_git_source A quote w i (Some qb) c = (c1, Inr v1)" "get_source w i' (cs_sources c1) = Inr ?m"
    "consistent (cs_sources c1)"
  proof -
    let ?p = "\<lparr>gp_name = None, gp_id = None, gp_repo_url = None, gp_branch = Some b, gp_subpath = None, gp_token_env = None\<rparr>"
    have eq: "apply_git_source_patch old ?p = old\<lparr>gs_branch := b\<rparr>" "apply_source_patch ?p old = old\<lparr>gs_branch := b\<rparr>"
      by (cases old, simp add: apply_git_source_patch_def apply_source_patch_def or_field_def)+
    have "source_ok (old\<lparr>gs_branch := b\<rparr>)" "\<not> same_location (old\<lparr>gs_branch := b\<rparr>) old"
      using src b branch(2) by (simp_all add: source_ok_def same_location_def)
    then show thesis using that
        handle_patch_kept_name [OF c old(1,2,4) branch(1) eq _ _ _ _ _ valid(2), of ?m quote] valid(1) by auto
  qed
  have moved: "resolve_git_source_creds B w (gs_token_env ?n) (cs_store c1) = Inr token2" "validate_git_source_contract B ?n token2 = Inr d2"
    using valid(3,4) by (simp_all add: creds_after_patch [OF first(1)] validate_location)
  obtain c2 v2 where second: "handle_patch_git_source B quote w i (Some qs) c1 = (c2, Inr v2)" "get_source w i' (cs_sources c2) = Inr ?n"
  proof -
    let ?p = "\<lparr>gp_name = None, gp_id = None, gp_repo_url = None, gp_branch = None, gp_subpath = Some sub, gp_token_env = None\<rparr>"
    have eq: "apply_git_source_patch ?m ?p = ?n" "apply_source_patch ?p ?m = ?n"
      by (cases old, simp add: apply_git_source_patch_def apply_source_patch_def or_field_def)+
    have "source_ok ?n" "gs_name ?m \<noteq> default_git_source" using src b old(4) by (simp_all add: source_ok_def)
    then show thesis using that
        handle_patch_kept_name [OF first(3) old(1) first(2) _ move(1) eq _ _ _ _ moved, of ?n quote] by auto
  qed
  note F = handle_patch_frame [OF first(1)] handle_patch_frame [OF second(1)]
  have k2: "candidates_keyed (cs_store c2)" by (rule candidates_keyed_frame [OF _ keyed]) (simp add: F)
  have after: "cand = before \<and> bundle_fetch (ae_root S) (cs_bundles c3) w' g h = Some files"
    if sync: "sync_git_source_revision S w ?n c2 = (c3, Inr cand)"
      and known: "map_of (cat_candidates (sn_catalog (cs_store c))) (candidate_key cand) = Some before"
      and files: "bundle_fetch (ae_root S) (cs_bundles c) w' g h = Some files" for S c3 cand before w' g h files
  proof -
    from sync obtain token bundles d s reg g' where
      sy: "syncer_sync (ae_sync S) (ae_root S) (Some (cs_bundles c2)) (source_to_sync w ?n (gs_branch ?n) token) = Inr (bundles, d)"
      and save: "local_save_release_candidate (ae_env S) d (clock (ae_env S)) (cs_store c2) = Inr (s, cand)"
      and c3: "c3 = \<lparr>cs_store = s, cs_sources = reg, cs_bundles = bundles\<rparr>" by (rule sync_Inr)
    from save_candidate_Inr [OF save k2] known have "cand = before" by (simp add: F)
    moreover have "bundle_fetch (ae_root S) bundles w' g h = Some files"
      using sy by (rule syncer_sync_Inr) (use materialize_keeps [OF files] in \<open>simp add: F\<close>)
    ultimately show ?thesis by (simp add: c3)
  qed
  have locked: "handle_patch_git_source B quote w i (Some qs) c = (c, Inl (409, ''repository URL and subpath are locked after the first release''))"
    by (rule patch_locked [OF old(1-3) move(1) _ move(2)]) simp
  show ?thesis
    by (intro conjI exI [of _ c1] exI [of _ v1] exI [of _ c2] exI [of _ v2] exI [of _ ?n])
      (rule locked, rule first(1), rule second(1), rule refl, rule second(2), intro allI impI, rule after)
qed

section \<open>The properties at an example\<close>

definition ex_app :: app where
  "ex_app = \<lparr>man_app = ''crawler'', man_name = '''', man_entrypoint = ''main.ts'', man_runtime = '''', man_script_lang = '''',
     man_timeout_s = 0, man_tag = '''', man_max_concurrent = None, man_capabilities = [], man_runs_on = [''gpu''],
     man_actions = [(''fetch'', zero_action)]\<rparr>"

definition ex_repository :: "string \<Rightarrow> repository" where
  "ex_repository text = \<lparr>rep_files = [(''windforce.json'', text), (''main.ts'', ''x'')], rep_subject = Inr ''first''\<rparr>"

text \<open>Its branch is at the commit \<open>head\<close>.\<close>

definition ex_sync_env :: "string \<Rightarrow> sync_env" where
  "ex_sync_env head = \<lparr>se_now = 5, se_hash = (\<lambda>t. t), se_local = (\<lambda>_. ex_repository ''m''),
     se_ls_remote = (\<lambda>_ _ _. Inr (head @ '' refs/heads/main'')), se_clone = (\<lambda>_ _ _ _. Inr (ex_repository ''m'')),
     se_sparse = (\<lambda>_ _ _ _ _. Inl ''no''), se_json = (\<lambda>t. RawDoc (JStr t)),
     se_manifest = (\<lambda>_. Some \<lparr>mf_app = ex_app, mf_flows = []\<rparr>), se_dependencies = (\<lambda>_. Some 0),
     se_schemas = \<lparr>sch_quote = (\<lambda>s. s), sch_fetch = None, sch_compile = (\<lambda>_ _. Inl '''')\<rparr>\<rparr>"

definition ex_api :: "time \<Rightarrow> string \<Rightarrow> api_env" where
  "ex_api t head = \<lparr>ae_env = wh_at t, ae_provider = None, ae_crypto = ex_crypto ''secret'' JNull, ae_sync = ex_sync_env head,
     ae_root = ''/data'', ae_branches = (\<lambda>_ _. Inr (head @ '' refs/heads/main'')), ae_build = Inr, ae_validate = (\<lambda>_. None),
     ae_actor = ''ops'', ae_busy = False\<rparr>"

definition ex_shop :: git_source where
  "ex_shop = \<lparr>gs_workspace = ''main'', gs_id = ''1'', gs_name = ''shop'', gs_repo_url = ''https://git.example/shop'',
     gs_branch = ''main'', gs_subpath = '''', gs_token_env = '''', gs_kind = ''external'', gs_created_at = Some 1,
     gs_last_commit = None, gs_last_at = None\<rparr>"

definition ex_commit :: "char \<Rightarrow> string" where "ex_commit x = replicate 40 x"

definition ex_control :: "(string, release_candidate) gomap \<Rightarrow> control_state" where
  "ex_control cands = \<lparr>cs_store = (new_snapshot (wh_at 0))\<lparr>sn_catalog := new_catalog\<lparr>cat_candidates := cands\<rparr>\<rparr>,
     cs_sources = [(''main/1'', ex_shop)], cs_bundles = []\<rparr>"

definition ex_candidate :: "char \<Rightarrow> time \<Rightarrow> release_candidate" where
  "ex_candidate x t = \<lparr>cand_deployment = (ex_deployment (ex_commit x))\<lparr>dep_git_source := ''1''\<rparr>, cand_synced_at = t\<rparr>"

lemma ex_synced:
  "case syncer_sync (ex_sync_env (ex_commit (CHR ''a''))) ''/data'' (Some []) (source_to_sync ''main'' ex_shop ''main'' '''') of
     Inl err \<Rightarrow> False
   | Inr (bs, d) \<Rightarrow> dep_commit d = ex_commit (CHR ''a'') \<and> dep_app d = ''crawler'' \<and> source_workspace d = ''main'' \<and> source_git_source d = ''1''"
  by code_simp

theorem synced_release_runnable_witness:
  "\<exists>bs d as. syncer_sync (ex_sync_env (ex_commit (CHR ''a''))) ''/data'' (Some []) (source_to_sync ''main'' ex_shop ''main'' '''') = Inr (bs, d)
    \<and> dep_actions d = Some as \<and> list_all (\<lambda>(n, a). workable_action d n a) as"
proof -
  obtain bs d where d: "syncer_sync (ex_sync_env (ex_commit (CHR ''a''))) ''/data'' (Some []) (source_to_sync ''main'' ex_shop ''main'' '''') = Inr (bs, d)"
    using ex_synced by (auto split: sum.splits prod.splits)
  from synced_release_runnable [OF d] d show ?thesis by blast
qed

theorem source_snapshots_immutable_witness:
  "\<exists>bs d t. syncer_sync (ex_sync_env (ex_commit (CHR ''a''))) ''/data'' (Some []) (source_to_sync ''main'' ex_shop ''main'' '''') = Inr (bs, d)
    \<and> bundle_fetch ''/data'' bs (source_workspace d) (source_git_source d) (dep_commit d) = Some t"
proof -
  obtain bs d where d: "syncer_sync (ex_sync_env (ex_commit (CHR ''a''))) ''/data'' (Some []) (source_to_sync ''main'' ex_shop ''main'' '''') = Inr (bs, d)"
    using ex_synced by (auto split: sum.splits prod.splits)
  from source_snapshots_immutable [OF d] d show ?thesis by blast
qed

lemma ex_source_found: "get_source ''main'' ''1'' (cs_sources (ex_control cands)) = Inr ex_shop"
proof -
  have "get_source ''main'' ''1'' (cs_sources (ex_control [])) = Inr ex_shop" by code_simp
  then show ?thesis by (simp add: ex_control_def)
qed

lemma ex_sync:
  assumes "candidates_keyed (cs_store (ex_control cands))"
  shows "\<exists>c1 cand. sync_git_source_revision (ex_api 3 (ex_commit (CHR ''a''))) ''main'' ex_shop (ex_control cands) = (c1, Inr cand)
    \<and> candidate_key cand = candidate_key (ex_candidate (CHR ''a'') 1)"
proof -
  from ex_synced obtain bs d where d: "syncer_sync (ex_sync_env (ex_commit (CHR ''a''))) ''/data'' (Some []) (source_to_sync ''main'' ex_shop ''main'' '''') = Inr (bs, d)"
    "dep_commit d = ex_commit (CHR ''a'')" "dep_app d = ''crawler''" "source_workspace d = ''main''" "source_git_source d = ''1''"
    by (auto split: sum.splits prod.splits)
  have b: "\<not> blank ''crawler''" "\<not> blank (ex_commit (CHR ''a''))"
    "release_candidate_key ''main'' ''1'' (ex_commit (CHR ''a'')) = candidate_key (ex_candidate (CHR ''a'') 1)" by code_simp+
  have "\<exists>c1 cand. sync_git_source_revision (ex_api 3 (ex_commit (CHR ''a''))) ''main'' ex_shop (ex_control cands) = (c1, Inr cand)
    \<and> candidate_key cand = release_candidate_key (source_workspace d) (source_git_source d) (dep_commit d)"
    by (rule sync_returns [where token = "''''" and bundles = bs and g = ex_shop, OF _ _ _ _ _ assms])
      (use d b ex_source_found in \<open>simp_all add: ex_api_def resolve_git_source_creds_def ex_shop_def ex_control_def\<close>)
  then show ?thesis by (simp add: d b)
qed

lemma ex_event_drawn: "event_drawn (wh_at 3)" "event_drawn (wh_at 4)"
  by code_simp+

lemma ex_builder: "keeps_revision (ex_api t i)"
  by (simp add: keeps_revision_def ex_api_def)

theorem synced_revision_is_deployed_witness:
  "\<exists>c1 cand c2 d. sync_git_source_revision (ex_api 3 (ex_commit (CHR ''a''))) ''main'' ex_shop (ex_control []) = (c1, Inr cand)
    \<and> deploy_latest_revision (ex_api 4 '''') ''main'' ex_shop \<lparr>oa_source = ''deploy'', oa_deployment_id = None,
        oa_message = None, oa_created_by = None\<rparr> c1 = (c2, Inr d)
    \<and> dep_commit d = dep_commit (cand_deployment cand)"
proof -
  have empty: "cat_candidates (sn_catalog (cs_store (ex_control []))) = []" by (simp add: ex_control_def new_catalog_def)
  have keyed: "candidates_keyed (cs_store (ex_control []))" by (simp add: candidates_keyed_def empty)
  from ex_sync [OF this] obtain c1 cand where
    sync: "sync_git_source_revision (ex_api 3 (ex_commit (CHR ''a''))) ''main'' ex_shop (ex_control []) = (c1, Inr cand)" by blast
  have pos: "is_positive_integer (trim_space (gs_id ex_shop))" by code_simp
  from synced_revision_is_deployed [OF keyed pos sync, of "ex_api 4 ''''" "cand_deployment cand"]
  show ?thesis using sync ex_event_drawn ex_builder
    by (fastforce simp: empty candidate_of_def ex_api_def)
qed

definition ex_both :: control_state where
  "ex_both = ex_control [(candidate_key (ex_candidate (CHR ''a'') 1), ex_candidate (CHR ''a'') 1),
     (candidate_key (ex_candidate (CHR ''b'') 2), ex_candidate (CHR ''b'') 2)]"



lemma ex_both_keys: "candidate_key (ex_candidate (CHR ''a'') 1) \<noteq> candidate_key (ex_candidate (CHR ''b'') 2)"
  by code_simp

lemma ex_both_candidates:
  "map_of (cat_candidates (sn_catalog (cs_store ex_both))) k = Some x \<longleftrightarrow>
     k = candidate_key x \<and> (x = ex_candidate (CHR ''a'') 1 \<or> x = ex_candidate (CHR ''b'') 2)"
  using ex_both_keys by (auto simp: ex_both_def ex_control_def)

lemma ex_both_of: "of_source (normalize_workspace ''main'') (normalize_git_source (gs_id ex_shop) '''') (ex_candidate x t)"
  by (simp add: of_source_def ex_candidate_def ex_deployment_def source_workspace_def source_git_source_def ex_shop_def
      normalize_git_source_def trim_space_graphic graphic_def)

lemma ex_both_ok: "candidates_keyed (cs_store ex_both)"
  "candidate_of ''main'' ex_shop (cs_store ex_both) y \<longleftrightarrow> y = ex_candidate (CHR ''a'') 1 \<or> y = ex_candidate (CHR ''b'') 2"
proof -
  show "candidates_keyed (cs_store ex_both)"
    using ex_both_keys by (simp add: candidates_keyed_def ex_both_candidates) (simp add: ex_both_def ex_control_def map_ok_def mkeys_def)
  show "candidate_of ''main'' ex_shop (cs_store ex_both) y \<longleftrightarrow> y = ex_candidate (CHR ''a'') 1 \<or> y = ex_candidate (CHR ''b'') 2"
    using ex_both_of by (auto simp: candidate_of_def ex_both_candidates)
qed

theorem resynced_revision_is_not_deployed_witness:
  "\<exists>c1 cand c2 d. sync_git_source_revision (ex_api 3 (ex_commit (CHR ''a''))) ''main'' ex_shop ex_both = (c1, Inr cand)
    \<and> deploy_latest_revision (ex_api 4 '''') ''main'' ex_shop \<lparr>oa_source = ''deploy'', oa_deployment_id = None,
        oa_message = None, oa_created_by = None\<rparr> c1 = (c2, Inr d)
    \<and> dep_commit d \<noteq> dep_commit (cand_deployment cand)"
proof -
  let ?A = "ex_candidate (CHR ''a'') 1" and ?B = "ex_candidate (CHR ''b'') 2"
  obtain c1 cand where sync: "sync_git_source_revision (ex_api 3 (ex_commit (CHR ''a''))) ''main'' ex_shop ex_both = (c1, Inr cand)"
    and key: "candidate_key cand = candidate_key ?A"
    using ex_sync ex_both_ok(1) unfolding ex_both_def by blast
  from sync obtain x s where save: "local_save_release_candidate (wh_at 3) x 3 (cs_store ex_both) = Inr (s, cand)" and c1: "cs_store c1 = s"
    by (rule sync_Inr) (simp add: ex_api_def wh_at_def)
  note K = save_candidate_Inr [OF save ex_both_ok(1)]
  have cand: "cand = ?A" using K key by (auto simp: ex_both_candidates)
  have pos: "is_positive_integer (trim_space (gs_id ex_shop))" by code_simp
  have k: "candidates_keyed (cs_store c1)" "candidate_of ''main'' ex_shop (cs_store c1) ?B" using K ex_both_ok by (simp_all add: c1)
  have newest: "\<not> newer_candidate y ?B" if "candidate_of ''main'' ex_shop (cs_store c1) y" for y
  proof -
    from that K have "candidate_of ''main'' ex_shop (cs_store ex_both) y \<or> y = ?A" unfolding c1 cand by blast
    with ex_both_ok(2) have "y = ?A \<or> y = ?B" by blast
    then show ?thesis by (auto simp: newer_candidate_def ex_candidate_def)
  qed
  have "\<not> blank (dep_app (cand_deployment ?B))" "\<not> blank (dep_commit (cand_deployment ?B))" by code_simp+
  from deploy_returns [OF k newest, of "ex_api 4 ''''", where audit = "\<lparr>oa_source = ''deploy'', oa_deployment_id = None,
      oa_message = None, oa_created_by = None\<rparr>"] this ex_event_drawn
  obtain c2 d where dep: "deploy_latest_revision (ex_api 4 '''') ''main'' ex_shop \<lparr>oa_source = ''deploy'', oa_deployment_id = None,
        oa_message = None, oa_created_by = None\<rparr> c1 = (c2, Inr d)"
    by (auto simp: ex_api_def)
  have "candidate_of ''main'' ex_shop (cs_store ex_both) cand" "candidate_of ''main'' ex_shop (cs_store ex_both) ?B"
    "cand_synced_at cand < cand_synced_at ?B" using ex_both_ok(2) by (simp_all add: cand ex_candidate_def)
  from resynced_revision_is_not_deployed [OF ex_both_ok(1) pos this sync dep ex_builder] sync dep show ?thesis by blast
qed


lemma inspect_returns:
  assumes "source_commit S src = Inr k" "Source_Sync.prepare_source S src k = Inr (repo, dir)"
    and "load_manifest (se_manifest S) (read_tree S dir) = Inr m" "check_lockfile S (read_tree S dir) = None" "ss_app src = ''''"
    and "materialize_action_schemas S (read_tree S dir) (man_actions m) = Inr as"
  shows "inspect_source S src = Inr (synced_deployment S src k repo m as, dir)"
  using assms by (simp add: inspect_source_def error_as_def)

definition ex_two_apps :: repository where
  "ex_two_apps = \<lparr>rep_files = [(''a/windforce.json'', ''A''), (''b/windforce.json'', ''B'')], rep_subject = Inr ''first''\<rparr>"

text \<open>Every branch is at the same commit.\<close>

definition ex_move_env :: sync_env where
  "ex_move_env = (ex_sync_env '''')\<lparr>se_ls_remote := (\<lambda>_ b _. Inr (ex_commit (CHR ''a'') @ '' refs/heads/'' @ b)),
     se_clone := (\<lambda>_ _ _ _. Inr ex_two_apps)\<rparr>"

definition ex_move_api :: "time \<Rightarrow> api_env" where
  "ex_move_api t = (ex_api t '''')\<lparr>ae_sync := ex_move_env,
     ae_branches := (\<lambda>_ _. Inr (ex_commit (CHR ''a'') @ '' refs/heads/dev''))\<rparr>"

definition ex_shop_at :: "string \<Rightarrow> string \<Rightarrow> git_source" where
  "ex_shop_at branch sub = ex_shop\<lparr>gs_branch := branch, gs_subpath := sub\<rparr>"

lemma ex_move_parts:
  "source_commit ex_move_env (source_to_sync ''main'' (ex_shop_at b s) ''dev'' '''') = Inr (ex_commit (CHR ''a''))"
  "Source_Sync.prepare_source ex_move_env (source_to_sync ''main'' (ex_shop_at b ''a'') ''dev'' '''') k = Inr (ex_two_apps, [(''windforce.json'', ''A'')])"
  "Source_Sync.prepare_source ex_move_env (source_to_sync ''main'' (ex_shop_at b ''b'') ''dev'' '''') k = Inr (ex_two_apps, [(''windforce.json'', ''B'')])"
  by code_simp+

lemma ex_move_manifest:
  "case load_manifest (se_manifest ex_move_env) (read_tree ex_move_env [(''windforce.json'', x)]) of
     Inl err \<Rightarrow> False
   | Inr m \<Rightarrow> man_app m = ''crawler'' \<and> (case materialize_action_schemas ex_move_env (read_tree ex_move_env [(''windforce.json'', x)])
       (man_actions m) of Inl err \<Rightarrow> False | Inr as \<Rightarrow> True)"
  "check_lockfile ex_move_env (read_tree ex_move_env [(''windforce.json'', x)]) = None"
  by code_simp+

lemma ex_move_inspect:
  assumes "s \<in> {''a'', ''b''}"
  shows "\<exists>d dir. inspect_source ex_move_env (source_to_sync ''main'' (ex_shop_at b s) ''dev'' '''') = Inr (d, dir)
    \<and> dep_commit d = ex_commit (CHR ''a'') \<and> dep_app d = ''crawler'' \<and> source_workspace d = ''main'' \<and> source_git_source d = ''1''"
proof -
  obtain x where p: "Source_Sync.prepare_source ex_move_env (source_to_sync ''main'' (ex_shop_at b s) ''dev'' '''') (ex_commit (CHR ''a''))
      = Inr (ex_two_apps, [(''windforce.json'', x)])"
    using assms ex_move_parts(2,3) by blast
  obtain m as where m: "load_manifest (se_manifest ex_move_env) (read_tree ex_move_env [(''windforce.json'', x)]) = Inr m"
    "materialize_action_schemas ex_move_env (read_tree ex_move_env [(''windforce.json'', x)]) (man_actions m) = Inr as" "man_app m = ''crawler''"
    using ex_move_manifest(1) [of x] by (auto split: sum.splits)
  let ?d = "synced_deployment ex_move_env (source_to_sync ''main'' (ex_shop_at b s) ''dev'' '''') (ex_commit (CHR ''a'')) ex_two_apps m as"
  have "inspect_source ex_move_env (source_to_sync ''main'' (ex_shop_at b s) ''dev'' '''') = Inr (?d, [(''windforce.json'', x)])"
    by (rule inspect_returns [OF ex_move_parts(1) p m(1) ex_move_manifest(2) _ m(2)]) (simp add: source_to_sync_def)
  moreover have "source_workspace ?d = ''main''" "source_git_source ?d = ''1''"
    by (simp_all add: synced_deployment_def Let_def m(3) source_workspace_def source_git_source_def source_to_sync_def ex_shop_at_def
        ex_shop_def normalize_git_source_def normalize_workspace_def trim_space_graphic graphic_def)
  moreover have "dep_commit ?d = ex_commit (CHR ''a'')" "dep_app ?d = ''crawler''"
    by (simp_all add: synced_deployment_def Let_def m(3))
  ultimately show ?thesis by blast
qed

definition ex_old :: git_source where
  "ex_old = (ex_shop_at ''main'' ''a'')\<lparr>gs_last_commit := Some (ex_commit (CHR ''a'')), gs_last_at := Some 1\<rparr>"

definition ex_moving :: control_state where
  "ex_moving = \<lparr>cs_store = cs_store (ex_control [(candidate_key (ex_candidate (CHR ''a'') 1), ex_candidate (CHR ''a'') 1)]),
     cs_sources = [(''main/1'', ex_old)],
     cs_bundles = [(source_bundle_dir ''/data'' ''main'' ''1'' (ex_commit (CHR ''a'')), [(''windforce.json'', ''A'')])]\<rparr>"

definition ex_move_request :: "string option \<Rightarrow> string option \<Rightarrow> patch_request" where
  "ex_move_request branch sub = \<lparr>ptr_name = [], ptr_repo_url = [], ptr_branch = [branch], ptr_subpath = [sub], ptr_creds_ref = []\<rparr>"

definition ex_move_patch :: "string option \<Rightarrow> string option \<Rightarrow> source_patch" where
  "ex_move_patch branch sub = \<lparr>gp_name = None, gp_id = None, gp_repo_url = None, gp_branch = branch, gp_subpath = sub, gp_token_env = None\<rparr>"

lemma ex_move_requests:
  "git_source_patch_from_request (ex_move_request (Some ''dev'') None) = Inr (ex_move_patch (Some ''dev'') None)"
  "git_source_patch_from_request (ex_move_request None (Some ''b'')) = Inr (ex_move_patch None (Some ''b''))"
  "require_git_source_route_id ''1'' = Inr ''1''"
  "list_remote_branches (Inr (ex_commit (CHR ''a'') @ '' refs/heads/dev'')) = Inr [''dev'']"
  by code_simp+

lemma ex_move_created:
  "create_source 1 ((ex_shop_at ''main'' ''a'')\<lparr>gs_id := ''''\<rparr>) [] = Inr ([(''main/1'', ex_shop_at ''main'' ''a'')], ex_shop_at ''main'' ''a'')"
  "mark_synced 1 ''main'' ''1'' (ex_commit (CHR ''a'')) 1 [(''main/1'', ex_shop_at ''main'' ''a'')] = Inr ([(''main/1'', ex_old)], ex_old)"
  by code_simp+

lemma ex_moving_reachable: "reachable (\<lambda>stored. stored = []) source_step (cs_sources ex_moving)"
proof -
  have n: "normalize_registry [] = Some []" "room []" by (simp_all add: normalize_registry_def mvals_def room_def)
  from source_create [OF n ex_move_created(1)]
  have r: "reachable (\<lambda>stored. stored = []) source_step [(''main/1'', ex_shop_at ''main'' ''a'')]"
    by (rule reachable_step [rotated]) (rule reachable_start, rule refl)
  from conjunct2 [OF conjunct2 [OF sources_consistent [OF r]]]
  have "source_step [(''main/1'', ex_shop_at ''main'' ''a'')] [(''main/1'', ex_old)]" by (rule source_mark [OF _ ex_move_created(2)])
  with r show ?thesis by (simp add: ex_moving_def reachable_step)
qed

lemma ex_move_found: "get_source ''main'' ''1'' (cs_sources ex_moving) = Inr ex_old"
proof -
  have "resolve_source [(''main/1'', s)] (normalize_workspace ''main'') ''1'' = Some (''main/1'', s)" for s by code_simp
  then show ?thesis by (simp add: ex_moving_def get_source_def)
qed

lemma ex_move_creds: "resolve_git_source_creds (ex_move_api t) ''main'' '''' x = Inr ''''"
  by (simp add: resolve_git_source_creds_def)

lemma ex_move_valid:
  assumes "sub \<in> {''a'', ''b''}" and "s = ex_old\<lparr>gs_branch := ''dev'', gs_subpath := sub\<rparr>"
  shows "\<exists>d. validate_git_source_contract (ex_move_api t) s '''' = Inr d"
proof -
  have src: "source_to_sync (gs_workspace s) s ''dev'' '''' = source_to_sync ''main'' (ex_shop_at ''dev'' sub) ''dev'' ''''"
    by (simp add: assms(2) ex_old_def ex_shop_at_def ex_shop_def source_to_sync_def)
  obtain d where d: "syncer_validate ex_move_env (source_to_sync (gs_workspace s) s ''dev'' '''') = Inr d"
    using ex_move_inspect [OF assms(1), of "''dev''"] unfolding src by (auto simp: syncer_validate_def)
  have "branch_or_main ''dev'' = ''dev''" by code_simp
  with d ex_move_requests(4) show ?thesis
    by (simp add: validate_git_source_contract_def assms(2) ex_move_api_def)
qed

theorem changed_subpath_is_not_deployed_witness:
  "\<exists>c1 v1 c2 v2 c3 cand. handle_patch_git_source (ex_move_api 2) (\<lambda>s. s) ''main'' ''1'' (Some (ex_move_request (Some ''dev'') None)) ex_moving = (c1, Inr v1)
    \<and> handle_patch_git_source (ex_move_api 3) (\<lambda>s. s) ''main'' ''1'' (Some (ex_move_request None (Some ''b''))) c1 = (c2, Inr v2)
    \<and> sync_git_source_revision (ex_move_api 4) ''main'' (ex_shop_at ''dev'' ''b'') c2 = (c3, Inr cand)
    \<and> cand = ex_candidate (CHR ''a'') 1
    \<and> bundle_fetch ''/data'' (cs_bundles c3) ''main'' ''1'' (ex_commit (CHR ''a'')) = Some [(''windforce.json'', ''A'')]"
proof -
  let ?qb = "ex_move_request (Some ''dev'') None" and ?qs = "ex_move_request None (Some ''b'')" and ?before = "ex_candidate (CHR ''a'') 1"
  have keyed: "candidates_keyed (cs_store ex_moving)"
    by (simp add: candidates_keyed_def ex_moving_def ex_control_def map_ok_def mkeys_def)
  have o: "gs_last_commit ex_old \<noteq> None" "gs_name ex_old \<noteq> default_git_source" "''dev'' \<noteq> gs_branch ex_old" "''b'' \<noteq> gs_subpath ex_old"
    "gs_token_env ex_old = ''''" "ex_old\<lparr>gs_branch := ''dev''\<rparr> = ex_old\<lparr>gs_branch := ''dev'', gs_subpath := ''a''\<rparr>"
    by (simp_all add: ex_old_def ex_shop_at_def ex_shop_def default_git_source_def)
  have new: "ex_old\<lparr>gs_branch := ''dev'', gs_subpath := ''b'', gs_last_commit := None, gs_last_at := None\<rparr> = ex_shop_at ''dev'' ''b''"
    by (simp add: ex_old_def ex_shop_at_def ex_shop_def)
  obtain d1 where d1: "validate_git_source_contract (ex_move_api 2) (ex_old\<lparr>gs_branch := ''dev''\<rparr>) '''' = Inr d1"
    using ex_move_valid [OF _ o(6)] by blast
  obtain d2 where d2: "validate_git_source_contract (ex_move_api 3) (ex_old\<lparr>gs_branch := ''dev'', gs_subpath := ''b''\<rparr>) '''' = Inr d2"
    using ex_move_valid [OF _ refl] by blast
  have creds: "resolve_git_source_creds (ex_move_api t) ''main'' (gs_token_env ex_old) (cs_store ex_moving) = Inr ''''" for t
    unfolding o(5) by (rule ex_move_creds)
  from changed_subpath_is_not_deployed [OF ex_moving_reachable keyed ex_move_requests(3) ex_move_found o(1,2)
      ex_move_requests(1) [unfolded ex_move_patch_def] o(3) ex_move_requests(2) [unfolded ex_move_patch_def] o(4) creds d1 creds d2, of "\<lambda>s. s"]
  obtain c1 v1 c2 v2 where first: "handle_patch_git_source (ex_move_api 2) (\<lambda>s. s) ''main'' ''1'' (Some ?qb) ex_moving = (c1, Inr v1)"
    and second: "handle_patch_git_source (ex_move_api 3) (\<lambda>s. s) ''main'' ''1'' (Some ?qs) c1 = (c2, Inr v2)"
    and get: "get_source ''main'' ''1'' (cs_sources c2) = Inr (ex_shop_at ''dev'' ''b'')"
    and after: "\<And>S c3 cand before files. sync_git_source_revision S ''main'' (ex_shop_at ''dev'' ''b'') c2 = (c3, Inr cand)
          \<Longrightarrow> map_of (cat_candidates (sn_catalog (cs_store ex_moving))) (candidate_key cand) = Some before
          \<Longrightarrow> bundle_fetch (ae_root S) (cs_bundles ex_moving) (source_workspace (cand_deployment before))
                (source_git_source (cand_deployment before)) (dep_commit (cand_deployment before)) = Some files
          \<Longrightarrow> cand = before
            \<and> bundle_fetch (ae_root S) (cs_bundles c3) (source_workspace (cand_deployment before))
                (source_git_source (cand_deployment before)) (dep_commit (cand_deployment before)) = Some files"
    unfolding new by blast
  note F = handle_patch_frame [OF first] handle_patch_frame [OF second]
  from ex_move_inspect [of "''b''" "''dev''"] obtain d dir where d: "inspect_source ex_move_env (source_to_sync ''main'' (ex_shop_at ''dev'' ''b'') ''dev'' '''') = Inr (d, dir)"
    "dep_commit d = ex_commit (CHR ''a'')" "dep_app d = ''crawler''" "source_workspace d = ''main''" "source_git_source d = ''1''" by blast
  have b: "\<not> blank ''crawler''" "\<not> blank (ex_commit (CHR ''a''))"
    "release_candidate_key ''main'' ''1'' (ex_commit (CHR ''a'')) = candidate_key ?before" by code_simp+
  have "\<exists>c3 cand. sync_git_source_revision (ex_move_api 4) ''main'' (ex_shop_at ''dev'' ''b'') c2 = (c3, Inr cand)
    \<and> candidate_key cand = release_candidate_key (source_workspace d) (source_git_source d) (dep_commit d)"
    by (rule sync_returns [where token = "''''" and g = "ex_shop_at ''dev'' ''b''" and bundles = "cs_bundles c2"])
      (use d b get F candidates_keyed_frame [OF _ keyed] in
        \<open>simp_all add: ex_move_api_def ex_api_def resolve_git_source_creds_def ex_shop_at_def ex_shop_def syncer_sync_def bundle_exists_def ex_moving_def Let_def\<close>)
  then obtain c3 cand where sync: "sync_git_source_revision (ex_move_api 4) ''main'' (ex_shop_at ''dev'' ''b'') c2 = (c3, Inr cand)"
    and key: "candidate_key cand = candidate_key ?before" by (auto simp: d b)
  have known: "map_of (cat_candidates (sn_catalog (cs_store ex_moving))) (candidate_key cand) = Some ?before"
    by (simp add: key ex_moving_def ex_control_def)
  have at: "source_workspace (cand_deployment ?before) = ''main''" "source_git_source (cand_deployment ?before) = ''1''"
    "dep_commit (cand_deployment ?before) = ex_commit (CHR ''a'')" "copy_tree [(''windforce.json'', ''A'')] = [(''windforce.json'', ''A'')]"
    by code_simp+
  then have files: "bundle_fetch (ae_root (ex_move_api 4)) (cs_bundles ex_moving) (source_workspace (cand_deployment ?before))
      (source_git_source (cand_deployment ?before)) (dep_commit (cand_deployment ?before)) = Some [(''windforce.json'', ''A'')]"
    by (simp add: bundle_fetch_def ex_moving_def ex_move_api_def ex_api_def)
  from after [OF sync known files] first second sync at show ?thesis by (auto simp: ex_move_api_def ex_api_def)
qed

end
