(* ===== verification/Spec2Isabelle.thy ===== *)
theory Spec2Isabelle
  imports Catalog_Invariant Run_Properties Claim_Policy App_Store Tenancy Dispatcher_Properties Worker_Properties Execution_Properties Http_Properties Plane_Properties Git_Source_Properties Job_Api_Properties Release_Properties
begin

text \<open>
  A model of windforce-lite, a service that synchronises apps from Git sources, publishes them as releases,
  runs their actions as jobs on workers, serves all this over HTTP and tells webhooks what it did.

  \<^bold>\<open>How the parts interact.\<close> A source is registered and synchronised to a release candidate, with the files of
  its commit in a store of bundles; deploying publishes the latest candidate in the catalog, which records history,
  an event and its deliveries in one write. A request to run an action is admitted against the active deployment
  and stored as a run with a queued job. A worker, beside the store or behind the worker plane, claims the job under
  a lease, runs it and reports; clients read status, result and logs through the job API. A dispatcher claims
  deliveries in the same way and sends them within the egress policy.

  \<^bold>\<open>Theories.\<close> Each models the Go files it names, operation by operation, under the names of the code
  (\<^verbatim>\<open>CancelRun\<close> is \<open>cancel_run\<close>); proofs are in the theories named after what they show.

  \<^item> \<open>Go_Base\<close>, \<open>Go_Strings\<close>, \<open>Go_Int\<close>, \<open>Json\<close>: what the program uses of Go. Errors are sums, maps are association lists
    with distinct keys in an arbitrary iteration order, strings are lists of bytes, the widths of integers are kept
    where they matter (\<open>wrap64\<close>, words), JSON is a datatype with its duplicate and order rules.
  \<^item> \<open>Contract\<close> (\<^verbatim>\<open>internal/contract\<close>): actions, deployments, workspaces, labels, keys, source paths.
  \<^item> \<open>Catalog\<close>, \<open>Catalog_Invariant\<close> (\<^verbatim>\<open>internal/catalog\<close>): the release catalog and its invariant (C8).
  \<^item> \<open>State_Types\<close>, \<open>Job_Views\<close>, \<open>Crypto_At_Rest\<close>, \<open>Local_Store\<close>, \<open>Run_Store\<close>, \<open>Retention\<close>, \<open>App_Store\<close>, \<open>Client_Store\<close>,
    \<open>Workspace_Store\<close>, \<open>Input_Config\<close>, \<open>Webhook_Store\<close>, \<open>Local_Catalog\<close> (\<^verbatim>\<open>internal/state\<close>, \<^verbatim>\<open>internal/crypto\<close>): the snapshot
    of the file-backed store and every operation on it; round trip and limits of encryption at rest (C7, C12).
  \<^item> \<open>Transitions\<close>: reachability, inductive invariants and simulations, as locales.
  \<^item> \<open>Job_Lifecycle\<close>, \<open>Store_Machine\<close>, \<open>Lease_Fencing\<close>, \<open>One_Run\<close>, \<open>Run_Properties\<close>, \<open>Claim_Policy\<close>: the store as a state
    machine. Its invariant (C1), the edges of each operation (C2), leases (C3, C4), what a claim takes and its limit
    (C5, C6), and the run a lost worker leaves behind (C11). \<open>One_Run\<close> is the store the witnesses use.
  \<^item> \<open>Tenancy\<close>: input settings (C9) and the invariant of clients, settings and workspaces (C10).
  \<^item> \<open>Webhook_Types\<close> (\<^verbatim>\<open>internal/event\<close>, \<^verbatim>\<open>internal/webhook/webhook.go\<close>), \<open>Webhook_Machine\<close>, \<open>Catalog_Refinement\<close>,
    \<open>Webhook_Example\<close>, \<open>Webhook_Properties\<close>: events, subscriptions and deliveries, their invariant (C13), what publishing
    records (C14), and the refinement of the file catalog by the catalog of the store (C15).
  \<^item> \<open>Egress\<close>, \<open>Dispatcher\<close>, \<open>Dispatcher_Properties\<close> (\<^verbatim>\<open>internal/webhook\<close>, \<^verbatim>\<open>pkg/webhook\<close>): addresses as words (C16), the
    dispatcher, the sender and the signature (C17, C18).
  \<^item> \<open>Execution_Service\<close>, \<open>Execution_Properties\<close> (\<^verbatim>\<open>internal/execution\<close>): admission over two reads and a write of the store,
    idempotency keys (C19) and what an admitted run guarantees (C20).
  \<^item> \<open>Token\<close>, \<open>Log_Stream\<close>, \<open>Job_Runner\<close>, \<open>Worker\<close>, \<open>Worker_Properties\<close> (\<^verbatim>\<open>internal/token\<close>, \<^verbatim>\<open>internal/runtime\<close>,
    \<^verbatim>\<open>internal/worker\<close>): job tokens, the process of a job, one iteration of a worker (C21, C22).
  \<^item> \<open>Http_Routes\<close>, \<open>Http_Auth\<close>, \<open>Http_Properties\<close> (\<^verbatim>\<open>internal/server/server.go\<close>): the route tables, the principals and what
    their tokens reach (C23 to C25).
  \<^item> \<open>Worker_Plane\<close>, \<open>Plane_Properties\<close> (\<^verbatim>\<open>internal/server/worker_plane.go\<close>, \<^verbatim>\<open>internal/remoteworker\<close>): the plane and its
    client, with the cap on bodies (C26, C27).
  \<^item> \<open>Job_Api\<close>, \<open>Job_Api_Properties\<close> (\<^verbatim>\<open>internal/server/jobs.go\<close>, \<^verbatim>\<open>execution_api.go\<close>): lists and cursors, results, waiting (C28
    to C30).
  \<^item> \<open>Git_Sources\<close>, \<open>Git_Source_Properties\<close> (\<^verbatim>\<open>internal/gitsource\<close>): the registry of sources (C31 to C33).
  \<^item> \<open>Manifest\<close>, \<open>Source_Sync\<close>, \<open>Release_Api\<close>, \<open>Release_Properties\<close> (\<^verbatim>\<open>internal/manifest\<close>, \<^verbatim>\<open>internal/syncer\<close>,
    \<^verbatim>\<open>internal/source\<close>, \<^verbatim>\<open>internal/bundle\<close>, \<^verbatim>\<open>internal/server\<close>): from a source to a release (C34 to C38).
  \<^item> \<open>Data_Api\<close> (\<^verbatim>\<open>internal/server/workspace_state.go\<close>): state values, variables, resources (C39, C40).

  \<^bold>\<open>State and effects.\<close> An operation of the store is a function from the loaded snapshot to the snapshot to write and
  its result, or an error; \<open>update\<close> is the loading and writing around it, and a call that fails writes nothing. The
  clock, identifiers and nonces of one call are in its \<open>call_env\<close>; where a component reads the store before it writes,
  the store may have changed in between, which functions from snapshot to snapshot stand for. Machines are inductive step
  relations with one rule per operation; what holds of all their states is proved once in the locales of
  \<open>Transitions\<close> and \<open>Lease_Fencing\<close>, which are interpreted on them.

  \<^bold>\<open>Arguments.\<close> AES-GCM, SHA-256 and HMAC, the resolution of names and the parsing of URLs, the JSON Schema compiler, the
  text of a JSON document and its length, running git and running a process are arguments of the definitions that use
  them, with what is used of them as named hypotheses.

  \<^bold>\<open>Bounds and fuel.\<close> Loops are structural recursions or folds. Two have fuel: the search for a free identifier
  of a source tries one more number than there are keys in use, of which one must be free while the 64-bit counter does
  not repeat, and following the cursors of a job list may take one page more than there are jobs.

  \<^bold>\<open>Not modelled.\<close> File and network I/O, the file lock, timers and goroutines inside one process; PostgreSQL, whose
  SQL runs outside the program; OpenAPI documents; the handlers of apps, clients, workspaces, webhooks, input settings and
  audit events, which decode a body and call a modelled operation; provisioning documents but for sources; execution
  bundles and the preparation of runtimes on disk; the command line and the SDKs. Of copying a source bundle disk errors,
  symbolic links and concurrent copies are left out: a bundle is there completely or not at all.
\<close>

end
